(* ===== verification/Prelude.thy ===== *)
theory Prelude
  imports Main
begin

text \<open>
  Shared vocabulary of the development: Python exceptions as values of a sum type, the
  sequencing of fallible steps, loops over lists that stop at the first exception, byte
  strings and slices, and fixed-width integers read from a buffer.

  A Python \<open>bytes\<close> value is a \<^typ>\<open>string\<close>: a HOL \<^typ>\<open>char\<close> is exactly one of the
  256 byte values.  A Python \<open>str\<close> is represented by its UTF-8 encoding, also a
  \<^typ>\<open>string\<close>, so \<open>decode\<close> is a validity check and equality, concatenation and
  splitting at ASCII separators mean the same on both sides.
\<close>

section \<open>Exceptions and fallible steps\<close>

text \<open>
  One constructor per exception class the modelled modules raise on purpose, and one per
  built-in exception that the code lets escape (or catches) where its input has the wrong
  shape.
\<close>

datatype exc =
    Refusal string        \<comment> \<open>\<open>bringup_loop.Refusal\<close>\<close>
  | GateError string      \<comment> \<open>\<open>lmi_p1.common.GateError\<close>\<close>
  | RecoveryError string  \<comment> \<open>\<open>d110_debug_boot.RecoveryError\<close>\<close>
  | DeployError string    \<comment> \<open>\<open>deploy_userdata_wsl.DeployError\<close>\<close>
  | AssemblyError string  \<comment> \<open>\<open>assemble_userdata_image.AssemblyError\<close>\<close>
  | SystemExit string
  | PyRuntimeError string
  | PyValueError string
  | PyKeyError
  | PyTypeError
  | PyAttributeError
  | PyIndexError
  | PyAssertionError
  | PyUnicodeError
  | PyOSError
  | PyFileExistsError     \<comment> \<open>an \<open>OSError\<close> that some callers tell apart\<close>
  | StructError
  | ProcessKilled         \<comment> \<open>not an exception: nothing runs after it\<close>

type_synonym 'a result = "exc + 'a"

fun bindE :: "'e + 'a \<Rightarrow> ('a \<Rightarrow> 'e + 'b) \<Rightarrow> 'e + 'b" where
  "bindE (Inl e) f = Inl e"
| "bindE (Inr x) f = f x"

named_theorems res_iff \<open>what a successful fallible step implies\<close>

lemma bindE_Inr_iff [res_iff]: "bindE m f = Inr y \<longleftrightarrow> (\<exists>x. m = Inr x \<and> f x = Inr y)"
  by (cases m) auto

lemma if_Inl_Inr_iff [res_iff]: "(if c then Inl e else r) = Inr y \<longleftrightarrow> \<not> c \<and> r = Inr y"
  by simp

lemma if_Inr_Inl_iff [res_iff]: "(if c then r else Inl e) = Inr y \<longleftrightarrow> c \<and> r = Inr y"
  by simp

lemma bindE_assoc: "bindE (bindE m f) g = bindE m (\<lambda>x. bindE (f x) g)"
  by (cases m) auto

lemma bindE_cong [fundef_cong]:
  "m = m' \<Longrightarrow> (\<And>x. m' = Inr x \<Longrightarrow> f x = f' x) \<Longrightarrow> bindE m f = bindE m' f'"
  by (cases m') auto

definition isok :: "'e + 'a \<Rightarrow> bool" where
  "isok r \<longleftrightarrow> (case r of Inl _ \<Rightarrow> False | Inr _ \<Rightarrow> True)"

lemma isok_simps [simp]: "isok (Inr x)" "\<not> isok (Inl e)"
  by (simp_all add: isok_def)

lemma isok_iff: "isok r \<longleftrightarrow> (\<exists>x. r = Inr x)"
  by (cases r) auto

section \<open>Loops that may raise\<close>

fun iterE :: "('a \<Rightarrow> 'e + unit) \<Rightarrow> 'a list \<Rightarrow> 'e + unit" where
  "iterE f [] = Inr ()"
| "iterE f (x # xs) = bindE (f x) (\<lambda>_. iterE f xs)"

fun mapE :: "('a \<Rightarrow> 'e + 'b) \<Rightarrow> 'a list \<Rightarrow> 'e + 'b list" where
  "mapE f [] = Inr []"
| "mapE f (x # xs) = bindE (f x) (\<lambda>y. bindE (mapE f xs) (\<lambda>ys. Inr (y # ys)))"

fun foldE :: "('s \<Rightarrow> 'a \<Rightarrow> 'e + 's) \<Rightarrow> 's \<Rightarrow> 'a list \<Rightarrow> 'e + 's" where
  "foldE f s [] = Inr s"
| "foldE f s (x # xs) = bindE (f s x) (\<lambda>s'. foldE f s' xs)"

lemma iterE_Inr_iff [res_iff]: "iterE f xs = Inr u \<longleftrightarrow> (\<forall>x \<in> set xs. f x = Inr ())"
proof (induction xs)
  case Nil
  then show ?case by simp
next
  case (Cons x xs)
  then show ?case by (cases "f x") auto
qed

lemma mapE_length: "mapE f xs = Inr ys \<Longrightarrow> length ys = length xs"
  by (induction xs arbitrary: ys) (auto simp: res_iff)

lemma mapE_list_all2: "mapE f xs = Inr ys \<Longrightarrow> list_all2 (\<lambda>x y. f x = Inr y) xs ys"
  by (induction xs arbitrary: ys) (auto simp: res_iff)

lemma foldE_append: "foldE f s (xs @ ys) = bindE (foldE f s xs) (\<lambda>s'. foldE f s' ys)"
  by (induction xs arbitrary: s) (auto simp: bindE_assoc)

text \<open>A loop invariant is kept by \<^const>\<open>foldE\<close> when every step that does not raise keeps it.\<close>

lemma foldE_invariant:
  assumes "\<And>s x s'. x \<in> set xs \<Longrightarrow> P s \<Longrightarrow> f s x = Inr s' \<Longrightarrow> P s'"
    and "P s" and "foldE f s xs = Inr t"
  shows "P t"
  using assms
proof (induction xs arbitrary: s)
  case Nil
  then show ?case by simp
next
  case (Cons x xs)
  from Cons.prems(3) obtain s' where s': "f s x = Inr s'" "foldE f s' xs = Inr t"
    by (auto simp: res_iff)
  moreover from s'(1) Cons.prems(1,2) have "P s'" by auto
  ultimately show ?case using Cons.IH Cons.prems(1) by auto
qed

section \<open>Byte strings\<close>

type_synonym bytes = string

definition ord :: "char \<Rightarrow> nat" where
  "ord c = of_char c"

lemma ord_less: "ord c < 256"
proof -
  have "(of_char c :: nat) \<in> range of_char" by (rule rangeI)
  then show ?thesis by (simp add: ord_def range_nat_of_char)
qed

lemma ord_inject [simp]: "ord c = ord d \<longleftrightarrow> c = d"
  by (simp add: ord_def of_char_eq_iff)

lemma ord_char_of_mod [simp]: "ord (char_of n) = n mod 256"
  by (simp add: ord_def)

lemma char_of_ord [simp]: "char_of (ord c) = c"
  by (simp add: ord_def)

definition NUL :: char where
  "NUL = char_of (0::nat)"

lemma ord_NUL [simp]: "ord NUL = 0"
  by (simp add: NUL_def)

lemma ord_eq_0_iff [simp]: "ord c = 0 \<longleftrightarrow> c = NUL"
  using ord_inject[of c NUL] by simp

text \<open>Python's \<open>any(data)\<close> on bytes: some byte is not zero.\<close>

definition any_nonzero :: "bytes \<Rightarrow> bool" where
  "any_nonzero bs \<longleftrightarrow> (\<exists>c \<in> set bs. ord c \<noteq> 0)"

lemma any_nonzero_iff: "\<not> any_nonzero bs \<longleftrightarrow> bs = replicate (length bs) NUL"
proof
  assume "\<not> any_nonzero bs"
  then have "\<forall>c \<in> set bs. c = NUL" by (simp add: any_nonzero_def)
  then show "bs = replicate (length bs) NUL" by (simp add: replicate_eqI)
next
  assume bs: "bs = replicate (length bs) NUL"
  have "set bs \<subseteq> {NUL}" by (subst bs) auto
  then show "\<not> any_nonzero bs" by (auto simp: any_nonzero_def)
qed

lemma any_nonzero_replicate [simp]: "\<not> any_nonzero (replicate n NUL)"
  by (simp add: any_nonzero_def)

lemma any_nonzero_append [simp]: "any_nonzero (a @ b) \<longleftrightarrow> any_nonzero a \<or> any_nonzero b"
  by (auto simp: any_nonzero_def)

lemma any_nonzero_Nil [simp]: "\<not> any_nonzero []"
  by (simp add: any_nonzero_def)

text \<open>Python's slice \<open>xs[a:b]\<close> with non-negative bounds: clipped to the sequence.\<close>

definition slice :: "'a list \<Rightarrow> nat \<Rightarrow> nat \<Rightarrow> 'a list" where
  "slice xs a b = take (b - a) (drop a xs)"

lemma length_slice [simp]: "length (slice xs a b) = min (b - a) (length xs - a)"
  by (simp add: slice_def)

lemma slice_all [simp]: "slice xs 0 (length xs) = xs"
  by (simp add: slice_def)

lemma slice_empty [simp]: "b \<le> a \<Longrightarrow> slice xs a b = []"
  by (simp add: slice_def)

lemma slice_append_slice: "a \<le> b \<Longrightarrow> b \<le> c \<Longrightarrow> slice xs a b @ slice xs b c = slice xs a c"
proof -
  assume "a \<le> b" "b \<le> c"
  then obtain i j where ij: "b = a + i" "c = a + i + j"
    by (metis le_iff_add)
  have "take i (drop a xs) @ take j (drop i (drop a xs)) = take (i + j) (drop a xs)"
    by (simp add: take_add)
  then show ?thesis by (simp add: slice_def ij add.commute)
qed

lemma take_slice_drop: "a \<le> b \<Longrightarrow> take a xs @ slice xs a b @ drop b xs = xs"
proof -
  assume "a \<le> b"
  then obtain i where i: "b = a + i" by (metis le_iff_add)
  have "take i (drop a xs) @ drop i (drop a xs) = drop a xs" by (rule append_take_drop_id)
  then have "take i (drop a xs) @ drop (a + i) xs = drop a xs" by (simp add: add.commute)
  then show ?thesis by (simp add: slice_def i)
qed

lemma nth_slice: "i < b - a \<Longrightarrow> a + i < length xs \<Longrightarrow> slice xs a b ! i = xs ! (a + i)"
  by (simp add: slice_def)

lemma slice_append_left: "b \<le> length xs \<Longrightarrow> slice (xs @ ys) a b = slice xs a b"
  by (cases "a \<le> length xs") (auto simp: slice_def)

lemma slice_append_right:
  "length xs \<le> a \<Longrightarrow> slice (xs @ ys) a b = slice ys (a - length xs) (b - length xs)"
  by (simp add: slice_def diff_diff_eq add.commute)

section \<open>Integers in a buffer (\<open>struct.unpack_from\<close>)\<close>

fun le_nat :: "bytes \<Rightarrow> nat" where
  "le_nat [] = 0"
| "le_nat (b # bs) = ord b + 256 * le_nat bs"

definition be_nat :: "bytes \<Rightarrow> nat" where
  "be_nat bs = le_nat (rev bs)"

lemma le_nat_bound: "le_nat bs < 256 ^ length bs"
proof (induction bs)
  case Nil
  then show ?case by simp
next
  case (Cons b bs)
  have "ord b + 256 * le_nat bs < 256 + 256 * le_nat bs" using ord_less by simp
  also have "\<dots> \<le> 256 * 256 ^ length bs" using Cons by simp
  finally show ?case by simp
qed

lemma be_nat_bound: "be_nat bs < 256 ^ length bs"
  using le_nat_bound[of "rev bs"] by (simp add: be_nat_def)

fun le_bytes :: "nat \<Rightarrow> nat \<Rightarrow> bytes" where
  "le_bytes 0 n = []"
| "le_bytes (Suc w) n = char_of (n mod 256) # le_bytes w (n div 256)"

lemma length_le_bytes [simp]: "length (le_bytes w n) = w"
  by (induction w arbitrary: n) auto

lemma le_nat_le_bytes: "le_nat (le_bytes w n) = n mod 256 ^ w"
proof (induction w arbitrary: n)
  case 0
  then show ?case by simp
next
  case (Suc w)
  have "n mod (256 * 256 ^ w) = n mod 256 + 256 * (n div 256 mod 256 ^ w)"
    by (simp add: mod_mult2_eq)
  then show ?case using Suc by simp
qed

lemma le_bytes_le_nat: "le_bytes (length bs) (le_nat bs) = bs"
proof (induction bs)
  case Nil
  then show ?case by simp
next
  case (Cons b bs)
  have "(ord b + 256 * le_nat bs) mod 256 = ord b"
    and "(ord b + 256 * le_nat bs) div 256 = le_nat bs"
    using ord_less[of b] by simp_all
  then show ?case using Cons by simp
qed

text \<open>
  \<open>struct.unpack_from\<close> with one integer of \<open>w\<close> bytes: it raises \<open>struct.error\<close> when the
  buffer does not hold \<open>w\<close> bytes at the offset.
\<close>

definition unpack_le :: "nat \<Rightarrow> bytes \<Rightarrow> nat \<Rightarrow> nat result" where
  "unpack_le w bs off =
     (if off + w \<le> length bs then Inr (le_nat (slice bs off (off + w))) else Inl StructError)"

definition unpack_be :: "nat \<Rightarrow> bytes \<Rightarrow> nat \<Rightarrow> nat result" where
  "unpack_be w bs off =
     (if off + w \<le> length bs then Inr (be_nat (slice bs off (off + w))) else Inl StructError)"

abbreviation u16le :: "bytes \<Rightarrow> nat \<Rightarrow> nat result" where "u16le \<equiv> unpack_le 2"
abbreviation u32le :: "bytes \<Rightarrow> nat \<Rightarrow> nat result" where "u32le \<equiv> unpack_le 4"
abbreviation u64le :: "bytes \<Rightarrow> nat \<Rightarrow> nat result" where "u64le \<equiv> unpack_le 8"
abbreviation u32be :: "bytes \<Rightarrow> nat \<Rightarrow> nat result" where "u32be \<equiv> unpack_be 4"
abbreviation u64be :: "bytes \<Rightarrow> nat \<Rightarrow> nat result" where "u64be \<equiv> unpack_be 8"

lemma unpack_le_Inr [res_iff]:
  "unpack_le w bs off = Inr n \<longleftrightarrow>
     off + w \<le> length bs \<and> n = le_nat (slice bs off (off + w))"
  by (auto simp: unpack_le_def)

lemma unpack_be_Inr [res_iff]:
  "unpack_be w bs off = Inr n \<longleftrightarrow>
     off + w \<le> length bs \<and> n = be_nat (slice bs off (off + w))"
  by (auto simp: unpack_be_def)

lemma unpack_le_bound: "unpack_le w bs off = Inr n \<Longrightarrow> n < 256 ^ w"
  using le_nat_bound[of "slice bs off (off + w)"] by (auto simp: unpack_le_def split: if_splits)

end
