(* ===== verification/PyText.thy ===== *)
theory PyText
  imports Prelude "HOL-Library.Sublist" "HOL-Library.Monad_Syntax"
begin

text \<open>
  The Python text operations the modelled modules use, on UTF-8 encoded strings: character
  classes, substring tests, \<open>split\<close>, \<open>join\<close>, \<open>strip\<close>, decimal and hexadecimal
  numerals, \<open>decode\<close>, and the deterministic prefix parsers that the regular expressions of
  the sources are translated to.
\<close>

section \<open>Character classes\<close>

definition is_digit :: "char \<Rightarrow> bool" where
  "is_digit c \<longleftrightarrow> 48 \<le> ord c \<and> ord c \<le> 57"

definition is_lower :: "char \<Rightarrow> bool" where
  "is_lower c \<longleftrightarrow> 97 \<le> ord c \<and> ord c \<le> 122"

definition is_upper :: "char \<Rightarrow> bool" where
  "is_upper c \<longleftrightarrow> 65 \<le> ord c \<and> ord c \<le> 90"

definition is_lower_hex :: "char \<Rightarrow> bool" where
  "is_lower_hex c \<longleftrightarrow> is_digit c \<or> (97 \<le> ord c \<and> ord c \<le> 102)"

definition is_hex :: "char \<Rightarrow> bool" where
  "is_hex c \<longleftrightarrow> is_lower_hex c \<or> (65 \<le> ord c \<and> ord c \<le> 70)"

text \<open>\<open>ord(c) < 0x20 or ord(c) == 0x7F\<close>: the control test most validators use.\<close>

definition is_control :: "char \<Rightarrow> bool" where
  "is_control c \<longleftrightarrow> ord c < 32 \<or> ord c = 127"

definition has_control :: "string \<Rightarrow> bool" where
  "has_control s \<longleftrightarrow> list_ex is_control s"

lemmas char_class_defs =
  is_digit_def is_lower_def is_upper_def is_lower_hex_def is_hex_def is_control_def

definition TAB :: char where "TAB = char_of (9::nat)"
definition LF :: char where "LF = char_of (10::nat)"
definition CR :: char where "CR = char_of (13::nat)"

lemma ord_TAB [simp]: "ord TAB = 9" by (simp add: TAB_def)
lemma ord_LF [simp]: "ord LF = 10" by (simp add: LF_def)
lemma ord_CR [simp]: "ord CR = 13" by (simp add: CR_def)

section \<open>Decoding\<close>

definition is_ascii :: "bytes \<Rightarrow> bool" where
  "is_ascii bs \<longleftrightarrow> list_all (\<lambda>c. ord c < 128) bs"

definition decode_ascii :: "bytes \<Rightarrow> string result" where
  "decode_ascii bs = (if is_ascii bs then Inr bs else Inl PyUnicodeError)"

definition is_cont :: "char \<Rightarrow> bool" where
  "is_cont c \<longleftrightarrow> 128 \<le> ord c \<and> ord c < 192"

text \<open>
  Well-formed UTF-8 (Unicode table 3-7): no overlong form, no surrogate, nothing above
  U+10FFFF.
\<close>

fun utf8_valid :: "bytes \<Rightarrow> bool" where
  "utf8_valid [] = True"
| "utf8_valid (a # r) =
     (if ord a < 128 then utf8_valid r
      else (case r of
        [] \<Rightarrow> False
      | b # r1 \<Rightarrow>
          if 194 \<le> ord a \<and> ord a \<le> 223 then is_cont b \<and> utf8_valid r1
          else (case r1 of
            [] \<Rightarrow> False
          | c # r2 \<Rightarrow>
              if 224 \<le> ord a \<and> ord a \<le> 239 then
                is_cont b \<and> is_cont c \<and> (ord a = 224 \<longrightarrow> 160 \<le> ord b) \<and>
                (ord a = 237 \<longrightarrow> ord b < 160) \<and> utf8_valid r2
              else (case r2 of
                [] \<Rightarrow> False
              | d # r3 \<Rightarrow>
                  240 \<le> ord a \<and> ord a \<le> 244 \<and> is_cont b \<and> is_cont c \<and> is_cont d \<and>
                  (ord a = 240 \<longrightarrow> 144 \<le> ord b) \<and> (ord a = 244 \<longrightarrow> ord b < 144) \<and>
                  utf8_valid r3))))"

definition decode_utf8 :: "bytes \<Rightarrow> string result" where
  "decode_utf8 bs = (if utf8_valid bs then Inr bs else Inl PyUnicodeError)"

lemma ascii_utf8_valid: "is_ascii bs \<Longrightarrow> utf8_valid bs"
  by (induction bs) (auto simp: is_ascii_def)

lemma decode_ascii_Inr [res_iff]: "decode_ascii bs = Inr s \<longleftrightarrow> is_ascii bs \<and> s = bs"
  by (auto simp: decode_ascii_def)

lemma decode_utf8_Inr [res_iff]: "decode_utf8 bs = Inr s \<longleftrightarrow> utf8_valid bs \<and> s = bs"
  by (auto simp: decode_utf8_def)

text \<open>
  The characters of a \<open>str\<close>, each as its UTF-8 bytes.  The result of \<open>json.loads\<close> may hold
  a lone surrogate, which is represented by its three-byte form; it is one character too.
\<close>

function chars :: "string \<Rightarrow> string list" where
  "chars [] = []"
| "chars (c # s) = (c # takeWhile is_cont s) # chars (dropWhile is_cont s)"
  by pat_completeness auto
termination
  by (relation "measure length") (auto simp: le_imp_less_Suc length_dropWhile_le)

lemma concat_chars [simp]: "concat (chars s) = s"
  by (induction s rule: chars.induct) auto

text \<open>\<open>len(s)\<close>\<close>

definition py_len :: "string \<Rightarrow> nat" where
  "py_len s = length (chars s)"

lemma ascii_not_cont: "ord c < 128 \<Longrightarrow> \<not> is_cont c"
  by (simp add: is_cont_def)

lemma chars_ascii: "is_ascii s \<Longrightarrow> chars s = map (\<lambda>c. [c]) s"
proof (induction s rule: chars.induct)
  case 1
  then show ?case by simp
next
  case (2 c s)
  then have "\<not> is_cont d" if "d \<in> set s" for d
    using that by (auto simp: is_ascii_def list_all_iff ascii_not_cont)
  then have "takeWhile is_cont s = []" "dropWhile is_cont s = s"
    by (cases s; simp)+
  with 2 show ?case by (simp add: is_ascii_def)
qed

section \<open>Substrings, splitting and joining\<close>

text \<open>\<open>p in s\<close>\<close>

fun contains :: "string \<Rightarrow> string \<Rightarrow> bool" where
  "contains p s = (prefix p s \<or> (case s of [] \<Rightarrow> False | _ # t \<Rightarrow> contains p t))"

lemma contains_iff_sublist: "contains p s \<longleftrightarrow> sublist p s"
proof (induction s)
  case Nil
  then show ?case by simp
next
  case (Cons c s)
  then show ?case by (simp add: sublist_Cons_right)
qed

declare contains.simps [simp del]

text \<open>\<open>s.split(c)\<close> for a one-character separator: always at least one field.\<close>

fun split_on :: "char \<Rightarrow> string \<Rightarrow> string list" where
  "split_on d [] = [[]]"
| "split_on d (c # s) =
     (if c = d then [] # split_on d s
      else (case split_on d s of [] \<Rightarrow> [[c]] | w # ws \<Rightarrow> (c # w) # ws))"

text \<open>\<open>c.join(ws)\<close>\<close>

fun join_with :: "string \<Rightarrow> string list \<Rightarrow> string" where
  "join_with d [] = []"
| "join_with d [w] = w"
| "join_with d (w # v # ws) = w @ d @ join_with d (v # ws)"

lemma split_on_not_Nil [simp]: "split_on d s \<noteq> []"
  by (cases s) (auto split: list.splits)

lemma join_with_Cons: "ws \<noteq> [] \<Longrightarrow> join_with d (w # ws) = w @ d @ join_with d ws"
  by (cases ws) auto

lemma join_split_on: "join_with [d] (split_on d s) = s"
proof (induction s)
  case Nil
  then show ?case by simp
next
  case (Cons c s)
  obtain w ws where sp: "split_on d s = w # ws"
    by (cases "split_on d s") auto
  with Cons have j: "join_with [d] (w # ws) = s" by simp
  show ?case
  proof (cases "c = d")
    case True
    with sp j show ?thesis by simp
  next
    case False
    with sp j show ?thesis by (cases ws) auto
  qed
qed

lemma split_on_no_sep: "w \<in> set (split_on d s) \<Longrightarrow> d \<notin> set w"
proof (induction s arbitrary: w)
  case Nil
  then show ?case by simp
next
  case (Cons c s)
  then show ?case by (auto split: if_splits list.splits)
qed

lemma split_on_single: "d \<notin> set s \<Longrightarrow> split_on d s = [s]"
  by (induction s) auto

lemma split_on_append_sep: "d \<notin> set w \<Longrightarrow> split_on d (w @ d # s) = w # split_on d s"
  by (induction w) auto

lemma split_join: "ws \<noteq> [] \<Longrightarrow> (\<forall>w \<in> set ws. d \<notin> set w) \<Longrightarrow> split_on d (join_with [d] ws) = ws"
proof (induction ws rule: induct_list012)
  case 1
  then show ?case by simp
next
  case (2 w)
  then show ?case by (simp add: split_on_single)
next
  case (3 w v ws)
  then show ?case by (simp add: split_on_append_sep)
qed

text \<open>\<open>s.rstrip(chars)\<close> and \<open>s.strip()\<close> for a character class.\<close>

definition rstrip :: "(char \<Rightarrow> bool) \<Rightarrow> string \<Rightarrow> string" where
  "rstrip P s = rev (dropWhile P (rev s))"

definition lstrip :: "(char \<Rightarrow> bool) \<Rightarrow> string \<Rightarrow> string" where
  "lstrip P s = dropWhile P s"

text \<open>ASCII white space: what \<open>bytes.split()\<close> separates at, and \<open>str.split()\<close> on ASCII text
  (which also separates at the four separators 0x1C to 0x1F).\<close>

definition bytes_space :: "char \<Rightarrow> bool" where
  "bytes_space c \<longleftrightarrow> ord c = 32 \<or> (9 \<le> ord c \<and> ord c \<le> 13)"

definition ascii_space :: "char \<Rightarrow> bool" where
  "ascii_space c \<longleftrightarrow> ord c = 32 \<or> (9 \<le> ord c \<and> ord c \<le> 13) \<or> (28 \<le> ord c \<and> ord c \<le> 31)"

text \<open>\<open>s.split()\<close>: maximal runs of characters outside the class.\<close>

fun words_acc :: "('a \<Rightarrow> bool) \<Rightarrow> 'a list \<Rightarrow> 'a list \<Rightarrow> 'a list list" where
  "words_acc P w [] = (if w = [] then [] else [rev w])"
| "words_acc P w (c # s) =
     (if P c then (if w = [] then words_acc P [] s else rev w # words_acc P [] s)
      else words_acc P (c # w) s)"

definition words_by :: "('a \<Rightarrow> bool) \<Rightarrow> 'a list \<Rightarrow> 'a list list" where
  "words_by P s = words_acc P [] s"

lemma words_acc_word: "\<forall>c \<in> set w. \<not> P c \<Longrightarrow> v \<in> set (words_acc P w s) \<Longrightarrow> v \<noteq> [] \<and> (\<forall>c \<in> set v. \<not> P c)"
proof (induction s arbitrary: w)
  case Nil
  then show ?case by (simp split: if_splits)
next
  case (Cons c s)
  show ?case
  proof (cases "P c")
    case True
    with Cons.prems have "v \<in> set (words_acc P [] s) \<or> (w \<noteq> [] \<and> v = rev w)"
      by (auto split: if_splits)
    then show ?thesis using Cons.IH[of "[]"] Cons.prems(1) by auto
  next
    case False
    show ?thesis
    proof (rule Cons.IH[of "c # w"])
      show "\<forall>x \<in> set (c # w). \<not> P x" using Cons.prems(1) False by simp
      show "v \<in> set (words_acc P (c # w) s)" using Cons.prems(2) False by (simp only: words_acc.simps if_False)
    qed
  qed
qed

lemma words_by_word: "v \<in> set (words_by P s) \<Longrightarrow> v \<noteq> [] \<and> (\<forall>c \<in> set v. \<not> P c)"
  unfolding words_by_def by (rule words_acc_word) auto

lemma words_acc_append_sep:
  "P d \<Longrightarrow> words_acc P w (s @ d # t) = words_acc P w s @ words_acc P [] t"
  by (induction P w s rule: words_acc.induct) auto

lemma words_by_append_sep: "P d \<Longrightarrow> words_by P (s @ d # t) = words_by P s @ words_by P t"
  by (simp add: words_by_def words_acc_append_sep)

lemma words_acc_run: "\<forall>c \<in> set s. \<not> P c \<Longrightarrow> words_acc P w s = (if w = [] \<and> s = [] then [] else [rev w @ s])"
  by (induction s arbitrary: w) auto

lemma words_by_run: "s \<noteq> [] \<Longrightarrow> \<forall>c \<in> set s. \<not> P c \<Longrightarrow> words_by P s = [s]"
  by (simp add: words_by_def words_acc_run)

section \<open>Unicode white space\<close>

text \<open>
  \<open>str.isspace\<close> on one character (its bytes), and the line boundaries of
  \<open>str.splitlines\<close> other than the pair CR LF.
\<close>

definition byte_str :: "nat list \<Rightarrow> string" where
  "byte_str ns = map char_of ns"

definition space_chars :: "string list" where
  "space_chars = map (\<lambda>n. byte_str [n]) ([9..<14] @ [28..<33]) @
     map byte_str [[194, 133], [194, 160], [225, 154, 128]] @
     map (\<lambda>n. byte_str [226, 128, n]) ([128..<139] @ [168, 169, 175]) @
     map byte_str [[226, 129, 159], [227, 128, 128]]"

definition py_space :: "string \<Rightarrow> bool" where
  "py_space ch \<longleftrightarrow> ch \<in> set space_chars"

definition line_breaks :: "string list" where
  "line_breaks = map (\<lambda>n. byte_str [n]) ([10..<14] @ [28..<31]) @
     map byte_str [[194, 133], [226, 128, 168], [226, 128, 169]]"

definition py_strip :: "string \<Rightarrow> string" where
  "py_strip s = concat (rev (dropWhile py_space (rev (dropWhile py_space (chars s)))))"

text \<open>\<open>s.split()\<close>\<close>

definition py_words :: "string \<Rightarrow> string list" where
  "py_words s = map concat (words_by py_space (chars s))"

text \<open>\<open>s.splitlines()\<close>: a line break ends a line, CR LF is one, no last empty line.\<close>

fun lines_acc :: "string list \<Rightarrow> string list \<Rightarrow> string list list" where
  "lines_acc l [] = (if l = [] then [] else [rev l])"
| "lines_acc l (c # cs) =
     (if c = [CR] \<and> (case cs of d # ds \<Rightarrow> d = [LF] | [] \<Rightarrow> False) then rev l # lines_acc [] (tl cs)
      else if c \<in> set line_breaks then rev l # lines_acc [] cs
      else lines_acc (c # l) cs)"

definition py_lines :: "string \<Rightarrow> string list" where
  "py_lines s = map concat (lines_acc [] (chars s))"

section \<open>Numerals\<close>

text \<open>\<open>int(digits)\<close> for a run of ASCII digits, and \<open>str(n)\<close> for a natural number.\<close>

definition digit_val :: "char \<Rightarrow> nat" where
  "digit_val c = ord c - 48"

definition dec_val :: "string \<Rightarrow> nat" where
  "dec_val s = fold (\<lambda>c n. 10 * n + digit_val c) s 0"

fun show_nat :: "nat \<Rightarrow> string" where
  "show_nat n = (if n < 10 then [char_of (48 + n)] else show_nat (n div 10) @ [char_of (48 + n mod 10)])"

declare show_nat.simps [simp del]

lemma dec_val_snoc: "dec_val (s @ [c]) = 10 * dec_val s + digit_val c"
  by (simp add: dec_val_def)

lemma dec_val_show_nat: "dec_val (show_nat n) = n"
proof (induction n rule: show_nat.induct)
  case (1 n)
  show ?case
  proof (cases "n < 10")
    case True
    then show ?thesis
      by (simp add: show_nat.simps[of n] dec_val_def digit_val_def)
  next
    case False
    with 1 have "dec_val (show_nat (n div 10)) = n div 10" by simp
    moreover have "n mod 10 < 10" by simp
    ultimately show ?thesis using False
      by (simp add: show_nat.simps[of n] dec_val_snoc digit_val_def)
  qed
qed

lemma show_nat_digits: "\<forall>c \<in> set (show_nat n). is_digit c"
proof (induction n rule: show_nat.induct)
  case (1 n)
  have "n mod 10 < 10" by simp
  with 1 show ?case
    by (cases "n < 10") (auto simp: show_nat.simps[of n] is_digit_def)
qed

lemma show_nat_not_Nil [simp]: "show_nat n \<noteq> []"
  by (simp add: show_nat.simps[of n])

definition hex_digit_val :: "char \<Rightarrow> nat" where
  "hex_digit_val c = (if is_digit c then ord c - 48 else if 97 \<le> ord c then ord c - 87 else ord c - 55)"

definition hex_val :: "string \<Rightarrow> nat" where
  "hex_val s = fold (\<lambda>c n. 16 * n + hex_digit_val c) s 0"

lemma hex_digit_val_bound: "is_hex c \<Longrightarrow> hex_digit_val c < 16"
  by (auto simp: hex_digit_val_def char_class_defs)

lemma hex_val_bound: "list_all is_hex s \<Longrightarrow> hex_val s < 16 ^ length s"
proof (induction s rule: rev_induct)
  case Nil
  then show ?case by (simp add: hex_val_def)
next
  case (snoc c s)
  then have "hex_val s + 1 \<le> 16 ^ length s" by simp
  then have "16 * (hex_val s + 1) \<le> 16 * 16 ^ length s" by (rule mult_le_mono2)
  moreover have "hex_digit_val c < 16" using snoc.prems by (simp add: hex_digit_val_bound)
  ultimately show ?case by (simp add: hex_val_def)
qed

text \<open>\<open>re.fullmatch(r"[0-9a-f]{64}", s)\<close>\<close>

definition is_sha256_hex :: "string \<Rightarrow> bool" where
  "is_sha256_hex s \<longleftrightarrow> length s = 64 \<and> list_all is_lower_hex s"

section \<open>Prefix parsers for regular expressions\<close>

definition lit :: "string \<Rightarrow> string \<Rightarrow> string option" where
  "lit p s = (if prefix p s then Some (drop (length p) s) else None)"

lemma lit_Some [simp]: "lit p s = Some r \<longleftrightarrow> s = p @ r"
  by (auto simp: lit_def prefix_def)

lemma lit_append [simp]: "lit p (p @ r) = Some r"
  by simp

lemma lit_simps [simp]:
  "lit [] s = Some s"
  "lit (c # p) [] = None"
  "lit (c # p) (d # s) = (if c = d then lit p s else None)"
  by (auto simp: lit_def)

lemma case_lit_bool [simp]:
  "(case lit p s of None \<Rightarrow> False | Some r \<Rightarrow> Q r) \<longleftrightarrow> (\<exists>r. s = p @ r \<and> Q r)"
  by (auto simp: lit_def prefix_def)

lemma case_lit_option [simp]:
  "(case lit p s of None \<Rightarrow> None | Some r \<Rightarrow> f r) = Some x \<longleftrightarrow> (\<exists>r. s = p @ r \<and> f r = Some x)"
  by (auto simp: lit_def prefix_def)

text \<open>\<open>[0-9]+\<close>, greedy: what follows is never a digit.\<close>

definition digits1 :: "string \<Rightarrow> (string \<times> string) option" where
  "digits1 s = (let d = takeWhile is_digit s in if d = [] then None else Some (d, dropWhile is_digit s))"

lemma digits1_Some:
  "digits1 s = Some (d, r) \<longleftrightarrow>
     s = d @ r \<and> d \<noteq> [] \<and> list_all is_digit d \<and> (r = [] \<or> \<not> is_digit (hd r))"
proof -
  have "s = d @ r \<and> list_all is_digit d \<and> (r = [] \<or> \<not> is_digit (hd r)) \<longleftrightarrow>
      d = takeWhile is_digit s \<and> r = dropWhile is_digit s"
  proof
    assume A: "s = d @ r \<and> list_all is_digit d \<and> (r = [] \<or> \<not> is_digit (hd r))"
    then have "takeWhile is_digit s = d @ takeWhile is_digit r"
      and "dropWhile is_digit s = dropWhile is_digit r"
      by (simp_all add: list_all_iff takeWhile_append2 dropWhile_append2)
    moreover have "takeWhile is_digit r = []" "dropWhile is_digit r = r"
      using A by (cases r; simp)+
    ultimately show "d = takeWhile is_digit s \<and> r = dropWhile is_digit s" by simp
  next
    assume "d = takeWhile is_digit s \<and> r = dropWhile is_digit s"
    then show "s = d @ r \<and> list_all is_digit d \<and> (r = [] \<or> \<not> is_digit (hd r))"
      by (metis hd_dropWhile list_all_iff set_takeWhileD takeWhile_dropWhile_id)
  qed
  then show ?thesis by (auto simp: digits1_def Let_def)
qed

end
