(* ===== verification/Json.thy ===== *)
theory Json
  imports PyText "HOL-Library.List_Lexorder" "HOL-Library.Char_ord"
begin

text \<open>
  JSON values as \<open>json.loads\<close> builds them, and the Python operations the sources apply to
  them: \<open>==\<close>, \<open>isinstance\<close>, hashing, dictionary access and update, and the exact-field
  check \<open>_require_fields\<close> of \<open>scripts/bringup_loop.py\<close>.
\<close>

section \<open>Values\<close>

text \<open>
  A finite float is \<open>m / 2^k\<close>.  Python's \<open>json\<close> also reads \<open>NaN\<close> and the infinities.
  An object keeps its insertion order, as a Python dictionary does.
\<close>

datatype json =
    JNull
  | JBool bool
  | JInt int
  | JFloat int nat
  | JNaN
  | JInf bool
  | JStr string
  | JArr "json list"
  | JObj "(string \<times> json) list"

type_synonym dict = "(string \<times> json) list"

section \<open>Equality\<close>

fun reduce_float :: "int \<Rightarrow> nat \<Rightarrow> json" where
  "reduce_float m 0 = JInt m"
| "reduce_float m (Suc k) = (if m mod 2 = 0 then reduce_float (m div 2) k else JFloat m (Suc k))"

text \<open>
  Two values are equal in Python when their normal forms are: \<open>True == 1 == 1.0\<close>, and
  dictionaries are compared without order.  \<open>NaN\<close> differs from itself, but inside a
  container the identity shortcut makes the one \<open>NaN\<close> object of the decoder equal.
\<close>

fun norm :: "json \<Rightarrow> json" where
  "norm (JBool b) = JInt (if b then 1 else 0)"
| "norm (JFloat m k) = reduce_float m k"
| "norm (JArr xs) = JArr (map norm xs)"
| "norm (JObj kvs) = JObj (sort_key fst (map (\<lambda>kv. (fst kv, norm (snd kv))) kvs))"
| "norm v = v"

definition py_eq :: "json \<Rightarrow> json \<Rightarrow> bool" where
  "py_eq a b \<longleftrightarrow> a \<noteq> JNaN \<and> norm a = norm b"

lemma reduce_float_cases: "(\<exists>n. reduce_float m k = JInt n) \<or> (\<exists>n j. reduce_float m k = JFloat n (Suc j))"
  by (induction m k rule: reduce_float.induct) auto

lemma norm_JStr_iff [simp]: "norm v = JStr s \<longleftrightarrow> v = JStr s"
proof (cases v)
  case (JFloat m k)
  then show ?thesis using reduce_float_cases[of m k] by auto
qed auto

lemma norm_JNull_iff [simp]: "norm v = JNull \<longleftrightarrow> v = JNull"
proof (cases v)
  case (JFloat m k)
  then show ?thesis using reduce_float_cases[of m k] by auto
qed auto

lemma norm_JArr_iff: "norm v = JArr ys \<longleftrightarrow> (\<exists>xs. v = JArr xs \<and> ys = map norm xs)"
proof (cases v)
  case (JFloat m k)
  then show ?thesis using reduce_float_cases[of m k] by auto
qed auto

lemma py_eq_JStr [simp]: "py_eq v (JStr s) \<longleftrightarrow> v = JStr s" "py_eq (JStr s) v \<longleftrightarrow> v = JStr s"
proof -
  have "JStr s = norm v \<longleftrightarrow> v = JStr s" using norm_JStr_iff[of v s] by metis
  then show "py_eq v (JStr s) \<longleftrightarrow> v = JStr s" "py_eq (JStr s) v \<longleftrightarrow> v = JStr s"
    by (auto simp: py_eq_def)
qed

lemma py_eq_refl: "v \<noteq> JNaN \<Longrightarrow> py_eq v v"
  by (simp add: py_eq_def)

lemma map_norm_JStr: "map norm xs = map JStr ss \<longleftrightarrow> xs = map JStr ss"
  by (induction xs arbitrary: ss) (auto simp: Cons_eq_map_conv)

text \<open>A list of strings is equal to nothing but itself.\<close>

lemma py_eq_JArr_JStr [simp]: "py_eq v (JArr (map JStr ss)) \<longleftrightarrow> v = JArr (map JStr ss)"
proof -
  have "map norm (map JStr ss) = map JStr ss" by simp
  then have "norm (JArr (map JStr ss)) = JArr (map JStr ss)" by (simp only: norm.simps)
  moreover have "norm v = JArr (map JStr ss) \<longleftrightarrow> v = JArr (map JStr ss)"
    unfolding norm_JArr_iff using map_norm_JStr by metis
  ultimately show ?thesis by (auto simp: py_eq_def)
qed

section \<open>Types and hashing\<close>

text \<open>\<open>isinstance(v, int)\<close> holds of a \<open>bool\<close> too.\<close>

fun is_int :: "json \<Rightarrow> bool" where
  "is_int (JInt n) = True"
| "is_int (JBool b) = True"
| "is_int v = False"

fun int_val :: "json \<Rightarrow> int" where
  "int_val (JInt n) = n"
| "int_val (JBool b) = (if b then 1 else 0)"
| "int_val v = 0"

fun is_str :: "json \<Rightarrow> bool" where
  "is_str (JStr s) = True"
| "is_str v = False"

fun str_val :: "json \<Rightarrow> string" where
  "str_val (JStr s) = s"
| "str_val v = []"

fun is_arr :: "json \<Rightarrow> bool" where
  "is_arr (JArr xs) = True"
| "is_arr v = False"

fun arr_val :: "json \<Rightarrow> json list" where
  "arr_val (JArr xs) = xs"
| "arr_val v = []"

fun is_obj :: "json \<Rightarrow> bool" where
  "is_obj (JObj d) = True"
| "is_obj v = False"

fun obj_val :: "json \<Rightarrow> dict" where
  "obj_val (JObj d) = d"
| "obj_val v = []"

lemma is_str_iff: "is_str v \<longleftrightarrow> (\<exists>s. v = JStr s)" by (cases v) auto
lemma is_arr_iff: "is_arr v \<longleftrightarrow> (\<exists>xs. v = JArr xs)" by (cases v) auto
lemma is_obj_iff: "is_obj v \<longleftrightarrow> (\<exists>d. v = JObj d)" by (cases v) auto
lemmas json_kind_iff = is_str_iff is_arr_iff is_obj_iff

definition hashable :: "json \<Rightarrow> bool" where
  "hashable v \<longleftrightarrow> \<not> is_arr v \<and> \<not> is_obj v"

text \<open>\<open>isinstance(v, int) and v > 0\<close>, and the non-empty string test.\<close>

definition positive_int :: "json \<Rightarrow> bool" where
  "positive_int v \<longleftrightarrow> is_int v \<and> int_val v > 0"

definition nonempty_str :: "json \<Rightarrow> bool" where
  "nonempty_str v \<longleftrightarrow> is_str v \<and> str_val v \<noteq> []"

lemma nonempty_str_iff: "nonempty_str v \<longleftrightarrow> (\<exists>s. v = JStr s \<and> s \<noteq> [])"
  by (cases v) (simp_all add: nonempty_str_def)

section \<open>Dictionaries\<close>

text \<open>\<open>d.get(k)\<close>, with \<open>None\<close> (JSON null) for a missing key; it is also \<open>d[k]\<close> where the key
  is known to be there, which the field check below ensures.\<close>

definition fld :: "dict \<Rightarrow> string \<Rightarrow> json" where
  "fld d k = (case map_of d k of Some v \<Rightarrow> v | None \<Rightarrow> JNull)"

text \<open>\<open>d[k] = v\<close>: in place for an old key, at the end for a new one.\<close>

fun dict_set :: "dict \<Rightarrow> string \<Rightarrow> json \<Rightarrow> dict" where
  "dict_set [] k v = [(k, v)]"
| "dict_set (kv # d) k v = (if fst kv = k then (k, v) # d else kv # dict_set d k v)"

lemma map_of_dict_set: "map_of (dict_set d k v) j = (if j = k then Some v else map_of d j)"
  by (induction d) auto

lemma fld_dict_set: "fld (dict_set d k v) j = (if j = k then v else fld d j)"
  by (simp add: fld_def map_of_dict_set)

lemma keys_dict_set: "map fst (dict_set d k v) = (if k \<in> set (map fst d) then map fst d else map fst d @ [k])"
  by (induction d) auto

lemma distinct_dict_set: "distinct (map fst d) \<Longrightarrow> distinct (map fst (dict_set d k v))"
  by (simp add: keys_dict_set)

lemma fld_Cons [simp]: "fld ((k, v) # d) j = (if j = k then v else fld d j)"
  by (simp add: fld_def)

lemma fld_Nil [simp]: "fld [] j = JNull"
  by (simp add: fld_def)

section \<open>The exact-field check\<close>

definition same_fields :: "dict \<Rightarrow> string list \<Rightarrow> bool" where
  "same_fields d fields \<longleftrightarrow> set (map fst d) = set fields"

text \<open>\<open>sorted\<close> raises \<open>TypeError\<close> when two of the elements cannot be compared.\<close>

definition numeric :: "json \<Rightarrow> bool" where
  "numeric v \<longleftrightarrow> (case v of JInt _ \<Rightarrow> True | JBool _ \<Rightarrow> True | JFloat _ _ \<Rightarrow> True | JNaN \<Rightarrow> True
      | JInf _ \<Rightarrow> True | _ \<Rightarrow> False)"

definition sortable :: "json list \<Rightarrow> bool" where
  "sortable vs \<longleftrightarrow> length (remdups (map norm vs)) \<le> 1 \<or> list_all is_str vs \<or> list_all numeric vs"

text \<open>
  \<open>frozenset(obj)\<close> iterates what it is given: the keys of a dictionary, the elements of a
  list, the characters of a string; a number or null is not iterable.
\<close>

definition require_fields :: "json \<Rightarrow> string list \<Rightarrow> string \<Rightarrow> unit result" where
  "require_fields v fields label =
     (case v of
        JObj d \<Rightarrow> if same_fields d fields then Inr () else Inl (Refusal (label @ '' fields mismatch''))
      | JArr xs \<Rightarrow>
          if \<not> list_all hashable xs then Inl PyTypeError
          else if set xs = set (map JStr fields) then Inr ()
          else if sortable (filter (\<lambda>x. x \<notin> set (map JStr fields)) xs)
            then Inl (Refusal (label @ '' fields mismatch''))
          else Inl PyTypeError
      | JStr s \<Rightarrow>
          if set (chars s) = set fields then Inr () else Inl (Refusal (label @ '' fields mismatch''))
      | _ \<Rightarrow> Inl PyTypeError)"

lemma require_fields_JObj [simp]:
  "require_fields (JObj d) fields label =
     (if same_fields d fields then Inr () else Inl (Refusal (label @ '' fields mismatch'')))"
  by (simp add: require_fields_def)

lemma same_fields_dom: "same_fields d fields \<Longrightarrow> k \<in> set fields \<Longrightarrow> \<exists>v. map_of d k = Some v"
  unfolding same_fields_def by (metis map_of_eq_None_iff list.set_map option.exhaust)

lemma same_fields_dict_set:
  "same_fields d fields \<Longrightarrow> k \<in> set fields \<Longrightarrow> same_fields (dict_set d k v) fields"
  by (simp add: same_fields_def keys_dict_set)

text \<open>The guard idiom \<open>if not c: raise Refusal(...)\<close>.\<close>

definition need :: "bool \<Rightarrow> string \<Rightarrow> unit result" where
  "need c why = (if c then Inr () else Inl (Refusal why))"

lemma need_Inr [res_iff]: "need c why = Inr u \<longleftrightarrow> c"
  by (simp add: need_def)

end
