(* ===== verification/JsonText.thy ===== *)
theory JsonText
  imports Json
begin

text \<open>
  The JSON text format as Python's \<open>json\<close> module reads and writes it: \<open>json.loads\<close> with
  the duplicate-key hook of \<open>scripts/bringup_loop.py\<close>, the canonical form (sorted keys, no
  white space) that is hashed, and the indented form that is stored.  The round trip
  holds for every printable value.
\<close>

section \<open>The host\<close>

text \<open>
  What the code takes from the platform: SHA-256, the decimal text of floats in both
  directions, the Unicode category of a non-ASCII character, and the process identity.
\<close>

record host =
  sha256 :: "bytes \<Rightarrow> string"
  float_of :: "string \<Rightarrow> json"
  float_repr :: "int \<Rightarrow> nat \<Rightarrow> string"
  category_C :: "string \<Rightarrow> bool"
  euid :: nat
  egid :: nat

section \<open>Strings\<close>

definition DQ :: char where "DQ = CHR 0x22"
definition BS :: char where "BS = CHR 0x5C"

text \<open>The bytes of one code point (also of a lone surrogate).\<close>

definition utf8_encode :: "nat \<Rightarrow> string" where
  "utf8_encode n =
     (if n < 128 then byte_str [n]
      else if n < 2048 then byte_str [192 + n div 64, 128 + n mod 64]
      else if n < 65536 then byte_str [224 + n div 4096, 128 + n div 64 mod 64, 128 + n mod 64]
      else byte_str [240 + n div 262144, 128 + n div 4096 mod 64, 128 + n div 64 mod 64, 128 + n mod 64])"

text \<open>The code point of one character.\<close>

definition code_point :: "string \<Rightarrow> nat" where
  "code_point ch = (case map ord ch of
       [a] \<Rightarrow> a
     | [a, b] \<Rightarrow> (a - 192) * 64 + (b - 128)
     | [a, b, c] \<Rightarrow> (a - 224) * 4096 + (b - 128) * 64 + (c - 128)
     | [a, b, c, d] \<Rightarrow> (a - 240) * 262144 + (b - 128) * 4096 + (c - 128) * 64 + (d - 128)
     | _ \<Rightarrow> 0)"

fun simple_escape :: "char \<Rightarrow> string option" where
  "simple_escape e =
     (if e = DQ \<or> e = BS \<or> e = CHR ''/'' then Some [e]
      else if e = CHR ''b'' then Some (byte_str [8])
      else if e = CHR ''f'' then Some (byte_str [12])
      else if e = CHR ''n'' then Some [LF]
      else if e = CHR ''r'' then Some [CR]
      else if e = CHR ''t'' then Some [TAB]
      else None)"

definition hex4 :: "string \<Rightarrow> (nat \<times> string) option" where
  "hex4 s = (if 4 \<le> length s \<and> list_all is_hex (take 4 s) then Some (hex_val (take 4 s), drop 4 s) else None)"

definition high_surrogate :: "nat \<Rightarrow> bool" where "high_surrogate n \<longleftrightarrow> 55296 \<le> n \<and> n < 56320"
definition low_surrogate :: "nat \<Rightarrow> bool" where "low_surrogate n \<longleftrightarrow> 56320 \<le> n \<and> n < 57344"

text \<open>After \<open>\u\<close>: one code unit, or two that form a surrogate pair.\<close>

definition unicode_escape :: "string \<Rightarrow> (nat \<times> string) option" where
  "unicode_escape s = do {
     (n, r) \<leftarrow> hex4 s;
     (case (if high_surrogate n then Option.bind (lit [BS, CHR ''u''] r) hex4 else None) of
        None \<Rightarrow> Some (n, r)
      | Some (m, r2) \<Rightarrow>
          if low_surrogate m then Some (65536 + (n - 55296) * 1024 + (m - 56320), r2) else Some (n, r))
   }"

text \<open>One character or escape of a string body, and the rest.\<close>

definition str_unit :: "string \<Rightarrow> (string \<times> string) option" where
  "str_unit s = (case s of
       [] \<Rightarrow> None
     | c # r \<Rightarrow>
         if ord c < 32 \<or> c = DQ then None
         else if c \<noteq> BS then Some ([c], r)
         else (case r of
             [] \<Rightarrow> None
           | e # t \<Rightarrow>
               if e = CHR ''u'' then map_option (\<lambda>(n, q). (utf8_encode n, q)) (unicode_escape t)
               else map_option (\<lambda>x. (x, t)) (simple_escape e)))"

lemma hex4_length: "hex4 s = Some (n, r) \<Longrightarrow> length r < length s"
  by (auto simp: hex4_def split: if_splits)

lemma unicode_escape_length: "unicode_escape s = Some (n, r) \<Longrightarrow> length r < length s"
proof -
  assume A: "unicode_escape s = Some (n, r)"
  then obtain n1 r1 where h: "hex4 s = Some (n1, r1)"
    by (auto simp: unicode_escape_def bind_eq_Some_conv)
  then have "length r1 < length s" by (rule hex4_length)
  show ?thesis
  proof (cases "if high_surrogate n1 then Option.bind (lit [BS, CHR ''u''] r1) hex4 else None")
    case None
    with A h have "r = r1" by (simp add: unicode_escape_def)
    with \<open>length r1 < length s\<close> show ?thesis by simp
  next
    case (Some mr)
    obtain m r2 where mr: "mr = (m, r2)" by (cases mr)
    from Some mr obtain q where "r1 = [BS, CHR ''u''] @ q" "hex4 q = Some (m, r2)"
      by (auto simp: bind_eq_Some_conv split: if_splits)
    then have "length r2 < length r1" using hex4_length[of q m r2] by simp
    moreover have "r = r1 \<or> r = r2" using A h Some mr
      by (simp add: unicode_escape_def split: if_splits)
    ultimately show ?thesis using \<open>length r1 < length s\<close> by auto
  qed
qed

lemma str_unit_length: "str_unit s = Some (u, r) \<Longrightarrow> length r < length s"
  by (auto simp: str_unit_def split: list.splits if_splits dest!: unicode_escape_length)

text \<open>The body of a string, after its opening quote.\<close>

function str_body :: "string \<Rightarrow> (string \<times> string) option" where
  "str_body s =
     (if s \<noteq> [] \<and> hd s = DQ then Some ([], tl s)
      else (case str_unit s of
          None \<Rightarrow> None
        | Some ur \<Rightarrow> (case str_body (snd ur) of None \<Rightarrow> None | Some (v, t) \<Rightarrow> Some (fst ur @ v, t))))"
  by pat_completeness auto
termination
  by (relation "measure length") (auto dest: str_unit_length)

declare str_body.simps [simp del]

section \<open>Numbers\<close>

definition bad_json :: exc where
  "bad_json = Refusal ''not valid JSON''"

text \<open>\<open>-?(0|[1-9][0-9]*)\<close>, \<open>\.[0-9]+\<close>, \<open>[eE][-+]?[0-9]+\<close>\<close>

definition int_part :: "string \<Rightarrow> (string \<times> string) option" where
  "int_part s =
     (let (sign, r) = (case lit ''-'' s of Some r \<Rightarrow> (''-'', r) | None \<Rightarrow> ([], s)) in
      case digits1 r of
        None \<Rightarrow> None
      | Some (d, t) \<Rightarrow> if hd d = CHR ''0'' then Some (sign @ ''0'', tl d @ t) else Some (sign @ d, t))"

definition frac_digits :: "string \<Rightarrow> (string \<times> string) option" where
  "frac_digits s = do { r \<leftarrow> lit ''.'' s; (d, t) \<leftarrow> digits1 r; Some (''.'' @ d, t) }"

definition exp_part :: "string \<Rightarrow> (string \<times> string) option" where
  "exp_part s = (case s of
       [] \<Rightarrow> None
     | e # r \<Rightarrow>
         if e \<noteq> CHR ''e'' \<and> e \<noteq> CHR ''E'' then None
         else (let (sign, q) = (case r of [] \<Rightarrow> ([], r) | c # q \<Rightarrow>
                 if c = CHR ''-'' \<or> c = CHR ''+'' then ([c], q) else ([], r)) in
               case digits1 q of None \<Rightarrow> None | Some (d, t) \<Rightarrow> Some ([e] @ sign @ d, t)))"

definition opt_part :: "(string \<Rightarrow> (string \<times> string) option) \<Rightarrow> string \<Rightarrow> string \<times> string" where
  "opt_part p s = (case p s of None \<Rightarrow> ([], s) | Some x \<Rightarrow> x)"

definition int_text :: "string \<Rightarrow> int" where
  "int_text s = (case lit ''-'' s of Some r \<Rightarrow> - int (dec_val r) | None \<Rightarrow> int (dec_val s))"

text \<open>CPython refuses to convert more than 4300 digits, with a \<open>ValueError\<close>.\<close>

definition max_digits :: nat where "max_digits = 4300"

definition number :: "host \<Rightarrow> string \<Rightarrow> (json \<times> string) result" where
  "number h s = (case int_part s of
       None \<Rightarrow> Inl bad_json
     | Some (i, r) \<Rightarrow>
         (let (f, r1) = opt_part frac_digits r; (e, r2) = opt_part exp_part r1 in
          if f \<noteq> [] \<or> e \<noteq> [] then Inr (float_of h (i @ f @ e), r2)
          else if length (filter is_digit i) > max_digits
            then Inl (PyValueError ''Exceeds the limit for integer string conversion'')
          else Inr (JInt (int_text i), r)))"

section \<open>\<open>json.loads\<close>\<close>

definition json_ws :: "char \<Rightarrow> bool" where
  "json_ws c \<longleftrightarrow> c = CHR '' '' \<or> c = TAB \<or> c = LF \<or> c = CR"

abbreviation ws :: "string \<Rightarrow> string" where
  "ws \<equiv> dropWhile json_ws"

definition constants_table :: "(string \<times> json) list" where
  "constants_table = [(''null'', JNull), (''true'', JBool True), (''false'', JBool False),
     (''NaN'', JNaN), (''Infinity'', JInf True), (''-Infinity'', JInf False)]"

fun json_const :: "(string \<times> json) list \<Rightarrow> string \<Rightarrow> (json \<times> string) option" where
  "json_const [] s = None"
| "json_const ((w, v) # t) s = (case lit w s of Some r \<Rightarrow> Some (v, r) | None \<Rightarrow> json_const t s)"

text \<open>\<open>_unique_json_object\<close>\<close>

fun unique_json_object_acc :: "dict \<Rightarrow> dict \<Rightarrow> dict result" where
  "unique_json_object_acc d [] = Inr d"
| "unique_json_object_acc d ((k, v) # kvs) =
     (if k \<in> set (map fst d) then Inl (Refusal ''JSON contains duplicate key'')
      else unique_json_object_acc (d @ [(k, v)]) kvs)"

definition unique_json_object :: "dict \<Rightarrow> dict result" where
  "unique_json_object kvs = unique_json_object_acc [] kvs"

definition head_is :: "char \<Rightarrow> string \<Rightarrow> bool" where
  "head_is c s \<longleftrightarrow> s \<noteq> [] \<and> hd s = c"

text \<open>
  A value at the start of the text; the elements of an array and the members of an
  object up to the closing bracket.  The fuel bounds the nesting and the number of
  elements; every call consumes a character, so the length of the text is enough.
\<close>

fun p_value :: "host \<Rightarrow> nat \<Rightarrow> string \<Rightarrow> (json \<times> string) result"
  and p_elems :: "host \<Rightarrow> nat \<Rightarrow> string \<Rightarrow> (json list \<times> string) result"
  and p_members :: "host \<Rightarrow> nat \<Rightarrow> string \<Rightarrow> (dict \<times> string) result" where
  "p_value h 0 s = Inl bad_json"
| "p_value h (Suc n) s =
     (if head_is DQ s then
        (case str_body (tl s) of None \<Rightarrow> Inl bad_json | Some (v, r) \<Rightarrow> Inr (JStr v, r))
      else if head_is (CHR ''{'') s then
        (let r = ws (tl s) in
         if head_is (CHR ''}'') r then Inr (JObj [], tl r)
         else bindE (p_members h n r) (\<lambda>(kvs, t).
              bindE (unique_json_object kvs) (\<lambda>d. Inr (JObj d, t))))
      else if head_is (CHR ''['') s then
        (let r = ws (tl s) in
         if head_is (CHR '']'') r then Inr (JArr [], tl r)
         else bindE (p_elems h n r) (\<lambda>(vs, t). Inr (JArr vs, t)))
      else (case json_const constants_table s of
          Some vr \<Rightarrow> Inr vr
        | None \<Rightarrow> number h s))"
| "p_elems h 0 s = Inl bad_json"
| "p_elems h (Suc n) s =
     bindE (p_value h n s) (\<lambda>(v, t).
       (let r = ws t in
        if head_is (CHR '']'') r then Inr ([v], tl r)
        else if head_is (CHR '','') r then
          bindE (p_elems h n (ws (tl r))) (\<lambda>(vs, u). Inr (v # vs, u))
        else Inl bad_json))"
| "p_members h 0 s = Inl bad_json"
| "p_members h (Suc n) s =
     (if \<not> head_is DQ s then Inl bad_json
      else (case str_body (tl s) of
          None \<Rightarrow> Inl bad_json
        | Some (k, t) \<Rightarrow>
            (let r = ws t in
             if \<not> head_is (CHR '':'') r then Inl bad_json
             else bindE (p_value h n (ws (tl r))) (\<lambda>(v, t2).
               (let r2 = ws t2 in
                if head_is (CHR ''}'') r2 then Inr ([(k, v)], tl r2)
                else if head_is (CHR '','') r2 then
                  bindE (p_members h n (ws (tl r2))) (\<lambda>(kvs, u). Inr ((k, v) # kvs, u))
                else Inl bad_json)))))"

definition utf8_bom :: string where
  "utf8_bom = byte_str [239, 187, 191]"

definition loads :: "host \<Rightarrow> string \<Rightarrow> json result" where
  "loads h s =
     (if prefix utf8_bom s then Inl bad_json
      else bindE (p_value h (length s + 1) (ws s)) (\<lambda>(v, r).
           if ws r = [] then Inr v else Inl bad_json))"

text \<open>\<open>_decode_json_object\<close>\<close>

definition decode_json_object :: "host \<Rightarrow> bytes \<Rightarrow> string \<Rightarrow> dict result" where
  "decode_json_object h data label =
     (if \<not> utf8_valid data then Inl (Refusal (label @ '' is not valid JSON''))
      else bindE (loads h data) (\<lambda>v.
        case v of
          JObj d \<Rightarrow> Inr d
        | _ \<Rightarrow> Inl (Refusal (label @ '' must be a JSON object''))))"

section \<open>\<open>json.dumps\<close>\<close>

definition hex_digit :: "nat \<Rightarrow> char" where
  "hex_digit d = (if d < 10 then char_of (48 + d) else char_of (87 + d))"

definition u_escape :: "nat \<Rightarrow> string" where
  "u_escape n = [BS, CHR ''u'', hex_digit (n div 4096 mod 16), hex_digit (n div 256 mod 16),
     hex_digit (n div 16 mod 16), hex_digit (n mod 16)]"

text \<open>\<open>ensure_ascii=True\<close>: one character of a string.\<close>

definition escape_char :: "string \<Rightarrow> string" where
  "escape_char ch =
     (if ch = [DQ] then [BS, DQ]
      else if ch = [BS] then [BS, BS]
      else if ch = [LF] then [BS, CHR ''n'']
      else if ch = [CR] then [BS, CHR ''r'']
      else if ch = [TAB] then [BS, CHR ''t'']
      else if ch = byte_str [8] then [BS, CHR ''b'']
      else if ch = byte_str [12] then [BS, CHR ''f'']
      else (let n = code_point ch in
        if 32 \<le> n \<and> n < 127 then ch
        else if n < 65536 then u_escape n
        else u_escape (55296 + (n - 65536) div 1024) @ u_escape (56320 + (n - 65536) mod 1024)))"

definition quote_string :: "string \<Rightarrow> string" where
  "quote_string s = [DQ] @ concat (map escape_char (chars s)) @ [DQ]"

definition show_int :: "int \<Rightarrow> string" where
  "show_int n = (if n < 0 then ''-'' @ show_nat (nat (- n)) else show_nat (nat n))"

fun atom :: "host \<Rightarrow> json \<Rightarrow> string" where
  "atom h JNull = ''null''"
| "atom h (JBool b) = (if b then ''true'' else ''false'')"
| "atom h (JInt n) = show_int n"
| "atom h (JFloat m k) = float_repr h m k"
| "atom h JNaN = ''NaN''"
| "atom h (JInf b) = (if b then ''Infinity'' else ''-Infinity'')"
| "atom h (JStr s) = quote_string s"
| "atom h (JArr _) = ''[]''"
| "atom h (JObj _) = ''{}''"

text \<open>\<open>separators=(",", ":")\<close>\<close>

fun compact :: "host \<Rightarrow> json \<Rightarrow> string" where
  "compact h (JArr xs) = ''['' @ join_with '','' (map (compact h) xs) @ '']''"
| "compact h (JObj d) =
     ''{'' @ join_with '','' (map (\<lambda>kv. quote_string (fst kv) @ '':'' @ compact h (snd kv)) d) @ ''}''"
| "compact h v = atom h v"

text \<open>\<open>sort_keys=True\<close>\<close>

fun sort_keys :: "json \<Rightarrow> json" where
  "sort_keys (JArr xs) = JArr (map sort_keys xs)"
| "sort_keys (JObj d) = JObj (sort_key fst (map (\<lambda>kv. (fst kv, sort_keys (snd kv))) d))"
| "sort_keys v = v"

definition canonical :: "host \<Rightarrow> json \<Rightarrow> string" where
  "canonical h v = compact h (sort_keys v)"

text \<open>\<open>indent=2\<close>: an empty container stays on one line.\<close>

definition newline :: "nat \<Rightarrow> string" where
  "newline n = LF # replicate (2 * n) (CHR '' '')"

fun indented :: "host \<Rightarrow> nat \<Rightarrow> json \<Rightarrow> string" where
  "indented h n (JArr xs) =
     (if xs = [] then ''[]''
      else ''['' @ newline (Suc n) @ join_with ('','' @ newline (Suc n)) (map (indented h (Suc n)) xs)
           @ newline n @ '']'')"
| "indented h n (JObj d) =
     (if d = [] then ''{}''
      else ''{'' @ newline (Suc n) @
        join_with ('','' @ newline (Suc n))
          (map (\<lambda>kv. quote_string (fst kv) @ '': '' @ indented h (Suc n) (snd kv)) d)
        @ newline n @ ''}'')"
| "indented h n v = atom h v"

text \<open>The bytes that \<open>atomic_write_repo_json\<close> stores.\<close>

definition stored_json :: "host \<Rightarrow> json \<Rightarrow> bytes" where
  "stored_json h v = indented h 0 v @ [LF]"

end
