(* ===== verification/JsonSpec.thy ===== *)
theory JsonSpec
  imports JsonText "HOL-Library.Multiset"
begin

text \<open>
  Reading back what was written: every text of the grammar below parses to its value, and
  the stored and the canonical form are texts of the grammar.
\<close>

section \<open>Strings read back\<close>

definition uchar :: "string \<Rightarrow> bool" where
  "uchar ch \<longleftrightarrow> (\<exists>n. n < 1114112 \<and> \<not> (55296 \<le> n \<and> n < 57344) \<and> ch = utf8_encode n \<and> code_point ch = n)"

lemma divmod_digit: "(z::nat) < k \<Longrightarrow> (q * k + z) div k = q \<and> (q * k + z) mod k = z"
  by (cases "k = 0") simp_all

lemma byte_str_ords: "byte_str (map ord s) = s"
  by (simp add: byte_str_def comp_def)

lemma uchar1: "ord a < 128 \<Longrightarrow> uchar [a]"
  unfolding uchar_def
  by (rule exI[of _ "ord a"]) (simp add: utf8_encode_def code_point_def byte_str_def)

lemma is_cont_val: "is_cont b \<longleftrightarrow> (\<exists>y < 64. ord b = 128 + y)"
proof
  assume "is_cont b"
  then have "ord b - 128 < 64 \<and> ord b = 128 + (ord b - 128)" unfolding is_cont_def by linarith
  then show "\<exists>y < 64. ord b = 128 + y" by blast
qed (auto simp: is_cont_def)

lemma uchar2:
  assumes "194 \<le> ord a" "ord a \<le> 223" "is_cont b"
  shows "uchar [a, b]"
proof -
  obtain y where y: "y < 64" "ord b = 128 + y" using assms(3) is_cont_val by blast
  define x where "x = ord a - 192"
  have x: "ord a = 192 + x" "2 \<le> x" "x < 32" using assms(1,2) unfolding x_def by linarith+
  let ?n = "x * 64 + y"
  have d: "?n div 64 = x" "?n mod 64 = y" using divmod_digit[OF y(1)] by blast+
  have "utf8_encode ?n = byte_str [ord a, ord b]"
    using x y d by (simp add: utf8_encode_def)
  then have "utf8_encode ?n = [a, b]" using byte_str_ords[of "[a, b]"] by simp
  moreover have "code_point [a, b] = ?n" using x y by (simp add: code_point_def)
  ultimately show ?thesis using x y unfolding uchar_def by (intro exI[of _ ?n]) simp
qed

lemma uchar3:
  assumes "224 \<le> ord a" "ord a \<le> 239" "is_cont b" "is_cont c"
    "ord a = 224 \<longrightarrow> 160 \<le> ord b" "ord a = 237 \<longrightarrow> ord b < 160"
  shows "uchar [a, b, c]"
proof -
  obtain y z where y: "y < 64" "ord b = 128 + y" and z: "z < 64" "ord c = 128 + z"
    using assms(3,4) is_cont_val by blast
  define x where "x = ord a - 224"
  have x: "ord a = 224 + x" "x < 16" using assms(1,2) unfolding x_def by linarith+
  let ?n = "(x * 64 + y) * 64 + z"
  have d: "?n div 64 = x * 64 + y" "?n mod 64 = z" using divmod_digit[OF z(1)] by blast+
  have d2: "(x * 64 + y) div 64 = x" "(x * 64 + y) mod 64 = y" using divmod_digit[OF y(1)] by blast+
  have d3: "?n div 4096 = x" using d(1) d2(1) div_mult2_eq[of ?n 64 64] by simp
  have big: "\<not> ?n < 2048"
  proof (cases "x = 0")
    case True
    with assms(5) x y(2) have "32 \<le> y" by simp
    with True show ?thesis by simp
  qed simp
  have small: "?n < 65536" using x y z by simp
  have "utf8_encode ?n = byte_str [ord a, ord b, ord c]"
    using x y z d d2 d3 big small by (simp add: utf8_encode_def)
  then have "utf8_encode ?n = [a, b, c]" using byte_str_ords[of "[a, b, c]"] by simp
  moreover have "code_point [a, b, c] = ?n" using x y z by (simp add: code_point_def)
  moreover have "\<not> (55296 \<le> ?n \<and> ?n < 57344)"
  proof
    assume "55296 \<le> ?n \<and> ?n < 57344"
    then have "13 \<le> ?n div 4096" "?n div 4096 < 14"
      by (simp_all add: less_eq_div_iff_mult_less_eq div_less_iff_less_mult)
    then have "x = 13" using d3 by simp
    with assms(6) x y(2) have "y < 32" by simp
    with \<open>x = 13\<close> \<open>55296 \<le> ?n \<and> _\<close> z(1) show False by simp
  qed
  ultimately show ?thesis using small unfolding uchar_def by (intro exI[of _ ?n]) simp
qed

lemma uchar4:
  assumes "240 \<le> ord a" "ord a \<le> 244" "is_cont b" "is_cont c" "is_cont d"
    "ord a = 240 \<longrightarrow> 144 \<le> ord b" "ord a = 244 \<longrightarrow> ord b < 144"
  shows "uchar [a, b, c, d]"
proof -
  obtain y z w where y: "y < 64" "ord b = 128 + y" and z: "z < 64" "ord c = 128 + z"
    and w: "w < 64" "ord d = 128 + w"
    using assms(3,4,5) is_cont_val by blast
  define x where "x = ord a - 240"
  have x: "ord a = 240 + x" "x \<le> 4" using assms(1,2) unfolding x_def by linarith+
  let ?n = "((x * 64 + y) * 64 + z) * 64 + w"
  have d: "?n div 64 = (x * 64 + y) * 64 + z" "?n mod 64 = w" using divmod_digit[OF w(1)] by blast+
  have d2: "((x * 64 + y) * 64 + z) div 64 = x * 64 + y" "((x * 64 + y) * 64 + z) mod 64 = z"
    using divmod_digit[OF z(1)] by blast+
  have d3: "(x * 64 + y) div 64 = x" "(x * 64 + y) mod 64 = y" using divmod_digit[OF y(1)] by blast+
  have d4: "?n div 4096 = x * 64 + y" using d(1) d2(1) div_mult2_eq[of ?n 64 64] by simp
  have d5: "?n div 262144 = x" using d4 d3(1) div_mult2_eq[of ?n 4096 64] by simp
  have big: "65536 \<le> ?n"
  proof (cases "x = 0")
    case True
    with assms(6) x y(2) have "16 \<le> y" by simp
    with True show ?thesis by simp
  qed simp
  have small: "?n < 1114112"
  proof (cases "x = 4")
    case True
    with assms(7) x y(2) have "y < 16" by simp
    with True z w show ?thesis by simp
  next
    case False
    with x y z w show ?thesis by simp
  qed
  have "utf8_encode ?n = byte_str [ord a, ord b, ord c, ord d]"
    using x y z w d d2 d3 d4 d5 big by (simp add: utf8_encode_def)
  then have "utf8_encode ?n = [a, b, c, d]" using byte_str_ords[of "[a, b, c, d]"] by simp
  moreover have "code_point [a, b, c, d] = ?n" using x y z w by (simp add: code_point_def)
  ultimately show ?thesis using small big unfolding uchar_def by (intro exI[of _ ?n]) simp
qed

lemma utf8_valid_hd: "utf8_valid s \<Longrightarrow> s = [] \<or> \<not> is_cont (hd s)"
  by (cases s) (auto simp: is_cont_def split: list.splits if_splits)

lemma chars_step:
  assumes "list_all is_cont k" "r = [] \<or> \<not> is_cont (hd r)"
  shows "chars (a # k @ r) = (a # k) # chars r"
proof -
  have "takeWhile is_cont (k @ r) = k" "dropWhile is_cont (k @ r) = r"
    using assms by (cases r; simp add: list_all_iff takeWhile_append2 dropWhile_append2)+
  then show ?thesis by simp
qed

lemma utf8_valid_chars: "utf8_valid s \<Longrightarrow> \<forall>ch \<in> set (chars s). uchar ch"
proof (induction s rule: length_induct)
  case (1 s)
  have step: "\<forall>ch \<in> set (chars s). uchar ch"
    if "s = a # k @ r" "list_all is_cont k" "utf8_valid r" "uchar (a # k)" for a k r
  proof -
    have "length r < length s" using that(1) by simp
    with 1(1) that(3) have "\<forall>ch \<in> set (chars r). uchar ch" by blast
    moreover have "chars s = (a # k) # chars r"
      unfolding that(1) using that(2) utf8_valid_hd[OF that(3)] by (rule chars_step)
    ultimately show ?thesis using that(4) by simp
  qed
  show ?case
  proof (cases s)
    case Nil
    then show ?thesis by simp
  next
    case (Cons a t)
    note s = Cons
    show ?thesis
    proof (cases "ord a < 128")
      case True
      with 1 s show ?thesis by (intro step[of a "[]" t]) (simp_all add: uchar1)
    next
      case False
      note a = False
      with 1 s obtain b r1 where t: "t = b # r1" by (cases t) auto
      show ?thesis
      proof (cases "194 \<le> ord a \<and> ord a \<le> 223")
        case True
        with 1 s t a show ?thesis by (intro step[of a "[b]" r1]) (simp_all add: uchar2)
      next
        case False
        with 1 s t a obtain c r2 where r1: "r1 = c # r2" by (cases r1) auto
        show ?thesis
        proof (cases "224 \<le> ord a \<and> ord a \<le> 239")
          case True
          with 1 s t r1 a False show ?thesis
            by (intro step[of a "[b, c]" r2]) (simp_all add: uchar3)
        next
          case F2: False
          with 1 s t r1 a False obtain d r3 where r2: "r2 = d # r3" by (cases r2) auto
          with 1 s t r1 a False F2 show ?thesis
            by (intro step[of a "[b, c, d]" r3]) (auto simp add: uchar4)
        qed
      qed
    qed
  qed
qed

lemma hex_digit_ok: "d < 16 \<Longrightarrow> is_hex (hex_digit d) \<and> hex_digit_val (hex_digit d) = d"
  by (auto simp: hex_digit_def hex_digit_val_def char_class_defs)

lemma hex4_u_escape:
  assumes "n < 65536"
  shows "hex4 (drop 2 (u_escape n) @ r) = Some (n, r)"
proof -
  define a b c d where "a = n div 4096" and "b = n div 256 mod 16" and "c = n div 16 mod 16" and "d = n mod 16"
  note defs = a_def b_def c_def d_def
  have dig: "a < 16" "b < 16" "c < 16" "d < 16"
    using assms by (simp_all add: defs div_less_iff_less_mult)
  have "n div 16 div 16 = n div 256" "n div 256 div 16 = n div 4096"
    by (simp_all add: div_mult2_eq[symmetric])
  then have "a * 16 + b = n div 256" "n div 256 * 16 + c = n div 16" "n div 16 * 16 + d = n"
    unfolding defs by (metis div_mult_mod_eq)+
  then have n: "((a * 16 + b) * 16 + c) * 16 + d = n" by simp
  have u: "u_escape n = [BS, CHR ''u'', hex_digit a, hex_digit b, hex_digit c, hex_digit d]"
    using dig(1) by (simp add: u_escape_def defs)
  note dd = hex_digit_ok[OF dig(1)] hex_digit_ok[OF dig(2)] hex_digit_ok[OF dig(3)] hex_digit_ok[OF dig(4)]
  have "hex_val [hex_digit a, hex_digit b, hex_digit c, hex_digit d] = n"
    using dd n by (simp add: hex_val_def algebra_simps)
  then show ?thesis using dd by (simp add: hex4_def u)
qed

lemma unicode_escape_bmp:
  assumes "n < 65536" "\<not> high_surrogate n"
  shows "unicode_escape (drop 2 (u_escape n) @ r) = Some (n, r)"
  using assms by (simp add: unicode_escape_def hex4_u_escape)

lemma u_escape_Cons: "u_escape n = BS # CHR ''u'' # drop 2 (u_escape n)"
  by (simp add: u_escape_def)

lemma unicode_escape_pair:
  assumes "65536 \<le> n" "n < 1114112"
  shows "unicode_escape (drop 2 (u_escape (55296 + (n - 65536) div 1024)) @
      u_escape (56320 + (n - 65536) mod 1024) @ r) = Some (n, r)"
proof -
  define hi where "hi = 55296 + (n - 65536) div 1024"
  define lo where "lo = 56320 + (n - 65536) mod 1024"
  have "(n - 65536) div 1024 < 1024" using assms by (simp add: div_less_iff_less_mult)
  then have hi: "high_surrogate hi" "hi < 65536" by (simp_all add: hi_def high_surrogate_def)
  have "(n - 65536) mod 1024 < 1024" by simp
  then have lo: "low_surrogate lo" "lo < 65536" by (simp_all add: lo_def low_surrogate_def)
  have "65536 + (hi - 55296) * 1024 + (lo - 56320) = 65536 + (n - 65536)"
    by (simp add: hi_def lo_def)
  then have n: "65536 + (hi - 55296) * 1024 + (lo - 56320) = n" using assms(1) by simp
  have q: "lit [BS, CHR ''u''] (u_escape lo @ r) = Some (drop 2 (u_escape lo) @ r)"
    by (subst u_escape_Cons) simp
  have "Option.bind (lit [BS, CHR ''u''] (u_escape lo @ r)) hex4 = Some (lo, r)"
    unfolding q using lo(2) by (simp add: hex4_u_escape)
  then have "unicode_escape (drop 2 (u_escape hi) @ u_escape lo @ r) =
      Some (65536 + (hi - 55296) * 1024 + (lo - 56320), r)"
    using hi lo by (simp add: unicode_escape_def hex4_u_escape)
  then have "unicode_escape (drop 2 (u_escape hi) @ u_escape lo @ r) = Some (n, r)" unfolding n .
  then show ?thesis unfolding hi_def lo_def .
qed

lemma quote_chars [simp]: "DQ \<noteq> BS" "BS \<noteq> DQ" "ord DQ = 34" "ord BS = 92"
  by (simp_all add: DQ_def BS_def ord_def)

lemma escape_char_cases:
  assumes "uchar ch"
  shows "(\<exists>c. ch = [c] \<and> 32 \<le> ord c \<and> ord c < 127 \<and> c \<noteq> DQ \<and> c \<noteq> BS \<and> escape_char ch = ch) \<or>
    (\<exists>e. escape_char ch = [BS, e] \<and> e \<noteq> CHR ''u'' \<and> simple_escape e = Some ch) \<or>
    (\<exists>n < 65536. \<not> high_surrogate n \<and> utf8_encode n = ch \<and> escape_char ch = u_escape n) \<or>
    (\<exists>n. 65536 \<le> n \<and> n < 1114112 \<and> utf8_encode n = ch \<and>
       escape_char ch = u_escape (55296 + (n - 65536) div 1024) @ u_escape (56320 + (n - 65536) mod 1024))"
    (is "?A \<or> ?B \<or> ?C \<or> ?D")
proof (cases "ch \<in> {[DQ], [BS], [LF], [CR], [TAB], byte_str [8], byte_str [12]}")
  case True
  have "\<exists>e. escape_char ch = [BS, e] \<and> e \<noteq> CHR ''u'' \<and> simple_escape e = Some ch"
    using True
    by (auto simp: escape_char_def DQ_def BS_def LF_def CR_def TAB_def byte_str_def)
  then show ?thesis by blast
next
  case False
  from assms obtain n where n: "n < 1114112" "\<not> (55296 \<le> n \<and> n < 57344)" "ch = utf8_encode n" "code_point ch = n"
    unfolding uchar_def by blast
  have esc: "escape_char ch = (if 32 \<le> n \<and> n < 127 then ch
        else if n < 65536 then u_escape n
        else u_escape (55296 + (n - 65536) div 1024) @ u_escape (56320 + (n - 65536) mod 1024))"
    using False by (simp add: escape_char_def n(4))
  show ?thesis
  proof (cases "32 \<le> n \<and> n < 127")
    case True
    then have ch: "ch = [char_of n]" using n(3) by (simp add: utf8_encode_def byte_str_def)
    moreover have "ord (char_of n) = n" using True by simp
    moreover have "char_of n \<noteq> DQ" "char_of n \<noteq> BS" using False ch by auto
    ultimately have ?A using True esc by auto
    then show ?thesis ..
  next
    case F: False
    show ?thesis
    proof (cases "n < 65536")
      case True
      with n esc F have ?C by (auto simp: high_surrogate_def)
      then show ?thesis by blast
    next
      case F2: False
      with F esc n(1,3) have ?D by (intro exI[of _ n]) simp
      then show ?thesis by blast
    qed
  qed
qed

lemma str_unit_escape: "uchar ch \<Longrightarrow> str_unit (escape_char ch @ r) = Some (ch, r)"
proof -
  assume "uchar ch"
  from escape_char_cases[OF this] show ?thesis
  proof (elim disjE exE conjE)
    fix n
    assume n: "n < 65536" "\<not> high_surrogate n" "utf8_encode n = ch" "escape_char ch = u_escape n"
    show ?thesis unfolding n(4) using unicode_escape_bmp[OF n(1,2), of r] n(3)
      by (subst u_escape_Cons) (simp add: str_unit_def)
  next
    fix n
    assume n: "65536 \<le> n" "n < 1114112" "utf8_encode n = ch"
      "escape_char ch = u_escape (55296 + (n - 65536) div 1024) @ u_escape (56320 + (n - 65536) mod 1024)"
    show ?thesis unfolding n(4) using unicode_escape_pair[OF n(1,2), of r] n(3)
      by (subst u_escape_Cons) (simp add: str_unit_def)
  qed (auto simp: str_unit_def)
qed

lemma str_unit_DQ: "str_unit s = Some x \<Longrightarrow> \<not> (s \<noteq> [] \<and> hd s = DQ)"
  by (cases s) (auto simp: str_unit_def split: if_splits)

lemma str_body_escaped:
  "\<forall>ch \<in> set cs. uchar ch \<Longrightarrow> str_body (concat (map escape_char cs) @ DQ # r) = Some (concat cs, r)"
proof (induction cs)
  case Nil
  then show ?case by (simp add: str_body.simps)
next
  case (Cons ch cs)
  let ?s = "escape_char ch @ concat (map escape_char cs) @ DQ # r"
  have u: "str_unit ?s = Some (ch, concat (map escape_char cs) @ DQ # r)"
    using Cons.prems by (intro str_unit_escape) simp
  have "\<not> (?s \<noteq> [] \<and> hd ?s = DQ)" using u by (rule str_unit_DQ)
  then have "str_body ?s = Some (ch @ concat cs, r)"
    using u Cons by (subst str_body.simps) (simp only: if_False option.case prod.sel, simp)
  then show ?case by simp
qed

lemma str_body_quote:
  assumes "utf8_valid s"
  shows "str_body (tl (quote_string s @ r)) = Some (s, r)"
  using str_body_escaped[OF utf8_valid_chars[OF assms], of r] by (simp add: quote_string_def)

lemma quote_string_hd: "quote_string s \<noteq> []" "hd (quote_string s) = DQ"
  by (simp_all add: quote_string_def)

section \<open>Numbers read back\<close>

text \<open>What may follow a number.\<close>

definition ends_number :: "string \<Rightarrow> bool" where
  "ends_number r \<longleftrightarrow> r = [] \<or> (\<not> is_digit (hd r) \<and> hd r \<notin> set ''.eE'')"

lemma hd_show_nat: "hd (show_nat n) = CHR ''0'' \<longleftrightarrow> n = 0"
proof (induction n rule: show_nat.induct)
  case (1 n)
  show ?case
  proof (cases "n < 10")
    case True
    have "char_of (48 + n) = CHR ''0'' \<longleftrightarrow> ord (char_of (48 + n)) = ord (CHR ''0'')"
      using ord_inject by metis
    also have "\<dots> \<longleftrightarrow> n = 0" using True by (simp add: ord_def)
    finally show ?thesis using True by (simp add: show_nat.simps[of n])
  next
    case False
    then have "n div 10 \<noteq> 0" by simp
    with 1 False show ?thesis by (simp add: show_nat.simps[of n])
  qed
qed

lemma show_nat_0: "show_nat 0 = ''0''"
proof -
  have "ord (char_of (48::nat)) = ord (CHR ''0'')" by (simp add: ord_def)
  then have "char_of (48::nat) = CHR ''0''" by (simp only: ord_inject)
  then show ?thesis by (simp add: show_nat.simps[of 0])
qed

lemma digits1_run:
  "d \<noteq> [] \<Longrightarrow> list_all is_digit d \<Longrightarrow> ends_number r \<Longrightarrow> digits1 (d @ r) = Some (d, r)"
  by (auto simp: digits1_Some ends_number_def)

lemma frac_exp_none: "ends_number r \<Longrightarrow> opt_part frac_digits r = ([], r) \<and> opt_part exp_part r = ([], r)"
  by (cases r) (auto simp: ends_number_def opt_part_def frac_digits_def exp_part_def)

lemma int_part_show_nat:
  assumes "ends_number r"
  shows "int_part (show_nat n @ r) = Some (show_nat n, r)"
proof -
  have d: "digits1 (show_nat n @ r) = Some (show_nat n, r)"
    using assms show_nat_digits by (intro digits1_run) (simp_all add: list_all_iff)
  have "\<not> prefix ''-'' (show_nat n @ r)"
    using show_nat_digits[of n] show_nat_not_Nil[of n]
    by (cases "show_nat n") (auto simp: is_digit_def ord_def)
  then have l: "lit ''-'' (show_nat n @ r) = None" by (simp add: lit_def)
  show ?thesis
  proof (cases "n = 0")
    case True
    with d l show ?thesis by (simp add: int_part_def show_nat_0)
  next
    case False
    with hd_show_nat[of n] d l show ?thesis by (simp add: int_part_def)
  qed
qed

section \<open>Printable values\<close>

text \<open>
  The text of a float is a JSON number with a fraction or an exponent and reads back as
  the same float, as the documentation of \<open>float.__repr__\<close> promises for finite floats.
\<close>

definition float_text :: "string \<Rightarrow> string \<Rightarrow> string \<Rightarrow> string \<Rightarrow> bool" where
  "float_text sg d f e \<longleftrightarrow> (sg = [] \<or> sg = ''-'') \<and> d \<noteq> [] \<and> list_all is_digit d \<and>
     (hd d = CHR ''0'' \<longrightarrow> d = ''0'') \<and>
     (f = [] \<or> (\<exists>x. f = ''.'' @ x \<and> x \<noteq> [] \<and> list_all is_digit x)) \<and>
     (e = [] \<or> (\<exists>c s x. e = [c] @ s @ x \<and> c \<in> set ''eE'' \<and> s \<in> {[], ''+'', ''-''} \<and>
        x \<noteq> [] \<and> list_all is_digit x)) \<and>
     (f \<noteq> [] \<or> e \<noteq> [])"

definition float_ok :: "host \<Rightarrow> int \<Rightarrow> nat \<Rightarrow> bool" where
  "float_ok h m k \<longleftrightarrow> (\<exists>sg d f e. float_text sg d f e \<and> float_repr h m k = sg @ d @ f @ e \<and>
     float_of h (sg @ d @ f @ e) = JFloat m k)"

fun printable :: "host \<Rightarrow> json \<Rightarrow> bool" where
  "printable h (JInt n) \<longleftrightarrow> length (show_nat (nat \<bar>n\<bar>)) \<le> max_digits"
| "printable h (JFloat m k) \<longleftrightarrow> float_ok h m k"
| "printable h (JStr s) \<longleftrightarrow> utf8_valid s"
| "printable h (JArr xs) \<longleftrightarrow> (\<forall>x \<in> set xs. printable h x)"
| "printable h (JObj d) \<longleftrightarrow> distinct (map fst d) \<and> (\<forall>kv \<in> set d. utf8_valid (fst kv) \<and> printable h (snd kv))"
| "printable h _ \<longleftrightarrow> True"

lemma exp_not_digit: "c \<in> set ''eE'' \<Longrightarrow> \<not> is_digit c \<and> c \<noteq> CHR ''.''"
  by (auto simp: is_digit_def ord_def)

lemma frac_digits_run:
  assumes "x \<noteq> []" "list_all is_digit x" "r = [] \<or> \<not> is_digit (hd r)"
  shows "opt_part frac_digits (''.'' @ x @ r) = (''.'' @ x, r)"
proof -
  have "digits1 (x @ r) = Some (x, r)" using assms by (simp add: digits1_Some)
  then show ?thesis by (simp add: opt_part_def frac_digits_def)
qed

lemma exp_part_run:
  assumes "c \<in> set ''eE''" "s \<in> {[], ''+'', ''-''}" "x \<noteq> []" "list_all is_digit x" "ends_number r"
  shows "opt_part exp_part ([c] @ s @ x @ r) = ([c] @ s @ x, r)"
proof -
  have "digits1 (x @ r) = Some (x, r)" using assms by (intro digits1_run) auto
  moreover have "hd x \<noteq> CHR ''-'' \<and> hd x \<noteq> CHR ''+''"
    using assms(3,4) by (cases x) (auto simp: is_digit_def ord_def)
  ultimately show ?thesis using assms(1,2,3)
    by (cases x) (auto simp: opt_part_def exp_part_def)
qed

lemma int_part_run:
  assumes "sg = [] \<or> sg = ''-''" "d \<noteq> []" "list_all is_digit d" "hd d = CHR ''0'' \<longrightarrow> d = ''0''"
    "r = [] \<or> \<not> is_digit (hd r)"
  shows "int_part (sg @ d @ r) = Some (sg @ d, r)"
proof -
  have dd: "digits1 (d @ r) = Some (d, r)" using assms by (simp add: digits1_Some)
  have "hd d \<noteq> CHR ''-''" using assms(2,3) by (cases d) (auto simp: is_digit_def ord_def)
  then have "lit ''-'' (d @ r) = None" using assms(2) by (cases d) (auto simp: lit_def)
  with dd assms show ?thesis by (auto simp: int_part_def)
qed

lemma float_rest: "float_text sg d f e \<Longrightarrow> ends_number r \<Longrightarrow> f @ e @ r \<noteq> [] \<and> \<not> is_digit (hd (f @ e @ r))"
  by (auto simp: float_text_def is_digit_def ord_def)

lemma exp_rest: "float_text sg d f e \<Longrightarrow> ends_number r \<Longrightarrow> e @ r = [] \<or> \<not> is_digit (hd (e @ r))"
  by (auto simp: float_text_def ends_number_def is_digit_def ord_def)

lemma exp_read: "float_text sg d f e \<Longrightarrow> ends_number r \<Longrightarrow> opt_part exp_part (e @ r) = (e, r)"
proof -
  assume ft: "float_text sg d f e" and r: "ends_number r"
  show ?thesis
  proof (cases "e = []")
    case True
    with r show ?thesis by (simp add: frac_exp_none)
  next
    case False
    with ft obtain c s x where e: "e = [c] @ s @ x" "c \<in> set ''eE''" "s \<in> {[], ''+'', ''-''}" "x \<noteq> []"
      "list_all is_digit x"
      unfolding float_text_def by blast
    from exp_part_run[OF e(2-5) r] show ?thesis unfolding e(1) append_assoc .
  qed
qed

lemma frac_read: "float_text sg d f e \<Longrightarrow> ends_number r \<Longrightarrow> opt_part frac_digits (f @ e @ r) = (f, e @ r)"
proof -
  assume ft: "float_text sg d f e" and r: "ends_number r"
  show ?thesis
  proof (cases "f = []")
    case True
    then have "e \<noteq> []" using ft by (simp add: float_text_def)
    then obtain c t where "e = c # t" "c \<noteq> CHR ''.''" using ft exp_not_digit
      unfolding float_text_def by auto
    with True show ?thesis by (simp add: opt_part_def frac_digits_def)
  next
    case False
    with ft obtain x where x: "f = ''.'' @ x" "x \<noteq> []" "list_all is_digit x"
      unfolding float_text_def by blast
    from frac_digits_run[OF x(2,3) exp_rest[OF ft r]] show ?thesis unfolding x(1) append_assoc .
  qed
qed

lemma number_float:
  assumes "float_text sg d f e" "ends_number r"
  shows "number h (sg @ d @ f @ e @ r) = Inr (float_of h (sg @ d @ f @ e), r)"
proof -
  have "int_part (sg @ d @ f @ e @ r) = Some (sg @ d, f @ e @ r)"
    using assms float_rest[OF assms] by (intro int_part_run) (auto simp: float_text_def)
  moreover have "f \<noteq> [] \<or> e \<noteq> []" using assms(1) by (simp add: float_text_def)
  ultimately show ?thesis
    using frac_read[OF assms] exp_read[OF assms] by (auto simp: number_def)
qed

lemma filter_digits: "list_all is_digit d \<Longrightarrow> filter is_digit d = d"
  by (simp add: list_all_iff)

lemma number_int:
  assumes "length (show_nat (nat \<bar>n\<bar>)) \<le> max_digits" "ends_number r"
  shows "number h (show_int n @ r) = Inr (JInt n, r)"
proof -
  let ?d = "show_nat (nat \<bar>n\<bar>)" and ?sg = "if n < 0 then ''-'' else []"
  have dig: "list_all is_digit ?d" using show_nat_digits by (simp add: list_all_iff)
  have s: "show_int n = ?sg @ ?d" by (simp add: show_int_def)
  have "hd ?d = CHR ''0'' \<longrightarrow> ?d = ''0''" using hd_show_nat show_nat_0 by metis
  then have "int_part (?sg @ ?d @ r) = Some (?sg @ ?d, r)"
    using assms(2) dig by (intro int_part_run) (auto simp: ends_number_def)
  then have i: "int_part (show_int n @ r) = Some (show_int n, r)" unfolding s append_assoc .
  have "filter is_digit (show_int n) = ?d"
    unfolding s using filter_digits[OF dig] by (simp add: is_digit_def ord_def)
  moreover have "int_text (show_int n) = n"
  proof (cases "n < 0")
    case True
    then show ?thesis unfolding s by (simp add: int_text_def dec_val_show_nat)
  next
    case False
    have "hd ?d \<noteq> CHR ''-''" using dig by (cases ?d) (auto simp: is_digit_def ord_def)
    then have "lit ''-'' ?d = None" by (cases ?d) (auto simp: lit_def)
    with False show ?thesis unfolding s by (simp add: int_text_def dec_val_show_nat)
  qed
  ultimately show ?thesis using i frac_exp_none[OF assms(2)] assms(1) by (simp add: number_def)
qed

section \<open>The grammar of texts\<close>

definition blanks :: "string \<Rightarrow> bool" where
  "blanks w \<longleftrightarrow> list_all json_ws w"

definition scalar :: "json \<Rightarrow> bool" where
  "scalar v \<longleftrightarrow> \<not> is_arr v \<and> \<not> is_obj v"

inductive jtext :: "host \<Rightarrow> json \<Rightarrow> string \<Rightarrow> bool"
  and jelems :: "host \<Rightarrow> json list \<Rightarrow> string \<Rightarrow> bool"
  and jmembers :: "host \<Rightarrow> dict \<Rightarrow> string \<Rightarrow> bool" for h where
  jt_scalar: "scalar v \<Longrightarrow> printable h v \<Longrightarrow> jtext h v (atom h v)"
| jt_arr0: "blanks w \<Longrightarrow> jtext h (JArr []) (''['' @ w @ '']'')"
| jt_arr: "blanks w \<Longrightarrow> jelems h vs s \<Longrightarrow> jtext h (JArr vs) (''['' @ w @ s)"
| jt_obj0: "blanks w \<Longrightarrow> jtext h (JObj []) (''{'' @ w @ ''}'')"
| jt_obj: "blanks w \<Longrightarrow> jmembers h d s \<Longrightarrow> distinct (map fst d) \<Longrightarrow> jtext h (JObj d) (''{'' @ w @ s)"
| je_one: "jtext h v s \<Longrightarrow> blanks w \<Longrightarrow> jelems h [v] (s @ w @ '']'')"
| je_more: "jtext h v s \<Longrightarrow> blanks w \<Longrightarrow> blanks x \<Longrightarrow> jelems h vs t \<Longrightarrow>
     jelems h (v # vs) (s @ w @ '','' @ x @ t)"
| jm_one: "utf8_valid k \<Longrightarrow> blanks x \<Longrightarrow> jtext h v s \<Longrightarrow> blanks w \<Longrightarrow>
     jmembers h [(k, v)] (quote_string k @ '':'' @ x @ s @ w @ ''}'')"
| jm_more: "utf8_valid k \<Longrightarrow> blanks x \<Longrightarrow> jtext h v s \<Longrightarrow> blanks w \<Longrightarrow> blanks y \<Longrightarrow> jmembers h d t \<Longrightarrow>
     jmembers h ((k, v) # d) (quote_string k @ '':'' @ x @ s @ w @ '','' @ y @ t)"

text \<open>How a text starts.\<close>

definition starts :: "string \<Rightarrow> bool" where
  "starts s \<longleftrightarrow> s \<noteq> [] \<and> \<not> json_ws (hd s) \<and> hd s \<noteq> CHR '']'' \<and> hd s \<noteq> CHR ''}''"

definition num_start :: "char \<Rightarrow> bool" where
  "num_start c \<longleftrightarrow> is_digit c \<or> c = CHR ''-''"

lemma ws_char: "json_ws c \<longleftrightarrow> ord c = 32 \<or> ord c = 9 \<or> ord c = 10 \<or> ord c = 13"
proof -
  have "c = CHR '' '' \<longleftrightarrow> ord c = 32" using ord_inject[of c "CHR '' ''"] by (simp add: ord_def)
  moreover have "c = TAB \<longleftrightarrow> ord c = 9" "c = LF \<longleftrightarrow> ord c = 10" "c = CR \<longleftrightarrow> ord c = 13"
    using ord_inject[of c TAB] ord_inject[of c LF] ord_inject[of c CR] by simp_all
  ultimately show ?thesis by (simp add: json_ws_def)
qed

lemma num_start_starts: "s \<noteq> [] \<Longrightarrow> num_start (hd s) \<Longrightarrow> starts s"
  by (auto simp: starts_def num_start_def ws_char is_digit_def ord_def)

lemma show_int_start: "show_int n \<noteq> [] \<and> num_start (hd (show_int n))"
proof -
  have "is_digit (hd (show_nat m))" for m
    using show_nat_digits[of m] show_nat_not_Nil[of m] by (meson list.set_sel(1))
  then show ?thesis by (auto simp: show_int_def num_start_def)
qed

lemma float_start: "float_text sg d f e \<Longrightarrow> sg @ d @ f @ e \<noteq> [] \<and> num_start (hd (sg @ d @ f @ e))"
  by (cases d) (auto simp: float_text_def num_start_def)

lemma atom_starts: "scalar v \<Longrightarrow> printable h v \<Longrightarrow> starts (atom h v)"
proof (cases v)
  case (JInt n)
  then show ?thesis using show_int_start by (auto intro: num_start_starts)
next
  case (JFloat m k)
  assume "printable h v"
  with JFloat obtain sg d f e where "float_text sg d f e" "float_repr h m k = sg @ d @ f @ e"
    by (auto simp: float_ok_def)
  with float_start[of sg d f e] JFloat show ?thesis by (auto intro: num_start_starts)
next
  case (JStr s)
  then show ?thesis
    by (simp add: starts_def quote_string_def ws_char DQ_def ord_def)
qed (simp_all add: starts_def scalar_def ws_char ord_def)

lemma text_starts: "jtext h v s \<Longrightarrow> starts s" "jelems h vs s \<Longrightarrow> starts s" "jmembers h d s \<Longrightarrow> starts s"
proof (induction rule: jtext_jelems_jmembers.inducts)
  case (jt_scalar v)
  then show ?case by (rule atom_starts)
qed (auto simp: starts_def ws_char quote_string_def DQ_def ord_def)

lemma ws_skip: "blanks w \<Longrightarrow> s \<noteq> [] \<Longrightarrow> \<not> json_ws (hd s) \<Longrightarrow> ws (w @ s) = s"
  by (cases s) (auto simp: blanks_def list_all_iff dropWhile_append2)

lemma ws_starts: "blanks w \<Longrightarrow> starts s \<Longrightarrow> ws (w @ s @ r) = s @ r"
  by (rule ws_skip) (auto simp: starts_def)

lemma ws_char_skip: "blanks w \<Longrightarrow> \<not> json_ws c \<Longrightarrow> ws (w @ c # r) = c # r"
  by (rule ws_skip) auto

lemma not_ws [simp]: "\<not> json_ws (CHR '']'')" "\<not> json_ws (CHR ''}'')" "\<not> json_ws (CHR '','')" "\<not> json_ws (CHR '':'')"
  by (simp_all add: ws_char ord_def)

lemma blanks_ends: "blanks w \<Longrightarrow> c \<in> set '']},:'' \<Longrightarrow> ends_number (w @ c # r)"
  by (cases w) (auto simp: blanks_def ends_number_def ws_char is_digit_def ord_def)

lemma unique_acc: "distinct (map fst (d @ kvs)) \<Longrightarrow> unique_json_object_acc d kvs = Inr (d @ kvs)"
proof (induction kvs arbitrary: d)
  case Nil
  then show ?case by simp
next
  case (Cons kv kvs)
  obtain k v where kv: "kv = (k, v)" by (cases kv)
  with Cons.IH[of "d @ [(k, v)]"] Cons.prems show ?case by auto
qed

lemma unique_json_object_distinct: "distinct (map fst kvs) \<Longrightarrow> unique_json_object kvs = Inr kvs"
  by (simp add: unique_json_object_def unique_acc)

lemma p_value_number:
  assumes "s \<noteq> []" "num_start (hd s)" "\<not> prefix ''-I'' s"
  shows "p_value h (Suc n) s = number h s"
proof -
  obtain c t where s: "s = c # t" using assms(1) by (cases s) auto
  have ne: "c \<noteq> DQ" "c \<noteq> CHR ''{''" "c \<noteq> CHR ''[''" "c \<noteq> CHR ''n''" "c \<noteq> CHR ''t''" "c \<noteq> CHR ''f''"
    "c \<noteq> CHR ''N''" "c \<noteq> CHR ''I''"
    using assms(2) s by (auto simp: num_start_def is_digit_def ord_def DQ_def)
  have "json_const constants_table s = None"
    using ne assms(3) s unfolding constants_table_def by (cases t) (auto simp: lit_def)
  with ne s show ?thesis by (simp add: head_is_def)
qed

lemma p_value_atom:
  assumes "scalar v" "printable h v" "ends_number r"
  shows "p_value h (Suc n) (atom h v @ r) = Inr (v, r)"
proof (cases v)
  case (JInt i)
  have "\<not> prefix ''-I'' (show_int i @ r)"
    using show_nat_digits[of "nat (- i)"] show_nat_not_Nil[of "nat (- i)"]
      show_nat_digits[of "nat i"] show_nat_not_Nil[of "nat i"]
    by (cases "show_nat (nat (- i))"; cases "show_nat (nat i)")
      (auto simp: show_int_def is_digit_def ord_def)
  then show ?thesis using JInt assms show_int_start[of i]
    by (simp add: p_value_number number_int del: p_value.simps)
next
  case (JFloat m k)
  with assms(2) obtain sg d f e where ft: "float_text sg d f e" "float_repr h m k = sg @ d @ f @ e"
    "float_of h (sg @ d @ f @ e) = JFloat m k"
    by (auto simp: float_ok_def)
  have "\<not> prefix ''-I'' (sg @ d @ f @ e @ r)"
    using ft(1) by (cases d) (auto simp: float_text_def is_digit_def ord_def)
  moreover have "sg @ d @ f @ e @ r \<noteq> [] \<and> num_start (hd (sg @ d @ f @ e @ r))"
    using ft(1) by (cases d) (auto simp: float_text_def num_start_def)
  ultimately have "p_value h (Suc n) (sg @ d @ f @ e @ r) = Inr (JFloat m k, r)"
    using ft(3) number_float[OF ft(1) assms(3)] by (simp add: p_value_number del: p_value.simps)
  then show ?thesis using JFloat ft(2) by (simp del: p_value.simps)
next
  case (JStr s)
  with assms(2) have "str_body (tl (quote_string s @ r)) = Some (s, r)" by (simp add: str_body_quote)
  then show ?thesis using JStr by (simp add: head_is_def quote_string_def)
qed (use assms(1) in \<open>simp_all add: scalar_def head_is_def DQ_def constants_table_def lit_def\<close>)

section \<open>Every text parses to its value\<close>

lemma head_is_Cons [simp]: "head_is c (d # s) \<longleftrightarrow> d = c"
  by (auto simp: head_is_def)

lemma head_is_starts: "starts s \<Longrightarrow> \<not> head_is (CHR '']'') (s @ r) \<and> \<not> head_is (CHR ''}'') (s @ r)"
  by (auto simp: head_is_def starts_def)

lemma parse_text:
  "jtext h v s \<Longrightarrow> (\<forall>n r. length s \<le> n \<longrightarrow> ends_number r \<longrightarrow> p_value h n (s @ r) = Inr (v, r))"
  "jelems h vs s \<Longrightarrow> (\<forall>n r. length s \<le> n \<longrightarrow> p_elems h n (s @ r) = Inr (vs, r))"
  "jmembers h d s \<Longrightarrow> (\<forall>n r. length s \<le> n \<longrightarrow> p_members h n (s @ r) = Inr (d, r))"
proof (induction rule: jtext_jelems_jmembers.inducts)
  case (jt_scalar v)
  show ?case
  proof (intro allI impI)
    fix n r
    assume n: "length (atom h v) \<le> n" and r: "ends_number r"
    have "atom h v \<noteq> []" using atom_starts[OF jt_scalar] by (simp add: starts_def)
    with n obtain m where "n = Suc m" by (cases n) auto
    then show "p_value h n (atom h v @ r) = Inr (v, r)" using p_value_atom[OF jt_scalar r] by simp
  qed
next
  case (jt_arr0 w)
  show ?case
  proof (intro allI impI)
    fix n and r :: string
    assume "length (''['' @ w @ '']'') \<le> n"
    then obtain m where "n = Suc m" by (cases n) auto
    then show "p_value h n ((''['' @ w @ '']'') @ r) = Inr (JArr [], r)"
      using ws_char_skip[OF jt_arr0, of "CHR '']''" r] by (simp add: head_is_def DQ_def Let_def)
  qed
next
  case (jt_arr w vs s)
  show ?case
  proof (intro allI impI)
    fix n and r :: string
    assume n: "length (''['' @ w @ s) \<le> n"
    then obtain m where m: "n = Suc m" "length s \<le> m" by (cases n) auto
    have st: "starts s" using jt_arr(2) by (rule text_starts)
    show "p_value h n ((''['' @ w @ s) @ r) = Inr (JArr vs, r)"
      using m jt_arr(3) ws_starts[OF jt_arr(1) st, of r] head_is_starts[OF st, of r]
      by (simp add: DQ_def Let_def)
  qed
next
  case (jt_obj0 w)
  show ?case
  proof (intro allI impI)
    fix n and r :: string
    assume "length (''{'' @ w @ ''}'') \<le> n"
    then obtain m where "n = Suc m" by (cases n) auto
    then show "p_value h n ((''{'' @ w @ ''}'') @ r) = Inr (JObj [], r)"
      using ws_char_skip[OF jt_obj0, of "CHR ''}''" r] by (simp add: head_is_def DQ_def Let_def)
  qed
next
  case (jt_obj w d s)
  show ?case
  proof (intro allI impI)
    fix n and r :: string
    assume n: "length (''{'' @ w @ s) \<le> n"
    then obtain m where m: "n = Suc m" "length s \<le> m" by (cases n) auto
    have st: "starts s" using \<open>jmembers h d s\<close> by (rule text_starts)
    show "p_value h n ((''{'' @ w @ s) @ r) = Inr (JObj d, r)"
      using m jt_obj.IH ws_starts[OF \<open>blanks w\<close> st, of r] head_is_starts[OF st, of r]
        unique_json_object_distinct[OF \<open>distinct (map fst d)\<close>]
      by (simp add: DQ_def Let_def)
  qed
next
  case (je_one v s w)
  show ?case
  proof (intro allI impI)
    fix n and r :: string
    assume "length (s @ w @ '']'') \<le> n"
    then obtain m where m: "n = Suc m" "length s \<le> m" by (cases n) auto
    have "p_value h m (s @ w @ CHR '']'' # r) = Inr (v, w @ CHR '']'' # r)"
      using je_one.IH m(2) blanks_ends[OF \<open>blanks w\<close>, of "CHR '']''" r] by simp
    then show "p_elems h n ((s @ w @ '']'') @ r) = Inr ([v], r)"
      using m ws_char_skip[OF \<open>blanks w\<close>, of "CHR '']''" r] by (simp add: Let_def)
  qed
next
  case (je_more v s w x vs t)
  show ?case
  proof (intro allI impI)
    fix n and r :: string
    assume "length (s @ w @ '','' @ x @ t) \<le> n"
    then obtain m where m: "n = Suc m" "length s \<le> m" "length t \<le> m" by (cases n) auto
    have "p_value h m (s @ w @ CHR '','' # x @ t @ r) = Inr (v, w @ CHR '','' # x @ t @ r)"
      using je_more.IH m(2) blanks_ends[OF \<open>blanks w\<close>, of "CHR '',''" "x @ t @ r"] by simp
    then show "p_elems h n ((s @ w @ '','' @ x @ t) @ r) = Inr (v # vs, r)"
      using m je_more.IH ws_char_skip[OF \<open>blanks w\<close>, of "CHR '',''" "x @ t @ r"]
        ws_starts[OF \<open>blanks x\<close> text_starts(2)[OF \<open>jelems h vs t\<close>], of r]
      by (simp add: Let_def)
  qed
next
  case (jm_one k x v s w)
  show ?case
  proof (intro allI impI)
    fix n and r :: string
    assume "length (quote_string k @ '':'' @ x @ s @ w @ ''}'') \<le> n"
    then obtain m where m: "n = Suc m" "length s \<le> m" by (cases n) auto
    let ?t = "x @ s @ w @ CHR ''}'' # r"
    have k: "str_body (tl (quote_string k @ CHR '':'' # ?t)) = Some (k, CHR '':'' # ?t)"
      by (rule str_body_quote[OF \<open>utf8_valid k\<close>])
    have v: "p_value h m (s @ w @ CHR ''}'' # r) = Inr (v, w @ CHR ''}'' # r)"
      using jm_one.IH m(2) blanks_ends[OF \<open>blanks w\<close>, of "CHR ''}''" r] by simp
    show "p_members h n ((quote_string k @ '':'' @ x @ s @ w @ ''}'') @ r) = Inr ([(k, v)], r)"
      using m k v ws_char_skip[OF \<open>blanks w\<close>, of "CHR ''}''" r]
        ws_starts[OF \<open>blanks x\<close> text_starts(1)[OF \<open>jtext h v s\<close>], of "w @ CHR ''}'' # r"]
      by (simp add: Let_def head_is_def quote_string_hd)
  qed
next
  case (jm_more k x v s w y d t)
  show ?case
  proof (intro allI impI)
    fix n and r :: string
    assume "length (quote_string k @ '':'' @ x @ s @ w @ '','' @ y @ t) \<le> n"
    then obtain m where m: "n = Suc m" "length s \<le> m" "length t \<le> m" by (cases n) auto
    let ?t = "x @ s @ w @ CHR '','' # y @ t @ r"
    have k: "str_body (tl (quote_string k @ CHR '':'' # ?t)) = Some (k, CHR '':'' # ?t)"
      by (rule str_body_quote[OF \<open>utf8_valid k\<close>])
    have v: "p_value h m (s @ w @ CHR '','' # y @ t @ r) = Inr (v, w @ CHR '','' # y @ t @ r)"
      using jm_more.IH m(2) blanks_ends[OF \<open>blanks w\<close>, of "CHR '',''" "y @ t @ r"] by simp
    show "p_members h n ((quote_string k @ '':'' @ x @ s @ w @ '','' @ y @ t) @ r) = Inr ((k, v) # d, r)"
      using m k v jm_more.IH ws_char_skip[OF \<open>blanks w\<close>, of "CHR '',''" "y @ t @ r"]
        ws_starts[OF \<open>blanks x\<close> text_starts(1)[OF \<open>jtext h v s\<close>], of "w @ CHR '','' # y @ t @ r"]
        ws_starts[OF \<open>blanks y\<close> text_starts(3)[OF \<open>jmembers h d t\<close>], of r]
      by (simp add: Let_def head_is_def quote_string_hd)
  qed
qed

lemma starts_not_bom: "jtext h v s \<Longrightarrow> is_ascii s \<Longrightarrow> \<not> prefix utf8_bom (s @ r)"
  using text_starts(1)[of h v s]
  by (cases s) (auto simp: starts_def utf8_bom_def byte_str_def is_ascii_def dest!: arg_cong[of _ _ ord])

lemma loads_text:
  assumes t: "jtext h v s" and "is_ascii s" "blanks w"
  shows "loads h (s @ w) = Inr v"
proof -
  have st: "starts s" using t by (rule text_starts)
  then have "ws (s @ w) = s @ w" using ws_starts[of "[]" s w] by (simp add: blanks_def)
  moreover have "ends_number w" using assms(3)
    by (cases w) (auto simp: blanks_def ends_number_def ws_char is_digit_def ord_def)
  then have "p_value h (length (s @ w) + 1) (s @ w) = Inr (v, w)"
    using parse_text(1)[OF t] by (simp del: p_value.simps)
  moreover have "ws w = []" using assms(3) by (simp add: blanks_def list_all_iff dropWhile_eq_Nil_conv)
  ultimately show ?thesis using starts_not_bom[OF t assms(2), of w]
    by (simp add: loads_def del: p_value.simps)
qed

section \<open>The printers\<close>

lemma jelems_join:
  "xs \<noteq> [] \<Longrightarrow> \<forall>x \<in> set xs. jtext h x (f x) \<Longrightarrow> blanks sp \<Longrightarrow> blanks w \<Longrightarrow>
     jelems h xs (join_with ('','' @ sp) (map f xs) @ w @ '']'')"
proof (induction xs rule: induct_list012)
  case (2 x)
  then show ?case by (simp add: je_one)
next
  case (3 x y zs)
  then have "jelems h (y # zs) (join_with ('','' @ sp) (map f (y # zs)) @ w @ '']'')" by simp
  with 3 have "jelems h (x # y # zs) (f x @ [] @ '','' @ sp @ join_with ('','' @ sp) (map f (y # zs)) @ w @ '']'')"
    by (intro je_more) (simp_all add: blanks_def)
  then show ?case by simp
qed simp

lemma jmembers_join:
  "d \<noteq> [] \<Longrightarrow> \<forall>kv \<in> set d. utf8_valid (fst kv) \<and> jtext h (snd kv) (f (snd kv)) \<Longrightarrow>
     blanks sp \<Longrightarrow> blanks c \<Longrightarrow> blanks w \<Longrightarrow>
     jmembers h d (join_with ('','' @ sp) (map (\<lambda>kv. quote_string (fst kv) @ '':'' @ c @ f (snd kv)) d) @ w @ ''}'')"
proof (induction d rule: induct_list012)
  case (2 kv)
  obtain k v where kv: "kv = (k, v)" by (cases kv)
  with 2 have "jmembers h [(k, v)] (quote_string k @ '':'' @ c @ f v @ w @ ''}'')"
    by (intro jm_one) simp_all
  then show ?case by (simp add: kv)
next
  case (3 kv y zs)
  let ?g = "\<lambda>kv. quote_string (fst kv) @ '':'' @ c @ f (snd kv)"
  let ?t = "join_with ('','' @ sp) (map ?g (y # zs)) @ w @ ''}''"
  obtain k v where kv: "kv = (k, v)" by (cases kv)
  have "jmembers h (y # zs) ?t" using 3 by simp
  with 3 kv have "jmembers h ((k, v) # y # zs) (quote_string k @ '':'' @ c @ f v @ [] @ '','' @ sp @ ?t)"
    by (intro jm_more) (simp_all add: blanks_def)
  then show ?case by (simp add: kv)
qed simp

lemma blanks_newline [simp]: "blanks (newline n)"
  by (simp add: blanks_def newline_def json_ws_def list_all_iff)

lemma blanks_simps [simp]: "blanks []" "blanks '' ''" "blanks [LF]"
  by (simp_all add: blanks_def json_ws_def)

lemma indented_jtext: "printable h v \<Longrightarrow> jtext h v (indented h n v)"
proof (induction v arbitrary: n)
  case (JArr xs)
  show ?case
  proof (cases "xs = []")
    case True
    then show ?thesis using jt_arr0[of "[]" h] by simp
  next
    case False
    have "\<forall>x \<in> set xs. jtext h x (indented h (Suc n) x)" using JArr by simp
    from jt_arr[OF blanks_newline jelems_join[OF False this blanks_newline blanks_newline]] False
    show ?thesis by simp
  qed
next
  case (JObj d)
  show ?case
  proof (cases "d = []")
    case True
    then show ?thesis using jt_obj0[of "[]" h] by simp
  next
    case False
    have "\<forall>kv \<in> set d. utf8_valid (fst kv) \<and> jtext h (snd kv) (indented h (Suc n) (snd kv))"
      using JObj by (auto simp: snds.simps)
    from jt_obj[OF blanks_newline jmembers_join[OF False this blanks_newline _ blanks_newline, of "'' ''"]] False JObj.prems
    show ?thesis by simp
  qed
qed (auto intro!: jt_scalar[of _ h, unfolded atom.simps] jt_scalar simp: scalar_def simp del: atom.simps
    simp flip: atom.simps)

lemma compact_jtext: "printable h v \<Longrightarrow> jtext h v (compact h v)"
proof (induction v)
  case (JArr xs)
  show ?case
  proof (cases "xs = []")
    case True
    then show ?thesis using jt_arr0[of "[]" h] by simp
  next
    case False
    have "\<forall>x \<in> set xs. jtext h x (compact h x)" using JArr by simp
    from jt_arr[OF _ jelems_join[OF False this, of "[]" "[]"], of "[]"]
    show ?thesis by simp
  qed
next
  case (JObj d)
  show ?case
  proof (cases "d = []")
    case True
    then show ?thesis using jt_obj0[of "[]" h] by simp
  next
    case False
    have "\<forall>kv \<in> set d. utf8_valid (fst kv) \<and> jtext h (snd kv) (compact h (snd kv))"
      using JObj by (auto simp: snds.simps)
    from jt_obj[OF _ jmembers_join[OF False this, of "[]" "[]" "[]"], of "[]"] JObj.prems
    show ?thesis by simp
  qed
qed (auto intro!: jt_scalar simp: scalar_def simp del: atom.simps simp flip: atom.simps)

text \<open>The texts are ASCII.\<close>

lemma is_ascii_append [simp]: "is_ascii (a @ b) \<longleftrightarrow> is_ascii a \<and> is_ascii b"
  by (simp add: is_ascii_def)

lemma is_ascii_Cons [simp]: "is_ascii (c # s) \<longleftrightarrow> ord c < 128 \<and> is_ascii s"
  by (simp add: is_ascii_def)

lemma is_ascii_Nil [simp]: "is_ascii []"
  by (simp add: is_ascii_def)

lemma is_ascii_join: "is_ascii d \<Longrightarrow> \<forall>w \<in> set xs. is_ascii w \<Longrightarrow> is_ascii (join_with d xs)"
  by (induction xs rule: induct_list012) auto

lemma is_ascii_concat: "\<forall>w \<in> set xs. is_ascii w \<Longrightarrow> is_ascii (concat xs)"
  by (induction xs) auto

lemma digits_ascii: "list_all is_digit d \<Longrightarrow> is_ascii d"
  by (auto simp: is_ascii_def list_all_iff is_digit_def)

lemma u_escape_ascii: "is_ascii (u_escape n)"
proof -
  have "ord (hex_digit d) < 128" if "d < 16" for d using that by (simp add: hex_digit_def)
  then show ?thesis by (simp add: u_escape_def ord_def[of "CHR ''u''"])
qed

lemma escape_char_ascii: "uchar ch \<Longrightarrow> is_ascii (escape_char ch)"
proof -
  assume "uchar ch"
  from escape_char_cases[OF this] show ?thesis
  proof (elim disjE exE conjE)
    fix e
    assume e: "escape_char ch = [BS, e]" "simple_escape e = Some ch"
    then have "e = DQ \<or> e = BS \<or> e \<in> set ''/bfnrt''" by (auto split: if_splits)
    then have "ord e < 128" by (auto simp: DQ_def BS_def ord_def)
    with e(1) show ?thesis by simp
  qed (auto simp: u_escape_ascii)
qed

lemma quote_string_ascii: "utf8_valid s \<Longrightarrow> is_ascii (quote_string s)"
  using utf8_valid_chars[of s]
  by (auto simp: quote_string_def escape_char_ascii intro!: is_ascii_concat)

lemma float_ascii: "float_ok h m k \<Longrightarrow> is_ascii (float_repr h m k)"
  unfolding float_ok_def float_text_def
  by (elim exE conjE disjE) (auto simp: digits_ascii ord_def)

lemma atom_ascii: "scalar v \<Longrightarrow> printable h v \<Longrightarrow> is_ascii (atom h v)"
proof (cases v)
  case (JInt n)
  have "is_ascii (show_nat m)" for m using show_nat_digits[of m] by (simp add: digits_ascii list_all_iff)
  with JInt show ?thesis by (simp add: show_int_def ord_def)
next
  case (JFloat m k)
  assume "printable h v"
  with JFloat show ?thesis by (simp add: float_ascii)
qed (auto simp: scalar_def ord_def quote_string_ascii)

lemma newline_ascii: "is_ascii (newline n)"
proof -
  have "ord (CHR '' '') < 128" by (simp add: ord_def)
  then show ?thesis by (simp add: newline_def is_ascii_def list_all_iff)
qed

lemma indented_ascii: "printable h v \<Longrightarrow> is_ascii (indented h n v)"
proof (induction v arbitrary: n)
  case (JArr xs)
  have "\<forall>w \<in> set (map (indented h (Suc n)) xs). is_ascii w" using JArr by simp
  then have "is_ascii (join_with ('','' @ newline (Suc n)) (map (indented h (Suc n)) xs))"
    by (intro is_ascii_join) (simp add: newline_ascii ord_def)
  then show ?case by (simp add: newline_ascii ord_def)
next
  case (JObj d)
  let ?g = "\<lambda>kv. quote_string (fst kv) @ '': '' @ indented h (Suc n) (snd kv)"
  have "\<forall>w \<in> set (map ?g d). is_ascii w"
    using JObj by (auto simp: snds.simps quote_string_ascii ord_def)
  then have "is_ascii (join_with ('','' @ newline (Suc n)) (map ?g d))"
    by (intro is_ascii_join) (simp add: newline_ascii ord_def)
  then show ?case by (simp add: newline_ascii ord_def)
qed (auto intro!: atom_ascii simp: scalar_def simp del: atom.simps simp flip: atom.simps)

lemma compact_ascii: "printable h v \<Longrightarrow> is_ascii (compact h v)"
proof (induction v)
  case (JArr xs)
  have "\<forall>w \<in> set (map (compact h) xs). is_ascii w" using JArr by simp
  then have "is_ascii (join_with '','' (map (compact h) xs))"
    by (intro is_ascii_join) (simp add: ord_def)
  then show ?case by (simp add: ord_def)
next
  case (JObj d)
  let ?g = "\<lambda>kv. quote_string (fst kv) @ '':'' @ compact h (snd kv)"
  have "\<forall>w \<in> set (map ?g d). is_ascii w"
    using JObj by (auto simp: snds.simps quote_string_ascii ord_def)
  then have "is_ascii (join_with '','' (map ?g d))"
    by (intro is_ascii_join) (simp add: ord_def)
  then show ?case by (simp add: ord_def)
qed (auto intro!: atom_ascii simp: scalar_def simp del: atom.simps simp flip: atom.simps)

section \<open>Round trips\<close>

lemma stored_ascii: "printable h v \<Longrightarrow> is_ascii (stored_json h v)"
  by (simp add: stored_json_def indented_ascii)

lemma loads_stored: "printable h v \<Longrightarrow> loads h (stored_json h v) = Inr v"
  unfolding stored_json_def by (intro loads_text indented_jtext indented_ascii) simp_all

lemma decode_stored: "printable h (JObj d) \<Longrightarrow> decode_json_object h (stored_json h (JObj d)) label = Inr d"
  using stored_ascii[of h "JObj d"] loads_stored[of h "JObj d"]
  by (simp add: decode_json_object_def ascii_utf8_valid)

lemma loads_compact: "printable h v \<Longrightarrow> loads h (compact h v) = Inr v"
  using loads_text[of h v "compact h v" "[]"] by (simp add: compact_jtext compact_ascii)

lemma printable_sort_keys: "printable h v \<Longrightarrow> printable h (sort_keys v)"
proof (induction v)
  case (JObj d)
  let ?d = "map (\<lambda>kv. (fst kv, sort_keys (snd kv))) d"
  have "distinct (map fst ?d)" using JObj.prems by (simp add: comp_def)
  then have "distinct (map fst (sort_key fst ?d))"
    using mset_eq_imp_distinct_iff[of "map fst (sort_key fst ?d)" "map fst ?d"]
    unfolding mset_map mset_sort by blast
  then show ?case using JObj by (auto simp: snds.simps)
qed auto

text \<open>What is hashed determines the value up to the order of keys.\<close>

lemma canonical_inject:
  assumes "printable h u" "printable h v" "canonical h u = canonical h v"
  shows "sort_keys u = sort_keys v"
proof -
  have "loads h (canonical h u) = Inr (sort_keys u)" "loads h (canonical h v) = Inr (sort_keys v)"
    unfolding canonical_def using assms(1,2) by (auto intro: loads_compact printable_sort_keys simp del: compact.simps sort_keys.simps)
  then have "(Inr (sort_keys u) :: json result) = Inr (sort_keys v)" unfolding assms(3) by (rule trans[OF sym])
  then show ?thesis by (rule Inr_inject)
qed

section \<open>Plain text\<close>

text \<open>Printable ASCII without a quote and a backslash is quoted as it is.\<close>

lemma char_of_eq: "c = char_of (n::nat) \<longleftrightarrow> ord c = n mod 256" "char_of n = c \<longleftrightarrow> ord c = n mod 256"
proof -
  have "c = char_of n \<longleftrightarrow> ord c = ord (char_of n)" by (simp only: ord_inject)
  then show "c = char_of n \<longleftrightarrow> ord c = n mod 256" "char_of n = c \<longleftrightarrow> ord c = n mod 256"
    by (simp_all only: ord_char_of_mod) metis
qed

definition plain_text :: "string \<Rightarrow> bool" where
  "plain_text s \<longleftrightarrow> list_all (\<lambda>c. 32 \<le> ord c \<and> ord c < 127 \<and> ord c \<noteq> 34 \<and> ord c \<noteq> 92) s"

lemma escape_plain: "32 \<le> ord c \<Longrightarrow> ord c < 127 \<Longrightarrow> ord c \<noteq> 34 \<Longrightarrow> ord c \<noteq> 92 \<Longrightarrow> escape_char [c] = [c]"
proof -
  assume c: "32 \<le> ord c" "ord c < 127" "ord c \<noteq> 34" "ord c \<noteq> 92"
  then have "c \<noteq> DQ" "c \<noteq> BS" "c \<noteq> LF" "c \<noteq> CR" "c \<noteq> TAB" by auto
  moreover have "[c] \<noteq> byte_str [8]" "[c] \<noteq> byte_str [12]"
    using c(1) by (auto simp: byte_str_def char_of_eq)
  ultimately show ?thesis using c by (simp add: escape_char_def code_point_def)
qed

lemma quote_plain: "plain_text s \<Longrightarrow> quote_string s = DQ # s @ [DQ]"
proof -
  assume p: "plain_text s"
  then have "is_ascii s" by (auto simp: plain_text_def is_ascii_def list_all_iff)
  then have "map escape_char (chars s) = map (\<lambda>c. [c]) s"
    using p by (auto simp: chars_ascii plain_text_def list_all_iff escape_plain)
  then have "concat (map escape_char (chars s)) = s" by simp
  then show ?thesis by (simp add: quote_string_def)
qed

end
