(* ===== verification/RepoFs.thy ===== *)
theory RepoFs
  imports JsonSpec
begin

text \<open>
  The repository file system that the governance engine works on, and its guarded access
  layer (\<open>scripts/bringup_loop.py\<close>, lines 184 to 644).  A file tree is a map from paths
  below the repository root to nodes with their metadata.  Operations that change the tree
  are state transformers which may fail, or be killed, at every system call: a list of
  faults decides what each call does, so a statement for all worlds covers every partial
  commit.
\<close>

unbundle bit_operations_syntax

section \<open>Nodes\<close>

datatype ftype = F_REG | F_DIR | F_LNK | F_OTHER

record stat_result =
  st_type :: ftype
  st_perm :: nat
  st_nlink :: nat
  st_uid :: nat
  st_gid :: nat
  st_dev :: nat
  st_ino :: nat
  st_size :: nat
  st_mtime :: nat
  st_ctime :: nat

record node =
  st :: stat_result
  contents :: bytes

type_synonym path = "string list"
type_synonym tree = "path \<Rightarrow> node option"

text \<open>A system call succeeds, fails after some bytes of a write, or never returns.\<close>

datatype fault = Fine | Fail nat | Kill nat

record world =
  files :: tree
  faults :: "fault list"
  clock :: nat

section \<open>Steps on the world\<close>

type_synonym 'a io = "world \<Rightarrow> 'a result \<times> world"

definition retI :: "'a \<Rightarrow> 'a io" where
  "retI x = (\<lambda>w. (Inr x, w))"

definition raiseI :: "exc \<Rightarrow> 'a io" where
  "raiseI e = (\<lambda>w. (Inl e, w))"

definition bindI :: "'a io \<Rightarrow> ('a \<Rightarrow> 'b io) \<Rightarrow> 'b io" where
  "bindI m f = (\<lambda>w. case m w of (Inl e, w') \<Rightarrow> (Inl e, w') | (Inr x, w') \<Rightarrow> f x w')"

text \<open>A fallible step that does not look at the world, and one that reads the tree.\<close>

definition liftI :: "'a result \<Rightarrow> 'a io" where
  "liftI r = (\<lambda>w. (r, w))"

definition readI :: "(tree \<Rightarrow> 'a result) \<Rightarrow> 'a io" where
  "readI q = (\<lambda>w. (q (files w), w))"

text \<open>\<open>try: m finally: c\<close> where the exceptions of \<open>c\<close> are swallowed by \<open>c\<close> itself, and
  \<open>except e: handler\<close>.  A killed process runs neither.\<close>

definition on_error :: "'a io \<Rightarrow> unit io \<Rightarrow> 'a io" where
  "on_error m c = (\<lambda>w. case m w of
       (Inl e, w') \<Rightarrow> if e = ProcessKilled then (Inl e, w')
         else (case c w' of (Inl ProcessKilled, w'') \<Rightarrow> (Inl ProcessKilled, w'') | (_, w'') \<Rightarrow> (Inl e, w''))
     | (Inr x, w') \<Rightarrow> (Inr x, w'))"

definition map_error :: "(exc \<Rightarrow> exc) \<Rightarrow> 'a io \<Rightarrow> 'a io" where
  "map_error g m = (\<lambda>w. case m w of
       (Inl e, w') \<Rightarrow> (Inl (if e = ProcessKilled then e else g e), w')
     | (Inr x, w') \<Rightarrow> (Inr x, w'))"

text \<open>One system call that changes the tree by \<open>g\<close> or not at all.\<close>

definition next_fault :: "world \<Rightarrow> fault \<times> world" where
  "next_fault w = (case faults w of [] \<Rightarrow> (Fine, w) | f # fs \<Rightarrow> (f, w\<lparr>faults := fs\<rparr>))"

definition syscall :: "(nat \<Rightarrow> tree \<Rightarrow> tree) \<Rightarrow> unit io" where
  "syscall g = (\<lambda>w. case next_fault w of
       (Fine, w') \<Rightarrow> (Inr (), w'\<lparr>files := g (clock w') (files w'), clock := clock w' + 1\<rparr>)
     | (Fail _, w') \<Rightarrow> (Inl PyOSError, w')
     | (Kill _, w') \<Rightarrow> (Inl ProcessKilled, w'))"

text \<open>\<open>os.fsync\<close>\<close>

definition sys_sync :: "unit io" where
  "sys_sync = syscall (\<lambda>_ t. t)"

section \<open>Metadata checks\<close>

definition safe_owner_mode :: "host \<Rightarrow> stat_result \<Rightarrow> bool" where
  "safe_owner_mode h s \<longleftrightarrow> (st_uid s = 0 \<or> st_uid s = euid h) \<and> st_perm s AND 18 = 0"

definition validate_safe_owner_mode :: "host \<Rightarrow> stat_result \<Rightarrow> string \<Rightarrow> unit result" where
  "validate_safe_owner_mode h s label =
     (if st_uid s \<noteq> 0 \<and> st_uid s \<noteq> euid h then Inl (Refusal (label @ '' has an untrusted owner''))
      else if st_perm s AND 18 \<noteq> 0 then Inl (Refusal (label @ '' is group/world writable''))
      else Inr ())"

definition validate_regular_stat :: "host \<Rightarrow> stat_result \<Rightarrow> string \<Rightarrow> unit result" where
  "validate_regular_stat h s label =
     (if st_type s \<noteq> F_REG then Inl (Refusal (label @ '' is not a regular file''))
      else if st_nlink s \<noteq> 1 then Inl (Refusal (label @ '' must not be hard-linked''))
      else validate_safe_owner_mode h s label)"

definition same_file_state :: "stat_result \<Rightarrow> stat_result \<Rightarrow> bool" where
  "same_file_state a b \<longleftrightarrow>
     (st_dev a, st_ino a, st_type a, st_perm a, st_nlink a, st_size a, st_mtime a, st_ctime a) =
     (st_dev b, st_ino b, st_type b, st_perm b, st_nlink b, st_size b, st_mtime b, st_ctime b)"

section \<open>Paths\<close>

definition char_category_C :: "host \<Rightarrow> string \<Rightarrow> bool" where
  "char_category_C h ch \<longleftrightarrow> (case ch of [c] \<Rightarrow> if ord c < 128 then is_control c else category_C h ch
      | _ \<Rightarrow> category_C h ch)"

definition has_category_C :: "host \<Rightarrow> string \<Rightarrow> bool" where
  "has_category_C h s \<longleftrightarrow> list_ex (char_category_C h) (chars s)"

text \<open>\<open>posixpath.normpath\<close>\<close>

fun norm_comps :: "bool \<Rightarrow> string list \<Rightarrow> string list \<Rightarrow> string list" where
  "norm_comps slash acc [] = acc"
| "norm_comps slash acc (c # cs) =
     (if c = [] \<or> c = ''.'' then norm_comps slash acc cs
      else if c \<noteq> ''..'' \<or> (\<not> slash \<and> acc = []) \<or> (acc \<noteq> [] \<and> last acc = ''..'')
        then norm_comps slash (acc @ [c]) cs
      else if acc \<noteq> [] then norm_comps slash (butlast acc) cs
      else norm_comps slash acc cs)"

definition posix_normpath :: "string \<Rightarrow> string" where
  "posix_normpath p =
     (if p = [] then ''.''
      else (let slashes = (if prefix ''//'' p \<and> \<not> prefix ''///'' p then ''//''
                           else if prefix ''/'' p then ''/'' else []);
                r = slashes @ join_with ''/'' (norm_comps (slashes \<noteq> []) [] (split_on (CHR ''/'') p))
            in if r = [] then ''.'' else r))"

definition canonical_repo_relative_path :: "host \<Rightarrow> json \<Rightarrow> string \<Rightarrow> string result" where
  "canonical_repo_relative_path h v label =
     (case v of
        JStr p \<Rightarrow>
          if p = [] then Inl (Refusal (label @ '' path must be a non-empty repo-relative path''))
          else if has_category_C h p
            then Inl (Refusal (label @ '' path contains a control or formatting character''))
          else if BS \<in> set p then Inl (Refusal (label @ '' path must use canonical '/' separators''))
          else if prefix ''/'' p then Inl (Refusal (label @ '' path must stay inside the repository''))
          else (let cs = split_on (CHR ''/'') p in
            if ''..'' \<in> set cs then Inl (Refusal (label @ '' path must stay inside the repository''))
            else if list_ex (\<lambda>c. c = [] \<or> c = ''.'') cs \<or> posix_normpath p \<noteq> p
              then Inl (Refusal (label @ '' path must use canonical repo-relative form''))
            else Inr p)
      | _ \<Rightarrow> Inl (Refusal (label @ '' path must be a non-empty repo-relative path'')))"

definition comps :: "string \<Rightarrow> path" where
  "comps p = split_on (CHR ''/'') p"

section \<open>Opening\<close>

definition classify_open_error :: "tree \<Rightarrow> path \<Rightarrow> string \<Rightarrow> exc" where
  "classify_open_error t p label = (case t p of
       Some n \<Rightarrow> if st_type (st n) = F_LNK then Refusal (label @ '' path contains a symlink'')
         else Refusal (label @ '' path component is not a safe directory/file'')
     | None \<Rightarrow> Refusal (label @ '' is not a regular file''))"

fun walk_parents :: "host \<Rightarrow> tree \<Rightarrow> path \<Rightarrow> string list \<Rightarrow> string \<Rightarrow> path result" where
  "walk_parents h t dir [] label = Inr dir"
| "walk_parents h t dir (c # cs) label =
     (case t (dir @ [c]) of
        None \<Rightarrow> Inl (classify_open_error t (dir @ [c]) label)
      | Some n \<Rightarrow>
          if st_type (st n) \<noteq> F_DIR then Inl (classify_open_error t (dir @ [c]) label)
          else bindE (validate_safe_owner_mode h (st n) (label @ '' directory ancestry'')) (\<lambda>_.
               walk_parents h t (dir @ [c]) cs label))"

text \<open>The result is the path of the parent directory and the leaf.\<close>

definition open_repo_parent :: "host \<Rightarrow> tree \<Rightarrow> json \<Rightarrow> string \<Rightarrow> (path \<times> string) result" where
  "open_repo_parent h t rel label =
     bindE (canonical_repo_relative_path h rel label) (\<lambda>p.
       (case t [] of
          None \<Rightarrow> Inl (Refusal ''repository root is not a safe directory'')
        | Some n \<Rightarrow>
            if st_type (st n) \<noteq> F_DIR then Inl (Refusal ''repository root is not a safe directory'')
            else bindE (validate_safe_owner_mode h (st n) ''repository root'') (\<lambda>_.
                 bindE (walk_parents h t [] (butlast (comps p)) label) (\<lambda>dir.
                 Inr (dir, last (comps p))))))"

definition open_existing_at :: "host \<Rightarrow> tree \<Rightarrow> path \<Rightarrow> string \<Rightarrow> node result" where
  "open_existing_at h t p label = (case t p of
       None \<Rightarrow> Inl (classify_open_error t p label)
     | Some n \<Rightarrow>
         if st_type (st n) = F_LNK then Inl (classify_open_error t p label)
         else bindE (validate_regular_stat h (st n) label) (\<lambda>_. Inr n))"

definition open_repo_regular_file :: "host \<Rightarrow> tree \<Rightarrow> json \<Rightarrow> string \<Rightarrow> (string \<times> node) result" where
  "open_repo_regular_file h t rel label =
     bindE (open_repo_parent h t rel label) (\<lambda>(dir, leaf).
     bindE (open_existing_at h t (dir @ [leaf]) label) (\<lambda>n.
     Inr (str_val rel, n)))"

section \<open>Reading\<close>

definition HASH_CHUNK_SIZE :: nat where "HASH_CHUNK_SIZE = 1024 * 1024"
definition MAX_JSON_BYTES :: nat where "MAX_JSON_BYTES = 8 * 1024 * 1024"
definition MAX_LEDGER_BYTES :: nat where "MAX_LEDGER_BYTES = 64 * 1024 * 1024"

text \<open>What successive \<open>os.read\<close> calls return before the empty read at the end of file.\<close>

function chunks_of :: "nat \<Rightarrow> bytes \<Rightarrow> bytes list" where
  "chunks_of k bs = (if bs = [] then [] else take (Suc k) bs # chunks_of k (drop (Suc k) bs))"
  by pat_completeness auto
termination
  by (relation "measure (\<lambda>(k, bs). length bs)") auto

declare chunks_of.simps [simp del]

lemma concat_chunks_of [simp]: "concat (chunks_of k bs) = bs"
  by (induction k bs rule: chunks_of.induct) (subst chunks_of.simps, auto)

text \<open>\<open>_read_fd_all\<close>: the reads, the running total against the limit, the state after.\<close>

fun read_chunks :: "nat \<Rightarrow> nat \<Rightarrow> bytes list \<Rightarrow> bytes result" where
  "read_chunks maximum n0 [] = Inr []"
| "read_chunks maximum n0 (c # cs) =
     (if n0 + length c > maximum then Inl (Refusal ''exceeds the safety limit'')
      else bindE (read_chunks maximum (n0 + length c) cs) (\<lambda>r. Inr (c @ r)))"

definition read_fd_all :: "stat_result \<Rightarrow> bytes list \<Rightarrow> stat_result \<Rightarrow> string \<Rightarrow> nat \<Rightarrow> bytes result" where
  "read_fd_all before cs after label maximum =
     (if st_size before > maximum then Inl (Refusal (label @ '' exceeds the safety limit''))
      else bindE (read_chunks maximum 0 cs) (\<lambda>data.
        if length data \<noteq> st_size before \<or> \<not> same_file_state before after
        then Inl (Refusal (label @ '' changed while it was being read''))
        else Inr data))"

definition read_repo_regular_file :: "host \<Rightarrow> tree \<Rightarrow> json \<Rightarrow> string \<Rightarrow> nat \<Rightarrow> (string \<times> bytes) result" where
  "read_repo_regular_file h t rel label maximum =
     bindE (open_repo_regular_file h t rel label) (\<lambda>(p, n).
     bindE (read_fd_all (st n) (chunks_of (HASH_CHUNK_SIZE - 1) (contents n)) (st n) label maximum) (\<lambda>data.
     Inr (p, data)))"

definition hash_repo_regular_file :: "host \<Rightarrow> tree \<Rightarrow> json \<Rightarrow> string \<Rightarrow> (string \<times> string \<times> nat) result" where
  "hash_repo_regular_file h t rel label =
     bindE (open_repo_regular_file h t rel label) (\<lambda>(p, n).
       (let data = concat (chunks_of (HASH_CHUNK_SIZE - 1) (contents n)) in
        if length data \<noteq> st_size (st n) \<or> \<not> same_file_state (st n) (st n)
        then Inl (Refusal (label @ '' changed while it was being hashed''))
        else Inr (p, sha256 h data, length data)))"

definition load_repo_json :: "host \<Rightarrow> tree \<Rightarrow> string \<Rightarrow> string \<Rightarrow> (dict \<times> bytes) result" where
  "load_repo_json h t rel label =
     bindE (read_repo_regular_file h t (JStr rel) label MAX_JSON_BYTES) (\<lambda>(p, data).
     bindE (decode_json_object h data label) (\<lambda>d. Inr (d, data)))"

definition repo_entry_exists :: "host \<Rightarrow> tree \<Rightarrow> string \<Rightarrow> string \<Rightarrow> bool result" where
  "repo_entry_exists h t rel label =
     bindE (open_repo_parent h t (JStr rel) label) (\<lambda>(dir, leaf).
       (case t (dir @ [leaf]) of
          None \<Rightarrow> Inr False
        | Some n \<Rightarrow> if st_type (st n) = F_LNK then Inl (Refusal (label @ '' is a symlink'')) else Inr True))"

section \<open>Changing the tree\<close>

definition fresh_stat :: "host \<Rightarrow> ftype \<Rightarrow> nat \<Rightarrow> nat \<Rightarrow> stat_result" where
  "fresh_stat h ty perm now = \<lparr>st_type = ty, st_perm = perm, st_nlink = (if ty = F_DIR then 2 else 1),
     st_uid = euid h, st_gid = egid h, st_dev = 0, st_ino = now, st_size = 0, st_mtime = now, st_ctime = now\<rparr>"

definition new_node :: "host \<Rightarrow> ftype \<Rightarrow> nat \<Rightarrow> nat \<Rightarrow> node" where
  "new_node h ty perm now = \<lparr>st = fresh_stat h ty perm now, contents = []\<rparr>"

definition append_node :: "bytes \<Rightarrow> nat \<Rightarrow> node \<Rightarrow> node" where
  "append_node data now n = n\<lparr>contents := contents n @ data,
     st := (st n)\<lparr>st_size := length (contents n @ data), st_mtime := now, st_ctime := now\<rparr>\<rparr>"

definition update_node :: "path \<Rightarrow> (node \<Rightarrow> node) \<Rightarrow> tree \<Rightarrow> tree" where
  "update_node p g t = t(p := map_option g (t p))"

text \<open>\<open>os.mkdir\<close> and \<open>os.open(..., O_CREAT | O_EXCL)\<close>\<close>

definition sys_create :: "host \<Rightarrow> path \<Rightarrow> ftype \<Rightarrow> nat \<Rightarrow> unit io" where
  "sys_create h p ty perm = (\<lambda>w.
     if files w p \<noteq> None then (Inl PyFileExistsError, w)
     else syscall (\<lambda>now t. t(p \<mapsto> new_node h ty perm now)) w)"

text \<open>\<open>_write_all\<close> on a file opened for appending, or on a new file.  A failing call may
  have written a prefix.\<close>

definition sys_write :: "path \<Rightarrow> bytes \<Rightarrow> unit io" where
  "sys_write p data = (\<lambda>w.
     (let put = (\<lambda>bs w'. w'\<lparr>files := update_node p (append_node bs (clock w')) (files w'),
                             clock := clock w' + 1\<rparr>) in
      case next_fault w of
        (Fine, w') \<Rightarrow> (Inr (), put data w')
      | (Fail k, w') \<Rightarrow> (Inl PyOSError, put (take k data) w')
      | (Kill k, w') \<Rightarrow> (Inl ProcessKilled, put (take k data) w')))"

definition sys_chmod_own :: "path \<Rightarrow> nat \<Rightarrow> nat \<Rightarrow> nat \<Rightarrow> unit io" where
  "sys_chmod_own p uid gid perm = syscall (\<lambda>now. update_node p (\<lambda>n.
     n\<lparr>st := (st n)\<lparr>st_uid := uid, st_gid := gid, st_perm := perm, st_ctime := now\<rparr>\<rparr>))"

definition sys_rename :: "path \<Rightarrow> path \<Rightarrow> unit io" where
  "sys_rename src dst = syscall (\<lambda>now t. (t(dst := t src))(src := None))"

definition sys_unlink :: "path \<Rightarrow> unit io" where
  "sys_unlink p = syscall (\<lambda>_ t. t(p := None))"

section \<open>The writers\<close>

text \<open>
  \<open>atomic_write_repo_json\<close>.  The name of the temporary file, random in the code, is an
  argument.  First the destination and the pre-conditions, then the replacement.
\<close>

definition existing_destination :: "host \<Rightarrow> tree \<Rightarrow> path \<Rightarrow> node option result" where
  "existing_destination h t p =
     (case t p of
        None \<Rightarrow> Inr None
      | Some _ \<Rightarrow> bindE (open_existing_at h t p ''JSON destination'') (\<lambda>n. Inr (Some n)))"

definition check_destination ::
  "host \<Rightarrow> node option \<Rightarrow> string option \<Rightarrow> bool \<Rightarrow> unit result" where
  "check_destination h ex expected must_not_exist =
     (case ex of
        Some n \<Rightarrow>
          if must_not_exist then Inl (Refusal ''destination already exists'')
          else (case expected of
              Some d \<Rightarrow> if \<not> same_file_state (st n) (st n) \<or> sha256 h (contents n) \<noteq> d
                then Inl (Refusal ''destination changed before atomic write'') else Inr ()
            | None \<Rightarrow> Inr ())
      | None \<Rightarrow> if expected \<noteq> None then Inl (Refusal ''destination disappeared before atomic write'')
          else Inr ())"

definition replace_file :: "host \<Rightarrow> path \<Rightarrow> string \<Rightarrow> node option \<Rightarrow> path \<Rightarrow> bytes \<Rightarrow> unit io" where
  "replace_file h dir tmp ex p encoded =
     (let mode = (case ex of Some n \<Rightarrow> st_perm (st n) | None \<Rightarrow> 384);
          uid = (case ex of Some n \<Rightarrow> st_uid (st n) | None \<Rightarrow> euid h);
          gid = (case ex of Some n \<Rightarrow> st_gid (st n) | None \<Rightarrow> egid h)
      in bindI (sys_create h (dir @ [tmp]) F_REG mode) (\<lambda>_.
         on_error
           (bindI (sys_chmod_own (dir @ [tmp]) uid gid mode) (\<lambda>_.
            bindI (sys_write (dir @ [tmp]) encoded) (\<lambda>_.
            bindI sys_sync (\<lambda>_.
            bindI (readI (\<lambda>t. case ex of
                None \<Rightarrow> Inr ()
              | Some n \<Rightarrow> bindE (open_existing_at h t p ''JSON destination'') (\<lambda>v.
                  if same_file_state (st n) (st v) then Inr ()
                  else Inl (Refusal ''destination changed before atomic replace'')))) (\<lambda>_.
            sys_rename (dir @ [tmp]) p)))))
           (sys_unlink (dir @ [tmp]))))"

definition atomic_write_repo_json ::
  "host \<Rightarrow> string \<Rightarrow> string \<Rightarrow> dict \<Rightarrow> string option \<Rightarrow> bool \<Rightarrow> unit io" where
  "atomic_write_repo_json h tmp rel value expected must_not_exist =
     bindI (readI (\<lambda>t. open_repo_parent h t (JStr rel) ''JSON destination'')) (\<lambda>(dir, leaf).
     bindI (readI (\<lambda>t. existing_destination h t (dir @ [leaf]))) (\<lambda>ex.
     bindI (liftI (check_destination h ex expected must_not_exist)) (\<lambda>_.
     bindI (replace_file h dir tmp ex (dir @ [leaf]) (stored_json h (JObj value))) (\<lambda>_.
     sys_sync))))"

definition ensure_repo_directory :: "host \<Rightarrow> string \<Rightarrow> string \<Rightarrow> unit io" where
  "ensure_repo_directory h rel label =
     bindI (readI (\<lambda>t. open_repo_parent h t (JStr rel) label)) (\<lambda>(dir, leaf).
     bindI (\<lambda>w. case sys_create h (dir @ [leaf]) F_DIR 448 w of
              (Inl PyFileExistsError, w') \<Rightarrow> (Inr (), w')
            | (Inl e, w') \<Rightarrow> (Inl e, w')
            | (Inr _, w') \<Rightarrow> sys_sync w') (\<lambda>_.
     readI (\<lambda>t. case t (dir @ [leaf]) of
         None \<Rightarrow> Inl (classify_open_error t (dir @ [leaf]) label)
       | Some n \<Rightarrow> if st_type (st n) \<noteq> F_DIR then Inl (classify_open_error t (dir @ [leaf]) label)
           else Inr ())))"

definition unlink_repo_regular_file :: "host \<Rightarrow> string \<Rightarrow> string \<Rightarrow> unit io" where
  "unlink_repo_regular_file h rel label =
     bindI (readI (\<lambda>t. open_repo_parent h t (JStr rel) label)) (\<lambda>(dir, leaf).
     bindI (readI (\<lambda>t. open_existing_at h t (dir @ [leaf]) label)) (\<lambda>_.
     bindI (sys_unlink (dir @ [leaf])) (\<lambda>_.
     sys_sync)))"

text \<open>
  \<open>os.open\<close> with \<open>O_CREAT | O_NOFOLLOW\<close> and without \<open>O_EXCL\<close>: for the lock and the ledger.
  A symlink or a directory in the way is refused.
\<close>

definition open_or_create :: "host \<Rightarrow> path \<Rightarrow> string \<Rightarrow> unit io" where
  "open_or_create h p label = (\<lambda>w. case files w p of
       None \<Rightarrow> (case syscall (\<lambda>now t. t(p \<mapsto> new_node h F_REG 384 now)) w of
           (Inl PyOSError, w') \<Rightarrow> (Inl (classify_open_error (files w') p label), w')
         | r \<Rightarrow> r)
     | Some n \<Rightarrow> if st_type (st n) \<in> {F_LNK, F_DIR} then (Inl (classify_open_error (files w) p label), w)
         else (liftI (validate_regular_stat h (st n) label)) w)"

text \<open>
  \<open>governance_lock\<close>.  A command that holds the lock runs alone, so the check that the lock
  file is still the one that was opened compares a file with itself.
\<close>

definition governance_lock :: "host \<Rightarrow> 'a io \<Rightarrow> 'a io" where
  "governance_lock h body =
     bindI (ensure_repo_directory h ''notes/bringup-claims'' ''claims directory'') (\<lambda>_.
     bindI (readI (\<lambda>t. open_repo_parent h t (JStr ''notes/bringup-claims/.lock'') ''governance lock'')) (\<lambda>(dir, leaf).
     bindI (open_or_create h (dir @ [leaf]) ''governance lock'') (\<lambda>_.
     bindI (readI (\<lambda>t. open_existing_at h t (dir @ [leaf]) ''governance lock'')) (\<lambda>_.
     body))))"

end
