(* ===== verification/Records.thy ===== *)
theory Records
  imports RepoFs
begin

text \<open>
  The record schema of \<open>scripts/bringup_loop.py\<close>: the operation table, the constants and
  policy files, the single structural validator, the exact command a record must carry,
  and the digest of an action.
\<close>

section \<open>Tables\<close>

definition SCHEMA_VERSION :: int where "SCHEMA_VERSION = 4"

definition FORBIDDEN_COMMAND_WORDS :: "string list" where
  "FORBIDDEN_COMMAND_WORDS = [''--disable-verification'', ''--disable-verity'', ''--force'', ''erase'',
     ''flashing lock'', ''format'', ''oem lock'', ''repartition'', ''set_active'']"

definition TIERS :: "string list" where
  "TIERS = [''read_only'', ''volatile'', ''ram_rw'', ''persistent'']"

definition OUTCOMES :: "string list" where
  "OUTCOMES = [''success'', ''failure'', ''timeout'', ''unknown'']"

text \<open>operation, tier, fixed target or none, artifact required\<close>

definition OPERATIONS :: "(string \<times> string \<times> string option \<times> bool) list" where
  "OPERATIONS =
     [(''device_reboot'', ''volatile'', Some ''device'', False),
      (''ram_boot'', ''ram_rw'', Some ''ram'', True),
      (''runtime_handoff'', ''ram_rw'', Some ''initramfs'', False),
      (''partition_write'', ''persistent'', None, True)]"

definition ops_of_tier :: "string \<Rightarrow> string list" where
  "ops_of_tier tier = map fst (filter (\<lambda>o1. fst (snd o1) = tier) OPERATIONS)"

definition RECORD_FIELDS_READ_ONLY :: "string list" where
  "RECORD_FIELDS_READ_ONLY = [''schema_version'', ''status'', ''experiment_id'', ''tier'', ''hypothesis'',
     ''discriminator'', ''next_if_positive'', ''next_if_negative'', ''timebox_seconds'', ''lanes'',
     ''observations'', ''result'']"

definition RECORD_FIELDS_ACTION :: "string list" where
  "RECORD_FIELDS_ACTION = RECORD_FIELDS_READ_ONLY @ [''action'', ''gates'', ''repeat_guard'', ''receipt'']"

definition ACTION_FIELDS :: "string list" where
  "ACTION_FIELDS = [''operation'', ''target'', ''profile'', ''profile_sha256'', ''artifact'',
     ''artifact_sha256'', ''artifact_size'', ''exact_command'']"

definition GATES_FIELDS :: "string list" where
  "GATES_FIELDS = [''identity'', ''persistent_media'', ''rollback'']"

definition POLICY_FIELDS :: "string list" where
  "POLICY_FIELDS = [''schema_version'', ''enabled'', ''revision'', ''authorized_by'', ''authorization_note'',
     ''standing_scopes'', ''authorized_profiles'', ''manual_only'']"

definition SCOPE_FIELDS :: "string list" where
  "SCOPE_FIELDS = [''tier'', ''operation'', ''target'']"

definition AUTHORIZED_PROFILE_FIELDS :: "string list" where
  "AUTHORIZED_PROFILE_FIELDS = [''profile_path'', ''profile_sha256'', ''targets'', ''authorized_by'', ''note'']"

definition REPEAT_GUARD_FIELDS :: "string list" where
  "REPEAT_GUARD_FIELDS = [''prior_experiment_id'', ''changed_discriminator'', ''evidence_report'',
     ''evidence_report_sha256'']"

definition ROLLBACK_FIELDS :: "string list" where
  "ROLLBACK_FIELDS = [''target'', ''path'', ''sha256'', ''size'']"

definition PROFILE_ARTIFACT_FIELDS :: "string list" where
  "PROFILE_ARTIFACT_FIELDS = [''path'', ''sha256'', ''size'']"

definition CONSTANTS_FIELDS :: "string list" where
  "CONSTANTS_FIELDS = [''schema_version'', ''expected_product'', ''battery_floor_mv'', ''receipt_ttl_seconds'',
     ''partition_targets'', ''volatile_operations'', ''ram_rw_operations'', ''persistent_operations'',
     ''forbidden_command_words'']"

section \<open>Small validators\<close>

definition is_sha256 :: "json \<Rightarrow> bool" where
  "is_sha256 v \<longleftrightarrow> is_str v \<and> is_sha256_hex (str_val v)"

text \<open>\<open>EXPERIMENT_ID_RE.fullmatch\<close>: \<open>[a-z0-9][a-z0-9-]{2,63}\<close>\<close>

definition id_start :: "char \<Rightarrow> bool" where
  "id_start c \<longleftrightarrow> is_lower c \<or> is_digit c"

definition experiment_id_ok :: "string \<Rightarrow> bool" where
  "experiment_id_ok s \<longleftrightarrow> (case s of [] \<Rightarrow> False | c # r \<Rightarrow>
     id_start c \<and> 2 \<le> length r \<and> length r \<le> 63 \<and> list_all (\<lambda>d. id_start d \<or> d = CHR ''-'') r)"

text \<open>\<open>str(v)\<close>, as far as the validator looks at it: containers start with a bracket.\<close>

fun py_str :: "host \<Rightarrow> json \<Rightarrow> string" where
  "py_str h JNull = ''None''"
| "py_str h (JBool b) = (if b then ''True'' else ''False'')"
| "py_str h (JInt n) = show_int n"
| "py_str h (JFloat m k) = float_repr h m k"
| "py_str h JNaN = ''nan''"
| "py_str h (JInf b) = (if b then ''inf'' else ''-inf'')"
| "py_str h (JStr s) = s"
| "py_str h (JArr _) = ''[...]''"
| "py_str h (JObj _) = ''{...}''"

definition validated_human_text :: "host \<Rightarrow> json \<Rightarrow> string \<Rightarrow> nat \<Rightarrow> string result" where
  "validated_human_text h v label maximum =
     (if \<not> nonempty_str v then Inl (Refusal (label @ '' must be a non-empty string''))
      else (let s = str_val v in
        if s \<noteq> py_strip s then Inl (Refusal (label @ '' must not have leading or trailing whitespace''))
        else if py_len s > maximum then Inl (Refusal (label @ '' exceeds the safety limit''))
        else if has_category_C h s then Inl (Refusal (label @ '' contains a control or formatting character''))
        else Inr s))"

text \<open>A list of unique non-empty strings (\<open>len(xs) != len(set(xs))\<close> after the type test).\<close>

definition unique_names :: "json \<Rightarrow> bool" where
  "unique_names v \<longleftrightarrow> is_arr v \<and> list_all nonempty_str (arr_val v) \<and> distinct (arr_val v)"

text \<open>\<open>frozenset(v) == expected\<close> for a list; an unhashable element raises \<open>TypeError\<close>.\<close>

definition same_string_set :: "json \<Rightarrow> string list \<Rightarrow> string \<Rightarrow> unit result" where
  "same_string_set v expected why =
     (if \<not> is_arr v then Inl (Refusal why)
      else if \<not> list_all hashable (arr_val v) then Inl PyTypeError
      else need (set (arr_val v) = set (map JStr expected)) why)"

section \<open>Constants\<close>

definition check_constants :: "dict \<Rightarrow> unit result" where
  "check_constants c =
     bindE (require_fields (JObj c) CONSTANTS_FIELDS ''constants'') (\<lambda>_.
     bindE (need (py_eq (fld c ''schema_version'') (JInt SCHEMA_VERSION)) ''constants schema_version mismatch'') (\<lambda>_.
     bindE (same_string_set (fld c ''forbidden_command_words'') FORBIDDEN_COMMAND_WORDS
              ''constants forbidden_command_words diverge'') (\<lambda>_.
     bindE (need (unique_names (fld c ''partition_targets''))
              ''constants partition_targets must be a unique list of names'') (\<lambda>_.
     bindE (need (positive_int (fld c ''battery_floor_mv''))
              ''constants battery_floor_mv must be a positive integer'') (\<lambda>_.
     bindE (need (positive_int (fld c ''receipt_ttl_seconds''))
              ''constants receipt_ttl_seconds must be a positive integer'') (\<lambda>_.
     iterE (\<lambda>(key, tier). same_string_set (fld c key) (ops_of_tier tier)
              ''constants operations diverge from the engine's operation table'')
       [(''volatile_operations'', ''volatile''), (''ram_rw_operations'', ''ram_rw''),
        (''persistent_operations'', ''persistent'')]))))))"

definition constants_rel :: string where "constants_rel = ''config/governance/constants.json''"
definition policy_rel :: string where "policy_rel = ''config/governance/policy.json''"
definition active_rel :: string where "active_rel = ''notes/bringup-active.json''"
definition claims_dir_rel :: string where "claims_dir_rel = ''notes/bringup-claims''"
definition ledger_rel :: string where "ledger_rel = claims_dir_rel @ ''/claims.log''"
definition completed_dir_rel :: string where "completed_dir_rel = ''notes/bringup-completed''"
definition logs_dir_rel :: string where "logs_dir_rel = ''logs''"

definition load_constants :: "host \<Rightarrow> tree \<Rightarrow> dict result" where
  "load_constants h t =
     bindE (load_repo_json h t constants_rel ''constants'') (\<lambda>(c, _).
     bindE (check_constants c) (\<lambda>_. Inr c))"

section \<open>Policy\<close>

text \<open>\<open>operation in OPERATIONS\<close>: an unhashable value raises \<open>TypeError\<close>.\<close>

definition lookup_operation ::
  "json \<Rightarrow> string \<Rightarrow> (string \<times> string option \<times> bool) result" where
  "lookup_operation v why =
     (if \<not> hashable v then Inl PyTypeError
      else (case v of
          JStr s \<Rightarrow> (case map_of OPERATIONS s of Some r \<Rightarrow> Inr r | None \<Rightarrow> Inl (Refusal why))
        | _ \<Rightarrow> Inl (Refusal why)))"

fun opt_str :: "string option \<Rightarrow> json" where
  "opt_str None = JNull"
| "opt_str (Some s) = JStr s"

definition check_scope :: "json \<Rightarrow> unit result" where
  "check_scope v = (case v of
       JObj s \<Rightarrow>
         bindE (require_fields v SCOPE_FIELDS ''policy scope'') (\<lambda>_.
         bindE (lookup_operation (fld s ''operation'') ''policy scope names unknown operation'')
           (\<lambda>(tier, fixed_target, _).
         bindE (need (tier \<noteq> ''persistent'')
                  ''policy standing_scopes may not contain persistent operations'') (\<lambda>_.
         bindE (need (py_eq (fld s ''tier'') (JStr tier)) ''policy scope tier mismatch'') (\<lambda>_.
         need (py_eq (fld s ''target'') (opt_str fixed_target)) ''policy scope target mismatch''))))
     | _ \<Rightarrow> Inl (Refusal ''policy scope entries must be objects''))"

definition check_profile_entry :: "host \<Rightarrow> dict \<Rightarrow> dict \<Rightarrow> string list \<Rightarrow> json \<Rightarrow> string list result" where
  "check_profile_entry h c p seen v = (case v of
       JObj e \<Rightarrow>
         bindE (require_fields v AUTHORIZED_PROFILE_FIELDS ''policy authorized profile'') (\<lambda>_.
         bindE (need (nonempty_str (fld e ''profile_path''))
                  ''authorized profile profile_path must be a non-empty string'') (\<lambda>_.
         bindE (canonical_repo_relative_path h (fld e ''profile_path'') ''authorized profile'') (\<lambda>path.
         bindE (need (JStr path = fld e ''profile_path'')
                  ''authorized profile profile_path must use canonical form'') (\<lambda>_.
         bindE (need (path \<notin> set seen) ''policy contains duplicate authorized profile path'') (\<lambda>_.
         bindE (need (is_sha256 (fld e ''profile_sha256''))
                  ''authorized profile profile_sha256 must be a SHA-256 hex digest'') (\<lambda>_.
         bindE (need (unique_names (fld e ''targets'') \<and> arr_val (fld e ''targets'') \<noteq> [] \<and>
                      set (arr_val (fld e ''targets'')) \<subseteq> set (arr_val (fld c ''partition_targets'')))
                  ''authorized profile targets must be a unique subset of partition_targets'') (\<lambda>_.
         bindE (validated_human_text h (fld e ''authorized_by'') ''authorized profile authorized_by'' 8192) (\<lambda>_.
         bindE (validated_human_text h (fld e ''note'') ''authorized profile note'' 8192) (\<lambda>_.
         bindE (need (py_eq (fld e ''authorized_by'') (fld p ''authorized_by''))
                  ''authorized profile authorized_by must equal policy authorized_by'') (\<lambda>_.
         Inr (path # seen)))))))))))
     | _ \<Rightarrow> Inl (Refusal ''policy authorized_profiles entries must be objects''))"

definition check_policy :: "host \<Rightarrow> dict \<Rightarrow> dict \<Rightarrow> unit result" where
  "check_policy h c p =
     bindE (require_fields (JObj p) POLICY_FIELDS ''policy'') (\<lambda>_.
     bindE (need (py_eq (fld p ''schema_version'') (JInt SCHEMA_VERSION)) ''policy schema_version mismatch'') (\<lambda>_.
     bindE (need (\<exists>b. fld p ''enabled'' = JBool b) ''policy enabled must be a boolean'') (\<lambda>_.
     bindE (iterE (\<lambda>k. bindE (validated_human_text h (fld p k) (''policy '' @ k) 4096) (\<lambda>_. Inr ()))
              [''revision'', ''authorized_by'', ''authorization_note'']) (\<lambda>_.
     bindE (need (is_arr (fld p ''standing_scopes'')) ''policy standing_scopes must be a list'') (\<lambda>_.
     bindE (iterE check_scope (arr_val (fld p ''standing_scopes''))) (\<lambda>_.
     bindE (need (is_arr (fld p ''authorized_profiles'')) ''policy authorized_profiles must be a list'') (\<lambda>_.
     bindE (foldE (check_profile_entry h c p) [] (arr_val (fld p ''authorized_profiles''))) (\<lambda>_.
     need (py_eq (fld p ''manual_only'') (JArr [JStr ''bootloader-relock'']))
       ''policy manual_only must remain [bootloader-relock]''))))))))"

definition load_policy :: "host \<Rightarrow> tree \<Rightarrow> dict \<Rightarrow> (dict \<times> string) result" where
  "load_policy h t c =
     bindE (load_repo_json h t policy_rel ''policy'') (\<lambda>(p, raw).
     bindE (check_policy h c p) (\<lambda>_. Inr (p, sha256 h raw)))"

section \<open>Commands\<close>

definition build_exact_command :: "string \<Rightarrow> string \<Rightarrow> string \<Rightarrow> string list result" where
  "build_exact_command operation target artifact =
     (if operation = ''device_reboot'' then Inr [''fastboot'', ''reboot'']
      else if operation = ''ram_boot'' then Inr [''fastboot'', ''boot'', artifact]
      else if operation = ''runtime_handoff'' then Inr [''telnet'', ''172.16.42.1'', ''23'']
      else if operation = ''partition_write'' then Inr [''fastboot'', ''flash'', target, artifact]
      else Inl (Refusal ''unknown operation''))"

definition check_forbidden :: "string list \<Rightarrow> unit result" where
  "check_forbidden cmd =
     need (\<not> list_ex (\<lambda>word. contains word (join_with '' '' cmd)) FORBIDDEN_COMMAND_WORDS)
       ''exact_command contains forbidden word''"

section \<open>The structural validator\<close>

definition nonblank :: "json \<Rightarrow> bool" where
  "nonblank v \<longleftrightarrow> is_str v \<and> py_strip (str_val v) \<noteq> []"

definition member :: "json \<Rightarrow> json list \<Rightarrow> bool" where
  "member v vs \<longleftrightarrow> list_ex (\<lambda>x. py_eq v x) vs"

text \<open>Lines 839 to 868: the fields every record has.\<close>

definition validate_common :: "dict \<Rightarrow> string \<Rightarrow> unit result" where
  "validate_common r tier =
     bindE (require_fields (JObj r)
              (if tier = ''read_only'' then RECORD_FIELDS_READ_ONLY else RECORD_FIELDS_ACTION) ''record'') (\<lambda>_.
     bindE (need (py_eq (fld r ''schema_version'') (JInt SCHEMA_VERSION)) ''record schema_version mismatch'') (\<lambda>_.
     bindE (need (member (fld r ''status'') [JStr ''ready'', JStr ''claimed'', JStr ''completed''])
              ''record status must be ready, claimed, or completed'') (\<lambda>_.
     bindE (need (is_str (fld r ''experiment_id'') \<and> experiment_id_ok (str_val (fld r ''experiment_id'')))
              ''record experiment_id must match ^[a-z0-9][a-z0-9-]{2,63}$'') (\<lambda>_.
     bindE (iterE (\<lambda>k. need (nonblank (fld r k)) (''record '' @ k @ '' must be a non-empty string''))
              [''hypothesis'', ''discriminator'', ''next_if_positive'', ''next_if_negative'']) (\<lambda>_.
     bindE (need (py_strip (str_val (fld r ''next_if_positive'')) \<noteq> py_strip (str_val (fld r ''next_if_negative'')))
              ''next_if_positive and next_if_negative must differ'') (\<lambda>_.
     bindE (need (positive_int (fld r ''timebox_seconds''))
              ''record timebox_seconds must be a positive integer'') (\<lambda>_.
     need (is_arr (fld r ''lanes'') \<and> is_arr (fld r ''observations''))
       ''record lanes and observations must be lists'')))))))"

text \<open>Lines 870 to 912: the action.\<close>

definition validate_artifact :: "dict \<Rightarrow> bool \<Rightarrow> unit result" where
  "validate_artifact a needs =
     (if needs then
        bindE (need (nonempty_str (fld a ''artifact'')) ''record action artifact path required'') (\<lambda>_.
        bindE (need (is_sha256 (fld a ''artifact_sha256''))
                 ''record action artifact_sha256 must be a SHA-256 hex digest'') (\<lambda>_.
        need (positive_int (fld a ''artifact_size'')) ''record action artifact_size must be a positive integer''))
      else
        bindE (need (fld a ''artifact'' = JNull \<and> fld a ''artifact_sha256'' = JNull)
                 ''record action artifact must be null for this operation'') (\<lambda>_.
        need (fld a ''artifact_size'' = JNull) ''record action artifact_size must be null for this operation''))"

definition validate_action :: "dict \<Rightarrow> dict \<Rightarrow> string \<Rightarrow> unit result" where
  "validate_action c r tier = (case fld r ''action'' of
       JObj a \<Rightarrow>
         bindE (require_fields (JObj a) ACTION_FIELDS ''record action'') (\<lambda>_.
         bindE (lookup_operation (fld a ''operation'') ''record action operation unknown'')
           (\<lambda>(op_tier, fixed_target, needs).
         bindE (need (op_tier = tier) ''record tier does not match operation tier'') (\<lambda>_.
         bindE (case fixed_target of
                  None \<Rightarrow> need (member (fld a ''target'') (arr_val (fld c ''partition_targets'')))
                            ''record action target must be one of partition_targets''
                | Some ft \<Rightarrow> need (py_eq (fld a ''target'') (JStr ft))
                            ''record action target must be the fixed target'') (\<lambda>_.
         bindE (validate_artifact a needs) (\<lambda>_.
         bindE (if str_val (fld a ''operation'') = ''partition_write'' then
                  bindE (need (nonempty_str (fld a ''profile'')) ''partition_write requires a profile path'') (\<lambda>_.
                  need (is_sha256 (fld a ''profile_sha256'')) ''partition_write requires profile_sha256'')
                else Inr ()) (\<lambda>_.
         bindE (build_exact_command (str_val (fld a ''operation'')) (str_val (fld a ''target''))
                  (str_val (fld a ''artifact''))) (\<lambda>cmd.
         bindE (need (py_eq (fld a ''exact_command'') (JArr (map JStr cmd)))
                  ''record exact_command must equal the engine builder output'') (\<lambda>_.
         check_forbidden cmd))))))))
     | _ \<Rightarrow> Inl (Refusal ''record action must be an object''))"

text \<open>Lines 914 to 959: the gates.\<close>

definition validate_media :: "string \<Rightarrow> json \<Rightarrow> unit result" where
  "validate_media tier media =
     (if tier = ''ram_rw'' then
        (case media of
           JObj m \<Rightarrow>
             bindE (require_fields media [''acknowledged'', ''rebuild_reference''] ''persistent_media'') (\<lambda>_.
             bindE (need (fld m ''acknowledged'' = JBool True)
                      ''ram_rw persistent_media.acknowledged must be true'') (\<lambda>_.
             need (nonblank (fld m ''rebuild_reference''))
               ''ram_rw persistent_media.rebuild_reference must name how userdata is rebuilt''))
         | _ \<Rightarrow> Inl (Refusal ''ram_rw records must acknowledge persistent media exposure''))
      else need (media = JNull) ''persistent_media gate only applies to ram_rw records'')"

definition validate_rollback :: "string \<Rightarrow> dict \<Rightarrow> json \<Rightarrow> unit result" where
  "validate_rollback tier a rollback =
     (if tier = ''persistent'' then
        (case rollback of
           JObj b \<Rightarrow>
             bindE (require_fields rollback ROLLBACK_FIELDS ''rollback gate'') (\<lambda>_.
             bindE (need (py_eq (fld b ''target'') (fld a ''target''))
                      ''rollback target must match the action target'') (\<lambda>_.
             bindE (need (nonempty_str (fld b ''path'')) ''rollback path must be a non-empty string'') (\<lambda>_.
             bindE (need (is_sha256 (fld b ''sha256'')) ''rollback sha256 must be a SHA-256 hex digest'') (\<lambda>_.
             bindE (need (\<not> py_eq (fld b ''sha256'') (fld a ''artifact_sha256''))
                      ''rollback artifact hash must differ from the deploy artifact hash'') (\<lambda>_.
             need (positive_int (fld b ''size'')) ''rollback size must be a positive integer'')))))
         | _ \<Rightarrow> Inl (Refusal ''persistent records require a rollback gate''))
      else need (rollback = JNull) ''rollback gate only applies to persistent records'')"

definition validate_gates :: "dict \<Rightarrow> dict \<Rightarrow> string \<Rightarrow> unit result" where
  "validate_gates c r tier = (case fld r ''gates'' of
       JObj g \<Rightarrow>
         bindE (require_fields (JObj g) GATES_FIELDS ''record gates'') (\<lambda>_.
         bindE (need (is_obj (fld g ''identity'') \<and>
                      py_eq (fld (obj_val (fld g ''identity'')) ''expected_product'') (fld c ''expected_product''))
                  ''record gates.identity.expected_product mismatch'') (\<lambda>_.
         bindE (validate_media tier (fld g ''persistent_media'')) (\<lambda>_.
         validate_rollback tier (obj_val (fld r ''action'')) (fld g ''rollback''))))
     | _ \<Rightarrow> Inl (Refusal ''record gates must be an object''))"

text \<open>Lines 961 to 985: the repeat guard and the receipt.  A guard that is not a
  dictionary but passes the field check (a list of the names) cannot be subscripted.\<close>

definition validate_repeat_guard :: "host \<Rightarrow> string \<Rightarrow> json \<Rightarrow> unit result" where
  "validate_repeat_guard h tier v =
     (if v = JNull then Inr ()
      else if tier \<noteq> ''persistent'' then Inl (Refusal ''repeat_guard only applies to persistent records'')
      else bindE (require_fields v REPEAT_GUARD_FIELDS ''repeat_guard'') (\<lambda>_.
        (case v of
           JObj g \<Rightarrow>
             bindE (need (experiment_id_ok (py_str h (fld g ''prior_experiment_id'')))
                      ''repeat_guard prior_experiment_id must be a valid experiment id'') (\<lambda>_.
             bindE (need (nonblank (fld g ''changed_discriminator''))
                      ''repeat_guard changed_discriminator must be a non-empty string'') (\<lambda>_.
             bindE (need (nonempty_str (fld g ''evidence_report''))
                      ''repeat_guard evidence_report must be a path'') (\<lambda>_.
             need (is_sha256 (fld g ''evidence_report_sha256''))
               ''repeat_guard evidence_report_sha256 must be a SHA-256 hex digest'')))
         | _ \<Rightarrow> Inl PyTypeError)))"

definition validate_receipt :: "dict \<Rightarrow> unit result" where
  "validate_receipt r =
     bindE (need (fld r ''status'' = JStr ''ready'' \<longrightarrow> fld r ''receipt'' = JNull)
              ''ready records must not carry a receipt'') (\<lambda>_.
     need (fld r ''status'' \<in> {JStr ''claimed'', JStr ''completed''} \<longrightarrow> is_obj (fld r ''receipt''))
       ''claimed records must carry the consumed receipt'')"

definition validate_record :: "host \<Rightarrow> dict \<Rightarrow> dict \<Rightarrow> unit result" where
  "validate_record h c r =
     bindE (need (member (fld r ''tier'') (map JStr TIERS)) ''record tier must be one of TIERS'') (\<lambda>_.
       (let tier = str_val (fld r ''tier'') in
        bindE (validate_common r tier) (\<lambda>_.
          if tier = ''read_only'' then Inr ()
          else
            bindE (validate_action c r tier) (\<lambda>_.
            bindE (validate_gates c r tier) (\<lambda>_.
            bindE (validate_repeat_guard h tier (fld r ''repeat_guard'')) (\<lambda>_.
            validate_receipt r))))))"

section \<open>The digest of an action\<close>

definition action_of :: "dict \<Rightarrow> dict" where
  "action_of r = obj_val (fld r ''action'')"

definition gates_of :: "dict \<Rightarrow> dict" where
  "gates_of r = obj_val (fld r ''gates'')"

definition action_payload :: "dict \<Rightarrow> dict" where
  "action_payload r =
     [(''tier'', fld r ''tier''),
      (''operation'', fld (action_of r) ''operation''),
      (''target'', fld (action_of r) ''target''),
      (''artifact_sha256'', fld (action_of r) ''artifact_sha256''),
      (''exact_command'', fld (action_of r) ''exact_command''),
      (''identity'', fld (gates_of r) ''identity''),
      (''rollback'', fld (gates_of r) ''rollback'')]"

definition action_digest :: "host \<Rightarrow> dict \<Rightarrow> string" where
  "action_digest h r = sha256 h (canonical h (JObj (action_payload r)))"

end
