(* ===== verification/Profiles.thy ===== *)
theory Profiles
  imports Records
begin

text \<open>
  Pinned files, partition profiles, the policy revision, and the trusted code base that
  \<open>authorize-profile\<close> compares with Git (\<open>scripts/bringup_loop.py\<close>, lines 1005 to 1235).
  Git itself is an argument: what the program prints for a list of arguments, or nothing
  when it fails.
\<close>

section \<open>Pinned files\<close>

definition verify_pinned_file :: "host \<Rightarrow> tree \<Rightarrow> json \<Rightarrow> json \<Rightarrow> json \<Rightarrow> string \<Rightarrow> unit result" where
  "verify_pinned_file h t rel expected_sha256 expected_size label =
     bindE (hash_repo_regular_file h t rel label) (\<lambda>(_, actual_sha256, actual_size).
     bindE (need (expected_size = JNull \<or> py_eq (JInt (int actual_size)) expected_size)
              (label @ '' size mismatch'')) (\<lambda>_.
     need (py_eq (JStr actual_sha256) expected_sha256) (label @ '' hash mismatch'')))"

definition load_active :: "host \<Rightarrow> tree \<Rightarrow> dict \<Rightarrow> dict result" where
  "load_active h t c =
     bindE (repo_entry_exists h t active_rel ''active record'') (\<lambda>ex.
       if \<not> ex then Inl (Refusal ''no active experiment record'')
       else bindE (load_repo_json h t active_rel ''active record'') (\<lambda>(r, _).
            bindE (validate_record h c r) (\<lambda>_. Inr r)))"

section \<open>Partition profiles\<close>

record profile =
  profile_path :: string
  profile_sha256 :: string
  artifact_path :: string
  artifact_sha256 :: string
  artifact_size :: json
  rollback_target :: string
  rollback_path :: string
  rollback_sha256 :: string
  rollback_size :: json

text \<open>One pinned entry of a profile: canonical path, digest and size.\<close>

definition profile_entry :: "host \<Rightarrow> dict \<Rightarrow> string \<Rightarrow> string \<Rightarrow> (string \<times> string \<times> json) result" where
  "profile_entry h e path_label label =
     bindE (canonical_repo_relative_path h (fld e ''path'') path_label) (\<lambda>rel.
     bindE (need (is_sha256 (fld e ''sha256'')) (label @ '' sha256 must be a SHA-256 hex digest'')) (\<lambda>_.
     bindE (need (positive_int (fld e ''size'')) (label @ '' size must be a positive integer'')) (\<lambda>_.
     Inr (rel, str_val (fld e ''sha256''), fld e ''size''))))"

definition load_partition_profile :: "host \<Rightarrow> tree \<Rightarrow> json \<Rightarrow> string \<Rightarrow> profile result" where
  "load_partition_profile h t profile_rel target =
     bindE (read_repo_regular_file h t profile_rel ''profile'' MAX_JSON_BYTES) (\<lambda>(rel, data).
     bindE (decode_json_object h data ''profile'') (\<lambda>p.
       (case fld p target of
          JObj e \<Rightarrow>
            bindE (require_fields (JObj e) PROFILE_ARTIFACT_FIELDS ''profile entry'') (\<lambda>_.
            bindE (profile_entry h e ''artifact'' ''profile artifact'') (\<lambda>(a_rel, a_sha, a_size).
            bindE (verify_pinned_file h t (JStr a_rel) (JStr a_sha) a_size ''artifact'') (\<lambda>_.
              (case fld p ''rollback'' of
                 JObj b \<Rightarrow>
                   bindE (require_fields (JObj b) ROLLBACK_FIELDS ''profile rollback entry'') (\<lambda>_.
                   bindE (need (py_eq (fld b ''target'') (JStr target))
                            ''profile rollback target must match the authorized target'') (\<lambda>_.
                   bindE (profile_entry h b ''rollback artifact'' ''profile rollback'') (\<lambda>(b_rel, b_sha, b_size).
                   bindE (need (b_sha \<noteq> a_sha)
                            ''rollback artifact hash must differ from the deploy artifact hash'') (\<lambda>_.
                   bindE (verify_pinned_file h t (JStr b_rel) (JStr b_sha) b_size ''rollback artifact'') (\<lambda>_.
                   Inr \<lparr>profile_path = rel, profile_sha256 = sha256 h data, artifact_path = a_rel,
                        artifact_sha256 = a_sha, artifact_size = a_size, rollback_target = target,
                        rollback_path = b_rel, rollback_sha256 = b_sha, rollback_size = b_size\<rparr>)))))
               | _ \<Rightarrow> Inl (Refusal ''profile has no rollback entry'')))))
        | _ \<Rightarrow> Inl (Refusal ''profile has no entry for target''))))"

definition find_authorized_profile :: "dict \<Rightarrow> string \<Rightarrow> dict option" where
  "find_authorized_profile p path =
     List.find (\<lambda>e. fld e ''profile_path'' = JStr path)
       (map obj_val (arr_val (fld p ''authorized_profiles'')))"

section \<open>The policy revision\<close>

text \<open>
  \<open>(\d{4}-\d{2}-\d{2})\.([1-9][0-9]*)\<close>.  In a \<open>str\<close> pattern \<open>\d\<close> matches any decimal digit;
  the digits outside ASCII are left out of the model.
\<close>

definition is_date :: "string \<Rightarrow> bool" where
  "is_date d \<longleftrightarrow> length d = 10 \<and>
     list_all (\<lambda>i. if i = 4 \<or> i = 7 then d ! i = CHR ''-'' else is_digit (d ! i)) [0..<10]"

definition split_revision :: "string \<Rightarrow> (string \<times> string) option" where
  "split_revision s =
     (let day = take 10 s; q = drop 11 s in
      if is_date day \<and> take 1 (drop 10 s) = ''.'' \<and> q \<noteq> [] \<and> list_all is_digit q \<and> hd q \<noteq> CHR ''0''
      then Some (day, q) else None)"

text \<open>\<open>a > b\<close> on strings; the lexicographic order of the bytes.\<close>

definition next_policy_revision :: "string \<Rightarrow> string \<Rightarrow> string result" where
  "next_policy_revision current today = (case split_revision current of
       None \<Rightarrow> Inl (Refusal ''policy revision must match YYYY-MM-DD.N before automatic authorization'')
     | Some (day, q) \<Rightarrow>
         if day > today then Inl (Refusal ''policy revision date is in the future'')
         else if day = today then Inr (today @ ''.'' @ show_nat (dec_val q + 1))
         else Inr (today @ ''.1''))"

section \<open>The trusted code base\<close>

text \<open>The standard output of \<open>/usr/bin/git -C root ...\<close>, or nothing on failure.\<close>

type_synonym git = "string list \<Rightarrow> bytes option"

definition run_git :: "git \<Rightarrow> string list \<Rightarrow> bytes result" where
  "run_git git arguments = (case git arguments of
       Some out \<Rightarrow> Inr out
     | None \<Rightarrow> Inl (Refusal ''git TCB verification failed''))"

definition nonempty_records :: "bytes \<Rightarrow> bytes list" where
  "nonempty_records out = filter (\<lambda>e. e \<noteq> []) (split_on NUL out)"

text \<open>\<open>entry.split(b"\t", 1)\<close> into the three fields of the metadata and the path.\<close>

definition split_entry :: "bytes \<Rightarrow> (string list \<times> string) option" where
  "split_entry e =
     (if TAB \<notin> set e then None
      else (let metadata = takeWhile (\<lambda>c. c \<noteq> TAB) e; path = tl (dropWhile (\<lambda>c. c \<noteq> TAB) e);
                fs = words_by ascii_space metadata
            in if is_ascii metadata \<and> length fs = 3 \<and> utf8_valid path
               then Some (fs, path) else None))"

definition git_head_entry :: "git \<Rightarrow> string \<Rightarrow> string \<Rightarrow> (string \<times> string \<times> bytes) result" where
  "git_head_entry git head rel =
     bindE (run_git git [''ls-tree'', ''-z'', ''--full-tree'', head, ''--'', rel]) (\<lambda>out.
       (case nonempty_records out of
          [e] \<Rightarrow>
            (case split_entry e of
               None \<Rightarrow> Inl (Refusal ''cannot parse Git HEAD entry for critical TCB file'')
             | Some (fs, path) \<Rightarrow>
                 bindE (need (path = rel \<and> fs ! 1 = ''blob'' \<and> fs ! 0 \<noteq> ''120000'')
                          ''critical TCB file must be a regular tracked blob at HEAD'') (\<lambda>_.
                 bindE (run_git git [''cat-file'', ''blob'', fs ! 2]) (\<lambda>blob.
                 Inr (fs ! 0, fs ! 2, blob))))
        | _ \<Rightarrow> Inl (Refusal ''critical TCB file must be tracked at Git HEAD'')))"

definition git_index_entry :: "git \<Rightarrow> string \<Rightarrow> (string \<times> string) result" where
  "git_index_entry git rel =
     bindE (run_git git [''ls-files'', ''--stage'', ''-z'', ''--'', rel]) (\<lambda>out.
       (case nonempty_records out of
          [e] \<Rightarrow>
            (case split_entry e of
               None \<Rightarrow> Inl (Refusal ''cannot parse Git index entry for critical TCB file'')
             | Some (fs, path) \<Rightarrow>
                 bindE (need (path = rel \<and> fs ! 2 = ''0'' \<and> fs ! 0 \<noteq> ''120000'')
                          ''critical TCB file must be an ordinary stage-0 index entry'') (\<lambda>_.
                 Inr (fs ! 0, fs ! 1)))
        | _ \<Rightarrow> Inl (Refusal ''critical TCB file must be tracked exactly once in the Git index'')))"

definition ENGINE_REL :: string where "ENGINE_REL = ''scripts/bringup_loop.py''"

text \<open>One critical file: the work tree, HEAD and the index agree on mode, object and bytes.\<close>

definition capture_file :: "host \<Rightarrow> tree \<Rightarrow> git \<Rightarrow> string \<Rightarrow> string \<times> string \<Rightarrow> (string \<times> json) result" where
  "capture_file h t git head nr = (case nr of (name, rel) \<Rightarrow>
     bindE (hash_repo_regular_file h t (JStr rel) (''critical TCB '' @ name)) (\<lambda>(_, current_sha256, current_size).
     bindE (git_head_entry git head rel) (\<lambda>(head_mode, head_object, head_blob).
     bindE (git_index_entry git rel) (\<lambda>(index_mode, index_object).
     bindE (need ((index_mode, index_object) = (head_mode, head_object))
              ''critical TCB file is staged and not exactly HEAD'') (\<lambda>_.
     bindE (need (current_size = length head_blob \<and> current_sha256 = sha256 h head_blob)
              ''critical TCB file is dirty and not exactly HEAD'') (\<lambda>_.
     Inr (name @ ''_sha256'', JStr current_sha256)))))))"

definition resolve_head :: "git \<Rightarrow> string result" where
  "resolve_head git =
     bindE (run_git git [''rev-parse'', ''--verify'', ''HEAD^{commit}'']) (\<lambda>out.
       if is_ascii out then Inr (py_strip out) else Inl PyUnicodeError)"

definition is_object_id :: "string \<Rightarrow> bool" where
  "is_object_id s \<longleftrightarrow> 40 \<le> length s \<and> length s \<le> 64 \<and> list_all is_lower_hex s"

definition critical_files :: "string \<Rightarrow> (string \<times> string) list" where
  "critical_files profile_rel = [(''engine'', ENGINE_REL), (''constants'', constants_rel),
     (''policy'', policy_rel), (''profile'', profile_rel)]"

text \<open>\<open>git2\<close> answers the last \<open>rev-parse\<close>: HEAD may have moved meanwhile.\<close>

definition capture_authorization_tcb :: "host \<Rightarrow> tree \<Rightarrow> git \<Rightarrow> git \<Rightarrow> json \<Rightarrow> dict result" where
  "capture_authorization_tcb h t git git2 profile_arg =
     bindE (canonical_repo_relative_path h profile_arg ''profile'') (\<lambda>rel.
     bindE (need (prefix ''profiles/'' rel \<and> rel \<noteq> ''profiles/'')
              ''authorize-profile requires a profile under profiles/'') (\<lambda>_.
     bindE (resolve_head git) (\<lambda>head.
     bindE (need (is_object_id head) ''Git HEAD did not resolve to a canonical commit object'') (\<lambda>_.
     bindE (mapE (capture_file h t git head) (critical_files rel)) (\<lambda>shas.
     bindE (resolve_head git2) (\<lambda>head2.
     bindE (need (head2 = head) ''Git HEAD changed during TCB verification'') (\<lambda>_.
     Inr ((''git_head'', JStr head) # shas))))))))"

definition authorization_payload ::
  "dict \<Rightarrow> string \<Rightarrow> dict \<Rightarrow> profile \<Rightarrow> string \<Rightarrow> string \<Rightarrow> string \<Rightarrow> dict" where
  "authorization_payload p policy_sha256 tcb pr target note next_revision =
     [(''kind'', JStr ''persistent-profile-authorization''),
      (''schema_version'', JInt 1),
      (''declared_owner'', fld p ''authorized_by''),
      (''authentication_method'', JStr ''interactive-declaration''),
      (''base_policy_sha256'', JStr policy_sha256),
      (''trusted_code_base'', JObj tcb),
      (''next_policy_revision'', JStr next_revision),
      (''profile_path'', JStr (profile_path pr)),
      (''profile_sha256'', JStr (profile_sha256 pr)),
      (''target'', JStr target),
      (''artifact_sha256'', JStr (artifact_sha256 pr)),
      (''artifact_size'', artifact_size pr),
      (''rollback_sha256'', JStr (rollback_sha256 pr)),
      (''rollback_size'', rollback_size pr),
      (''note'', JStr note)]"

end
