(* ===== verification/Engine.thy ===== *)
theory Engine
  imports Profiles
begin

text \<open>
  The commands of \<open>scripts/bringup_loop.py\<close> (lines 1236 to 2040): the claims ledger, the
  replay guard, scope resolution, and \<open>validate\<close>, \<open>new\<close>, \<open>preflight\<close>, \<open>claim\<close>, \<open>result\<close>,
  \<open>observe\<close>, \<open>archive\<close> and \<open>authorize-profile\<close>, with the step relation they generate.

  The clock is an argument: \<open>tm n\<close> is the ISO text of the time \<open>n\<close> seconds from now (or the
  overflow that \<open>datetime\<close> raises).  So is the random name of the temporary file.
\<close>

type_synonym moment = "int \<Rightarrow> string result"

section \<open>The ledger\<close>

text \<open>\<open>key, _, value = token.partition("=")\<close>\<close>

definition token_entry :: "string \<Rightarrow> (string \<times> string) option" where
  "token_entry tok =
     (if CHR ''='' \<in> set tok
      then Some (takeWhile (\<lambda>c. c \<noteq> CHR ''='') tok, tl (dropWhile (\<lambda>c. c \<noteq> CHR ''='') tok))
      else None)"

definition line_entry :: "string \<Rightarrow> string \<Rightarrow> string option" where
  "line_entry line = fold (\<lambda>tok m. case token_entry tok of
       Some (k, v) \<Rightarrow> m(k \<mapsto> v) | None \<Rightarrow> m) (py_words line) (\<lambda>_. None)"

definition ledger_entries :: "string \<Rightarrow> (string \<Rightarrow> string option) list" where
  "ledger_entries text = map line_entry (filter (\<lambda>l. py_strip l \<noteq> []) (py_lines text))"

definition ledger_lines :: "host \<Rightarrow> tree \<Rightarrow> (string \<Rightarrow> string option) list result" where
  "ledger_lines h t =
     bindE (repo_entry_exists h t ledger_rel ''claims ledger'') (\<lambda>ex.
       if \<not> ex then Inr []
       else bindE (read_repo_regular_file h t (JStr ledger_rel) ''claims ledger'' MAX_LEDGER_BYTES) (\<lambda>(_, raw).
         if utf8_valid raw then Inr (ledger_entries raw)
         else Inl (Refusal ''claims ledger is not valid UTF-8'')))"

definition append_ledger_line :: "host \<Rightarrow> string \<Rightarrow> unit io" where
  "append_ledger_line h line =
     bindI (readI (\<lambda>t. open_repo_parent h t (JStr ledger_rel) ''claims ledger'')) (\<lambda>(dir, leaf).
     bindI (open_or_create h (dir @ [leaf]) ''claims ledger'') (\<lambda>_.
     bindI (sys_write (dir @ [leaf]) (line @ [LF])) (\<lambda>_.
     bindI sys_sync (\<lambda>_. sys_sync))))"

section \<open>The replay guard\<close>

definition guard_path :: "string \<Rightarrow> string" where
  "guard_path experiment_id = ''notes/bringup-claims/'' @ experiment_id @ ''.claim-guard.json''"

definition claim_guard_rel :: "string \<Rightarrow> string result" where
  "claim_guard_rel experiment_id =
     (if experiment_id_ok experiment_id then Inr (guard_path experiment_id)
      else Inl (Refusal ''cannot derive claim guard from invalid experiment id''))"

definition claim_guard_exists :: "host \<Rightarrow> tree \<Rightarrow> string \<Rightarrow> bool result" where
  "claim_guard_exists h t experiment_id =
     bindE (claim_guard_rel experiment_id) (\<lambda>rel. repo_entry_exists h t rel ''claim replay guard'')"

definition create_guard :: "host \<Rightarrow> path \<Rightarrow> unit io" where
  "create_guard h p = (\<lambda>w. case sys_create h p F_REG 384 w of
       (Inl PyFileExistsError, w') \<Rightarrow> (Inl (Refusal ''claim replay guard already exists''), w')
     | (Inl PyOSError, w') \<Rightarrow> (Inl (classify_open_error (files w') p ''claim replay guard''), w')
     | r \<Rightarrow> r)"

definition write_claim_guard :: "host \<Rightarrow> string \<Rightarrow> dict \<Rightarrow> string \<Rightarrow> unit io" where
  "write_claim_guard h experiment_id receipt digest =
     bindI (liftI (claim_guard_rel experiment_id)) (\<lambda>rel.
     bindI (readI (\<lambda>t. open_repo_parent h t (JStr rel) ''claim replay guard'')) (\<lambda>(dir, leaf).
     bindI (create_guard h (dir @ [leaf])) (\<lambda>_.
     bindI (sys_write (dir @ [leaf]) (canonical h (JObj
         [(''schema_version'', JInt 1), (''experiment_id'', JStr experiment_id),
          (''action_digest'', JStr digest), (''receipt'', JObj receipt)]) @ [LF])) (\<lambda>_.
     bindI sys_sync (\<lambda>_. sys_sync)))))"

section \<open>Checks before a claim\<close>

definition claimed_before :: "dict \<Rightarrow> (string \<Rightarrow> string option) \<Rightarrow> bool" where
  "claimed_before a entry \<longleftrightarrow>
     py_eq (opt_str (entry ''operation'')) (fld a ''operation'') \<and>
     py_eq (opt_str (entry ''target'')) (fld a ''target'') \<and>
     py_eq (opt_str (entry ''artifact_sha256'')) (fld a ''artifact_sha256'')"

definition check_repeat_guard :: "host \<Rightarrow> tree \<Rightarrow> dict \<Rightarrow> unit result" where
  "check_repeat_guard h t r =
     bindE (ledger_lines h t) (\<lambda>entries.
       if \<not> list_ex (claimed_before (action_of r)) entries then Inr ()
       else (case fld r ''repeat_guard'' of
           JObj g \<Rightarrow>
             (let archived_rel = completed_dir_rel @ ''/'' @ py_str h (fld g ''prior_experiment_id'') @ ''.json'' in
              bindE (repo_entry_exists h t archived_rel ''repeat_guard prior experiment'') (\<lambda>ex.
              bindE (need ex ''repeat_guard prior experiment is not archived'') (\<lambda>_.
              bindE (hash_repo_regular_file h t (JStr archived_rel) ''repeat_guard prior experiment'') (\<lambda>_.
              verify_pinned_file h t (fld g ''evidence_report'') (fld g ''evidence_report_sha256'') JNull
                ''repeat_guard evidence report''))))
         | _ \<Rightarrow> Inl (Refusal ''this physical action was already claimed'')))"

definition resolve_scope :: "host \<Rightarrow> tree \<Rightarrow> dict \<Rightarrow> dict \<Rightarrow> unit result" where
  "resolve_scope h t p r =
     (let tier = fld r ''tier''; a = action_of r in
      if fld p ''enabled'' \<noteq> JBool True then Inl (Refusal ''policy is disabled; no standing authorization exists'')
      else if tier \<in> {JStr ''volatile'', JStr ''ram_rw''} then
        need (list_ex (\<lambda>v. let s = obj_val v in
                py_eq (fld s ''tier'') tier \<and> py_eq (fld s ''operation'') (fld a ''operation'') \<and>
                py_eq (fld s ''target'') (fld a ''target'')) (arr_val (fld p ''standing_scopes'')))
          ''no standing scope covers the action''
      else if tier = JStr ''persistent'' then
        (case List.find (\<lambda>e. py_eq (fld e ''profile_path'') (fld a ''profile''))
                (map obj_val (arr_val (fld p ''authorized_profiles''))) of
           Some e \<Rightarrow>
             bindE (need (py_eq (fld e ''profile_sha256'') (fld a ''profile_sha256''))
                      ''authorized profile hash does not match the record's profile pin'') (\<lambda>_.
             bindE (need (member (fld a ''target'') (arr_val (fld e ''targets'')))
                      ''authorized profile does not cover target'') (\<lambda>_.
             verify_pinned_file h t (fld a ''profile'') (fld e ''profile_sha256'') JNull ''profile''))
         | None \<Rightarrow> Inl (Refusal ''persistent actions require a matching authorized_profiles entry''))
      else Inl (Refusal ''tier does not take claims''))"

definition claim_checks :: "host \<Rightarrow> tree \<Rightarrow> dict \<Rightarrow> dict \<Rightarrow> unit result" where
  "claim_checks h t p r =
     (let a = action_of r in
      bindE (need (fld r ''tier'' \<noteq> JStr ''read_only'') ''read_only records are not claimed'') (\<lambda>_.
      bindE (need (fld r ''status'' = JStr ''ready'') ''a second execution requires a new experiment'') (\<lambda>_.
      bindE (resolve_scope h t p r) (\<lambda>_.
      bindE (if fld a ''artifact'' \<noteq> JNull
             then verify_pinned_file h t (fld a ''artifact'') (fld a ''artifact_sha256'') (fld a ''artifact_size'')
                    ''artifact''
             else Inr ()) (\<lambda>_.
      if fld r ''tier'' = JStr ''persistent'' then
        (let b = obj_val (fld (gates_of r) ''rollback'') in
         bindE (verify_pinned_file h t (fld b ''path'') (fld b ''sha256'') (fld b ''size'') ''rollback artifact'') (\<lambda>_.
         check_repeat_guard h t r))
      else Inr ())))))"

section \<open>claim and preflight\<close>

definition receipt_of :: "host \<Rightarrow> moment \<Rightarrow> dict \<Rightarrow> dict \<Rightarrow> string \<Rightarrow> string \<Rightarrow> dict result" where
  "receipt_of h tm c p policy_sha256 digest =
     bindE (tm 0) (\<lambda>now.
     bindE (tm (int_val (fld c ''receipt_ttl_seconds''))) (\<lambda>expires.
     Inr [(''issued_at'', JStr now), (''expires_at'', JStr expires), (''consumed_at'', JStr now),
          (''authority'', JStr ''standing-policy''), (''policy_revision'', fld p ''revision''),
          (''policy_sha256'', JStr policy_sha256), (''action_digest'', JStr digest)]))"

definition ledger_tokens :: "host \<Rightarrow> dict \<Rightarrow> dict \<Rightarrow> string \<Rightarrow> (string \<times> string) list" where
  "ledger_tokens h r receipt digest =
     [(''experiment_id'', py_str h (fld r ''experiment_id'')),
      (''action_digest'', digest),
      (''ts'', py_str h (fld receipt ''consumed_at'')),
      (''tier'', py_str h (fld r ''tier'')),
      (''operation'', py_str h (fld (action_of r) ''operation'')),
      (''target'', py_str h (fld (action_of r) ''target'')),
      (''artifact_sha256'', py_str h (fld (action_of r) ''artifact_sha256'')),
      (''authority'', py_str h (fld receipt ''authority'')),
      (''policy_revision'', py_str h (fld receipt ''policy_revision'')),
      (''policy_sha256'', py_str h (fld receipt ''policy_sha256''))]"

definition ledger_line :: "host \<Rightarrow> dict \<Rightarrow> dict \<Rightarrow> string \<Rightarrow> string" where
  "ledger_line h r receipt digest =
     join_with '' '' (map (\<lambda>kv. fst kv @ ''='' @ snd kv) (ledger_tokens h r receipt digest))"

text \<open>Everything \<open>cmd_claim\<close> does before it changes anything.\<close>

record plan =
  p_constants :: dict
  p_policy :: dict
  p_policy_sha :: string
  p_record :: dict
  p_digest :: string

definition claim_plan :: "host \<Rightarrow> tree \<Rightarrow> plan result" where
  "claim_plan h t =
     bindE (load_constants h t) (\<lambda>c.
     bindE (load_policy h t c) (\<lambda>(p, psha).
     bindE (load_active h t c) (\<lambda>r.
     bindE (if fld r ''tier'' = JStr ''read_only'' then claim_checks h t p r else Inr ()) (\<lambda>_.
       (let digest = action_digest h r in
        bindE (if fld r ''status'' \<noteq> JStr ''ready'' then claim_checks h t p r else Inr ()) (\<lambda>_.
        bindE (claim_guard_exists h t (str_val (fld r ''experiment_id''))) (\<lambda>guarded.
        bindE (need (\<not> guarded) ''claim replay guard already exists for this experiment'') (\<lambda>_.
        bindE (claim_checks h t p r) (\<lambda>_.
        Inr \<lparr>p_constants = c, p_policy = p, p_policy_sha = psha, p_record = r, p_digest = digest\<rparr>)))))))))"

definition claim_commit :: "host \<Rightarrow> moment \<Rightarrow> string \<Rightarrow> plan \<Rightarrow> unit io" where
  "claim_commit h tm tmp pl =
     bindI (liftI (receipt_of h tm (p_constants pl) (p_policy pl) (p_policy_sha pl) (p_digest pl))) (\<lambda>receipt.
     bindI (readI (\<lambda>t. hash_repo_regular_file h t (JStr active_rel) ''active record'')) (\<lambda>(_, active_sha256, _).
     bindI (write_claim_guard h (str_val (fld (p_record pl) ''experiment_id'')) receipt (p_digest pl)) (\<lambda>_.
     map_error (\<lambda>_. Refusal ''claim transaction did not fully commit'')
       (bindI (append_ledger_line h (ledger_line h (p_record pl) receipt (p_digest pl))) (\<lambda>_.
        atomic_write_repo_json h tmp active_rel
          (dict_set (dict_set (p_record pl) ''status'' (JStr ''claimed'')) ''receipt'' (JObj receipt))
          (Some active_sha256) False)))))"

text \<open>
  The printed answer: the digest, and the command when the claim was consumed.  The first
  field of \<open>Claimed\<close> is the experiment the claim belongs to; the code does not print it.
\<close>

datatype answer = Done | Preflight string | Claimed string string "string list" | Authorized string

definition cmd_claim :: "host \<Rightarrow> moment \<Rightarrow> string \<Rightarrow> bool \<Rightarrow> answer io" where
  "cmd_claim h tm tmp dry_run =
     governance_lock h
       (bindI (readI (claim_plan h)) (\<lambda>pl.
          if dry_run then retI (Preflight (p_digest pl))
          else bindI (claim_commit h tm tmp pl) (\<lambda>_.
               retI (Claimed (str_val (fld (p_record pl) ''experiment_id'')) (p_digest pl)
                 (map str_val (arr_val (fld (action_of (p_record pl)) ''exact_command'')))))))"

section \<open>new\<close>

record new_args =
  a_experiment_id :: string
  a_operation :: "string option"
  a_target :: "string option"
  a_profile :: "string option"
  a_artifact :: "string option"
  a_hypothesis :: string
  a_discriminator :: string
  a_next_if_positive :: string
  a_next_if_negative :: string
  a_timebox_seconds :: int
  a_acknowledge :: bool
  a_rebuild_reference :: "string option"
  a_repeat_prior :: "string option"
  a_repeat_changed :: "string option"
  a_repeat_evidence :: "string option"

definition base_record :: "new_args \<Rightarrow> string \<Rightarrow> dict" where
  "base_record a tier =
     [(''schema_version'', JInt SCHEMA_VERSION), (''status'', JStr ''ready''),
      (''experiment_id'', JStr (a_experiment_id a)), (''tier'', JStr tier),
      (''hypothesis'', JStr (a_hypothesis a)), (''discriminator'', JStr (a_discriminator a)),
      (''next_if_positive'', JStr (a_next_if_positive a)), (''next_if_negative'', JStr (a_next_if_negative a)),
      (''timebox_seconds'', JInt (a_timebox_seconds a)), (''lanes'', JArr []), (''observations'', JArr []),
      (''result'', JNull)]"

text \<open>The pins of the action: profile, artifact and rollback.\<close>

record pins =
  i_profile :: json
  i_profile_sha :: json
  i_artifact :: json
  i_artifact_sha :: json
  i_artifact_size :: json
  i_rollback :: json

definition no_pins :: pins where
  "no_pins = \<lparr>i_profile = JNull, i_profile_sha = JNull, i_artifact = JNull, i_artifact_sha = JNull,
     i_artifact_size = JNull, i_rollback = JNull\<rparr>"

definition new_pins :: "host \<Rightarrow> tree \<Rightarrow> new_args \<Rightarrow> string \<Rightarrow> string \<Rightarrow> bool \<Rightarrow> pins result" where
  "new_pins h t a operation target needs_artifact =
     (if operation = ''partition_write'' then
        (case a_profile a of
           None \<Rightarrow> Inl (Refusal ''partition_write requires --profile'')
         | Some rel \<Rightarrow>
             bindE (load_partition_profile h t (JStr rel) target) (\<lambda>pr.
             Inr \<lparr>i_profile = JStr (profile_path pr), i_profile_sha = JStr (profile_sha256 pr),
                  i_artifact = JStr (artifact_path pr), i_artifact_sha = JStr (artifact_sha256 pr),
                  i_artifact_size = artifact_size pr,
                  i_rollback = JObj [(''target'', JStr (rollback_target pr)), (''path'', JStr (rollback_path pr)),
                    (''sha256'', JStr (rollback_sha256 pr)), (''size'', rollback_size pr)]\<rparr>))
      else if needs_artifact then
        (case a_artifact a of
           None \<Rightarrow> Inl (Refusal ''operation requires --artifact'')
         | Some rel \<Rightarrow>
             bindE (hash_repo_regular_file h t (JStr rel) ''artifact'') (\<lambda>(path, sha, size1).
             Inr (no_pins\<lparr>i_artifact := JStr path, i_artifact_sha := JStr sha,
                          i_artifact_size := JInt (int size1)\<rparr>)))
      else Inr no_pins)"

definition truthy :: "string option \<Rightarrow> bool" where
  "truthy v \<longleftrightarrow> v \<noteq> None \<and> v \<noteq> Some []"

definition new_media :: "new_args \<Rightarrow> string \<Rightarrow> json result" where
  "new_media a tier =
     (if tier = ''ram_rw'' then
        (if \<not> a_acknowledge a \<or> \<not> truthy (a_rebuild_reference a)
         then Inl (Refusal ''ram_rw operations require --acknowledge-persistent-media and --rebuild-reference'')
         else Inr (JObj [(''acknowledged'', JBool True), (''rebuild_reference'', opt_str (a_rebuild_reference a))]))
      else Inr JNull)"

definition or_empty :: "string option \<Rightarrow> json" where
  "or_empty v = (case v of Some s \<Rightarrow> JStr s | None \<Rightarrow> JStr [])"

definition new_repeat_guard :: "host \<Rightarrow> tree \<Rightarrow> new_args \<Rightarrow> json result" where
  "new_repeat_guard h t a =
     (if \<not> truthy (a_repeat_prior a) then Inr JNull
      else bindE (if truthy (a_repeat_evidence a)
                  then bindE (hash_repo_regular_file h t (or_empty (a_repeat_evidence a)) ''repeat evidence report'')
                         (\<lambda>(_, sha, _). Inr (JStr sha))
                  else Inr (JStr [])) (\<lambda>sha.
           Inr (JObj [(''prior_experiment_id'', opt_str (a_repeat_prior a)),
                      (''changed_discriminator'', or_empty (a_repeat_changed a)),
                      (''evidence_report'', or_empty (a_repeat_evidence a)),
                      (''evidence_report_sha256'', sha)])))"

definition new_record :: "host \<Rightarrow> tree \<Rightarrow> dict \<Rightarrow> new_args \<Rightarrow> dict result" where
  "new_record h t c a = (case a_operation a of
       None \<Rightarrow> Inr (base_record a ''read_only'')
     | Some operation \<Rightarrow> (case map_of OPERATIONS operation of
         None \<Rightarrow> Inl PyKeyError
       | Some (tier, fixed_target, needs) \<Rightarrow>
           (case (case fixed_target of Some ft \<Rightarrow> Some ft | None \<Rightarrow> a_target a) of
              None \<Rightarrow> Inl (Refusal ''partition_write requires --target'')
            | Some target \<Rightarrow>
                bindE (new_pins h t a operation target needs) (\<lambda>pn.
                bindE (new_media a tier) (\<lambda>media.
                bindE (build_exact_command operation target (str_val (i_artifact pn))) (\<lambda>cmd.
                bindE (new_repeat_guard h t a) (\<lambda>guard.
                Inr (base_record a tier @
                  [(''action'', JObj
                      [(''operation'', JStr operation), (''target'', JStr target),
                       (''profile'', i_profile pn), (''profile_sha256'', i_profile_sha pn),
                       (''artifact'', i_artifact pn), (''artifact_sha256'', i_artifact_sha pn),
                       (''artifact_size'', i_artifact_size pn), (''exact_command'', JArr (map JStr cmd))]),
                   (''gates'', JObj
                      [(''identity'', JObj [(''expected_product'', fld c ''expected_product'')]),
                       (''persistent_media'', media), (''rollback'', i_rollback pn)]),
                   (''repeat_guard'', guard),
                   (''receipt'', JNull)]))))))))"

definition plan_new :: "host \<Rightarrow> tree \<Rightarrow> new_args \<Rightarrow> dict result" where
  "plan_new h t a =
     bindE (load_constants h t) (\<lambda>c.
     bindE (load_policy h t c) (\<lambda>_.
     bindE (repo_entry_exists h t active_rel ''active record'') (\<lambda>ex.
     bindE (need (\<not> ex) ''an active experiment already exists'') (\<lambda>_.
     bindE (new_record h t c a) (\<lambda>r.
     bindE (validate_record h c r) (\<lambda>_.
     Inr r))))))"

definition cmd_new :: "host \<Rightarrow> string \<Rightarrow> new_args \<Rightarrow> answer io" where
  "cmd_new h tmp a =
     governance_lock h
       (bindI (readI (\<lambda>t. plan_new h t a)) (\<lambda>r.
        bindI (atomic_write_repo_json h tmp active_rel r None True) (\<lambda>_.
        retI Done)))"

section \<open>validate\<close>

definition cmd_validate :: "host \<Rightarrow> answer io" where
  "cmd_validate h =
     readI (\<lambda>t.
       bindE (load_constants h t) (\<lambda>c.
       bindE (load_policy h t c) (\<lambda>_.
       bindE (repo_entry_exists h t active_rel ''active record'') (\<lambda>ex.
         if ex then bindE (load_active h t c) (\<lambda>_. Inr Done) else Inr Done))))"

section \<open>result, observe and archive\<close>

text \<open>\<open>ROUTE_STATUS_RE.search\<close>: a line that starts with \<open>route_status=\<close> and no white space.\<close>

definition has_route_status :: "bytes \<Rightarrow> bool" where
  "has_route_status data \<longleftrightarrow> list_ex (\<lambda>line. case lit ''route_status='' line of
       None \<Rightarrow> False
     | Some r \<Rightarrow> r \<noteq> [] \<and> \<not> list_ex (\<lambda>sp. prefix sp r) space_chars) (split_on LF data)"

definition plan_result :: "host \<Rightarrow> moment \<Rightarrow> tree \<Rightarrow> string \<Rightarrow> string \<Rightarrow> string option \<Rightarrow> (dict \<times> string) result" where
  "plan_result h tm t outcome evidence_arg note =
     bindE (load_constants h t) (\<lambda>c.
     bindE (load_active h t c) (\<lambda>r.
     bindE (if fld r ''tier'' = JStr ''read_only''
            then need (fld r ''status'' = JStr ''ready'') ''read_only record already carries a result''
            else need (fld r ''status'' = JStr ''claimed'') ''result requires a claimed record'') (\<lambda>_.
     bindE (canonical_repo_relative_path h (JStr evidence_arg) ''evidence'') (\<lambda>evidence.
     bindE (need (length (comps evidence) = 2 \<and> comps evidence ! 0 = logs_dir_rel \<and>
                  suffix ''.txt'' (comps evidence ! 1))
              ''evidence must be a top-level .txt file under logs/'') (\<lambda>_.
     bindE (read_repo_regular_file h t (JStr evidence) ''evidence'' MAX_LEDGER_BYTES) (\<lambda>(_, data).
     bindE (need (has_route_status data) ''evidence must contain a route_status=<value> line'') (\<lambda>_.
     bindE (hash_repo_regular_file h t (JStr active_rel) ''active record'') (\<lambda>(_, active_sha256, _).
     bindE (tm 0) (\<lambda>now.
     Inr (dict_set (dict_set r ''result'' (JObj
            [(''outcome'', JStr outcome), (''evidence'', JStr evidence),
             (''evidence_sha256'', JStr (sha256 h data)), (''recorded_at'', JStr now),
             (''note'', opt_str note)])) ''status'' (JStr ''completed''), active_sha256))))))))))"

definition cmd_result :: "host \<Rightarrow> moment \<Rightarrow> string \<Rightarrow> string \<Rightarrow> string \<Rightarrow> string option \<Rightarrow> answer io" where
  "cmd_result h tm tmp outcome evidence note =
     governance_lock h
       (bindI (readI (\<lambda>t. plan_result h tm t outcome evidence note)) (\<lambda>(r, active_sha256).
        bindI (atomic_write_repo_json h tmp active_rel r (Some active_sha256) False) (\<lambda>_.
        retI Done)))"

definition plan_observe :: "host \<Rightarrow> moment \<Rightarrow> tree \<Rightarrow> string \<Rightarrow> (dict \<times> string) result" where
  "plan_observe h tm t note =
     bindE (load_constants h t) (\<lambda>c.
     bindE (load_active h t c) (\<lambda>r.
     bindE (hash_repo_regular_file h t (JStr active_rel) ''active record'') (\<lambda>(_, active_sha256, _).
     bindE (tm 0) (\<lambda>now.
     Inr (dict_set r ''observations'' (JArr (arr_val (fld r ''observations'') @
            [JObj [(''at'', JStr now), (''note'', JStr note)]])), active_sha256)))))"

definition cmd_observe :: "host \<Rightarrow> moment \<Rightarrow> string \<Rightarrow> string \<Rightarrow> answer io" where
  "cmd_observe h tm tmp note =
     governance_lock h
       (bindI (readI (\<lambda>t. plan_observe h tm t note)) (\<lambda>(r, active_sha256).
        bindI (atomic_write_repo_json h tmp active_rel r (Some active_sha256) False) (\<lambda>_.
        retI Done)))"

definition archive_path :: "string \<Rightarrow> string" where
  "archive_path experiment_id = completed_dir_rel @ ''/'' @ experiment_id @ ''.json''"

definition plan_archive :: "host \<Rightarrow> tree \<Rightarrow> dict result" where
  "plan_archive h t =
     bindE (load_constants h t) (\<lambda>c.
     bindE (load_active h t c) (\<lambda>r.
     bindE (need (fld r ''status'' = JStr ''completed'') ''archive requires a completed record'') (\<lambda>_.
     Inr r)))"

definition cmd_archive :: "host \<Rightarrow> string \<Rightarrow> answer io" where
  "cmd_archive h tmp =
     governance_lock h
       (bindI (readI (plan_archive h)) (\<lambda>r.
        bindI (ensure_repo_directory h completed_dir_rel ''completed records directory'') (\<lambda>_.
          (let dst = archive_path (str_val (fld r ''experiment_id'')) in
           bindI (readI (\<lambda>t. bindE (repo_entry_exists h t dst ''archive destination'') (\<lambda>ex.
                    need (\<not> ex) ''archive destination already exists''))) (\<lambda>_.
           bindI (atomic_write_repo_json h tmp dst r None True) (\<lambda>_.
           bindI (unlink_repo_regular_file h active_rel ''active record'') (\<lambda>_.
           retI Done)))))))"

section \<open>authorize-profile\<close>

text \<open>The interactive confirmation: a terminal or not, and the typed line or end of file.\<close>

definition confirm_authorization :: "bool \<Rightarrow> string option \<Rightarrow> string \<Rightarrow> unit result" where
  "confirm_authorization tty typed expected =
     (if \<not> tty then Inl (Refusal ''authorize-profile requires an interactive TTY'')
      else (case typed of
          None \<Rightarrow> Inl (Refusal ''authorization confirmation ended before input'')
        | Some answer \<Rightarrow> need (answer = expected) ''authorization confirmation did not match exactly''))"

record preview =
  v_tcb :: dict
  v_constants :: dict
  v_policy_sha :: string
  v_profile :: profile
  v_note :: string
  v_revision :: string
  v_digest :: string

definition payload_digest :: "host \<Rightarrow> dict \<Rightarrow> string" where
  "payload_digest h d = sha256 h (canonical h (JObj d))"

definition same_profile :: "profile \<Rightarrow> profile \<Rightarrow> bool" where
  "same_profile a b \<longleftrightarrow>
     py_eq (artifact_size a) (artifact_size b) \<and> py_eq (rollback_size a) (rollback_size b) \<and>
     b\<lparr>artifact_size := artifact_size a, rollback_size := rollback_size a\<rparr> = a"

text \<open>
  The preview, computed without the lock.  \<open>gits n\<close> is what Git answers at its \<open>n\<close>-th
  snapshot.  The result is \<open>None\<close> when the profile is already authorized.
\<close>

definition authorize_preview ::
  "host \<Rightarrow> moment \<Rightarrow> (nat \<Rightarrow> git) \<Rightarrow> tree \<Rightarrow> string \<Rightarrow> string \<Rightarrow> string \<Rightarrow> preview option result" where
  "authorize_preview h tm gits t profile_arg target note_arg =
     bindE (canonical_repo_relative_path h (JStr profile_arg) ''profile'') (\<lambda>rel.
     bindE (capture_authorization_tcb h t (gits 0) (gits 1) (JStr rel)) (\<lambda>tcb.
     bindE (load_constants h t) (\<lambda>c.
     bindE (load_policy h t c) (\<lambda>(p, psha).
     bindE (need (fld tcb ''policy_sha256'' = JStr psha) ''policy changed during TCB verification'') (\<lambda>_.
     bindE (need (fld p ''enabled'' = JBool True) ''policy is disabled; no authorization can be added'') (\<lambda>_.
     bindE (repo_entry_exists h t active_rel ''active record'') (\<lambda>ex.
     bindE (need (\<not> ex) ''authorize-profile requires safe idle'') (\<lambda>_.
     bindE (validated_human_text h (JStr note_arg) ''authorize-profile --note'' 512) (\<lambda>note.
     bindE (need (member (JStr target) (arr_val (fld c ''partition_targets'')))
              ''authorize-profile target must be one of partition_targets'') (\<lambda>_.
     bindE (load_partition_profile h t (JStr rel) target) (\<lambda>pr.
     bindE (need (fld tcb ''profile_sha256'' = JStr (profile_sha256 pr)) ''profile changed during TCB verification'') (\<lambda>_.
     bindE (capture_authorization_tcb h t (gits 2) (gits 3) (JStr rel)) (\<lambda>tcb2.
     bindE (need (tcb2 = tcb) ''critical TCB changed while preparing authorization preview'') (\<lambda>_.
       (case find_authorized_profile p (profile_path pr) of
          Some e \<Rightarrow>
            if py_eq (fld e ''profile_sha256'') (JStr (profile_sha256 pr)) \<and>
               member (JStr target) (arr_val (fld e ''targets''))
            then Inr None
            else Inl (Refusal ''profile_path already has a different authorization'')
        | None \<Rightarrow>
            bindE (tm 0) (\<lambda>now.
            bindE (next_policy_revision (str_val (fld p ''revision'')) (take 10 now)) (\<lambda>rev.
            Inr (Some \<lparr>v_tcb = tcb, v_constants = c, v_policy_sha = psha, v_profile = pr, v_note = note,
                 v_revision = rev,
                 v_digest = payload_digest h (authorization_payload p psha tcb pr target note rev)\<rparr>))))))))))))))))))"

definition confirmation_text :: "preview \<Rightarrow> string" where
  "confirmation_text v = ''AUTHORIZE-PERSISTENT '' @ v_digest v"

text \<open>Under the lock: everything is read again and compared with the preview.\<close>

definition authorized_entry :: "dict \<Rightarrow> preview \<Rightarrow> string \<Rightarrow> json" where
  "authorized_entry p v target = JObj
     [(''profile_path'', JStr (profile_path (v_profile v))),
      (''profile_sha256'', JStr (profile_sha256 (v_profile v))),
      (''targets'', JArr [JStr target]),
      (''authorized_by'', fld p ''authorized_by''),
      (''note'', JStr (v_note v @ '' [authorization_digest='' @ v_digest v @ '']''))]"

definition authorize_recheck ::
  "host \<Rightarrow> (nat \<Rightarrow> git) \<Rightarrow> tree \<Rightarrow> string \<Rightarrow> string \<Rightarrow> preview \<Rightarrow> (dict \<times> dict \<times> string) result" where
  "authorize_recheck h gits t rel target v =
     bindE (capture_authorization_tcb h t (gits 4) (gits 5) (JStr rel)) (\<lambda>tcb.
     bindE (need (tcb = v_tcb v) ''Git HEAD or critical TCB changed after confirmation'') (\<lambda>_.
     bindE (load_constants h t) (\<lambda>c.
     bindE (need (canonical h (JObj c) = canonical h (JObj (v_constants v)))
              ''constants changed after confirmation'') (\<lambda>_.
     bindE (load_policy h t c) (\<lambda>(p, psha).
     bindE (need (psha = v_policy_sha v) ''policy changed after confirmation'') (\<lambda>_.
     bindE (repo_entry_exists h t active_rel ''active record'') (\<lambda>ex.
     bindE (need (\<not> ex) ''an active experiment appeared after confirmation'') (\<lambda>_.
     bindE (load_partition_profile h t (JStr rel) target) (\<lambda>pr.
     bindE (need (same_profile pr (v_profile v) \<and>
                  payload_digest h (authorization_payload p psha tcb pr target (v_note v) (v_revision v)) = v_digest v)
              ''profile or pinned artifacts changed after confirmation'') (\<lambda>_.
     bindE (need (find_authorized_profile p (profile_path (v_profile v)) = None)
              ''authorization changed concurrently'') (\<lambda>_.
     Inr (c, dict_set (dict_set p ''revision'' (JStr (v_revision v))) ''authorized_profiles''
            (JArr (arr_val (fld p ''authorized_profiles'') @ [authorized_entry p v target])), psha))))))))))))"

text \<open>
  \<open>between\<close> is what the rest of the world does after the preview and before the lock is
  taken: this is the only command that reads without the lock.
\<close>

definition cmd_authorize_profile ::
  "host \<Rightarrow> moment \<Rightarrow> string \<Rightarrow> (nat \<Rightarrow> git) \<Rightarrow> (tree \<Rightarrow> tree) \<Rightarrow> bool \<Rightarrow> string option \<Rightarrow>
   string \<Rightarrow> string \<Rightarrow> string \<Rightarrow> answer io" where
  "cmd_authorize_profile h tm tmp gits between tty typed profile_arg target note =
     bindI (readI (\<lambda>t. authorize_preview h tm gits t profile_arg target note)) (\<lambda>pv.
       (case pv of
          None \<Rightarrow> retI Done
        | Some v \<Rightarrow>
            bindI (liftI (confirm_authorization tty typed (confirmation_text v))) (\<lambda>_.
            bindI (\<lambda>w. (Inr (), w\<lparr>files := between (files w)\<rparr>)) (\<lambda>_.
            governance_lock h
              (bindI (readI (\<lambda>t. authorize_recheck h gits t profile_arg target v)) (\<lambda>(c, p, psha).
               bindI (atomic_write_repo_json h tmp policy_rel p (Some psha) False) (\<lambda>_.
               bindI (readI (\<lambda>t. load_policy h t c)) (\<lambda>_.
               retI (Authorized (v_revision v))))))))))"

section \<open>The command line\<close>

datatype command =
    Validate
  | AuthorizeProfile "nat \<Rightarrow> git" "tree \<Rightarrow> tree" bool "string option" string string string
  | New new_args
  | PreflightCmd
  | Claim
  | Result string string "string option"
  | Observe string
  | Archive

definition dispatch :: "host \<Rightarrow> moment \<Rightarrow> string \<Rightarrow> command \<Rightarrow> answer io" where
  "dispatch h tm tmp cmd = (case cmd of
       Validate \<Rightarrow> cmd_validate h
     | AuthorizeProfile gits between tty typed profile_arg target note \<Rightarrow>
         cmd_authorize_profile h tm tmp gits between tty typed profile_arg target note
     | New a \<Rightarrow> cmd_new h tmp a
     | PreflightCmd \<Rightarrow> cmd_claim h tm tmp True
     | Claim \<Rightarrow> cmd_claim h tm tmp False
     | Result outcome evidence note \<Rightarrow> cmd_result h tm tmp outcome evidence note
     | Observe note \<Rightarrow> cmd_observe h tm tmp note
     | Archive \<Rightarrow> cmd_archive h tmp)"

text \<open>\<open>main\<close>: refusals and operating system errors exit with 2, other exceptions escape.\<close>

definition main_exit :: "answer result \<Rightarrow> int" where
  "main_exit r = (case r of
       Inr _ \<Rightarrow> 0
     | Inl (Refusal _) \<Rightarrow> 2
     | Inl PyOSError \<Rightarrow> 2
     | Inl PyFileExistsError \<Rightarrow> 2
     | Inl _ \<Rightarrow> 1)"

end
