(* ===== verification/EngineFrames.thy ===== *)
theory EngineFrames
  imports Engine
begin

text \<open>
  What the commands of the engine leave alone.  A relation on trees that is reflexive and
  transitive and that every system call of an operation respects is respected by the
  operation, faults and kills included; the locale proves this once, and its
  interpretations give the frames, the append-only ledger and the permanence of guards.
\<close>

section \<open>Relations along an operation\<close>

definition tracks :: "(tree \<Rightarrow> tree \<Rightarrow> bool) \<Rightarrow> 'a io \<Rightarrow> bool" where
  "tracks R m \<longleftrightarrow> (\<forall>w. R (files w) (files (snd (m w))))"

lemma files_next_fault [simp]: "next_fault w = (f, w') \<Longrightarrow> files w' = files w"
  by (auto simp: next_fault_def split: list.splits)

lemma bind_lift_Inr: "bindI (liftI (Inr x)) f = f x"
  by (simp add: bindI_def liftI_def)

locale tree_relation =
  fixes R :: "tree \<Rightarrow> tree \<Rightarrow> bool"
  assumes rel_refl: "R t t"
    and rel_trans: "R t u \<Longrightarrow> R u v \<Longrightarrow> R t v"
begin

lemma tracks_ret: "tracks R (retI x)"
  by (simp add: tracks_def retI_def rel_refl)

lemma tracks_lift: "tracks R (liftI r)"
  by (simp add: tracks_def liftI_def rel_refl)

lemma tracks_read: "tracks R (readI q)"
  by (simp add: tracks_def readI_def rel_refl)

lemma tracks_bind: "tracks R m \<Longrightarrow> (\<And>x. tracks R (f x)) \<Longrightarrow> tracks R (bindI m f)"
  unfolding tracks_def bindI_def by (auto split: prod.split sum.split) (metis rel_trans snd_conv)+

lemma tracks_read_bind:
  "(\<And>t x. q t = Inr x \<Longrightarrow> tracks R (f x)) \<Longrightarrow> tracks R (bindI (readI q) f)"
  unfolding tracks_def bindI_def readI_def by (auto split: sum.split simp: rel_refl)

lemma tracks_on_error: "tracks R m \<Longrightarrow> tracks R c \<Longrightarrow> tracks R (on_error m c)"
  unfolding tracks_def on_error_def
  by (auto split: prod.split sum.split exc.split) (metis rel_trans snd_conv)+

lemma tracks_map_error: "tracks R m \<Longrightarrow> tracks R (map_error g m)"
  unfolding tracks_def map_error_def by (auto split: prod.split sum.split) (metis snd_conv)+

lemma tracks_syscall: "(\<And>now t. R t (g now t)) \<Longrightarrow> tracks R (syscall g)"
  unfolding tracks_def syscall_def by (auto split: prod.split fault.split simp: rel_refl)

lemma tracks_sync: "tracks R sys_sync"
  unfolding sys_sync_def by (rule tracks_syscall) (rule rel_refl)

lemma tracks_create:
  "(\<And>now t. t p = None \<Longrightarrow> R t (t(p \<mapsto> new_node h ty perm now))) \<Longrightarrow> tracks R (sys_create h p ty perm)"
  unfolding tracks_def sys_create_def syscall_def by (auto split: prod.split fault.split simp: rel_refl)

lemma tracks_write:
  "(\<And>bs now t. R t (update_node p (append_node bs now) t)) \<Longrightarrow> tracks R (sys_write p data)"
  unfolding tracks_def sys_write_def Let_def by (auto split: prod.split fault.split)

lemma tracks_open_or_create:
  "(\<And>now t. t p = None \<Longrightarrow> R t (t(p \<mapsto> new_node h F_REG 384 now))) \<Longrightarrow> tracks R (open_or_create h p label)"
  unfolding tracks_def open_or_create_def syscall_def liftI_def
  by (auto split: prod.splits fault.splits option.splits sum.splits exc.splits simp: rel_refl)

lemmas tracks_basic = tracks_ret tracks_lift tracks_read tracks_sync

end

section \<open>Paths the operations name\<close>

lemma walk_parents_dir: "walk_parents h t dir cs label = Inr d \<Longrightarrow> d = dir @ cs"
  by (induction h t dir cs label rule: walk_parents.induct)
    (auto simp: res_iff split: option.splits if_splits)

lemma comps_not_Nil [simp]: "comps p \<noteq> []"
  by (simp add: comps_def)

lemma open_repo_parent_path:
  "open_repo_parent h t (JStr rel) label = Inr (dir, leaf) \<Longrightarrow>
     dir = butlast (comps rel) \<and> leaf = last (comps rel)"
  by (auto simp: open_repo_parent_def canonical_repo_relative_path_def Let_def res_iff
      split: option.splits if_splits dest!: walk_parents_dir)

lemma parent_leaf: "butlast (comps rel) @ [last (comps rel)] = comps rel"
  by simp

definition claims_dir :: path where "claims_dir = [''notes'', ''bringup-claims'']"
definition lock_path :: path where "lock_path = [''notes'', ''bringup-claims'', ''.lock'']"
definition ledger_path :: path where "ledger_path = [''notes'', ''bringup-claims'', ''claims.log'']"
definition active_path :: path where "active_path = [''notes'', ''bringup-active.json'']"
definition policy_path :: path where "policy_path = [''config'', ''governance'', ''policy.json'']"
definition completed_dir :: path where "completed_dir = [''notes'', ''bringup-completed'']"
definition guard_file :: "string \<Rightarrow> path" where
  "guard_file i = [''notes'', ''bringup-claims'', i @ ''.claim-guard.json'']"
definition archive_file :: "string \<Rightarrow> path" where
  "archive_file i = [''notes'', ''bringup-completed'', i @ ''.json'']"

lemma fixed_paths [simp]:
  "comps ''notes/bringup-claims'' = claims_dir" "comps ''notes/bringup-claims/.lock'' = lock_path"
  "comps ledger_rel = ledger_path" "comps active_rel = active_path" "comps policy_rel = policy_path"
  "comps completed_dir_rel = completed_dir"
  by (simp_all add: comps_def claims_dir_def lock_path_def ledger_path_def active_path_def policy_path_def
      completed_dir_def ledger_rel_def claims_dir_rel_def active_rel_def policy_rel_def completed_dir_rel_def)

lemma id_no_slash: "experiment_id_ok i \<Longrightarrow> CHR ''/'' \<notin> set i"
  by (cases i) (auto simp: experiment_id_ok_def id_start_def list_all_iff is_lower_def is_digit_def ord_def)

lemma guard_comps: "experiment_id_ok i \<Longrightarrow> comps (guard_path i) = guard_file i"
proof -
  assume "experiment_id_ok i"
  then have "CHR ''/'' \<notin> set (i @ ''.claim-guard.json'')" by (simp add: id_no_slash)
  then have "split_on (CHR ''/'') (i @ ''.claim-guard.json'') = [i @ ''.claim-guard.json'']"
    by (rule split_on_single)
  then show ?thesis by (simp add: comps_def guard_path_def guard_file_def)
qed

lemma archive_comps: "experiment_id_ok i \<Longrightarrow> comps (archive_path i) = archive_file i"
proof -
  assume "experiment_id_ok i"
  then have "CHR ''/'' \<notin> set (i @ ''.json'')" by (simp add: id_no_slash)
  then have "split_on (CHR ''/'') (i @ ''.json'') = [i @ ''.json'']"
    by (rule split_on_single)
  then show ?thesis by (simp add: comps_def archive_path_def archive_file_def completed_dir_rel_def)
qed

section \<open>The writers along a relation\<close>

context tree_relation
begin

lemma tracks_replace_file:
  assumes "\<And>now t. t (dir @ [tmp]) = None \<Longrightarrow> R t (t(dir @ [tmp] \<mapsto> new_node h F_REG mode now))"
    and "\<And>g t. R t (update_node (dir @ [tmp]) g t)"
    and "\<And>t. R t ((t(p := t (dir @ [tmp])))(dir @ [tmp] := None))"
    and "\<And>t. R t (t(dir @ [tmp] := None))"
    and "mode = (case ex of Some n \<Rightarrow> st_perm (st n) | None \<Rightarrow> 384)"
  shows "tracks R (replace_file h dir tmp ex p encoded)"
  unfolding replace_file_def Let_def assms(5)[symmetric] sys_chmod_own_def sys_rename_def sys_unlink_def
  by (intro tracks_bind tracks_on_error tracks_create tracks_syscall tracks_write tracks_basic assms(1-4))

lemma tracks_atomic_write:
  assumes "\<And>now t mode. t (butlast (comps rel) @ [tmp]) = None \<Longrightarrow>
      R t (t(butlast (comps rel) @ [tmp] \<mapsto> new_node h F_REG mode now))"
    and "\<And>g t. R t (update_node (butlast (comps rel) @ [tmp]) g t)"
    and "\<And>t. R t ((t(comps rel := t (butlast (comps rel) @ [tmp])))(butlast (comps rel) @ [tmp] := None))"
    and "\<And>t. R t (t(butlast (comps rel) @ [tmp] := None))"
  shows "tracks R (atomic_write_repo_json h tmp rel value expected fresh)"
  unfolding atomic_write_repo_json_def
proof (rule tracks_read_bind, clarify)
  fix t dir leaf
  assume "open_repo_parent h t (JStr rel) ''JSON destination'' = Inr (dir, leaf)"
  from open_repo_parent_path[OF this]
  have dl: "dir = butlast (comps rel)" "dir @ [leaf] = comps rel" by simp_all
  show "tracks R (bindI (readI (\<lambda>t. existing_destination h t (dir @ [leaf]))) (\<lambda>ex.
     bindI (liftI (check_destination h ex expected fresh)) (\<lambda>_.
     bindI (replace_file h dir tmp ex (dir @ [leaf]) (stored_json h (JObj value))) (\<lambda>_. sys_sync))))"
    unfolding dl(2) unfolding dl(1)
    by (intro tracks_bind tracks_basic tracks_replace_file[OF _ _ _ _ refl] assms)
qed

lemma tracks_ensure_directory:
  assumes "\<And>now t. t (comps rel) = None \<Longrightarrow> R t (t(comps rel \<mapsto> new_node h F_DIR 448 now))"
  shows "tracks R (ensure_repo_directory h rel label)"
  unfolding ensure_repo_directory_def
proof (rule tracks_read_bind, clarify)
  fix t dir leaf
  assume "open_repo_parent h t (JStr rel) label = Inr (dir, leaf)"
  from open_repo_parent_path[OF this] have dl: "dir @ [leaf] = comps rel" by simp
  have c: "tracks R (sys_create h (comps rel) F_DIR 448)" by (rule tracks_create) (rule assms)
  have "tracks R (\<lambda>w. case sys_create h (comps rel) F_DIR 448 w of
              (Inl PyFileExistsError, w') \<Rightarrow> (Inr (), w')
            | (Inl e, w') \<Rightarrow> (Inl e, w')
            | (Inr _, w') \<Rightarrow> sys_sync w')"
    unfolding tracks_def
  proof
    fix w
    obtain r w' where sc: "sys_create h (comps rel) F_DIR 448 w = (r, w')" by (cases "sys_create h (comps rel) F_DIR 448 w")
    have 1: "R (files w) (files w')" using c sc unfolding tracks_def by (metis snd_conv)
    have 2: "R (files w') (files (snd (sys_sync w')))" using tracks_sync unfolding tracks_def by blast
    show "R (files w) (files (snd (case sys_create h (comps rel) F_DIR 448 w of
              (Inl PyFileExistsError, w') \<Rightarrow> (Inr (), w')
            | (Inl e, w') \<Rightarrow> (Inl e, w')
            | (Inr _, w') \<Rightarrow> sys_sync w')))"
      unfolding sc using 1 rel_trans[OF 1 2] by (auto split: sum.split exc.split)
  qed
  then show "tracks R (bindI (\<lambda>w. case sys_create h (dir @ [leaf]) F_DIR 448 w of
              (Inl PyFileExistsError, w') \<Rightarrow> (Inr (), w')
            | (Inl e, w') \<Rightarrow> (Inl e, w')
            | (Inr _, w') \<Rightarrow> sys_sync w') (\<lambda>_.
     readI (\<lambda>t. case t (dir @ [leaf]) of
         None \<Rightarrow> Inl (classify_open_error t (dir @ [leaf]) label)
       | Some n \<Rightarrow> if st_type (st n) \<noteq> F_DIR then Inl (classify_open_error t (dir @ [leaf]) label)
           else Inr ())))"
    unfolding dl by (intro tracks_bind tracks_basic)
qed

lemma tracks_unlink:
  assumes "\<And>t. R t (t(comps rel := None))"
  shows "tracks R (unlink_repo_regular_file h rel label)"
  unfolding unlink_repo_regular_file_def
proof (rule tracks_read_bind, clarify)
  fix t dir leaf
  assume "open_repo_parent h t (JStr rel) label = Inr (dir, leaf)"
  from open_repo_parent_path[OF this] have dl: "dir @ [leaf] = comps rel" by simp
  show "tracks R (bindI (readI (\<lambda>t. open_existing_at h t (dir @ [leaf]) label)) (\<lambda>_.
     bindI (sys_unlink (dir @ [leaf])) (\<lambda>_. sys_sync)))"
    unfolding dl sys_unlink_def by (intro tracks_bind tracks_basic tracks_syscall assms)
qed

lemma tracks_lock:
  assumes "\<And>now t. t claims_dir = None \<Longrightarrow> R t (t(claims_dir \<mapsto> new_node h F_DIR 448 now))"
    and "\<And>now t. t lock_path = None \<Longrightarrow> R t (t(lock_path \<mapsto> new_node h F_REG 384 now))"
    and "tracks R body"
  shows "tracks R (governance_lock h body)"
  unfolding governance_lock_def
proof (rule tracks_bind)
  show "tracks R (ensure_repo_directory h ''notes/bringup-claims'' ''claims directory'')"
    by (rule tracks_ensure_directory) (simp add: assms(1))
  show "tracks R (bindI (readI (\<lambda>t. open_repo_parent h t (JStr ''notes/bringup-claims/.lock'') ''governance lock''))
     (\<lambda>(dir, leaf).
     bindI (open_or_create h (dir @ [leaf]) ''governance lock'') (\<lambda>_.
     bindI (readI (\<lambda>t. open_existing_at h t (dir @ [leaf]) ''governance lock'')) (\<lambda>_.
     body))))"
  proof (rule tracks_read_bind, clarify)
    fix t dir leaf
    assume "open_repo_parent h t (JStr ''notes/bringup-claims/.lock'') ''governance lock'' = Inr (dir, leaf)"
    from open_repo_parent_path[OF this] have dl: "dir @ [leaf] = lock_path" by (simp flip: fixed_paths)
    show "tracks R (bindI (open_or_create h (dir @ [leaf]) ''governance lock'') (\<lambda>_.
     bindI (readI (\<lambda>t. open_existing_at h t (dir @ [leaf]) ''governance lock'')) (\<lambda>_. body)))"
      unfolding dl by (intro tracks_bind tracks_basic tracks_open_or_create assms(2,3))
  qed
qed

lemma tracks_append_ledger:
  assumes "\<And>now t. t ledger_path = None \<Longrightarrow> R t (t(ledger_path \<mapsto> new_node h F_REG 384 now))"
    and "\<And>bs now t. R t (update_node ledger_path (append_node bs now) t)"
  shows "tracks R (append_ledger_line h line)"
  unfolding append_ledger_line_def
proof (rule tracks_read_bind, clarify)
  fix t dir leaf
  assume "open_repo_parent h t (JStr ledger_rel) ''claims ledger'' = Inr (dir, leaf)"
  from open_repo_parent_path[OF this] have dl: "dir @ [leaf] = ledger_path" by (simp flip: fixed_paths)
  show "tracks R (bindI (open_or_create h (dir @ [leaf]) ''claims ledger'') (\<lambda>_.
     bindI (sys_write (dir @ [leaf]) (line @ [LF])) (\<lambda>_. bindI sys_sync (\<lambda>_. sys_sync))))"
    unfolding dl by (intro tracks_bind tracks_basic tracks_open_or_create tracks_write assms)
qed

lemma tracks_create_guard:
  assumes "\<And>now t. t p = None \<Longrightarrow> R t (t(p \<mapsto> new_node h F_REG 384 now))"
  shows "tracks R (create_guard h p)"
proof -
  have "tracks R (sys_create h p F_REG 384)" by (rule tracks_create) (rule assms)
  then have "R (files w) (files (snd (sys_create h p F_REG 384 w)))" for w unfolding tracks_def by blast
  moreover have "files (snd (create_guard h p w)) = files (snd (sys_create h p F_REG 384 w))" for w
    unfolding create_guard_def by (auto split: prod.split sum.split exc.split)
  ultimately show ?thesis unfolding tracks_def by simp
qed

lemma tracks_write_guard:
  assumes "experiment_id_ok i \<Longrightarrow>
      (\<And>now t. t (guard_file i) = None \<Longrightarrow> R t (t(guard_file i \<mapsto> new_node h F_REG 384 now)))"
    and "experiment_id_ok i \<Longrightarrow> (\<And>bs now t. R t (update_node (guard_file i) (append_node bs now) t))"
  shows "tracks R (write_claim_guard h i receipt digest)"
proof (cases "experiment_id_ok i")
  case False
  then show ?thesis
    by (simp add: write_claim_guard_def claim_guard_rel_def tracks_def bindI_def liftI_def rel_refl)
next
  case True
  note ok = True
  have eq: "write_claim_guard h i receipt digest =
     bindI (readI (\<lambda>t. open_repo_parent h t (JStr (guard_path i)) ''claim replay guard'')) (\<lambda>(dir, leaf).
     bindI (create_guard h (dir @ [leaf])) (\<lambda>_.
     bindI (sys_write (dir @ [leaf]) (canonical h (JObj
         [(''schema_version'', JInt 1), (''experiment_id'', JStr i),
          (''action_digest'', JStr digest), (''receipt'', JObj receipt)]) @ [LF])) (\<lambda>_.
     bindI sys_sync (\<lambda>_. sys_sync))))"
    using ok by (simp add: write_claim_guard_def claim_guard_rel_def bind_lift_Inr)
  show ?thesis unfolding eq
  proof (rule tracks_read_bind, clarify)
    fix t dir leaf
    assume "open_repo_parent h t (JStr (guard_path i)) ''claim replay guard'' = Inr (dir, leaf)"
    from open_repo_parent_path[OF this] have dl: "dir @ [leaf] = guard_file i" by (simp add: guard_comps[OF ok] guard_file_def)
    show "tracks R (bindI (create_guard h (dir @ [leaf])) (\<lambda>_.
       bindI (sys_write (dir @ [leaf]) (canonical h (JObj
         [(''schema_version'', JInt 1), (''experiment_id'', JStr i),
          (''action_digest'', JStr digest), (''receipt'', JObj receipt)]) @ [LF])) (\<lambda>_.
       bindI sys_sync (\<lambda>_. sys_sync))))"
      unfolding dl by (intro tracks_bind tracks_basic tracks_create_guard tracks_write assms ok)
  qed
qed

end


section \<open>Records that pass the validator\<close>

lemma validate_common_ok:
  "validate_record h c r = Inr () \<Longrightarrow>
     validate_common r (str_val (fld r ''tier'')) = Inr () \<and> member (fld r ''tier'') (map JStr TIERS)"
  by (auto simp: validate_record_def Let_def res_iff)

lemma valid_experiment_id:
  "validate_record h c r = Inr () \<Longrightarrow>
     is_str (fld r ''experiment_id'') \<and> experiment_id_ok (str_val (fld r ''experiment_id''))"
  using validate_common_ok[of h c r] unfolding validate_common_def by (auto simp: res_iff)

lemma load_active_valid: "load_active h t c = Inr r \<Longrightarrow> validate_record h c r = Inr ()"
  by (auto simp: load_active_def res_iff split: if_splits)

lemma plan_archive_id: "plan_archive h t = Inr r \<Longrightarrow> experiment_id_ok (str_val (fld r ''experiment_id''))"
  by (auto simp: plan_archive_def res_iff dest!: load_active_valid valid_experiment_id)

section \<open>Every command along a relation\<close>

definition tmp_dirs :: "path set" where
  "tmp_dirs = {[''notes''], [''notes'', ''bringup-completed''], [''config'', ''governance'']}"

lemma active_parent: "butlast active_path \<in> tmp_dirs" "butlast policy_path \<in> tmp_dirs"
  by (simp_all add: active_path_def policy_path_def tmp_dirs_def)

locale engine_relation = tree_relation R for R :: "tree \<Rightarrow> tree \<Rightarrow> bool" +
  fixes h :: host and tmp :: string
  assumes dir_law: "p \<in> {claims_dir, completed_dir} \<Longrightarrow> t p = None \<Longrightarrow> R t (t(p \<mapsto> new_node h F_DIR 448 now))"
    and file_law: "p \<in> {lock_path, ledger_path} \<Longrightarrow> t p = None \<Longrightarrow> R t (t(p \<mapsto> new_node h F_REG 384 now))"
    and append_law: "R t (update_node ledger_path (append_node bs now) t)"
    and guard_law: "experiment_id_ok i \<Longrightarrow> t (guard_file i) = None \<Longrightarrow>
      R t (t(guard_file i \<mapsto> new_node h F_REG 384 now))"
    and guard_append_law: "experiment_id_ok i \<Longrightarrow> R t (update_node (guard_file i) (append_node bs now) t)"
    and tmp_create_law: "d \<in> tmp_dirs \<Longrightarrow> t (d @ [tmp]) = None \<Longrightarrow> R t (t(d @ [tmp] \<mapsto> new_node h F_REG mode now))"
    and tmp_update_law: "d \<in> tmp_dirs \<Longrightarrow> R t (update_node (d @ [tmp]) g t)"
    and tmp_unlink_law: "d \<in> tmp_dirs \<Longrightarrow> R t (t(d @ [tmp] := None))"
    and rename_law: "p \<in> {active_path, policy_path} \<Longrightarrow>
      R t ((t(p := t (butlast p @ [tmp])))(butlast p @ [tmp] := None))"
    and unlink_law: "R t (t(active_path := None))"
    and archive_law: "experiment_id_ok i \<Longrightarrow>
      tracks R (atomic_write_repo_json h tmp (archive_path i) v None True)"
begin

lemma tracks_locked: "tracks R body \<Longrightarrow> tracks R (governance_lock h body)"
  by (rule tracks_lock) (auto intro: dir_law file_law)

lemma tracks_write_active: "tracks R (atomic_write_repo_json h tmp active_rel v expected fresh)"
  by (rule tracks_atomic_write)
    (auto intro: tmp_create_law tmp_update_law tmp_unlink_law rename_law simp: active_parent)

lemma tracks_write_policy: "tracks R (atomic_write_repo_json h tmp policy_rel v expected fresh)"
  by (rule tracks_atomic_write)
    (auto intro: tmp_create_law tmp_update_law tmp_unlink_law rename_law simp: active_parent)

lemma tracks_claim: "tracks R (cmd_claim h tm tmp dry_run)"
proof -
  have "tracks R (claim_commit h tm tmp pl)" for pl
    unfolding claim_commit_def
    by (intro tracks_bind tracks_basic tracks_map_error tracks_write_active tracks_append_ledger
        tracks_write_guard file_law append_law guard_law guard_append_law | clarsimp)+
  then show ?thesis
    unfolding cmd_claim_def by (intro tracks_locked tracks_bind tracks_basic) (simp add: tracks_bind tracks_ret)
qed

lemma tracks_new: "tracks R (cmd_new h tmp a)"
  unfolding cmd_new_def by (intro tracks_locked tracks_bind tracks_basic tracks_write_active)

lemma tracks_result: "tracks R (cmd_result h tm tmp outcome evidence note)"
  unfolding cmd_result_def
  by (intro tracks_locked tracks_bind tracks_basic) (auto intro!: tracks_bind tracks_basic tracks_write_active)

lemma tracks_observe: "tracks R (cmd_observe h tm tmp note)"
  unfolding cmd_observe_def
  by (intro tracks_locked tracks_bind tracks_basic) (auto intro!: tracks_bind tracks_basic tracks_write_active)

lemma tracks_archive: "tracks R (cmd_archive h tmp)"
  unfolding cmd_archive_def Let_def
proof (intro tracks_locked tracks_read_bind)
  fix t r
  assume "plan_archive h t = Inr r"
  then have ok: "experiment_id_ok (str_val (fld r ''experiment_id''))" by (rule plan_archive_id)
  show "tracks R (bindI (ensure_repo_directory h completed_dir_rel ''completed records directory'') (\<lambda>_.
           bindI (readI (\<lambda>t. bindE (repo_entry_exists h t (archive_path (str_val (fld r ''experiment_id'')))
                      ''archive destination'') (\<lambda>ex.
                    need (\<not> ex) ''archive destination already exists''))) (\<lambda>_.
           bindI (atomic_write_repo_json h tmp (archive_path (str_val (fld r ''experiment_id''))) r None True) (\<lambda>_.
           bindI (unlink_repo_regular_file h active_rel ''active record'') (\<lambda>_.
           retI Done)))))"
    by (intro tracks_bind tracks_basic tracks_ensure_directory archive_law ok tracks_unlink)
      (simp_all add: dir_law unlink_law)
qed

lemma tracks_validate: "tracks R (cmd_validate h)"
  unfolding cmd_validate_def by (rule tracks_read)

lemma tracks_authorize:
  assumes "\<And>t. R t (btw t)"
  shows "tracks R (cmd_authorize_profile h tm tmp gits btw tty typed profile_arg target note)"
proof -
  have b: "tracks R (\<lambda>w. (Inr (), w\<lparr>files := btw (files w)\<rparr>))"
    by (simp add: tracks_def assms)
  show ?thesis
    unfolding cmd_authorize_profile_def
    by (intro tracks_bind tracks_basic)
      (auto intro!: tracks_bind tracks_basic b tracks_locked tracks_write_policy split: option.split)
qed

theorem tracks_dispatch:
  assumes "\<And>gits btw tty typed pa target nt t.
      cmd = AuthorizeProfile gits btw tty typed pa target nt \<Longrightarrow> R t (btw t)"
  shows "tracks R (dispatch h tm tmp cmd)"
proof (cases cmd)
  case (AuthorizeProfile gits btw tty typed pa target nt)
  show ?thesis unfolding dispatch_def AuthorizeProfile command.case
    by (rule tracks_authorize) (rule assms[OF AuthorizeProfile])
qed (simp_all add: dispatch_def tracks_claim tracks_new tracks_result tracks_observe tracks_archive
    tracks_validate)

end

end
