(* ===== verification/EngineSpec.thy ===== *)
theory EngineSpec
  imports EngineFrames
begin

text \<open>
  What the governance engine guarantees over any sequence of commands with any faults:
  guards are permanent, so an experiment is claimed at most once; the ledger only grows;
  archived records never change; nothing else of the repository is touched; and a claim
  is only consumed for a record that passed every gate.
\<close>

section \<open>Inverting successful steps\<close>

named_theorems io_iff \<open>what a successful step on the world implies\<close>

lemma bindI_Inr [io_iff]:
  "bindI m f w = (Inr y, w') \<longleftrightarrow> (\<exists>x w1. m w = (Inr x, w1) \<and> f x w1 = (Inr y, w'))"
  by (auto simp: bindI_def split: prod.splits sum.splits)

lemma readI_Inr [io_iff]: "readI q w = (Inr y, w') \<longleftrightarrow> q (files w) = Inr y \<and> w' = w"
  by (auto simp: readI_def)

lemma liftI_Inr [io_iff]: "liftI r w = (Inr y, w') \<longleftrightarrow> r = Inr y \<and> w' = w"
  by (auto simp: liftI_def)

lemma retI_Inr [io_iff]: "retI x w = (Inr y, w') \<longleftrightarrow> y = x \<and> w' = w"
  by (auto simp: retI_def)

lemma map_error_Inr [io_iff]: "map_error g m w = (Inr y, w') \<longleftrightarrow> m w = (Inr y, w')"
  by (auto simp: map_error_def split: prod.splits sum.splits)

lemma bind_step: "m w = (Inr x, w1) \<Longrightarrow> bindI m f w = f x w1"
  by (simp add: bindI_def)

lemma bind_read_Inr: "q (files w) = Inr x \<Longrightarrow> bindI (readI q) f w = f x w"
  by (simp add: bindI_def readI_def)

section \<open>Frames\<close>

definition frame :: "path set \<Rightarrow> tree \<Rightarrow> tree \<Rightarrow> bool" where
  "frame S t t' \<longleftrightarrow> (\<forall>p. p \<notin> S \<longrightarrow> t' p = t p)"

interpretation fr: tree_relation "frame S" for S
  by unfold_locales (simp_all add: frame_def)

lemma tracksD: "tracks R m \<Longrightarrow> m w = (r, w') \<Longrightarrow> R (files w) (files w')"
  unfolding tracks_def by (metis snd_conv)

lemma frame_upd [simp]: "p \<in> S \<Longrightarrow> frame S t (t(p := x))"
  by (auto simp: frame_def)

lemma frame_update_node [simp]: "p \<in> S \<Longrightarrow> frame S t (update_node p g t)"
  by (simp add: update_node_def)

lemma lock_Inr:
  assumes "governance_lock h body w = (Inr y, w')"
  shows "\<exists>w1. body w1 = (Inr y, w') \<and> frame {claims_dir, lock_path} (files w) (files w1)"
proof -
  from assms obtain w0 dir leaf w2 where
    e: "ensure_repo_directory h ''notes/bringup-claims'' ''claims directory'' w = (Inr (), w0)"
    and p: "open_repo_parent h (files w0) (JStr ''notes/bringup-claims/.lock'') ''governance lock'' = Inr (dir, leaf)"
    and c: "open_or_create h (dir @ [leaf]) ''governance lock'' w0 = (Inr (), w2)"
    and b: "body w2 = (Inr y, w')"
    unfolding governance_lock_def by (auto simp: io_iff)
  have dl: "dir @ [leaf] = lock_path" using open_repo_parent_path[OF p] by (simp flip: fixed_paths)
  have "frame {claims_dir, lock_path} (files w) (files w0)"
    by (rule tracksD[OF fr.tracks_ensure_directory e]) simp
  moreover have "frame {claims_dir, lock_path} (files w0) (files w2)"
    by (rule tracksD[OF fr.tracks_open_or_create c]) (simp add: dl)
  ultimately show ?thesis using b fr.rel_trans by blast
qed

section \<open>The contracts of the commands\<close>

text \<open>Path facts the interpretations share.\<close>

lemma guard_file_other:
  "guard_file i \<noteq> claims_dir" "guard_file i \<noteq> completed_dir" "guard_file i \<noteq> lock_path"
  "guard_file i \<noteq> active_path" "guard_file i \<noteq> policy_path" "guard_file i \<noteq> archive_file j"
  by (auto simp: guard_file_def claims_dir_def completed_dir_def lock_path_def active_path_def
      policy_path_def archive_file_def dest: arg_cong[of _ _ last])

lemma guard_file_ledger: "guard_file i \<noteq> ledger_path"
proof
  assume "guard_file i = ledger_path"
  then have "last (i @ ''.claim-guard.json'') = last ''claims.log''"
    by (simp only: guard_file_def ledger_path_def list.inject)
  then show False by simp
qed

lemma guard_file_tmp: "d \<in> tmp_dirs \<Longrightarrow> guard_file i \<noteq> d @ [x]"
  by (auto simp: tmp_dirs_def guard_file_def)

lemma ledger_other:
  "ledger_path \<noteq> claims_dir" "ledger_path \<noteq> completed_dir" "ledger_path \<noteq> lock_path"
  "ledger_path \<noteq> active_path" "ledger_path \<noteq> policy_path" "ledger_path \<noteq> archive_file j"
  by (simp_all add: ledger_path_def claims_dir_def completed_dir_def lock_path_def active_path_def
      policy_path_def archive_file_def)

lemma ledger_tmp: "d \<in> tmp_dirs \<Longrightarrow> ledger_path \<noteq> d @ [x]"
  by (auto simp: tmp_dirs_def ledger_path_def)

lemma archive_file_other:
  "archive_file i \<noteq> claims_dir" "archive_file i \<noteq> completed_dir" "archive_file i \<noteq> lock_path"
  "archive_file i \<noteq> active_path" "archive_file i \<noteq> policy_path" "archive_file i \<noteq> guard_file j"
  "archive_file i \<noteq> ledger_path"
  by (simp_all add: ledger_path_def claims_dir_def completed_dir_def lock_path_def active_path_def
      policy_path_def archive_file_def guard_file_def)

lemma archive_parent: "butlast (archive_file i) = completed_dir" "completed_dir \<in> tmp_dirs"
  by (simp_all add: archive_file_def completed_dir_def tmp_dirs_def)

text \<open>An existing guard stays.\<close>

definition guard_kept :: "string \<Rightarrow> tree \<Rightarrow> tree \<Rightarrow> bool" where
  "guard_kept i t t' \<longleftrightarrow> (t (guard_file i) \<noteq> None \<longrightarrow> t' (guard_file i) \<noteq> None)"

interpretation gk: tree_relation "guard_kept i" for i
  by unfold_locales (simp_all add: guard_kept_def)

lemma guard_kept_upd [simp]: "p \<noteq> guard_file i \<Longrightarrow> guard_kept i t (t(p := x))"
  by (simp add: guard_kept_def)

lemma guard_kept_some [simp]: "guard_kept i t (t(p \<mapsto> x))"
  by (simp add: guard_kept_def)

lemma guard_kept_node [simp]: "guard_kept i t (update_node p g t)"
  by (simp add: guard_kept_def update_node_def)

lemma guard_kept_rename [simp]:
  "p \<noteq> guard_file i \<Longrightarrow> q \<noteq> guard_file i \<Longrightarrow> guard_kept i t ((t(p := x))(q := y))"
  by (simp add: guard_kept_def)

interpretation gk: engine_relation "guard_kept i" h tmp for i h tmp
proof unfold_locales
  fix j v
  assume "experiment_id_ok j"
  then show "tracks (guard_kept i) (atomic_write_repo_json h tmp (archive_path j) v None True)"
    using guard_file_tmp[OF archive_parent(2)] guard_file_other
    by (intro gk.tracks_atomic_write) (simp_all add: archive_comps archive_parent not_sym)
qed (use guard_file_tmp guard_file_other active_parent in \<open>auto simp: not_sym\<close>)

text \<open>The ledger only grows.\<close>

definition ledger_grows :: "tree \<Rightarrow> tree \<Rightarrow> bool" where
  "ledger_grows t t' \<longleftrightarrow> (\<forall>n. t ledger_path = Some n \<longrightarrow>
     (\<exists>n'. t' ledger_path = Some n' \<and> prefix (contents n) (contents n')))"

interpretation lg: tree_relation ledger_grows
  by unfold_locales (auto simp: ledger_grows_def, meson prefix_order.trans)

lemma ledger_grows_upd [simp]: "p \<noteq> ledger_path \<Longrightarrow> ledger_grows t (t(p := x))"
  by (auto simp: ledger_grows_def)

lemma ledger_grows_new [simp]: "t ledger_path = None \<Longrightarrow> ledger_grows t (t(ledger_path \<mapsto> x))"
  by (auto simp: ledger_grows_def)

lemma ledger_grows_node [simp]: "p \<noteq> ledger_path \<Longrightarrow> ledger_grows t (update_node p g t)"
  by (simp add: update_node_def)

lemma ledger_grows_append [simp]: "ledger_grows t (update_node ledger_path (append_node bs now) t)"
  by (auto simp: ledger_grows_def update_node_def append_node_def)

lemma ledger_grows_rename [simp]:
  "p \<noteq> ledger_path \<Longrightarrow> q \<noteq> ledger_path \<Longrightarrow> ledger_grows t ((t(p := x))(q := y))"
  by (auto simp: ledger_grows_def)

interpretation lg: engine_relation ledger_grows h tmp for h tmp
proof unfold_locales
  fix j v
  assume "experiment_id_ok j"
  then show "tracks ledger_grows (atomic_write_repo_json h tmp (archive_path j) v None True)"
    using ledger_tmp[OF archive_parent(2)] ledger_other
    by (intro lg.tracks_atomic_write) (simp_all add: archive_comps archive_parent not_sym)
next
  fix p and t :: tree and now
  assume "p \<in> {lock_path, ledger_path}" "t p = None"
  then show "ledger_grows t (t(p \<mapsto> new_node h F_REG 384 now))"
    using ledger_other(3) by (cases "p = ledger_path") (simp_all add: not_sym)
qed (use ledger_tmp ledger_other guard_file_ledger active_parent in \<open>auto simp: not_sym\<close>)

text \<open>
  An archived record stays as it is.  The temporary file of a write is named
  \<open>.tmp-...\<close>, which no experiment id can be.
\<close>

definition tmp_name :: "string \<Rightarrow> bool" where
  "tmp_name tmp \<longleftrightarrow> prefix ''.tmp-'' tmp"

definition archive_kept :: "string \<Rightarrow> string \<Rightarrow> tree \<Rightarrow> tree \<Rightarrow> bool" where
  "archive_kept i tmp t t' \<longleftrightarrow> (experiment_id_ok i \<and> tmp_name tmp \<longrightarrow>
     (\<forall>n. t (archive_file i) = Some n \<longrightarrow> t' (archive_file i) = Some n))"

interpretation ak: tree_relation "archive_kept i tmp" for i tmp
  by unfold_locales (simp_all add: archive_kept_def)

lemma archive_file_tmp:
  assumes "d \<in> tmp_dirs" "experiment_id_ok i" "tmp_name tmp"
  shows "archive_file i \<noteq> d @ [tmp]"
proof
  assume "archive_file i = d @ [tmp]"
  then have "i @ ''.json'' = tmp" using assms(1) by (auto simp: tmp_dirs_def archive_file_def)
  then have "hd i = CHR ''.''" using assms(2,3) by (cases i) (auto simp: tmp_name_def experiment_id_ok_def)
  then show False using assms(2)
    by (cases i) (auto simp: experiment_id_ok_def id_start_def is_lower_def is_digit_def ord_def)
qed

lemma archive_kept_upd: "p \<noteq> archive_file i \<Longrightarrow> archive_kept i tmp t (t(p := x))"
  by (simp add: archive_kept_def)

lemma archive_kept_tmp: "d \<in> tmp_dirs \<Longrightarrow> archive_kept i tmp t (t(d @ [tmp] := x))"
  using archive_file_tmp by (auto simp: archive_kept_def)

lemma archive_kept_node: "p \<noteq> archive_file i \<Longrightarrow> archive_kept i tmp t (update_node p g t)"
  by (simp add: archive_kept_upd update_node_def)

lemma archive_kept_tmp_node: "d \<in> tmp_dirs \<Longrightarrow> archive_kept i tmp t (update_node (d @ [tmp]) g t)"
  by (simp add: archive_kept_tmp update_node_def)

lemma archive_kept_rename:
  "p \<noteq> archive_file i \<Longrightarrow> d \<in> tmp_dirs \<Longrightarrow> archive_kept i tmp t ((t(p := x))(d @ [tmp] := y))"
  using archive_file_tmp by (auto simp: archive_kept_def)

text \<open>A write with \<open>must_not_exist\<close> finds the destination free or changes nothing.\<close>

lemma exclusive_write:
  assumes "t = files w" "t (comps rel) = Some n"
  shows "files (snd (atomic_write_repo_json h tmp rel v None True w)) = t"
proof (cases "open_repo_parent h t (JStr rel) ''JSON destination''")
  case (Inl e)
  then show ?thesis using assms(1) by (simp add: atomic_write_repo_json_def bindI_def readI_def)
next
  case (Inr dl)
  then have d: "fst dl @ [snd dl] = comps rel"
    using open_repo_parent_path[of h t rel _ "fst dl" "snd dl"] by simp
  show ?thesis
  proof (cases "existing_destination h t (comps rel)")
    case (Inl e)
    then show ?thesis using Inr d assms(1)
      by (simp add: atomic_write_repo_json_def bindI_def readI_def case_prod_beta)
  next
    case (Inr ex)
    then have "ex \<noteq> None" using assms(2) by (auto simp: existing_destination_def res_iff)
    then obtain m where "ex = Some m" by auto
    with Inr \<open>_ = Inr dl\<close> d assms(1) show ?thesis
      by (simp add: atomic_write_repo_json_def bindI_def readI_def liftI_def case_prod_beta check_destination_def)
  qed
qed

lemma archive_write_kept:
  assumes "experiment_id_ok j"
  shows "tracks (archive_kept i tmp) (atomic_write_repo_json h tmp (archive_path j) v None True)"
proof (cases "archive_file i = archive_file j")
  case True
  have "archive_kept i tmp (files w) (files (snd (atomic_write_repo_json h tmp (archive_path j) v None True w)))" for w
    using exclusive_write[OF refl, of w "archive_path j" _ h tmp v] archive_comps[OF assms] True
    by (auto simp: archive_kept_def)
  then show ?thesis by (simp add: tracks_def)
next
  case False
  show ?thesis
    by (rule ak.tracks_atomic_write)
      (use False archive_parent in \<open>simp_all add: archive_comps[OF assms] archive_kept_tmp
        archive_kept_tmp_node archive_kept_rename\<close>)
qed

interpretation ak: engine_relation "archive_kept i tmp" h tmp for i h tmp
proof unfold_locales
  fix j v
  assume "experiment_id_ok j"
  then show "tracks (archive_kept i tmp) (atomic_write_repo_json h tmp (archive_path j) v None True)"
    by (rule archive_write_kept)
next
  fix p t
  assume "p \<in> {active_path, policy_path}"
  then show "archive_kept i tmp t ((t(p := t (butlast p @ [tmp])))(butlast p @ [tmp] := None))"
    using active_parent archive_file_other(4,5)[of i]
    by (intro archive_kept_rename) (auto simp: not_sym)
qed (use archive_file_other in \<open>auto simp: not_sym archive_kept_upd archive_kept_tmp archive_kept_node
      archive_kept_tmp_node\<close>)

text \<open>The footprint of the engine: nothing else of the repository changes.\<close>

definition footprint :: "string \<Rightarrow> path set" where
  "footprint tmp = {claims_dir, completed_dir, lock_path, ledger_path, active_path, policy_path} \<union>
     {guard_file i |i. experiment_id_ok i} \<union> {archive_file i |i. experiment_id_ok i} \<union>
     {d @ [tmp] |d. d \<in> tmp_dirs}"

lemma frame_upd2 [simp]: "p \<in> S \<Longrightarrow> q \<in> S \<Longrightarrow> frame S t ((t(p := x))(q := y))"
  by (auto simp: frame_def)

interpretation fp: engine_relation "frame (footprint tmp)" h tmp for h tmp
proof unfold_locales
  fix j v
  assume j: "experiment_id_ok j"
  have "completed_dir @ [tmp] \<in> footprint tmp" "archive_file j \<in> footprint tmp"
    using j archive_parent(2) by (auto simp: footprint_def)
  then show "tracks (frame (footprint tmp)) (atomic_write_repo_json h tmp (archive_path j) v None True)"
    by (intro fr.tracks_atomic_write) (simp_all add: archive_comps[OF j] archive_parent)
next
  fix p t
  assume "p \<in> {active_path, policy_path}"
  then have "p \<in> footprint tmp" "butlast p @ [tmp] \<in> footprint tmp"
    using active_parent by (auto simp: footprint_def)
  then show "frame (footprint tmp) t ((t(p := t (butlast p @ [tmp])))(butlast p @ [tmp] := None))"
    by simp
qed (auto intro!: frame_upd frame_update_node simp: footprint_def)

section \<open>Any command, any faults\<close>

text \<open>\<open>authorize-profile\<close> is the one command during which the tree may change under the
  engine's feet; every relation it is asked to respect must hold of that change.\<close>

definition quiet :: "(tree \<Rightarrow> tree \<Rightarrow> bool) \<Rightarrow> command \<Rightarrow> bool" where
  "quiet R cmd \<longleftrightarrow> (case cmd of AuthorizeProfile _ btw _ _ _ _ _ \<Rightarrow> (\<forall>t. R t (btw t)) | _ \<Rightarrow> True)"

lemma guard_kept_dispatch:
  "quiet (guard_kept i) cmd \<Longrightarrow> dispatch h tm tmp cmd w = (r, w') \<Longrightarrow> guard_kept i (files w) (files w')"
  by (rule tracksD[OF gk.tracks_dispatch]) (auto simp: quiet_def)

lemma ledger_grows_dispatch:
  "quiet ledger_grows cmd \<Longrightarrow> dispatch h tm tmp cmd w = (r, w') \<Longrightarrow> ledger_grows (files w) (files w')"
  by (rule tracksD[OF lg.tracks_dispatch]) (auto simp: quiet_def)

lemma archive_kept_dispatch:
  "quiet (archive_kept i tmp) cmd \<Longrightarrow> dispatch h tm tmp cmd w = (r, w') \<Longrightarrow>
     archive_kept i tmp (files w) (files w')"
  by (rule tracksD[OF ak.tracks_dispatch]) (auto simp: quiet_def)

lemma footprint_dispatch:
  "quiet (frame (footprint tmp)) cmd \<Longrightarrow> dispatch h tm tmp cmd w = (r, w') \<Longrightarrow>
     frame (footprint tmp) (files w) (files w')"
  by (rule tracksD[OF fp.tracks_dispatch]) (auto simp: quiet_def)

section \<open>Claims\<close>

lemma claim_Inr:
  assumes "cmd_claim h tm tmp False w = (Inr ans, w')"
  obtains w1 pl where "frame {claims_dir, lock_path} (files w) (files w1)"
    "claim_plan h (files w1) = Inr pl" "claim_commit h tm tmp pl w1 = (Inr (), w')"
    "ans = Claimed (str_val (fld (p_record pl) ''experiment_id'')) (p_digest pl)
             (map str_val (arr_val (fld (action_of (p_record pl)) ''exact_command'')))"
proof -
  from lock_Inr[OF assms[unfolded cmd_claim_def]] obtain w1 where
    "bindI (readI (claim_plan h)) (\<lambda>pl. if False then retI (Preflight (p_digest pl))
          else bindI (claim_commit h tm tmp pl) (\<lambda>_.
               retI (Claimed (str_val (fld (p_record pl) ''experiment_id'')) (p_digest pl)
                 (map str_val (arr_val (fld (action_of (p_record pl)) ''exact_command'')))))) w1 = (Inr ans, w')"
    "frame {claims_dir, lock_path} (files w) (files w1)" by blast
  then show ?thesis using that by (auto simp: io_iff)
qed

lemma plan_id: "claim_plan h t = Inr pl \<Longrightarrow> experiment_id_ok (str_val (fld (p_record pl) ''experiment_id''))"
  by (auto simp: claim_plan_def Let_def res_iff dest!: load_active_valid valid_experiment_id)

lemma guard_entry_absent:
  assumes "repo_entry_exists h t (guard_path i) label = Inr False" "experiment_id_ok i"
  shows "t (guard_file i) = None"
proof -
  from assms obtain dir leaf where p: "open_repo_parent h t (JStr (guard_path i)) label = Inr (dir, leaf)"
    and "t (dir @ [leaf]) = None"
    by (auto simp: repo_entry_exists_def res_iff split: option.splits if_splits)
  moreover have "dir @ [leaf] = guard_file i"
    using open_repo_parent_path[OF p] by (simp add: guard_comps[OF assms(2)] guard_file_def)
  ultimately show ?thesis by simp
qed

lemma plan_guard_absent:
  assumes "claim_plan h t = Inr pl"
  shows "t (guard_file (str_val (fld (p_record pl) ''experiment_id''))) = None"
proof -
  let ?i = "str_val (fld (p_record pl) ''experiment_id'')"
  from assms have "claim_guard_exists h t ?i = Inr False"
    by (auto simp: claim_plan_def Let_def res_iff)
  then have "repo_entry_exists h t (guard_path ?i) ''claim replay guard'' = Inr False"
    using plan_id[OF assms] by (simp add: claim_guard_exists_def claim_guard_rel_def)
  then show ?thesis using plan_id[OF assms] by (rule guard_entry_absent)
qed

lemma syscall_Inr: "syscall g w = (Inr (), w') \<Longrightarrow> \<exists>now. files w' = g now (files w)"
  by (auto simp: syscall_def split: prod.splits fault.splits)

lemma sys_create_Inr:
  "sys_create h p ty perm w = (Inr (), w') \<Longrightarrow> files w p = None \<and> files w' p \<noteq> None"
  unfolding sys_create_def by (auto split: if_splits dest!: syscall_Inr)

lemma create_guard_Inr:
  assumes "create_guard h p w = (Inr (), w')"
  shows "files w p = None \<and> files w' p \<noteq> None"
proof -
  have "sys_create h p F_REG 384 w = (Inr (), w')"
    using assms unfolding create_guard_def by (auto split: prod.splits sum.splits exc.splits)
  then show ?thesis by (rule sys_create_Inr)
qed

lemma commit_guard:
  assumes c: "claim_commit h tm tmp pl w = (Inr (), w')" and pl: "claim_plan h t = Inr pl"
  shows "files w' (guard_file (str_val (fld (p_record pl) ''experiment_id''))) \<noteq> None"
proof -
  let ?i = "str_val (fld (p_record pl) ''experiment_id'')"
  have ok: "experiment_id_ok ?i" by (rule plan_id[OF pl])
  from c obtain receipt sha1 w1 where g: "write_claim_guard h ?i receipt (p_digest pl) w = (Inr (), w1)"
    and rest: "bindI (append_ledger_line h (ledger_line h (p_record pl) receipt (p_digest pl))) (\<lambda>_.
        atomic_write_repo_json h tmp active_rel
          (dict_set (dict_set (p_record pl) ''status'' (JStr ''claimed'')) ''receipt'' (JObj receipt))
          (Some sha1) False) w1 = (Inr (), w')" (is "?rest w1 = _")
    unfolding claim_commit_def by (auto simp: io_iff split: prod.splits)
  from g obtain dir leaf w0 where p: "open_repo_parent h (files w) (JStr (guard_path ?i)) ''claim replay guard'' = Inr (dir, leaf)"
    and cg: "create_guard h (dir @ [leaf]) w = (Inr (), w0)"
    and tl: "bindI (sys_write (dir @ [leaf]) (canonical h (JObj
         [(''schema_version'', JInt 1), (''experiment_id'', JStr ?i),
          (''action_digest'', JStr (p_digest pl)), (''receipt'', JObj receipt)]) @ [LF])) (\<lambda>_.
     bindI sys_sync (\<lambda>_. sys_sync)) w0 = (Inr (), w1)" (is "?tail w0 = _")
    unfolding write_claim_guard_def claim_guard_rel_def using ok
    by (auto simp: io_iff bind_lift_Inr)
  have d: "dir @ [leaf] = guard_file ?i"
    using open_repo_parent_path[OF p] by (simp add: guard_comps[OF ok] guard_file_def)
  have "files w0 (guard_file ?i) \<noteq> None" using create_guard_Inr[OF cg] d by simp
  moreover have "tracks (guard_kept ?i) ?tail"
    by (intro gk.tracks_bind gk.tracks_write gk.tracks_sync) simp
  then have "guard_kept ?i (files w0) (files w1)" using tl by (rule tracksD)
  moreover have "tracks (guard_kept ?i) ?rest"
    by (intro gk.tracks_bind gk.tracks_append_ledger gk.tracks_write_active gk.file_law gk.append_law) simp_all
  then have "guard_kept ?i (files w1) (files w')" using rest by (rule tracksD)
  ultimately show ?thesis by (simp add: guard_kept_def)
qed

lemma claim_once:
  assumes "cmd_claim h tm tmp False w = (Inr (Claimed i d c), w')"
  shows "experiment_id_ok i \<and> files w (guard_file i) = None \<and> files w' (guard_file i) \<noteq> None"
proof -
  from assms obtain w1 pl where f: "frame {claims_dir, lock_path} (files w) (files w1)"
    and pl: "claim_plan h (files w1) = Inr pl" and cm: "claim_commit h tm tmp pl w1 = (Inr (), w')"
    and i: "i = str_val (fld (p_record pl) ''experiment_id'')"
    by (elim claim_Inr) simp
  have "files w1 (guard_file i) = files w (guard_file i)"
    using f guard_file_other by (auto simp: frame_def)
  with plan_guard_absent[OF pl] commit_guard[OF cm pl] plan_id[OF pl] i show ?thesis by simp
qed

section \<open>Runs\<close>

text \<open>
  A run of the engine: commands one after the other, each in a world with its own faults
  and clock, while others may change anything outside \<open>notes/\<close>.  \<open>authorize-profile\<close>
  lets a whole run of other commands happen between its preview and its lock.  The list
  collects the experiments whose claim was answered with the command to execute.
\<close>

fun claimed_id :: "answer result \<Rightarrow> string list" where
  "claimed_id (Inr (Claimed i d c)) = [i]"
| "claimed_id _ = []"

fun is_authorize :: "command \<Rightarrow> bool" where
  "is_authorize (AuthorizeProfile _ _ _ _ _ _ _) = True"
| "is_authorize _ = False"

inductive run :: "host \<Rightarrow> tree \<Rightarrow> string list \<Rightarrow> tree \<Rightarrow> bool" for h where
  run_none: "run h t [] t"
| run_others: "run h t ids u \<Longrightarrow> (\<forall>p. take 1 p = [''notes''] \<longrightarrow> v p = u p) \<Longrightarrow> run h t ids v"
| run_command: "run h t ids (files w) \<Longrightarrow>
     \<not> is_authorize cmd \<Longrightarrow>
     dispatch h tm tmp cmd w = (r, w') \<Longrightarrow> run h t (claimed_id r @ ids) (files w')"
| run_authorize: "run h t ids (files w) \<Longrightarrow> run h (files w) jds u \<Longrightarrow>
     authorize_preview h tm gits (files w) pa target nt = Inr (Some v) \<Longrightarrow>
     confirm_authorization tty typed (confirmation_text v) = Inr () \<Longrightarrow>
     dispatch h tm tmp (AuthorizeProfile gits (\<lambda>_. u) tty typed pa target nt) w = (r, w') \<Longrightarrow>
     run h t (jds @ ids) (files w')"

text \<open>What follows the confirmation starts from the tree the others left.\<close>

lemma tracks_authorize_commit:
  assumes "dispatch h tm tmp (AuthorizeProfile gits (\<lambda>_. u) tty typed pa target nt) w = (r, w')"
    and "authorize_preview h tm gits (files w) pa target nt = Inr (Some v)"
    and "confirm_authorization tty typed (confirmation_text v) = Inr ()"
  shows "guard_kept i u (files w') \<and> ledger_grows u (files w') \<and> archive_kept j tmp u (files w')"
proof -
  let ?body = "bindI (readI (\<lambda>t. authorize_recheck h gits t pa target v)) (\<lambda>(c, p, psha).
               bindI (atomic_write_repo_json h tmp policy_rel p (Some psha) False) (\<lambda>_.
               bindI (readI (\<lambda>t. load_policy h t c)) (\<lambda>_.
               retI (Authorized (v_revision v)))))"
  have eq: "(r, w') = governance_lock h ?body (w\<lparr>files := u\<rparr>)"
    using assms(1)[symmetric] assms(3)
    by (simp only: dispatch_def command.case cmd_authorize_profile_def bind_read_Inr[where q = "\<lambda>t. authorize_preview h tm gits t pa target nt" and w = w and x = "Some v", OF assms(2)] option.case
        bind_lift_Inr bind_step[of "\<lambda>w. (Inr (), w\<lparr>files := u\<rparr>)" w "()" "w\<lparr>files := u\<rparr>"])
  have "tracks (guard_kept i) (governance_lock h ?body)"
    by (intro gk.tracks_locked gk.tracks_bind gk.tracks_basic)
      (auto intro!: gk.tracks_bind gk.tracks_basic gk.tracks_write_policy)
  moreover have "tracks ledger_grows (governance_lock h ?body)"
    by (intro lg.tracks_locked lg.tracks_bind lg.tracks_basic)
      (auto intro!: lg.tracks_bind lg.tracks_basic lg.tracks_write_policy)
  moreover have "tracks (archive_kept j tmp) (governance_lock h ?body)"
    by (intro ak.tracks_locked ak.tracks_bind ak.tracks_basic)
      (auto intro!: ak.tracks_bind ak.tracks_basic ak.tracks_write_policy)
  moreover have "R u (files w')" if "tracks R (governance_lock h ?body)" for R
  proof -
    from that have "R (files (w\<lparr>files := u\<rparr>)) (files (snd (governance_lock h ?body (w\<lparr>files := u\<rparr>))))"
      unfolding tracks_def by blast
    then show ?thesis unfolding eq[symmetric] by simp
  qed
  ultimately show ?thesis by blast
qed

lemma claimed_guard:
  assumes "dispatch h tm tmp cmd w = (r, w')" "i \<in> set (claimed_id r)"
    "\<not> is_authorize cmd"
  shows "claimed_id r = [i] \<and> files w (guard_file i) = None \<and> files w' (guard_file i) \<noteq> None"
proof -
  from assms(2) obtain d c where r: "r = Inr (Claimed i d c)" by (cases r rule: claimed_id.cases) auto
  have "cmd = Claim"
  proof (cases cmd)
    case PreflightCmd
    with assms(1) r have "cmd_claim h tm tmp True w = (Inr (Claimed i d c), w')" by (simp add: dispatch_def)
    from lock_Inr[OF this[unfolded cmd_claim_def]] show ?thesis by (auto simp: io_iff)
  qed (use assms(1,3) r in \<open>auto simp: dispatch_def cmd_validate_def cmd_new_def cmd_result_def cmd_observe_def
      cmd_archive_def Let_def io_iff res_iff split: if_splits dest!: lock_Inr\<close>)
  with assms(1) r have "cmd_claim h tm tmp False w = (Inr (Claimed i d c), w')" by (simp add: dispatch_def)
  from claim_once[OF this] r show ?thesis by simp
qed

lemma run_claims:
  "run h t ids u \<Longrightarrow> distinct ids \<and> (\<forall>i \<in> set ids. t (guard_file i) = None \<and> u (guard_file i) \<noteq> None) \<and>
     (\<forall>i. guard_kept i t u)"
proof (induction rule: run.induct)
  case (run_none t)
  then show ?case by (simp add: gk.rel_refl)
next
  case (run_others t ids u v)
  have "v (guard_file i) = u (guard_file i)" for i
    using run_others.hyps(2) by (auto simp: guard_file_def)
  with run_others.IH show ?case by (simp add: guard_kept_def)
next
  case (run_command t ids w cmd tm tmp r w')
  have kept: "guard_kept i (files w) (files w')" for i
  proof (rule guard_kept_dispatch[OF _ run_command.hyps(3)])
    show "quiet (guard_kept i) cmd" using run_command.hyps(2) by (cases cmd) (auto simp: quiet_def)
  qed
  have new: "claimed_id r = [i] \<and> files w (guard_file i) = None \<and> files w' (guard_file i) \<noteq> None"
    if "i \<in> set (claimed_id r)" for i
    using claimed_guard[OF run_command.hyps(3) that run_command.hyps(2)] .
  have d: "distinct (claimed_id r)" using new by (cases "claimed_id r") fastforce+
  have "set (claimed_id r) \<inter> set ids = {}" using new run_command.IH by auto
  then show ?case
    using d new kept run_command.IH by (auto simp: guard_kept_def)
next
  case (run_authorize t ids w jds u tm gits pa target nt v tty typed tmp r w')
  have kept: "guard_kept i u (files w')" for i
    using tracks_authorize_commit[OF run_authorize.hyps(5,3,4)] by blast
  have "set jds \<inter> set ids = {}" using run_authorize.IH by auto
  then show ?case using kept run_authorize.IH by (auto simp: guard_kept_def)
qed

end
