(* ===== verification/ClaimSpec.thy ===== *)
theory ClaimSpec
  imports EngineSpec
begin

text \<open>
  What a consumed claim has verified and what it leaves behind: the gates of the record
  and the policy, the pinned bytes, the command, the active record and the ledger line.
\<close>

section \<open>A record that passes the validator\<close>

lemma py_eq_null [simp]: "py_eq v JNull \<longleftrightarrow> v = JNull" "py_eq JNull v \<longleftrightarrow> v = JNull"
proof -
  have "JNull = norm v \<longleftrightarrow> v = JNull" using norm_JNull_iff[of v] by metis
  then show "py_eq v JNull \<longleftrightarrow> v = JNull" "py_eq JNull v \<longleftrightarrow> v = JNull"
    by (auto simp: py_eq_def)
qed

lemma member_strings [simp]: "member v (map JStr ss) \<longleftrightarrow> (\<exists>s \<in> set ss. v = JStr s)"
  by (auto simp: member_def list_ex_iff)

lemma member_names: "list_all nonempty_str vs \<Longrightarrow> member v vs \<longleftrightarrow> v \<in> set vs"
proof -
  assume "list_all nonempty_str vs"
  then have "\<exists>ss. vs = map JStr ss"
    by (induction vs) (auto simp: nonempty_str_iff Cons_eq_map_conv)
  then show ?thesis by auto
qed

text \<open>The operation of an action decides its tier, its target and whether it has an artifact.\<close>

lemma OPERATIONS_cases:
  assumes "map_of OPERATIONS s = Some (tier, ft, needs)"
  obtains "s = ''device_reboot''" "tier = ''volatile''" "ft = Some ''device''" "\<not> needs"
  | "s = ''ram_boot''" "tier = ''ram_rw''" "ft = Some ''ram''" "needs"
  | "s = ''runtime_handoff''" "tier = ''ram_rw''" "ft = Some ''initramfs''" "\<not> needs"
  | "s = ''partition_write''" "tier = ''persistent''" "ft = None" "needs"
  using assms unfolding OPERATIONS_def by (auto split: if_splits)

lemma lookup_operation_Inr [res_iff]:
  "lookup_operation v why = Inr r \<longleftrightarrow> (\<exists>s. v = JStr s \<and> map_of OPERATIONS s = Some r)"
  by (cases v) (auto simp: lookup_operation_def hashable_def split: option.splits)

lemma validate_action_Inr:
  assumes "validate_action c r tier = Inr ()"
  obtains op tgt ft needs cmd where
    "fld (action_of r) ''operation'' = JStr op" "map_of OPERATIONS op = Some (tier, ft, needs)"
    "case ft of None \<Rightarrow> member (fld (action_of r) ''target'') (arr_val (fld c ''partition_targets''))
       | Some x \<Rightarrow> fld (action_of r) ''target'' = JStr x"
    "validate_artifact (action_of r) needs = Inr ()"
    "build_exact_command op (str_val (fld (action_of r) ''target'')) (str_val (fld (action_of r) ''artifact'')) = Inr cmd"
    "fld (action_of r) ''exact_command'' = JArr (map JStr cmd)"
    "\<forall>word \<in> set FORBIDDEN_COMMAND_WORDS. \<not> sublist word (join_with '' '' cmd)"
    "op = ''partition_write'' \<Longrightarrow> nonempty_str (fld (action_of r) ''profile'') \<and> is_sha256 (fld (action_of r) ''profile_sha256'')"
proof -
  from assms obtain a where a: "fld r ''action'' = JObj a"
    by (auto simp: validate_action_def split: json.splits)
  then have ao: "action_of r = a" by (simp add: action_of_def)
  from assms a obtain op ft needs cmd where
    1: "fld a ''operation'' = JStr op" "map_of OPERATIONS op = Some (tier, ft, needs)" and
    2: "(case ft of None \<Rightarrow> need (member (fld a ''target'') (arr_val (fld c ''partition_targets'')))
                            ''record action target must be one of partition_targets''
                | Some ft \<Rightarrow> need (py_eq (fld a ''target'') (JStr ft))
                            ''record action target must be the fixed target'') = Inr ()" and
    3: "validate_artifact a needs = Inr ()" and
    4: "(if op = ''partition_write'' then
                  bindE (need (nonempty_str (fld a ''profile'')) ''partition_write requires a profile path'') (\<lambda>_.
                  need (is_sha256 (fld a ''profile_sha256'')) ''partition_write requires profile_sha256'')
                else Inr ()) = Inr ()" and
    5: "build_exact_command op (str_val (fld a ''target'')) (str_val (fld a ''artifact'')) = Inr cmd" and
    6: "py_eq (fld a ''exact_command'') (JArr (map JStr cmd))" and 7: "check_forbidden cmd = Inr ()"
    unfolding validate_action_def by (auto simp: res_iff)
  have 8: "\<forall>word \<in> set FORBIDDEN_COMMAND_WORDS. \<not> sublist word (join_with '' '' cmd)"
    using 7 by (simp add: check_forbidden_def need_def list_ex_iff contains_iff_sublist split: if_splits)
  have 9: "op = ''partition_write'' \<Longrightarrow> nonempty_str (fld a ''profile'') \<and> is_sha256 (fld a ''profile_sha256'')"
    using 4 by (simp add: res_iff)
  have 10: "case ft of None \<Rightarrow> member (fld a ''target'') (arr_val (fld c ''partition_targets''))
       | Some x \<Rightarrow> fld a ''target'' = JStr x"
    using 2 by (cases ft) (simp_all add: res_iff)
  show ?thesis using that[unfolded ao] 1 10 3 5 6 8 9 by simp
qed

lemma valid_action_record:
  assumes "validate_record h c r = Inr ()" "fld r ''tier'' \<noteq> JStr ''read_only''"
  shows "\<exists>tier. fld r ''tier'' = JStr tier \<and> tier \<in> {''volatile'', ''ram_rw'', ''persistent''} \<and>
     validate_action c r tier = Inr () \<and> validate_gates c r tier = Inr () \<and>
     validate_repeat_guard h tier (fld r ''repeat_guard'') = Inr () \<and> validate_receipt r = Inr ()"
proof -
  from assms(1) obtain tier where t: "fld r ''tier'' = JStr tier" "tier \<in> set TIERS"
    by (auto simp: validate_record_def res_iff)
  with assms(2) have "tier \<noteq> ''read_only''" by auto
  with assms(1) t show ?thesis
    by (auto simp: validate_record_def Let_def res_iff TIERS_def)
qed

section \<open>What the checks before a claim verify\<close>

text \<open>The pinned file exists below the root, is regular, and has the pinned digest and size.\<close>

definition pinned :: "host \<Rightarrow> tree \<Rightarrow> json \<Rightarrow> json \<Rightarrow> json \<Rightarrow> bool" where
  "pinned h t rel sha size1 \<longleftrightarrow> (\<exists>p n. rel = JStr p \<and> t (comps p) = Some n \<and>
     st_type (st n) = F_REG \<and> st_nlink (st n) = 1 \<and> safe_owner_mode h (st n) \<and>
     JStr (sha256 h (contents n)) = sha \<and>
     (size1 = JNull \<or> py_eq (JInt (int (length (contents n)))) size1))"

lemma safe_owner_Inr [res_iff]: "validate_safe_owner_mode h s label = Inr u \<longleftrightarrow> safe_owner_mode h s"
  by (auto simp: validate_safe_owner_mode_def safe_owner_mode_def)

lemma regular_stat_Inr [res_iff]:
  "validate_regular_stat h s label = Inr u \<longleftrightarrow> st_type s = F_REG \<and> st_nlink s = 1 \<and> safe_owner_mode h s"
  by (auto simp: validate_regular_stat_def res_iff)

lemma open_existing_Inr [res_iff]:
  "open_existing_at h t p label = Inr n \<longleftrightarrow>
     t p = Some n \<and> st_type (st n) = F_REG \<and> st_nlink (st n) = 1 \<and> safe_owner_mode h (st n)"
  by (auto simp: open_existing_at_def res_iff split: option.splits)

lemma open_repo_parent_JStr: "open_repo_parent h t rel label = Inr x \<Longrightarrow> \<exists>p. rel = JStr p"
  by (auto simp: open_repo_parent_def canonical_repo_relative_path_def res_iff split: json.splits)

lemma open_regular_Inr:
  assumes "open_repo_regular_file h t rel label = Inr (p, n)"
  shows "rel = JStr p \<and> t (comps p) = Some n \<and> st_type (st n) = F_REG \<and> st_nlink (st n) = 1 \<and>
     safe_owner_mode h (st n)"
proof -
  from assms obtain dir leaf where o: "open_repo_parent h t rel label = Inr (dir, leaf)"
    and e: "open_existing_at h t (dir @ [leaf]) label = Inr n" and p: "p = str_val rel"
    unfolding open_repo_regular_file_def by (auto simp: res_iff)
  from open_repo_parent_JStr[OF o] obtain q where q: "rel = JStr q" by blast
  with o have "dir @ [leaf] = comps q" using open_repo_parent_path[of h t q label dir leaf] by simp
  with e q p show ?thesis by (simp add: res_iff)
qed

lemma hash_Inr:
  "hash_repo_regular_file h t rel label = Inr (p, d, k) \<Longrightarrow>
     \<exists>n. rel = JStr p \<and> t (comps p) = Some n \<and> st_type (st n) = F_REG \<and> st_nlink (st n) = 1 \<and>
       safe_owner_mode h (st n) \<and> d = sha256 h (contents n) \<and> k = length (contents n)"
  unfolding hash_repo_regular_file_def
  by (auto simp: res_iff Let_def split: if_splits dest!: open_regular_Inr)

lemma verify_pinned_Inr:
  "verify_pinned_file h t rel sha size1 label = Inr () \<Longrightarrow> pinned h t rel sha size1"
  unfolding verify_pinned_file_def pinned_def by (auto simp: res_iff dest!: hash_Inr)

lemma find_authorized_Some:
  "List.find (\<lambda>e. P e) (map obj_val vs) = Some e \<Longrightarrow> e \<in> obj_val ` set vs \<and> P e"
  by (auto simp: find_Some_iff)

lemma claim_checks_scope:
  assumes "claim_checks h t p r = Inr ()"
  shows "fld r ''status'' = JStr ''ready'' \<and> fld p ''enabled'' = JBool True \<and> fld r ''tier'' \<noteq> JStr ''read_only''"
  using assms by (auto simp: claim_checks_def Let_def resolve_scope_def res_iff split: if_splits)

lemma claim_checks_artifact:
  "claim_checks h t p r = Inr () \<Longrightarrow> fld (action_of r) ''artifact'' \<noteq> JNull \<Longrightarrow>
     pinned h t (fld (action_of r) ''artifact'') (fld (action_of r) ''artifact_sha256'')
       (fld (action_of r) ''artifact_size'')"
  by (auto simp: claim_checks_def Let_def res_iff split: if_splits dest!: verify_pinned_Inr)

lemma claim_checks_standing:
  assumes "claim_checks h t p r = Inr ()" "fld r ''tier'' \<noteq> JStr ''persistent''"
  shows "\<exists>s \<in> obj_val ` set (arr_val (fld p ''standing_scopes'')).
     py_eq (fld s ''tier'') (fld r ''tier'') \<and>
     py_eq (fld s ''operation'') (fld (action_of r) ''operation'') \<and>
     py_eq (fld s ''target'') (fld (action_of r) ''target'')"
  using assms
  by (auto simp: claim_checks_def Let_def resolve_scope_def res_iff list_ex_iff split: if_splits)

lemma claim_checks_persistent:
  assumes "claim_checks h t p r = Inr ()" "fld r ''tier'' = JStr ''persistent''"
  shows "(\<exists>e \<in> obj_val ` set (arr_val (fld p ''authorized_profiles'')).
       py_eq (fld e ''profile_path'') (fld (action_of r) ''profile'') \<and>
       py_eq (fld e ''profile_sha256'') (fld (action_of r) ''profile_sha256'') \<and>
       member (fld (action_of r) ''target'') (arr_val (fld e ''targets'')) \<and>
       pinned h t (fld (action_of r) ''profile'') (fld e ''profile_sha256'') JNull) \<and>
     (let b = obj_val (fld (gates_of r) ''rollback'') in
        pinned h t (fld b ''path'') (fld b ''sha256'') (fld b ''size'')) \<and>
     check_repeat_guard h t r = Inr ()"
proof -
  from assms have scope: "resolve_scope h t p r = Inr ()"
    and rb: "verify_pinned_file h t (fld (obj_val (fld (gates_of r) ''rollback'')) ''path'')
       (fld (obj_val (fld (gates_of r) ''rollback'')) ''sha256'')
       (fld (obj_val (fld (gates_of r) ''rollback'')) ''size'') ''rollback artifact'' = Inr ()"
    and rg: "check_repeat_guard h t r = Inr ()"
    by (auto simp: claim_checks_def Let_def res_iff split: if_splits)
  from scope assms(2) obtain e where
    e: "List.find (\<lambda>e. py_eq (fld e ''profile_path'') (fld (action_of r) ''profile''))
           (map obj_val (arr_val (fld p ''authorized_profiles''))) = Some e"
      "py_eq (fld e ''profile_sha256'') (fld (action_of r) ''profile_sha256'')"
      "member (fld (action_of r) ''target'') (arr_val (fld e ''targets''))"
      "verify_pinned_file h t (fld (action_of r) ''profile'') (fld e ''profile_sha256'') JNull ''profile'' = Inr ()"
    by (auto simp: resolve_scope_def Let_def res_iff split: if_splits option.splits)
  from find_authorized_Some[OF e(1)] verify_pinned_Inr[OF e(4)] e(2,3) verify_pinned_Inr[OF rb] rg
  show ?thesis by (auto simp: Let_def)
qed

lemma plan_Inr:
  assumes "claim_plan h t = Inr pl"
  shows "\<exists>raw. load_constants h t = Inr (p_constants pl) \<and>
     load_policy h t (p_constants pl) = Inr (p_policy pl, p_policy_sha pl) \<and>
     load_active h t (p_constants pl) = Inr (p_record pl) \<and>
     validate_record h (p_constants pl) (p_record pl) = Inr () \<and>
     p_digest pl = action_digest h (p_record pl) \<and>
     claim_checks h t (p_policy pl) (p_record pl) = Inr () \<and> raw = ()"
  using assms unfolding claim_plan_def by (auto simp: res_iff Let_def dest: load_active_valid)

lemma validate_rollback_distinct:
  assumes "validate_gates c r ''persistent'' = Inr ()"
  shows "\<not> py_eq (fld (obj_val (fld (gates_of r) ''rollback'')) ''sha256'') (fld (action_of r) ''artifact_sha256'') \<and>
     py_eq (fld (obj_val (fld (gates_of r) ''rollback'')) ''target'') (fld (action_of r) ''target'')"
  using assms unfolding validate_gates_def
  by (auto simp: res_iff validate_rollback_def gates_of_def action_of_def split: json.splits)


section \<open>The specification of a claimable action\<close>

text \<open>The action is the one the command line says, and no forbidden word occurs in it.\<close>

definition command_matches :: "dict \<Rightarrow> dict \<Rightarrow> string list \<Rightarrow> bool" where
  "command_matches c r cmd \<longleftrightarrow> (let a = action_of r in
     fld a ''exact_command'' = JArr (map JStr cmd) \<and>
     (\<exists>op tier ft needs. fld a ''operation'' = JStr op \<and> fld r ''tier'' = JStr tier \<and>
        map_of OPERATIONS op = Some (tier, ft, needs) \<and>
        (case ft of Some x \<Rightarrow> fld a ''target'' = JStr x
         | None \<Rightarrow> member (fld a ''target'') (arr_val (fld c ''partition_targets''))) \<and>
        build_exact_command op (str_val (fld a ''target'')) (str_val (fld a ''artifact'')) = Inr cmd) \<and>
     (\<forall>word \<in> set FORBIDDEN_COMMAND_WORDS. \<not> sublist word (join_with '' '' cmd)))"

definition authorized :: "host \<Rightarrow> tree \<Rightarrow> dict \<Rightarrow> dict \<Rightarrow> bool" where
  "authorized h t p r \<longleftrightarrow> (let a = action_of r; b = obj_val (fld (gates_of r) ''rollback'') in
     if fld r ''tier'' = JStr ''persistent'' then
       (\<exists>e \<in> obj_val ` set (arr_val (fld p ''authorized_profiles'')).
          py_eq (fld e ''profile_path'') (fld a ''profile'') \<and>
          py_eq (fld e ''profile_sha256'') (fld a ''profile_sha256'') \<and>
          member (fld a ''target'') (arr_val (fld e ''targets'')) \<and>
          pinned h t (fld a ''profile'') (fld e ''profile_sha256'') JNull) \<and>
       pinned h t (fld b ''path'') (fld b ''sha256'') (fld b ''size'') \<and>
       py_eq (fld b ''target'') (fld a ''target'') \<and>
       \<not> py_eq (fld b ''sha256'') (fld a ''artifact_sha256'')
     else
       (\<exists>s \<in> obj_val ` set (arr_val (fld p ''standing_scopes'')).
          py_eq (fld s ''tier'') (fld r ''tier'') \<and> py_eq (fld s ''operation'') (fld a ''operation'') \<and>
          py_eq (fld s ''target'') (fld a ''target'')))"

definition claimable :: "host \<Rightarrow> tree \<Rightarrow> dict \<Rightarrow> dict \<Rightarrow> dict \<Rightarrow> string list \<Rightarrow> bool" where
  "claimable h t c p r cmd \<longleftrightarrow>
     fld r ''status'' = JStr ''ready'' \<and> fld p ''enabled'' = JBool True \<and> command_matches c r cmd \<and>
     authorized h t p r \<and>
     (fld (action_of r) ''artifact'' \<noteq> JNull \<longrightarrow>
        pinned h t (fld (action_of r) ''artifact'') (fld (action_of r) ''artifact_sha256'')
          (fld (action_of r) ''artifact_size''))"

lemma plan_claimable:
  assumes pl: "claim_plan h t = Inr pl"
  shows "\<exists>cmd. claimable h t (p_constants pl) (p_policy pl) (p_record pl) cmd \<and>
     cmd = map str_val (arr_val (fld (action_of (p_record pl)) ''exact_command''))"
proof -
  let ?c = "p_constants pl" and ?p = "p_policy pl" and ?r = "p_record pl"
  have valid: "validate_record h ?c ?r = Inr ()" and ck: "claim_checks h t ?p ?r = Inr ()"
    using plan_Inr[OF pl] by blast+
  have sc: "fld ?r ''status'' = JStr ''ready''" "fld ?p ''enabled'' = JBool True"
    "fld ?r ''tier'' \<noteq> JStr ''read_only''"
    using claim_checks_scope[OF ck] by blast+
  from valid_action_record[OF valid sc(3)] obtain tier where tier: "fld ?r ''tier'' = JStr tier"
    "validate_action ?c ?r tier = Inr ()" "validate_gates ?c ?r tier = Inr ()" by blast
  from tier(2) obtain op ft needs cmd where a: "fld (action_of ?r) ''operation'' = JStr op"
    "map_of OPERATIONS op = Some (tier, ft, needs)"
    "case ft of None \<Rightarrow> member (fld (action_of ?r) ''target'') (arr_val (fld ?c ''partition_targets''))
       | Some x \<Rightarrow> fld (action_of ?r) ''target'' = JStr x"
    "build_exact_command op (str_val (fld (action_of ?r) ''target'')) (str_val (fld (action_of ?r) ''artifact'')) = Inr cmd"
    "fld (action_of ?r) ''exact_command'' = JArr (map JStr cmd)"
    "\<forall>word \<in> set FORBIDDEN_COMMAND_WORDS. \<not> sublist word (join_with '' '' cmd)"
    by (elim validate_action_Inr)
  have m: "command_matches ?c ?r cmd"
    unfolding command_matches_def Let_def using a tier(1) by (cases ft) auto
  have au: "authorized h t ?p ?r"
  proof (cases "fld ?r ''tier'' = JStr ''persistent''")
    case True
    then have "tier = ''persistent''" using tier(1) by simp
    with claim_checks_persistent[OF ck True] validate_rollback_distinct[of ?c ?r] tier(3) True
    show ?thesis unfolding authorized_def Let_def by simp
  next
    case False
    with claim_checks_standing[OF ck False] show ?thesis unfolding authorized_def Let_def by simp
  qed
  have "cmd = map str_val (arr_val (fld (action_of ?r) ''exact_command''))"
    unfolding a(5) by (simp add: comp_def)
  moreover have "claimable h t ?c ?p ?r cmd"
    unfolding claimable_def using sc m au claim_checks_artifact[OF ck] by blast
  ultimately show ?thesis by blast
qed

lemma claim_parts:
  assumes "cmd_claim h tm tmp False w = (Inr (Claimed i d cmd), w')"
  shows "\<exists>w1 pl. frame {claims_dir, lock_path} (files w) (files w1) \<and> claim_plan h (files w1) = Inr pl \<and>
     claim_commit h tm tmp pl w1 = (Inr (), w') \<and>
     i = str_val (fld (p_record pl) ''experiment_id'') \<and> d = p_digest pl \<and>
     cmd = map str_val (arr_val (fld (action_of (p_record pl)) ''exact_command''))"
  using assms by (rule claim_Inr) (simp only: answer.inject, blast)

lemma claim_sound:
  assumes "cmd_claim h tm tmp False w = (Inr (Claimed i d cmd), w')"
  shows "\<exists>t pl. frame {claims_dir, lock_path} (files w) t \<and> claim_plan h t = Inr pl \<and>
     claimable h t (p_constants pl) (p_policy pl) (p_record pl) cmd \<and>
     i = str_val (fld (p_record pl) ''experiment_id'') \<and> d = action_digest h (p_record pl)"
proof -
  obtain w1 :: world and pl where f: "frame {claims_dir, lock_path} (files w) (files w1)"
    and pl: "claim_plan h (files w1) = Inr pl"
    and ans: "i = str_val (fld (p_record pl) ''experiment_id'')" "d = p_digest pl"
      "cmd = map str_val (arr_val (fld (action_of (p_record pl)) ''exact_command''))"
    using claim_parts[OF assms] by blast
  from plan_claimable[OF pl] ans plan_Inr[OF pl] f pl show ?thesis by auto
qed

section \<open>What a consumed claim leaves behind\<close>

text \<open>A successful atomic write leaves exactly the stored form, in a regular file.\<close>

lemma sys_write_Inr:
  "sys_write p data w = (Inr (), w') \<Longrightarrow> \<exists>now. files w' = update_node p (append_node data now) (files w)"
  by (auto simp: sys_write_def Let_def split: prod.splits fault.splits)

lemma sys_sync_Inr: "sys_sync w = (Inr (), w') \<Longrightarrow> files w' = files w"
  by (auto simp: sys_sync_def dest!: syscall_Inr)

lemma on_error_Inr [io_iff]: "on_error m c w = (Inr y, w') \<longleftrightarrow> m w = (Inr y, w')"
  by (auto simp: on_error_def split: prod.splits sum.splits exc.splits)

lemma sys_create_node:
  "sys_create h p ty perm w = (Inr (), w') \<Longrightarrow>
     files w p = None \<and> (\<exists>now. files w' = (files w)(p \<mapsto> new_node h ty perm now))"
  unfolding sys_create_def by (auto split: if_splits dest!: syscall_Inr)

lemma replace_file_Inr:
  assumes "replace_file h dir tmp ex p encoded w = (Inr (), w')" "p \<noteq> dir @ [tmp]"
  shows "\<exists>n. files w' p = Some n \<and> contents n = encoded \<and> st_type (st n) = F_REG \<and>
     st_nlink (st n) = 1 \<and> st_size (st n) = length encoded \<and>
     (\<forall>q. q \<noteq> p \<longrightarrow> q \<noteq> dir @ [tmp] \<longrightarrow> files w' q = files w q) \<and> files w' (dir @ [tmp]) = None"
proof -
  let ?q = "dir @ [tmp]"
  from assms(1) obtain mode uid gid w1 w2 w3 w4 where
    1: "sys_create h ?q F_REG mode w = (Inr (), w1)" and
    2: "sys_chmod_own ?q uid gid mode w1 = (Inr (), w2)" and
    3: "sys_write ?q encoded w2 = (Inr (), w3)" and
    4: "sys_sync w3 = (Inr (), w4)" and
    5: "sys_rename ?q p w4 = (Inr (), w')"
    unfolding replace_file_def Let_def by (auto simp: io_iff)
  from sys_create_node[OF 1] obtain n1 where f1: "files w1 = (files w)(?q \<mapsto> new_node h F_REG mode n1)" by blast
  from syscall_Inr[OF 2[unfolded sys_chmod_own_def]] obtain n2 where
    f2: "files w2 = update_node ?q (\<lambda>n. n\<lparr>st := (st n)\<lparr>st_uid := uid, st_gid := gid, st_perm := mode, st_ctime := n2\<rparr>\<rparr>) (files w1)"
    by blast
  from sys_write_Inr[OF 3] obtain n3 where f3: "files w3 = update_node ?q (append_node encoded n3) (files w2)" by blast
  from syscall_Inr[OF 5[unfolded sys_rename_def]] have f5: "files w' = ((files w4)(p := files w4 ?q))(?q := None)" by simp
  have f4: "files w4 = files w3" by (rule sys_sync_Inr[OF 4])
  show ?thesis unfolding f5 f4 f3 f2 f1 using assms(2)
    by (simp add: update_node_def append_node_def new_node_def fresh_stat_def)
qed

lemma atomic_write_Inr:
  assumes "atomic_write_repo_json h tmp rel value expected fresh w = (Inr (), w')"
    and "comps rel \<noteq> butlast (comps rel) @ [tmp]"
  shows "\<exists>n. files w' (comps rel) = Some n \<and> contents n = stored_json h (JObj value) \<and>
     st_type (st n) = F_REG \<and> st_nlink (st n) = 1 \<and> st_size (st n) = length (stored_json h (JObj value)) \<and>
     (\<forall>q. q \<noteq> comps rel \<longrightarrow> q \<noteq> butlast (comps rel) @ [tmp] \<longrightarrow> files w' q = files w q)"
proof -
  from assms(1) obtain dir leaf ex w1 where
    p: "open_repo_parent h (files w) (JStr rel) ''JSON destination'' = Inr (dir, leaf)"
    and r: "replace_file h dir tmp ex (dir @ [leaf]) (stored_json h (JObj value)) w = (Inr (), w1)"
    and s: "sys_sync w1 = (Inr (), w')"
    unfolding atomic_write_repo_json_def by (auto simp: io_iff split: prod.splits)
  from open_repo_parent_path[OF p] have d: "dir = butlast (comps rel)" "dir @ [leaf] = comps rel" by simp_all
  from r d have "replace_file h dir tmp ex (comps rel) (stored_json h (JObj value)) w = (Inr (), w1)" by simp
  from replace_file_Inr[OF this] assms(2) d sys_sync_Inr[OF s] show ?thesis by auto
qed

text \<open>An append adds exactly its bytes to the ledger.\<close>

definition ledger_text :: "tree \<Rightarrow> bytes" where
  "ledger_text t = (case t ledger_path of Some n \<Rightarrow> contents n | None \<Rightarrow> [])"

lemma open_or_create_Inr:
  "open_or_create h p label w = (Inr (), w') \<Longrightarrow>
     (\<exists>n. files w' p = Some n \<and> contents n = (case files w p of Some m \<Rightarrow> contents m | None \<Rightarrow> [])) \<and>
     (\<forall>q. q \<noteq> p \<longrightarrow> files w' q = files w q)"
  unfolding open_or_create_def
  by (auto simp: io_iff new_node_def split: option.splits prod.splits sum.splits exc.splits if_splits
      dest!: syscall_Inr)

lemma append_ledger_Inr:
  assumes "append_ledger_line h line w = (Inr (), w')"
  shows "ledger_text (files w') = ledger_text (files w) @ line @ [LF] \<and>
     (\<forall>q. q \<noteq> ledger_path \<longrightarrow> files w' q = files w q)"
proof -
  from assms obtain dir leaf w1 w2 w3 where
    p: "open_repo_parent h (files w) (JStr ledger_rel) ''claims ledger'' = Inr (dir, leaf)" and
    1: "open_or_create h (dir @ [leaf]) ''claims ledger'' w = (Inr (), w1)" and
    2: "sys_write (dir @ [leaf]) (line @ [LF]) w1 = (Inr (), w2)" and
    3: "sys_sync w2 = (Inr (), w3)" and 4: "sys_sync w3 = (Inr (), w')"
    unfolding append_ledger_line_def by (auto simp: io_iff)
  from open_repo_parent_path[OF p] have d: "dir @ [leaf] = ledger_path" by (simp flip: fixed_paths)
  from open_or_create_Inr[OF 1[unfolded d]] obtain n where
    n: "files w1 ledger_path = Some n" "contents n = ledger_text (files w)"
    "\<forall>q. q \<noteq> ledger_path \<longrightarrow> files w1 q = files w q" by (auto simp: ledger_text_def)
  from sys_write_Inr[OF 2[unfolded d]] obtain now where
    f2: "files w2 = update_node ledger_path (append_node (line @ [LF]) now) (files w1)" by blast
  have f: "files w' = files w2" using sys_sync_Inr[OF 3] sys_sync_Inr[OF 4] by simp
  show ?thesis unfolding f f2 using n by (simp add: ledger_text_def update_node_def append_node_def)
qed


lemma write_guard_frame:
  assumes "write_claim_guard h i receipt digest w = (Inr (), w')"
  shows "frame {guard_file i} (files w) (files w')"
proof -
  have "tracks (frame {guard_file i}) (write_claim_guard h i receipt digest)"
    by (rule fr.tracks_write_guard) simp_all
  then show ?thesis using assms by (rule tracksD)
qed

lemma tmp_not_active: "tmp_name tmp \<Longrightarrow> comps active_rel \<noteq> butlast (comps active_rel) @ [tmp]"
  by (auto simp: active_path_def tmp_name_def)

lemma commit_effect:
  assumes c: "claim_commit h tm tmp pl w = (Inr (), w')" and tmp: "tmp_name tmp"
  shows "\<exists>receipt n. receipt_of h tm (p_constants pl) (p_policy pl) (p_policy_sha pl) (p_digest pl) = Inr receipt \<and>
     files w' active_path = Some n \<and>
     contents n = stored_json h (JObj (dict_set (dict_set (p_record pl) ''status'' (JStr ''claimed''))
       ''receipt'' (JObj receipt))) \<and>
     ledger_text (files w') = ledger_text (files w) @ ledger_line h (p_record pl) receipt (p_digest pl) @ [LF]"
proof -
  let ?i = "str_val (fld (p_record pl) ''experiment_id'')"
  from c obtain receipt sha1 w1 w2 where
    rc: "receipt_of h tm (p_constants pl) (p_policy pl) (p_policy_sha pl) (p_digest pl) = Inr receipt" and
    g: "write_claim_guard h ?i receipt (p_digest pl) w = (Inr (), w1)" and
    l: "append_ledger_line h (ledger_line h (p_record pl) receipt (p_digest pl)) w1 = (Inr (), w2)" and
    a: "atomic_write_repo_json h tmp active_rel
          (dict_set (dict_set (p_record pl) ''status'' (JStr ''claimed'')) ''receipt'' (JObj receipt))
          (Some sha1) False w2 = (Inr (), w')"
    unfolding claim_commit_def by (auto simp: io_iff split: prod.splits)
  from write_guard_frame[OF g] have "files w1 ledger_path = files w ledger_path"
    using guard_file_ledger[of ?i] by (simp add: frame_def not_sym)
  then have l1: "ledger_text (files w1) = ledger_text (files w)" by (simp add: ledger_text_def)
  from atomic_write_Inr[OF a tmp_not_active[OF tmp]] obtain n where
    n: "files w' active_path = Some n"
      "contents n = stored_json h (JObj (dict_set (dict_set (p_record pl) ''status'' (JStr ''claimed''))
         ''receipt'' (JObj receipt)))"
      "\<forall>q. q \<noteq> active_path \<longrightarrow> q \<noteq> butlast active_path @ [tmp] \<longrightarrow> files w' q = files w2 q" by auto
  have "files w' ledger_path = files w2 ledger_path"
    using n(3) ledger_other(4) ledger_tmp[OF active_parent(1)] by simp
  then have "ledger_text (files w') = ledger_text (files w2)" by (simp add: ledger_text_def)
  with rc n(1,2) append_ledger_Inr[OF l] l1 show ?thesis by auto
qed

lemma claim_effect:
  assumes "cmd_claim h tm tmp False w = (Inr (Claimed i d cmd), w')" "tmp_name tmp"
  shows "\<exists>(pl :: plan) receipt n. receipt_of h tm (p_constants pl) (p_policy pl) (p_policy_sha pl) d = Inr receipt \<and>
     i = str_val (fld (p_record pl) ''experiment_id'') \<and>
     files w' active_path = Some n \<and>
     contents n = stored_json h (JObj (dict_set (dict_set (p_record pl) ''status'' (JStr ''claimed''))
       ''receipt'' (JObj receipt))) \<and>
     ledger_text (files w') = ledger_text (files w) @ ledger_line h (p_record pl) receipt d @ [LF]"
proof -
  from assms(1) obtain w1 pl where f: "frame {claims_dir, lock_path} (files w) (files w1)"
    and cm: "claim_commit h tm tmp pl w1 = (Inr (), w')"
    and i: "i = str_val (fld (p_record pl) ''experiment_id'')" and d: "d = p_digest pl"
    using claim_parts[OF assms(1)] by blast
  have "files w1 ledger_path = files w ledger_path" using f ledger_other by (simp add: frame_def)
  then have "ledger_text (files w1) = ledger_text (files w)" by (simp add: ledger_text_def)
  moreover from commit_effect[OF cm assms(2)] obtain receipt n where
    "receipt_of h tm (p_constants pl) (p_policy pl) (p_policy_sha pl) (p_digest pl) = Inr receipt"
    "files w' active_path = Some n"
    "contents n = stored_json h (JObj (dict_set (dict_set (p_record pl) ''status'' (JStr ''claimed''))
       ''receipt'' (JObj receipt)))"
    "ledger_text (files w') = ledger_text (files w1) @ ledger_line h (p_record pl) receipt (p_digest pl) @ [LF]"
    by blast
  ultimately show ?thesis using i d by (intro exI[of _ pl] exI[of _ receipt] exI[of _ n]) simp
qed

section \<open>The line a claim appends is found again\<close>

text \<open>Text without white space and without \<open>=\<close> in the key is one token.\<close>

definition plain :: "string \<Rightarrow> bool" where
  "plain s \<longleftrightarrow> (\<forall>ch \<in> set (chars s). \<not> py_space ch)"

end
