(* ===== verification/LedgerSpec.thy ===== *)
theory LedgerSpec
  imports ClaimSpec
begin

text \<open>
  Reading the ledger back: the line that a claim appends is found by the repeat check for
  ever after, even when it was appended behind the torn line of an interrupted claim.
\<close>

section \<open>Characters of a concatenation\<close>

definition starts_char :: "string \<Rightarrow> bool" where
  "starts_char s \<longleftrightarrow> s = [] \<or> \<not> is_cont (hd s)"

lemma chars_append: "starts_char b \<Longrightarrow> chars (a @ b) = chars a @ chars b"
proof (induction a rule: chars.induct)
  case 1
  then show ?case by simp
next
  case (2 c s)
  have "takeWhile is_cont (s @ b) = takeWhile is_cont s \<and> dropWhile is_cont (s @ b) = dropWhile is_cont s @ b"
  proof (cases "list_all is_cont s")
    case True
    have b1: "takeWhile is_cont b = []" "dropWhile is_cont b = b"
      using 2(2) by (cases b; simp add: starts_char_def)+
    have all: "\<forall>x \<in> set s. is_cont x" using True by (simp add: list_all_iff)
    have "takeWhile is_cont (s @ b) = s @ takeWhile is_cont b" "dropWhile is_cont (s @ b) = dropWhile is_cont b"
      using all by (simp_all add: takeWhile_append2 dropWhile_append2)
    moreover have "takeWhile is_cont s = s" using all by (rule takeWhile_eq_all_conv[THEN iffD2])
    moreover have "dropWhile is_cont s = []" using all by (rule dropWhile_eq_Nil_conv[THEN iffD2])
    ultimately show ?thesis
      using b1 by (simp only: append_Nil append_Nil2 simp_thms)
  next
    case False
    then obtain x where "x \<in> set s" "\<not> is_cont x" by (auto simp: list_all_iff)
    then show ?thesis by (simp add: takeWhile_append1 dropWhile_append1)
  qed
  with 2 show ?case by simp
qed

lemma starts_char_ascii: "ord c < 128 \<Longrightarrow> starts_char (c # s)"
  by (simp add: starts_char_def ascii_not_cont)

lemma chars_ascii_Cons: "ord c < 128 \<Longrightarrow> starts_char s \<Longrightarrow> chars (c # s) = [c] # chars s"
  using chars_append[of s "[c]"] by simp

lemma py_space_single [simp]: "py_space [c] \<longleftrightarrow> ascii_space c"
proof -
  have "py_space [c] \<longleftrightarrow> ord c \<in> {9, 10, 11, 12, 13, 28, 29, 30, 31, 32}"
    by (simp add: py_space_def space_chars_def byte_str_def char_of_eq)
  also have "\<dots> \<longleftrightarrow> ascii_space c" by (auto simp: ascii_space_def)
  finally show ?thesis .
qed

lemma blank_not_break: "'' '' \<notin> set line_breaks"
  by (simp add: line_breaks_def byte_str_def char_of_eq) (simp add: ord_def)

section \<open>Lines\<close>

lemma line_breaks_space: "set line_breaks \<subseteq> set space_chars"
proof -
  have "set (map (\<lambda>n. byte_str [n]) ([10..<14] @ [28..<31])) \<subseteq> set (map (\<lambda>n. byte_str [n]) ([9..<14] @ [28..<33]))"
    by auto
  moreover have "set (map (\<lambda>n. byte_str [226, 128, n]) [168, 169]) \<subseteq>
      set (map (\<lambda>n. byte_str [226, 128, n]) ([128..<139] @ [168, 169, 175]))" by auto
  ultimately show ?thesis unfolding line_breaks_def space_chars_def by auto
qed

definition unbroken :: "string list \<Rightarrow> bool" where
  "unbroken cs \<longleftrightarrow> (\<forall>ch \<in> set cs. ch \<notin> set line_breaks)"

lemma LF_not_CR: "LF \<noteq> CR"
proof
  assume "LF = CR"
  then have "ord LF = ord CR" by (rule arg_cong)
  then show False by simp
qed

lemma CR_break: "[CR] \<in> set line_breaks" "[LF] \<in> set line_breaks"
  by (auto simp: line_breaks_def byte_str_def CR_def LF_def)

lemma lines_unbroken: "unbroken cs \<Longrightarrow> lines_acc l (cs @ [[LF]]) = [rev l @ cs]"
proof (induction cs arbitrary: l)
  case Nil
  have "[LF] \<noteq> [CR]" by (simp add: LF_not_CR)
  then show ?case using CR_break by simp
next
  case (Cons c cs)
  then have "c \<notin> set line_breaks" "unbroken cs" by (simp_all add: unbroken_def)
  moreover from this have "c \<noteq> [CR]" using CR_break by blast
  ultimately show ?case using Cons.IH[of "c # l"] by simp
qed

lemma lines_append:
  "ys \<noteq> [] \<Longrightarrow> hd ys \<noteq> [LF] \<Longrightarrow> \<exists>ls l'. lines_acc l (xs @ ys) = ls @ lines_acc l' ys"
proof (induction l xs rule: lines_acc.induct)
  case (1 l)
  then show ?case by (intro exI[of _ "[]"] exI[of _ l]) simp
next
  case (2 l c cs)
  show ?case
  proof (cases "c = [CR] \<and> (case cs of d # ds \<Rightarrow> d = [LF] | [] \<Rightarrow> False)")
    case True
    then obtain ds where cs: "cs = [LF] # ds" by (cases cs) auto
    with True 2(1) 2(4,5) obtain ls l' where "lines_acc [] (ds @ ys) = ls @ lines_acc l' ys" by auto
    with True cs show ?thesis by (intro exI[of _ "rev l # ls"] exI[of _ l']) simp
  next
    case False
    have no: "\<not> (c = [CR] \<and> (case cs @ ys of d # ds \<Rightarrow> d = [LF] | [] \<Rightarrow> False))"
      using False 2(4,5) by (cases cs; cases ys) auto
    show ?thesis
    proof (cases "c \<in> set line_breaks")
      case True
      with 2(2)[OF False True] 2(4,5) obtain ls l' where "lines_acc [] (cs @ ys) = ls @ lines_acc l' ys" by auto
      with True no show ?thesis by (intro exI[of _ "rev l # ls"] exI[of _ l']) (simp only: append.simps lines_acc.simps if_False if_True)
    next
      case F2: False
      with 2(3)[OF False F2] 2(4,5) obtain ls l' where "lines_acc (c # l) (cs @ ys) = ls @ lines_acc l' ys" by auto
      with F2 no show ?thesis by (intro exI[of _ ls] exI[of _ l']) (simp only: append.simps lines_acc.simps if_False)
    qed
  qed
qed

lemma lines_closed:
  assumes "xs = zs @ [[LF]]"
  shows "lines_acc l (xs @ ys) = lines_acc l xs @ lines_acc [] ys"
  using assms
proof (induction l xs arbitrary: zs rule: lines_acc.induct)
  case (1 l)
  then show ?case by simp
next
  case (2 l c cs)
  show ?case
  proof (cases cs)
    case Nil
    with 2(4) have "c = [LF]" "zs = []" by (auto simp: Cons_eq_append_conv)
    moreover have "[LF] \<noteq> [CR]" by (simp add: LF_not_CR)
    ultimately show ?thesis using Nil CR_break by simp
  next
    case (Cons d ds)
    with 2(4) obtain zs' where zs: "cs = zs' @ [[LF]]" by (cases zs) auto
    show ?thesis
    proof (cases "c = [CR] \<and> d = [LF]")
      case True
      show ?thesis
      proof (cases ds)
        case Nil
        with True Cons show ?thesis by simp
      next
        case (Cons e es)
        with zs \<open>cs = d # ds\<close> obtain zs'' where "ds = zs'' @ [[LF]]" by (cases zs') auto
        with 2(1) True \<open>cs = d # ds\<close> show ?thesis by auto
      qed
    next
      case False
      have no: "\<not> (c = [CR] \<and> (case cs of d # ds \<Rightarrow> d = [LF] | [] \<Rightarrow> False))"
        "\<not> (c = [CR] \<and> (case cs @ ys of d # ds \<Rightarrow> d = [LF] | [] \<Rightarrow> False))"
        using False Cons by auto
      show ?thesis
      proof (cases "c \<in> set line_breaks")
        case True
        from 2(2)[OF no(1) True zs] show ?thesis using True no by (simp only: append.simps lines_acc.simps if_False if_True)
      next
        case F2: False
        from 2(3)[OF no(1) F2 zs] show ?thesis using F2 no by (simp only: append.simps lines_acc.simps if_False)
      qed
    qed
  qed
qed


section \<open>Tokens\<close>

lemma words_snoc:
  assumes "\<forall>t \<in> set toks. t \<noteq> [] \<and> (\<forall>ch \<in> set (chars t). \<not> py_space ch) \<and> starts_char t" "toks \<noteq> []"
  shows "py_words (join_with '' '' toks) = toks \<and> starts_char (join_with '' '' toks) \<and>
     (\<forall>ch \<in> set (chars (join_with '' '' toks)). \<not> py_space ch \<or> ch = '' '')"
  using assms
proof (induction toks rule: induct_list012)
  case (2 t)
  then have "chars t \<noteq> []" by (cases t) auto
  with 2 show ?case by (simp add: py_words_def words_by_run)
next
  case (3 t u toks)
  let ?r = "join_with '' '' (u # toks)"
  have IH: "py_words ?r = u # toks" "starts_char ?r" "\<forall>ch \<in> set (chars ?r). \<not> py_space ch \<or> ch = '' ''"
    using 3 by simp_all
  have t: "chars t \<noteq> []" "\<forall>ch \<in> set (chars t). \<not> py_space ch" "starts_char t" "t \<noteq> []"
    using 3(3) by (cases t; auto)+
  have sp: "ord (CHR '' '') < 128" by (simp add: ord_def)
  have cs: "chars (t @ CHR '' '' # ?r) = chars t @ '' '' # chars ?r"
    using chars_append[OF starts_char_ascii[OF sp]] chars_ascii_Cons[OF sp IH(2)] by simp
  have blank: "py_space '' ''" by (simp add: ascii_space_def ord_def)
  have "words_by py_space (chars t @ '' '' # chars ?r) = words_by py_space (chars t) @ words_by py_space (chars ?r)"
    by (rule words_by_append_sep[of py_space "'' ''", OF blank])
  then have "py_words (t @ CHR '' '' # ?r) = t # u # toks"
    using IH(1) t by (simp add: py_words_def cs words_by_run)
  moreover have "starts_char (t @ CHR '' '' # ?r)" using t(3,4) by (cases t) (auto simp: starts_char_def)
  moreover have "\<forall>ch \<in> set (chars (t @ CHR '' '' # ?r)). \<not> py_space ch \<or> ch = '' ''"
    unfolding cs using t(2) IH(3) by auto
  ultimately show ?case by simp
qed simp

text \<open>A key and a value that make one token.\<close>

definition plain_token :: "string \<times> string \<Rightarrow> bool" where
  "plain_token kv \<longleftrightarrow> fst kv \<noteq> [] \<and> is_ascii (fst kv) \<and> CHR ''='' \<notin> set (fst kv) \<and>
     (\<forall>ch \<in> set (chars (fst kv)). \<not> py_space ch) \<and>
     starts_char (snd kv) \<and> (\<forall>ch \<in> set (chars (snd kv)). \<not> py_space ch)"

definition render_token :: "string \<times> string \<Rightarrow> string" where
  "render_token kv = fst kv @ ''='' @ snd kv"

lemma render_token_ok:
  assumes "plain_token kv"
  shows "render_token kv \<noteq> [] \<and> (\<forall>ch \<in> set (chars (render_token kv)). \<not> py_space ch) \<and>
     starts_char (render_token kv) \<and> token_entry (render_token kv) = Some kv"
proof -
  obtain k v where kv: "kv = (k, v)" by (cases kv)
  have k: "k \<noteq> []" "is_ascii k" "CHR ''='' \<notin> set k" "\<forall>ch \<in> set (chars k). \<not> py_space ch"
    and v: "starts_char v" "\<forall>ch \<in> set (chars v). \<not> py_space ch"
    using assms by (simp_all add: plain_token_def kv)
  have eq: "ord (CHR ''='') < 128" by (simp add: ord_def)
  have cs: "chars (k @ CHR ''='' # v) = chars k @ ''='' # chars v"
    using chars_append[OF starts_char_ascii[OF eq]] chars_ascii_Cons[OF eq v(1)] by simp
  have "\<not> py_space ''=''" by (simp add: ascii_space_def ord_def)
  then have 1: "\<forall>ch \<in> set (chars (k @ CHR ''='' # v)). \<not> py_space ch" unfolding cs using k(4) v(2) by auto
  have 2: "starts_char (k @ CHR ''='' # v)"
    using k(1,2) by (cases k) (auto simp: starts_char_def ascii_not_cont)
  have "takeWhile (\<lambda>c. c \<noteq> CHR ''='') (k @ CHR ''='' # v) = k"
    "dropWhile (\<lambda>c. c \<noteq> CHR ''='') (k @ CHR ''='' # v) = CHR ''='' # v"
    using k(3) by (induction k) auto
  then have 3: "token_entry (k @ CHR ''='' # v) = Some (k, v)" by (simp add: token_entry_def)
  show ?thesis using k(1) 1 2 3 by (simp add: render_token_def kv)
qed

definition put_token :: "string \<Rightarrow> (string \<Rightarrow> string option) \<Rightarrow> string \<Rightarrow> string option" where
  "put_token tok m = (case token_entry tok of Some (k, v) \<Rightarrow> m(k \<mapsto> v) | None \<Rightarrow> m)"

lemma line_entry_fold: "line_entry line = fold put_token (py_words line) (\<lambda>_. None)"
  unfolding line_entry_def put_token_def[abs_def] ..

lemma put_token_plain: "plain_token kv \<Longrightarrow> put_token (render_token kv) m = m(fst kv \<mapsto> snd kv)"
  using render_token_ok[of kv] by (simp add: put_token_def case_prod_beta)

lemma fold_tokens_other:
  "\<forall>kv \<in> set kvs. plain_token kv \<Longrightarrow> k \<notin> set (map fst kvs) \<Longrightarrow>
     fold put_token (map render_token kvs) m k = m k"
proof (induction kvs arbitrary: m)
  case (Cons kv kvs)
  then have "fold put_token (map render_token kvs) (m(fst kv \<mapsto> snd kv)) k = (m(fst kv \<mapsto> snd kv)) k" by simp
  with Cons.prems show ?case by (simp add: put_token_plain)
qed simp

lemma fold_tokens:
  "\<forall>kv \<in> set kvs. plain_token kv \<Longrightarrow> distinct (map fst kvs) \<Longrightarrow> (k, v) \<in> set kvs \<Longrightarrow>
     fold put_token (map render_token kvs) m k = Some v"
proof (induction kvs arbitrary: m)
  case (Cons kv kvs)
  have p: "put_token (render_token kv) m = m(fst kv \<mapsto> snd kv)" using Cons.prems(1) put_token_plain by simp
  show ?case
  proof (cases "(k, v) \<in> set kvs")
    case True
    then have "fold put_token (map render_token kvs) (m(fst kv \<mapsto> snd kv)) k = Some v"
      using Cons.prems(1,2) by (intro Cons.IH) simp_all
    then show ?thesis by (simp add: p)
  next
    case False
    with Cons.prems(3) have kv: "kv = (k, v)" by simp
    have "fold put_token (map render_token kvs) (m(fst kv \<mapsto> snd kv)) k = (m(fst kv \<mapsto> snd kv)) k"
      using Cons.prems(1,2) kv by (intro fold_tokens_other) simp_all
    then show ?thesis using p by (simp add: kv)
  qed
qed simp

lemma chars_not_Nil: "ch \<in> set (chars s) \<Longrightarrow> ch \<noteq> []"
  by (induction s rule: chars.induct) auto

lemma strip_not_Nil: "ch \<in> set (chars s) \<Longrightarrow> \<not> py_space ch \<Longrightarrow> py_strip s \<noteq> []"
proof -
  assume ch: "ch \<in> set (chars s)" "\<not> py_space ch"
  let ?d = "dropWhile py_space (chars s)"
  have "ch \<in> set ?d" using ch by (metis Un_iff set_append set_takeWhileD takeWhile_dropWhile_id)
  then have "ch \<in> set (dropWhile py_space (rev ?d))" using ch(2)
    by (metis Un_iff set_append set_rev set_takeWhileD takeWhile_dropWhile_id)
  then show ?thesis using chars_not_Nil[OF ch(1)] by (auto simp: py_strip_def)
qed

text \<open>
  The last line of \<open>T @ line @ LF\<close>, whatever \<open>T\<close> ends with: its entry has every key of the
  line after the first, which a torn line may have swallowed.
\<close>

lemma ledger_entries_append:
  assumes kvs: "\<forall>kv \<in> set (kv0 # kvs). plain_token kv" "distinct (map fst kvs)" "kvs \<noteq> []"
  shows "\<exists>e \<in> set (ledger_entries (T @ join_with '' '' (map render_token (kv0 # kvs)) @ [LF])).
     \<forall>(k, v) \<in> set kvs. e k = Some v"
proof -
  let ?toks = "map render_token (kv0 # kvs)" and ?L = "join_with '' '' (map render_token (kv0 # kvs))"
  let ?R = "join_with '' '' (map render_token kvs)" and ?t0 = "render_token kv0"
  have ok: "\<forall>t \<in> set ?toks. t \<noteq> [] \<and> (\<forall>ch \<in> set (chars t). \<not> py_space ch) \<and> starts_char t"
  proof
    fix t
    assume "t \<in> set ?toks"
    then obtain kv where "kv \<in> set (kv0 # kvs)" "t = render_token kv" unfolding set_map by blast
    moreover from this have "plain_token kv" using kvs(1) by (metis)
    ultimately show "t \<noteq> [] \<and> (\<forall>ch \<in> set (chars t). \<not> py_space ch) \<and> starts_char t"
      using render_token_ok[of kv] by simp
  qed
  note L = words_snoc[OF ok]
  have R: "py_words ?R = map render_token kvs" "starts_char ?R"
    using words_snoc[of "map render_token kvs"] ok kvs(3) by auto
  have Lne: "?L \<noteq> []" "hd ?L \<noteq> LF"
  proof -
    obtain c s where c: "fst kv0 = c # s" "ord c < 128" "\<forall>ch \<in> set (chars (fst kv0)). \<not> py_space ch"
      using kvs(1) by (cases "fst kv0") (auto simp: plain_token_def)
    have "chars (c # s) = [c] # chars s"
      using kvs(1) c(1,2) chars_ascii[of "c # s"] chars_ascii[of s]
      by (simp add: plain_token_def is_ascii_def)
    then have "\<not> py_space [c]" using c(1,3) by simp
    moreover have "py_space [LF]" by (simp add: ascii_space_def)
    ultimately have "c \<noteq> LF" by auto
    then show "?L \<noteq> []" "hd ?L \<noteq> LF" using c(1) kvs(3)
      by (cases kvs; simp add: render_token_def)+
  qed
  have LF1: "ord LF < 128" by simp
  have sp: "ord (CHR '' '') < 128" by (simp add: ord_def)
  have LR: "?L = ?t0 @ CHR '' '' # ?R" using kvs(3) by (cases kvs) simp_all
  have cLR: "chars ?L = chars ?t0 @ '' '' # chars ?R"
    unfolding LR using chars_append[OF starts_char_ascii[OF sp]] chars_ascii_Cons[OF sp R(2)] by simp
  have sL: "starts_char (?L @ [LF])" using L Lne(1) by (cases ?L) (auto simp: starts_char_def)
  have cT: "chars (T @ ?L @ [LF]) = chars T @ chars ?L @ [[LF]]"
    using chars_append[OF sL, of T] chars_append[OF starts_char_ascii[OF LF1, of "[]"], of ?L]
      chars_ascii_Cons[OF LF1, of "[]"] by (simp add: starts_char_def)
  have cL: "chars ?L \<noteq> []" using Lne(1) by (cases ?L) auto
  have "hd (chars ?L @ [[LF]]) \<noteq> [LF]" using cL Lne by (cases ?L) auto
  then obtain ls l' where lines: "lines_acc [] (chars T @ chars ?L @ [[LF]]) = ls @ lines_acc l' (chars ?L @ [[LF]])"
    using lines_append[of "chars ?L @ [[LF]]" "[]" "chars T"] by auto
  have ub: "unbroken (chars ?L)"
  proof -
    have "ch \<notin> set line_breaks" if "ch \<in> set (chars ?L)" for ch
    proof
      assume b: "ch \<in> set line_breaks"
      then have "py_space ch" using line_breaks_space by (auto simp: py_space_def)
      with L that have "ch = '' ''" by auto
      with b show False using blank_not_break by simp
    qed
    then show ?thesis by (simp add: unbroken_def)
  qed
  let ?line = "concat (rev l') @ ?L"
  have "?line \<in> set (py_lines (T @ ?L @ [LF]))"
    unfolding py_lines_def cT lines lines_unbroken[OF ub] by simp
  moreover have "py_strip ?line \<noteq> []"
  proof -
    obtain c s where c: "fst kv0 = c # s" using kvs(1) by (cases "fst kv0") (auto simp: plain_token_def)
    obtain ch where ch: "ch \<in> set (chars ?t0)" using ok by (cases "?t0") auto
    then have "\<not> py_space ch" using ok by auto
    have "chars ?line = chars (concat (rev l')) @ chars ?L" by (rule chars_append) (use L in simp)
    moreover have "ch \<in> set (chars ?L)" using ch cLR by simp
    ultimately show ?thesis using \<open>\<not> py_space ch\<close> by (intro strip_not_Nil[of ch]) simp_all
  qed
  ultimately have e: "line_entry ?line \<in> set (ledger_entries (T @ ?L @ [LF]))"
    by (simp add: ledger_entries_def)
  have blank: "py_space '' ''" by (simp add: ascii_space_def ord_def)
  have "chars ?line = chars (concat (rev l')) @ chars ?L" by (rule chars_append) (use L in simp)
  then have "chars ?line = (chars (concat (rev l')) @ chars ?t0) @ '' '' # chars ?R"
    using cLR by simp
  moreover have "words_by py_space ((chars (concat (rev l')) @ chars ?t0) @ '' '' # chars ?R) =
      words_by py_space (chars (concat (rev l')) @ chars ?t0) @ words_by py_space (chars ?R)"
    using blank by (rule words_by_append_sep)
  ultimately have "py_words ?line = map concat (words_by py_space (chars (concat (rev l')) @ chars ?t0)) @ py_words ?R"
    unfolding py_words_def by (simp only: map_append)
  then have le: "line_entry ?line = fold put_token (map render_token kvs)
      (fold put_token (map concat (words_by py_space (chars (concat (rev l')) @ chars ?t0))) (\<lambda>_. None))"
    unfolding line_entry_fold R(1) by simp
  have "line_entry ?line k = Some v" if "(k, v) \<in> set kvs" for k v
    unfolding le using kvs(1,2) that by (intro fold_tokens) simp_all
  with e show ?thesis by blast
qed


section \<open>The repeat check finds every claim\<close>

lemma utf8_valid_starts: "utf8_valid s \<Longrightarrow> starts_char s"
  using utf8_valid_hd[of s] by (simp add: starts_char_def)

lemma utf8_valid_append_left: "utf8_valid (s @ [LF] @ u) \<Longrightarrow> utf8_valid (s @ [LF]) \<Longrightarrow> utf8_valid u"
proof (induction s rule: length_induct)
  case (1 s)
  show ?case
  proof (cases s)
    case Nil
    with 1 show ?thesis by simp
  next
    case (Cons a t)
    have IH: "utf8_valid (r @ [LF] @ u) \<Longrightarrow> utf8_valid (r @ [LF]) \<Longrightarrow> length r < length s \<Longrightarrow> utf8_valid u" for r
      using 1(1) by blast
    have nc: "\<not> is_cont LF" by (simp add: is_cont_def)
    show ?thesis
    proof (cases "ord a < 128")
      case True
      with 1(2,3) Cons show ?thesis by (intro IH[of t]) simp_all
    next
      case A: False
      with 1(3) Cons nc obtain b r1 where t: "t = b # r1" by (cases t) (auto split: if_splits)
      show ?thesis
      proof (cases "194 \<le> ord a \<and> ord a \<le> 223")
        case True
        with 1(2,3) Cons t A show ?thesis by (intro IH[of r1]) simp_all
      next
        case B: False
        with 1(3) Cons t A nc obtain c r2 where r1: "r1 = c # r2" by (cases r1) (auto split: if_splits)
        show ?thesis
        proof (cases "224 \<le> ord a \<and> ord a \<le> 239")
          case True
          with 1(2,3) Cons t r1 A B show ?thesis by (intro IH[of r2]) simp_all
        next
          case C: False
          with 1(3) Cons t r1 A B nc obtain d r3 where r2: "r2 = d # r3" by (cases r2) (auto split: if_splits)
          with 1(2,3) Cons t r1 A B C show ?thesis by (intro IH[of r3]) simp_all
        qed
      qed
    qed
  qed
qed

text \<open>Entries are kept when complete lines are followed by more text.\<close>

lemma ledger_entries_closed:
  assumes "starts_char u"
  shows "ledger_entries (s @ [LF] @ u) = ledger_entries (s @ [LF]) @ ledger_entries u"
proof -
  have l: "ord LF < 128" by simp
  have c1: "chars (s @ [LF]) = chars s @ [[LF]]"
    using chars_append[OF starts_char_ascii[OF l, of "[]"], of s] chars_ascii_Cons[OF l, of "[]"]
    by (simp add: starts_char_def)
  have "chars ((s @ [LF]) @ u) = chars (s @ [LF]) @ chars u" using assms by (rule chars_append)
  then have "chars (s @ [LF] @ u) = (chars s @ [[LF]]) @ chars u" by (simp add: c1)
  then have "lines_acc [] (chars (s @ [LF] @ u)) = lines_acc [] (chars (s @ [LF])) @ lines_acc [] (chars u)"
    using lines_closed[OF refl, of "[]" "chars s" "chars u"] c1 by (simp only:)
  then show ?thesis by (simp only: ledger_entries_def py_lines_def map_append filter_append)
qed

definition plain_line :: "(string \<times> string) list \<Rightarrow> bool" where
  "plain_line kvs \<longleftrightarrow> list_all plain_token kvs"

lemma claim_line_found:
  assumes plain: "plain_line (ledger_tokens h r receipt d)"
    and strs: "is_str (fld (action_of r) ''operation'')" "is_str (fld (action_of r) ''target'')"
      "is_str (fld (action_of r) ''artifact_sha256'')"
  shows "\<exists>e \<in> set (ledger_entries (T @ ledger_line h r receipt d @ [LF])). claimed_before (action_of r) e"
proof -
  let ?k = "ledger_tokens h r receipt d"
  have k: "?k = hd ?k # tl ?k" by (simp add: ledger_tokens_def)
  have "\<forall>kv \<in> set (hd ?k # tl ?k). plain_token kv"
    using plain k by (metis list_all_iff plain_line_def)
  moreover have "distinct (map fst (tl ?k))" by (simp add: ledger_tokens_def)
  moreover have "tl ?k \<noteq> []" by (simp add: ledger_tokens_def)
  ultimately obtain e where e: "e \<in> set (ledger_entries (T @ join_with '' '' (map render_token (hd ?k # tl ?k)) @ [LF]))"
    "\<forall>(k, v) \<in> set (tl ?k). e k = Some v" by (rule ledger_entries_append[THEN bexE])
  have line: "join_with '' '' (map render_token (hd ?k # tl ?k)) = ledger_line h r receipt d"
    unfolding ledger_line_def k[symmetric] render_token_def ..
  have "e ''operation'' = Some (py_str h (fld (action_of r) ''operation''))"
    "e ''target'' = Some (py_str h (fld (action_of r) ''target''))"
    "e ''artifact_sha256'' = Some (py_str h (fld (action_of r) ''artifact_sha256''))"
    using e(2) by (auto simp: ledger_tokens_def)
  then have "claimed_before (action_of r) e"
    using strs by (auto simp: claimed_before_def is_str_iff)
  with e(1) show ?thesis unfolding line by blast
qed

end
