(* ===== verification/StoreSpec.thy ===== *)
theory StoreSpec
  imports LedgerSpec
begin

text \<open>
  What one command stores the next one loads: the contract of the JSON documents of the
  engine as a locale, its interpretation on the stored form, and the loading of a file
  written by \<open>atomic_write_repo_json\<close>.
\<close>

section \<open>Documents\<close>

locale document_store =
  fixes store :: "'d \<Rightarrow> bytes" and load :: "bytes \<Rightarrow> 'd result" and ok :: "'d \<Rightarrow> bool"
  assumes load_store: "ok d \<Longrightarrow> load (store d) = Inr d"
begin

lemma store_inject: "ok d \<Longrightarrow> ok e \<Longrightarrow> store d = store e \<Longrightarrow> d = e"
  by (metis load_store sum.inject(2))

lemma load_deterministic: "ok d \<Longrightarrow> load (store d) = Inr e \<Longrightarrow> e = d"
  using load_store[of d] by simp

end

definition printable_dict :: "host \<Rightarrow> dict \<Rightarrow> bool" where
  "printable_dict h d \<longleftrightarrow> printable h (JObj d)"

interpretation doc: document_store "\<lambda>d. stored_json h (JObj d)" "\<lambda>b. decode_json_object h b label" "printable_dict h"
  for h label
  by unfold_locales (simp add: printable_dict_def decode_stored)

section \<open>Reading a file\<close>

text \<open>The chunks a file is read in do not matter.\<close>

lemma read_chunks_ok: "n0 + length (concat cs) \<le> maximum \<Longrightarrow> read_chunks maximum n0 cs = Inr (concat cs)"
  by (induction maximum n0 cs rule: read_chunks.induct) auto

lemma read_chunks_over:
  "n0 \<le> maximum \<Longrightarrow> maximum < n0 + length (concat cs) \<Longrightarrow> \<exists>e. read_chunks maximum n0 cs = Inl e"
proof (induction maximum n0 cs rule: read_chunks.induct)
  case (2 maximum n0 c cs)
  then show ?case by (cases "maximum < n0 + length c") auto
qed auto

lemma same_file_state_refl [simp]: "same_file_state s s"
  by (simp add: same_file_state_def)

lemma read_fd_all_ok:
  assumes "concat cs = data" "st_size s = length data" "length data \<le> maximum"
  shows "read_fd_all s cs s label maximum = Inr data"
  using assms read_chunks_ok[of 0 cs maximum] by (simp add: read_fd_all_def)

definition regular_file :: "host \<Rightarrow> node \<Rightarrow> bool" where
  "regular_file h n \<longleftrightarrow> st_type (st n) = F_REG \<and> st_nlink (st n) = 1 \<and> safe_owner_mode h (st n) \<and>
     st_size (st n) = length (contents n)"

lemma open_regular_ok:
  assumes "open_repo_parent h t (JStr rel) label = Inr (butlast (comps rel), last (comps rel))"
    "t (comps rel) = Some n" "regular_file h n"
  shows "open_repo_regular_file h t (JStr rel) label = Inr (rel, n)"
proof -
  have "open_existing_at h t (comps rel) label = Inr n"
    using assms(2,3) by (simp add: res_iff regular_file_def)
  then show ?thesis using assms(1) by (simp add: open_repo_regular_file_def)
qed

lemma load_stored_file:
  assumes "open_repo_parent h t (JStr rel) label = Inr (butlast (comps rel), last (comps rel))"
    "t (comps rel) = Some n" "regular_file h n" "contents n = stored_json h (JObj d)"
    "length (contents n) \<le> MAX_JSON_BYTES" "printable_dict h d"
  shows "load_repo_json h t rel label = Inr (d, stored_json h (JObj d))"
proof -
  have "read_fd_all (st n) (chunks_of (HASH_CHUNK_SIZE - 1) (contents n)) (st n) label MAX_JSON_BYTES =
      Inr (contents n)"
    using assms(3,5) by (intro read_fd_all_ok) (simp_all add: regular_file_def)
  then have "read_repo_regular_file h t (JStr rel) label MAX_JSON_BYTES = Inr (rel, contents n)"
    using open_regular_ok[OF assms(1-3)] by (simp add: read_repo_regular_file_def)
  then show ?thesis using doc.load_store[OF assms(6)] assms(4) by (simp add: load_repo_json_def)
qed

lemma hash_file_ok:
  assumes "open_repo_parent h t (JStr rel) label = Inr (butlast (comps rel), last (comps rel))"
    "t (comps rel) = Some n" "regular_file h n"
  shows "hash_repo_regular_file h t (JStr rel) label = Inr (rel, sha256 h (contents n), length (contents n))"
  using open_regular_ok[OF assms] assms(3)
  by (simp add: hash_repo_regular_file_def regular_file_def Let_def)

end
