(* ===== verification/Demo.thy ===== *)
theory Demo
  imports StoreSpec
begin

text \<open>
  A small governed repository on which the properties of the engine are instantiated: the
  shipped constants and policy tables, and a record that asks for a device reboot.
\<close>

definition demo_host :: host where
  "demo_host = \<lparr>sha256 = (\<lambda>bs. replicate 63 (CHR ''0'') @ (if length bs mod 2 = 0 then ''a'' else ''b'')),
     float_of = (\<lambda>s. JFloat 1 1), float_repr = (\<lambda>m k. ''0.5''), category_C = (\<lambda>ch. False),
     euid = 1000, egid = 1000\<rparr>"

definition demo_time :: moment where
  "demo_time n = Inr (if n = 0 then ''2026-07-29T10:00:00Z'' else ''2026-07-29T10:15:00Z'')"

definition demo_tmp :: string where "demo_tmp = ''.tmp-1-00.json''"

definition demo_constants :: dict where
  "demo_constants =
     [(''schema_version'', JInt 4), (''expected_product'', JStr ''lmi''), (''battery_floor_mv'', JInt 3800),
      (''receipt_ttl_seconds'', JInt 900),
      (''partition_targets'', JArr (map JStr [''boot'', ''userdata'', ''dtbo'', ''vbmeta''])),
      (''volatile_operations'', JArr [JStr ''device_reboot'']),
      (''ram_rw_operations'', JArr (map JStr [''ram_boot'', ''runtime_handoff''])),
      (''persistent_operations'', JArr [JStr ''partition_write'']),
      (''forbidden_command_words'', JArr (map JStr FORBIDDEN_COMMAND_WORDS))]"

definition demo_policy :: dict where
  "demo_policy =
     [(''schema_version'', JInt 4), (''enabled'', JBool True), (''revision'', JStr ''2026-07-22.1''),
      (''authorized_by'', JStr ''ian''), (''authorization_note'', JStr ''standing''),
      (''standing_scopes'', JArr [JObj [(''tier'', JStr ''volatile''), (''operation'', JStr ''device_reboot''),
          (''target'', JStr ''device'')]]),
      (''authorized_profiles'', JArr []), (''manual_only'', JArr [JStr ''bootloader-relock''])]"

definition demo_args :: new_args where
  "demo_args = \<lparr>a_experiment_id = ''probe-1'', a_operation = Some ''device_reboot'', a_target = None,
     a_profile = None, a_artifact = None, a_hypothesis = ''h'', a_discriminator = ''d'',
     a_next_if_positive = ''p'', a_next_if_negative = ''n'', a_timebox_seconds = 300, a_acknowledge = False,
     a_rebuild_reference = None, a_repeat_prior = None, a_repeat_changed = None, a_repeat_evidence = None\<rparr>"

definition demo_record :: dict where
  "demo_record = base_record demo_args ''volatile'' @
     [(''action'', JObj
         [(''operation'', JStr ''device_reboot''), (''target'', JStr ''device''), (''profile'', JNull),
          (''profile_sha256'', JNull), (''artifact'', JNull), (''artifact_sha256'', JNull),
          (''artifact_size'', JNull), (''exact_command'', JArr (map JStr [''fastboot'', ''reboot'']))]),
      (''gates'', JObj
         [(''identity'', JObj [(''expected_product'', JStr ''lmi'')]), (''persistent_media'', JNull),
          (''rollback'', JNull)]),
      (''repeat_guard'', JNull), (''receipt'', JNull)]"

definition demo_dir :: node where
  "demo_dir = new_node demo_host F_DIR 448 0"

definition demo_file :: "bytes \<Rightarrow> node" where
  "demo_file bs = append_node bs 1 (new_node demo_host F_REG 384 0)"

definition demo_tree :: tree where
  "demo_tree = [[] \<mapsto> demo_dir, [''config''] \<mapsto> demo_dir, [''config'', ''governance''] \<mapsto> demo_dir,
     [''config'', ''governance'', ''constants.json''] \<mapsto> demo_file (stored_json demo_host (JObj demo_constants)),
     [''config'', ''governance'', ''policy.json''] \<mapsto> demo_file (stored_json demo_host (JObj demo_policy)),
     [''notes''] \<mapsto> demo_dir, [''notes'', ''bringup-claims''] \<mapsto> demo_dir,
     [''notes'', ''bringup-claims'', ''.lock''] \<mapsto> demo_file [],
     [''notes'', ''bringup-active.json''] \<mapsto> demo_file (stored_json demo_host (JObj demo_record))]"

definition demo_world :: world where
  "demo_world = \<lparr>files = demo_tree, faults = [], clock = 2\<rparr>"

lemma demo_safe: "safe_owner_mode demo_host (st demo_dir)" "safe_owner_mode demo_host (st (demo_file bs))"
  by (simp_all add: safe_owner_mode_def demo_dir_def demo_file_def append_node_def new_node_def fresh_stat_def
      demo_host_def)

lemma demo_types [simp]: "st_type (st demo_dir) = F_DIR" "st_type (st (demo_file bs)) = F_REG"
  "contents (demo_file bs) = bs"
  by (simp_all add: demo_dir_def demo_file_def append_node_def new_node_def fresh_stat_def)

lemma demo_regular: "regular_file demo_host (demo_file bs)"
  using demo_safe(2)[of bs]
  by (simp add: regular_file_def demo_file_def append_node_def new_node_def fresh_stat_def)

lemma demo_owner [simp]: "validate_safe_owner_mode demo_host (st demo_dir) label = Inr ()"
  using demo_safe(1) by (simp add: res_iff)

lemma demo_printable:
  "printable_dict demo_host demo_constants" "printable_dict demo_host demo_policy"
  "printable_dict demo_host demo_record"
  by (simp_all add: printable_dict_def demo_constants_def demo_policy_def demo_record_def base_record_def
      demo_args_def SCHEMA_VERSION_def FORBIDDEN_COMMAND_WORDS_def ascii_utf8_valid is_ascii_def ord_def
      show_nat.simps max_digits_def)

text \<open>The sizes of the stored texts, far below the limit.\<close>

lemma length_quote [simp]: "plain_text s \<Longrightarrow> length (quote_string s) = length s + 2"
  by (simp add: quote_plain)

lemma length_newline [simp]: "length (newline n) = 2 * n + 1"
  by (simp add: newline_def)

lemma length_shown [simp]: "length (show_int 4) = 1" "length (show_int 300) = 3" "length (show_int 900) = 3"
  "length (show_int 3800) = 4"
  by (simp_all add: show_int_def show_nat.simps)

lemmas demo_size_simps = stored_json_def SCHEMA_VERSION_def FORBIDDEN_COMMAND_WORDS_def plain_text_def ord_def
  MAX_JSON_BYTES_def

lemma demo_sizes:
  "length (stored_json demo_host (JObj demo_constants)) \<le> MAX_JSON_BYTES"
  "length (stored_json demo_host (JObj demo_policy)) \<le> MAX_JSON_BYTES"
  "length (stored_json demo_host (JObj demo_record)) \<le> MAX_JSON_BYTES"
  by (simp_all add: demo_size_simps demo_constants_def demo_policy_def demo_record_def base_record_def demo_args_def)

section \<open>Opening the demo files\<close>

lemma demo_category [simp]: "has_category_C demo_host s \<longleftrightarrow> list_ex (\<lambda>ch. case ch of [c] \<Rightarrow> ord c < 128 \<and> is_control c | _ \<Rightarrow> False) (chars s)"
proof -
  have "char_category_C demo_host ch \<longleftrightarrow> (case ch of [c] \<Rightarrow> ord c < 128 \<and> is_control c | _ \<Rightarrow> False)" for ch
    by (auto simp: char_category_C_def demo_host_def split: list.splits)
  then have "char_category_C demo_host = (\<lambda>ch. case ch of [c] \<Rightarrow> ord c < 128 \<and> is_control c | _ \<Rightarrow> False)"
    by (rule ext)
  then show ?thesis unfolding has_category_C_def by (rule arg_cong)
qed

lemmas demo_path_simps = open_repo_parent_def canonical_repo_relative_path_def Let_def comps_def
  posix_normpath_def is_control_def BS_def ord_def demo_tree_def

lemma demo_open:
  "open_repo_parent demo_host demo_tree (JStr constants_rel) label = Inr (butlast (comps constants_rel), last (comps constants_rel))"
  "open_repo_parent demo_host demo_tree (JStr policy_rel) label = Inr (butlast (comps policy_rel), last (comps policy_rel))"
  "open_repo_parent demo_host demo_tree (JStr active_rel) label = Inr (butlast (comps active_rel), last (comps active_rel))"
  by (simp_all add: demo_path_simps constants_rel_def policy_rel_def active_rel_def)

lemma demo_lookup [simp]:
  "demo_tree (comps constants_rel) = Some (demo_file (stored_json demo_host (JObj demo_constants)))"
  "demo_tree (comps policy_rel) = Some (demo_file (stored_json demo_host (JObj demo_policy)))"
  "demo_tree (comps active_rel) = Some (demo_file (stored_json demo_host (JObj demo_record)))"
  by (simp_all add: comps_def demo_tree_def constants_rel_def policy_rel_def active_rel_def)

lemma demo_json:
  "load_repo_json demo_host demo_tree constants_rel label = Inr (demo_constants, stored_json demo_host (JObj demo_constants))"
  "load_repo_json demo_host demo_tree policy_rel label = Inr (demo_policy, stored_json demo_host (JObj demo_policy))"
  "load_repo_json demo_host demo_tree active_rel label = Inr (demo_record, stored_json demo_host (JObj demo_record))"
  using load_stored_file[OF demo_open(1) demo_lookup(1) demo_regular _ _ demo_printable(1)]
    load_stored_file[OF demo_open(2) demo_lookup(2) demo_regular _ _ demo_printable(2)]
    load_stored_file[OF demo_open(3) demo_lookup(3) demo_regular _ _ demo_printable(3)] demo_sizes
  by simp_all

section \<open>The checks pass\<close>

lemma demo_load_constants: "load_constants demo_host demo_tree = Inr demo_constants"
proof -
  have "check_constants demo_constants = Inr ()"
    by (simp add: check_constants_def same_fields_def CONSTANTS_FIELDS_def demo_constants_def need_def
        same_string_set_def hashable_def unique_names_def nonempty_str_def positive_int_def py_eq_def
        SCHEMA_VERSION_def ops_of_tier_def OPERATIONS_def FORBIDDEN_COMMAND_WORDS_def insert_commute)
  then show ?thesis by (simp add: load_constants_def demo_json)
qed

lemmas demo_text_simps = validated_human_text_def nonempty_str_def py_strip_def py_len_def ascii_space_def
  is_control_def ord_def

lemma demo_policy_text:
  "validated_human_text demo_host (JStr ''2026-07-22.1'') label 4096 = Inr ''2026-07-22.1''"
  "validated_human_text demo_host (JStr ''ian'') label 4096 = Inr ''ian''"
  "validated_human_text demo_host (JStr ''standing'') label 4096 = Inr ''standing''"
  by (simp_all add: demo_text_simps chars_ascii is_ascii_def del: chars.simps)

lemma demo_scope:
  "check_scope (JObj [(''tier'', JStr ''volatile''), (''operation'', JStr ''device_reboot''),
          (''target'', JStr ''device'')]) = Inr ()"
  by (simp add: check_scope_def SCOPE_FIELDS_def lookup_operation_def hashable_def OPERATIONS_def need_def
      same_fields_def insert_commute)

lemma demo_load_policy:
  "load_policy demo_host demo_tree demo_constants =
     Inr (demo_policy, sha256 demo_host (stored_json demo_host (JObj demo_policy)))"
proof -
  have "same_fields demo_policy POLICY_FIELDS"
    by (simp add: same_fields_def POLICY_FIELDS_def demo_policy_def insert_commute)
  then have "check_policy demo_host demo_constants demo_policy = Inr ()"
    by (simp add: check_policy_def need_def)
      (simp add: demo_policy_def need_def py_eq_def SCHEMA_VERSION_def demo_policy_text demo_scope ex_bool_eq)
  then show ?thesis by (simp add: load_policy_def demo_json)
qed

lemma demo_forbidden: "check_forbidden [''fastboot'', ''reboot''] = Inr ()"
  by (simp add: check_forbidden_def FORBIDDEN_COMMAND_WORDS_def contains.simps need_def)

lemma demo_valid: "validate_record demo_host demo_constants demo_record = Inr ()"
  by (simp add: validate_record_def validate_common_def validate_action_def validate_artifact_def validate_gates_def
      validate_media_def validate_rollback_def validate_repeat_guard_def validate_receipt_def
      demo_record_def base_record_def demo_args_def demo_constants_def member_def TIERS_def need_def Let_def
      same_fields_def RECORD_FIELDS_ACTION_def RECORD_FIELDS_READ_ONLY_def ACTION_FIELDS_def GATES_FIELDS_def
      SCHEMA_VERSION_def py_eq_def nonblank_def positive_int_def experiment_id_ok_def id_start_def
      is_lower_def is_digit_def demo_text_simps lookup_operation_def hashable_def OPERATIONS_def
      build_exact_command_def demo_forbidden insert_commute)

section \<open>The claim goes through\<close>

definition demo_plan :: plan where
  "demo_plan = \<lparr>p_constants = demo_constants, p_policy = demo_policy,
     p_policy_sha = sha256 demo_host (stored_json demo_host (JObj demo_policy)), p_record = demo_record,
     p_digest = action_digest demo_host demo_record\<rparr>"

lemma demo_active_exists: "repo_entry_exists demo_host demo_tree active_rel label = Inr True"
  using demo_lookup(3) by (simp add: repo_entry_exists_def demo_open active_path_def)

lemma demo_guard_open:
  "open_repo_parent demo_host demo_tree (JStr (guard_path ''probe-1'')) label =
     Inr ([''notes'', ''bringup-claims''], ''probe-1.claim-guard.json'')"
  by (simp add: demo_path_simps guard_path_def)

lemma demo_record_fields [simp]:
  "fld demo_record ''tier'' = JStr ''volatile''" "fld demo_record ''status'' = JStr ''ready''"
  "fld demo_record ''experiment_id'' = JStr ''probe-1''"
  "fld (action_of demo_record) ''operation'' = JStr ''device_reboot''"
  "fld (action_of demo_record) ''target'' = JStr ''device''"
  "fld (action_of demo_record) ''artifact'' = JNull"
  "fld (action_of demo_record) ''exact_command'' = JArr (map JStr [''fastboot'', ''reboot''])"
  by (simp_all add: demo_record_def base_record_def demo_args_def action_of_def)

lemma demo_id_ok: "experiment_id_ok ''probe-1''"
  by (simp add: experiment_id_ok_def id_start_def is_lower_def is_digit_def ord_def)

lemma demo_guard_absent: "claim_guard_exists demo_host demo_tree ''probe-1'' = Inr False"
  by (simp add: claim_guard_exists_def claim_guard_rel_def demo_id_ok repo_entry_exists_def demo_guard_open)
    (simp add: demo_tree_def)

lemma demo_checks: "claim_checks demo_host demo_tree demo_policy demo_record = Inr ()"
  by (simp add: claim_checks_def Let_def need_def resolve_scope_def)
    (simp add: demo_policy_def)

lemma demo_plan_ok: "claim_plan demo_host demo_tree = Inr demo_plan"
  by (simp add: claim_plan_def demo_load_constants demo_load_policy load_active_def demo_active_exists demo_json
      demo_valid Let_def need_def demo_guard_absent demo_checks demo_plan_def)

lemma demo_dirs:
  "open_repo_parent demo_host demo_tree (JStr ''notes/bringup-claims'') label = Inr ([''notes''], ''bringup-claims'')"
  "open_repo_parent demo_host demo_tree (JStr ''notes/bringup-claims/.lock'') label =
     Inr ([''notes'', ''bringup-claims''], ''.lock'')"
  by (simp_all add: demo_path_simps)

lemma demo_file_opens: "open_existing_at demo_host t p label = Inr n \<longleftrightarrow> t p = Some n" if "t p = Some (demo_file bs)"
  using demo_safe(2)[of bs] that
  by (auto simp: open_existing_Inr demo_file_def append_node_def new_node_def fresh_stat_def)

lemma demo_lock: "governance_lock demo_host body demo_world = body demo_world"
proof -
  have "demo_tree [''notes'', ''bringup-claims''] = Some demo_dir"
    "demo_tree [''notes'', ''bringup-claims'', ''.lock''] = Some (demo_file [])"
    by (simp_all add: demo_tree_def)
  moreover from this(2) have "open_existing_at demo_host demo_tree [''notes'', ''bringup-claims'', ''.lock''] label =
      Inr (demo_file [])" for label using demo_file_opens by blast
  moreover have "validate_regular_stat demo_host (st (demo_file [])) label = Inr ()" for label
    using demo_regular[of "[]"] by (simp add: regular_stat_Inr regular_file_def)
  ultimately show ?thesis
    by (simp add: governance_lock_def ensure_repo_directory_def bindI_def readI_def sys_create_def demo_world_def
        demo_dirs open_or_create_def liftI_def)
qed

lemma demo_hash_active:
  "hash_repo_regular_file demo_host demo_tree (JStr active_rel) label =
     Inr (active_rel, sha256 demo_host (stored_json demo_host (JObj demo_record)), length (stored_json demo_host (JObj demo_record)))"
  using hash_file_ok[OF demo_open(3) demo_lookup(3) demo_regular] by simp

definition demo_receipt :: dict where
  "demo_receipt = [(''issued_at'', JStr ''2026-07-29T10:00:00Z''), (''expires_at'', JStr ''2026-07-29T10:15:00Z''),
     (''consumed_at'', JStr ''2026-07-29T10:00:00Z''), (''authority'', JStr ''standing-policy''),
     (''policy_revision'', fld demo_policy ''revision''), (''policy_sha256'', JStr (p_policy_sha demo_plan)),
     (''action_digest'', JStr (p_digest demo_plan))]"

lemma demo_receipt_ok:
  "receipt_of demo_host demo_time (p_constants demo_plan) (p_policy demo_plan) (p_policy_sha demo_plan) (p_digest demo_plan) =
     Inr demo_receipt"
  by (simp add: receipt_of_def demo_time_def demo_receipt_def demo_plan_def) (simp add: demo_constants_def)

text \<open>No fault: every system call does what it should.\<close>

lemma syscall_fine: "faults w = [] \<Longrightarrow> syscall g w = (Inr (), w\<lparr>files := g (clock w) (files w), clock := clock w + 1\<rparr>)"
  by (simp add: syscall_def next_fault_def)

lemma sys_write_fine: "faults w = [] \<Longrightarrow> sys_write p data w =
    (Inr (), w\<lparr>files := update_node p (append_node data (clock w)) (files w), clock := clock w + 1\<rparr>)"
  by (simp add: sys_write_def next_fault_def)

lemma sys_create_fine: "faults w = [] \<Longrightarrow> files w p = None \<Longrightarrow> sys_create h p ty perm w =
    (Inr (), w\<lparr>files := (files w)(p \<mapsto> new_node h ty perm (clock w)), clock := clock w + 1\<rparr>)"
  by (simp add: sys_create_def syscall_fine)

lemmas fine_simps = syscall_fine sys_write_fine sys_create_fine sys_sync_def bindI_def readI_def liftI_def

definition demo_guarded :: tree where
  "demo_guarded = (\<lambda>p. if p = guard_file ''probe-1'' then Some (append_node (canonical demo_host (JObj
         [(''schema_version'', JInt 1), (''experiment_id'', JStr ''probe-1''),
          (''action_digest'', JStr (p_digest demo_plan)), (''receipt'', JObj demo_receipt)]) @ [LF]) 3
       (new_node demo_host F_REG 384 2)) else demo_tree p)"

lemma demo_write_guard:
  "write_claim_guard demo_host ''probe-1'' demo_receipt (p_digest demo_plan) demo_world =
     (Inr (), \<lparr>files = demo_guarded, faults = [], clock = 6\<rparr>)"
proof -
  have "demo_tree (guard_file ''probe-1'') = None" by (simp add: guard_file_def demo_tree_def)
  then show ?thesis
    by (simp add: write_claim_guard_def claim_guard_rel_def demo_id_ok demo_guard_open fine_simps create_guard_def
        demo_world_def guard_file_def demo_guarded_def update_node_def fun_eq_iff)
qed

definition demo_ledgered :: tree where
  "demo_ledgered = (\<lambda>p. if p = ledger_path then Some (append_node (ledger_line demo_host demo_record demo_receipt (p_digest demo_plan) @ [LF]) 7
       (new_node demo_host F_REG 384 6)) else demo_guarded p)"

lemma demo_ledger_open:
  "open_repo_parent demo_host demo_guarded (JStr ledger_rel) label = Inr ([''notes'', ''bringup-claims''], ''claims.log'')"
  by (simp add: demo_path_simps demo_guarded_def guard_file_def ledger_rel_def claims_dir_rel_def)

lemma demo_append:
  "append_ledger_line demo_host (ledger_line demo_host demo_record demo_receipt (p_digest demo_plan))
     \<lparr>files = demo_guarded, faults = [], clock = 6\<rparr> = (Inr (), \<lparr>files = demo_ledgered, faults = [], clock = 10\<rparr>)"
proof -
  have "demo_guarded ledger_path = None"
    by (simp add: demo_guarded_def guard_file_def demo_tree_def ledger_path_def)
  then show ?thesis
    by (simp add: append_ledger_line_def demo_ledger_open fine_simps open_or_create_def ledger_path_def
        demo_ledgered_def update_node_def fun_eq_iff)
qed

lemma demo_active_open:
  "open_repo_parent demo_host demo_ledgered (JStr active_rel) label = Inr ([''notes''], ''bringup-active.json'')"
  by (simp add: demo_path_simps demo_ledgered_def demo_guarded_def guard_file_def ledger_path_def active_rel_def)

lemma demo_rewrite:
  "fst (atomic_write_repo_json demo_host demo_tmp active_rel d
     (Some (sha256 demo_host (stored_json demo_host (JObj demo_record)))) False
     \<lparr>files = demo_ledgered, faults = [], clock = 10\<rparr>) = Inr ()"
proof -
  let ?f = "demo_file (stored_json demo_host (JObj demo_record))"
  have 1: "demo_ledgered [''notes'', ''bringup-active.json''] = Some ?f"
    "demo_ledgered [''notes'', demo_tmp] = None"
    by (simp_all add: demo_ledgered_def demo_guarded_def guard_file_def ledger_path_def demo_tree_def demo_tmp_def)
  have 2: "open_existing_at demo_host t [''notes'', ''bringup-active.json''] label = Inr ?f"
    if "t [''notes'', ''bringup-active.json''] = Some ?f" for t label
    using demo_file_opens[of t "[''notes'', ''bringup-active.json'']" _ label ?f] that by blast
  have 3: "demo_tmp \<noteq> ''bringup-active.json''" "''bringup-active.json'' \<noteq> demo_tmp" by (simp_all add: demo_tmp_def)
  show ?thesis
    by (simp add: atomic_write_repo_json_def demo_active_open fine_simps existing_destination_def 1 2 3
        check_destination_def replace_file_def Let_def on_error_def sys_chmod_own_def sys_rename_def
        update_node_def)
qed

lemma demo_claimed:
  "\<exists>w'. cmd_claim demo_host demo_time demo_tmp False demo_world =
     (Inr (Claimed ''probe-1'' (action_digest demo_host demo_record) [''fastboot'', ''reboot'']), w')"
proof -
  have "fst (claim_commit demo_host demo_time demo_tmp demo_plan demo_world) = Inr ()"
  proof -
    have f: "files demo_world = demo_tree" by (simp add: demo_world_def)
    have i: "str_val (fld (p_record demo_plan) ''experiment_id'') = ''probe-1''" "p_record demo_plan = demo_record"
      by (simp_all add: demo_plan_def)
    show ?thesis
      unfolding claim_commit_def bindI_def demo_receipt_ok liftI_def readI_def f demo_hash_active i
      using demo_write_guard demo_append demo_hash_active f
        demo_rewrite[of "dict_set (dict_set demo_record ''status'' (JStr ''claimed'')) ''receipt'' (JObj demo_receipt)"]
      by (auto simp: map_error_def bindI_def split: prod.splits sum.splits)
  qed
  then obtain w' where "claim_commit demo_host demo_time demo_tmp demo_plan demo_world = (Inr (), w')"
    by (metis prod.collapse)
  then have "cmd_claim demo_host demo_time demo_tmp False demo_world =
     (Inr (Claimed ''probe-1'' (action_digest demo_host demo_record) [''fastboot'', ''reboot'']), w')"
    unfolding cmd_claim_def demo_lock
    using demo_plan_ok by (simp add: bindI_def readI_def retI_def demo_world_def) (simp add: demo_plan_def)
  then show ?thesis by blast
qed

end
