(* ===== verification/EffectSpec.thy ===== *)
theory EffectSpec
  imports StoreSpec
begin

text \<open>
  What the other commands leave behind: \<open>new\<close>, \<open>result\<close>, \<open>observe\<close>, \<open>archive\<close> and
  \<open>authorize-profile\<close>, the refusals of a partial claim, the ledger over a whole run,
  and the paths that a command can reach.
\<close>

section \<open>The status machine of the active record\<close>

lemma base_fields:
  "fld (base_record a tier @ rest) ''status'' = JStr ''ready''"
  "fld (base_record a tier @ rest) ''experiment_id'' = JStr (a_experiment_id a)"
  "fld (base_record a tier @ rest) ''observations'' = JArr []"
  by (simp_all add: base_record_def fld_def)

lemma new_record_fields:
  assumes "new_record h t c a = Inr r"
  shows "fld r ''status'' = JStr ''ready'' \<and> fld r ''experiment_id'' = JStr (a_experiment_id a) \<and>
     fld r ''observations'' = JArr []"
proof (cases "a_operation a")
  case None
  then have "r = base_record a ''read_only'' @ []" using assms by (simp add: new_record_def)
  then show ?thesis using base_fields by metis
next
  case (Some op)
  with assms obtain tier rest where "r = base_record a tier @ rest"
    by (auto simp: new_record_def res_iff split: option.splits)
  then show ?thesis using base_fields by simp
qed

lemma entry_absent:
  assumes "repo_entry_exists h t rel label = Inr False"
  shows "t (comps rel) = None"
proof -
  from assms obtain dir leaf where p: "open_repo_parent h t (JStr rel) label = Inr (dir, leaf)"
    and n: "t (dir @ [leaf]) = None"
    by (auto simp: repo_entry_exists_def res_iff split: option.splits if_splits)
  with open_repo_parent_path[OF p] show ?thesis by simp
qed

lemma frame_active: "frame {claims_dir, lock_path} t u \<Longrightarrow> u active_path = t active_path"
  by (auto simp: frame_def active_path_def claims_dir_def lock_path_def)

lemma plan_new_Inr:
  assumes "plan_new h t a = Inr r"
  shows "t active_path = None \<and> (\<exists>c. load_constants h t = Inr c \<and> validate_record h c r = Inr ()) \<and>
     fld r ''status'' = JStr ''ready'' \<and> fld r ''experiment_id'' = JStr (a_experiment_id a) \<and>
     fld r ''observations'' = JArr []"
proof -
  from assms obtain c where c: "load_constants h t = Inr c"
    and ex: "repo_entry_exists h t active_rel ''active record'' = Inr False"
    and n: "new_record h t c a = Inr r" and v: "validate_record h c r = Inr ()"
    unfolding plan_new_def by (auto simp: res_iff)
  from entry_absent[OF ex] have "t active_path = None" by simp
  with new_record_fields[OF n] c v show ?thesis by blast
qed

lemma new_effect:
  assumes "cmd_new h tmp a w = (Inr ans, w')" "tmp_name tmp"
  shows "\<exists>r n t. frame {claims_dir, lock_path} (files w) t \<and> plan_new h t a = Inr r \<and>
     files w active_path = None \<and> files w' active_path = Some n \<and>
     contents n = stored_json h (JObj r) \<and> st_type (st n) = F_REG"
proof -
  from lock_Inr[OF assms(1)[unfolded cmd_new_def]] obtain w1 where
    b: "bindI (readI (\<lambda>t. plan_new h t a)) (\<lambda>r.
        bindI (atomic_write_repo_json h tmp active_rel r None True) (\<lambda>_. retI Done)) w1 = (Inr ans, w')"
    and f: "frame {claims_dir, lock_path} (files w) (files w1)" by blast
  from b obtain r where r: "plan_new h (files w1) a = Inr r"
    and wr: "atomic_write_repo_json h tmp active_rel r None True w1 = (Inr (), w')"
    by (auto simp: io_iff)
  from atomic_write_Inr[OF wr tmp_not_active[OF assms(2)]] obtain n where
    "files w' active_path = Some n" "contents n = stored_json h (JObj r)" "st_type (st n) = F_REG" by auto
  with plan_new_Inr[OF r] r f frame_active[OF f] show ?thesis by auto
qed

lemma plan_result_Inr:
  assumes "plan_result h tm t outcome ev note = Inr (r', sha)"
  shows "\<exists>c r res. load_active h t c = Inr r \<and>
     fld r ''status'' = JStr (if fld r ''tier'' = JStr ''read_only'' then ''ready'' else ''claimed'') \<and>
     r' = dict_set (dict_set r ''result'' (JObj res)) ''status'' (JStr ''completed'') \<and>
     fld res ''outcome'' = JStr outcome \<and>
     (\<exists>p data n. fld res ''evidence'' = JStr p \<and> t (comps p) = Some n \<and>
        fld res ''evidence_sha256'' = JStr (sha256 h data) \<and> has_route_status data \<and>
        length (comps p) = 2 \<and> comps p ! 0 = logs_dir_rel \<and> suffix ''.txt'' (comps p ! 1))"
proof -
  from assms obtain c r evidence p data act now where
    1: "load_active h t c = Inr r"
    "(if fld r ''tier'' = JStr ''read_only''
            then need (fld r ''status'' = JStr ''ready'') ''read_only record already carries a result''
            else need (fld r ''status'' = JStr ''claimed'') ''result requires a claimed record'') = Inr ()" and
    2: "need (length (comps evidence) = 2 \<and> comps evidence ! 0 = logs_dir_rel \<and>
                  suffix ''.txt'' (comps evidence ! 1))
              ''evidence must be a top-level .txt file under logs/'' = Inr ()" and
    3: "read_repo_regular_file h t (JStr evidence) ''evidence'' MAX_LEDGER_BYTES = Inr (p, data)" and
    4: "has_route_status data" and
    5: "r' = dict_set (dict_set r ''result'' (JObj
            [(''outcome'', JStr outcome), (''evidence'', JStr evidence),
             (''evidence_sha256'', JStr (sha256 h data)), (''recorded_at'', JStr now),
             (''note'', opt_str note)])) ''status'' (JStr ''completed'')"
    unfolding plan_result_def by (auto simp: res_iff)
  from 3 obtain q n where "open_repo_regular_file h t (JStr evidence) ''evidence'' = Inr (q, n)"
    unfolding read_repo_regular_file_def by (auto simp: res_iff)
  from open_regular_Inr[OF this] have "t (comps evidence) = Some n" by simp
  with 1 2 4 5 show ?thesis
    by (intro exI[of _ c] exI[of _ r] exI[of _ "[(''outcome'', JStr outcome), (''evidence'', JStr evidence),
             (''evidence_sha256'', JStr (sha256 h data)), (''recorded_at'', JStr now), (''note'', opt_str note)]"])
      (auto simp: need_def fld_def split: if_splits)
qed

lemma rewrite_active:
  assumes "atomic_write_repo_json h tmp active_rel r (Some sha) False w1 = (Inr (), w')" "tmp_name tmp"
  shows "\<exists>n. files w' active_path = Some n \<and> contents n = stored_json h (JObj r) \<and>
     (\<forall>q. q \<noteq> active_path \<longrightarrow> q \<noteq> butlast active_path @ [tmp] \<longrightarrow> files w' q = files w1 q)"
  using atomic_write_Inr[OF assms(1) tmp_not_active[OF assms(2)]] by auto

lemma result_effect:
  assumes "cmd_result h tm tmp outcome ev note w = (Inr ans, w')" "tmp_name tmp"
  shows "\<exists>t r' sha n. frame {claims_dir, lock_path} (files w) t \<and>
     plan_result h tm t outcome ev note = Inr (r', sha) \<and>
     files w' active_path = Some n \<and> contents n = stored_json h (JObj r')"
proof -
  from lock_Inr[OF assms(1)[unfolded cmd_result_def]] obtain w1 where
    b: "bindI (readI (\<lambda>t. plan_result h tm t outcome ev note)) (\<lambda>(r, active_sha256).
        bindI (atomic_write_repo_json h tmp active_rel r (Some active_sha256) False) (\<lambda>_. retI Done)) w1 = (Inr ans, w')"
    and f: "frame {claims_dir, lock_path} (files w) (files w1)" by blast
  from b obtain r sha where r: "plan_result h tm (files w1) outcome ev note = Inr (r, sha)"
    and wr: "atomic_write_repo_json h tmp active_rel r (Some sha) False w1 = (Inr (), w')"
    by (auto simp: io_iff)
  from rewrite_active[OF wr assms(2)] r f show ?thesis by blast
qed

lemma plan_observe_Inr:
  assumes "plan_observe h tm t note = Inr (r', sha)"
  shows "\<exists>c r now. load_active h t c = Inr r \<and> tm 0 = Inr now \<and>
     r' = dict_set r ''observations'' (JArr (arr_val (fld r ''observations'') @
            [JObj [(''at'', JStr now), (''note'', JStr note)]]))"
  using assms unfolding plan_observe_def by (auto simp: res_iff)

lemma observe_effect:
  assumes "cmd_observe h tm tmp note w = (Inr ans, w')" "tmp_name tmp"
  shows "\<exists>t r' sha n. frame {claims_dir, lock_path} (files w) t \<and>
     plan_observe h tm t note = Inr (r', sha) \<and>
     files w' active_path = Some n \<and> contents n = stored_json h (JObj r')"
proof -
  from lock_Inr[OF assms(1)[unfolded cmd_observe_def]] obtain w1 where
    b: "bindI (readI (\<lambda>t. plan_observe h tm t note)) (\<lambda>(r, active_sha256).
        bindI (atomic_write_repo_json h tmp active_rel r (Some active_sha256) False) (\<lambda>_. retI Done)) w1 = (Inr ans, w')"
    and f: "frame {claims_dir, lock_path} (files w) (files w1)" by blast
  from b obtain r sha where r: "plan_observe h tm (files w1) note = Inr (r, sha)"
    and wr: "atomic_write_repo_json h tmp active_rel r (Some sha) False w1 = (Inr (), w')"
    by (auto simp: io_iff)
  from rewrite_active[OF wr assms(2)] r f show ?thesis by blast
qed

lemma sys_unlink_Inr: "sys_unlink p w = (Inr (), w') \<Longrightarrow> files w' = (files w)(p := None)"
  by (auto simp: sys_unlink_def dest!: syscall_Inr)

lemma unlink_Inr:
  assumes "unlink_repo_regular_file h rel label w = (Inr (), w')"
  shows "files w' = (files w)(comps rel := None)"
proof -
  from assms obtain dir leaf w1 where p: "open_repo_parent h (files w) (JStr rel) label = Inr (dir, leaf)"
    and u: "sys_unlink (dir @ [leaf]) w = (Inr (), w1)" and s: "sys_sync w1 = (Inr (), w')"
    unfolding unlink_repo_regular_file_def by (auto simp: io_iff)
  from open_repo_parent_path[OF p] have "dir @ [leaf] = comps rel" by simp
  with sys_unlink_Inr[OF u] sys_sync_Inr[OF s] show ?thesis by simp
qed

lemma plan_archive_Inr:
  "plan_archive h t = Inr r \<Longrightarrow> (\<exists>c. load_active h t c = Inr r) \<and> fld r ''status'' = JStr ''completed'' \<and>
     experiment_id_ok (str_val (fld r ''experiment_id''))"
  unfolding plan_archive_def by (auto simp: res_iff dest: load_active_valid valid_experiment_id)

lemma archive_tmp: "tmp_name tmp \<Longrightarrow> experiment_id_ok i \<Longrightarrow>
    comps (archive_path i) \<noteq> butlast (comps (archive_path i)) @ [tmp]"
  using archive_file_tmp[of completed_dir i tmp] archive_parent by (simp add: archive_comps)

lemma archive_effect:
  assumes "cmd_archive h tmp w = (Inr ans, w')" "tmp_name tmp"
  shows "\<exists>t r n. frame {claims_dir, lock_path} (files w) t \<and> plan_archive h t = Inr r \<and>
     (let a = archive_file (str_val (fld r ''experiment_id'')) in
        files w a = None \<and> files w' a = Some n \<and> contents n = stored_json h (JObj r)) \<and>
     files w' active_path = None"
proof -
  from lock_Inr[OF assms(1)[unfolded cmd_archive_def]] obtain w1 where
    f: "frame {claims_dir, lock_path} (files w) (files w1)" and
    b: "bindI (readI (plan_archive h)) (\<lambda>r.
        bindI (ensure_repo_directory h completed_dir_rel ''completed records directory'') (\<lambda>_.
          (let dst = archive_path (str_val (fld r ''experiment_id'')) in
           bindI (readI (\<lambda>t. bindE (repo_entry_exists h t dst ''archive destination'') (\<lambda>ex.
                    need (\<not> ex) ''archive destination already exists''))) (\<lambda>_.
           bindI (atomic_write_repo_json h tmp dst r None True) (\<lambda>_.
           bindI (unlink_repo_regular_file h active_rel ''active record'') (\<lambda>_.
           retI Done)))))) w1 = (Inr ans, w')" by blast
  from b obtain r w2 w3 where r: "plan_archive h (files w1) = Inr r"
    and e: "ensure_repo_directory h completed_dir_rel ''completed records directory'' w1 = (Inr (), w2)"
    and x: "repo_entry_exists h (files w2) (archive_path (str_val (fld r ''experiment_id''))) ''archive destination'' = Inr False"
    and wr: "atomic_write_repo_json h tmp (archive_path (str_val (fld r ''experiment_id''))) r None True w2 = (Inr (), w3)"
    and u: "unlink_repo_regular_file h active_rel ''active record'' w3 = (Inr (), w')"
    by (auto simp: io_iff Let_def res_iff)
  define i where "i = str_val (fld r ''experiment_id'')"
  have ok: "experiment_id_ok i" using plan_archive_Inr[OF r] by (simp add: i_def)
  from atomic_write_Inr[OF wr] archive_tmp[OF assms(2) ok] obtain n where
    n: "files w3 (archive_file i) = Some n" "contents n = stored_json h (JObj r)"
    by (auto simp: i_def[symmetric] archive_comps[OF ok])
  have "frame {completed_dir} (files w1) (files w2)"
    by (rule tracksD[OF fr.tracks_ensure_directory e]) simp
  then have "files w2 (archive_file i) = files w1 (archive_file i)"
    using archive_file_other(2)[of i] by (simp add: frame_def)
  moreover have "files w1 (archive_file i) = files w (archive_file i)"
    using f archive_file_other(1,3)[of i] by (simp add: frame_def)
  moreover have "files w2 (archive_file i) = None"
    using entry_absent[OF x] by (simp add: i_def[symmetric] archive_comps[OF ok])
  moreover have "files w' = (files w3)(active_path := None)" using unlink_Inr[OF u] by simp
  ultimately show ?thesis
    using n f r archive_file_other(4)[of i] by (intro exI[of _ "files w1"] exI[of _ r] exI[of _ n]) (auto simp: i_def Let_def)
qed

section \<open>Authorization\<close>

lemma recheck_Inr:
  assumes "authorize_recheck h gits t rel target v = Inr (c, p', psha)"
  shows "\<exists>p. load_policy h t c = Inr (p, psha) \<and> psha = v_policy_sha v \<and> t active_path = None \<and>
     find_authorized_profile p (profile_path (v_profile v)) = None \<and>
     p' = dict_set (dict_set p ''revision'' (JStr (v_revision v))) ''authorized_profiles''
            (JArr (arr_val (fld p ''authorized_profiles'') @ [authorized_entry p v target]))"
proof -
  from assms obtain p where p: "load_policy h t c = Inr (p, psha)" "psha = v_policy_sha v"
    and ex: "repo_entry_exists h t active_rel ''active record'' = Inr False"
    and rest: "find_authorized_profile p (profile_path (v_profile v)) = None"
     "p' = dict_set (dict_set p ''revision'' (JStr (v_revision v))) ''authorized_profiles''
            (JArr (arr_val (fld p ''authorized_profiles'') @ [authorized_entry p v target]))"
    unfolding authorize_recheck_def by (auto simp: res_iff)
  from entry_absent[OF ex] have "t active_path = None" by simp
  with p rest show ?thesis by blast
qed

lemma tmp_not_policy: "tmp_name tmp \<Longrightarrow> comps policy_rel \<noteq> butlast (comps policy_rel) @ [tmp]"
  by (auto simp: policy_path_def tmp_name_def)

lemma authorize_effect:
  assumes "cmd_authorize_profile h tm tmp gits btw tty typed pa target nt w = (Inr (Authorized rv), w')"
    "tmp_name tmp"
  shows "\<exists>v t c p psha n. authorize_preview h tm gits (files w) pa target nt = Inr (Some v) \<and> v_revision v = rv \<and>
     tty \<and> typed = Some (confirmation_text v) \<and>
     frame {claims_dir, lock_path} (btw (files w)) t \<and> load_policy h t c = Inr (p, psha) \<and>
     psha = v_policy_sha v \<and> t active_path = None \<and>
     find_authorized_profile p (profile_path (v_profile v)) = None \<and>
     files w' policy_path = Some n \<and>
     contents n = stored_json h (JObj (dict_set (dict_set p ''revision'' (JStr rv)) ''authorized_profiles''
            (JArr (arr_val (fld p ''authorized_profiles'') @ [authorized_entry p v target]))))"
proof -
  let ?w1 = "w\<lparr>files := btw (files w)\<rparr>"
  from assms(1) obtain v where v: "authorize_preview h tm gits (files w) pa target nt = Inr (Some v)"
    and cf: "confirm_authorization tty typed (confirmation_text v) = Inr ()"
    and b: "governance_lock h
              (bindI (readI (\<lambda>t. authorize_recheck h gits t pa target v)) (\<lambda>(c, p, psha).
               bindI (atomic_write_repo_json h tmp policy_rel p (Some psha) False) (\<lambda>_.
               bindI (readI (\<lambda>t. load_policy h t c)) (\<lambda>_.
               retI (Authorized (v_revision v)))))) ?w1 = (Inr (Authorized rv), w')"
    unfolding cmd_authorize_profile_def by (auto simp: io_iff split: option.splits)
  from lock_Inr[OF b] obtain w2 where f: "frame {claims_dir, lock_path} (btw (files w)) (files w2)"
    and b2: "bindI (readI (\<lambda>t. authorize_recheck h gits t pa target v)) (\<lambda>(c, p, psha).
               bindI (atomic_write_repo_json h tmp policy_rel p (Some psha) False) (\<lambda>_.
               bindI (readI (\<lambda>t. load_policy h t c)) (\<lambda>_.
               retI (Authorized (v_revision v))))) w2 = (Inr (Authorized rv), w')" by auto
  from b2 obtain c p' psha w3 where rc: "authorize_recheck h gits (files w2) pa target v = Inr (c, p', psha)"
    and wr: "atomic_write_repo_json h tmp policy_rel p' (Some psha) False w2 = (Inr (), w3)"
    and rv: "v_revision v = rv" and w3: "w' = w3"
    by (auto simp: io_iff)
  from atomic_write_Inr[OF wr tmp_not_policy[OF assms(2)]] obtain n where
    n: "files w' policy_path = Some n" "contents n = stored_json h (JObj p')" by (auto simp: w3)
  have t: "tty \<and> typed = Some (confirmation_text v)"
    using cf by (auto simp: confirm_authorization_def res_iff split: if_splits option.splits)
  from recheck_Inr[OF rc] n f v rv t show ?thesis by blast
qed

section \<open>Partial claims\<close>

text \<open>
  Every change a claim makes to the ledger or to the active record comes after the guard
  exists, so a claim that breaks off can leave a guard too many but never one too few.
\<close>

lemma bindI_cases:
  assumes "bindI m f w = (r, w')"
  obtains e where "m w = (Inl e, w')" "r = Inl e" | x w1 where "m w = (Inr x, w1)" "f x w1 = (r, w')"
  using assms unfolding bindI_def by (auto split: prod.splits sum.splits)

lemma readI_cases: "readI q w = (r, w') \<Longrightarrow> w' = w \<and> r = q (files w)"
  by (auto simp: readI_def)

lemma liftI_cases: "liftI x w = (r, w') \<Longrightarrow> w' = w \<and> r = x"
  by (auto simp: liftI_def)

lemma frame_trans: "frame S t u \<Longrightarrow> frame S u v \<Longrightarrow> frame S t v"
  by (simp add: frame_def)

lemma lock_cases:
  assumes "governance_lock h body w = (r, w')"
  shows "frame {claims_dir, lock_path} (files w) (files w') \<or>
     (\<exists>w1. frame {claims_dir, lock_path} (files w) (files w1) \<and> body w1 = (r, w'))"
proof -
  let ?F = "frame {claims_dir, lock_path}" and ?rel = "''notes/bringup-claims/.lock''"
  let ?k3 = "\<lambda>dl::path \<times> string. \<lambda>_::unit. bindI (readI (\<lambda>t. open_existing_at h t (fst dl @ [snd dl]) ''governance lock'')) (\<lambda>_. body)"
  let ?k2 = "\<lambda>dl::path \<times> string. bindI (open_or_create h (fst dl @ [snd dl]) ''governance lock'') (?k3 dl)"
  let ?k1 = "\<lambda>_::unit. bindI (readI (\<lambda>t. open_repo_parent h t (JStr ?rel) ''governance lock'')) ?k2"
  have ed: "tracks ?F (ensure_repo_directory h ''notes/bringup-claims'' ''claims directory'')"
    by (rule fr.tracks_ensure_directory) simp
  have "bindI (ensure_repo_directory h ''notes/bringup-claims'' ''claims directory'') ?k1 w = (r, w')"
    using assms unfolding governance_lock_def prod.case_eq_if .
  then show ?thesis
  proof (cases rule: bindI_cases)
    case (1 e)
    from tracksD[OF ed 1(1)] show ?thesis by blast
  next
    case (2 u w1)
    have f1: "?F (files w) (files w1)" by (rule tracksD[OF ed 2(1)])
    from 2(2) show ?thesis
    proof (cases rule: bindI_cases)
      case (1 e)
      with f1 show ?thesis using readI_cases[OF 1(1)] by blast
    next
      case B: (2 dl w2)
      have w2: "w2 = w1" and p: "open_repo_parent h (files w1) (JStr ?rel) ''governance lock'' = Inr dl"
        using readI_cases[OF B(1)] by auto
      have dl: "fst dl @ [snd dl] = lock_path"
        using open_repo_parent_path[of h "files w1" ?rel _ "fst dl" "snd dl"] p by (simp flip: fixed_paths)
      have oc: "tracks ?F (open_or_create h lock_path ''governance lock'')"
        by (rule fr.tracks_open_or_create) simp
      from B(2) show ?thesis unfolding dl
      proof (cases rule: bindI_cases)
        case (1 e)
        with f1 w2 tracksD[OF oc 1(1)] show ?thesis by (auto intro: frame_trans)
      next
        case C: (2 v w3)
        have f3: "?F (files w) (files w3)" using f1 w2 tracksD[OF oc C(1)] by (auto intro: frame_trans)
        from C(2) show ?thesis
          by (cases rule: bindI_cases) (use f3 readI_cases in \<open>blast+\<close>)
      qed
    qed
  qed
qed

lemma write_guard_made:
  assumes "write_claim_guard h i receipt d w = (Inr (), w1)"
  shows "files w1 (guard_file i) \<noteq> None"
proof -
  have ok: "experiment_id_ok i"
    using assms unfolding write_claim_guard_def claim_guard_rel_def by (auto simp: io_iff split: if_splits)
  from assms obtain dir leaf w0 where p: "open_repo_parent h (files w) (JStr (guard_path i)) ''claim replay guard'' = Inr (dir, leaf)"
    and cg: "create_guard h (dir @ [leaf]) w = (Inr (), w0)"
    and tl: "bindI (sys_write (dir @ [leaf]) (canonical h (JObj
         [(''schema_version'', JInt 1), (''experiment_id'', JStr i),
          (''action_digest'', JStr d), (''receipt'', JObj receipt)]) @ [LF])) (\<lambda>_.
     bindI sys_sync (\<lambda>_. sys_sync)) w0 = (Inr (), w1)" (is "?tail w0 = _")
    unfolding write_claim_guard_def claim_guard_rel_def using ok
    by (auto simp: io_iff bind_lift_Inr)
  have d: "dir @ [leaf] = guard_file i"
    using open_repo_parent_path[OF p] by (simp add: guard_comps[OF ok] guard_file_def)
  have "tracks (guard_kept i) ?tail"
    by (intro gk.tracks_bind gk.tracks_write gk.tracks_sync) simp
  then have "guard_kept i (files w0) (files w1)" using tl by (rule tracksD)
  then show ?thesis using create_guard_Inr[OF cg] d by (auto simp: guard_kept_def)
qed

lemma partial_claim:
  assumes c: "cmd_claim h tm tmp False w = (r, w')"
    and changed: "files w' ledger_path \<noteq> files w ledger_path \<or> files w' active_path \<noteq> files w active_path"
  shows "\<exists>t pl i. frame {claims_dir, lock_path} (files w) t \<and> claim_plan h t = Inr pl \<and>
     i = str_val (fld (p_record pl) ''experiment_id'') \<and>
     files w (guard_file i) = None \<and> files w' (guard_file i) \<noteq> None"
proof -
  have no: "\<not> frame S (files w) (files w')" if "ledger_path \<notin> S" "active_path \<notin> S" for S
    using that changed by (auto simp: frame_def)
  have nl: "\<not> frame {claims_dir, lock_path} (files w) (files w')"
    by (rule no) (simp_all add: ledger_path_def active_path_def claims_dir_def lock_path_def)
  from lock_cases[OF c[unfolded cmd_claim_def]] nl obtain w1 where
    f1: "frame {claims_dir, lock_path} (files w) (files w1)" and
    b: "bindI (readI (claim_plan h)) (\<lambda>pl. if False then retI (Preflight (p_digest pl))
          else bindI (claim_commit h tm tmp pl) (\<lambda>_.
               retI (Claimed (str_val (fld (p_record pl) ''experiment_id'')) (p_digest pl)
                 (map str_val (arr_val (fld (action_of (p_record pl)) ''exact_command'')))))) w1 = (r, w')" by blast
  from b obtain pl where pl: "claim_plan h (files w1) = Inr pl"
    and cm: "files w' = files (snd (claim_commit h tm tmp pl w1))"
    using f1 nl
    by (auto simp: bindI_def readI_def retI_def split: prod.splits sum.splits if_splits)
  define i where "i = str_val (fld (p_record pl) ''experiment_id'')"
  have ok: "experiment_id_ok i" using plan_id[OF pl] by (simp add: i_def)
  have none: "files w (guard_file i) = None"
    using plan_guard_absent[OF pl] f1 guard_file_other(1,3)[of i] by (simp add: i_def frame_def)
  let ?wg = "\<lambda>receipt. write_claim_guard h i receipt (p_digest pl)"
  let ?tail = "\<lambda>receipt sha. map_error (\<lambda>_. Refusal ''claim transaction did not fully commit'')
       (bindI (append_ledger_line h (ledger_line h (p_record pl) receipt (p_digest pl))) (\<lambda>_.
        atomic_write_repo_json h tmp active_rel
          (dict_set (dict_set (p_record pl) ''status'' (JStr ''claimed'')) ''receipt'' (JObj receipt))
          (Some sha) False))"
  have untouched: "files w' \<noteq> files w1" using f1 nl by auto
  obtain receipt sha where bd: "files w' = files (snd (bindI (?wg receipt) (\<lambda>_. ?tail receipt sha) w1))"
  proof (cases "receipt_of h tm (p_constants pl) (p_policy pl) (p_policy_sha pl) (p_digest pl)")
    case (Inl e)
    with cm untouched show ?thesis by (simp add: claim_commit_def bindI_def liftI_def)
  next
    case R: (Inr receipt)
    show ?thesis
    proof (cases "hash_repo_regular_file h (files w1) (JStr active_rel) ''active record''")
      case (Inl e)
      with R cm untouched show ?thesis by (simp add: claim_commit_def bindI_def liftI_def readI_def)
    next
      case (Inr x)
      obtain p sha n where x: "x = (p, sha, n)" by (cases x) auto
      from cm have "files w' = files (snd (bindI (?wg receipt) (\<lambda>_. ?tail receipt sha) w1))"
        unfolding claim_commit_def R bind_lift_Inr i_def[symmetric]
          bind_read_Inr[where q = "\<lambda>t. hash_repo_regular_file h t (JStr active_rel) ''active record''", OF Inr] x prod.case .
      then show ?thesis by (rule that)
    qed
  qed
  have wgf: "tracks (frame {guard_file i}) (?wg receipt)" by (rule fr.tracks_write_guard) simp_all
  obtain g w2 where g: "?wg receipt w1 = (g, w2)" by force
  have f2: "frame {guard_file i} (files w1) (files w2)" by (rule tracksD[OF wgf g])
  have "g \<noteq> Inl e" for e
  proof
    assume "g = Inl e"
    then have "files w' = files w2" using bd g by (simp add: bindI_def)
    then have "files w' ledger_path = files w ledger_path" "files w' active_path = files w active_path"
      using f1 f2 guard_file_ledger[of i] guard_file_other(4)[of i] ledger_other(1,3)
      by (auto simp: frame_def active_path_def claims_dir_def lock_path_def not_sym)
    with changed show False by simp
  qed
  then have g2: "?wg receipt w1 = (Inr (), w2)" using g by (cases g) auto
  have made: "files w2 (guard_file i) \<noteq> None"
    using write_guard_made[OF g2] .
  have "tracks (guard_kept i) (?tail receipt sha)"
    by (intro gk.tracks_map_error gk.tracks_bind gk.tracks_append_ledger gk.tracks_write_active gk.file_law gk.append_law) simp_all
  then have "guard_kept i (files w2) (files (snd (?tail receipt sha w2)))" by (simp add: tracks_def)
  moreover have "files w' = files (snd (?tail receipt sha w2))" using bd g2 by (simp add: bindI_def)
  ultimately have "files w' (guard_file i) \<noteq> None" using made by (auto simp: guard_kept_def)
  with f1 pl none show ?thesis unfolding i_def by blast
qed

section \<open>The ledger over a run\<close>

lemma run_ledger: "run h t ids u \<Longrightarrow> ledger_grows t u"
proof (induction rule: run.induct)
  case (run_none t)
  then show ?case by (simp add: lg.rel_refl)
next
  case (run_others t ids u v)
  then have "v ledger_path = u ledger_path" by (simp add: ledger_path_def)
  with run_others.IH show ?case by (simp add: ledger_grows_def)
next
  case (run_command t ids w cmd tm tmp r w')
  have "quiet ledger_grows cmd" using run_command.hyps(2) by (cases cmd) (auto simp: quiet_def)
  from ledger_grows_dispatch[OF this run_command.hyps(3)] run_command.IH show ?case
    by (blast intro: lg.rel_trans)
next
  case (run_authorize t ids w jds u tm gits pa target nt v tty typed tmp r w')
  from tracks_authorize_commit[OF run_authorize.hyps(5,3,4)] have "ledger_grows u (files w')" by blast
  with run_authorize.IH show ?case by (blast intro: lg.rel_trans)
qed

lemma utf8_valid_after_newline: "utf8_valid (s @ [LF] @ u) \<Longrightarrow> utf8_valid u"
proof (induction s rule: length_induct)
  case (1 s)
  have IH: "utf8_valid (r @ [LF] @ u) \<Longrightarrow> length r < length s \<Longrightarrow> utf8_valid u" for r
    using 1(1) by blast
  have nc: "\<not> is_cont LF" by (simp add: is_cont_def)
  show ?case
  proof (cases s)
    case Nil
    with 1(2) show ?thesis by simp
  next
    case (Cons a t)
    show ?thesis
    proof (cases "ord a < 128")
      case True
      with 1(2) Cons show ?thesis by (intro IH[of t]) simp_all
    next
      case A: False
      with 1(2) Cons nc obtain b r1 where t: "t = b # r1"
        by (cases t) (auto split: if_splits list.splits)
      show ?thesis
      proof (cases "194 \<le> ord a \<and> ord a \<le> 223")
        case True
        with 1(2) Cons t A show ?thesis by (intro IH[of r1]) simp_all
      next
        case B: False
        with 1(2) Cons t A nc obtain c r2 where r1: "r1 = c # r2"
          by (cases r1) (auto split: if_splits list.splits)
        show ?thesis
        proof (cases "224 \<le> ord a \<and> ord a \<le> 239")
          case True
          with 1(2) Cons t r1 A B show ?thesis by (intro IH[of r2]) simp_all
        next
          case C: False
          with 1(2) Cons t r1 A B nc obtain d r3 where r2: "r2 = d # r3"
            by (cases r2) (auto split: if_splits list.splits)
          with 1(2) Cons t r1 A B C show ?thesis by (intro IH[of r3]) simp_all
        qed
      qed
    qed
  qed
qed

lemma read_fd_all_Inr: "read_fd_all a cs b label m = Inr data \<Longrightarrow> data = concat cs"
proof -
  have "read_chunks m n0 cs = Inr data \<Longrightarrow> data = concat cs" for n0
    by (induction m n0 cs arbitrary: data rule: read_chunks.induct) (auto simp: res_iff split: if_splits)
  then show "read_fd_all a cs b label m = Inr data \<Longrightarrow> data = concat cs"
    by (auto simp: read_fd_all_def res_iff split: if_splits)
qed

lemma read_regular_Inr:
  assumes "read_repo_regular_file h t rel label m = Inr (p, data)"
  shows "\<exists>n. rel = JStr p \<and> t (comps p) = Some n \<and> contents n = data"
proof -
  from assms obtain n where o: "open_repo_regular_file h t rel label = Inr (p, n)"
    and d: "read_fd_all (st n) (chunks_of (HASH_CHUNK_SIZE - 1) (contents n)) (st n) label m = Inr data"
    unfolding read_repo_regular_file_def by (auto simp: res_iff)
  from open_regular_Inr[OF o] read_fd_all_Inr[OF d] show ?thesis by auto
qed

lemma ledger_lines_text:
  assumes "ledger_lines h t = Inr es" "ledger_text t \<noteq> []"
  shows "es = ledger_entries (ledger_text t) \<and> utf8_valid (ledger_text t)"
proof -
  have some: "t (comps ledger_rel) \<noteq> None" using assms(2) by (cases "t ledger_path") (simp_all add: ledger_text_def)
  from assms(1) obtain ex where ex: "repo_entry_exists h t ledger_rel ''claims ledger'' = Inr ex"
    and rest: "(if \<not> ex then Inr []
       else bindE (read_repo_regular_file h t (JStr ledger_rel) ''claims ledger'' MAX_LEDGER_BYTES) (\<lambda>(_, raw).
         if utf8_valid raw then Inr (ledger_entries raw)
         else Inl (Refusal ''claims ledger is not valid UTF-8''))) = Inr es"
    unfolding ledger_lines_def by (auto simp: res_iff)
  have "ex"
  proof (rule ccontr)
    assume "\<not> ex"
    then have "repo_entry_exists h t ledger_rel ''claims ledger'' = Inr False" using ex by simp
    from entry_absent[OF this] some show False by simp
  qed
  with rest obtain p raw where r: "read_repo_regular_file h t (JStr ledger_rel) ''claims ledger'' MAX_LEDGER_BYTES = Inr (p, raw)"
    and e: "utf8_valid raw" "es = ledger_entries raw"
    by (auto simp: res_iff split: if_splits)
  from read_regular_Inr[OF r] have "ledger_text t = raw" by (auto simp: ledger_text_def)
  with e show ?thesis by simp
qed

lemma repeat_without_evidence:
  assumes "ledger_text t = T @ ledger_line h r receipt d @ [LF] @ x"
    and "plain_line (ledger_tokens h r receipt d)"
    and "is_str (fld (action_of r) ''operation'')" "is_str (fld (action_of r) ''target'')"
      "is_str (fld (action_of r) ''artifact_sha256'')"
    and same: "\<forall>k \<in> {''operation'', ''target'', ''artifact_sha256''}. fld (action_of r') k = fld (action_of r) k"
    and none: "fld r' ''repeat_guard'' = JNull"
  shows "\<exists>e. check_repeat_guard h t r' = Inl e"
proof (cases "ledger_lines h t")
  case (Inl e)
  then show ?thesis by (simp add: check_repeat_guard_def)
next
  case (Inr es)
  then have es: "es = ledger_entries (ledger_text t)" "utf8_valid (ledger_text t)"
    using ledger_lines_text[OF Inr] by (simp_all add: assms(1))
  have "utf8_valid x"
    by (rule utf8_valid_after_newline[of "T @ ledger_line h r receipt d"]) (use es(2) in \<open>simp add: assms(1)\<close>)
  then have sc: "starts_char x" by (rule utf8_valid_starts)
  obtain e where "e \<in> set (ledger_entries (T @ ledger_line h r receipt d @ [LF]))" "claimed_before (action_of r) e"
    using claim_line_found[OF assms(2-5)] by blast
  moreover have "ledger_entries (ledger_text t) = ledger_entries (T @ ledger_line h r receipt d @ [LF]) @ ledger_entries x"
    using ledger_entries_closed[OF sc, of "T @ ledger_line h r receipt d"] by (simp add: assms(1))
  ultimately have e: "e \<in> set es" "claimed_before (action_of r') e"
    using same es(1) by (auto simp: claimed_before_def)
  then have "list_ex (claimed_before (action_of r')) es" unfolding list_ex_iff by blast
  then show ?thesis by (simp add: check_repeat_guard_def Inr none)
qed

end
