(* ===== verification/Governance.thy ===== *)
theory Governance
  imports Demo EffectSpec
begin

text \<open>
  The properties of the governance engine (\<open>scripts/bringup_loop.py\<close>), each followed by an
  application to the demo repository.
\<close>

section \<open>Facts of the demo that the applications share\<close>

lemma demo_guard_free: "demo_tree (guard_file ''probe-1'') = None"
  by (simp add: guard_file_def demo_tree_def)

lemma demo_files: "files demo_world = demo_tree"
  by (simp add: demo_world_def)

lemma demo_tmp_ok: "tmp_name demo_tmp"
  by (simp add: tmp_name_def demo_tmp_def)

lemma demo_run: "\<exists>u. run demo_host demo_tree [''probe-1''] u"
proof -
  obtain w' where "cmd_claim demo_host demo_time demo_tmp False demo_world =
     (Inr (Claimed ''probe-1'' (action_digest demo_host demo_record) [''fastboot'', ''reboot'']), w')"
    using demo_claimed by blast
  then have "dispatch demo_host demo_time demo_tmp Claim demo_world =
     (Inr (Claimed ''probe-1'' (action_digest demo_host demo_record) [''fastboot'', ''reboot'']), w')"
    by (simp add: dispatch_def)
  from run_command[OF _ _ this, of demo_tree "[]"] show ?thesis
    using run_none[of demo_host demo_tree] by (auto simp: demo_files)
qed

text \<open>A ledger with a torn line and the line of an earlier write.\<close>

definition demo_write :: dict where
  "demo_write = [(''experiment_id'', JStr ''flash-1''), (''tier'', JStr ''persistent''),
     (''action'', JObj [(''operation'', JStr ''partition_write''), (''target'', JStr ''userdata''),
        (''artifact_sha256'', JStr ''ab'')]), (''repeat_guard'', JNull)]"

definition demo_line_receipt :: dict where
  "demo_line_receipt = [(''consumed_at'', JStr ''2026-07-29T10:00:00Z''), (''authority'', JStr ''standing-policy''),
     (''policy_revision'', JStr ''2026-07-22.1''), (''policy_sha256'', JStr ''cd'')]"

definition demo_ledger_tree :: tree where
  "demo_ledger_tree = [ledger_path \<mapsto> demo_file
     (''torn'' @ ledger_line demo_host demo_write demo_line_receipt ''ef'' @ [LF] @ [])]"

section \<open>Claims\<close>

text \<open>C1: over any run of engine commands, with any faults, kills and interleavings of the
  unlocked part of \<open>authorize-profile\<close>, and whatever others do outside \<open>notes/\<close>, no experiment
  is ever told to execute its command twice, none whose replay guard existed at the start is
  claimed at all, and every claimed experiment has its guard for ever after.\<close>

theorem at_most_one_claim:
  "run h t ids u \<Longrightarrow> distinct ids \<and> (\<forall>i \<in> set ids. t (guard_file i) = None \<and> u (guard_file i) \<noteq> None)"
  using run_claims by blast

theorem at_most_one_claim_witness:
  "\<exists>u. run demo_host demo_tree [''probe-1''] u \<and> distinct [''probe-1''] \<and> demo_tree (guard_file ''probe-1'') = None \<and>
     u (guard_file ''probe-1'') \<noteq> None"
proof -
  obtain u where u: "run demo_host demo_tree [''probe-1''] u" using demo_run by blast
  from at_most_one_claim[OF u] u show ?thesis by auto
qed

text \<open>C3: when a claim is answered with a command, that command is the one the record's
  operation, target and artifact determine, no forbidden word occurs in it, the record was
  ready, the policy enabled, the action is covered by a standing scope or by an authorized
  profile whose bytes are the pinned ones, the rollback image is present, differs from the
  artifact and is for the same target, and the artifact has the pinned digest and size.\<close>

theorem claim_verified:
  assumes "cmd_claim h tm tmp False w = (Inr (Claimed i d cmd), w')"
  shows "\<exists>t pl. frame {claims_dir, lock_path} (files w) t \<and> claim_plan h t = Inr pl \<and>
     claimable h t (p_constants pl) (p_policy pl) (p_record pl) cmd \<and>
     i = str_val (fld (p_record pl) ''experiment_id'') \<and> d = action_digest h (p_record pl)"
  using assms by (rule claim_sound)

theorem claim_verified_witness:
  "\<exists>t pl. frame {claims_dir, lock_path} demo_tree t \<and> claim_plan demo_host t = Inr pl \<and>
     claimable demo_host t (p_constants pl) (p_policy pl) (p_record pl) [''fastboot'', ''reboot'']"
proof -
  obtain w' where "cmd_claim demo_host demo_time demo_tmp False demo_world =
     (Inr (Claimed ''probe-1'' (action_digest demo_host demo_record) [''fastboot'', ''reboot'']), w')"
    using demo_claimed by blast
  from claim_verified[OF this] show ?thesis unfolding demo_files by blast
qed



text \<open>C4: a claim that breaks off anywhere fails closed: whenever the ledger or the active
  record has changed, the replay guard of the claimed experiment exists and did not before.\<close>

theorem claim_fails_closed:
  assumes "cmd_claim h tm tmp False w = (r, w')"
    and "files w' ledger_path \<noteq> files w ledger_path \<or> files w' active_path \<noteq> files w active_path"
  shows "\<exists>t pl i. frame {claims_dir, lock_path} (files w) t \<and> claim_plan h t = Inr pl \<and>
     i = str_val (fld (p_record pl) ''experiment_id'') \<and>
     files w (guard_file i) = None \<and> files w' (guard_file i) \<noteq> None"
  using assms by (rule partial_claim)

theorem claim_fails_closed_witness:
  "\<exists>(w' :: world) i. files w' ledger_path \<noteq> demo_tree ledger_path \<and> files w' (guard_file i) \<noteq> None"
proof -
  obtain w' where w': "cmd_claim demo_host demo_time demo_tmp False demo_world =
     (Inr (Claimed ''probe-1'' (action_digest demo_host demo_record) [''fastboot'', ''reboot'']), w')"
    using demo_claimed by blast
  obtain line where "ledger_text (files w') = ledger_text demo_tree @ line @ [LF]"
    using claim_effect[OF w' demo_tmp_ok] unfolding demo_files by blast
  then have ch: "files w' ledger_path \<noteq> files demo_world ledger_path"
    by (auto simp: ledger_text_def demo_files)
  from claim_fails_closed[OF w' disjI1[OF ch]] obtain i where "files w' (guard_file i) \<noteq> None" by blast
  with ch show ?thesis unfolding demo_files by blast
qed

text \<open>C9: the ledger is append-only: over any run its bytes are only extended.\<close>

theorem ledger_append_only:
  assumes "run h t ids u" "t ledger_path = Some n"
  shows "\<exists>n'. u ledger_path = Some n' \<and> prefix (contents n) (contents n')"
  using run_ledger[OF assms(1)] assms(2) by (simp add: ledger_grows_def)

theorem ledger_append_only_witness:
  "\<exists>ids (w' :: world) n'. run demo_host demo_ledger_tree ids (files w') \<and> files w' ledger_path = Some n' \<and> prefix ''torn'' (contents n')"
proof -
  let ?w = "\<lparr>files = demo_ledger_tree, faults = [], clock = 2\<rparr>"
  let ?n = "the (demo_ledger_tree ledger_path)"
  obtain r w' where d: "dispatch demo_host demo_time demo_tmp Claim ?w = (r, w')" by force
  have rn: "run demo_host demo_ledger_tree [] (files ?w)" using run_none[of demo_host demo_ledger_tree] by simp
  from run_command[OF rn _ d] have u: "run demo_host demo_ledger_tree (claimed_id r @ []) (files w')" by simp
  have n: "demo_ledger_tree ledger_path = Some ?n" by (simp add: demo_ledger_tree_def)
  from ledger_append_only[OF u n] obtain n' where n': "files w' ledger_path = Some n'" "prefix (contents ?n) (contents n')"
    by blast
  have "prefix ''torn'' (contents ?n)" by (simp add: demo_ledger_tree_def)
  with n'(2) have "prefix ''torn'' (contents n')" by (rule prefix_order.trans[rotated])
  with u n'(1) show ?thesis by blast
qed




text \<open>C7: an archived record never changes again, whatever the command and the faults, as long as
  the world in between \<open>authorize-profile\<close>'s preview and its lock leaves it alone.\<close>

theorem archive_immutable:
  assumes "dispatch h tm tmp cmd w = (r, w')" "quiet (archive_kept i tmp) cmd" "experiment_id_ok i"
    "tmp_name tmp" "files w (archive_file i) = Some n"
  shows "files w' (archive_file i) = Some n"
  using archive_kept_dispatch[OF assms(2,1)] assms(3-5) by (simp add: archive_kept_def)

definition demo_archived :: world where
  "demo_archived = \<lparr>files = [archive_file ''probe-1'' \<mapsto> demo_file ''x''], faults = [], clock = 2\<rparr>"

theorem archive_immutable_witness:
  "files (snd (dispatch demo_host demo_time demo_tmp Archive demo_archived)) (archive_file ''probe-1'') = Some (demo_file ''x'')"
  by (rule archive_immutable[OF surjective_pairing _ demo_id_ok demo_tmp_ok])
    (simp_all add: demo_archived_def quiet_def)

text \<open>C11: the footprint: no command changes anything but the claims directory with its lock,
  ledger and guards, the active record, the archived records, the policy, and its own temporary
  file beside these.\<close>

theorem engine_footprint:
  assumes "dispatch h tm tmp cmd w = (r, w')" "quiet (frame (footprint tmp)) cmd" "p \<notin> footprint tmp"
  shows "files w' p = files w p"
  using footprint_dispatch[OF assms(2,1)] assms(3) by (simp add: frame_def)

theorem engine_footprint_witness:
  "files (snd (dispatch demo_host demo_time demo_tmp Claim demo_world)) [''config'', ''governance'', ''constants.json''] =
     demo_tree [''config'', ''governance'', ''constants.json'']"
proof -
  have "[''config'', ''governance'', ''constants.json''] \<notin> footprint demo_tmp"
    by (auto simp: footprint_def claims_dir_def completed_dir_def lock_path_def ledger_path_def active_path_def
        policy_path_def guard_file_def archive_file_def tmp_dirs_def demo_tmp_def)
  from engine_footprint[OF surjective_pairing _ this, where h = demo_host and tm = demo_time and cmd = Claim
      and w = demo_world] show ?thesis
    by (simp add: quiet_def demo_files)
qed

text \<open>C9: \<open>preflight\<close> and \<open>validate\<close> answer without changing any state: at most the claims
  directory and the lock file are created.\<close>

theorem preflight_changes_nothing:
  "cmd = PreflightCmd \<or> cmd = Validate \<Longrightarrow> dispatch h tm tmp cmd w = (r, w') \<Longrightarrow>
     frame {claims_dir, lock_path} (files w) (files w')"
proof -
  assume c: "cmd = PreflightCmd \<or> cmd = Validate" and d: "dispatch h tm tmp cmd w = (r, w')"
  show ?thesis
  proof (cases "cmd = Validate")
    case True
    with d have "w' = w" by (simp add: dispatch_def cmd_validate_def readI_def)
    then show ?thesis by (simp add: frame_def)
  next
    case False
    with c d have "cmd_claim h tm tmp True w = (r, w')" by (simp add: dispatch_def)
    from lock_cases[OF this[unfolded cmd_claim_def]] show ?thesis
    proof
      assume "\<exists>w1. frame {claims_dir, lock_path} (files w) (files w1) \<and>
        bindI (readI (claim_plan h)) (\<lambda>pl. if True then retI (Preflight (p_digest pl))
          else bindI (claim_commit h tm tmp pl) (\<lambda>_.
               retI (Claimed (str_val (fld (p_record pl) ''experiment_id'')) (p_digest pl)
                 (map str_val (arr_val (fld (action_of (p_record pl)) ''exact_command'')))))) w1 = (r, w')"
      then obtain w1 where w1: "frame {claims_dir, lock_path} (files w) (files w1)"
        "bindI (readI (claim_plan h)) (\<lambda>pl. retI (Preflight (p_digest pl))) w1 = (r, w')" by auto
      from w1(2) have "w' = w1"
        by (cases "claim_plan h (files w1)") (auto simp: bindI_def readI_def retI_def)
      with w1(1) show ?thesis by simp
    qed
  qed
qed

theorem preflight_changes_nothing_witness:
  "frame {claims_dir, lock_path} demo_tree (files (snd (dispatch demo_host demo_time demo_tmp PreflightCmd demo_world)))"
  using preflight_changes_nothing[OF disjI1[OF refl] surjective_pairing, where h = demo_host and tm = demo_time
      and tmp = demo_tmp and w = demo_world]
  by (simp add: demo_files)

end
