(* ===== verification/Lifecycle.thy ===== *)
theory Lifecycle
  imports Demo EffectSpec
begin

text \<open>
  What \<open>new\<close>, \<open>observe\<close>, \<open>result\<close> and \<open>archive\<close> do to the active record when they return, and a
  read-only experiment in which each of them returns.
\<close>

section \<open>A read-only experiment\<close>

definition ro_args :: new_args where
  "ro_args = demo_args\<lparr>a_experiment_id := ''look-1'', a_operation := None\<rparr>"

definition ro_ready :: dict where
  "ro_ready = base_record ro_args ''read_only''"

definition ro_log :: bytes where
  "ro_log = ''route_status=ok'' @ [LF]"

definition ro_result :: dict where
  "ro_result = [(''outcome'', JStr ''success''), (''evidence'', JStr ''logs/run.txt''),
     (''evidence_sha256'', JStr (sha256 demo_host ro_log)), (''recorded_at'', JStr ''2026-07-29T10:00:00Z''), (''note'', JNull)]"

definition ro_completed :: dict where
  "ro_completed = dict_set (dict_set ro_ready ''result'' (JObj ro_result)) ''status'' (JStr ''completed'')"

text \<open>The tree of the demonstration with a given active record, a log and the archive directory.\<close>

definition ro_tree :: "dict option \<Rightarrow> tree" where
  "ro_tree a = demo_tree([''notes'', ''bringup-active.json''] := map_option (\<lambda>r. demo_file (stored_json demo_host (JObj r))) a,
     [''logs''] \<mapsto> demo_dir, [''logs'', ''run.txt''] \<mapsto> demo_file ro_log,
     [''notes'', ''bringup-completed''] \<mapsto> demo_dir)"

definition ro_world :: "dict option \<Rightarrow> world" where
  "ro_world a = \<lparr>files = ro_tree a, faults = [], clock = 2\<rparr>"

lemma ro_open [simp]:
  "open_repo_parent demo_host (ro_tree a) (JStr constants_rel) label = Inr ([''config'', ''governance''], ''constants.json'')"
  "open_repo_parent demo_host (ro_tree a) (JStr policy_rel) label = Inr ([''config'', ''governance''], ''policy.json'')"
  "open_repo_parent demo_host (ro_tree a) (JStr active_rel) label = Inr ([''notes''], ''bringup-active.json'')"
  "open_repo_parent demo_host (ro_tree a) (JStr ''logs/run.txt'') label = Inr ([''logs''], ''run.txt'')"
  "open_repo_parent demo_host (ro_tree a) (JStr ''notes/bringup-claims'') label = Inr ([''notes''], ''bringup-claims'')"
  "open_repo_parent demo_host (ro_tree a) (JStr ''notes/bringup-claims/.lock'') label = Inr ([''notes'', ''bringup-claims''], ''.lock'')"
  by (simp_all add: demo_path_simps ro_tree_def constants_rel_def policy_rel_def active_rel_def)

lemma ro_comps [simp]:
  "comps constants_rel = [''config'', ''governance'', ''constants.json'']"
  "comps policy_rel = [''config'', ''governance'', ''policy.json'']"
  "comps active_rel = [''notes'', ''bringup-active.json'']" "comps ''logs/run.txt'' = [''logs'', ''run.txt'']"
  by (simp_all add: comps_def constants_rel_def policy_rel_def active_rel_def)

lemma ro_lookup [simp]:
  "ro_tree a [''config'', ''governance'', ''constants.json''] = Some (demo_file (stored_json demo_host (JObj demo_constants)))"
  "ro_tree a [''config'', ''governance'', ''policy.json''] = Some (demo_file (stored_json demo_host (JObj demo_policy)))"
  "ro_tree a [''notes'', ''bringup-active.json''] = map_option (\<lambda>r. demo_file (stored_json demo_host (JObj r))) a"
  "ro_tree a [''logs'', ''run.txt''] = Some (demo_file ro_log)"
  "ro_tree a [''notes'', ''bringup-claims''] = Some demo_dir"
  "ro_tree a [''notes'', ''bringup-claims'', ''.lock''] = Some (demo_file [])"
  "ro_tree a [''notes'', ''bringup-completed''] = Some demo_dir"
  "ro_tree a [''notes'', demo_tmp] = None"
  by (simp_all add: ro_tree_def demo_tree_def demo_tmp_def)

lemma ro_json:
  "load_repo_json demo_host (ro_tree a) constants_rel label = Inr (demo_constants, stored_json demo_host (JObj demo_constants))"
  "load_repo_json demo_host (ro_tree a) policy_rel label = Inr (demo_policy, stored_json demo_host (JObj demo_policy))"
  using load_stored_file[of demo_host "ro_tree a" constants_rel label _ demo_constants] demo_regular demo_sizes demo_printable
    load_stored_file[of demo_host "ro_tree a" policy_rel label _ demo_policy] by (simp_all add: policy_path_def)

lemma ro_loads:
  "load_constants demo_host (ro_tree a) = Inr demo_constants"
  "load_policy demo_host (ro_tree a) demo_constants = Inr (demo_policy, sha256 demo_host (stored_json demo_host (JObj demo_policy)))"
  using demo_load_constants demo_load_policy by (simp_all add: load_constants_def load_policy_def ro_json demo_json)

lemma ro_sha: "sha256 demo_host ro_log = replicate 63 (CHR ''0'') @ ''a''"
  by (simp add: demo_host_def ro_log_def)

lemma ro_sha_text: "utf8_valid (replicate 63 (CHR ''0'') @ ''a'')" "plain_text (replicate 63 (CHR ''0'') @ ''a'')"
  by (simp_all add: ascii_utf8_valid is_ascii_def plain_text_def list_all_iff ord_def)

lemma ro_sha_quoted: "length (quote_string (replicate 63 (CHR ''0'') @ ''a'')) = 66"
  using length_quote[OF ro_sha_text(2)] by simp

lemma ro_printable: "printable_dict demo_host ro_ready" "printable_dict demo_host ro_completed"
  by (simp_all add: printable_dict_def ro_ready_def ro_completed_def ro_result_def base_record_def ro_args_def
      demo_args_def SCHEMA_VERSION_def ascii_utf8_valid is_ascii_def ord_def show_nat.simps max_digits_def ro_sha ro_sha_text)

lemma ro_sizes:
  "length (stored_json demo_host (JObj ro_ready)) \<le> MAX_JSON_BYTES"
  "length (stored_json demo_host (JObj ro_completed)) \<le> MAX_JSON_BYTES"
  by (simp_all add: demo_size_simps ro_ready_def ro_completed_def ro_result_def base_record_def ro_args_def demo_args_def
      ro_sha ro_sha_quoted)

lemma ro_valid: "validate_record demo_host demo_constants ro_ready = Inr ()"
    "validate_record demo_host demo_constants ro_completed = Inr ()"
  by (simp_all add: validate_record_def validate_common_def ro_ready_def ro_completed_def ro_result_def base_record_def
      ro_args_def demo_args_def member_def TIERS_def need_def Let_def
      same_fields_def RECORD_FIELDS_READ_ONLY_def SCHEMA_VERSION_def py_eq_def nonblank_def positive_int_def
      experiment_id_ok_def id_start_def is_lower_def is_digit_def demo_text_simps insert_commute)

section \<open>The commands go through\<close>

lemma ro_lock: "governance_lock demo_host body (ro_world a) = body (ro_world a)"
proof -
  have "open_existing_at demo_host (ro_tree a) [''notes'', ''bringup-claims'', ''.lock''] label = Inr (demo_file [])" for label
    using demo_file_opens[of "ro_tree a" "[''notes'', ''bringup-claims'', ''.lock'']" "[]"] by simp
  moreover have "validate_regular_stat demo_host (st (demo_file [])) label = Inr ()" for label
    using demo_regular[of "[]"] by (simp add: regular_stat_Inr regular_file_def)
  ultimately show ?thesis
    by (simp add: governance_lock_def ensure_repo_directory_def bindI_def readI_def sys_create_def ro_world_def
        open_or_create_def liftI_def)
qed

lemma ro_exists: "repo_entry_exists demo_host (ro_tree a) active_rel label = Inr (a \<noteq> None)"
  by (cases a) (simp_all add: repo_entry_exists_def)

lemma ro_load_active:
  assumes "printable_dict demo_host r" "length (stored_json demo_host (JObj r)) \<le> MAX_JSON_BYTES"
    "validate_record demo_host demo_constants r = Inr ()"
  shows "load_active demo_host (ro_tree (Some r)) demo_constants = Inr r"
proof -
  have "load_repo_json demo_host (ro_tree (Some r)) active_rel ''active record'' = Inr (r, stored_json demo_host (JObj r))"
    using load_stored_file[of demo_host "ro_tree (Some r)" active_rel "''active record''" _ r] demo_regular assms(1,2)
    by (simp add: active_path_def)
  then show ?thesis using assms(3) by (simp add: load_active_def ro_exists)
qed

lemma ro_hash_active:
  "hash_repo_regular_file demo_host (ro_tree (Some r)) (JStr active_rel) label =
     Inr (active_rel, sha256 demo_host (stored_json demo_host (JObj r)), length (stored_json demo_host (JObj r)))"
  using hash_file_ok[of demo_host "ro_tree (Some r)" active_rel] demo_regular by (simp add: active_path_def)

lemma ro_rewrite:
  "fst (atomic_write_repo_json demo_host demo_tmp active_rel d
     (Some (sha256 demo_host (stored_json demo_host (JObj r)))) False (ro_world (Some r))) = Inr ()"
proof -
  let ?f = "demo_file (stored_json demo_host (JObj r))"
  have 2: "open_existing_at demo_host t [''notes'', ''bringup-active.json''] label = Inr ?f"
    if "t [''notes'', ''bringup-active.json''] = Some ?f" for t label
    using demo_file_opens[of t "[''notes'', ''bringup-active.json'']" _ label ?f] that by blast
  have 3: "demo_tmp \<noteq> ''bringup-active.json''" "''bringup-active.json'' \<noteq> demo_tmp" by (simp_all add: demo_tmp_def)
  show ?thesis
    by (simp add: atomic_write_repo_json_def fine_simps existing_destination_def 2 3 ro_world_def
        check_destination_def replace_file_def Let_def on_error_def sys_chmod_own_def sys_rename_def
        update_node_def)
qed

lemma ro_create:
  "fst (atomic_write_repo_json demo_host demo_tmp active_rel d None True (ro_world None)) = Inr ()"
proof -
  have 3: "demo_tmp \<noteq> ''bringup-active.json''" "''bringup-active.json'' \<noteq> demo_tmp" by (simp_all add: demo_tmp_def)
  show ?thesis
    by (simp add: atomic_write_repo_json_def fine_simps existing_destination_def 3 ro_world_def
        check_destination_def replace_file_def Let_def on_error_def sys_chmod_own_def sys_rename_def
        update_node_def)
qed

lemma ro_files [simp]: "files (ro_world a) = ro_tree a"
  by (simp add: ro_world_def)

lemma write_then_done:
  assumes "fst (m w) = Inr ()"
  shows "\<exists>w'. bindI m (\<lambda>_. retI x) w = (Inr x, w')"
  using assms by (cases "m w") (auto simp: bindI_def retI_def)

lemma ro_new_returns: "\<exists>w'. cmd_new demo_host demo_tmp ro_args (ro_world None) = (Inr Done, w')"
proof -
  have "plan_new demo_host (ro_tree None) ro_args = Inr ro_ready"
    using ro_valid(1)
    by (simp add: plan_new_def ro_loads ro_exists need_def new_record_def ro_args_def ro_ready_def)
  moreover have "\<exists>w'. bindI (atomic_write_repo_json demo_host demo_tmp active_rel ro_ready None True) (\<lambda>_. retI Done)
      (ro_world None) = (Inr Done, w')"
    by (rule write_then_done) (rule ro_create)
  ultimately show ?thesis by (simp add: cmd_new_def ro_lock bind_read_Inr ro_files)
qed

lemma ro_observe_returns:
  "\<exists>w'. cmd_observe demo_host demo_time demo_tmp ''seen'' (ro_world (Some ro_ready)) = (Inr Done, w')"
proof -
  let ?sha = "sha256 demo_host (stored_json demo_host (JObj ro_ready))"
  have "\<exists>d. plan_observe demo_host demo_time (ro_tree (Some ro_ready)) ''seen'' = Inr (d, ?sha)"
    using ro_load_active[OF ro_printable(1) ro_sizes(1) ro_valid(1)]
    by (simp add: plan_observe_def ro_loads ro_hash_active demo_time_def)
  then obtain d where "plan_observe demo_host demo_time (ro_tree (Some ro_ready)) ''seen'' = Inr (d, ?sha)" by blast
  moreover have "\<exists>w'. bindI (atomic_write_repo_json demo_host demo_tmp active_rel d (Some ?sha) False) (\<lambda>_. retI Done)
      (ro_world (Some ro_ready)) = (Inr Done, w')"
    by (rule write_then_done) (rule ro_rewrite)
  ultimately show ?thesis by (simp add: cmd_observe_def ro_lock bind_read_Inr ro_files)
qed



lemma ro_archive_returns: "\<exists>w'. cmd_archive demo_host demo_tmp (ro_world (Some ro_completed)) = (Inr Done, w')"
proof -
  let ?t = "ro_tree (Some ro_completed)"
  have f: "fld ro_completed ''status'' = JStr ''completed''" "fld ro_completed ''experiment_id'' = JStr ''look-1''"
    by (simp_all add: ro_completed_def ro_ready_def base_record_def ro_args_def fld_dict_set)
  have pl: "plan_archive demo_host ?t = Inr ro_completed"
    using ro_load_active[OF ro_printable(2) ro_sizes(2) ro_valid(2)] f(1)
    by (simp add: plan_archive_def ro_loads need_def)
  have d: "open_repo_parent demo_host ?t (JStr completed_dir_rel) label = Inr ([''notes''], ''bringup-completed'')" for label
    by (simp add: demo_path_simps ro_tree_def completed_dir_rel_def)
  have e: "ensure_repo_directory demo_host completed_dir_rel label (ro_world (Some ro_completed)) =
      (Inr (), ro_world (Some ro_completed))" for label
    by (simp add: ensure_repo_directory_def bindI_def readI_def sys_create_def d ro_world_def)
  have o1: "open_repo_parent demo_host ?t (JStr (archive_path ''look-1'')) label =
      Inr ([''notes'', ''bringup-completed''], ''look-1.json'')" for label
    by (simp add: demo_path_simps ro_tree_def completed_dir_rel_def archive_path_def)
  have n: "?t [''notes'', ''bringup-completed'', ''look-1.json''] = None" "?t [''notes'', ''bringup-completed'', demo_tmp] = None"
    by (simp_all add: ro_tree_def demo_tree_def demo_tmp_def)
  have 3: "demo_tmp \<noteq> ''look-1.json''" "''look-1.json'' \<noteq> demo_tmp" by (simp_all add: demo_tmp_def)
  have "\<exists>T k. atomic_write_repo_json demo_host demo_tmp (archive_path ''look-1'') ro_completed None True
      (ro_world (Some ro_completed)) = (Inr (), \<lparr>files = T, faults = [], clock = k\<rparr>) \<and> (\<forall>p. length p \<noteq> 3 \<longrightarrow> T p = ?t p)"
    by (simp add: atomic_write_repo_json_def o1 fine_simps existing_destination_def n 3 ro_world_def
        check_destination_def replace_file_def Let_def on_error_def sys_chmod_own_def sys_rename_def update_node_def)
  then obtain w3 where w3: "atomic_write_repo_json demo_host demo_tmp (archive_path ''look-1'') ro_completed None True
      (ro_world (Some ro_completed)) = (Inr (), w3)" "faults w3 = []" "\<forall>p. length p \<noteq> 3 \<longrightarrow> files w3 p = ?t p"
    by (metis world.select_convs(1,2))
  have u: "open_repo_parent demo_host (files w3) (JStr active_rel) label = Inr ([''notes''], ''bringup-active.json'')"
    "open_existing_at demo_host (files w3) [''notes'', ''bringup-active.json''] label =
      Inr (demo_file (stored_json demo_host (JObj ro_completed)))" for label
  proof -
    have "files w3 [''notes''] = ?t [''notes'']" "files w3 [] = ?t []" using w3(3) by simp_all
    moreover have "?t [''notes''] = Some demo_dir" "?t [] = Some demo_dir" by (simp_all add: ro_tree_def demo_tree_def)
    ultimately show "open_repo_parent demo_host (files w3) (JStr active_rel) label = Inr ([''notes''], ''bringup-active.json'')"
      by (simp add: open_repo_parent_def canonical_repo_relative_path_def Let_def comps_def posix_normpath_def
          is_control_def BS_def ord_def active_rel_def)
    have "files w3 [''notes'', ''bringup-active.json''] = Some (demo_file (stored_json demo_host (JObj ro_completed)))"
      using w3(3) by simp
    then show "open_existing_at demo_host (files w3) [''notes'', ''bringup-active.json''] label =
      Inr (demo_file (stored_json demo_host (JObj ro_completed)))" using demo_file_opens by blast
  qed
  have "fst (unlink_repo_regular_file demo_host active_rel label w3) = Inr ()" for label
    by (simp add: unlink_repo_regular_file_def u fine_simps w3(2) sys_unlink_def)
  then have "\<exists>w'. bindI (unlink_repo_regular_file demo_host active_rel ''active record'') (\<lambda>_. retI Done) w3 = (Inr Done, w')"
    by (rule write_then_done)
  then show ?thesis
    using pl e w3(1) f(2)
    by (simp add: cmd_archive_def ro_lock bindI_def readI_def repo_entry_exists_def o1 n need_def Let_def)
qed

section \<open>The lifecycle of a record\<close>

definition active_holds :: "host \<Rightarrow> tree \<Rightarrow> dict \<Rightarrow> bool" where
  "active_holds h t r \<longleftrightarrow> (\<exists>n. t active_path = Some n \<and> contents n = stored_json h (JObj r))"

text \<open>C0: \<open>new\<close> returns only when there was no active record, and leaves one that the validator
  accepts, is ready, carries the requested identifier and has no observations.\<close>

theorem new_starts_ready:
  assumes "cmd_new h tmp a w = (Inr ans, w')" "tmp_name tmp"
  shows "files w active_path = None \<and>
     (\<exists>c r. validate_record h c r = Inr () \<and> active_holds h (files w') r \<and> fld r ''status'' = JStr ''ready'' \<and>
        fld r ''experiment_id'' = JStr (a_experiment_id a) \<and> fld r ''observations'' = JArr [])"
proof -
  from new_effect[OF assms] obtain r n t where e: "plan_new h t a = Inr r" "files w active_path = None"
    "files w' active_path = Some n" "contents n = stored_json h (JObj r)" by blast
  from e(3,4) have "active_holds h (files w') r" unfolding active_holds_def by blast
  with plan_new_Inr[OF e(1)] e(2) show ?thesis by blast
qed

lemma demo_tmp_name: "tmp_name demo_tmp"
  by (simp add: tmp_name_def demo_tmp_def)

theorem new_starts_ready_witness:
  "\<exists>(w' :: world) r. active_holds demo_host (files w') r \<and> fld r ''status'' = JStr ''ready''"
  using ro_new_returns new_starts_ready[OF _ demo_tmp_name] by blast

text \<open>C0: \<open>observe\<close> returns only on a valid active record, and leaves that record with one more
  observation, the note with the time of the clock, at the end; nothing else of it changes.\<close>

theorem observe_appends:
  assumes "cmd_observe h tm tmp note w = (Inr ans, w')" "tmp_name tmp"
  shows "\<exists>t c r now. frame {claims_dir, lock_path} (files w) t \<and> load_active h t c = Inr r \<and> tm 0 = Inr now \<and>
     active_holds h (files w') (dict_set r ''observations'' (JArr (arr_val (fld r ''observations'') @
       [JObj [(''at'', JStr now), (''note'', JStr note)]])))"
proof -
  from observe_effect[OF assms] obtain t r' sha n where t: "frame {claims_dir, lock_path} (files w) t"
    "plan_observe h tm t note = Inr (r', sha)" "files w' active_path = Some n" "contents n = stored_json h (JObj r')"
    by blast
  from plan_observe_Inr[OF t(2)] t(1,3,4) show ?thesis unfolding active_holds_def by blast
qed

theorem observe_appends_witness:
  "\<exists>(w' :: world) r now. active_holds demo_host (files w') (dict_set r ''observations'' (JArr (arr_val (fld r ''observations'') @
       [JObj [(''at'', JStr now), (''note'', JStr ''seen'')]])))"
  using ro_observe_returns observe_appends[OF _ demo_tmp_name] by blast



text \<open>C0: \<open>archive\<close> returns only for a valid completed record whose archive file does not exist,
  and moves it: the archive file holds the record, and there is no active record.\<close>

theorem archive_moves:
  assumes "cmd_archive h tmp w = (Inr ans, w')" "tmp_name tmp"
  shows "\<exists>t c r n. frame {claims_dir, lock_path} (files w) t \<and> load_active h t c = Inr r \<and>
     fld r ''status'' = JStr ''completed'' \<and> files w (archive_file (str_val (fld r ''experiment_id''))) = None \<and>
     files w' (archive_file (str_val (fld r ''experiment_id''))) = Some n \<and> contents n = stored_json h (JObj r) \<and>
     files w' active_path = None"
proof -
  from archive_effect[OF assms] obtain t r n where e: "frame {claims_dir, lock_path} (files w) t" "plan_archive h t = Inr r"
    "files w (archive_file (str_val (fld r ''experiment_id''))) = None"
    "files w' (archive_file (str_val (fld r ''experiment_id''))) = Some n" "contents n = stored_json h (JObj r)"
    "files w' active_path = None" unfolding Let_def by blast
  with plan_archive_Inr[OF e(2)] show ?thesis by blast
qed

theorem archive_moves_witness:
  "\<exists>(w' :: world) r n. files w' (archive_file (str_val (fld r ''experiment_id''))) = Some n \<and>
     contents n = stored_json demo_host (JObj r) \<and> files w' active_path = None"
  using ro_archive_returns archive_moves[OF _ demo_tmp_name] by metis

end
