(* ===== verification/Regex.thy ===== *)
theory Regex
  imports PyText
begin

text \<open>
  The regular-expression reference: the language of the pattern constructs the sources use
  with \<open>re.fullmatch\<close>.  The modelled recognisers are deterministic prefix parsers; the
  components prove them equal to membership in these languages.
\<close>

datatype rx =
    Eps
  | Cls "char \<Rightarrow> bool"
  | Seq rx rx
  | Alt rx rx
  | Star rx

inductive_set star :: "string set \<Rightarrow> string set" for A where
  star_Nil: "[] \<in> star A"
| star_step: "u \<in> A \<Longrightarrow> v \<in> star A \<Longrightarrow> u @ v \<in> star A"

fun lang :: "rx \<Rightarrow> string set" where
  "lang Eps = {[]}"
| "lang (Cls P) = {[c] |c. P c}"
| "lang (Seq r s) = {u @ v |u v. u \<in> lang r \<and> v \<in> lang s}"
| "lang (Alt r s) = lang r \<union> lang s"
| "lang (Star r) = star (lang r)"

fun rx_lit :: "string \<Rightarrow> rx" where
  "rx_lit [] = Eps"
| "rx_lit (c # s) = Seq (Cls (\<lambda>d. d = c)) (rx_lit s)"

definition rx_opt :: "rx \<Rightarrow> rx" where
  "rx_opt r = Alt Eps r"

definition rx_plus :: "(char \<Rightarrow> bool) \<Rightarrow> rx" where
  "rx_plus P = Seq (Cls P) (Star (Cls P))"

fun rx_seq :: "rx list \<Rightarrow> rx" where
  "rx_seq [] = Eps"
| "rx_seq (r # rs) = Seq r (rx_seq rs)"

lemma star_cls: "star {[c] |c. P c} = {s. list_all P s}"
proof (intro set_eqI iffI)
  fix s
  assume "s \<in> star {[c] |c. P c}"
  then show "s \<in> {s. list_all P s}" by induction auto
next
  fix s
  assume "s \<in> {s. list_all P s}"
  then show "s \<in> star {[c] |c. P c}"
  proof (induction s)
    case Nil
    then show ?case by (simp add: star_Nil)
  next
    case (Cons c s)
    then have "[c] @ s \<in> star {[c] |c. P c}" by (intro star_step) auto
    then show ?case by simp
  qed
qed

lemma lang_lit [simp]: "lang (rx_lit p) = {p}"
  by (induction p) auto

lemma lang_star_cls [simp]: "lang (Star (Cls P)) = {s. list_all P s}"
  by (simp add: star_cls)

lemma lang_plus [simp]: "lang (rx_plus P) = {s. s \<noteq> [] \<and> list_all P s}"
proof (intro set_eqI)
  fix s
  show "s \<in> lang (rx_plus P) \<longleftrightarrow> s \<in> {s. s \<noteq> [] \<and> list_all P s}"
    by (cases s) (auto simp: rx_plus_def star_cls intro: exI[of _ "[hd s]"])
qed

lemma lang_opt [simp]: "lang (rx_opt r) = insert [] (lang r)"
  by (auto simp: rx_opt_def)

lemma lang_seq_Nil [simp]: "lang (rx_seq []) = {[]}"
  by simp

lemma lang_seqI: "u \<in> lang r \<Longrightarrow> v \<in> lang (rx_seq rs) \<Longrightarrow> u @ v \<in> lang (rx_seq (r # rs))"
  by auto

lemma lang_seq_last: "u \<in> lang r \<Longrightarrow> u \<in> lang (rx_seq [r])"
  by simp

lemma lang_seq_Cons: "s \<in> lang (rx_seq (r # rs)) \<longleftrightarrow> (\<exists>u v. s = u @ v \<and> u \<in> lang r \<and> v \<in> lang (rx_seq rs))"
  by auto

declare rx_seq.simps [simp del] rx_lit.simps [simp del]

text \<open>Membership in a sequence, one element of the pattern at a time.\<close>

lemma seq_lit: "s \<in> lang (rx_seq (rx_lit p # rs)) \<longleftrightarrow> (\<exists>v. s = p @ v \<and> v \<in> lang (rx_seq rs))"
  by (simp add: lang_seq_Cons)

lemma seq_opt:
  "s \<in> lang (rx_seq (rx_opt r # rs)) \<longleftrightarrow> s \<in> lang (rx_seq rs) \<or> s \<in> lang (rx_seq (r # rs))"
  by (auto simp: lang_seq_Cons)

lemma seq_seq: "s \<in> lang (rx_seq (rx_seq qs # rs)) \<longleftrightarrow> s \<in> lang (rx_seq (qs @ rs))"
proof (induction qs arbitrary: s)
  case Nil
  then show ?case by (simp add: lang_seq_Cons)
next
  case (Cons q qs)
  have "s \<in> lang (rx_seq ((q # qs) @ rs)) \<longleftrightarrow> (\<exists>u v. s = u @ v \<and> u \<in> lang q \<and> v \<in> lang (rx_seq (rx_seq qs # rs)))"
    using Cons by (simp add: lang_seq_Cons)
  also have "\<dots> \<longleftrightarrow> s \<in> lang (rx_seq (rx_seq (q # qs) # rs))"
    by (simp add: lang_seq_Cons) (metis append.assoc)
  finally show ?case by simp
qed

lemma seq_plus:
  "s \<in> lang (rx_seq (rx_plus P # rs)) \<longleftrightarrow>
     (\<exists>d v. s = d @ v \<and> d \<noteq> [] \<and> list_all P d \<and> v \<in> lang (rx_seq rs))"
  unfolding lang_seq_Cons by auto

lemma seq_star:
  "s \<in> lang (rx_seq (Star (Cls P) # rs)) \<longleftrightarrow>
     (\<exists>d v. s = d @ v \<and> list_all P d \<and> v \<in> lang (rx_seq rs))"
  unfolding lang_seq_Cons by (simp add: star_cls)

lemmas rx_simps = seq_lit seq_opt seq_seq seq_plus seq_star

end
