(* ===== verification/Transcript.thy ===== *)
theory Transcript
  imports Regex
begin

text \<open>
  \<open>scripts/lmi_p2_d114/fastboot_transcript.py\<close>: the fail-closed grammar of what fastboot
  prints.  The patterns are prefix parsers, proved equal to the regular expressions of the
  source; \<open>classify\<close> scans the significant lines with an explicit scan state and maps a
  transcript to one of three outcomes with a reason.
\<close>

section \<open>Outcomes\<close>

datatype outcome = COMPLETED | REFUSED | UNKNOWN

record classification =
  outcome :: outcome
  reason :: string

definition unknown :: "string \<Rightarrow> classification" where
  "unknown why = \<lparr>outcome = UNKNOWN, reason = why\<rparr>"

section \<open>Line shapes\<close>

text \<open>\<open>_PARTITION_RE\<close>: \<open>[a-z][a-z0-9_-]{0,35}\<close>\<close>

definition partition_char :: "char \<Rightarrow> bool" where
  "partition_char c \<longleftrightarrow> is_lower c \<or> is_digit c \<or> c = CHR ''_'' \<or> c = CHR ''-''"

definition partition_name :: "string \<Rightarrow> bool" where
  "partition_name p \<longleftrightarrow>
     (case p of [] \<Rightarrow> False | c # r \<Rightarrow> is_lower c \<and> length r \<le> 35 \<and> list_all partition_char r)"

text \<open>\<open>[0-9]+(?:\.[0-9]+)?s\<close>\<close>

definition seconds :: "string \<Rightarrow> string option" where
  "seconds s = do {
     (d, r) \<leftarrow> digits1 s;
     (case lit ''.'' r of
        None \<Rightarrow> lit ''s'' r
      | Some r1 \<Rightarrow> do { (e, r2) \<leftarrow> digits1 r1; lit ''s'' r2 })
   }"

text \<open>\<open>_OKAY_STATUS\<close> and \<open>_FAILED_STATUS\<close>; the result says whether it was \<open>OKAY\<close>.\<close>

definition okay_status :: "string \<Rightarrow> bool" where
  "okay_status s = (case lit ''OKAY ['' s of
       None \<Rightarrow> False
     | Some r \<Rightarrow> seconds (dropWhile (\<lambda>c. c = CHR '' '') r) = Some '']'')"

definition QUOTE :: char where "QUOTE = CHR 0x27"

definition failed_char :: "char \<Rightarrow> bool" where
  "failed_char c \<longleftrightarrow> c \<noteq> QUOTE \<and> c \<noteq> CR \<and> c \<noteq> LF"

definition failed_status :: "string \<Rightarrow> bool" where
  "failed_status s = (case lit (''FAILED (remote: '' @ [QUOTE]) s of
       None \<Rightarrow> False
     | Some r \<Rightarrow> dropWhile failed_char r = [QUOTE] @ '')'')"

definition status :: "string \<Rightarrow> bool option" where
  "status s = (if okay_status s then Some True else if failed_status s then Some False else None)"

definition dots :: "char \<Rightarrow> bool" where
  "dots c \<longleftrightarrow> c = CHR '' '' \<or> c = CHR ''.''"

text \<open>
  The named groups of \<open>sending_pattern\<close>: the \<open>sparse\<close> flag, the optional \<open>index\<close> and
  \<open>total\<close> (both or neither, since they sit in one optional group), and the status.
\<close>

record sending =
  sparse :: bool
  fraction :: "(string \<times> string) option"
  okay :: bool

definition frac_part :: "string \<Rightarrow> ((string \<times> string) option \<times> string) option" where
  "frac_part s = do {
     r \<leftarrow> lit '' '' s;
     (case digits1 r of
        None \<Rightarrow> Some (None, s)
      | Some (i, r1) \<Rightarrow> do {
          r2 \<leftarrow> lit ''/'' r1;
          (t, r3) \<leftarrow> digits1 r2;
          Some (Some (i, t), r3)
        })
   }"

definition size_part :: "string \<Rightarrow> string option" where
  "size_part s = do {
     r \<leftarrow> lit '' ('' s;
     (k, r1) \<leftarrow> digits1 r;
     lit '' KB)'' r1
   }"

definition quoted :: "string \<Rightarrow> string" where
  "quoted p = [QUOTE] @ p @ [QUOTE]"

definition sparse_part :: "string \<Rightarrow> bool \<times> string" where
  "sparse_part s = (case lit ''sparse '' s of None \<Rightarrow> (False, s) | Some r \<Rightarrow> (True, r))"

definition sending_line :: "string \<Rightarrow> string \<Rightarrow> sending option" where
  "sending_line p s = do {
     r \<leftarrow> lit ''Sending '' s;
     let (sp, r1) = sparse_part r;
     r2 \<leftarrow> lit (quoted p) r1;
     (fr, r3) \<leftarrow> frac_part r2;
     r4 \<leftarrow> size_part r3;
     ok \<leftarrow> status (dropWhile dots r4);
     Some \<lparr>sparse = sp, fraction = fr, okay = ok\<rparr>
   }"

definition writing_line :: "string \<Rightarrow> string \<Rightarrow> bool option" where
  "writing_line p s = do {
     r \<leftarrow> lit (''Writing '' @ quoted p) s;
     status (dropWhile dots r)
   }"

definition finished_line :: "string \<Rightarrow> bool" where
  "finished_line s = (case lit ''Finished. Total time: '' s of
       None \<Rightarrow> False
     | Some r \<Rightarrow> seconds r = Some [])"

definition no_newline :: "string \<Rightarrow> bool" where
  "no_newline s \<longleftrightarrow> list_all (\<lambda>c. c \<noteq> CR \<and> c \<noteq> LF) s"

definition bootloader_info :: "string \<Rightarrow> bool" where
  "bootloader_info s = (case lit ''(bootloader)'' s of
       None \<Rightarrow> False
     | Some r \<Rightarrow> r = [] \<or> (case lit '' '' r of None \<Rightarrow> False | Some t \<Rightarrow> no_newline t))"

definition client_error :: "string \<Rightarrow> bool" where
  "client_error s = (case lit ''fastboot: error: '' s of
       None \<Rightarrow> False
     | Some r \<Rightarrow> r \<noteq> [] \<and> no_newline r)"

section \<open>\<open>devices\<close> and \<open>getvar\<close> responses\<close>

definition serial_char :: "char \<Rightarrow> bool" where
  "serial_char c \<longleftrightarrow> is_upper c \<or> is_lower c \<or> is_digit c \<or> c \<in> set ''._:-''"

definition devices_tails :: "string list" where
  "devices_tails =
     [TAB # ''fastboot'' @ [LF], TAB # ''fastboot'' @ [CR, LF],
      TAB # '' fastboot'' @ [LF, LF], TAB # '' fastboot'' @ [CR, LF, CR, LF]]"

definition parse_devices :: "string \<Rightarrow> string option" where
  "parse_devices text =
     (let serial = takeWhile serial_char text; rest = dropWhile serial_char text
      in if serial \<noteq> [] \<and> length serial \<le> 128 \<and> rest \<in> set devices_tails
         then Some serial else None)"

text \<open>\<open>\r?\n\<close>, and \<open>finished_footer_pattern()\<close> at the end of the text.\<close>

definition eol :: "string \<Rightarrow> string option" where
  "eol s = (case lit [CR, LF] s of Some r \<Rightarrow> Some r | None \<Rightarrow> lit [LF] s)"

definition finished_footer :: "string \<Rightarrow> bool" where
  "finished_footer s = (case lit ''Finished. Total time: '' s of
       None \<Rightarrow> False
     | Some r \<Rightarrow> (case seconds r of
           None \<Rightarrow> False
         | Some q \<Rightarrow> q \<in> {[], [LF], [CR], [CR, LF]}))"

definition value_char :: "char \<Rightarrow> bool" where
  "value_char c \<longleftrightarrow> c \<noteq> CR \<and> c \<noteq> LF"

definition getvar_body :: "string \<Rightarrow> string \<Rightarrow> string option" where
  "getvar_body name s = do {
     r \<leftarrow> lit (name @ '': '') s;
     let v = takeWhile value_char r;
     q \<leftarrow> eol (dropWhile value_char r);
     (if v \<noteq> [] \<and> finished_footer q then Some v else None)
   }"

text \<open>The optional group \<open>(?:\(bootloader\) )?\<close> is tried first with, then without, its text.\<close>

definition getvar_success :: "string \<Rightarrow> string \<Rightarrow> string option" where
  "getvar_success name s =
     (case Option.bind (lit ''(bootloader) '' s) (getvar_body name) of
        Some v \<Rightarrow> Some v
      | None \<Rightarrow> getvar_body name s)"

definition blank :: "char \<Rightarrow> bool" where
  "blank c \<longleftrightarrow> c = CHR '' '' \<or> c = TAB"

definition getvar_unsupported :: "string \<Rightarrow> string \<Rightarrow> bool" where
  "getvar_unsupported name s = (case lit (''getvar:'' @ name) s of
       None \<Rightarrow> False
     | Some r \<Rightarrow> takeWhile blank r \<noteq> [] \<and>
         (case lit (''FAILED (remote: '' @ quoted ''GetVar Variable Not found'' @ '')'')
                 (dropWhile blank r) of
            None \<Rightarrow> False
          | Some q \<Rightarrow> (case eol q of None \<Rightarrow> False | Some t \<Rightarrow> finished_footer t)))"

text \<open>\<open>Some (Some v, False)\<close> is a value, \<open>Some (None, True)\<close> an accepted "unsupported".\<close>

definition parse_getvar :: "string \<Rightarrow> string \<Rightarrow> bool \<Rightarrow> (string option \<times> bool) option" where
  "parse_getvar name s allow_unsupported =
     (case getvar_success name s of
        Some v \<Rightarrow> Some (Some v, False)
      | None \<Rightarrow> if allow_unsupported \<and> getvar_unsupported name s then Some (None, True) else None)"

section \<open>Scanning a transcript\<close>

definition line_space :: "char \<Rightarrow> bool" where
  "line_space c \<longleftrightarrow> c = CHR '' '' \<or> c = TAB \<or> c = CR"

definition significant_lines :: "string \<Rightarrow> string list" where
  "significant_lines text =
     filter (\<lambda>l. l \<noteq> []) (map (rstrip line_space) (split_on LF text))"

datatype rung = S | W

record scan =
  sendings :: "sending list"
  ladder :: "rung list"
  failed :: bool
  client_errors :: nat
  footers :: nat

definition scan0 :: scan where
  "scan0 = \<lparr>sendings = [], ladder = [], failed = False, client_errors = 0, footers = 0\<rparr>"

definition scan_line :: "string \<Rightarrow> scan \<Rightarrow> string \<Rightarrow> classification + scan" where
  "scan_line p st line =
     (if finished_line line then Inr (st\<lparr>footers := footers st + 1\<rparr>)
      else if footers st \<noteq> 0 then Inl (unknown ''FINISHED_FOOTER_NOT_FINAL'')
      else if bootloader_info line then Inr st
      else (case sending_line p line of
        Some m \<Rightarrow> Inr (st\<lparr>sendings := sendings st @ [m], ladder := ladder st @ [S],
                        failed := (failed st \<or> \<not> okay m)\<rparr>)
      | None \<Rightarrow> (case writing_line p line of
          Some ok \<Rightarrow> Inr (st\<lparr>ladder := ladder st @ [W], failed := (failed st \<or> \<not> ok)\<rparr>)
        | None \<Rightarrow>
            if client_error line then Inr (st\<lparr>client_errors := client_errors st + 1\<rparr>)
            else Inl (unknown ''UNRECOGNIZED_TRANSCRIPT_LINE''))))"

definition ladder_ok :: "rung list \<Rightarrow> bool" where
  "ladder_ok l \<longleftrightarrow> 2 \<le> length l \<and> length l mod 2 = 0 \<and>
     list_all (\<lambda>i. l ! i = (if i mod 2 = 0 then S else W)) [0..<length l]"

text \<open>
  The verdict on the scanned evidence, everything after the loop.  First the numbering of
  the transfers (\<open>is_sparse\<close> is the single element of the flag set), then the whole.
\<close>

definition numbering_verdict :: "sending list \<Rightarrow> classification" where
  "numbering_verdict ms =
     (let is_sparse = sparse (ms ! 0);
          fractions = map fraction ms;
          why = (if is_sparse then ''SPARSE_TRANSPORT_LADDER_COMPLETE''
                 else ''RAW_TRANSPORT_LADDER_COMPLETE'')
      in if \<not> is_sparse \<and> list_ex (\<lambda>f. f \<noteq> None) fractions
           then unknown ''RAW_SENDING_MUST_BE_SINGLE_UNNUMBERED''
         else if list_all (\<lambda>f. f = None) fractions then
           (if length ms \<noteq> 1 then unknown ''UNNUMBERED_SENDING_REPEATED''
            else \<lparr>outcome = COMPLETED, reason = why\<rparr>)
         else if list_ex (\<lambda>f. f = None) fractions then unknown ''SPARSE_FRACTION_INCOMPLETE''
         else
           (let totals = map (\<lambda>f. dec_val (snd (the f))) fractions in
            if length (remdups totals) \<noteq> 1 then unknown ''SPARSE_FRACTION_INCOMPLETE''
            else if hd totals \<noteq> length ms \<or>
                map (\<lambda>f. dec_val (fst (the f))) fractions \<noteq> [1..<hd totals + 1]
              then unknown ''SPARSE_FRACTION_INCOMPLETE''
            else \<lparr>outcome = COMPLETED, reason = why\<rparr>))"

definition verdict :: "scan \<Rightarrow> classification" where
  "verdict st =
     (if failed st \<or> client_errors st \<noteq> 0 then
        (if ladder st = [S] \<and> length (sendings st) = 1 \<and> \<not> okay (sendings st ! 0)
            \<and> client_errors st \<le> 1
         then \<lparr>outcome = REFUSED, reason = ''DEVICE_REFUSED_BEFORE_FIRST_WRITE''\<rparr>
         else unknown ''TRANSPORT_FAILED_AFTER_TRANSFER_STARTED'')
      else if footers st = 0 then unknown ''FINISHED_FOOTER_MISSING''
      else if footers st > 1 then unknown ''FINISHED_FOOTER_REPEATED''
      else if \<not> ladder_ok (ladder st) then unknown ''TRANSPORT_LADDER_SHAPE_MISMATCH''
      else if length (remdups (map sparse (sendings st))) \<noteq> 1
        then unknown ''MIXED_SPARSE_AND_RAW_SENDING''
      else numbering_verdict (sendings st))"

definition classify :: "bytes \<Rightarrow> bytes \<Rightarrow> string \<Rightarrow> classification result" where
  "classify out err p =
     (if \<not> partition_name p
        then Inl (PyValueError ''partition name is not a strict lowercase identifier'')
      else if out \<noteq> [] then Inr (unknown ''STDOUT_NOT_EMPTY'')
      else if \<not> is_ascii err then Inr (unknown ''TRANSCRIPT_NOT_ASCII'')
      else if significant_lines err = [] then Inr (unknown ''TRANSCRIPT_EMPTY'')
      else (case foldE (scan_line p) scan0 (significant_lines err) of
              Inl c \<Rightarrow> Inr c
            | Inr st \<Rightarrow> Inr (verdict st)))"

section \<open>Line shapes against the regular expressions\<close>

definition digits_re :: rx where "digits_re = rx_plus is_digit"

definition seconds_re :: rx where
  "seconds_re = rx_seq [digits_re, rx_opt (rx_seq [rx_lit ''.'', digits_re]), rx_lit ''s'']"

definition status_re :: rx where
  "status_re = Alt
     (rx_seq [rx_lit ''OKAY ['', Star (Cls (\<lambda>c. c = CHR '' '')), seconds_re, rx_lit '']''])
     (rx_seq [rx_lit (''FAILED (remote: '' @ [QUOTE]), Star (Cls failed_char), rx_lit ([QUOTE] @ '')'')])"

definition sending_re :: "string \<Rightarrow> rx" where
  "sending_re p = rx_seq [rx_lit ''Sending '', rx_opt (rx_lit ''sparse ''), rx_lit (quoted p),
     rx_opt (rx_seq [rx_lit '' '', digits_re, rx_lit ''/'', digits_re]),
     rx_lit '' ('', digits_re, rx_lit '' KB)'', Star (Cls dots), status_re]"

lemma dropWhile_run: "list_all P d \<Longrightarrow> r = [] \<or> \<not> P (hd r) \<Longrightarrow> dropWhile P (d @ r) = r"
  by (cases r) (auto simp: list_all_iff dropWhile_append2)

lemma dropWhile_eq_run: "dropWhile P s = r \<Longrightarrow> \<exists>d. s = d @ r \<and> list_all P d"
  by (metis list_all_iff set_takeWhileD takeWhile_dropWhile_id)

lemma lang_digits [simp]: "lang digits_re = {s. s \<noteq> [] \<and> list_all is_digit s}"
  by (simp add: digits_re_def)

lemma not_digit [simp]:
  "\<not> is_digit (CHR ''.'')" "\<not> is_digit (CHR ''s'')" "\<not> is_digit (CHR ''/'')" "\<not> is_digit (CHR '' '')"
  "\<not> is_digit (CHR ''('')"
  by (simp_all add: is_digit_def ord_def)

lemma seconds_lang:
  "u \<in> lang seconds_re \<longleftrightarrow>
     (\<exists>d. u = d @ ''s'' \<and> d \<noteq> [] \<and> list_all is_digit d) \<or>
     (\<exists>d e. u = d @ ''.'' @ e @ ''s'' \<and> d \<noteq> [] \<and> list_all is_digit d \<and> e \<noteq> [] \<and> list_all is_digit e)"
  by (auto simp: seconds_re_def digits_re_def rx_simps)

lemma seconds_iff:
  "seconds s = Some r \<longleftrightarrow> (\<exists>u. s = u @ r \<and> u \<in> lang seconds_re)"
proof
  assume "seconds s = Some r"
  then obtain d q where d: "s = d @ q" "d \<noteq> []" "list_all is_digit d"
    and q: "(case lit ''.'' q of None \<Rightarrow> lit ''s'' q
        | Some r1 \<Rightarrow> do { (e, r2) \<leftarrow> digits1 r1; lit ''s'' r2 }) = Some r"
    by (auto simp: seconds_def digits1_Some bind_eq_Some_conv)
  show "\<exists>u. s = u @ r \<and> u \<in> lang seconds_re"
  proof (cases "lit ''.'' q")
    case None
    with q d show ?thesis by (auto simp: seconds_lang intro!: exI[of _ "d @ ''s''"])
  next
    case (Some q')
    with q obtain e where e: "q' = e @ ''s'' @ r" "e \<noteq> []" "list_all is_digit e"
      by (auto simp: digits1_Some bind_eq_Some_conv)
    with Some d have "s = (d @ ''.'' @ e @ ''s'') @ r" by simp
    moreover have "d @ ''.'' @ e @ ''s'' \<in> lang seconds_re"
      using d e unfolding seconds_lang by blast
    ultimately show ?thesis by blast
  qed
next
  assume "\<exists>u. s = u @ r \<and> u \<in> lang seconds_re"
  then consider
      d where "s = d @ ''s'' @ r" "d \<noteq> []" "list_all is_digit d"
    | d e where "s = d @ ''.'' @ e @ ''s'' @ r" "d \<noteq> []" "list_all is_digit d"
        "e \<noteq> []" "list_all is_digit e"
    by (auto simp: seconds_lang)
  then show "seconds s = Some r"
  proof cases
    case 1
    then have "digits1 s = Some (d, ''s'' @ r)" by (simp add: digits1_Some)
    then show ?thesis by (simp add: seconds_def)
  next
    case 2
    then have "digits1 s = Some (d, ''.'' @ e @ ''s'' @ r)"
      and "digits1 (e @ ''s'' @ r) = Some (e, ''s'' @ r)" by (simp_all add: digits1_Some)
    then show ?thesis by (simp add: seconds_def)
  qed
qed

lemma seconds_hd: "u \<in> lang seconds_re \<Longrightarrow> u \<noteq> [] \<and> is_digit (hd u)"
  unfolding seconds_lang by (auto simp: neq_Nil_conv)

lemma okay_status_iff:
  "okay_status s \<longleftrightarrow> s \<in> lang (rx_seq [rx_lit ''OKAY ['', Star (Cls (\<lambda>c. c = CHR '' '')), seconds_re, rx_lit '']''])"
proof -
  let ?sp = "\<lambda>c. c = CHR '' ''"
  have "okay_status s \<longleftrightarrow> (\<exists>q. s = ''OKAY ['' @ q \<and> seconds (dropWhile ?sp q) = Some '']'')"
    by (simp add: okay_status_def)
  also have "\<dots> \<longleftrightarrow> (\<exists>d u. s = ''OKAY ['' @ d @ u @ '']'' \<and> list_all ?sp d \<and> u \<in> lang seconds_re)"
  proof
    assume "\<exists>q. s = ''OKAY ['' @ q \<and> seconds (dropWhile ?sp q) = Some '']''"
    then obtain q u where q: "s = ''OKAY ['' @ q" "dropWhile ?sp q = u @ '']''" "u \<in> lang seconds_re"
      unfolding seconds_iff by blast
    moreover obtain d where "q = d @ u @ '']''" "list_all ?sp d"
      using dropWhile_eq_run[OF q(2)] by blast
    ultimately show "\<exists>d u. s = ''OKAY ['' @ d @ u @ '']'' \<and> list_all ?sp d \<and> u \<in> lang seconds_re"
      by blast
  next
    assume "\<exists>d u. s = ''OKAY ['' @ d @ u @ '']'' \<and> list_all ?sp d \<and> u \<in> lang seconds_re"
    then obtain d u where s: "s = ''OKAY ['' @ d @ u @ '']''" "list_all ?sp d" "u \<in> lang seconds_re"
      by blast
    then have "u \<noteq> [] \<and> \<not> ?sp (hd u)"
      using seconds_hd not_digit(4) by metis
    then have "dropWhile ?sp (d @ u @ '']'') = u @ '']''"
      using s(2) by (intro dropWhile_run) auto
    with s show "\<exists>q. s = ''OKAY ['' @ q \<and> seconds (dropWhile ?sp q) = Some '']''"
      by (auto simp: seconds_iff)
  qed
  also have "\<dots> \<longleftrightarrow> s \<in> lang (rx_seq [rx_lit ''OKAY ['', Star (Cls ?sp), seconds_re, rx_lit '']''])"
    by (simp add: seq_lit seq_star lang_seq_Cons[of _ seconds_re]) blast
  finally show ?thesis .
qed

lemma failed_run:
  "(\<exists>r. s = p @ r \<and> dropWhile failed_char r = [QUOTE] @ t) \<longleftrightarrow>
     (\<exists>d. s = p @ d @ [QUOTE] @ t \<and> list_all failed_char d)" (is "?L \<longleftrightarrow> ?R")
proof
  assume ?L
  then obtain r where r: "s = p @ r" "dropWhile failed_char r = [QUOTE] @ t" by blast
  obtain d where "r = d @ [QUOTE] @ t" "list_all failed_char d" using dropWhile_eq_run[OF r(2)] by blast
  with r show ?R by blast
next
  assume ?R
  then obtain d where d: "s = p @ d @ [QUOTE] @ t" "list_all failed_char d" by blast
  moreover have "dropWhile failed_char (d @ [QUOTE] @ t) = [QUOTE] @ t"
    using d(2) by (rule dropWhile_run) (simp add: failed_char_def)
  ultimately show ?L by blast
qed

lemma failed_status_iff:
  "failed_status s \<longleftrightarrow>
     s \<in> lang (rx_seq [rx_lit (''FAILED (remote: '' @ [QUOTE]), Star (Cls failed_char), rx_lit ([QUOTE] @ '')'')])"
proof -
  have "failed_status s \<longleftrightarrow>
      (\<exists>r. s = (''FAILED (remote: '' @ [QUOTE]) @ r \<and> dropWhile failed_char r = [QUOTE] @ '')'')"
    by (simp add: failed_status_def)
  also have "\<dots> \<longleftrightarrow> (\<exists>d. s = (''FAILED (remote: '' @ [QUOTE]) @ d @ [QUOTE] @ '')'' \<and> list_all failed_char d)"
    by (rule failed_run)
  also have "\<dots> \<longleftrightarrow> s \<in> lang (rx_seq [rx_lit (''FAILED (remote: '' @ [QUOTE]), Star (Cls failed_char), rx_lit ([QUOTE] @ '')'')])"
    unfolding seq_lit seq_star lang_seq_Nil by blast
  finally show ?thesis .
qed

lemma status_iff: "status s \<noteq> None \<longleftrightarrow> s \<in> lang status_re"
proof -
  have "status s \<noteq> None \<longleftrightarrow> okay_status s \<or> failed_status s" by (auto simp: status_def)
  also have "\<dots> \<longleftrightarrow> s \<in> lang status_re"
    unfolding status_re_def lang.simps(4) Un_iff okay_status_iff failed_status_iff ..
  finally show ?thesis .
qed

lemma status_hd: "s \<in> lang status_re \<Longrightarrow> s \<noteq> [] \<and> \<not> dots (hd s)"
  unfolding status_re_def lang.simps(4) seq_lit Un_iff by (auto simp: dots_def)

lemma frac_part_iff:
  "frac_part s = Some (fr, '' ('' @ r) \<longleftrightarrow>
     (fr = None \<and> s = '' ('' @ r) \<or>
      (\<exists>i t. fr = Some (i, t) \<and> s = '' '' @ i @ ''/'' @ t @ '' ('' @ r \<and>
         i \<noteq> [] \<and> list_all is_digit i \<and> t \<noteq> [] \<and> list_all is_digit t)"
  (is "?L \<longleftrightarrow> ?R")
proof
  assume L: ?L
  then obtain q where q: "s = '' '' @ q" by (auto simp: frac_part_def bind_eq_Some_conv)
  show ?R
  proof (cases "digits1 q")
    case None
    with L q show ?thesis by (simp add: frac_part_def)
  next
    case (Some ir)
    obtain i r1 where "ir = (i, r1)" by (cases ir)
    with Some have ir: "digits1 q = Some (i, r1)" by simp
    with L q obtain t r2 where "r1 = ''/'' @ r2" "digits1 r2 = Some (t, '' ('' @ r)" "fr = Some (i, t)"
      by (auto simp: frac_part_def bind_eq_Some_conv)
    with ir q show ?thesis by (auto simp: digits1_Some)
  qed
next
  assume ?R
  then show ?L
  proof
    assume A: "fr = None \<and> s = '' ('' @ r"
    then have "digits1 (''('' @ r) = None" by (simp add: digits1_def)
    with A show ?L by (simp add: frac_part_def)
  next
    assume "\<exists>i t. fr = Some (i, t) \<and> s = '' '' @ i @ ''/'' @ t @ '' ('' @ r \<and>
         i \<noteq> [] \<and> list_all is_digit i \<and> t \<noteq> [] \<and> list_all is_digit t"
    then obtain i t where A: "fr = Some (i, t)" "s = '' '' @ i @ ''/'' @ t @ '' ('' @ r"
      "i \<noteq> []" "list_all is_digit i" "t \<noteq> []" "list_all is_digit t" by blast
    then have "digits1 (i @ ''/'' @ t @ '' ('' @ r) = Some (i, ''/'' @ t @ '' ('' @ r)"
      and "digits1 (t @ '' ('' @ r) = Some (t, '' ('' @ r)"
      by (simp_all add: digits1_Some)
    with A(1,2) show ?L by (simp add: frac_part_def)
  qed
qed

lemma frac_part_iff':
  assumes "q = '' ('' @ r"
  shows "frac_part s = Some (fr, q) \<longleftrightarrow>
     (fr = None \<and> s = q) \<or>
      (\<exists>i t. fr = Some (i, t) \<and> s = '' '' @ i @ ''/'' @ t @ q \<and>
         i \<noteq> [] \<and> list_all is_digit i \<and> t \<noteq> [] \<and> list_all is_digit t)"
  unfolding assms frac_part_iff ..

lemma size_part_iff:
  "size_part s = Some r \<longleftrightarrow>
     (\<exists>k. s = '' ('' @ k @ '' KB)'' @ r \<and> k \<noteq> [] \<and> list_all is_digit k)"
  by (auto simp: size_part_def bind_eq_Some_conv digits1_Some)

lemma sparse_part_iff:
  "snd (sparse_part r) = quoted p @ r2 \<and> fst (sparse_part r) = sp \<longleftrightarrow>
     r = (if sp then ''sparse '' else []) @ quoted p @ r2"
  by (auto simp: sparse_part_def quoted_def QUOTE_def split: option.splits)

lemma sending_line_eq:
  "sending_line p s = Some m \<longleftrightarrow>
     (\<exists>r2 r3 r4. s = ''Sending '' @ (if sparse m then ''sparse '' else []) @ quoted p @ r2 \<and>
        frac_part r2 = Some (fraction m, r3) \<and> size_part r3 = Some r4 \<and>
        status (dropWhile dots r4) = Some (okay m))"
proof -
  have "sending_line p s = Some m \<longleftrightarrow>
      (\<exists>r r2 r3 r4. s = ''Sending '' @ r \<and>
        (snd (sparse_part r) = quoted p @ r2 \<and> fst (sparse_part r) = sparse m) \<and>
        frac_part r2 = Some (fraction m, r3) \<and> size_part r3 = Some r4 \<and>
        status (dropWhile dots r4) = Some (okay m))"
    unfolding sending_line_def bind_eq_Some_conv Let_def case_prod_beta' lit_Some
    by (cases m) auto
  then show ?thesis unfolding sparse_part_iff by blast
qed

lemma frac_lang:
  "s \<in> lang (rx_seq (rx_opt (rx_seq [rx_lit '' '', digits_re, rx_lit ''/'', digits_re]) # rs)) \<longleftrightarrow>
     (\<exists>q. q \<in> lang (rx_seq rs) \<and> (s = q \<or> (\<exists>i t. s = '' '' @ i @ ''/'' @ t @ q \<and>
        i \<noteq> [] \<and> list_all is_digit i \<and> t \<noteq> [] \<and> list_all is_digit t)))"
proof -
  have "s \<in> lang (rx_seq (rx_seq [rx_lit '' '', digits_re, rx_lit ''/'', digits_re] # rs)) \<longleftrightarrow>
      (\<exists>v. s = '' '' @ v \<and> (\<exists>i w. v = i @ w \<and> i \<noteq> [] \<and> list_all is_digit i \<and>
        (\<exists>x. w = ''/'' @ x \<and> (\<exists>t q. x = t @ q \<and> t \<noteq> [] \<and> list_all is_digit t \<and> q \<in> lang (rx_seq rs)))))"
    unfolding seq_seq append_Cons append_Nil digits_re_def seq_plus seq_lit ..
  then show ?thesis unfolding seq_opt by blast
qed

lemma size_lang:
  "s \<in> lang (rx_seq [rx_lit '' ('', digits_re, rx_lit '' KB)'', Star (Cls dots), status_re]) \<longleftrightarrow>
     (\<exists>k d u. s = '' ('' @ k @ '' KB)'' @ d @ u \<and> k \<noteq> [] \<and> list_all is_digit k \<and>
        list_all dots d \<and> u \<in> lang status_re)"
proof -
  have "s \<in> lang (rx_seq [rx_lit '' ('', digits_re, rx_lit '' KB)'', Star (Cls dots), status_re]) \<longleftrightarrow>
      (\<exists>v. s = '' ('' @ v \<and> (\<exists>k w. v = k @ w \<and> k \<noteq> [] \<and> list_all is_digit k \<and>
        (\<exists>x. w = '' KB)'' @ x \<and> (\<exists>d u. x = d @ u \<and> list_all dots d \<and> u \<in> lang status_re))))"
    unfolding digits_re_def seq_plus seq_lit seq_star by (simp add: lang_seq_Cons)
  then show ?thesis by blast
qed

lemma optional_prefix:
  "(\<exists>sp r. s = a @ (if sp then b else []) @ q @ r \<and> r \<in> L) \<longleftrightarrow>
     (\<exists>v. s = a @ v \<and> ((\<exists>w. v = q @ w \<and> w \<in> L) \<or> (\<exists>x. v = b @ x \<and> (\<exists>w. x = q @ w \<and> w \<in> L))))"
  unfolding ex_bool_eq if_True if_False append_Nil by blast

text \<open>
  The recogniser of a transfer line accepts exactly the language of the source's
  \<open>sending_pattern\<close>.
\<close>

lemma sending_line_lang: "sending_line p s \<noteq> None \<longleftrightarrow> s \<in> lang (sending_re p)" (is "?L \<longleftrightarrow> ?R")
proof -
  let ?pre = "\<lambda>sp r2. ''Sending '' @ (if sp then ''sparse '' else []) @ quoted p @ r2"
  let ?digs = "\<lambda>d. d \<noteq> [] \<and> list_all is_digit d"
  have tail: "(\<exists>fr r3 r4 ok. frac_part r2 = Some (fr, r3) \<and> size_part r3 = Some r4 \<and>
        status (dropWhile dots r4) = Some ok) \<longleftrightarrow>
      r2 \<in> lang (rx_seq [rx_opt (rx_seq [rx_lit '' '', digits_re, rx_lit ''/'', digits_re]),
          rx_lit '' ('', digits_re, rx_lit '' KB)'', Star (Cls dots), status_re])" (is "?A \<longleftrightarrow> ?B") for r2
  proof
    assume ?A
    then obtain fr r3 r4 ok where A: "frac_part r2 = Some (fr, r3)" "size_part r3 = Some r4"
      "status (dropWhile dots r4) = Some ok" by blast
    from A(2) obtain k where k: "r3 = '' ('' @ k @ '' KB)'' @ r4" "?digs k"
      by (auto simp: size_part_iff)
    obtain d where d: "r4 = d @ dropWhile dots r4" "list_all dots d"
      using dropWhile_eq_run[OF refl] by blast
    have st: "dropWhile dots r4 \<in> lang status_re" using A(3) status_iff by fastforce
    have r3: "r3 \<in> lang (rx_seq [rx_lit '' ('', digits_re, rx_lit '' KB)'', Star (Cls dots), status_re])"
      unfolding size_lang
    proof (intro exI conjI)
      show "r3 = '' ('' @ k @ '' KB)'' @ d @ dropWhile dots r4" using k(1) d(1) by metis
    qed (use k d st in blast)+
    have "r2 = r3 \<or> (\<exists>i t. r2 = '' '' @ i @ ''/'' @ t @ r3 \<and> ?digs i \<and> ?digs t)"
      using A(1) unfolding frac_part_iff'[OF k(1)] by blast
    with r3 show ?B unfolding frac_lang by blast
  next
    assume ?B
    then obtain r3 k d u where r3: "r3 = '' ('' @ k @ '' KB)'' @ d @ u" "?digs k" "list_all dots d" "u \<in> lang status_re"
      and r2: "r2 = r3 \<or> (\<exists>i t. r2 = '' '' @ i @ ''/'' @ t @ r3 \<and> ?digs i \<and> ?digs t)"
      unfolding frac_lang size_lang by blast
    from r2 have "\<exists>fr. frac_part r2 = Some (fr, r3)"
      unfolding frac_part_iff'[OF r3(1)] by blast
    then obtain fr where "frac_part r2 = Some (fr, r3)" by blast
    moreover have "size_part r3 = Some (d @ u)" using r3 by (auto simp: size_part_iff)
    moreover have "dropWhile dots (d @ u) = u"
      using r3(3) status_hd[OF r3(4)] by (intro dropWhile_run) auto
    ultimately show ?A using status_iff[of u] r3(4) by auto
  qed
  have "?L \<longleftrightarrow> (\<exists>sp r2. s = ?pre sp r2 \<and> (\<exists>fr r3 r4 ok. frac_part r2 = Some (fr, r3) \<and>
      size_part r3 = Some r4 \<and> status (dropWhile dots r4) = Some ok))"
  proof
    assume ?L
    then show "\<exists>sp r2. s = ?pre sp r2 \<and> (\<exists>fr r3 r4 ok. frac_part r2 = Some (fr, r3) \<and>
      size_part r3 = Some r4 \<and> status (dropWhile dots r4) = Some ok)"
      unfolding not_None_eq sending_line_eq by blast
  next
    assume "\<exists>sp r2. s = ?pre sp r2 \<and> (\<exists>fr r3 r4 ok. frac_part r2 = Some (fr, r3) \<and>
      size_part r3 = Some r4 \<and> status (dropWhile dots r4) = Some ok)"
    then obtain sp r2 fr r3 r4 ok where "s = ?pre sp r2" "frac_part r2 = Some (fr, r3)"
      "size_part r3 = Some r4" "status (dropWhile dots r4) = Some ok" by blast
    then have "sending_line p s = Some \<lparr>sparse = sp, fraction = fr, okay = ok\<rparr>"
      unfolding sending_line_eq sending.select_convs by blast
    then show ?L by simp
  qed
  also have "\<dots> \<longleftrightarrow> ?R"
    unfolding tail sending_re_def seq_lit[of s] seq_opt[of _ "rx_lit ''sparse ''"] seq_lit[of _ "''sparse ''"]
      seq_lit[of _ "quoted p"] by (rule optional_prefix)
  finally show ?thesis .
qed

end
