(* ===== verification/TranscriptSpec.thy ===== *)
theory TranscriptSpec
  imports Transcript
begin

text \<open>
  What the transcript grammar promises: a declarative description of a completed and of a
  refused flash, and the proof that \<open>classify\<close> answers \<open>COMPLETED\<close> or \<open>REFUSED\<close> exactly
  for them.
\<close>

section \<open>The scan in closed form\<close>

definition body_line :: "string \<Rightarrow> string \<Rightarrow> bool" where
  "body_line p l \<longleftrightarrow> \<not> finished_line l \<and>
     (bootloader_info l \<or> sending_line p l \<noteq> None \<or> writing_line p l \<noteq> None \<or> client_error l)"

text \<open>The five line shapes exclude each other: they differ in their first characters.\<close>

lemma finished_hd: "finished_line l \<Longrightarrow> l \<noteq> [] \<and> hd l = CHR ''F''"
  by (auto simp: finished_line_def)

lemma info_hd: "bootloader_info l \<Longrightarrow> l \<noteq> [] \<and> hd l = CHR ''(''"
  by (auto simp: bootloader_info_def)

lemma sending_hd: "sending_line p l = Some m \<Longrightarrow> l \<noteq> [] \<and> hd l = CHR ''S''"
  unfolding sending_line_eq by auto

lemma writing_hd: "writing_line p l = Some ok \<Longrightarrow> l \<noteq> [] \<and> hd l = CHR ''W''"
  by (auto simp: writing_line_def bind_eq_Some_conv)

lemma client_hd: "client_error l \<Longrightarrow> l \<noteq> [] \<and> hd l = CHR ''f''"
  by (auto simp: client_error_def)

lemmas line_hds = finished_hd info_hd sending_hd writing_hd client_hd

lemma noneI: "(\<And>x. m = Some x \<Longrightarrow> False) \<Longrightarrow> m = None"
  by (cases m) auto

lemma info_exclusive:
  assumes "bootloader_info l"
  shows "\<not> finished_line l" "sending_line p l = None" "writing_line p l = None" "\<not> client_error l"
  using assms by (auto intro!: noneI dest!: line_hds)

lemma sending_exclusive:
  assumes "sending_line p l = Some m"
  shows "\<not> finished_line l" "\<not> bootloader_info l" "writing_line p l = None" "\<not> client_error l"
  using assms by (auto intro!: noneI dest!: line_hds)

lemma writing_exclusive:
  assumes "writing_line p l = Some ok"
  shows "\<not> finished_line l" "\<not> bootloader_info l" "sending_line p l = None" "\<not> client_error l"
  using assms by (auto intro!: noneI dest!: line_hds)

lemma client_exclusive:
  assumes "client_error l"
  shows "\<not> finished_line l" "\<not> bootloader_info l" "sending_line p l = None" "writing_line p l = None"
  using assms by (auto intro!: noneI dest!: line_hds)

text \<open>What the scan collects from the lines before the footer.\<close>

definition sends :: "string \<Rightarrow> string list \<Rightarrow> sending list" where
  "sends p ls = List.map_filter (sending_line p) ls"

definition line_rung :: "string \<Rightarrow> string \<Rightarrow> rung option" where
  "line_rung p l = (if sending_line p l \<noteq> None then Some S
     else if writing_line p l \<noteq> None then Some W else None)"

definition rungs :: "string \<Rightarrow> string list \<Rightarrow> rung list" where
  "rungs p ls = List.map_filter (line_rung p) ls"

definition line_failed :: "string \<Rightarrow> string \<Rightarrow> bool" where
  "line_failed p l \<longleftrightarrow> (\<exists>m. sending_line p l = Some m \<and> \<not> okay m) \<or> writing_line p l = Some False"

definition summary :: "string \<Rightarrow> string list \<Rightarrow> scan \<Rightarrow> scan" where
  "summary p ls st = \<lparr>sendings = sendings st @ sends p ls, ladder = ladder st @ rungs p ls,
     failed = (failed st \<or> list_ex (line_failed p) ls),
     client_errors = client_errors st + length (filter client_error ls), footers = footers st\<rparr>"

lemma scan_line_body:
  assumes "footers st = 0" "body_line p l"
  shows "scan_line p st l = Inr (summary p [l] st)"
proof -
  consider "bootloader_info l" | m where "sending_line p l = Some m" | ok where "writing_line p l = Some ok"
    | "client_error l"
    using assms(2) by (auto simp: body_line_def)
  then show ?thesis
  proof cases
    case 1
    with assms show ?thesis
      by (simp add: scan_line_def summary_def sends_def rungs_def line_rung_def line_failed_def
          map_filter_simps info_exclusive)
  next
    case 2
    with assms sending_exclusive[OF 2] show ?thesis
      by (simp add: scan_line_def summary_def sends_def rungs_def line_rung_def line_failed_def
          map_filter_simps)
  next
    case 3
    with assms writing_exclusive[OF 3] show ?thesis
      by (cases ok) (simp_all add: scan_line_def summary_def sends_def rungs_def line_rung_def line_failed_def
          map_filter_simps)
  next
    case 4
    with assms client_exclusive[OF 4] show ?thesis
      by (simp add: scan_line_def summary_def sends_def rungs_def line_rung_def line_failed_def
          map_filter_simps)
  qed
qed

lemma summary_Cons: "summary p (l # ls) st = summary p ls (summary p [l] st)"
  by (simp add: summary_def sends_def rungs_def List.map_filter_def)

lemma footers_summary [simp]: "footers (summary p ls st) = footers st"
  by (simp add: summary_def)

lemma scan_body:
  "footers st = 0 \<Longrightarrow> list_all (body_line p) ls \<Longrightarrow> foldE (scan_line p) st ls = Inr (summary p ls st)"
proof (induction ls arbitrary: st)
  case Nil
  then show ?case by (simp add: summary_def sends_def rungs_def List.map_filter_def)
next
  case (Cons l ls)
  then show ?case by (simp add: scan_line_body summary_Cons[of p l ls])
qed

lemma scan_line_finished: "finished_line l \<Longrightarrow> scan_line p st l = Inr (st\<lparr>footers := footers st + 1\<rparr>)"
  by (simp add: scan_line_def)

lemma scan_line_late:
  "footers st \<noteq> 0 \<Longrightarrow> \<not> finished_line l \<Longrightarrow> scan_line p st l = Inl (unknown ''FINISHED_FOOTER_NOT_FINAL'')"
  by (simp add: scan_line_def)

lemma scan_footers:
  "list_all finished_line ls \<Longrightarrow>
     foldE (scan_line p) st ls = Inr (st\<lparr>footers := footers st + length ls\<rparr>)"
  by (induction ls arbitrary: st) (simp_all add: scan_line_finished)

lemma scan_line_not_ok:
  "\<not> body_line p l \<Longrightarrow> \<not> finished_line l \<Longrightarrow> footers st = 0 \<Longrightarrow>
     scan_line p st l = Inl (unknown ''UNRECOGNIZED_TRANSCRIPT_LINE'')"
  by (auto simp: scan_line_def body_line_def)

lemma scan_after_footer:
  "footers st \<noteq> 0 \<Longrightarrow> foldE (scan_line p) st ls = Inr st' \<Longrightarrow> list_all finished_line ls"
proof (induction ls arbitrary: st)
  case Nil
  then show ?case by simp
next
  case (Cons l ls)
  then show ?case using Cons.IH[of "st\<lparr>footers := footers st + 1\<rparr>"]
    by (cases "finished_line l") (auto simp: scan_line_finished scan_line_late)
qed

lemma scan_Inr_iff:
  assumes "footers st = 0"
  shows "foldE (scan_line p) st ls = Inr st' \<longleftrightarrow>
     (\<exists>body fins. ls = body @ fins \<and> list_all (body_line p) body \<and> list_all finished_line fins \<and>
        st' = (summary p body st)\<lparr>footers := length fins\<rparr>)" (is "?L \<longleftrightarrow> ?R")
proof
  assume ?R
  with assms show ?L by (auto simp: foldE_append scan_body scan_footers)
next
  assume ?L
  with assms show ?R
  proof (induction ls arbitrary: st)
    case Nil
    then show ?case
      by (auto simp: summary_def sends_def rungs_def List.map_filter_def)
  next
    case (Cons l ls)
    show ?case
    proof (cases "finished_line l")
      case True
      then have "foldE (scan_line p) (st\<lparr>footers := footers st + 1\<rparr>) ls = Inr st'"
        using Cons.prems by (simp add: scan_line_finished)
      moreover from this have "list_all finished_line ls"
        by (rule scan_after_footer[rotated]) simp
      ultimately have "list_all finished_line (l # ls)" "st' = st\<lparr>footers := length (l # ls)\<rparr>"
        using True Cons.prems(1) by (simp_all add: scan_footers)
      then show ?thesis
        by (intro exI[of _ "[]"] exI[of _ "l # ls"])
           (simp add: summary_def sends_def rungs_def List.map_filter_def)
    next
      case False
      with Cons.prems have b: "body_line p l"
        by (metis Inr_Inl_False bindE.simps(1) foldE.simps(2) scan_line_not_ok)
      with Cons.prems have "foldE (scan_line p) (summary p [l] st) ls = Inr st'"
        by (simp add: scan_line_body)
      with Cons.IH[of "summary p [l] st"] Cons.prems(1) obtain body fins where
        "ls = body @ fins" "list_all (body_line p) body" "list_all finished_line fins"
        "st' = (summary p body (summary p [l] st))\<lparr>footers := length fins\<rparr>" by auto
      with b show ?thesis
        by (intro exI[of _ "l # body"] exI[of _ fins]) (simp add: summary_Cons[of p l body])
    qed
  qed
qed

section \<open>Ladders\<close>

fun alternating :: "rung list \<Rightarrow> bool" where
  "alternating [] = True"
| "alternating (S # W # l) = alternating l"
| "alternating _ = False"

lemma ladder_parity:
  "alternating l \<longleftrightarrow> length l mod 2 = 0 \<and> (\<forall>i < length l. l ! i = (if i mod 2 = 0 then S else W))"
proof (induction l rule: alternating.induct)
  case (2 l)
  have "(\<forall>i < Suc (Suc (length l)). (S # W # l) ! i = (if i mod 2 = 0 then S else W)) \<longleftrightarrow>
      (\<forall>i < length l. l ! i = (if i mod 2 = 0 then S else W))" (is "?A \<longleftrightarrow> ?B")
  proof
    assume ?A
    show ?B
    proof (intro allI impI)
      fix i
      assume "i < length l"
      with \<open>?A\<close> have "(S # W # l) ! Suc (Suc i) = (if Suc (Suc i) mod 2 = 0 then S else W)" by blast
      then show "l ! i = (if i mod 2 = 0 then S else W)" by simp
    qed
  next
    assume ?B
    show ?A
    proof (intro allI impI)
      fix i
      assume "i < Suc (Suc (length l))"
      with \<open>?B\<close> show "(S # W # l) ! i = (if i mod 2 = 0 then S else W)"
        by (cases i; cases "i - 1") auto
    qed
  qed
  with 2 show ?case by simp
qed auto

lemma ladder_ok_iff: "ladder_ok l \<longleftrightarrow> alternating l \<and> l \<noteq> []"
proof -
  have "alternating l \<Longrightarrow> l \<noteq> [] \<Longrightarrow> 2 \<le> length l"
    by (cases l rule: alternating.cases) auto
  then show ?thesis
    unfolding ladder_ok_def ladder_parity by (auto simp: list_all_iff)
qed

text \<open>
  A completed sparse transfer, after the INFO lines are dropped: chunk \<open>i+1\<close> of \<open>n\<close>, its
  write, and the rest.
\<close>

inductive chunks :: "string \<Rightarrow> nat \<Rightarrow> nat \<Rightarrow> string list \<Rightarrow> bool" for p n where
  chunks_Nil: "chunks p n n []"
| chunks_pair: "sending_line p s = Some \<lparr>sparse = True, fraction = Some (a, b), okay = True\<rparr> \<Longrightarrow>
     dec_val a = Suc i \<Longrightarrow> dec_val b = n \<Longrightarrow> writing_line p w = Some True \<Longrightarrow>
     chunks p n (Suc i) ls \<Longrightarrow> chunks p n i (s # w # ls)"

definition complete_flash :: "string \<Rightarrow> string list \<Rightarrow> bool" where
  "complete_flash p ls \<longleftrightarrow> (\<exists>body footer. ls = body @ [footer] \<and> finished_line footer \<and>
     (let b = filter (\<lambda>l. \<not> bootloader_info l) body in
        (\<exists>n \<ge> 1. chunks p n 0 b) \<or>
        (\<exists>s w sp. b = [s, w] \<and> writing_line p w = Some True \<and>
           sending_line p s = Some \<lparr>sparse = sp, fraction = None, okay = True\<rparr>)))"

definition refused_flash :: "string \<Rightarrow> string list \<Rightarrow> bool" where
  "refused_flash p ls \<longleftrightarrow> (\<exists>body footers. ls = body @ footers \<and> list_all finished_line footers \<and>
     (let b = filter (\<lambda>l. \<not> bootloader_info l) body in
        \<exists>s m. filter (\<lambda>l. \<not> client_error l) b = [s] \<and> length (filter client_error b) \<le> 1 \<and>
          sending_line p s = Some m \<and> \<not> okay m))"

text \<open>INFO lines leave no trace in the summary.\<close>

lemma summary_no_info:
  "summary p (filter (\<lambda>l. \<not> bootloader_info l) ls) st = summary p ls st"
proof -
  have "sends p (filter (\<lambda>l. \<not> bootloader_info l) ls) = sends p ls \<and>
      rungs p (filter (\<lambda>l. \<not> bootloader_info l) ls) = rungs p ls \<and>
      list_ex (line_failed p) (filter (\<lambda>l. \<not> bootloader_info l) ls) = list_ex (line_failed p) ls \<and>
      filter client_error (filter (\<lambda>l. \<not> bootloader_info l) ls) = filter client_error ls"
    by (induction ls)
      (auto simp: sends_def rungs_def map_filter_simps line_rung_def line_failed_def info_exclusive)
  then show ?thesis by (simp add: summary_def)
qed

text \<open>Without INFO lines and client errors, the lines are the ladder.\<close>

definition rung_line :: "string \<Rightarrow> string \<Rightarrow> bool" where
  "rung_line p l \<longleftrightarrow> sending_line p l \<noteq> None \<or> writing_line p l \<noteq> None"

lemma alternating_lines:
  "list_all (rung_line p) ls \<Longrightarrow> alternating (rungs p ls) \<Longrightarrow>
     ls = [] \<or> (\<exists>s w rest m ok. ls = s # w # rest \<and> sending_line p s = Some m \<and> writing_line p w = Some ok \<and>
        list_all (rung_line p) rest \<and> alternating (rungs p rest) \<and>
        sends p ls = m # sends p rest)"
proof (cases ls)
  case (Cons s ls')
  assume A: "list_all (rung_line p) ls" "alternating (rungs p ls)"
  show ?thesis
  proof (cases "sending_line p s")
    case None
    with A Cons obtain ok where "writing_line p s = Some ok" by (auto simp: rung_line_def)
    with A Cons None show ?thesis
      by (simp add: rungs_def map_filter_simps line_rung_def)
  next
    case (Some m)
    note s = Some
    show ?thesis
    proof (cases ls')
      case Nil
      with A Cons s show ?thesis by (simp add: rungs_def map_filter_simps line_rung_def)
    next
      case (Cons w rest)
      have "sending_line p w = None"
        using A \<open>ls = s # ls'\<close> Cons s
        by (auto simp: rungs_def map_filter_simps line_rung_def split: if_splits)
      moreover from this obtain ok where "writing_line p w = Some ok"
        using A \<open>ls = s # ls'\<close> Cons by (auto simp: rung_line_def)
      ultimately show ?thesis
        using A \<open>ls = s # ls'\<close> Cons s
        by (auto simp: rungs_def sends_def map_filter_simps line_rung_def)
    qed
  qed
qed simp

lemma chunks_shape:
  "chunks p n i ls \<Longrightarrow> list_all (rung_line p) ls \<and> alternating (rungs p ls) \<and> i \<le> n \<and> (ls = [] \<longrightarrow> i = n)"
  by (induction rule: chunks.induct)
    (auto simp: rungs_def map_filter_simps line_rung_def rung_line_def writing_exclusive)

definition index_of :: "sending \<Rightarrow> nat" where
  "index_of m = dec_val (fst (the (fraction m)))"

definition total_of :: "sending \<Rightarrow> nat" where
  "total_of m = dec_val (snd (the (fraction m)))"

definition numbered :: "nat \<Rightarrow> sending \<Rightarrow> bool" where
  "numbered n m \<longleftrightarrow> sparse m \<and> fraction m \<noteq> None \<and> total_of m = n"

lemma chunks_Nil_iff: "chunks p n i [] \<longleftrightarrow> i = n"
  by (auto elim: chunks.cases intro: chunks_Nil)

lemma chunks_iff:
  assumes "list_all (rung_line p) ls" "alternating (rungs p ls)" "i \<le> n"
  shows "chunks p n i ls \<longleftrightarrow>
     \<not> list_ex (line_failed p) ls \<and> list_all (numbered n) (sends p ls) \<and>
     map index_of (sends p ls) = [Suc i..<Suc n]"
  using assms
proof (induction ls arbitrary: i rule: length_induct)
  case (1 ls)
  show ?case
  proof (cases "ls = []")
    case True
    with "1.prems"(3) show ?thesis
      by (auto simp: sends_def map_filter_simps chunks_Nil_iff)
  next
    case False
    then obtain s w rest m ok where ls: "ls = s # w # rest" and sw: "sending_line p s = Some m"
      "writing_line p w = Some ok" and rest: "list_all (rung_line p) rest" "alternating (rungs p rest)"
      and sends: "sends p ls = m # sends p rest"
      using alternating_lines "1.prems"(1,2) by blast
    have failed: "list_ex (line_failed p) ls \<longleftrightarrow> \<not> okay m \<or> \<not> ok \<or> list_ex (line_failed p) rest"
      using sw sending_exclusive[OF sw(1)] writing_exclusive[OF sw(2)]
      by (auto simp: ls line_failed_def)
    have IH: "Suc i \<le> n \<Longrightarrow> chunks p n (Suc i) rest \<longleftrightarrow>
        \<not> list_ex (line_failed p) rest \<and> list_all (numbered n) (sends p rest) \<and>
        map index_of (sends p rest) = [Suc (Suc i)..<Suc n]"
      using "1.IH" rest by (simp add: ls)
    have "chunks p n i ls \<longleftrightarrow> okay m \<and> ok \<and> numbered n m \<and> index_of m = Suc i \<and> chunks p n (Suc i) rest"
    proof
      assume "chunks p n i ls"
      then show "okay m \<and> ok \<and> numbered n m \<and> index_of m = Suc i \<and> chunks p n (Suc i) rest"
        using sw by (cases rule: chunks.cases) (auto simp: ls numbered_def total_of_def index_of_def)
    next
      assume A: "okay m \<and> ok \<and> numbered n m \<and> index_of m = Suc i \<and> chunks p n (Suc i) rest"
      then obtain a b where "m = \<lparr>sparse = True, fraction = Some (a, b), okay = True\<rparr>"
        "dec_val a = Suc i" "dec_val b = n"
        by (cases m) (auto simp: numbered_def total_of_def index_of_def)
      with A sw show "chunks p n i ls" unfolding ls by (auto intro: chunks_pair)
    qed
    also have "\<dots> \<longleftrightarrow> okay m \<and> ok \<and> numbered n m \<and> index_of m = Suc i \<and> Suc i \<le> n \<and>
        \<not> list_ex (line_failed p) rest \<and> list_all (numbered n) (sends p rest) \<and>
        map index_of (sends p rest) = [Suc (Suc i)..<Suc n]"
      using IH chunks_shape[of p n "Suc i" rest] by blast
    also have "\<dots> \<longleftrightarrow> \<not> list_ex (line_failed p) ls \<and> list_all (numbered n) (sends p ls) \<and>
        map index_of (sends p ls) = [Suc i..<Suc n]"
    proof -
      have up: "[Suc i..<Suc n] = (if Suc i \<le> n then Suc i # [Suc (Suc i)..<Suc n] else [])"
        by (simp add: upt_conv_Cons)
      show ?thesis unfolding failed sends up by auto
    qed
    finally show ?thesis .
  qed
qed

lemma remdups_one: "length (remdups xs) = 1 \<longleftrightarrow> (\<exists>x. set xs = {x})"
proof -
  have "length (remdups xs) = card (set xs)" by (rule length_remdups_card_conv)
  then show ?thesis by (simp add: card_1_singleton_iff)
qed

lemma numbering_completed:
  assumes sp: "set (map sparse ms) = {sp}"
  shows "outcome (numbering_verdict ms) = COMPLETED \<longleftrightarrow>
     length ms = 1 \<and> fraction (ms ! 0) = None \<or>
     (\<exists>n. list_all (numbered n) ms \<and> map index_of ms = [1..<n + 1])"
  (is "?L \<longleftrightarrow> ?R")
proof -
  obtain m0 rest where ms: "ms = m0 # rest" using sp by (cases ms) auto
  have all_sp: "\<forall>m \<in> set ms. sparse m = sp" using sp by auto
  have m0: "sparse (ms ! 0) = sp" using all_sp ms by simp
  define fr where "fr = map fraction ms"
  define tot where "tot = map (\<lambda>f. dec_val (snd (the f))) fr"
  define idx where "idx = map (\<lambda>f. dec_val (fst (the f))) fr"
  have tot_eq: "tot = map total_of ms" and idx_eq: "idx = map index_of ms"
    by (simp_all add: tot_def idx_def fr_def total_of_def index_of_def)
  have L: "?L \<longleftrightarrow> (if \<not> sp \<and> list_ex (\<lambda>f. f \<noteq> None) fr then False
      else if list_all (\<lambda>f. f = None) fr then length ms = 1
      else if list_ex (\<lambda>f. f = None) fr then False
      else length (remdups tot) = 1 \<and> hd tot = length ms \<and> idx = [1..<hd tot + 1])"
    unfolding numbering_verdict_def Let_def m0 fr_def[symmetric] tot_def[symmetric] idx_def[symmetric]
    by (simp add: unknown_def)
  have numb: "(\<exists>n. list_all (numbered n) ms \<and> map index_of ms = [1..<n + 1]) \<longleftrightarrow>
      sp \<and> \<not> list_ex (\<lambda>f. f = None) fr \<and> length (remdups tot) = 1 \<and>
      hd tot = length ms \<and> idx = [1..<hd tot + 1]" (is "?N \<longleftrightarrow> ?M")
  proof
    assume ?N
    then obtain n where n: "list_all (numbered n) ms" "map index_of ms = [1..<n + 1]" by blast
    from n(2) have "length (map index_of ms) = length [1..<n + 1]" by (rule arg_cong)
    then have len: "length ms = n" by simp
    have "set tot = {n}" "hd tot = n" "sp" using n(1) ms m0
      by (auto simp: tot_eq numbered_def list_all_iff)
    moreover have "\<not> list_ex (\<lambda>f. f = None) fr"
      using n(1) by (auto simp: fr_def numbered_def list_all_iff list_ex_iff)
    ultimately show ?M using n(2) len unfolding remdups_one idx_eq by auto
  next
    assume M: ?M
    then obtain t where t: "set tot = {t}" unfolding remdups_one by blast
    moreover have "hd tot \<in> set tot" using ms by (simp add: tot_eq)
    ultimately have "hd tot = t" by simp
    moreover have "None \<notin> set fr" using M by (auto simp: list_ex_iff)
    then have "\<forall>m \<in> set ms. fraction m \<noteq> None" unfolding fr_def by (metis image_eqI set_map)
    then have "list_all (numbered t) ms"
      using M t all_sp unfolding list_all_iff numbered_def tot_eq by auto
    ultimately show ?N using M unfolding idx_eq by blast
  qed
  have none: "length ms = 1 \<and> fraction (ms ! 0) = None \<longleftrightarrow> list_all (\<lambda>f. f = None) fr \<and> length ms = 1"
    using ms by (auto simp: fr_def)
  have "list_all (\<lambda>f. f = None) fr \<Longrightarrow> list_ex (\<lambda>f. f = None) fr" using ms by (simp add: fr_def)
  moreover have "list_all (\<lambda>f. f = None) fr \<longleftrightarrow> \<not> list_ex (\<lambda>f. f \<noteq> None) fr"
    unfolding list_all_iff list_ex_iff by blast
  ultimately show ?thesis
    unfolding L numb none by (cases sp; cases "list_all (\<lambda>f. f = None) fr") simp_all
qed

lemma verdict_completed:
  "outcome (verdict st) = COMPLETED \<longleftrightarrow>
     \<not> failed st \<and> client_errors st = 0 \<and> footers st = 1 \<and> ladder_ok (ladder st) \<and>
     (\<exists>sp. set (map sparse (sendings st)) = {sp}) \<and>
     (length (sendings st) = 1 \<and> fraction (sendings st ! 0) = None \<or>
      (\<exists>n. list_all (numbered n) (sendings st) \<and> map index_of (sendings st) = [1..<n + 1]))"
proof -
  have "outcome (verdict st) = COMPLETED \<longleftrightarrow>
     \<not> failed st \<and> client_errors st = 0 \<and> footers st = 1 \<and> ladder_ok (ladder st) \<and>
     (\<exists>sp. set (map sparse (sendings st)) = {sp}) \<and>
     outcome (numbering_verdict (sendings st)) = COMPLETED"
    unfolding verdict_def remdups_one by (auto simp: unknown_def)
  then show ?thesis using numbering_completed by blast
qed

section \<open>Refinement of the declarative description\<close>

lemma body_line_filter:
  "list_all (body_line p) ls \<Longrightarrow> filter client_error ls = [] \<Longrightarrow>
     list_all (rung_line p) (filter (\<lambda>l. \<not> bootloader_info l) ls)"
  by (induction ls) (auto simp: body_line_def rung_line_def split: if_splits)

lemma rung_lines_body:
  "list_all (rung_line p) (filter (\<lambda>l. \<not> bootloader_info l) ls) \<Longrightarrow>
     list_all (body_line p) ls \<and> filter client_error ls = []"
proof (induction ls)
  case Nil
  then show ?case by simp
next
  case (Cons l ls)
  show ?case
  proof (cases "bootloader_info l")
    case True
    with Cons show ?thesis by (simp add: body_line_def info_exclusive)
  next
    case False
    with Cons.prems have "rung_line p l" by simp
    then have "body_line p l" "\<not> client_error l"
      by (auto simp: body_line_def rung_line_def sending_exclusive writing_exclusive)
    with False Cons show ?thesis by simp
  qed
qed

lemma single_pair:
  assumes "list_all (rung_line p) b" "alternating (rungs p b)" "length (sends p b) = 1"
  shows "\<exists>s w m ok. b = [s, w] \<and> sending_line p s = Some m \<and> writing_line p w = Some ok \<and> sends p b = [m]"
proof -
  have "b \<noteq> []" using assms(3) by (auto simp: sends_def map_filter_simps)
  then obtain s w rest m ok where b: "b = s # w # rest" "sending_line p s = Some m" "writing_line p w = Some ok"
    "list_all (rung_line p) rest" "alternating (rungs p rest)" "sends p b = m # sends p rest"
    using alternating_lines assms(1,2) by blast
  have "rest = []"
  proof (rule ccontr)
    assume "rest \<noteq> []"
    then obtain m' ms where "sends p rest = m' # ms" using alternating_lines b(4,5) by blast
    with assms(3) b(6) show False by simp
  qed
  with b assms(3) show ?thesis by (auto simp: sends_def map_filter_simps)
qed

lemma complete_body:
  assumes "b = filter (\<lambda>l. \<not> bootloader_info l) body"
  shows "((\<exists>n \<ge> 1. chunks p n 0 b) \<or>
      (\<exists>s w sp. b = [s, w] \<and> writing_line p w = Some True \<and>
         sending_line p s = Some \<lparr>sparse = sp, fraction = None, okay = True\<rparr>)) \<longleftrightarrow>
     list_all (body_line p) body \<and>
     outcome (verdict ((summary p body scan0)\<lparr>footers := 1\<rparr>)) = COMPLETED" (is "?L \<longleftrightarrow> ?R")
proof -
  have sum: "summary p body scan0 = summary p b scan0" unfolding assms summary_no_info ..
  have v: "outcome (verdict ((summary p body scan0)\<lparr>footers := 1\<rparr>)) = COMPLETED \<longleftrightarrow>
      \<not> list_ex (line_failed p) b \<and> filter client_error b = [] \<and> alternating (rungs p b) \<and> rungs p b \<noteq> [] \<and>
      (\<exists>sp. set (map sparse (sends p b)) = {sp}) \<and>
      (length (sends p b) = 1 \<and> fraction (sends p b ! 0) = None \<or>
       (\<exists>n. list_all (numbered n) (sends p b) \<and> map index_of (sends p b) = [1..<n + 1]))"
    unfolding verdict_completed sum ladder_ok_iff by (simp add: summary_def scan0_def)
  show ?thesis
  proof
    assume ?L
    then show ?R
    proof
      assume "\<exists>n \<ge> 1. chunks p n 0 b"
      then obtain n where n: "n \<ge> 1" "chunks p n 0 b" by blast
      note shape = chunks_shape[OF n(2)]
      have iff: "\<not> list_ex (line_failed p) b \<and> list_all (numbered n) (sends p b) \<and>
          map index_of (sends p b) = [1..<n + 1]"
        using n chunks_iff[of p b 0 n] shape by simp
      have b: "b \<noteq> []" using shape n(1) by auto
      then obtain m ms where ms: "sends p b = m # ms" using alternating_lines[of p b] shape by blast
      have "set (map sparse (sends p b)) = {True}"
        using iff unfolding ms by (auto simp: numbered_def list_all_iff)
      moreover have "rungs p b \<noteq> []"
        using b shape by (auto simp: rungs_def map_filter_simps line_rung_def rung_line_def neq_Nil_conv)
      moreover have "list_all (body_line p) body" "filter client_error body = []"
        using rung_lines_body shape assms by blast+
      then have "filter client_error b = []" unfolding assms by (induction body) auto
      ultimately show ?R unfolding v using iff shape \<open>list_all (body_line p) body\<close> by blast
    next
      assume "\<exists>s w sp. b = [s, w] \<and> writing_line p w = Some True \<and>
         sending_line p s = Some \<lparr>sparse = sp, fraction = None, okay = True\<rparr>"
      then obtain s w sp where b: "b = [s, w]" "writing_line p w = Some True"
        "sending_line p s = Some \<lparr>sparse = sp, fraction = None, okay = True\<rparr>" by blast
      have "list_all (rung_line p) b" using b by (simp add: rung_line_def)
      then have "list_all (body_line p) body" using rung_lines_body assms by blast
      moreover have "\<not> list_ex (line_failed p) b \<and> filter client_error b = [] \<and> rungs p b = [S, W] \<and>
          sends p b = [\<lparr>sparse = sp, fraction = None, okay = True\<rparr>]"
        using b sending_exclusive[OF b(3)] writing_exclusive[OF b(2)]
        by (simp add: line_failed_def rungs_def sends_def map_filter_simps line_rung_def)
      ultimately show ?R unfolding v by simp
    qed
  next
    assume R: ?R
    then have body: "list_all (body_line p) body" by blast
    from R have vv: "\<not> list_ex (line_failed p) b" "filter client_error b = []" "alternating (rungs p b)"
      "rungs p b \<noteq> []"
      "length (sends p b) = 1 \<and> fraction (sends p b ! 0) = None \<or>
       (\<exists>n. list_all (numbered n) (sends p b) \<and> map index_of (sends p b) = [1..<n + 1])"
      unfolding v by blast+
    have "filter client_error body = filter client_error b"
      unfolding assms by (induction body) (auto simp: info_exclusive)
    then have rl: "list_all (rung_line p) b" using body_line_filter[OF body] vv(2) assms by simp
    from vv(5) show ?L
    proof
      assume one: "length (sends p b) = 1 \<and> fraction (sends p b ! 0) = None"
      then obtain s w m ok where b: "b = [s, w]" "sending_line p s = Some m" "writing_line p w = Some ok"
        "sends p b = [m]"
        using single_pair[OF rl vv(3)] by blast
      with vv(1) have "okay m" "ok" by (auto simp: line_failed_def)
      with b one have "sending_line p s = Some \<lparr>sparse = sparse m, fraction = None, okay = True\<rparr>"
        by (cases m) simp
      moreover have "writing_line p w = Some True" using b(3) \<open>ok\<close> by simp
      ultimately show ?L using b(1) by blast
    next
      assume "\<exists>n. list_all (numbered n) (sends p b) \<and> map index_of (sends p b) = [1..<n + 1]"
      then obtain n where n: "list_all (numbered n) (sends p b)" "map index_of (sends p b) = [1..<n + 1]"
        by blast
      have c: "chunks p n 0 b" using chunks_iff[OF rl vv(3), of 0 n] vv(1) n by simp
      have "b \<noteq> []" using vv(4) by (auto simp: rungs_def map_filter_simps)
      with chunks_Nil_iff c have "n \<ge> 1"
        using n(2) alternating_lines[OF rl vv(3)] by (cases n) auto
      with c show ?L by blast
    qed
  qed
qed

text \<open>The complete description of a transcript that reaches the line scanner.\<close>

definition scannable :: "bytes \<Rightarrow> bytes \<Rightarrow> string \<Rightarrow> bool" where
  "scannable out err p \<longleftrightarrow>
     partition_name p \<and> out = [] \<and> is_ascii err \<and> significant_lines err \<noteq> []"

lemma scan_early: "foldE (scan_line p) st ls = Inl c \<Longrightarrow> outcome c = UNKNOWN"
  by (induction ls arbitrary: st)
    (auto simp: scan_line_def unknown_def split: if_splits option.splits)

lemma classify_fold:
  assumes "outcome c \<noteq> UNKNOWN"
  shows "classify out err p = Inr c \<longleftrightarrow> scannable out err p \<and>
     (\<exists>st. foldE (scan_line p) scan0 (significant_lines err) = Inr st \<and> c = verdict st)"
proof (cases "scannable out err p")
  case False
  then show ?thesis using assms by (auto simp: classify_def scannable_def unknown_def)
next
  case True
  then have cl: "classify out err p = (case foldE (scan_line p) scan0 (significant_lines err) of
      Inl c \<Rightarrow> Inr c | Inr st \<Rightarrow> Inr (verdict st))"
    by (simp add: classify_def scannable_def)
  show ?thesis
  proof (cases "foldE (scan_line p) scan0 (significant_lines err)")
    case (Inl d)
    with scan_early[OF Inl] assms True show ?thesis unfolding cl by auto
  next
    case (Inr st)
    with True show ?thesis unfolding cl by auto
  qed
qed

lemma classify_scannable:
  assumes "outcome c \<noteq> UNKNOWN"
  shows "classify out err p = Inr c \<longleftrightarrow> scannable out err p \<and>
     (\<exists>body fins. significant_lines err = body @ fins \<and> list_all (body_line p) body \<and>
        list_all finished_line fins \<and> c = verdict ((summary p body scan0)\<lparr>footers := length fins\<rparr>))"
proof -
  have "footers scan0 = 0" by (simp add: scan0_def)
  note scan = scan_Inr_iff[OF this]
  show ?thesis unfolding classify_fold[OF assms] scan by blast
qed

lemma classify_completed:
  assumes cl: "classify out err p = Inr c" and fin: "outcome c = COMPLETED"
  shows "scannable out err p \<and> complete_flash p (significant_lines err)"
proof -
  from fin have "outcome c \<noteq> UNKNOWN" by simp
  from cl[unfolded classify_scannable[OF this]] obtain body fins where
    sc: "scannable out err p" and ls: "significant_lines err = body @ fins"
    "list_all (body_line p) body" "list_all finished_line fins"
    and c: "c = verdict ((summary p body scan0)\<lparr>footers := length fins\<rparr>)" by blast
  have v: "outcome (verdict ((summary p body scan0)\<lparr>footers := length fins\<rparr>)) = COMPLETED"
    using fin c by simp
  from v[unfolded verdict_completed] have "length fins = 1" by simp
  then obtain f where f: "fins = [f]" by (cases fins) auto
  have "outcome (verdict ((summary p body scan0)\<lparr>footers := 1\<rparr>)) = COMPLETED"
    using v f by simp
  with ls(2) have "list_all (body_line p) body \<and> outcome (verdict ((summary p body scan0)\<lparr>footers := 1\<rparr>)) = COMPLETED"
    ..
  from this[folded complete_body[OF refl]] ls(1,3) f sc show ?thesis
    unfolding complete_flash_def Let_def by auto
qed

lemma classify_complete_flash:
  assumes sc: "scannable out err p" and "complete_flash p (significant_lines err)"
  shows "\<exists>c. classify out err p = Inr c \<and> outcome c = COMPLETED"
proof -
  from assms(2) obtain body f where ls: "significant_lines err = body @ [f]" "finished_line f"
    and b: "(\<exists>n \<ge> 1. chunks p n 0 (filter (\<lambda>l. \<not> bootloader_info l) body)) \<or>
        (\<exists>s w sp. filter (\<lambda>l. \<not> bootloader_info l) body = [s, w] \<and> writing_line p w = Some True \<and>
           sending_line p s = Some \<lparr>sparse = sp, fraction = None, okay = True\<rparr>)"
    unfolding complete_flash_def Let_def by blast
  let ?c = "verdict ((summary p body scan0)\<lparr>footers := 1\<rparr>)"
  have B: "list_all (body_line p) body" "outcome ?c = COMPLETED"
    using b unfolding complete_body[OF refl] by simp_all
  have "outcome ?c \<noteq> UNKNOWN" using B(2) by simp
  moreover have "significant_lines err = body @ [f] \<and> list_all (body_line p) body \<and>
      list_all finished_line [f] \<and> ?c = verdict ((summary p body scan0)\<lparr>footers := length [f]\<rparr>)"
    using ls B(1) by simp
  ultimately have "classify out err p = Inr ?c" using sc classify_scannable by blast
  with B(2) show ?thesis by blast
qed

section \<open>Refusals\<close>

lemma verdict_refused:
  "outcome (verdict st) = REFUSED \<longleftrightarrow>
     ladder st = [S] \<and> length (sendings st) = 1 \<and> \<not> okay (sendings st ! 0) \<and> client_errors st \<le> 1 \<and>
     (failed st \<or> client_errors st \<noteq> 0)"
proof -
  have "outcome (numbering_verdict ms) \<noteq> REFUSED" for ms
    unfolding numbering_verdict_def Let_def by (simp add: unknown_def)
  then show ?thesis unfolding verdict_def by (simp add: unknown_def)
qed

definition rest_lines :: "string list \<Rightarrow> string list" where
  "rest_lines ls = filter (\<lambda>l. \<not> client_error l) (filter (\<lambda>l. \<not> bootloader_info l) ls)"

lemma rest_lines_trace:
  "sends p (rest_lines ls) = sends p ls \<and> rungs p (rest_lines ls) = rungs p ls"
  by (induction ls)
    (auto simp: rest_lines_def sends_def rungs_def map_filter_simps line_rung_def info_exclusive
      client_exclusive)

lemma rest_lines_rungs: "list_all (body_line p) ls \<Longrightarrow> list_all (rung_line p) (rest_lines ls)"
  by (induction ls) (auto simp: rest_lines_def body_line_def rung_line_def)

lemma length_rungs: "list_all (rung_line p) ls \<Longrightarrow> length (rungs p ls) = length ls"
  by (induction ls) (auto simp: rungs_def map_filter_simps line_rung_def rung_line_def)

lemma client_errors_info:
  "filter client_error (filter (\<lambda>l. \<not> bootloader_info l) ls) = filter client_error ls"
  by (induction ls) (auto simp: info_exclusive)

lemma rest_lines_body:
  assumes "rest_lines ls = [s]" "sending_line p s = Some m"
  shows "list_all (body_line p) ls"
proof -
  have "bootloader_info l \<or> client_error l \<or> l = s" if "l \<in> set ls" for l
  proof (rule ccontr)
    assume "\<not> ?thesis"
    with that have "l \<in> set (rest_lines ls)" by (simp add: rest_lines_def)
    with assms(1) \<open>\<not> _\<close> show False by simp
  qed
  moreover have "body_line p s" using assms(2) sending_exclusive[OF assms(2)]
    by (simp add: body_line_def)
  ultimately show ?thesis
    unfolding list_all_iff body_line_def using info_exclusive(1) client_exclusive(1) by blast
qed

lemma refused_body:
  "(\<exists>s m. rest_lines body = [s] \<and> length (filter client_error body) \<le> 1 \<and>
      sending_line p s = Some m \<and> \<not> okay m) \<longleftrightarrow>
   list_all (body_line p) body \<and>
   outcome (verdict ((summary p body scan0)\<lparr>footers := k\<rparr>)) = REFUSED" (is "?L \<longleftrightarrow> ?R")
proof -
  have v: "outcome (verdict ((summary p body scan0)\<lparr>footers := k\<rparr>)) = REFUSED \<longleftrightarrow>
      rungs p (rest_lines body) = [S] \<and> length (sends p (rest_lines body)) = 1 \<and>
      \<not> okay (sends p (rest_lines body) ! 0) \<and> length (filter client_error body) \<le> 1 \<and>
      (list_ex (line_failed p) body \<or> filter client_error body \<noteq> [])"
    unfolding verdict_refused using rest_lines_trace[of p body] by (simp add: summary_def scan0_def)
  show ?thesis
  proof
    assume ?L
    then obtain s m where s: "rest_lines body = [s]" "length (filter client_error body) \<le> 1"
      "sending_line p s = Some m" "\<not> okay m" by blast
    have "s \<in> set body" using s(1) by (auto simp: rest_lines_def filter_eq_Cons_iff)
    moreover have "line_failed p s" using s(3,4) by (simp add: line_failed_def)
    ultimately have "list_ex (line_failed p) body" unfolding list_ex_iff by blast
    then show ?R using rest_lines_body[OF s(1,3)] s unfolding v
      by (simp add: rungs_def sends_def map_filter_simps line_rung_def)
  next
    assume R: ?R
    then have R': "rungs p (rest_lines body) = [S]" "\<not> okay (sends p (rest_lines body) ! 0)"
      "length (filter client_error body) \<le> 1" "list_all (rung_line p) (rest_lines body)"
      unfolding v using rest_lines_rungs by blast+
    then have "length (rest_lines body) = 1" using length_rungs by fastforce
    then obtain s where s: "rest_lines body = [s]" by (auto simp: length_Suc_conv)
    with R'(1) obtain m where m: "sending_line p s = Some m"
      by (auto simp: rungs_def map_filter_simps line_rung_def split: if_splits option.splits)
    with R'(2) s have "\<not> okay m" by (simp add: sends_def map_filter_simps)
    with s m R'(3) show ?L by blast
  qed
qed

lemma classify_refused_iff:
  "(\<exists>c. classify out err p = Inr c \<and> outcome c = REFUSED) \<longleftrightarrow>
     scannable out err p \<and> refused_flash p (significant_lines err)" (is "?L \<longleftrightarrow> ?R")
proof
  assume ?L
  then obtain c where c: "classify out err p = Inr c" "outcome c = REFUSED" by blast
  then have "outcome c \<noteq> UNKNOWN" by simp
  from c(1)[unfolded classify_scannable[OF this]] obtain body fins where
    sc: "scannable out err p" and ls: "significant_lines err = body @ fins"
    "list_all (body_line p) body" "list_all finished_line fins"
    and v: "c = verdict ((summary p body scan0)\<lparr>footers := length fins\<rparr>)" by blast
  have "list_all (body_line p) body \<and>
      outcome (verdict ((summary p body scan0)\<lparr>footers := length fins\<rparr>)) = REFUSED"
    using ls(2) c(2) v by simp
  from this[folded refused_body] ls(1,3) have "refused_flash p (significant_lines err)"
    unfolding refused_flash_def Let_def rest_lines_def client_errors_info by blast
  with sc show ?R ..
next
  assume R: ?R
  then obtain body fins s m where ls: "significant_lines err = body @ fins" "list_all finished_line fins"
    and b: "rest_lines body = [s]" "length (filter client_error body) \<le> 1"
      "sending_line p s = Some m" "\<not> okay m"
    unfolding refused_flash_def Let_def rest_lines_def client_errors_info by blast
  let ?c = "verdict ((summary p body scan0)\<lparr>footers := length fins\<rparr>)"
  have "\<exists>s m. rest_lines body = [s] \<and> length (filter client_error body) \<le> 1 \<and>
      sending_line p s = Some m \<and> \<not> okay m" using b by blast
  then have B: "list_all (body_line p) body" "outcome ?c = REFUSED"
    unfolding refused_body[where k="length fins"] by simp_all
  then have "outcome ?c \<noteq> UNKNOWN" by simp
  moreover have "significant_lines err = body @ fins \<and> list_all (body_line p) body \<and>
      list_all finished_line fins \<and> ?c = verdict ((summary p body scan0)\<lparr>footers := length fins\<rparr>)"
    using ls B(1) by simp
  ultimately have "classify out err p = Inr ?c" using R classify_scannable by blast
  with B(2) show ?L by blast
qed

end
