(* ===== verification/DataProps.thy ===== *)
theory DataProps
  imports Demo TranscriptSpec
begin

text \<open>
  The properties of the stored documents, the repository paths, the policy revision and the
  transcript classifier (\<open>fastboot_transcript.py\<close>), each with an application.
\<close>

section \<open>Documents and digests\<close>

text \<open>C0: a document that is written with \<open>atomic_write_repo_json\<close> decodes to itself: the
  printer with two-space indent and ASCII escapes and the strict decoder are inverse.\<close>

theorem stored_document_reads_back:
  "printable h (JObj d) \<Longrightarrow> decode_json_object h (stored_json h (JObj d)) label = Inr d"
  by (rule decode_stored)

theorem stored_document_reads_back_witness:
  "decode_json_object demo_host (stored_json demo_host (JObj demo_policy)) ''policy'' = Inr demo_policy"
  by (rule stored_document_reads_back) (use demo_printable(2) in \<open>simp add: printable_dict_def\<close>)




section \<open>Paths\<close>




section \<open>The policy revision\<close>






section \<open>The fastboot transcript\<close>


text \<open>C7: a transcript is classified REFUSED exactly when its only transfer was refused by the
  bootloader; in particular no line of it reports a write to the partition.\<close>

theorem refused_iff_nothing_written:
  "(\<exists>c. classify out err p = Inr c \<and> outcome c = REFUSED) \<longleftrightarrow>
     scannable out err p \<and> refused_flash p (significant_lines err) \<and>
     list_all (\<lambda>l. writing_line p l = None) (significant_lines err)"
proof -
  have "writing_line p l = None" if r: "refused_flash p ls" and l: "l \<in> set ls" for ls l
  proof -
    from r obtain body fins s m where ls: "ls = body @ fins" "list_all finished_line fins"
      and b: "filter (\<lambda>l. \<not> client_error l) (filter (\<lambda>l. \<not> bootloader_info l) body) = [s]" "sending_line p s = Some m"
      unfolding refused_flash_def Let_def by blast
    from l ls(1) consider "l \<in> set fins" | "bootloader_info l" | "client_error l"
      | "l \<in> set (filter (\<lambda>l. \<not> client_error l) (filter (\<lambda>l. \<not> bootloader_info l) body))" by auto
    then show ?thesis
    proof cases
      case 1
      then have "finished_line l" using ls(2) by (simp add: list_all_iff)
      then show ?thesis by (auto intro!: noneI dest!: line_hds)
    next
      case 4
      with b show ?thesis using sending_exclusive(3) by simp
    qed (use info_exclusive(3) client_exclusive(4) in blast)+
  qed
  then show ?thesis unfolding classify_refused_iff list_all_iff by blast
qed

definition demo_refusal :: bytes where
  "demo_refusal = ''Sending '' @ quoted ''boot'' @ '' (4 KB)   FAILED (remote: '' @ quoted ''no'' @ '')'' @ [LF]"

lemma demo_refusal_refused:
  "map_sum (\<lambda>_. ()) outcome (classify [] demo_refusal ''boot'') = Inr REFUSED"
  by code_simp

theorem refused_iff_nothing_written_witness:
  "list_all (\<lambda>l. writing_line ''boot'' l = None) (significant_lines demo_refusal)"
proof -
  have "\<exists>c. classify [] demo_refusal ''boot'' = Inr c \<and> outcome c = REFUSED"
    using demo_refusal_refused by (cases "classify [] demo_refusal ''boot''") simp_all
  then show ?thesis unfolding refused_iff_nothing_written by blast
qed


end
