(* ===== verification/DiskCodec.thy ===== *)
theory DiskCodec
  imports "HOL-Library.Word" PyText
begin

unbundle bit_operations_syntax

text \<open>
  What the disk image code uses of Python's library: \<open>binascii.crc32\<close>, \<open>uuid.UUID\<close>,
  UTF-16 names, and fields of a fixed width in a buffer.
\<close>

section \<open>Gates\<close>

definition gate :: "bool \<Rightarrow> string \<Rightarrow> unit result" where
  "gate c why = (if c then Inr () else Inl (AssemblyError why))"

lemma gate_Inr [res_iff]: "gate c why = Inr u \<longleftrightarrow> c"
  by (simp add: gate_def)

lemma bind_gate [simp]: "c \<Longrightarrow> bindE (gate c why) f = f ()"
  by (simp add: gate_def)

section \<open>CRC-32\<close>

definition crc_bit :: "32 word \<Rightarrow> 32 word" where
  "crc_bit c = (if bit c 0 then drop_bit 1 c XOR 0xEDB88320 else drop_bit 1 c)"

definition crc_byte :: "32 word \<Rightarrow> char \<Rightarrow> 32 word" where
  "crc_byte c b = (crc_bit ^^ 8) (c XOR word_of_nat (ord b))"

text \<open>\<open>binascii.crc32(data, start)\<close>\<close>

definition crc32_from :: "32 word \<Rightarrow> bytes \<Rightarrow> 32 word" where
  "crc32_from start data = NOT (foldl crc_byte (NOT start) data)"

definition crc32 :: "bytes \<Rightarrow> nat" where
  "crc32 data = unat (crc32_from 0 data)"

lemma crc32_from_append: "crc32_from s (a @ b) = crc32_from (crc32_from s a) b"
  by (simp add: crc32_from_def)

lemma crc32_from_Nil [simp]: "crc32_from s [] = s"
  by (simp add: crc32_from_def)

lemma crc32_bound: "crc32 data < 256 ^ 4"
  using unsigned_less[of "crc32_from 0 data"] by (simp add: crc32_def)

section \<open>Fields of a fixed width\<close>

text \<open>
  One interface for the fields of the binary headers: a width, an encoder and a decoder that
  are inverse on the encodable values.
\<close>

locale field_codec =
  fixes width :: nat and enc :: "'a \<Rightarrow> bytes" and dec :: "bytes \<Rightarrow> 'a" and ok :: "'a \<Rightarrow> bool"
  assumes length_enc [simp]: "ok v \<Longrightarrow> length (enc v) = width"
    and dec_enc [simp]: "ok v \<Longrightarrow> dec (enc v) = v"
    and ok_dec: "length bs = width \<Longrightarrow> ok (dec bs)"
    and enc_dec: "length bs = width \<Longrightarrow> enc (dec bs) = bs"
begin

lemma enc_inject: "ok u \<Longrightarrow> ok v \<Longrightarrow> enc u = enc v \<Longrightarrow> u = v"
  by (metis dec_enc)

lemma slice_field: "off + width \<le> length bs \<Longrightarrow> enc (dec (slice bs off (off + width))) = slice bs off (off + width)"
  by (rule enc_dec) simp

lemma slice_dec_iff:
  "off + width \<le> length bs \<Longrightarrow> ok v \<Longrightarrow>
     dec (slice bs off (off + width)) = v \<longleftrightarrow> slice bs off (off + width) = enc v"
  using slice_field dec_enc by metis

end

interpretation le: field_codec w "le_bytes w" le_nat "\<lambda>n. n < 256 ^ w" for w
  by unfold_locales (auto simp: le_nat_le_bytes le_nat_bound le_bytes_le_nat)

definition get_le :: "nat \<Rightarrow> bytes \<Rightarrow> nat \<Rightarrow> nat" where
  "get_le w bs off = le_nat (slice bs off (off + w))"

section \<open>UUIDs\<close>

text \<open>A \<open>uuid.UUID\<close> is its 16 bytes in network order.\<close>

type_synonym uuid = bytes

definition uuid_ok :: "uuid \<Rightarrow> bool" where
  "uuid_ok u \<longleftrightarrow> length u = 16"

text \<open>\<open>UUID(bytes_le=b)\<close> and \<open>bytes_le\<close>: the first three fields are little-endian.\<close>

definition swap_fields :: "bytes \<Rightarrow> bytes" where
  "swap_fields b = rev (slice b 0 4) @ rev (slice b 4 6) @ rev (slice b 6 8) @ drop 8 b"

lemma length_16_cases:
  assumes "length b = 16"
  obtains a0 a1 a2 a3 a4 a5 a6 a7 r where "b = [a0, a1, a2, a3, a4, a5, a6, a7] @ r" "length r = 8"
proof -
  have "length (take 8 b) = Suc (Suc (Suc (Suc (Suc (Suc (Suc (Suc 0)))))))" using assms by simp
  then obtain a0 a1 a2 a3 a4 a5 a6 a7 where "take 8 b = [a0, a1, a2, a3, a4, a5, a6, a7]"
    unfolding length_Suc_conv by auto
  then have "b = [a0, a1, a2, a3, a4, a5, a6, a7] @ drop 8 b" by (metis append_take_drop_id)
  then show ?thesis using that assms by simp
qed

interpretation guid: field_codec 16 swap_fields swap_fields uuid_ok
proof unfold_locales
  fix v :: bytes
  assume "uuid_ok v"
  then have l: "length v = 16" by (simp add: uuid_ok_def)
  then show "length (swap_fields v) = 16" by (simp add: swap_fields_def)
  show "swap_fields (swap_fields v) = v"
    by (rule length_16_cases[OF l]) (simp add: swap_fields_def slice_def)
next
  fix bs :: bytes
  assume l: "length bs = 16"
  then show "uuid_ok (swap_fields bs)" by (simp add: swap_fields_def uuid_ok_def)
  show "swap_fields (swap_fields bs) = bs"
    by (rule length_16_cases[OF l]) (simp add: swap_fields_def slice_def)
qed

definition uuid_zero :: "uuid \<Rightarrow> bool" where
  "uuid_zero u \<longleftrightarrow> be_nat u = 0"

text \<open>\<open>version\<close> is 4 and \<open>variant\<close> is \<open>RFC_4122\<close>.\<close>

definition rfc_v4 :: "uuid \<Rightarrow> bool" where
  "rfc_v4 u \<longleftrightarrow> ord (u ! 6) div 16 = 4 \<and> ord (u ! 8) div 64 = 2"

definition hex_text :: "bytes \<Rightarrow> string" where
  "hex_text bs = concat (map (\<lambda>c. [''0123456789abcdef'' ! (ord c div 16), ''0123456789abcdef'' ! (ord c mod 16)]) bs)"

definition uuid_text :: "uuid \<Rightarrow> string" where
  "uuid_text u = join_with ''-'' (map hex_text [slice u 0 4, slice u 4 6, slice u 6 8, slice u 8 10, drop 10 u])"

text \<open>
  \<open>UUID(s)\<close> followed by the comparison of \<open>str\<close> with \<open>s\<close>: only the canonical text, 8-4-4-4-12
  lower-case hexadecimal digits, passes both.
\<close>

fun unhex :: "string \<Rightarrow> bytes" where
  "unhex (a # b # r) = char_of (16 * hex_digit_val a + hex_digit_val b) # unhex r"
| "unhex _ = []"

definition canonical_uuid :: "string \<Rightarrow> uuid option" where
  "canonical_uuid s =
     (let parts = split_on (CHR ''-'') s in
      if map length parts = [8, 4, 4, 4, 12] \<and> list_all (list_all is_lower_hex) parts
      then Some (unhex (concat parts)) else None)"

section \<open>UTF-16\<close>

fun utf16_units :: "bytes \<Rightarrow> nat list" where
  "utf16_units (a # b # r) = (ord a + 256 * ord b) # utf16_units r"
| "utf16_units _ = []"

text \<open>\<open>decode("utf-16-le")\<close>: the code points, or \<open>None\<close> at an unpaired surrogate.\<close>

fun utf16_decode :: "nat list \<Rightarrow> nat list option" where
  "utf16_decode [] = Some []"
| "utf16_decode (u # us) =
     (if u < 0xD800 \<or> 0xE000 \<le> u then map_option ((#) u) (utf16_decode us)
      else if 0xDC00 \<le> u then None
      else (case us of
          v # vs \<Rightarrow> if 0xDC00 \<le> v \<and> v < 0xE000
            then map_option ((#) (0x10000 + (u - 0xD800) * 0x400 + (v - 0xDC00))) (utf16_decode vs)
            else None
        | [] \<Rightarrow> None))"

definition utf16_encode :: "nat list \<Rightarrow> bytes" where
  "utf16_encode cps = concat (map (\<lambda>n.
     if n < 0x10000 then le_bytes 2 n
     else le_bytes 2 (0xD800 + (n - 0x10000) div 0x400) @ le_bytes 2 (0xDC00 + (n - 0x10000) mod 0x400)) cps)"

lemma utf16_decode_plain: "\<forall>u \<in> set us. u < 0xD800 \<Longrightarrow> utf16_decode us = Some us"
  by (induction us) auto

lemma utf16_encode_bytes: "utf16_encode (map ord s) = concat (map (\<lambda>c. [c, NUL]) s)"
proof -
  have "le_bytes 2 (ord c) = [c, NUL]" for c
    using ord_less[of c] by (simp add: numeral_2_eq_2 NUL_def)
  then show ?thesis
    using ord_less order.strict_trans[OF ord_less, of 65536] by (simp add: utf16_encode_def comp_def)
qed

lemma utf16_units_bytes: "utf16_units (concat (map (\<lambda>c. [c, NUL]) s) @ r) = map ord s @ utf16_units r"
  by (induction s) simp_all

lemma utf16_units_zeros: "utf16_units (replicate (2 * n) NUL) = replicate n 0"
  by (induction n) simp_all

end
