(* ===== verification/Gpt.thy ===== *)
theory Gpt
  imports DiskCodec
begin

text \<open>
  The disk contract of the userdata assembler and the strict validation of a GPT image with
  4096-byte sectors (\<open>assemble_userdata_image.py\<close>).

  A \<open>StableFile\<close> holds one inode open and refuses to close cleanly when its identity changed,
  so within one use it is the bytes it had when it was opened.  Integers that the dataclass
  accepts are never negative, so they are natural numbers; the one difference that Python
  could make negative, \<open>last_usable_lba\<close>, is compared with a partition that starts at 6 or
  later.
\<close>

section \<open>Constants and the policy\<close>

definition SECTOR_SIZE :: nat where "SECTOR_SIZE = 4096"
definition GPT_HEADER_SIZE :: nat where "GPT_HEADER_SIZE = 92"
definition GPT_ENTRY_COUNT :: nat where "GPT_ENTRY_COUNT = 128"
definition GPT_ENTRY_SIZE :: nat where "GPT_ENTRY_SIZE = 128"
definition GPT_TABLE_BYTES :: nat where "GPT_TABLE_BYTES = 16384"
definition GPT_TABLE_LBAS :: nat where "GPT_TABLE_LBAS = 4"

lemma gpt_table_consistent:
  "GPT_TABLE_BYTES = GPT_ENTRY_COUNT * GPT_ENTRY_SIZE" "GPT_TABLE_LBAS = GPT_TABLE_BYTES div SECTOR_SIZE"
  by (simp_all add: GPT_TABLE_BYTES_def GPT_ENTRY_COUNT_def GPT_ENTRY_SIZE_def GPT_TABLE_LBAS_def SECTOR_SIZE_def)

definition ESP_GUID :: uuid where
  "ESP_GUID = unhex ''c12a7328f81f11d2ba4b00a0c93ec93b''"

definition ARM64_ROOT_GUID :: uuid where
  "ARM64_ROOT_GUID = unhex ''b921b0451df041c3af444c6f280d3fae''"

record assembly_policy =
  baseline_size :: nat
  baseline_sha256 :: string
  p2_size :: nat
  p2_uuid :: string
  p1_first_lba :: nat
  p1_last_lba :: nat
  p2_first_lba :: nat
  p2_last_lba :: nat
  partition_names :: "string \<times> string"

definition disk_lbas :: "assembly_policy \<Rightarrow> nat" where
  "disk_lbas p = baseline_size p div SECTOR_SIZE"

definition first_usable_lba :: nat where
  "first_usable_lba = 2 + GPT_TABLE_LBAS"

definition last_usable_lba :: "assembly_policy \<Rightarrow> nat" where
  "last_usable_lba p = disk_lbas p - GPT_TABLE_LBAS - 2"

definition p2_offset :: "assembly_policy \<Rightarrow> nat" where
  "p2_offset p = p2_first_lba p * SECTOR_SIZE"

definition p2_end :: "assembly_policy \<Rightarrow> nat" where
  "p2_end p = (p2_last_lba p + 1) * SECTOR_SIZE"

definition suffix_size :: "assembly_policy \<Rightarrow> nat" where
  "suffix_size p = baseline_size p - p2_end p"

text \<open>\<open>AssemblyPolicy.__post_init__\<close>\<close>

definition check_assembly_policy :: "assembly_policy \<Rightarrow> unit result" where
  "check_assembly_policy p =
     bindE (gate (0 < baseline_size p \<and> baseline_size p mod SECTOR_SIZE = 0)
              ''baseline size must be a positive 4096-byte multiple'') (\<lambda>_.
     bindE (gate (is_sha256_hex (baseline_sha256 p)) ''baseline sha256 is invalid'') (\<lambda>_.
     bindE (gate (0 < p2_size p \<and> p2_size p mod SECTOR_SIZE = 0)
              ''P2 size must be a positive 4096-byte multiple'') (\<lambda>_.
     bindE (gate (case canonical_uuid (p2_uuid p) of None \<Rightarrow> False | Some u \<Rightarrow> rfc_v4 u)
              ''P2 UUID must be a canonical RFC v4 UUID'') (\<lambda>_.
     bindE (gate (first_usable_lba \<le> p1_first_lba p \<and> p1_first_lba p \<le> p1_last_lba p \<and>
                  p1_last_lba p + 1 = p2_first_lba p \<and> p2_first_lba p \<le> p2_last_lba p \<and>
                  p2_last_lba p \<le> last_usable_lba p)
              ''GPT partition/free-space geometry is invalid'') (\<lambda>_.
     bindE (gate ((p2_last_lba p - p2_first_lba p + 1) * SECTOR_SIZE = p2_size p)
              ''P2 size does not match its GPT range'') (\<lambda>_.
     bindE (gate (2 * GPT_TABLE_LBAS + 3 \<le> disk_lbas p) ''disk is too small for dual GPT'') (\<lambda>_.
     gate (partition_names p = (''primary'', ''primary''))
       ''GPT partition names must be the reviewed pair'')))))))"

text \<open>\<open>PRODUCTION_POLICY\<close>; its digest is a constant of the source.\<close>

definition PRODUCTION_POLICY :: assembly_policy where
  "PRODUCTION_POLICY = \<lparr>baseline_size = 3436183552,
     baseline_sha256 = ''33067d6954e28b88b78a79a6ba0f994c1b6aff5e77a664b726e5dbb6e90084d8'',
     p2_size = 2923429888, p2_uuid = ''f8eb7c4b-a7bc-4c44-972f-ee4a7c2e075f'',
     p1_first_lba = 2048, p1_last_lba = 124927, p2_first_lba = 124928, p2_last_lba = 838655,
     partition_names = (''primary'', ''primary'')\<rparr>"

section \<open>Reading a held file\<close>

text \<open>\<open>StableFile.pread\<close> and \<open>_pread_exact\<close>\<close>

definition pread :: "bytes \<Rightarrow> nat \<Rightarrow> nat \<Rightarrow> string \<Rightarrow> bytes result" where
  "pread img n off label =
     (if off > length img \<or> n > length img - off then Inl (AssemblyError (label @ '' range is outside the file''))
      else Inr (slice img off (off + n)))"

lemma pread_Inr [res_iff]:
  "pread img n off label = Inr b \<longleftrightarrow> off + n \<le> length img \<and> b = slice img off (off + n)"
  by (auto simp: pread_def)

section \<open>GPT\<close>

record gpt_header =
  gh_current :: nat
  gh_backup :: nat
  gh_first :: nat
  gh_last :: nat
  gh_disk_guid :: uuid
  gh_entries_lba :: nat
  gh_entries_crc32 :: nat

record partition =
  pt_type_guid :: uuid
  pt_unique_guid :: uuid
  pt_first :: nat
  pt_last :: nat
  pt_attributes :: nat
  pt_name :: "nat list"  \<comment> \<open>code points\<close>

record gpt_layout =
  gl_disk_guid :: uuid
  gl_p1 :: partition
  gl_p2 :: partition
  gl_table_sha256 :: string
  gl_first :: nat
  gl_last :: nat

definition validate_pmbr :: "bytes \<Rightarrow> assembly_policy \<Rightarrow> unit result" where
  "validate_pmbr img p =
     bindE (pread img SECTOR_SIZE 0 ''protective MBR LBA'') (\<lambda>lba.
       let mbr = slice lba 0 512; entry = slice mbr 446 462 in
       bindE (gate (\<not> any_nonzero (drop 512 lba)) ''protective MBR 4096-byte LBA padding is not zero'') (\<lambda>_.
       bindE (gate (\<not> any_nonzero (slice mbr 0 446) \<and> slice mbr 510 512 = byte_str [0x55, 0xAA])
                ''protective MBR bootstrap/signature is invalid'') (\<lambda>_.
       bindE (gate (\<not> list_ex (\<lambda>i. any_nonzero (slice mbr (446 + i * 16) (462 + i * 16))) [1..<4])
                ''protective MBR has unexpected partition entries'') (\<lambda>_.
       gate (ord (entry ! 0) = 0 \<and> slice entry 1 4 = byte_str [0, 2, 0] \<and> ord (entry ! 4) = 0xEE \<and>
             slice entry 5 8 = byte_str [0xFF, 0xFF, 0xFF] \<and> get_le 4 entry 8 = 1 \<and>
             get_le 4 entry 12 = min (disk_lbas p - 1) 0xFFFFFFFF)
         ''protective MBR entry is not canonical''))))"

definition parse_gpt_header ::
  "bytes \<Rightarrow> nat \<Rightarrow> nat \<Rightarrow> nat \<Rightarrow> assembly_policy \<Rightarrow> string \<Rightarrow> gpt_header result" where
  "parse_gpt_header block expected_lba expected_backup entries_lba p label =
     bindE (gate (length block = SECTOR_SIZE \<and> slice block 0 8 = ''EFI PART'')
              (label @ '' GPT header magic mismatch'')) (\<lambda>_.
     bindE (gate (get_le 4 block 8 = 0x00010000 \<and> get_le 4 block 12 = GPT_HEADER_SIZE \<and> get_le 4 block 20 = 0)
              (label @ '' GPT header fields are non-canonical'')) (\<lambda>_.
     bindE (gate (\<not> any_nonzero (drop GPT_HEADER_SIZE block)) (label @ '' GPT header padding is not zero'')) (\<lambda>_.
     let checked = slice block 0 16 @ replicate 4 NUL @ slice block 20 GPT_HEADER_SIZE in
     bindE (gate (crc32 checked = get_le 4 block 16) (label @ '' GPT header CRC mismatch'')) (\<lambda>_.
     let current = get_le 8 block 24; backup = get_le 8 block 32; first = get_le 8 block 40; last_lba = get_le 8 block 48 in
     bindE (gate (current = expected_lba \<and> backup = expected_backup)
              (label @ '' GPT current/backup pointers are invalid'')) (\<lambda>_.
     let disk_guid = swap_fields (slice block 56 72); table_lba = get_le 8 block 72;
         entry_count = get_le 4 block 80; entry_size = get_le 4 block 84; table_crc = get_le 4 block 88 in
     bindE (gate (\<not> uuid_zero disk_guid \<and> rfc_v4 disk_guid) (label @ '' GPT disk GUID is not RFC v4'')) (\<lambda>_.
     bindE (gate (first = first_usable_lba \<and> last_lba = last_usable_lba p \<and> table_lba = entries_lba \<and>
                  entry_count = GPT_ENTRY_COUNT \<and> entry_size = GPT_ENTRY_SIZE)
              (label @ '' GPT geometry is not the exact reviewed geometry'')) (\<lambda>_.
     Inr \<lparr>gh_current = current, gh_backup = backup, gh_first = first, gh_last = last_lba,
          gh_disk_guid = disk_guid, gh_entries_lba = table_lba, gh_entries_crc32 = table_crc\<rparr>)))))))"

definition read_gpt_table :: "bytes \<Rightarrow> gpt_header \<Rightarrow> string \<Rightarrow> bytes result" where
  "read_gpt_table img hdr label =
     bindE (pread img GPT_TABLE_BYTES (gh_entries_lba hdr * SECTOR_SIZE) (label @ '' GPT table'')) (\<lambda>table.
     bindE (gate (crc32 table = gh_entries_crc32 hdr) (label @ '' GPT table CRC mismatch'')) (\<lambda>_.
     Inr table))"

text \<open>
  \<open>decode("utf-16-le").split("\0", 1)[0]\<close>; the terminator and the zeros behind it are checked
  against the name encoded again.
\<close>

definition decode_partition :: "bytes \<Rightarrow> string \<Rightarrow> partition result" where
  "decode_partition entry label =
     (let type_guid = swap_fields (slice entry 0 16); unique_guid = swap_fields (slice entry 16 32);
          first = get_le 8 entry 32; last_lba = get_le 8 entry 40; attributes = get_le 8 entry 48;
          raw_name = slice entry 56 128 in
      case utf16_decode (utf16_units raw_name) of
        None \<Rightarrow> Inl (AssemblyError (label @ '' name is not UTF-16LE''))
      | Some cps \<Rightarrow>
          let name = takeWhile (\<lambda>n. n \<noteq> 0) cps; encoded = utf16_encode name @ [NUL, NUL] in
          bindE (gate (slice raw_name 0 (length encoded) = encoded \<and> \<not> any_nonzero (drop (length encoded) raw_name))
                   (label @ '' name is not canonically terminated'')) (\<lambda>_.
          bindE (gate (\<not> uuid_zero unique_guid \<and> rfc_v4 unique_guid \<and> first \<le> last_lba)
                   (label @ '' identity/range is invalid'')) (\<lambda>_.
          Inr \<lparr>pt_type_guid = type_guid, pt_unique_guid = unique_guid, pt_first = first, pt_last = last_lba,
               pt_attributes = attributes, pt_name = name\<rparr>)))"

definition partition_matches :: "partition \<Rightarrow> uuid \<Rightarrow> nat \<Rightarrow> nat \<Rightarrow> string \<Rightarrow> bool" where
  "partition_matches pt type_guid first last_lba name \<longleftrightarrow>
     pt_type_guid pt = type_guid \<and> pt_first pt = first \<and> pt_last pt = last_lba \<and>
     pt_attributes pt = 0 \<and> pt_name pt = map ord name"

definition validate_gpt :: "(bytes \<Rightarrow> string) \<Rightarrow> bytes \<Rightarrow> assembly_policy \<Rightarrow> gpt_layout result" where
  "validate_gpt sha img p =
     bindE (gate (length img = baseline_size p) ''GPT image size does not match the assembly policy'') (\<lambda>_.
     bindE (validate_pmbr img p) (\<lambda>_.
     let backup_lba = disk_lbas p - 1 in
     bindE (pread img SECTOR_SIZE SECTOR_SIZE ''primary GPT header'') (\<lambda>block.
     bindE (parse_gpt_header block 1 backup_lba 2 p ''primary'') (\<lambda>primary.
     bindE (pread img SECTOR_SIZE (backup_lba * SECTOR_SIZE) ''backup GPT header'') (\<lambda>block2.
     bindE (parse_gpt_header block2 backup_lba 1 (backup_lba - GPT_TABLE_LBAS) p ''backup'') (\<lambda>backup.
     bindE (gate (gh_disk_guid primary = gh_disk_guid backup) ''primary/backup GPT disk GUIDs disagree'') (\<lambda>_.
     bindE (read_gpt_table img primary ''primary'') (\<lambda>primary_table.
     bindE (read_gpt_table img backup ''backup'') (\<lambda>backup_table.
     bindE (gate (primary_table = backup_table) ''primary/backup GPT tables differ'') (\<lambda>_.
     let entry = (\<lambda>i. slice primary_table (i * GPT_ENTRY_SIZE) ((i + 1) * GPT_ENTRY_SIZE)) in
     bindE (gate (\<not> uuid_zero (swap_fields (slice (entry 0) 0 16)) \<and> \<not> uuid_zero (swap_fields (slice (entry 1) 0 16)))
              ''GPT P1/P2 entries are missing'') (\<lambda>_.
     bindE (gate (\<not> list_ex (\<lambda>i. any_nonzero (entry i)) [2..<GPT_ENTRY_COUNT]) ''unused GPT entries are not zero'') (\<lambda>_.
     bindE (decode_partition (entry 0) ''GPT partition 1'') (\<lambda>p1.
     bindE (decode_partition (entry 1) ''GPT partition 2'') (\<lambda>p2.
     bindE (gate (partition_matches p1 ESP_GUID (p1_first_lba p) (p1_last_lba p) (fst (partition_names p)))
              ''GPT P1 contract mismatch'') (\<lambda>_.
     bindE (gate (partition_matches p2 ARM64_ROOT_GUID (p2_first_lba p) (p2_last_lba p) (snd (partition_names p)))
              ''GPT P2 contract mismatch'') (\<lambda>_.
     bindE (gate (distinct [gh_disk_guid primary, pt_unique_guid p1, pt_unique_guid p2])
              ''GPT disk and partition GUIDs are not distinct'') (\<lambda>_.
     Inr \<lparr>gl_disk_guid = gh_disk_guid primary, gl_p1 = p1, gl_p2 = p2, gl_table_sha256 = sha primary_table,
          gl_first = gh_first primary, gl_last = gh_last primary\<rparr>)))))))))))))))))"

section \<open>The P2 file system\<close>

definition validate_p2 :: "bytes \<Rightarrow> assembly_policy \<Rightarrow> nat result" where
  "validate_p2 img p =
     bindE (gate (length img = p2_size p) ''P2 input size mismatch'') (\<lambda>_.
     bindE (pread img 1024 1024 ''P2 ext superblock'') (\<lambda>sb.
     bindE (gate (get_le 2 sb 0x38 = 0xEF53) ''P2 ext superblock magic mismatch'') (\<lambda>_.
     let log_block_size = get_le 4 sb 0x18; incompat = get_le 4 sb 0x60;
         blocks = get_le 4 sb 0x04 + (if bit incompat 7 then get_le 4 sb 0x150 * 2 ^ 32 else 0) in
     bindE (gate (log_block_size \<le> 6 \<and> 1024 * 2 ^ log_block_size = SECTOR_SIZE)
              ''P2 ext block size is not 4096'') (\<lambda>_.
     bindE (gate (blocks * SECTOR_SIZE = p2_size p) ''P2 ext block count does not fill the GPT partition'') (\<lambda>_.
     bindE (gate (uuid_text (slice sb 0x68 0x78) = p2_uuid p) ''P2 filesystem UUID mismatch'') (\<lambda>_.
     Inr blocks))))))"

end
