(* ===== verification/GptSpec.thy ===== *)
theory GptSpec
  imports Gpt
begin

text \<open>
  The canonical GPT: the bytes of the protective MBR, the headers and the tables as functions
  of the policy and three GUIDs, and the validator as the recogniser of exactly these bytes.
\<close>

section \<open>Buffers as concatenations of fields\<close>

lemma slice_drop: "a \<le> b \<Longrightarrow> slice xs a b @ drop b xs = drop a xs"
proof -
  assume "a \<le> b"
  then obtain i where i: "b = a + i" by (metis le_iff_add)
  have "take i (drop a xs) @ drop i (drop a xs) = drop a xs" by (rule append_take_drop_id)
  then show ?thesis by (simp add: slice_def i add.commute)
qed

lemma drop_eq_append:
  "n \<le> length xs \<Longrightarrow> drop n xs = a @ b \<longleftrightarrow> slice xs n (n + length a) = a \<and> drop (n + length a) xs = b"
proof
  assume "n \<le> length xs" "drop n xs = a @ b"
  then have "take (length a) (drop n xs) = a" "drop (length a) (drop n xs) = b" by simp_all
  then show "slice xs n (n + length a) = a \<and> drop (n + length a) xs = b"
    by (simp add: slice_def add.commute)
next
  assume "slice xs n (n + length a) = a \<and> drop (n + length a) xs = b"
  then show "drop n xs = a @ b" using slice_drop[of n "n + length a" xs] by simp
qed

lemma slice_slice:
  "b \<le> d - c \<Longrightarrow> slice (slice xs c d) a b = slice xs (c + a) (c + b)"
  by (simp add: slice_def min_def drop_take add.commute)

lemma slice_full_append: "slice (a @ b) 0 (length a) = a"
  by (simp add: slice_def)

lemma get_le_iff:
  "off + w \<le> length bs \<Longrightarrow> v < 256 ^ w \<Longrightarrow> get_le w bs off = v \<longleftrightarrow> slice bs off (off + w) = le_bytes w v"
  unfolding get_le_def by (rule le.slice_dec_iff)

section \<open>The header\<close>

definition header_body :: "assembly_policy \<Rightarrow> nat \<Rightarrow> nat \<Rightarrow> nat \<Rightarrow> uuid \<Rightarrow> nat \<Rightarrow> nat \<Rightarrow> bytes" where
  "header_body p lba backup entries_lba g table_crc stored =
     ''EFI PART'' @ le_bytes 4 0x00010000 @ le_bytes 4 GPT_HEADER_SIZE @ le_bytes 4 stored @ le_bytes 4 0 @
     le_bytes 8 lba @ le_bytes 8 backup @ le_bytes 8 first_usable_lba @ le_bytes 8 (last_usable_lba p) @
     swap_fields g @ le_bytes 8 entries_lba @ le_bytes 4 GPT_ENTRY_COUNT @ le_bytes 4 GPT_ENTRY_SIZE @
     le_bytes 4 table_crc"

definition encode_header :: "assembly_policy \<Rightarrow> nat \<Rightarrow> nat \<Rightarrow> nat \<Rightarrow> uuid \<Rightarrow> nat \<Rightarrow> bytes" where
  "encode_header p lba backup entries_lba g table_crc =
     header_body p lba backup entries_lba g table_crc
       (crc32 (header_body p lba backup entries_lba g table_crc 0)) @ replicate 4004 NUL"

definition guid_ok :: "uuid \<Rightarrow> bool" where
  "guid_ok g \<longleftrightarrow> uuid_ok g \<and> \<not> uuid_zero g \<and> rfc_v4 g"

lemma le_bytes_0: "le_bytes w 0 = replicate w NUL"
  by (induction w) (simp_all add: NUL_def)

lemma length_swap [simp]: "uuid_ok g \<Longrightarrow> length (swap_fields g) = 16"
  by (rule guid.length_enc)

lemma length_encode_header [simp]:
  "uuid_ok g \<Longrightarrow> length (encode_header p lba backup el g c) = SECTOR_SIZE"
  by (simp add: encode_header_def header_body_def SECTOR_SIZE_def)

lemma no_nonzero_iff: "length bs = n \<Longrightarrow> \<not> any_nonzero bs \<longleftrightarrow> bs = replicate n NUL"
  using any_nonzero_iff by auto

text \<open>The fields of a header block, in the order of the encoding.\<close>

lemma header_fields:
  assumes "length block = 4096"
  shows "block = slice block 0 8 @ slice block 8 12 @ slice block 12 16 @ slice block 16 20 @ slice block 20 24 @
     slice block 24 32 @ slice block 32 40 @ slice block 40 48 @ slice block 48 56 @ slice block 56 72 @
     slice block 72 80 @ slice block 80 84 @ slice block 84 88 @ slice block 88 92 @ drop 92 block"
  by (simp add: slice_drop)

lemma header_checked:
  "slice block 0 16 @ replicate 4 NUL @ slice block 20 92 =
     slice block 0 8 @ slice block 8 12 @ slice block 12 16 @ replicate 4 NUL @ slice block 20 24 @
     slice block 24 32 @ slice block 32 40 @ slice block 40 48 @ slice block 48 56 @ slice block 56 72 @
     slice block 72 80 @ slice block 80 84 @ slice block 84 88 @ slice block 88 92"
  by (simp add: slice_append_slice slice_append_slice[of 0 8 12 block, symmetric] flip: append_assoc)

lemma field_slice: "off + w \<le> length bs \<Longrightarrow> slice bs off (off + w) = le_bytes w (get_le w bs off)"
  unfolding get_le_def by (rule le.slice_field[symmetric])

lemma header_sound:
  assumes "parse_gpt_header block lba bk el p label = Inr hdr"
  shows "block = encode_header p lba bk el (gh_disk_guid hdr) (gh_entries_crc32 hdr) \<and> guid_ok (gh_disk_guid hdr) \<and>
     gh_entries_crc32 hdr < 256 ^ 4 \<and> gh_entries_lba hdr = el \<and> gh_current hdr = lba \<and> gh_backup hdr = bk \<and>
     gh_first hdr = first_usable_lba \<and> gh_last hdr = last_usable_lba p"
proof -
  let ?g = "swap_fields (slice block 56 72)" and ?c = "get_le 4 block 88"
  from assms have l: "length block = 4096" and f0: "slice block 0 8 = ''EFI PART''"
    and f1: "get_le 4 block 8 = 0x00010000" "get_le 4 block 12 = GPT_HEADER_SIZE" "get_le 4 block 20 = 0"
    and pad: "\<not> any_nonzero (drop 92 block)"
    and crc: "crc32 (slice block 0 16 @ replicate 4 NUL @ slice block 20 92) = get_le 4 block 16"
    and f2: "get_le 8 block 24 = lba" "get_le 8 block 32 = bk" "get_le 8 block 40 = first_usable_lba"
      "get_le 8 block 48 = last_usable_lba p" "get_le 8 block 72 = el" "get_le 4 block 80 = GPT_ENTRY_COUNT"
      "get_le 4 block 84 = GPT_ENTRY_SIZE"
    and g: "\<not> uuid_zero ?g" "rfc_v4 ?g"
    and hdr: "hdr = \<lparr>gh_current = lba, gh_backup = bk, gh_first = first_usable_lba, gh_last = last_usable_lba p,
          gh_disk_guid = ?g, gh_entries_lba = el, gh_entries_crc32 = ?c\<rparr>"
    unfolding parse_gpt_header_def Let_def SECTOR_SIZE_def by (auto simp: res_iff GPT_HEADER_SIZE_def)
  have fields: "slice block 8 12 = le_bytes 4 0x00010000" "slice block 12 16 = le_bytes 4 GPT_HEADER_SIZE"
    "slice block 16 20 = le_bytes 4 (get_le 4 block 16)" "slice block 20 24 = le_bytes 4 0"
    "slice block 24 32 = le_bytes 8 lba" "slice block 32 40 = le_bytes 8 bk"
    "slice block 40 48 = le_bytes 8 first_usable_lba" "slice block 48 56 = le_bytes 8 (last_usable_lba p)"
    "slice block 72 80 = le_bytes 8 el" "slice block 80 84 = le_bytes 4 GPT_ENTRY_COUNT"
    "slice block 84 88 = le_bytes 4 GPT_ENTRY_SIZE" "slice block 88 92 = le_bytes 4 ?c"
    using field_slice[of 8 4 block] field_slice[of 12 4 block] field_slice[of 16 4 block] field_slice[of 20 4 block]
      field_slice[of 24 8 block] field_slice[of 32 8 block] field_slice[of 40 8 block] field_slice[of 48 8 block]
      field_slice[of 72 8 block] field_slice[of 80 4 block] field_slice[of 84 4 block] field_slice[of 88 4 block]
    by (simp_all only: l f1 f2) simp_all
  have gs: "slice block 56 72 = swap_fields ?g"
    using guid.enc_dec[of "slice block 56 72"] l by simp
  have ok: "guid_ok ?g" using guid.ok_dec[of "slice block 56 72"] l g by (simp add: guid_ok_def)
  have body: "slice block 0 16 @ replicate 4 NUL @ slice block 20 92 = header_body p lba bk el ?g ?c 0"
    unfolding header_checked f0 fields gs[symmetric] header_body_def
    unfolding le_bytes_0[of 4] by (simp only: gs[symmetric])
  have "drop 92 block = replicate 4004 NUL"
    using pad no_nonzero_iff[of "drop 92 block" 4004] l by simp
  then have "block = header_body p lba bk el ?g ?c (get_le 4 block 16) @ replicate 4004 NUL"
    using header_fields[OF l] unfolding f0 fields header_body_def gs[symmetric] by (simp only: append_assoc)
  then have "block = encode_header p lba bk el ?g ?c"
    unfolding encode_header_def using crc body by simp
  moreover have "?c < 256 ^ 4" using le_nat_bound[of "slice block 88 92"] l by (simp add: get_le_def)
  ultimately show ?thesis using hdr ok by simp
qed

lemma get_le_field: "slice bs off (off + w) = le_bytes w v \<Longrightarrow> v < 256 ^ w \<Longrightarrow> get_le w bs off = v"
  by (simp add: get_le_def le_nat_le_bytes)

definition fits :: "assembly_policy \<Rightarrow> bool" where
  "fits p \<longleftrightarrow> baseline_size p < 256 ^ 8"

lemma small_fields: "GPT_HEADER_SIZE < 256 ^ 4" "GPT_ENTRY_COUNT < 256 ^ 4" "GPT_ENTRY_SIZE < 256 ^ 4"
  "first_usable_lba < 256 ^ 8"
  by (simp_all add: GPT_HEADER_SIZE_def GPT_ENTRY_COUNT_def GPT_ENTRY_SIZE_def first_usable_lba_def GPT_TABLE_LBAS_def)

lemma fits_lbas: "fits p \<Longrightarrow> last_usable_lba p < 256 ^ 8" "fits p \<Longrightarrow> disk_lbas p < 256 ^ 8"
  by (auto simp: fits_def last_usable_lba_def disk_lbas_def SECTOR_SIZE_def)

lemma header_slices:
  assumes "b = m @ r @ hs @ st @ z @ lba @ bk @ fi @ la @ g @ el @ n @ k @ c @ pad"
    and "length m = 8" "length r = 4" "length hs = 4" "length st = 4" "length z = 4" "length lba = 8" "length bk = 8"
      "length fi = 8" "length la = 8" "length g = 16" "length el = 8" "length n = 4" "length k = 4" "length c = 4"
  shows "slice b 0 8 = m" "slice b 8 12 = r" "slice b 12 16 = hs" "slice b 16 20 = st" "slice b 20 24 = z"
    "slice b 24 32 = lba" "slice b 32 40 = bk" "slice b 40 48 = fi" "slice b 48 56 = la" "slice b 56 72 = g"
    "slice b 72 80 = el" "slice b 80 84 = n" "slice b 84 88 = k" "slice b 88 92 = c" "drop 92 b = pad"
  using assms(2-) by (simp_all add: assms(1) slice_def)

lemma header_complete:
  assumes "guid_ok g" "c < 256 ^ 4" "lba < 256 ^ 8" "bk < 256 ^ 8" "el < 256 ^ 8" "fits p"
  shows "parse_gpt_header (encode_header p lba bk el g c) lba bk el p label =
     Inr \<lparr>gh_current = lba, gh_backup = bk, gh_first = first_usable_lba, gh_last = last_usable_lba p,
          gh_disk_guid = g, gh_entries_lba = el, gh_entries_crc32 = c\<rparr>"
proof -
  let ?b = "encode_header p lba bk el g c"
  let ?s = "crc32 (header_body p lba bk el g c 0)"
  have u: "uuid_ok g" using assms(1) by (simp add: guid_ok_def)
  have l: "length ?b = 4096" using length_encode_header[OF u] by (simp add: SECTOR_SIZE_def)
  have e: "?b = ''EFI PART'' @ le_bytes 4 0x00010000 @ le_bytes 4 GPT_HEADER_SIZE @ le_bytes 4 ?s @ le_bytes 4 0 @
     le_bytes 8 lba @ le_bytes 8 bk @ le_bytes 8 first_usable_lba @ le_bytes 8 (last_usable_lba p) @
     swap_fields g @ le_bytes 8 el @ le_bytes 4 GPT_ENTRY_COUNT @ le_bytes 4 GPT_ENTRY_SIZE @
     le_bytes 4 c @ replicate 4004 NUL"
    by (simp add: encode_header_def header_body_def)
  have sl: "slice ?b 0 8 = ''EFI PART''" "slice ?b 8 12 = le_bytes 4 0x00010000"
    "slice ?b 12 16 = le_bytes 4 GPT_HEADER_SIZE" "slice ?b 16 20 = le_bytes 4 ?s" "slice ?b 20 24 = le_bytes 4 0"
    "slice ?b 24 32 = le_bytes 8 lba" "slice ?b 32 40 = le_bytes 8 bk" "slice ?b 40 48 = le_bytes 8 first_usable_lba"
    "slice ?b 48 56 = le_bytes 8 (last_usable_lba p)" "slice ?b 56 72 = swap_fields g" "slice ?b 72 80 = le_bytes 8 el"
    "slice ?b 80 84 = le_bytes 4 GPT_ENTRY_COUNT" "slice ?b 84 88 = le_bytes 4 GPT_ENTRY_SIZE"
    "slice ?b 88 92 = le_bytes 4 c" "drop 92 ?b = replicate 4004 NUL"
    using header_slices[OF e] length_swap[OF u] by simp_all
  have fl: "get_le 4 ?b 8 = 0x00010000" "get_le 4 ?b 12 = GPT_HEADER_SIZE" "get_le 4 ?b 16 = ?s" "get_le 4 ?b 20 = 0"
    "get_le 8 ?b 24 = lba" "get_le 8 ?b 32 = bk" "get_le 8 ?b 40 = first_usable_lba"
    "get_le 8 ?b 48 = last_usable_lba p" "get_le 8 ?b 72 = el" "get_le 4 ?b 80 = GPT_ENTRY_COUNT"
    "get_le 4 ?b 84 = GPT_ENTRY_SIZE" "get_le 4 ?b 88 = c"
    by (rule get_le_field; use sl small_fields fits_lbas[OF assms(6)] assms(2-5) crc32_bound in simp)+
  have body: "slice ?b 0 16 @ replicate 4 NUL @ slice ?b 20 92 = header_body p lba bk el g c 0"
    unfolding header_checked sl header_body_def unfolding le_bytes_0[of 4] by (simp only:)
  have g: "swap_fields (slice ?b 56 72) = g" using guid.dec_enc[OF u] sl by simp
  show ?thesis unfolding parse_gpt_header_def Let_def
    using sl(1,15) fl body g assms(1) l
    by (simp add: SECTOR_SIZE_def guid_ok_def GPT_HEADER_SIZE_def)
qed

section \<open>The partition entries\<close>

definition name_field :: bytes where
  "name_field = utf16_encode (map ord ''primary'') @ replicate 58 NUL"

definition encode_entry :: "uuid \<Rightarrow> uuid \<Rightarrow> nat \<Rightarrow> nat \<Rightarrow> bytes" where
  "encode_entry tg ug first last_lba =
     swap_fields tg @ swap_fields ug @ le_bytes 8 first @ le_bytes 8 last_lba @ le_bytes 8 0 @ name_field"

definition entry_of :: "uuid \<Rightarrow> uuid \<Rightarrow> nat \<Rightarrow> nat \<Rightarrow> partition" where
  "entry_of tg ug first last_lba = \<lparr>pt_type_guid = tg, pt_unique_guid = ug, pt_first = first, pt_last = last_lba,
     pt_attributes = 0, pt_name = map ord ''primary''\<rparr>"

lemma primary_utf16: "length (utf16_encode (map ord ''primary'')) = 14"
  unfolding utf16_encode_bytes by simp

lemma length_name_field [simp]: "length name_field = 72"
  unfolding name_field_def length_append primary_utf16 by simp

lemma length_encode_entry [simp]: "uuid_ok tg \<Longrightarrow> uuid_ok ug \<Longrightarrow> length (encode_entry tg ug f l) = 128"
  by (simp add: encode_entry_def)

lemma name_field_decodes:
  "utf16_decode (utf16_units name_field) = Some (map ord ''primary'' @ replicate 29 0)"
proof -
  have "utf16_units (replicate 58 NUL) = replicate 29 0" using utf16_units_zeros[of 29] by simp
  then have "utf16_units name_field = map ord ''primary'' @ replicate 29 0"
    unfolding name_field_def utf16_encode_bytes utf16_units_bytes by (rule arg_cong)
  moreover have "\<forall>u \<in> set (map ord ''primary'' @ replicate 29 0). u < 0xD800"
    by (simp add: ord_def)
  ultimately show ?thesis using utf16_decode_plain by simp
qed

lemma entry_fields:
  assumes "length e = 128"
  shows "e = slice e 0 16 @ slice e 16 32 @ slice e 32 40 @ slice e 40 48 @ slice e 48 56 @ slice e 56 128"
  using slice_all[of e] by (simp add: slice_append_slice assms)

lemma name_sound:
  assumes "length raw = 72" "slice raw 0 (length enc) = enc" "\<not> any_nonzero (drop (length enc) raw)"
    "enc = utf16_encode (map ord ''primary'') @ [NUL, NUL]"
  shows "raw = name_field"
proof -
  have le: "length enc = 16" unfolding assms(4) length_append primary_utf16 by simp
  have "drop 16 raw = replicate 56 NUL" using assms(1,3) le no_nonzero_iff[of "drop 16 raw" 56] by simp
  moreover have "raw = slice raw 0 16 @ drop 16 raw" by (simp add: slice_drop)
  ultimately have "raw = enc @ replicate 56 NUL" using assms(2) le by simp
  moreover have "replicate 58 NUL = [NUL, NUL] @ replicate 56 NUL" by (simp add: numeral_eq_Suc)
  ultimately show ?thesis by (simp add: name_field_def assms(4))
qed

lemma entry_sound:
  assumes d: "decode_partition e label = Inr pt" and l: "length e = 128"
    and m: "partition_matches pt tg f la ''primary''"
  shows "e = encode_entry tg (pt_unique_guid pt) f la \<and> guid_ok (pt_unique_guid pt) \<and>
     pt = entry_of tg (pt_unique_guid pt) f la"
proof -
  let ?ug = "swap_fields (slice e 16 32)"
  from d m obtain cps where
    n: "slice (slice e 56 128) 0 (length (utf16_encode (map ord ''primary'') @ [NUL, NUL])) = utf16_encode (map ord ''primary'') @ [NUL, NUL]"
      "\<not> any_nonzero (drop (length (utf16_encode (map ord ''primary'') @ [NUL, NUL])) (slice e 56 128))"
    and i: "\<not> uuid_zero ?ug" "rfc_v4 ?ug"
    and v: "swap_fields (slice e 0 16) = tg" "get_le 8 e 32 = f" "get_le 8 e 40 = la" "get_le 8 e 48 = 0"
    and pt: "pt_unique_guid pt = ?ug"
    unfolding decode_partition_def Let_def partition_matches_def
    by (auto simp: res_iff split: option.splits)
  have raw: "slice e 56 128 = name_field" by (rule name_sound[OF _ n refl]) (simp add: l)
  have g: "slice e 0 16 = swap_fields tg" "slice e 16 32 = swap_fields ?ug"
    using guid.enc_dec[of "slice e 0 16"] guid.enc_dec[of "slice e 16 32"] l v(1) by simp_all
  have fl: "slice e 32 40 = le_bytes 8 f" "slice e 40 48 = le_bytes 8 la" "slice e 48 56 = le_bytes 8 0"
    using field_slice[of 32 8 e] field_slice[of 40 8 e] field_slice[of 48 8 e] l v by simp_all
  have "e = encode_entry tg ?ug f la"
    using entry_fields[OF l] unfolding encode_entry_def raw g[symmetric] fl .
  moreover have "guid_ok ?ug" using guid.ok_dec[of "slice e 16 32"] l i by (simp add: guid_ok_def)
  moreover have "pt = entry_of tg ?ug f la"
    using m pt by (cases pt) (simp add: entry_of_def partition_matches_def)
  ultimately show ?thesis unfolding pt by blast
qed

lemma entry_complete:
  assumes "uuid_ok tg" "guid_ok ug" "f \<le> la" "la < 256 ^ 8"
  shows "decode_partition (encode_entry tg ug f la) label = Inr (entry_of tg ug f la)"
proof -
  let ?e = "encode_entry tg ug f la" and ?n = "utf16_encode (map ord ''primary'') @ [NUL, NUL]"
  have u: "uuid_ok ug" using assms(2) by (simp add: guid_ok_def)
  have sl: "slice ?e 0 16 = swap_fields tg" "slice ?e 16 32 = swap_fields ug" "slice ?e 32 40 = le_bytes 8 f"
    "slice ?e 40 48 = le_bytes 8 la" "slice ?e 48 56 = le_bytes 8 0" "slice ?e 56 128 = name_field"
    by (simp_all add: encode_entry_def slice_def length_swap[OF assms(1)] length_swap[OF u])
  have fl: "get_le 8 ?e 32 = f" "get_le 8 ?e 40 = la" "get_le 8 ?e 48 = 0"
    by (rule get_le_field; use sl assms(3,4) in simp)+
  have g: "swap_fields (slice ?e 0 16) = tg" "swap_fields (slice ?e 16 32) = ug"
    using sl guid.dec_enc assms(1) u by simp_all
  have nm: "takeWhile (\<lambda>n. n \<noteq> 0) (map ord ''primary'' @ replicate 29 0) = map ord ''primary''"
    by (simp add: ord_def takeWhile_replicate)
  have nf: "name_field = ?n @ replicate 56 NUL"
    by (simp add: name_field_def numeral_eq_Suc)
  have ck: "slice name_field 0 (length ?n) = ?n" "\<not> any_nonzero (drop (length ?n) name_field)"
    unfolding nf by (simp_all add: slice_def)
  show ?thesis unfolding decode_partition_def Let_def sl(6) name_field_decodes option.case nm g fl
    using ck assms(2,3) by (simp add: guid_ok_def entry_of_def del: length_append)
qed

section \<open>The protective MBR\<close>

definition pmbr_entry :: "assembly_policy \<Rightarrow> bytes" where
  "pmbr_entry p = byte_str [0] @ byte_str [0, 2, 0] @ byte_str [0xEE] @ byte_str [0xFF, 0xFF, 0xFF] @
     le_bytes 4 1 @ le_bytes 4 (min (disk_lbas p - 1) 0xFFFFFFFF)"

definition encode_pmbr :: "assembly_policy \<Rightarrow> bytes" where
  "encode_pmbr p = replicate 446 NUL @ pmbr_entry p @ replicate 16 NUL @ replicate 16 NUL @ replicate 16 NUL @
     byte_str [0x55, 0xAA] @ replicate 3584 NUL"

lemma length_byte_str [simp]: "length (byte_str ns) = length ns"
  by (simp add: byte_str_def)

lemma length_pmbr_entry [simp]: "length (pmbr_entry p) = 16"
  by (simp add: pmbr_entry_def)

lemma length_encode_pmbr [simp]: "length (encode_pmbr p) = 4096"
  by (simp add: encode_pmbr_def)

lemma byte_str_zero [simp]: "byte_str [0] = [NUL]"
  by (simp add: byte_str_def NUL_def)

lemma slice_one: "i < length xs \<Longrightarrow> slice xs i (Suc i) = [xs ! i]"
  by (simp add: slice_def take_Suc_conv_app_nth Cons_nth_drop_Suc[symmetric])

lemma ord_eq_char: "n < 256 \<Longrightarrow> ord c = n \<longleftrightarrow> [c] = byte_str [n]"
  using ord_inject[of c "char_of n"] by (auto simp: byte_str_def)

lemma slice_entry: "i \<in> {1, 2, 3::nat} \<Longrightarrow> slice (slice lba 0 512) (446 + i * 16) (462 + i * 16) = slice lba (446 + i * 16) (462 + i * 16)"
  by (subst slice_slice) auto

lemma pmbr_entry_iff:
  assumes "length e = 16"
  shows "ord (e ! 0) = 0 \<and> slice e 1 4 = byte_str [0, 2, 0] \<and> ord (e ! 4) = 0xEE \<and>
             slice e 5 8 = byte_str [0xFF, 0xFF, 0xFF] \<and> get_le 4 e 8 = 1 \<and>
             get_le 4 e 12 = min (disk_lbas p - 1) 0xFFFFFFFF \<longleftrightarrow> e = pmbr_entry p" (is "?L \<longleftrightarrow> _")
proof -
  have one: "slice e 0 1 = [e ! 0]" "slice e 4 5 = [e ! 4]"
    using slice_one[of 0 e] slice_one[of 4 e] assms by simp_all
  have e: "e = slice e 0 1 @ slice e 1 4 @ slice e 4 5 @ slice e 5 8 @ slice e 8 12 @ slice e 12 16"
    using slice_all[of e] by (simp add: slice_append_slice assms)
  have l: "slice e 8 12 = le_bytes 4 1 \<longleftrightarrow> get_le 4 e 8 = 1"
    "slice e 12 16 = le_bytes 4 (min (disk_lbas p - 1) 0xFFFFFFFF) \<longleftrightarrow> get_le 4 e 12 = min (disk_lbas p - 1) 0xFFFFFFFF"
    using get_le_iff[of 8 4 e 1] get_le_iff[of 12 4 e "min (disk_lbas p - 1) 0xFFFFFFFF"] assms by simp_all
  show ?thesis
  proof
    assume ?L
    with one l show "e = pmbr_entry p" by (subst e) (simp add: pmbr_entry_def ord_eq_char)
  next
    assume "e = pmbr_entry p"
    then have "slice e 0 1 = byte_str [0] \<and> slice e 1 4 = byte_str [0, 2, 0] \<and> slice e 4 5 = byte_str [0xEE] \<and>
        slice e 5 8 = byte_str [0xFF, 0xFF, 0xFF] \<and> slice e 8 12 = le_bytes 4 1 \<and>
        slice e 12 16 = le_bytes 4 (min (disk_lbas p - 1) 0xFFFFFFFF)"
      by (simp add: pmbr_entry_def slice_def)
    with one l show ?L by (simp add: ord_eq_char)
  qed
qed

lemma pmbr_iff:
  "validate_pmbr img p = Inr () \<longleftrightarrow> 4096 \<le> length img \<and> slice img 0 4096 = encode_pmbr p" (is "?L \<longleftrightarrow> ?R")
proof (cases "4096 \<le> length img")
  case False
  then show ?thesis by (simp add: validate_pmbr_def pread_def SECTOR_SIZE_def)
next
  case True
  let ?b = "slice img 0 4096" let ?e = "slice ?b 446 462"
  have l: "length ?b = 4096" using True by simp
  have z: "list_ex (\<lambda>i. any_nonzero (slice (slice ?b 0 512) (446 + i * 16) (462 + i * 16))) [1..<4] \<longleftrightarrow>
      any_nonzero (slice ?b 462 478) \<or> any_nonzero (slice ?b 478 494) \<or> any_nonzero (slice ?b 494 510)"
    by (simp add: upt_rec slice_slice)
  have q: "validate_pmbr img p = Inr () \<longleftrightarrow> \<not> any_nonzero (drop 512 ?b) \<and> \<not> any_nonzero (slice ?b 0 446) \<and>
      slice ?b 510 512 = byte_str [0x55, 0xAA] \<and> \<not> any_nonzero (slice ?b 462 478) \<and>
      \<not> any_nonzero (slice ?b 478 494) \<and> \<not> any_nonzero (slice ?b 494 510) \<and> ?e = pmbr_entry p"
    using True z pmbr_entry_iff[of ?e p] l
    by (auto simp: validate_pmbr_def Let_def pread_def SECTOR_SIZE_def res_iff slice_slice)
  have parts: "?b = slice ?b 0 446 @ ?e @ slice ?b 462 478 @ slice ?b 478 494 @ slice ?b 494 510 @ slice ?b 510 512 @ drop 512 ?b"
    by (simp add: slice_drop)
  have nz: "\<not> any_nonzero (slice ?b a c) \<longleftrightarrow> slice ?b a c = replicate (c - a) NUL" if "a \<le> c" "c \<le> 4096" for a c
    using no_nonzero_iff[of "slice ?b a c" "c - a"] that l by simp
  have nd: "\<not> any_nonzero (drop 512 ?b) \<longleftrightarrow> drop 512 ?b = replicate 3584 NUL"
    using no_nonzero_iff[of "drop 512 ?b" 3584] l by simp
  show ?thesis
  proof
    assume ?L
    with parts show ?R unfolding q by (simp add: nz nd encode_pmbr_def True del: slice_full_append)
  next
    assume ?R
    then have b: "?b = encode_pmbr p" by simp
    have "slice (encode_pmbr p) 0 446 = replicate 446 NUL \<and> slice (encode_pmbr p) 446 462 = pmbr_entry p \<and>
      slice (encode_pmbr p) 462 478 = replicate 16 NUL \<and> slice (encode_pmbr p) 478 494 = replicate 16 NUL \<and>
      slice (encode_pmbr p) 494 510 = replicate 16 NUL \<and> slice (encode_pmbr p) 510 512 = byte_str [0x55, 0xAA] \<and>
      drop 512 (encode_pmbr p) = replicate 3584 NUL"
      by (simp add: encode_pmbr_def slice_def)
    then show ?L unfolding q nd b by simp
  qed
qed

section \<open>The whole image\<close>

lemma policy_geometry:
  assumes "check_assembly_policy p = Inr ()"
  shows "baseline_size p = disk_lbas p * 4096" "13 \<le> disk_lbas p" "24576 \<le> p2_offset p"
    "p2_end p \<le> (disk_lbas p - 5) * 4096" "p2_end p = p2_offset p + p2_size p"
    "partition_names p = (''primary'', ''primary'')" "p1_first_lba p \<le> p1_last_lba p" "p2_first_lba p \<le> p2_last_lba p"
    "p1_last_lba p < disk_lbas p" "p2_last_lba p < disk_lbas p" "0 < p2_size p"
proof -
  have c: "baseline_size p mod 4096 = 0" "6 \<le> p1_first_lba p" "p1_first_lba p \<le> p1_last_lba p"
    "p1_last_lba p + 1 = p2_first_lba p" "p2_first_lba p \<le> p2_last_lba p"
    "p2_last_lba p \<le> disk_lbas p - 4 - 2" "(p2_last_lba p - p2_first_lba p + 1) * 4096 = p2_size p"
    "partition_names p = (''primary'', ''primary'')" "0 < p2_size p"
    using assms unfolding check_assembly_policy_def
    by (auto simp: res_iff SECTOR_SIZE_def first_usable_lba_def last_usable_lba_def GPT_TABLE_LBAS_def)
  show "baseline_size p = disk_lbas p * 4096"
    using c(1) by (simp add: disk_lbas_def SECTOR_SIZE_def mult.commute) (metis dvd_eq_mod_eq_0 dvd_mult_div_cancel)
  show "13 \<le> disk_lbas p" using c(2-6) by linarith
  show "24576 \<le> p2_offset p" using c(2-4) by (simp add: p2_offset_def SECTOR_SIZE_def)
  show "p2_end p \<le> (disk_lbas p - 5) * 4096" using c(2-6) by (simp add: p2_end_def SECTOR_SIZE_def)
  show "p2_end p = p2_offset p + p2_size p"
    using c(5,7) by (simp add: p2_end_def p2_offset_def SECTOR_SIZE_def flip: c(7))
  show "p1_last_lba p < disk_lbas p" "p2_last_lba p < disk_lbas p" using c(2-6) by linarith+
qed (use assms in \<open>auto simp: check_assembly_policy_def res_iff\<close>)

definition encode_table :: "assembly_policy \<Rightarrow> uuid \<Rightarrow> uuid \<Rightarrow> bytes" where
  "encode_table p u1 u2 = encode_entry ESP_GUID u1 (p1_first_lba p) (p1_last_lba p) @
     encode_entry ARM64_ROOT_GUID u2 (p2_first_lba p) (p2_last_lba p) @ replicate 16128 NUL"

lemma guid_constants: "uuid_ok ESP_GUID" "uuid_ok ARM64_ROOT_GUID"
  by (simp_all add: uuid_ok_def ESP_GUID_def ARM64_ROOT_GUID_def)

lemma guid_constants_nonzero: "\<not> uuid_zero ESP_GUID" "\<not> uuid_zero ARM64_ROOT_GUID"
  by (simp_all add: uuid_zero_def ESP_GUID_def ARM64_ROOT_GUID_def be_nat_def hex_digit_val_def ord_def)

lemma length_encode_table [simp]: "uuid_ok u1 \<Longrightarrow> uuid_ok u2 \<Longrightarrow> length (encode_table p u1 u2) = 16384"
  by (simp add: encode_table_def guid_constants)

definition gpt_head :: "assembly_policy \<Rightarrow> uuid \<Rightarrow> uuid \<Rightarrow> uuid \<Rightarrow> bytes" where
  "gpt_head p g u1 u2 = encode_pmbr p @
     encode_header p 1 (disk_lbas p - 1) 2 g (crc32 (encode_table p u1 u2)) @ encode_table p u1 u2"

definition gpt_tail :: "assembly_policy \<Rightarrow> uuid \<Rightarrow> uuid \<Rightarrow> uuid \<Rightarrow> bytes" where
  "gpt_tail p g u1 u2 = encode_table p u1 u2 @
     encode_header p (disk_lbas p - 1) 1 (disk_lbas p - 5) g (crc32 (encode_table p u1 u2))"

definition guids_ok :: "uuid \<Rightarrow> uuid \<Rightarrow> uuid \<Rightarrow> bool" where
  "guids_ok g u1 u2 \<longleftrightarrow> guid_ok g \<and> guid_ok u1 \<and> guid_ok u2 \<and> distinct [g, u1, u2]"

definition canonical_gpt :: "bytes \<Rightarrow> assembly_policy \<Rightarrow> uuid \<Rightarrow> uuid \<Rightarrow> uuid \<Rightarrow> bool" where
  "canonical_gpt img p g u1 u2 \<longleftrightarrow> length img = baseline_size p \<and> guids_ok g u1 u2 \<and>
     slice img 0 24576 = gpt_head p g u1 u2 \<and> drop ((disk_lbas p - 5) * 4096) img = gpt_tail p g u1 u2"

definition layout_of :: "(bytes \<Rightarrow> string) \<Rightarrow> assembly_policy \<Rightarrow> uuid \<Rightarrow> uuid \<Rightarrow> uuid \<Rightarrow> gpt_layout" where
  "layout_of sha p g u1 u2 = \<lparr>gl_disk_guid = g,
     gl_p1 = entry_of ESP_GUID u1 (p1_first_lba p) (p1_last_lba p),
     gl_p2 = entry_of ARM64_ROOT_GUID u2 (p2_first_lba p) (p2_last_lba p),
     gl_table_sha256 = sha (encode_table p u1 u2), gl_first = first_usable_lba, gl_last = last_usable_lba p\<rparr>"

lemma unused_entries:
  assumes "length table = 16384"
    "\<not> list_ex (\<lambda>i. any_nonzero (slice table (i * GPT_ENTRY_SIZE) ((i + 1) * GPT_ENTRY_SIZE))) [2..<GPT_ENTRY_COUNT]"
  shows "drop 256 table = replicate 16128 NUL"
proof (rule nth_equalityI)
  show "length (drop 256 table) = length (replicate 16128 NUL)" using assms(1) by simp
next
  fix j
  assume "j < length (drop 256 table)"
  then have j: "j < 16128" using assms(1) by simp
  let ?i = "2 + j div 128"
  have dv: "j div 128 \<le> 125" using less_mult_imp_div_less[of j 126 128] j by simp
  have i: "?i \<in> set [2..<GPT_ENTRY_COUNT]"
    unfolding set_upt GPT_ENTRY_COUNT_def atLeastLessThan_iff using less_mult_imp_div_less[of j 126 128] j by simp
  let ?s = "slice table (?i * 128) ((?i + 1) * 128)"
  have "\<not> any_nonzero ?s" using assms(2) i unfolding list_ex_iff GPT_ENTRY_SIZE_def by blast
  moreover have "length ?s = 128" using assms(1) dv by simp
  ultimately have s: "?s = replicate 128 NUL" using no_nonzero_iff by blast
  have at: "?i * 128 + j mod 128 = 256 + j" by (simp add: mult.commute)
  have "j mod 128 < (?i + 1) * 128 - ?i * 128" "?i * 128 + j mod 128 < length table"
    using j assms(1) unfolding at by simp_all
  then have "table ! (256 + j) = ?s ! (j mod 128)" unfolding at[symmetric] by (rule nth_slice[symmetric])
  also have "\<dots> = NUL" unfolding s by simp
  finally show "drop 256 table ! j = replicate 16128 NUL ! j" using j assms(1) by simp
qed

lemma table_sound:
  assumes "length table = 16384"
    "\<not> list_ex (\<lambda>i. any_nonzero (slice table (i * GPT_ENTRY_SIZE) ((i + 1) * GPT_ENTRY_SIZE))) [2..<GPT_ENTRY_COUNT]"
    "slice table 0 128 = e1" "slice table 128 256 = e2"
  shows "table = e1 @ e2 @ replicate 16128 NUL"
proof -
  have "table = slice table 0 128 @ slice table 128 256 @ drop 256 table" by (simp add: slice_drop)
  then show ?thesis unfolding assms(3,4) unused_entries[OF assms(1,2)] .
qed

lemma read_table_Inr:
  assumes "read_gpt_table img hdr label = Inr table"
  shows "gh_entries_lba hdr * 4096 + 16384 \<le> length img \<and>
     table = slice img (gh_entries_lba hdr * 4096) (gh_entries_lba hdr * 4096 + 16384) \<and>
     crc32 table = gh_entries_crc32 hdr"
  using assms by (auto simp: read_gpt_table_def res_iff SECTOR_SIZE_def GPT_TABLE_BYTES_def)

lemma validate_gpt_sound:
  assumes pol: "check_assembly_policy p = Inr ()" and v: "validate_gpt sha img p = Inr l"
  shows "\<exists>g u1 u2. canonical_gpt img p g u1 u2 \<and> l = layout_of sha p g u1 u2"
proof -
  let ?D = "disk_lbas p"
  note geo = policy_geometry[OF pol]
  from v obtain h1 h2 t p1 p2 where
    len: "length img = baseline_size p" and mbr: "validate_pmbr img p = Inr ()" and
    h1: "parse_gpt_header (slice img 4096 8192) 1 (?D - 1) 2 p ''primary'' = Inr h1" and
    h2: "parse_gpt_header (slice img ((?D - 1) * 4096) ((?D - 1) * 4096 + 4096)) (?D - 1) 1 (?D - 1 - 4) p ''backup'' = Inr h2" and
    gg: "gh_disk_guid h1 = gh_disk_guid h2" and
    t1: "read_gpt_table img h1 ''primary'' = Inr t" and t2: "read_gpt_table img h2 ''backup'' = Inr t" and
    un: "\<not> list_ex (\<lambda>i. any_nonzero (slice t (i * GPT_ENTRY_SIZE) ((i + 1) * GPT_ENTRY_SIZE))) [2..<GPT_ENTRY_COUNT]" and
    p1: "decode_partition (slice t 0 128) ''GPT partition 1'' = Inr p1" and
    p2: "decode_partition (slice t 128 256) ''GPT partition 2'' = Inr p2" and
    m1: "partition_matches p1 ESP_GUID (p1_first_lba p) (p1_last_lba p) (fst (partition_names p))" and
    m2: "partition_matches p2 ARM64_ROOT_GUID (p2_first_lba p) (p2_last_lba p) (snd (partition_names p))" and
    ds: "distinct [gh_disk_guid h1, pt_unique_guid p1, pt_unique_guid p2]" and
    l: "l = \<lparr>gl_disk_guid = gh_disk_guid h1, gl_p1 = p1, gl_p2 = p2, gl_table_sha256 = sha t,
          gl_first = gh_first h1, gl_last = gh_last h1\<rparr>"
    unfolding validate_gpt_def Let_def by (auto simp: res_iff SECTOR_SIZE_def GPT_TABLE_LBAS_def GPT_ENTRY_SIZE_def)
  let ?g = "gh_disk_guid h1" and ?u1 = "pt_unique_guid p1" and ?u2 = "pt_unique_guid p2"
  note s1 = header_sound[OF h1] and s2 = header_sound[OF h2]
  note r1 = read_table_Inr[OF t1] and r2 = read_table_Inr[OF t2]
  have el: "gh_entries_lba h1 = 2" "gh_entries_lba h2 = ?D - 1 - 4" "?D - 1 - 4 = ?D - 5" using s1 s2 by auto
  have tab: "t = slice img 8192 24576" "crc32 t = gh_entries_crc32 h1" "crc32 t = gh_entries_crc32 h2"
    "24576 \<le> length img" "t = slice img ((?D - 5) * 4096) ((?D - 5) * 4096 + 16384)"
    using r1[unfolded el] r2[unfolded el] by auto
  have lt: "length t = 16384" using tab(1,4) by simp
  have e1: "slice t 0 128 = encode_entry ESP_GUID ?u1 (p1_first_lba p) (p1_last_lba p)" "guid_ok ?u1"
    "p1 = entry_of ESP_GUID ?u1 (p1_first_lba p) (p1_last_lba p)"
    using entry_sound[OF p1 _ m1[unfolded geo(6) fst_conv]] lt by simp_all
  have e2: "slice t 128 256 = encode_entry ARM64_ROOT_GUID ?u2 (p2_first_lba p) (p2_last_lba p)" "guid_ok ?u2"
    "p2 = entry_of ARM64_ROOT_GUID ?u2 (p2_first_lba p) (p2_last_lba p)"
    using entry_sound[OF p2 _ m2[unfolded geo(6) snd_conv]] lt by simp_all
  have T: "t = encode_table p ?u1 ?u2"
    unfolding encode_table_def by (rule table_sound[OF lt un e1(1) e2(1)])
  have "slice img 0 24576 = slice img 0 4096 @ slice img 4096 8192 @ slice img 8192 24576"
    by (simp add: slice_append_slice)
  also have "\<dots> = gpt_head p ?g ?u1 ?u2"
    unfolding gpt_head_def using mbr[unfolded pmbr_iff] s1 tab(1,2) T by simp
  finally have head: "slice img 0 24576 = gpt_head p ?g ?u1 ?u2" .
  have at: "(?D - 5) * 4096 + 16384 = (?D - 1) * 4096" "(?D - 1) * 4096 + 4096 = length img"
    using geo(1,2) len by simp_all
  have "drop ((?D - 5) * 4096) img = slice img ((?D - 5) * 4096) ((?D - 1) * 4096) @ drop ((?D - 1) * 4096) img"
    using slice_drop[of "(?D - 5) * 4096" "(?D - 1) * 4096" img] by simp
  also have "drop ((?D - 1) * 4096) img = slice img ((?D - 1) * 4096) ((?D - 1) * 4096 + 4096)"
    unfolding at(2) by (simp add: slice_def)
  finally have "drop ((?D - 5) * 4096) img = gpt_tail p ?g ?u1 ?u2"
    unfolding gpt_tail_def using s2 tab(3,5) T gg at(1) by simp
  then have "canonical_gpt img p ?g ?u1 ?u2"
    unfolding canonical_gpt_def guids_ok_def using len head s1 e1(2) e2(2) ds by simp
  moreover have "l = layout_of sha p ?g ?u1 ?u2"
    unfolding l layout_of_def using s1 e1(3) e2(3) T by simp
  ultimately show ?thesis by blast
qed

lemma three_parts:
  assumes "xs = a @ b @ c" "length a = i" "length b = k"
  shows "slice xs 0 i = a" "slice xs i (i + k) = b" "drop (i + k) xs = c"
  using assms by (simp_all add: slice_def)

lemma slice_of_drop: "slice (drop n xs) a b = slice xs (n + a) (n + b)"
  by (simp add: slice_def add.commute)

lemma canonical_parts:
  assumes pol: "check_assembly_policy p = Inr ()" and c: "canonical_gpt img p g u1 u2"
  defines "D \<equiv> disk_lbas p" and "T \<equiv> encode_table p u1 u2"
  shows "slice img 0 4096 = encode_pmbr p"
    "slice img 4096 8192 = encode_header p 1 (D - 1) 2 g (crc32 T)"
    "slice img 8192 24576 = T"
    "slice img ((D - 5) * 4096) ((D - 5) * 4096 + 16384) = T"
    "slice img ((D - 1) * 4096) ((D - 1) * 4096 + 4096) = encode_header p (D - 1) 1 (D - 5) g (crc32 T)"
proof -
  note geo = policy_geometry[OF pol]
  have u: "uuid_ok g" "uuid_ok u1" "uuid_ok u2" using c by (simp_all add: canonical_gpt_def guids_ok_def guid_ok_def)
  have lT: "length T = 16384" using u by (simp add: T_def)
  have lh: "length (encode_header p x y z g k) = 4096" for x y z k
    using length_encode_header[OF u(1)] by (simp add: SECTOR_SIZE_def)
  have h: "slice img 0 24576 = encode_pmbr p @ encode_header p 1 (D - 1) 2 g (crc32 T) @ T"
    using c by (simp add: canonical_gpt_def gpt_head_def D_def T_def)
  note p3 = three_parts[OF h length_encode_pmbr lh]
  have "slice (slice img 0 24576) 0 4096 = slice img 0 4096" "slice (slice img 0 24576) 4096 8192 = slice img 4096 8192"
    by (simp_all add: slice_slice)
  with p3 show "slice img 0 4096 = encode_pmbr p" "slice img 4096 8192 = encode_header p 1 (D - 1) 2 g (crc32 T)"
    by simp_all
  have "drop 8192 (slice img 0 24576) = slice img 8192 24576" by (simp add: slice_def drop_take)
  with p3(3) show "slice img 8192 24576 = T" by simp
  have t: "drop ((D - 5) * 4096) img = T @ encode_header p (D - 1) 1 (D - 5) g (crc32 T) @ []"
    using c by (simp add: canonical_gpt_def gpt_tail_def D_def T_def)
  note q3 = three_parts[OF t lT lh]
  have at: "(D - 5) * 4096 + 16384 = (D - 1) * 4096" using geo(2) by (simp add: D_def)
  show "slice img ((D - 5) * 4096) ((D - 5) * 4096 + 16384) = T"
    using q3(1) by (simp add: slice_of_drop)
  show "slice img ((D - 1) * 4096) ((D - 1) * 4096 + 4096) = encode_header p (D - 1) 1 (D - 5) g (crc32 T)"
    using q3(2) unfolding slice_of_drop at[symmetric] by (simp add: add.assoc)
qed

lemma encode_table_parts:
  assumes "uuid_ok u1" "uuid_ok u2"
  shows "slice (encode_table p u1 u2) 0 128 = encode_entry ESP_GUID u1 (p1_first_lba p) (p1_last_lba p)"
    "slice (encode_table p u1 u2) 128 256 = encode_entry ARM64_ROOT_GUID u2 (p2_first_lba p) (p2_last_lba p)"
    "2 \<le> i \<Longrightarrow> \<not> any_nonzero (slice (encode_table p u1 u2) (i * 128) ((i + 1) * 128))"
proof -
  let ?T = "encode_table p u1 u2"
  note p3 = three_parts[OF encode_table_def length_encode_entry[OF guid_constants(1) assms(1)]
      length_encode_entry[OF guid_constants(2) assms(2)]]
  show "slice ?T 0 128 = encode_entry ESP_GUID u1 (p1_first_lba p) (p1_last_lba p)"
    "slice ?T 128 256 = encode_entry ARM64_ROOT_GUID u2 (p2_first_lba p) (p2_last_lba p)"
    using p3(1,2) by simp_all
  assume i: "2 \<le> i"
  then have e: "i * 128 = 256 + (i * 128 - 256)" "(i + 1) * 128 = 256 + ((i + 1) * 128 - 256)" by simp_all
  have "drop 256 ?T = replicate 16128 NUL" using p3(3) by simp
  then have "slice ?T (i * 128) ((i + 1) * 128) = slice (replicate 16128 NUL) (i * 128 - 256) ((i + 1) * 128 - 256)"
    by (subst e(1), subst e(2)) (simp add: slice_of_drop[symmetric])
  then show "\<not> any_nonzero (slice ?T (i * 128) ((i + 1) * 128))"
    by (auto simp: slice_def any_nonzero_def dest: in_set_takeD in_set_dropD)
qed

lemma validate_gpt_complete:
  assumes pol: "check_assembly_policy p = Inr ()" and fit: "fits p" and c: "canonical_gpt img p g u1 u2"
  shows "validate_gpt sha img p = Inr (layout_of sha p g u1 u2)"
proof -
  let ?D = "disk_lbas p" and ?T = "encode_table p u1 u2"
  note geo = policy_geometry[OF pol] and cp = canonical_parts[OF pol c]
  have g: "guid_ok g" "guid_ok u1" "guid_ok u2" "distinct [g, u1, u2]" "length img = baseline_size p"
    using c by (simp_all add: canonical_gpt_def guids_ok_def)
  then have u: "uuid_ok g" "uuid_ok u1" "uuid_ok u2" by (simp_all add: guid_ok_def)
  have big: "24576 \<le> length img" "(?D - 5) * 4096 + 16384 \<le> length img" "(?D - 1) * 4096 + 4096 \<le> length img"
    using geo(1,2) g(5) by simp_all
  have lb: "1 < (256::nat) ^ 8" "2 < (256::nat) ^ 8" "?D - 1 < 256 ^ 8" "?D - 5 < 256 ^ 8"
    using fits_lbas(2)[OF fit] by simp_all
  have la: "p1_last_lba p < 256 ^ 8" "p2_last_lba p < 256 ^ 8" using geo(9,10) fits_lbas(2)[OF fit] by linarith+
  note h1 = header_complete[OF g(1) crc32_bound lb(1,3,2) fit]
    and h2 = header_complete[OF g(1) crc32_bound lb(3,1,4) fit]
  note e1 = entry_complete[OF guid_constants(1) g(2) geo(7) la(1)]
    and e2 = entry_complete[OF guid_constants(2) g(3) geo(8) la(2)]
  note tp = encode_table_parts[OF u(2,3), where p = p]
  have d5: "?D - 1 - 4 = ?D - 5" by simp
  have mbr: "validate_pmbr img p = Inr ()" unfolding pmbr_iff using cp(1) big by simp
  have pr: "pread img 4096 4096 lab = Inr (slice img 4096 8192)"
    "pread img 4096 ((?D - 1) * 4096) lab = Inr (slice img ((?D - 1) * 4096) ((?D - 1) * 4096 + 4096))"
    "pread img 16384 (2 * 4096) lab = Inr (slice img 8192 24576)"
    "pread img 16384 ((?D - 5) * 4096) lab = Inr (slice img ((?D - 5) * 4096) ((?D - 5) * 4096 + 16384))" for lab
    unfolding pread_Inr using big by simp_all
  have s0: "swap_fields (slice (slice ?T 0 128) 0 16) = ESP_GUID" "swap_fields (slice (slice ?T 128 256) 0 16) = ARM64_ROOT_GUID"
    unfolding tp(1,2) encode_entry_def using guid.dec_enc guid_constants
    by (simp_all add: slice_def length_swap)
  have un: "\<not> list_ex (\<lambda>i. any_nonzero (slice ?T (i * 128) ((i + 1) * 128))) [2..<GPT_ENTRY_COUNT]"
    unfolding list_ex_iff set_upt using tp(3) by (meson atLeastLessThan_iff)
  have pm: "partition_matches (entry_of tg ug f la) tg f la ''primary''" for tg ug f la
    by (simp add: partition_matches_def entry_of_def)
  have rt: "read_gpt_table img \<lparr>gh_current = c1, gh_backup = c2, gh_first = c3, gh_last = c4, gh_disk_guid = g,
      gh_entries_lba = el, gh_entries_crc32 = crc32 ?T\<rparr> lab = Inr ?T"
    if "el * 4096 + 16384 \<le> length img" "slice img (el * 4096) (el * 4096 + 16384) = ?T" for c1 c2 c3 c4 el lab
    using that by (simp add: read_gpt_table_def pread_def SECTOR_SIZE_def GPT_TABLE_BYTES_def gate_def)
  have sl: "slice img (2 * 4096) (2 * 4096 + 16384) = ?T" using cp(3) by simp
  show ?thesis
    unfolding validate_gpt_def Let_def SECTOR_SIZE_def GPT_TABLE_LBAS_def GPT_ENTRY_SIZE_def d5
    unfolding res_iff mbr
    using g(4,5) big cp(2,5) h1 h2 rt[of 2] rt[of "?D - 5"] sl cp(4) un tp(1,2) s0 guid_constants_nonzero e1 e2 geo(6) pm
    by (simp add: layout_of_def entry_of_def[abs_def])
qed

end
