(* ===== verification/Compose.thy ===== *)
theory Compose
  imports GptSpec
begin

text \<open>
  The composition of the userdata image: the baseline with the P2 file system written over
  its partition, the byte comparisons that verify it, and the proof that the one produces
  what the other accepts (\<open>assemble_userdata_image.py\<close>).
\<close>

section \<open>Comparing ranges in chunks\<close>

definition COPY_CHUNK :: nat where "COPY_CHUNK = 4194304"

lemma COPY_CHUNK_pos [simp]: "0 < COPY_CHUNK"
  by (simp add: COPY_CHUNK_def)

function compare_from :: "bytes \<Rightarrow> nat \<Rightarrow> bytes \<Rightarrow> nat \<Rightarrow> nat \<Rightarrow> string \<Rightarrow> nat \<Rightarrow> unit result" where
  "compare_from left lo right ro size1 label cursor =
     (if cursor < size1 then
        (let amount = min COPY_CHUNK (size1 - cursor) in
         bindE (pread left amount (lo + cursor) label) (\<lambda>a.
         bindE (pread right amount (ro + cursor) label) (\<lambda>b.
           if a \<noteq> b then Inl (AssemblyError (label @ '' is not byte-identical''))
           else compare_from left lo right ro size1 label (cursor + amount))))
      else Inr ())"
  by pat_completeness auto
termination
  by (relation "measure (\<lambda>(l, lo, r, ro, n, lab, c). n - c)") (auto simp: COPY_CHUNK_def)

declare compare_from.simps [simp del]

definition compare_ranges :: "bytes \<Rightarrow> nat \<Rightarrow> bytes \<Rightarrow> nat \<Rightarrow> nat \<Rightarrow> string \<Rightarrow> unit result" where
  "compare_ranges left lo right ro size1 label = compare_from left lo right ro size1 label 0"

lemma compare_from_iff:
  "cursor \<le> n \<Longrightarrow> compare_from left lo right ro n label cursor = Inr () \<longleftrightarrow>
     cursor = n \<or> (lo + n \<le> length left \<and> ro + n \<le> length right \<and>
       slice left (lo + cursor) (lo + n) = slice right (ro + cursor) (ro + n))"
proof (induction left lo right ro n label cursor rule: compare_from.induct)
  case (1 left lo right ro n label cursor)
  show ?case
  proof (cases "cursor < n")
    case False
    with 1(2) show ?thesis by (subst compare_from.simps) simp
  next
    case True
    define a where "a = min COPY_CHUNK (n - cursor)"
    have a: "0 < a" "cursor + a \<le> n" using True by (auto simp: a_def)
    let ?L = "\<lambda>i j. slice left (lo + i) (lo + j)" and ?R = "\<lambda>i j. slice right (ro + i) (ro + j)"
    have split: "?L cursor n = ?R cursor n \<longleftrightarrow>
        ?L cursor (cursor + a) = ?R cursor (cursor + a) \<and> ?L (cursor + a) n = ?R (cursor + a) n"
      if "lo + n \<le> length left" "ro + n \<le> length right"
    proof -
      have "?L cursor n = ?L cursor (cursor + a) @ ?L (cursor + a) n" "?R cursor n = ?R cursor (cursor + a) @ ?R (cursor + a) n"
        using a by (simp_all add: slice_append_slice)
      moreover have "length (?L cursor (cursor + a)) = length (?R cursor (cursor + a))" using that a by simp
      ultimately show ?thesis by simp
    qed
    have IH: "compare_from left lo right ro n label (cursor + a) = Inr () \<longleftrightarrow>
        cursor + a = n \<or> (lo + n \<le> length left \<and> ro + n \<le> length right \<and> ?L (cursor + a) n = ?R (cursor + a) n)"
      if "?L cursor (cursor + a) = ?R cursor (cursor + a)" "lo + cursor + a \<le> length left" "ro + cursor + a \<le> length right"
      using 1(1)[OF True a_def, of "?L cursor (cursor + a)" "?R cursor (cursor + a)"] that a
      by (simp add: pread_def a_def[symmetric] add.assoc)
    have unf: "compare_from left lo right ro n label cursor = Inr () \<longleftrightarrow>
        lo + cursor + a \<le> length left \<and> ro + cursor + a \<le> length right \<and>
        ?L cursor (cursor + a) = ?R cursor (cursor + a) \<and> compare_from left lo right ro n label (cursor + a) = Inr ()"
      using True by (subst compare_from.simps) (auto simp: Let_def a_def[symmetric] res_iff add.assoc)
    show ?thesis
    proof (cases "cursor + a = n")
      case T2: True
      then have "lo + cursor + a = lo + n" "ro + cursor + a = ro + n" by simp_all
      with unf IH T2 True show ?thesis by auto
    next
      case False
      with unf IH split True a show ?thesis by auto
    qed
  qed
qed

lemma compare_ranges_iff [res_iff]:
  "compare_ranges left lo right ro n label = Inr u \<longleftrightarrow>
     n = 0 \<or> (lo + n \<le> length left \<and> ro + n \<le> length right \<and> slice left lo (lo + n) = slice right ro (ro + n))"
  using compare_from_iff[of 0 n left lo right ro label] by (simp add: compare_ranges_def)

section \<open>Copying and overwriting\<close>

text \<open>
  A write may be accepted in part.  The list holds the numbers of bytes that the coming calls
  accept; when it is used up, calls accept everything.  The loops are those of \<open>_write_all\<close>
  and \<open>_pwrite_all\<close>: a call that accepts nothing is an error.
\<close>

definition accepted :: "nat list \<Rightarrow> bytes \<Rightarrow> nat" where
  "accepted ns payload = (case ns of [] \<Rightarrow> length payload | n # _ \<Rightarrow> min n (length payload))"

definition overwrite :: "bytes \<Rightarrow> nat \<Rightarrow> bytes \<Rightarrow> bytes" where
  "overwrite data off bs =
     take off data @ replicate (off - length data) NUL @ bs @ drop (off + length bs) data"

function pwrite_all :: "nat list \<Rightarrow> bytes \<Rightarrow> bytes \<Rightarrow> nat \<Rightarrow> string \<Rightarrow> (bytes \<times> nat list) result" where
  "pwrite_all ns data payload off label =
     (if payload = [] then Inr (data, ns)
      else let n = accepted ns payload in
        if n = 0 then Inl (AssemblyError (''short write while writing '' @ label))
        else pwrite_all (tl ns) (overwrite data off (take n payload)) (drop n payload) (off + n) label)"
  by pat_completeness auto
termination
  by (relation "measure (\<lambda>(ns, d, p, off, l). length p)") auto

declare pwrite_all.simps [simp del]

text \<open>\<open>_write_all\<close> writes at the file position, which for a file that is only appended to is its end.\<close>

definition write_all :: "nat list \<Rightarrow> bytes \<Rightarrow> bytes \<Rightarrow> string \<Rightarrow> (bytes \<times> nat list) result" where
  "write_all ns data payload label = pwrite_all ns data payload (length data) label"

function copy_from :: "nat list \<Rightarrow> bytes \<Rightarrow> bytes \<Rightarrow> nat \<Rightarrow> (bytes \<times> nat list) result" where
  "copy_from ns baseline data off =
     (if off < length baseline then
        (let amount = min COPY_CHUNK (length baseline - off) in
         bindE (pread baseline amount off ''baseline copy'') (\<lambda>block.
         bindE (write_all ns data block ''baseline copy'') (\<lambda>(data', ns').
         copy_from ns' baseline data' (off + amount))))
      else Inr (data, ns))"
  by pat_completeness auto
termination
  by (relation "measure (\<lambda>(ns, b, d, off). length b - off)") (auto simp: COPY_CHUNK_def)

declare copy_from.simps [simp del]

function write_p2_from :: "nat list \<Rightarrow> bytes \<Rightarrow> bytes \<Rightarrow> nat \<Rightarrow> assembly_policy \<Rightarrow> (bytes \<times> nat list) result" where
  "write_p2_from ns p2 data off p =
     (if off < length p2 then
        (let amount = min COPY_CHUNK (length p2 - off) in
         bindE (pread p2 amount off ''P2 input'') (\<lambda>block.
         bindE (pwrite_all ns data block (p2_offset p + off) ''P2 range'') (\<lambda>(data', ns').
         write_p2_from ns' p2 data' (off + amount) p)))
      else Inr (data, ns))"
  by pat_completeness auto
termination
  by (relation "measure (\<lambda>(ns, b, d, off, p). length b - off)") (auto simp: COPY_CHUNK_def)

declare write_p2_from.simps [simp del]

definition copy_then_pwrite :: "nat list \<Rightarrow> bytes \<Rightarrow> bytes \<Rightarrow> assembly_policy \<Rightarrow> bytes result" where
  "copy_then_pwrite ns baseline p2 p =
     bindE (copy_from ns baseline [] 0) (\<lambda>(data, ns').
     bindE (gate (length data = length baseline) ''baseline full-copy length mismatch'') (\<lambda>_.
     bindE (write_p2_from ns' p2 data 0 p) (\<lambda>(data', _). Inr data')))"

lemma accepted_le: "accepted ns payload \<le> length payload"
  by (auto simp: accepted_def split: list.splits)

lemma overwrite_two:
  assumes "off \<le> length d"
  shows "overwrite (overwrite d off a) (off + length a) b = overwrite d off (a @ b)"
proof -
  have e: "overwrite d off a = (take off d @ a) @ drop (off + length a) d" using assms by (simp add: overwrite_def)
  have l: "length (take off d @ a) = off + length a" using assms by simp
  have "take (off + length a) (overwrite d off a) = take off d @ a" unfolding e using l by simp
  moreover have "drop (off + length a + length b) (overwrite d off a) = drop (off + length a + length b) d"
    unfolding e using l by (simp add: add.commute add.left_commute)
  moreover have "off + length a \<le> length (overwrite d off a)" unfolding e using l by simp
  ultimately show ?thesis using assms by (simp add: overwrite_def add.assoc)
qed

lemma overwrite_Nil: "off \<le> length d \<Longrightarrow> overwrite d off [] = d"
  by (simp add: overwrite_def)

lemma pwrite_all_Inr:
  "off \<le> length data \<Longrightarrow> pwrite_all ns data payload off label = Inr (data', ns') \<Longrightarrow> data' = overwrite data off payload"
proof (induction ns data payload off label rule: pwrite_all.induct)
  case (1 ns data payload off label)
  show ?case
  proof (cases "payload = []")
    case True
    with 1(2,3) show ?thesis by (subst (asm) pwrite_all.simps) (simp add: overwrite_Nil)
  next
    case False
    define n where "n = accepted ns payload"
    have n: "n \<noteq> 0" using 1(3) False by (subst (asm) pwrite_all.simps) (auto simp: Let_def n_def split: if_splits)
    have le: "n \<le> length payload" using accepted_le by (simp add: n_def)
    then have lt: "length (take n payload) = n" by simp
    have "pwrite_all (tl ns) (overwrite data off (take n payload)) (drop n payload) (off + n) label = Inr (data', ns')"
      using 1(3) False n by (subst (asm) pwrite_all.simps) (simp add: Let_def n_def)
    moreover have "off + n \<le> length (overwrite data off (take n payload))" using 1(2) le by (simp add: overwrite_def)
    ultimately have "data' = overwrite (overwrite data off (take n payload)) (off + n) (drop n payload)"
      using 1(1)[OF False n_def n] by blast
    also have "\<dots> = overwrite data off payload"
      using overwrite_two[OF 1(2), of "take n payload" "drop n payload"] lt by simp
    finally show ?thesis .
  qed
qed

lemma write_all_Inr: "write_all ns data payload label = Inr (data', ns') \<Longrightarrow> data' = data @ payload"
  using pwrite_all_Inr[of "length data" data ns payload label data' ns'] by (simp add: write_all_def overwrite_def)

lemma copy_from_Inr:
  "off \<le> length baseline \<Longrightarrow> copy_from ns baseline data off = Inr (data', ns') \<Longrightarrow> data' = data @ drop off baseline"
proof (induction ns baseline data off rule: copy_from.induct)
  case (1 ns baseline data off)
  show ?case
  proof (cases "off < length baseline")
    case False
    with 1(2,3) show ?thesis by (subst (asm) copy_from.simps) simp
  next
    case True
    define a where "a = min COPY_CHUNK (length baseline - off)"
    have a: "off + a \<le> length baseline" using True by (simp add: a_def)
    obtain d2 ns2 where w: "write_all ns data (slice baseline off (off + a)) ''baseline copy'' = Inr (d2, ns2)"
      and r: "copy_from ns2 baseline d2 (off + a) = Inr (data', ns')"
      using 1(3) True by (subst (asm) copy_from.simps) (auto simp: Let_def a_def[symmetric] res_iff)
    have "data' = d2 @ drop (off + a) baseline"
      using 1(1)[OF True a_def, of "slice baseline off (off + a)" "(d2, ns2)"] w r a by (simp add: pread_def)
    then show ?thesis using write_all_Inr[OF w] slice_drop[of off "off + a" baseline] by simp
  qed
qed

lemma write_p2_from_Inr:
  "p2_offset p + off \<le> length data \<Longrightarrow> off \<le> length p2 \<Longrightarrow> write_p2_from ns p2 data off p = Inr (data', ns') \<Longrightarrow>
     data' = overwrite data (p2_offset p + off) (drop off p2)"
proof (induction ns p2 data off p rule: write_p2_from.induct)
  case (1 ns p2 data off p)
  show ?case
  proof (cases "off < length p2")
    case False
    with 1(2,3,4) show ?thesis by (subst (asm) write_p2_from.simps) (simp add: overwrite_Nil)
  next
    case True
    define a where "a = min COPY_CHUNK (length p2 - off)"
    have a: "off + a \<le> length p2" using True by (simp add: a_def)
    let ?b = "slice p2 off (off + a)"
    have lb: "length ?b = a" using a by simp
    obtain d2 ns2 where w: "pwrite_all ns data ?b (p2_offset p + off) ''P2 range'' = Inr (d2, ns2)"
      and r: "write_p2_from ns2 p2 d2 (off + a) p = Inr (data', ns')"
      using 1(4) True by (subst (asm) write_p2_from.simps) (auto simp: Let_def a_def[symmetric] res_iff)
    have d2: "d2 = overwrite data (p2_offset p + off) ?b" by (rule pwrite_all_Inr[OF 1(2) w])
    have "p2_offset p + (off + a) \<le> length d2" using 1(2) lb by (simp add: d2 overwrite_def)
    then have "data' = overwrite d2 (p2_offset p + (off + a)) (drop (off + a) p2)"
      using 1(1)[OF True a_def, of ?b "(d2, ns2)"] w r a by (simp add: pread_def)
    also have "\<dots> = overwrite data (p2_offset p + off) (?b @ drop (off + a) p2)"
      using overwrite_two[OF 1(2), of ?b "drop (off + a) p2"] lb by (simp add: d2 add.assoc)
    finally show ?thesis using slice_drop[of off "off + a" p2] by simp
  qed
qed

text \<open>What the assembler is for: the baseline, with P2 in its partition.\<close>

definition compose :: "bytes \<Rightarrow> bytes \<Rightarrow> assembly_policy \<Rightarrow> bytes" where
  "compose baseline p2 p = take (p2_offset p) baseline @ p2 @ drop (p2_end p) baseline"

lemma copy_then_pwrite_Inr:
  assumes "copy_then_pwrite ns baseline p2 p = Inr out" "check_assembly_policy p = Inr ()"
    "length baseline = baseline_size p" "length p2 = p2_size p"
  shows "out = compose baseline p2 p"
proof -
  note geo = policy_geometry[OF assms(2)]
  from assms(1) obtain data ns' ns2 where c: "copy_from ns baseline [] 0 = Inr (data, ns')"
    and w: "write_p2_from ns' p2 data 0 p = Inr (out, ns2)"
    unfolding copy_then_pwrite_def by (auto simp: res_iff)
  have d: "data = baseline" using copy_from_Inr[OF _ c] by simp
  have off: "p2_offset p \<le> length baseline" using geo(1,4,5) assms(3) by simp
  with write_p2_from_Inr[OF _ _ w] d have "out = overwrite baseline (p2_offset p) p2" by simp
  with off show ?thesis by (simp add: overwrite_def compose_def geo(5) assms(4))
qed

end
