(* ===== verification/Composition.thy ===== *)
theory Composition
  imports Compose JsonText
begin

text \<open>
  The verification of a composed userdata image (\<open>_verify_composition_readers\<close> of
  \<open>assemble_userdata_image.py\<close>) with the evidence it returns, and the theorems that tie it
  to the copy: what passes is the composition, and the copy of accepted inputs returns and
  passes.
\<close>

section \<open>Evidence\<close>

definition jnum :: "nat \<Rightarrow> json" where
  "jnum n = JInt (int n)"

text \<open>\<open>GptLayout.evidence\<close>\<close>

definition partition_evidence :: "partition \<Rightarrow> json" where
  "partition_evidence pt = JObj
     [(''first_lba'', jnum (pt_first pt)),
      (''last_lba'', jnum (pt_last pt)),
      (''name'', JStr (concat (map utf8_encode (pt_name pt)))),
      (''type_guid'', JStr (uuid_text (pt_type_guid pt)))]"

definition gpt_evidence :: "gpt_layout \<Rightarrow> assembly_policy \<Rightarrow> json" where
  "gpt_evidence l p = JObj
     [(''disk_guid'', JStr (uuid_text (gl_disk_guid l))),
      (''entry_count'', jnum GPT_ENTRY_COUNT),
      (''entry_size'', jnum GPT_ENTRY_SIZE),
      (''first_usable_lba'', jnum (gl_first l)),
      (''last_usable_lba'', jnum (gl_last l)),
      (''leading_usable_gap_lbas'', JInt (int (p1_first_lba p) - int (gl_first l))),
      (''partition_guids'', JArr (map (\<lambda>pt. JStr (uuid_text (pt_unique_guid pt))) [gl_p1 l, gl_p2 l])),
      (''partitions'', JArr (map partition_evidence [gl_p1 l, gl_p2 l])),
      (''table_sha256'', JStr (gl_table_sha256 l)),
      (''tail_usable_gap_lbas'', JInt (int (gl_last l) - int (p2_last_lba p)))]"

text \<open>What \<open>_validate_p2\<close> returns.\<close>

definition p2_evidence :: "bytes \<Rightarrow> nat \<Rightarrow> json" where
  "p2_evidence img blocks = JObj
     [(''block_count'', jnum blocks),
      (''block_size'', jnum SECTOR_SIZE),
      (''size'', jnum (length img)),
      (''uuid'', JStr (uuid_text (slice (slice img 1024 2048) 0x68 0x78)))]"

section \<open>The verifier\<close>

definition same_gpt_identity :: "gpt_layout \<Rightarrow> gpt_layout \<Rightarrow> bool" where
  "same_gpt_identity a b \<longleftrightarrow>
     gl_disk_guid a = gl_disk_guid b \<and> gl_p1 a = gl_p1 b \<and> gl_p2 a = gl_p2 b \<and>
     gl_table_sha256 a = gl_table_sha256 b"

definition verify_composition_readers ::
  "host \<Rightarrow> bytes \<Rightarrow> bytes \<Rightarrow> bytes \<Rightarrow> assembly_policy \<Rightarrow> bool \<Rightarrow> dict result" where
  "verify_composition_readers h baseline p2 out p require_baseline_hash =
     bindE (gate (require_baseline_hash \<longrightarrow> sha256 h baseline = baseline_sha256 p) ''baseline raw SHA256 mismatch'') (\<lambda>_.
     bindE (validate_gpt (sha256 h) baseline p) (\<lambda>baseline_gpt.
     bindE (validate_gpt (sha256 h) out p) (\<lambda>output_gpt.
     bindE (gate (same_gpt_identity baseline_gpt output_gpt)
              ''output GPT does not preserve baseline GUIDs and entries'') (\<lambda>_.
     bindE (validate_p2 p2 p) (\<lambda>blocks.
     bindE (compare_ranges baseline 0 out 0 (p2_offset p) ''prefix drift'') (\<lambda>_.
     bindE (compare_ranges p2 0 out (p2_offset p) (p2_size p) ''P2 drift'') (\<lambda>_.
     bindE (compare_ranges baseline (p2_end p) out (p2_end p) (suffix_size p) ''tail/suffix drift'') (\<lambda>_.
     Inr [(''baseline_gpt'', gpt_evidence baseline_gpt p),
          (''byte_identity'', JObj
             [(''p2_bytes'', jnum (p2_size p)),
              (''prefix_bytes'', jnum (p2_offset p)),
              (''suffix_bytes'', jnum (suffix_size p))]),
          (''gpt_guid_preservation'', JBool True),
          (''output_gpt'', gpt_evidence output_gpt p),
          (''p2_filesystem'', p2_evidence p2 blocks),
          (''raw_sha256'', JStr (sha256 h out)),
          (''raw_size'', jnum (length out))]))))))))"

text \<open>\<open>verify_composition\<close>; the sizes are checked when the three files are opened.\<close>

definition verify_composition :: "host \<Rightarrow> bytes \<Rightarrow> bytes \<Rightarrow> bytes \<Rightarrow> assembly_policy \<Rightarrow> dict result" where
  "verify_composition h baseline p2 out p =
     bindE (gate (length baseline = baseline_size p) ''baseline raw size mismatch'') (\<lambda>_.
     bindE (gate (length p2 = p2_size p) ''P2 input size mismatch'') (\<lambda>_.
     bindE (gate (length out = baseline_size p) ''assembled raw size mismatch'') (\<lambda>_.
     verify_composition_readers h baseline p2 out p True)))"

section \<open>What the verifier accepts\<close>

lemma validate_gpt_size: "validate_gpt sha img p = Inr l \<Longrightarrow> length img = baseline_size p"
  by (auto simp: validate_gpt_def res_iff)

lemma validate_p2_size: "validate_p2 img p = Inr b \<Longrightarrow> length img = p2_size p"
  by (auto simp: validate_p2_def res_iff)

lemma verify_readers_Inr:
  "verify_composition_readers h baseline p2 out p req = Inr ev \<Longrightarrow>
     (\<exists>l l' b. validate_gpt (sha256 h) baseline p = Inr l \<and> validate_gpt (sha256 h) out p = Inr l' \<and>
        same_gpt_identity l l' \<and> validate_p2 p2 p = Inr b) \<and>
     (req \<longrightarrow> sha256 h baseline = baseline_sha256 p) \<and>
     compare_ranges baseline 0 out 0 (p2_offset p) ''prefix drift'' = Inr () \<and>
     compare_ranges p2 0 out (p2_offset p) (p2_size p) ''P2 drift'' = Inr () \<and>
     compare_ranges baseline (p2_end p) out (p2_end p) (suffix_size p) ''tail/suffix drift'' = Inr ()"
  unfolding verify_composition_readers_def bindE_Inr_iff gate_Inr
  by (elim exE conjE, intro conjI exI) (assumption | simp)+

lemma ranges_compose:
  assumes "check_assembly_policy p = Inr ()" "length baseline = baseline_size p" "length p2 = p2_size p"
    "length out = baseline_size p"
  shows "compare_ranges baseline 0 out 0 (p2_offset p) a = Inr () \<and>
     compare_ranges p2 0 out (p2_offset p) (p2_size p) b = Inr () \<and>
     compare_ranges baseline (p2_end p) out (p2_end p) (suffix_size p) c = Inr () \<longleftrightarrow>
     out = compose baseline p2 p"
proof -
  note geo = policy_geometry[OF assms(1)]
  let ?o = "p2_offset p" and ?e = "p2_end p" and ?n = "baseline_size p"
  have le: "?e \<le> ?n" "?o \<le> ?e" "?e = ?o + p2_size p" "?e + suffix_size p = ?n" "0 < ?o"
    using geo by (simp_all add: suffix_size_def)
  have full: "slice xs ?e ?n = drop ?e xs" if "length xs = ?n" for xs :: bytes
    using that by (simp add: slice_def)
  have out: "out = slice out 0 ?o @ slice out ?o ?e @ slice out ?e ?n"
    using le assms(4) slice_all[of out] by (simp add: slice_append_slice)
  have l: "length (slice out 0 ?o) = ?o" "length (slice out ?o ?e) = length p2"
    using le assms(3,4) by simp_all
  have tk: "slice baseline 0 ?o = take ?o baseline" by (simp add: slice_def)
  have p2: "slice p2 0 (p2_size p) = p2" using assms(3) slice_all[of p2] by simp
  have "?thesis \<longleftrightarrow> (slice baseline 0 ?o = slice out 0 ?o \<and> p2 = slice out ?o ?e \<and>
      (suffix_size p = 0 \<or> slice baseline ?e ?n = slice out ?e ?n) \<longleftrightarrow> out = compose baseline p2 p)"
    unfolding compare_ranges_iff using le assms(2,3,4) geo(11) p2 by simp
  also have "(suffix_size p = 0 \<or> slice baseline ?e ?n = slice out ?e ?n) \<longleftrightarrow> slice baseline ?e ?n = slice out ?e ?n"
    using le(4) by auto
  also have "slice baseline 0 ?o = slice out 0 ?o \<and> p2 = slice out ?o ?e \<and> slice baseline ?e ?n = slice out ?e ?n
      \<longleftrightarrow> out = compose baseline p2 p"
  proof
    assume "slice baseline 0 ?o = slice out 0 ?o \<and> p2 = slice out ?o ?e \<and> slice baseline ?e ?n = slice out ?e ?n"
    with out tk full[OF assms(2)] show "out = compose baseline p2 p" unfolding compose_def by metis
  next
    assume "out = compose baseline p2 p"
    then have eq: "take ?o baseline @ p2 @ drop ?e baseline = slice out 0 ?o @ slice out ?o ?e @ slice out ?e ?n"
      using out by (simp add: compose_def)
    have "length (take ?o baseline) = ?o" using le assms(2) by simp
    with eq l show "slice baseline 0 ?o = slice out 0 ?o \<and> p2 = slice out ?o ?e \<and> slice baseline ?e ?n = slice out ?e ?n"
      by (simp add: tk full[OF assms(2)])
  qed
  finally show ?thesis by blast
qed

lemma compose_length:
  assumes "check_assembly_policy p = Inr ()" "length baseline = baseline_size p" "length p2 = p2_size p"
  shows "length (compose baseline p2 p) = baseline_size p"
  using policy_geometry[OF assms(1)] assms(2,3) by (simp add: compose_def)

text \<open>The partition lies between the two copies of the table.\<close>

lemma compose_canonical:
  assumes pol: "check_assembly_policy p = Inr ()" and c: "canonical_gpt baseline p g u1 u2"
    and l: "length p2 = p2_size p"
  shows "canonical_gpt (compose baseline p2 p) p g u1 u2"
proof -
  note geo = policy_geometry[OF pol]
  let ?o = "p2_offset p" and ?t = "(disk_lbas p - 5) * 4096"
  have lb: "length baseline = baseline_size p" using c by (simp add: canonical_gpt_def)
  have "slice (compose baseline p2 p) 0 24576 = slice baseline 0 24576"
    using geo(1,3,4,5) lb by (simp add: compose_def slice_def min_def)
  moreover have "drop ?t (compose baseline p2 p) = drop ?t baseline"
    using geo(1,4,5) lb l by (simp add: compose_def)
  ultimately show ?thesis using c compose_length[OF pol lb l] by (simp add: canonical_gpt_def)
qed

lemma verify_complete:
  assumes pol: "check_assembly_policy p = Inr ()" and fit: "fits p" and c: "canonical_gpt baseline p g u1 u2"
    and p2: "validate_p2 p2 p = Inr b" and sha: "sha256 h baseline = baseline_sha256 p"
  shows "\<exists>ev. verify_composition h baseline p2 (compose baseline p2 p) p = Inr ev"
proof -
  have lb: "length baseline = baseline_size p" using c by (simp add: canonical_gpt_def)
  note lp = validate_p2_size[OF p2]
  note lo = compose_length[OF pol lb lp]
  let ?l = "layout_of (sha256 h) p g u1 u2"
  have v: "validate_gpt (sha256 h) baseline p = Inr ?l" "validate_gpt (sha256 h) (compose baseline p2 p) p = Inr ?l"
    using validate_gpt_complete[OF pol fit] c compose_canonical[OF pol c lp] by simp_all
  have "same_gpt_identity ?l ?l" by (simp add: same_gpt_identity_def)
  moreover note ranges_compose[OF pol lb lp lo, THEN iffD2, OF refl]
  ultimately show ?thesis
    unfolding verify_composition_def verify_composition_readers_def using lb lp lo v p2 sha by simp
qed

section \<open>The copy returns\<close>

text \<open>When every call accepts at least one byte, the loops end.\<close>

definition progressing :: "nat list \<Rightarrow> bool" where
  "progressing ns \<longleftrightarrow> list_all ((<) 0) ns"

lemma progressing_tl: "progressing ns \<Longrightarrow> progressing (tl ns)"
  by (cases ns) (simp_all add: progressing_def)

lemma accepted_pos: "progressing ns \<Longrightarrow> payload \<noteq> [] \<Longrightarrow> 0 < accepted ns payload"
  by (cases ns) (simp_all add: accepted_def progressing_def)

lemma pwrite_all_returns:
  "progressing ns \<Longrightarrow> \<exists>data' ns'. pwrite_all ns data payload off label = Inr (data', ns') \<and> progressing ns'"
proof (induction ns data payload off label rule: pwrite_all.induct)
  case (1 ns data payload off label)
  show ?case
  proof (cases "payload = []")
    case True
    with 1(2) show ?thesis by (subst pwrite_all.simps) simp
  next
    case False
    have ne: "accepted ns payload \<noteq> 0" using accepted_pos[OF 1(2) False] by simp
    show ?thesis
      using 1(1)[OF False refl ne progressing_tl[OF 1(2)]] False ne
      by (subst pwrite_all.simps) (simp add: Let_def)
  qed
qed

lemma copy_from_returns:
  "progressing ns \<Longrightarrow> \<exists>data' ns'. copy_from ns baseline data off = Inr (data', ns') \<and> progressing ns'"
proof (induction ns baseline data off rule: copy_from.induct)
  case (1 ns baseline data off)
  show ?case
  proof (cases "off < length baseline")
    case False
    with 1(2) show ?thesis by (subst copy_from.simps) simp
  next
    case True
    define a where "a = min COPY_CHUNK (length baseline - off)"
    have pr: "pread baseline a off ''baseline copy'' = Inr (slice baseline off (off + a))"
      using True by (simp add: pread_def a_def)
    obtain d2 ns2 where w: "write_all ns data (slice baseline off (off + a)) ''baseline copy'' = Inr (d2, ns2)" "progressing ns2"
      using pwrite_all_returns[OF 1(2)] unfolding write_all_def by blast
    show ?thesis
      using 1(1)[OF True a_def pr w(1) refl w(2)] True
      by (subst copy_from.simps) (simp add: Let_def a_def[symmetric] pr w(1))
  qed
qed

lemma write_p2_from_returns:
  "progressing ns \<Longrightarrow> \<exists>data' ns'. write_p2_from ns p2 data off p = Inr (data', ns') \<and> progressing ns'"
proof (induction ns p2 data off p rule: write_p2_from.induct)
  case (1 ns p2 data off p)
  show ?case
  proof (cases "off < length p2")
    case False
    with 1(2) show ?thesis by (subst write_p2_from.simps) simp
  next
    case True
    define a where "a = min COPY_CHUNK (length p2 - off)"
    have pr: "pread p2 a off ''P2 input'' = Inr (slice p2 off (off + a))"
      using True by (simp add: pread_def a_def)
    obtain d2 ns2 where w: "pwrite_all ns data (slice p2 off (off + a)) (p2_offset p + off) ''P2 range'' = Inr (d2, ns2)"
        "progressing ns2"
      using pwrite_all_returns[OF 1(2)] by blast
    show ?thesis
      using 1(1)[OF True a_def pr w(1) refl w(2)] True
      by (subst write_p2_from.simps) (simp add: Let_def a_def[symmetric] pr w(1))
  qed
qed

lemma copy_then_pwrite_returns:
  assumes "progressing ns" "check_assembly_policy p = Inr ()" "length baseline = baseline_size p" "length p2 = p2_size p"
  shows "copy_then_pwrite ns baseline p2 p = Inr (compose baseline p2 p)"
proof -
  obtain data ns' where c: "copy_from ns baseline [] 0 = Inr (data, ns')" "progressing ns'"
    using copy_from_returns[OF assms(1)] by blast
  obtain out ns2 where w: "write_p2_from ns' p2 data 0 p = Inr (out, ns2)"
    using write_p2_from_returns[OF c(2)] by blast
  have "data = baseline" using copy_from_Inr[OF _ c(1)] by simp
  then have "copy_then_pwrite ns baseline p2 p = Inr out"
    using c(1) w by (simp add: copy_then_pwrite_def)
  with copy_then_pwrite_Inr[OF this assms(2-4)] show ?thesis by simp
qed

end
