(* ===== verification/Sparse.thy ===== *)
theory Sparse
  imports Composition
begin

text \<open>
  The static parser of Android sparse images, version 1 (\<open>assemble_userdata_image.py\<close>).
  The running SHA-256 object is the byte string it was fed with; the running CRC is a 32-bit
  word.
\<close>

section \<open>Constants\<close>

definition SPARSE_MAGIC :: nat where "SPARSE_MAGIC = 0xED26FF3A"
definition SPARSE_HEADER_SIZE :: nat where "SPARSE_HEADER_SIZE = 28"
definition SPARSE_CHUNK_HEADER_SIZE :: nat where "SPARSE_CHUNK_HEADER_SIZE = 12"
definition SPARSE_RAW :: nat where "SPARSE_RAW = 0xCAC1"
definition SPARSE_FILL :: nat where "SPARSE_FILL = 0xCAC2"
definition SPARSE_DONT_CARE :: nat where "SPARSE_DONT_CARE = 0xCAC3"
definition SPARSE_CRC32 :: nat where "SPARSE_CRC32 = 0xCAC4"

lemmas sparse_consts = SPARSE_MAGIC_def SPARSE_HEADER_SIZE_def SPARSE_CHUNK_HEADER_SIZE_def
  SPARSE_RAW_def SPARSE_FILL_def SPARSE_DONT_CARE_def SPARSE_CRC32_def

section \<open>Repeated patterns\<close>

definition repeated :: "nat \<Rightarrow> bytes \<Rightarrow> bytes" where
  "repeated n pat = concat (replicate n pat)"

text \<open>
  The loop of \<open>_update_repeated\<close>.  A unit of no bytes would keep it running for ever, which
  is the value \<open>None\<close>.
\<close>

partial_function (option) repeat_loop ::
  "bytes \<Rightarrow> bytes \<Rightarrow> nat \<Rightarrow> bytes \<Rightarrow> 32 word \<Rightarrow> (bytes \<times> 32 word) option" where
  "repeat_loop unit1 pat remaining fed crc =
     (if remaining = 0 then Some (fed, crc)
      else (let block = (if length unit1 \<le> remaining then unit1 else repeated (remaining div length pat) pat) in
        repeat_loop unit1 pat (remaining - length block) (fed @ block) (crc32_from crc block)))"

definition update_repeated :: "bytes \<Rightarrow> 32 word \<Rightarrow> bytes \<Rightarrow> nat \<Rightarrow> (bytes \<times> 32 word) result" where
  "update_repeated fed crc pat total1 =
     bindE (gate (pat \<noteq> [] \<and> total1 mod length pat = 0) ''internal sparse repeat geometry is invalid'') (\<lambda>_.
       let capped = min COPY_CHUNK total1;
           unit_size = capped - capped mod length pat;
           unit1 = (if unit_size \<noteq> 0 then repeated (unit_size div length pat) pat else []) in
       case repeat_loop unit1 pat total1 fed crc of
         None \<Rightarrow> Inl ProcessKilled  \<comment> \<open>it does not return\<close>
       | Some r \<Rightarrow> Inr r)"

section \<open>Chunks\<close>

record sparse_state =
  sp_offset :: nat
  sp_emitted :: nat
  sp_decoded :: bytes
  sp_crc :: "32 word"
  sp_crc32 :: nat
  sp_dont_care :: nat
  sp_fill :: nat
  sp_raw :: nat

function raw_loop :: "bytes \<Rightarrow> nat \<Rightarrow> nat \<Rightarrow> nat \<Rightarrow> bytes \<Rightarrow> 32 word \<Rightarrow> (bytes \<times> 32 word) result" where
  "raw_loop img data_offset payload_size cursor fed crc =
     (if cursor < payload_size then
        (let amount = min COPY_CHUNK (payload_size - cursor) in
         bindE (pread img amount (data_offset + cursor) ''sparse RAW payload'') (\<lambda>block.
         raw_loop img data_offset payload_size (cursor + amount) (fed @ block) (crc32_from crc block)))
      else Inr (fed, crc))"
  by pat_completeness auto
termination
  by (relation "measure (\<lambda>(img, d, n, c, f, k). n - c)") (auto simp: COPY_CHUNK_def)

declare raw_loop.simps [simp del]

text \<open>One turn of the loop over the chunks.\<close>

definition sparse_chunk :: "bytes \<Rightarrow> nat \<Rightarrow> nat \<Rightarrow> sparse_state \<Rightarrow> sparse_state result" where
  "sparse_chunk img block_size total_blocks s =
     bindE (gate (sp_offset s \<le> length img \<and> SPARSE_CHUNK_HEADER_SIZE \<le> length img - sp_offset s)
              ''sparse chunk header crosses EOF'') (\<lambda>_.
     bindE (pread img SPARSE_CHUNK_HEADER_SIZE (sp_offset s) ''sparse chunk header'') (\<lambda>chunk_header.
     let chunk_type = get_le 2 chunk_header 0; reserved = get_le 2 chunk_header 2;
         chunk_blocks = get_le 4 chunk_header 4; total_size = get_le 4 chunk_header 8 in
     bindE (gate (reserved = 0 \<and> SPARSE_CHUNK_HEADER_SIZE \<le> total_size) ''sparse chunk header is malformed'') (\<lambda>_.
     let data_offset = sp_offset s + SPARSE_CHUNK_HEADER_SIZE;
         payload_size = total_size - SPARSE_CHUNK_HEADER_SIZE in
     bindE (gate (total_size \<le> length img - sp_offset s) ''sparse chunk crosses EOF'') (\<lambda>_.
     bindE (gate (chunk_type = SPARSE_CRC32 \<or> 0 < chunk_blocks) ''sparse chunk has zero output blocks'') (\<lambda>_.
     bindE (gate (chunk_type = SPARSE_CRC32 \<or> chunk_blocks \<le> total_blocks - sp_emitted s)
              ''sparse chunk blocksum exceeds the header total1'') (\<lambda>_.
     let logical_bytes = chunk_blocks * block_size; offset' = sp_offset s + total_size in
     if chunk_type = SPARSE_RAW then
       bindE (gate (payload_size = logical_bytes) ''sparse RAW chunk size mismatch'') (\<lambda>_.
       bindE (raw_loop img data_offset payload_size 0 (sp_decoded s) (sp_crc s)) (\<lambda>(fed, crc).
       Inr (s\<lparr>sp_offset := offset', sp_emitted := sp_emitted s + chunk_blocks, sp_decoded := fed, sp_crc := crc,
              sp_raw := sp_raw s + 1\<rparr>)))
     else if chunk_type = SPARSE_FILL then
       bindE (gate (payload_size = 4) ''sparse FILL chunk size mismatch'') (\<lambda>_.
       bindE (pread img 4 data_offset ''sparse FILL payload'') (\<lambda>pattern.
       bindE (update_repeated (sp_decoded s) (sp_crc s) pattern logical_bytes) (\<lambda>(fed, crc).
       Inr (s\<lparr>sp_offset := offset', sp_emitted := sp_emitted s + chunk_blocks, sp_decoded := fed, sp_crc := crc,
              sp_fill := sp_fill s + 1\<rparr>))))
     else if chunk_type = SPARSE_DONT_CARE then
       bindE (gate (payload_size = 0) ''sparse DONT_CARE chunk has a payload'') (\<lambda>_.
       bindE (update_repeated (sp_decoded s) (sp_crc s) (replicate 4 NUL) logical_bytes) (\<lambda>(fed, crc).
       Inr (s\<lparr>sp_offset := offset', sp_emitted := sp_emitted s + chunk_blocks, sp_decoded := fed, sp_crc := crc,
              sp_dont_care := sp_dont_care s + 1\<rparr>)))
     else if chunk_type = SPARSE_CRC32 then
       bindE (gate (chunk_blocks = 0 \<and> payload_size = 4) ''sparse CRC32 chunk geometry is invalid'') (\<lambda>_.
       bindE (pread img 4 data_offset ''sparse CRC32 payload'') (\<lambda>recorded.
       bindE (gate (le_nat recorded = unat (sp_crc s)) ''sparse CRC32 chunk does not match decoded blocks'') (\<lambda>_.
       Inr (s\<lparr>sp_offset := offset', sp_crc32 := sp_crc32 s + 1\<rparr>))))
     else Inl (AssemblyError ''unsupported sparse chunk type'')))))))"

primrec sparse_chunks :: "bytes \<Rightarrow> nat \<Rightarrow> nat \<Rightarrow> nat \<Rightarrow> sparse_state \<Rightarrow> sparse_state result" where
  "sparse_chunks img block_size total_blocks 0 s = Inr s"
| "sparse_chunks img block_size total_blocks (Suc n) s =
     bindE (sparse_chunk img block_size total_blocks s) (sparse_chunks img block_size total_blocks n)"

definition sparse_start :: sparse_state where
  "sparse_start = \<lparr>sp_offset = SPARSE_HEADER_SIZE, sp_emitted = 0, sp_decoded = [], sp_crc = 0,
     sp_crc32 = 0, sp_dont_care = 0, sp_fill = 0, sp_raw = 0\<rparr>"

section \<open>The image\<close>

definition hex8 :: "nat \<Rightarrow> string" where
  "hex8 n = hex_text (rev (le_bytes 4 n))"

definition sparse_evidence :: "host \<Rightarrow> bytes \<Rightarrow> nat \<Rightarrow> nat \<Rightarrow> sparse_state \<Rightarrow> dict" where
  "sparse_evidence h img block_size image_checksum s =
     [(''block_size'', jnum block_size),
      (''chunk_counts'', JObj [(''crc32'', jnum (sp_crc32 s)), (''dont_care'', jnum (sp_dont_care s)),
         (''fill'', jnum (sp_fill s)), (''raw'', jnum (sp_raw s))]),
      (''decoded_crc32'', JStr (hex8 (unat (sp_crc s)))),
      (''decoded_sha256'', JStr (sha256 h (sp_decoded s))),
      (''file_sha256'', JStr (sha256 h img)),
      (''file_size'', jnum (length img)),
      (''header_image_checksum'', JStr (hex8 image_checksum)),
      (''output_blocks'', jnum (sp_emitted s)),
      (''version'', JStr ''1.0'')]"

definition parse_sparse_reader :: "host \<Rightarrow> bytes \<Rightarrow> nat \<Rightarrow> string \<Rightarrow> dict result" where
  "parse_sparse_reader h img expected_raw_size expected_raw_sha256 =
     bindE (gate (SPARSE_HEADER_SIZE \<le> length img) ''sparse image is shorter than its header'') (\<lambda>_.
     bindE (pread img SPARSE_HEADER_SIZE 0 ''sparse header'') (\<lambda>header.
     let magic = get_le 4 header 0; major = get_le 2 header 4; minor = get_le 2 header 6;
         file_header_size = get_le 2 header 8; chunk_header_size = get_le 2 header 10;
         block_size = get_le 4 header 12; total_blocks = get_le 4 header 16;
         total_chunks = get_le 4 header 20; image_checksum = get_le 4 header 24 in
     bindE (gate (magic = SPARSE_MAGIC \<and> major = 1 \<and> minor = 0) ''sparse v1 header magic/version mismatch'') (\<lambda>_.
     bindE (gate (file_header_size = SPARSE_HEADER_SIZE \<and> chunk_header_size = SPARSE_CHUNK_HEADER_SIZE)
              ''sparse header sizes are not canonical'') (\<lambda>_.
     bindE (gate (block_size = SECTOR_SIZE) ''sparse block size is not 4096'') (\<lambda>_.
     bindE (gate (0 < total_blocks \<and> total_blocks * block_size = expected_raw_size)
              ''sparse output size/blocksum mismatch'') (\<lambda>_.
     bindE (gate (0 < total_chunks \<and> total_chunks \<le> total_blocks * 2 + 1) ''sparse chunk count is invalid'') (\<lambda>_.
     bindE (sparse_chunks img block_size total_blocks total_chunks sparse_start) (\<lambda>s.
     bindE (gate (sp_emitted s = total_blocks) ''sparse chunk output blocksum mismatch'') (\<lambda>_.
     bindE (gate (sp_offset s = length img) ''sparse image has trailing bytes after its final chunk'') (\<lambda>_.
     bindE (gate (image_checksum = 0 \<or> image_checksum = unat (sp_crc s))
              ''sparse header image checksum mismatch'') (\<lambda>_.
     bindE (gate (sha256 h (sp_decoded s) = expected_raw_sha256)
              ''statically decoded sparse SHA256 differs from raw'') (\<lambda>_.
     Inr (sparse_evidence h img block_size image_checksum s)))))))))))))"

definition parse_sparse_image :: "host \<Rightarrow> bytes \<Rightarrow> nat \<Rightarrow> string \<Rightarrow> dict result" where
  "parse_sparse_image h img expected_raw_size expected_raw_sha256 =
     bindE (gate (is_sha256_hex expected_raw_sha256) ''expected raw SHA256 is invalid'') (\<lambda>_.
     parse_sparse_reader h img expected_raw_size expected_raw_sha256)"

section \<open>The loops feed what they should\<close>

lemma length_repeated [simp]: "length (repeated n pat) = n * length pat"
  by (simp add: repeated_def length_concat sum_list_replicate)

lemma repeated_add: "repeated (m + n) pat = repeated m pat @ repeated n pat"
  by (simp add: repeated_def replicate_add)

lemma repeat_loop_eq:
  assumes "0 < k" "pat \<noteq> []"
  shows "repeat_loop (repeated k pat) pat (n * length pat) fed crc =
     Some (fed @ repeated n pat, crc32_from crc (repeated n pat))"
proof (induction n arbitrary: fed crc rule: less_induct)
  case (less n)
  have lp: "0 < length pat" using assms(2) by simp
  show ?case
  proof (cases "n = 0")
    case True
    then show ?thesis by (subst repeat_loop.simps) (simp add: repeated_def)
  next
    case False
    define m where "m = (if k \<le> n then k else n)"
    have m: "0 < m" "m \<le> n" using assms(1) False by (auto simp: m_def)
    have b: "(if length (repeated k pat) \<le> n * length pat then repeated k pat else repeated (n * length pat div length pat) pat)
        = repeated m pat" using lp by (simp add: m_def)
    have r: "n * length pat - length (repeated m pat) = (n - m) * length pat" by (simp add: diff_mult_distrib)
    have "repeat_loop (repeated k pat) pat (n * length pat) fed crc =
        repeat_loop (repeated k pat) pat ((n - m) * length pat) (fed @ repeated m pat) (crc32_from crc (repeated m pat))"
      using False lp by (subst repeat_loop.simps) (simp only: b r Let_def, simp)
    also have "\<dots> = Some (fed @ repeated m pat @ repeated (n - m) pat,
        crc32_from crc (repeated m pat @ repeated (n - m) pat))"
      using less.IH[of "n - m"] m False by (simp add: crc32_from_append)
    finally show ?thesis using m by (simp flip: repeated_add)
  qed
qed

text \<open>The loop returns for every pattern that fits in a chunk.\<close>

lemma update_repeated_eq:
  assumes "pat \<noteq> []" "length pat \<le> COPY_CHUNK" "total1 mod length pat = 0"
  shows "update_repeated fed crc pat total1 =
     Inr (fed @ repeated (total1 div length pat) pat, crc32_from crc (repeated (total1 div length pat) pat))"
proof -
  define c where "c = min COPY_CHUNK total1 - min COPY_CHUNK total1 mod length pat"
  define n where "n = total1 div length pat"
  have lp: "0 < length pat" using assms(1) by simp
  have tot: "total1 = n * length pat" using assms(3) by (auto simp: n_def)
  have "repeat_loop (if c \<noteq> 0 then repeated (c div length pat) pat else []) pat total1 fed crc =
      Some (fed @ repeated n pat, crc32_from crc (repeated n pat))"
  proof (cases "total1 = 0")
    case True
    then show ?thesis using lp by (subst repeat_loop.simps) (simp add: n_def repeated_def)
  next
    case False
    then have "length pat \<le> total1" using tot by (cases n) simp_all
    then have "length pat \<le> min COPY_CHUNK total1" using assms(2) by simp
    then have "min COPY_CHUNK total1 mod length pat < min COPY_CHUNK total1 \<and> 0 < min COPY_CHUNK total1 div length pat"
      using lp by (meson div_greater_zero_iff less_le_trans mod_less_divisor)
    moreover have "c div length pat = min COPY_CHUNK total1 div length pat"
      by (simp add: c_def minus_mod_eq_mult_div)
    ultimately have "0 < c div length pat" by presburger
    then have "c \<noteq> 0" by (metis div_0 less_irrefl)
    note \<open>0 < c div length pat\<close> \<open>c \<noteq> 0\<close>
    then show ?thesis using repeat_loop_eq[OF _ assms(1)] by (simp add: tot)
  qed
  then show ?thesis using assms(1,3) unfolding update_repeated_def Let_def c_def[symmetric] n_def[symmetric]
    by simp
qed

lemma raw_loop_eq:
  "cursor \<le> n \<Longrightarrow> off + n \<le> length img \<Longrightarrow>
     raw_loop img off n cursor fed crc =
       Inr (fed @ slice img (off + cursor) (off + n), crc32_from crc (slice img (off + cursor) (off + n)))"
proof (induction img off n cursor fed crc rule: raw_loop.induct)
  case (1 img off n cursor fed crc)
  show ?case
  proof (cases "cursor < n")
    case False
    with 1(2) show ?thesis by (subst raw_loop.simps) simp
  next
    case True
    define a where "a = min COPY_CHUNK (n - cursor)"
    have a: "cursor + a \<le> n" using True by (simp add: a_def)
    let ?b = "slice img (off + cursor) (off + (cursor + a))"
    have pr: "pread img a (off + cursor) ''sparse RAW payload'' = Inr ?b"
      using a 1(3) by (simp add: pread_def add.assoc)
    have s: "?b @ slice img (off + (cursor + a)) (off + n) = slice img (off + cursor) (off + n)"
      using a by (simp add: slice_append_slice)
    have "raw_loop img off n cursor fed crc = raw_loop img off n (cursor + a) (fed @ ?b) (crc32_from crc ?b)"
      using True by (subst raw_loop.simps) (simp add: Let_def a_def[symmetric] pr)
    also have "\<dots> = Inr (fed @ (?b @ slice img (off + (cursor + a)) (off + n)),
        crc32_from crc (?b @ slice img (off + (cursor + a)) (off + n)))"
      using 1(1)[OF True a_def pr a 1(3)] by (simp add: crc32_from_append)
    finally show ?thesis unfolding s .
  qed
qed

end
