(* ===== verification/SparseSpec.thy ===== *)
theory SparseSpec
  imports Sparse
begin

text \<open>
  The language the sparse parser accepts: an encoder of lists of chunks, and the proof that
  the parser accepts exactly the encodings whose expansion has the expected size and digest.
\<close>

section \<open>Chunks and their encoding\<close>

datatype chunk = Raw bytes | Fill bytes nat | Dont_care nat | Crc

fun chunk_type_of :: "chunk \<Rightarrow> nat" where
  "chunk_type_of (Raw d) = SPARSE_RAW"
| "chunk_type_of (Fill pat n) = SPARSE_FILL"
| "chunk_type_of (Dont_care n) = SPARSE_DONT_CARE"
| "chunk_type_of Crc = SPARSE_CRC32"

fun blocks_of :: "chunk \<Rightarrow> nat" where
  "blocks_of (Raw d) = length d div 4096"
| "blocks_of (Fill pat n) = n"
| "blocks_of (Dont_care n) = n"
| "blocks_of Crc = 0"

fun expand :: "chunk \<Rightarrow> bytes" where
  "expand (Raw d) = d"
| "expand (Fill pat n) = repeated (n * 1024) pat"
| "expand (Dont_care n) = repeated (n * 1024) (replicate 4 NUL)"
| "expand Crc = []"

fun payload_of :: "32 word \<Rightarrow> chunk \<Rightarrow> bytes" where
  "payload_of crc (Raw d) = d"
| "payload_of crc (Fill pat n) = pat"
| "payload_of crc (Dont_care n) = []"
| "payload_of crc Crc = le_bytes 4 (unat crc)"

fun wf_chunk :: "chunk \<Rightarrow> bool" where
  "wf_chunk (Raw d) \<longleftrightarrow> d \<noteq> [] \<and> length d mod 4096 = 0 \<and> 12 + length d < 256 ^ 4"
| "wf_chunk (Fill pat n) \<longleftrightarrow> length pat = 4 \<and> 0 < n \<and> n < 256 ^ 4"
| "wf_chunk (Dont_care n) \<longleftrightarrow> 0 < n \<and> n < 256 ^ 4"
| "wf_chunk Crc \<longleftrightarrow> True"

definition chunk_head :: "nat \<Rightarrow> nat \<Rightarrow> nat \<Rightarrow> bytes" where
  "chunk_head ty blocks size1 = le_bytes 2 ty @ le_bytes 2 0 @ le_bytes 4 blocks @ le_bytes 4 size1"

definition encode_chunk :: "32 word \<Rightarrow> chunk \<Rightarrow> bytes" where
  "encode_chunk crc c =
     chunk_head (chunk_type_of c) (blocks_of c) (12 + length (payload_of crc c)) @ payload_of crc c"

definition advance :: "sparse_state \<Rightarrow> chunk \<Rightarrow> sparse_state" where
  "advance s c = \<lparr>sp_offset = sp_offset s + length (encode_chunk (sp_crc s) c),
     sp_emitted = sp_emitted s + blocks_of c, sp_decoded = sp_decoded s @ expand c,
     sp_crc = crc32_from (sp_crc s) (expand c),
     sp_crc32 = sp_crc32 s + (if c = Crc then 1 else 0),
     sp_dont_care = sp_dont_care s + (case c of Dont_care _ \<Rightarrow> 1 | _ \<Rightarrow> 0),
     sp_fill = sp_fill s + (case c of Fill _ _ \<Rightarrow> 1 | _ \<Rightarrow> 0),
     sp_raw = sp_raw s + (case c of Raw _ \<Rightarrow> 1 | _ \<Rightarrow> 0)\<rparr>"

definition fits_at :: "bytes \<Rightarrow> nat \<Rightarrow> sparse_state \<Rightarrow> chunk \<Rightarrow> bool" where
  "fits_at img total_blocks s c \<longleftrightarrow> wf_chunk c \<and> blocks_of c \<le> total_blocks - sp_emitted s \<and>
     (\<exists>rest. drop (sp_offset s) img = encode_chunk (sp_crc s) c @ rest)"

lemma length_chunk_head [simp]: "length (chunk_head ty b n) = 12"
  by (simp add: chunk_head_def)

lemma length_encode_chunk: "length (encode_chunk crc c) = 12 + length (payload_of crc c)"
  by (simp add: encode_chunk_def)

lemma get_le_bound: "get_le w bs off < 256 ^ w"
proof -
  have "le_nat (slice bs off (off + w)) < 256 ^ length (slice bs off (off + w))" by (rule le_nat_bound)
  also have "\<dots> \<le> 256 ^ w" by (rule power_increasing) simp_all
  finally show ?thesis by (simp add: get_le_def)
qed

lemma get_le_append:
  "length a = off \<Longrightarrow> get_le w (a @ le_bytes w v @ r) off = v mod 256 ^ w"
  by (simp add: get_le_def slice_def le_nat_le_bytes)

lemma chunk_head_fields:
  "ty < 256 ^ 2 \<Longrightarrow> b < 256 ^ 4 \<Longrightarrow> n < 256 ^ 4 \<Longrightarrow>
     get_le 2 (chunk_head ty b n) 0 = ty \<and> get_le 2 (chunk_head ty b n) 2 = 0 \<and>
     get_le 4 (chunk_head ty b n) 4 = b \<and> get_le 4 (chunk_head ty b n) 8 = n"
  using get_le_append[of "[]" 0 2 ty] get_le_append[of "le_bytes 2 ty" 2 2 0]
    get_le_append[of "le_bytes 2 ty @ le_bytes 2 0" 4 4 b]
    get_le_append[of "le_bytes 2 ty @ le_bytes 2 0 @ le_bytes 4 b" 8 4 n "[]"]
  by (simp add: chunk_head_def)

lemma chunk_head_eq:
  assumes "length b = 12"
  shows "b = le_bytes 2 (get_le 2 b 0) @ le_bytes 2 (get_le 2 b 2) @ le_bytes 4 (get_le 4 b 4) @ le_bytes 4 (get_le 4 b 8)"
proof -
  have "b = slice b 0 2 @ slice b 2 4 @ slice b 4 8 @ slice b 8 12"
    using assms slice_all[of b] by (simp add: slice_append_slice)
  then show ?thesis
    using field_slice[of 0 2 b, unfolded add_0] field_slice[of 2 2 b] field_slice[of 4 4 b] field_slice[of 8 4 b] assms by simp
qed

lemma pattern_fed:
  "length pat = 4 \<Longrightarrow> update_repeated fed crc pat (n * 4096) =
     Inr (fed @ repeated (n * 1024) pat, crc32_from crc (repeated (n * 1024) pat))"
proof -
  assume l: "length pat = 4"
  have e: "pat \<noteq> []" "length pat \<le> COPY_CHUNK" using l by (auto simp: COPY_CHUNK_def)
  have m: "n * 4096 = n * 1024 * length pat" using l by simp
  have "n * 4096 mod length pat = 0" "n * 4096 div length pat = n * 1024" unfolding m using l by simp_all
  with update_repeated_eq[OF e, of "n * 4096" fed crc] show ?thesis by simp
qed

lemma wf_bounds:
  "wf_chunk c \<Longrightarrow> chunk_type_of c < 256 ^ 2 \<and> blocks_of c < 256 ^ 4 \<and> 12 + length (payload_of crc c) < 256 ^ 4"
  by (cases c) (auto simp: sparse_consts)

lemma sparse_chunk_complete:
  assumes "fits_at img total_blocks s c"
  shows "sparse_chunk img 4096 total_blocks s = Inr (advance s c)"
proof -
  let ?off = "sp_offset s" and ?p = "payload_of (sp_crc s) c"
  let ?h = "chunk_head (chunk_type_of c) (blocks_of c) (12 + length ?p)"
  from assms obtain rest where wf: "wf_chunk c" and bl: "blocks_of c \<le> total_blocks - sp_emitted s"
    and d: "drop ?off img = ?h @ ?p @ rest"
    by (auto simp: fits_at_def encode_chunk_def)
  have "12 + length ?p + length rest = length img - ?off" using arg_cong[OF d, of length] by simp
  then have le: "?off + 12 + length ?p \<le> length img" "12 \<le> length img - ?off"
      "12 + length ?p \<le> length img - ?off" by simp_all
  have s: "slice img (?off + a) (?off + b) = slice (?h @ ?p @ rest) a b" for a b
    unfolding d[symmetric] by (simp add: slice_of_drop)
  have h: "pread img 12 ?off l = Inr ?h" for l
    using s[of 0 12] le by (simp add: pread_def slice_append_left slice_def)
  have p: "slice img (?off + 12) (?off + 12 + length ?p) = ?p"
    using s[of 12 "12 + length ?p"] by (simp add: slice_append_right slice_append_left add.assoc)
  note f = chunk_head_fields[of "chunk_type_of c" "blocks_of c" "12 + length ?p"]
  have f: "get_le 2 ?h 0 = chunk_type_of c" "get_le 2 ?h 2 = 0" "get_le 4 ?h 4 = blocks_of c" "get_le 4 ?h 8 = 12 + length ?p"
    using f wf_bounds[OF wf] by blast+
  note rl = raw_loop_eq[of 0 "length ?p" "?off + 12" img "sp_decoded s" "sp_crc s", unfolded add_0_right, OF _ le(1), unfolded p]
  show ?thesis
  proof (cases c)
    case (Raw d)
    then have m: "length d mod 4096 = 0" "length d \<noteq> 0" using wf by simp_all
    have n: "length d div 4096 * 4096 = length d" using div_mult_mod_eq[of "length d" 4096] m(1) by simp
    then have n2: "0 < length d div 4096" using m(2) by linarith
    show ?thesis
      using h f le bl rl n n2 unfolding sparse_chunk_def Let_def Raw
      by (cases s) (simp add: sparse_consts advance_def length_encode_chunk)
  next
    case (Fill pat n)
    then have l: "length pat = 4" "0 < n" using wf by simp_all
    have "pread img 4 (?off + 12) lab = Inr pat" for lab using p le Fill l by (simp add: pread_def)
    then show ?thesis
      using h f le bl l pattern_fed[OF l(1)] unfolding sparse_chunk_def Let_def Fill
      by (cases s) (simp add: sparse_consts advance_def length_encode_chunk)
  next
    case (Dont_care n)
    then have l: "0 < n" using wf by simp
    show ?thesis
      using h f le bl l pattern_fed[of "replicate 4 NUL"] unfolding sparse_chunk_def Let_def Dont_care
      by (cases s) (simp add: sparse_consts advance_def length_encode_chunk)
  next
    case Crc
    have u: "unat (sp_crc s) < 256 ^ 4" using unsigned_less[of "sp_crc s"] by simp
    have "pread img 4 (?off + 12) lab = Inr (le_bytes 4 (unat (sp_crc s)))" for lab
      using p le Crc by (simp add: pread_def)
    moreover have "le_nat (le_bytes 4 (unat (sp_crc s))) = unat (sp_crc s)" using u by (simp add: le_nat_le_bytes)
    ultimately show ?thesis
      using h f le unfolding sparse_chunk_def Let_def Crc
      by (cases s) (simp add: sparse_consts advance_def length_encode_chunk)
  qed
qed

lemma sparse_chunk_parts:
  assumes "sparse_chunk img 4096 total_blocks s = Inr s'"
  shows "\<exists>h ty b n. h = slice img (sp_offset s) (sp_offset s + 12) \<and>
     ty = get_le 2 h 0 \<and> get_le 2 h 2 = 0 \<and> b = get_le 4 h 4 \<and> n + 12 = get_le 4 h 8 \<and>
     sp_offset s + 12 + n \<le> length img \<and> (ty = SPARSE_CRC32 \<or> 0 < b \<and> b \<le> total_blocks - sp_emitted s) \<and>
     (ty = SPARSE_RAW \<and> n = b * 4096 \<or> ty = SPARSE_FILL \<and> n = 4 \<or> ty = SPARSE_DONT_CARE \<and> n = 0 \<or>
      ty = SPARSE_CRC32 \<and> b = 0 \<and> n = 4 \<and>
        le_nat (slice img (sp_offset s + 12) (sp_offset s + 12 + 4)) = unat (sp_crc s))"
proof -
  let ?h = "slice img (sp_offset s) (sp_offset s + 12)"
  from assms have le: "12 \<le> length img - sp_offset s" "sp_offset s \<le> length img"
    "get_le 2 ?h 2 = 0" "12 \<le> get_le 4 ?h 8" "get_le 4 ?h 8 \<le> length img - sp_offset s"
    "get_le 2 ?h 0 = SPARSE_CRC32 \<or> 0 < get_le 4 ?h 4 \<and> get_le 4 ?h 4 \<le> total_blocks - sp_emitted s"
    unfolding sparse_chunk_def Let_def bindE_Inr_iff gate_Inr pread_Inr SPARSE_CHUNK_HEADER_SIZE_def by blast+
  define n where "n = get_le 4 ?h 8 - 12"
  have n: "n + 12 = get_le 4 ?h 8" "sp_offset s + 12 + n \<le> length img" using le by (simp_all add: n_def)
  from assms have ty: "get_le 2 ?h 0 = SPARSE_RAW \<and> n = get_le 4 ?h 4 * 4096 \<or>
      get_le 2 ?h 0 = SPARSE_FILL \<and> n = 4 \<or> get_le 2 ?h 0 = SPARSE_DONT_CARE \<and> n = 0 \<or>
      get_le 2 ?h 0 = SPARSE_CRC32 \<and> get_le 4 ?h 4 = 0 \<and> n = 4 \<and>
        le_nat (slice img (sp_offset s + 12) (sp_offset s + 12 + 4)) = unat (sp_crc s)"
    unfolding sparse_chunk_def Let_def bindE_Inr_iff gate_Inr pread_Inr SPARSE_CHUNK_HEADER_SIZE_def n_def
    by (elim exE conjE) (simp only: bindE_Inr_iff gate_Inr pread_Inr split: if_split_asm; blast)
  show ?thesis using le(3,6) n ty by (intro exI[of _ ?h] exI) (use le(3,6) n ty in blast)
qed

lemma sparse_chunk_sound:
  assumes "sparse_chunk img 4096 total_blocks s = Inr s'"
  shows "\<exists>c. fits_at img total_blocks s c \<and> s' = advance s c"
proof -
  from sparse_chunk_parts[OF assms] obtain h ty b n where
    h: "h = slice img (sp_offset s) (sp_offset s + 12)" "ty = get_le 2 h 0" "get_le 2 h 2 = 0"
      "b = get_le 4 h 4" "n + 12 = get_le 4 h 8" "sp_offset s + 12 + n \<le> length img"
    and b: "ty = SPARSE_CRC32 \<or> 0 < b \<and> b \<le> total_blocks - sp_emitted s"
    and ty: "ty = SPARSE_RAW \<and> n = b * 4096 \<or> ty = SPARSE_FILL \<and> n = 4 \<or> ty = SPARSE_DONT_CARE \<and> n = 0 \<or>
      ty = SPARSE_CRC32 \<and> b = 0 \<and> n = 4 \<and>
        le_nat (slice img (sp_offset s + 12) (sp_offset s + 12 + 4)) = unat (sp_crc s)" by blast
  define d where "d = slice img (sp_offset s + 12) (sp_offset s + 12 + n)"
  have ld: "length d = n" "length h = 12" using h(1,6) by (simp_all add: d_def)
  have bd: "b < 256 ^ 4" "n + 12 < 256 ^ 4" using get_le_bound[of 4 h 4] get_le_bound[of 4 h 8] h(4,5) by simp_all
  have he: "h = chunk_head ty b (12 + n)"
    using chunk_head_eq[OF ld(2)] h(2,3,4,5) by (simp add: chunk_head_def add.commute)
  have "drop (sp_offset s) img = slice img (sp_offset s) (sp_offset s + 12) @ drop (sp_offset s + 12) img"
    by (simp add: slice_drop)
  moreover have "drop (sp_offset s + 12) img = d @ drop (sp_offset s + 12 + n) img"
    by (simp add: slice_drop d_def)
  ultimately have img: "\<exists>rest. drop (sp_offset s) img = (chunk_head ty b (12 + n) @ d) @ rest"
    using h(1) he by (metis append.assoc)
  have "\<exists>c. wf_chunk c \<and> chunk_type_of c = ty \<and> blocks_of c = b \<and> payload_of (sp_crc s) c = d \<and>
      b \<le> total_blocks - sp_emitted s"
    using ty
  proof (elim disjE)
    assume t: "ty = SPARSE_RAW \<and> n = b * 4096"
    then have "0 < b" "b \<le> total_blocks - sp_emitted s" using b by (auto simp: sparse_consts)
    then show ?thesis using t ld bd by (intro exI[of _ "Raw d"]) auto
  next
    assume t: "ty = SPARSE_FILL \<and> n = 4"
    then have "0 < b" "b \<le> total_blocks - sp_emitted s" using b by (auto simp: sparse_consts)
    then show ?thesis using t ld bd by (intro exI[of _ "Fill d b"]) auto
  next
    assume t: "ty = SPARSE_DONT_CARE \<and> n = 0"
    then have "0 < b" "b \<le> total_blocks - sp_emitted s" using b by (auto simp: sparse_consts)
    then show ?thesis using t ld bd by (intro exI[of _ "Dont_care b"]) auto
  next
    assume t: "ty = SPARSE_CRC32 \<and> b = 0 \<and> n = 4 \<and>
        le_nat (slice img (sp_offset s + 12) (sp_offset s + 12 + 4)) = unat (sp_crc s)"
    then have "le_bytes 4 (unat (sp_crc s)) = d" using le_bytes_le_nat[of d] ld(1) by (simp add: d_def)
    then show ?thesis using t by (intro exI[of _ Crc]) simp
  qed
  then obtain c where c: "wf_chunk c" "chunk_type_of c = ty" "blocks_of c = b" "payload_of (sp_crc s) c = d"
    "b \<le> total_blocks - sp_emitted s" by blast
  with img ld(1) have f: "fits_at img total_blocks s c" by (simp add: fits_at_def encode_chunk_def)
  with sparse_chunk_complete[OF f] assms show ?thesis by auto
qed

section \<open>Lists of chunks\<close>

fun encode_chunks :: "32 word \<Rightarrow> chunk list \<Rightarrow> bytes" where
  "encode_chunks crc [] = []"
| "encode_chunks crc (c # cs) = encode_chunk crc c @ encode_chunks (crc32_from crc (expand c)) cs"

definition expand_all :: "chunk list \<Rightarrow> bytes" where
  "expand_all cs = concat (map expand cs)"

definition all_blocks :: "chunk list \<Rightarrow> nat" where
  "all_blocks cs = sum_list (map blocks_of cs)"

lemma all_simps [simp]:
  "expand_all [] = []" "expand_all (c # cs) = expand c @ expand_all cs"
  "all_blocks [] = 0" "all_blocks (c # cs) = blocks_of c + all_blocks cs"
  by (simp_all add: expand_all_def all_blocks_def)

lemma expand_length: "wf_chunk c \<Longrightarrow> length (expand c) = blocks_of c * 4096"
  by (cases c) (auto simp: div_mult_mod_eq)

lemma expand_all_length: "list_all wf_chunk cs \<Longrightarrow> length (expand_all cs) = all_blocks cs * 4096"
  by (induction cs) (simp_all add: expand_length add_mult_distrib)

lemma ex_Suc_list: "(\<exists>cs. length cs = Suc n \<and> P cs) \<longleftrightarrow> (\<exists>c cs. length cs = n \<and> P (c # cs))"
  by (metis length_Suc_conv)

lemma drop_cat:
  "(\<exists>r. drop n xs = a @ r) \<and> (\<exists>r. drop (n + length a) xs = b @ r) \<longleftrightarrow> (\<exists>r. drop n xs = (a @ b) @ r)"
proof -
  have "drop (n + length a) xs = r" if "drop n xs = a @ r" for r
    using that by (metis add.commute append_eq_conv_conj drop_drop)
  then show ?thesis by auto
qed

lemma sparse_chunks_iff:
  "sp_emitted s \<le> total_blocks \<Longrightarrow>
   sparse_chunks img 4096 total_blocks n s = Inr s' \<longleftrightarrow>
     (\<exists>cs. length cs = n \<and> list_all wf_chunk cs \<and> sp_emitted s + all_blocks cs \<le> total_blocks \<and>
        (\<exists>rest. drop (sp_offset s) img = encode_chunks (sp_crc s) cs @ rest) \<and> s' = foldl advance s cs)"
proof (induction n arbitrary: s)
  case 0
  then show ?case by auto
next
  case (Suc n)
  have step: "sparse_chunk img 4096 total_blocks s = Inr t \<longleftrightarrow> (\<exists>c. fits_at img total_blocks s c \<and> t = advance s c)" for t
    using sparse_chunk_sound sparse_chunk_complete by blast
  have IH: "sparse_chunks img 4096 total_blocks n (advance s c) = Inr s' \<longleftrightarrow>
     (\<exists>cs. length cs = n \<and> list_all wf_chunk cs \<and> sp_emitted s + blocks_of c + all_blocks cs \<le> total_blocks \<and>
        (\<exists>rest. drop (sp_offset (advance s c)) img = encode_chunks (sp_crc (advance s c)) cs @ rest) \<and>
        s' = foldl advance (advance s c) cs)"
    if "fits_at img total_blocks s c" for c
  proof -
    have "sp_emitted (advance s c) = sp_emitted s + blocks_of c" by (simp add: advance_def)
    moreover have "sp_emitted s + blocks_of c \<le> total_blocks" using that[unfolded fits_at_def, THEN conjunct2, THEN conjunct1] Suc.prems by linarith
    ultimately show ?thesis using Suc.IH[of "advance s c"] by simp
  qed
  have dr: "(\<exists>rest. drop (sp_offset s) img = encode_chunk (sp_crc s) c @ rest) \<and>
        (\<exists>rest. drop (sp_offset (advance s c)) img = encode_chunks (sp_crc (advance s c)) cs @ rest) \<longleftrightarrow>
      (\<exists>rest. drop (sp_offset s) img = encode_chunks (sp_crc s) (c # cs) @ rest)" for c cs
    by (simp add: advance_def drop_cat[simplified])
  have "sparse_chunks img 4096 total_blocks (Suc n) s = Inr s' \<longleftrightarrow>
      (\<exists>c. fits_at img total_blocks s c \<and> sparse_chunks img 4096 total_blocks n (advance s c) = Inr s')"
    using step by (auto simp: bindE_Inr_iff)
  also have "\<dots> \<longleftrightarrow> (\<exists>c cs. wf_chunk c \<and> length cs = n \<and> list_all wf_chunk cs \<and>
      sp_emitted s + blocks_of c + all_blocks cs \<le> total_blocks \<and>
      ((\<exists>rest. drop (sp_offset s) img = encode_chunk (sp_crc s) c @ rest) \<and>
        (\<exists>rest. drop (sp_offset (advance s c)) img = encode_chunks (sp_crc (advance s c)) cs @ rest)) \<and>
      s' = foldl advance (advance s c) cs)"
  proof -
    have "blocks_of c \<le> total_blocks - sp_emitted s" if "sp_emitted s + blocks_of c + k \<le> total_blocks" for c k
      using that by simp
    then show ?thesis using IH unfolding fits_at_def by blast
  qed
  also have "\<dots> \<longleftrightarrow> (\<exists>cs. length cs = Suc n \<and> list_all wf_chunk cs \<and> sp_emitted s + all_blocks cs \<le> total_blocks \<and>
        (\<exists>rest. drop (sp_offset s) img = encode_chunks (sp_crc s) cs @ rest) \<and> s' = foldl advance s cs)"
    unfolding dr ex_Suc_list by (simp only: list.pred_inject all_simps foldl_Cons add.assoc conj_assoc conj_commute conj_left_commute)
  finally show ?case .
qed

section \<open>The image\<close>

definition sparse_head :: "nat \<Rightarrow> nat \<Rightarrow> nat \<Rightarrow> bytes" where
  "sparse_head blocks chunks checksum = le_bytes 4 SPARSE_MAGIC @ le_bytes 2 1 @ le_bytes 2 0 @
     le_bytes 2 SPARSE_HEADER_SIZE @ le_bytes 2 SPARSE_CHUNK_HEADER_SIZE @ le_bytes 4 4096 @
     le_bytes 4 blocks @ le_bytes 4 chunks @ le_bytes 4 checksum"

definition encode_sparse :: "nat \<Rightarrow> chunk list \<Rightarrow> bytes" where
  "encode_sparse checksum cs = sparse_head (all_blocks cs) (length cs) checksum @ encode_chunks 0 cs"

definition sparse_ok :: "nat \<Rightarrow> chunk list \<Rightarrow> bool" where
  "sparse_ok checksum cs \<longleftrightarrow> list_all wf_chunk cs \<and> 0 < all_blocks cs \<and> all_blocks cs < 256 ^ 4 \<and>
     length cs < 256 ^ 4 \<and> length cs \<le> all_blocks cs * 2 + 1 \<and>
     (checksum = 0 \<or> checksum = crc32 (expand_all cs))"

lemma length_sparse_head [simp]: "length (sparse_head b n k) = 28"
  by (simp add: sparse_head_def)

lemma get_le_at:
  assumes "bs = a @ le_bytes w v @ r" "length a = off" "v < 256 ^ w"
  shows "get_le w bs off = v"
  using get_le_append[OF assms(2)] assms(1,3) by simp

lemma sparse_head_fields:
  assumes "b < 256 ^ 4" "n < 256 ^ 4" "k < 256 ^ 4"
  defines "h \<equiv> sparse_head b n k"
  shows "get_le 4 h 0 = SPARSE_MAGIC" "get_le 2 h 4 = 1" "get_le 2 h 6 = 0" "get_le 2 h 8 = SPARSE_HEADER_SIZE"
    "get_le 2 h 10 = SPARSE_CHUNK_HEADER_SIZE" "get_le 4 h 12 = 4096" "get_le 4 h 16 = b" "get_le 4 h 20 = n" "get_le 4 h 24 = k"
proof -
  let ?a = "le_bytes 4 SPARSE_MAGIC" and ?b = "le_bytes 2 1" and ?c = "le_bytes 2 0"
    and ?d = "le_bytes 2 SPARSE_HEADER_SIZE" and ?e = "le_bytes 2 SPARSE_CHUNK_HEADER_SIZE" and ?f = "le_bytes 4 4096"
    and ?g = "le_bytes 4 b" and ?i = "le_bytes 4 n"
  show "get_le 4 h 0 = SPARSE_MAGIC" by (rule get_le_at[where a = "[]"]) (simp_all add: h_def sparse_head_def sparse_consts)
  show "get_le 2 h 4 = 1" by (rule get_le_at[where a = ?a]) (simp_all add: h_def sparse_head_def)
  show "get_le 2 h 6 = 0" by (rule get_le_at[where a = "?a @ ?b"]) (simp_all add: h_def sparse_head_def)
  show "get_le 2 h 8 = SPARSE_HEADER_SIZE"
    by (rule get_le_at[where a = "?a @ ?b @ ?c"]) (simp_all add: h_def sparse_head_def sparse_consts)
  show "get_le 2 h 10 = SPARSE_CHUNK_HEADER_SIZE"
    by (rule get_le_at[where a = "?a @ ?b @ ?c @ ?d"]) (simp_all add: h_def sparse_head_def sparse_consts)
  show "get_le 4 h 12 = 4096"
    by (rule get_le_at[where a = "?a @ ?b @ ?c @ ?d @ ?e"]) (simp_all add: h_def sparse_head_def)
  show "get_le 4 h 16 = b"
    by (rule get_le_at[where a = "?a @ ?b @ ?c @ ?d @ ?e @ ?f"]) (use assms(1) in \<open>simp_all add: h_def sparse_head_def\<close>)
  show "get_le 4 h 20 = n"
    by (rule get_le_at[where a = "?a @ ?b @ ?c @ ?d @ ?e @ ?f @ ?g"]) (use assms(2) in \<open>simp_all add: h_def sparse_head_def\<close>)
  show "get_le 4 h 24 = k"
    by (rule get_le_at[where a = "?a @ ?b @ ?c @ ?d @ ?e @ ?f @ ?g @ ?i" and r = "[]"])
      (use assms(3) in \<open>simp_all add: h_def sparse_head_def\<close>)
qed

lemma sparse_head_eq:
  assumes "length h = 28" "get_le 4 h 0 = SPARSE_MAGIC" "get_le 2 h 4 = 1" "get_le 2 h 6 = 0"
    "get_le 2 h 8 = SPARSE_HEADER_SIZE" "get_le 2 h 10 = SPARSE_CHUNK_HEADER_SIZE" "get_le 4 h 12 = 4096"
  shows "h = sparse_head (get_le 4 h 16) (get_le 4 h 20) (get_le 4 h 24)"
proof -
  have "slice h 0 4 @ slice h 4 6 @ slice h 6 8 @ slice h 8 10 @ slice h 10 12 @ slice h 12 16 @ slice h 16 20 @
      slice h 20 24 @ slice h 24 28 = h"
    using assms(1) slice_all[of h] by (simp add: slice_append_slice)
  moreover have "slice h 0 4 = le_bytes 4 (get_le 4 h 0)" "slice h 4 6 = le_bytes 2 (get_le 2 h 4)"
    "slice h 6 8 = le_bytes 2 (get_le 2 h 6)" "slice h 8 10 = le_bytes 2 (get_le 2 h 8)"
    "slice h 10 12 = le_bytes 2 (get_le 2 h 10)" "slice h 12 16 = le_bytes 4 (get_le 4 h 12)"
    "slice h 16 20 = le_bytes 4 (get_le 4 h 16)" "slice h 20 24 = le_bytes 4 (get_le 4 h 20)"
    "slice h 24 28 = le_bytes 4 (get_le 4 h 24)"
    using field_slice[of 0 4 h] field_slice[of 4 2 h] field_slice[of 6 2 h] field_slice[of 8 2 h] field_slice[of 10 2 h]
      field_slice[of 12 4 h] field_slice[of 16 4 h] field_slice[of 20 4 h] field_slice[of 24 4 h] assms(1) by simp_all
  ultimately show ?thesis using assms(2-7) by (simp add: sparse_head_def)
qed

lemma advance_all:
  "sp_offset (foldl advance s cs) = sp_offset s + length (encode_chunks (sp_crc s) cs) \<and>
   sp_emitted (foldl advance s cs) = sp_emitted s + all_blocks cs \<and>
   sp_decoded (foldl advance s cs) = sp_decoded s @ expand_all cs \<and>
   sp_crc (foldl advance s cs) = crc32_from (sp_crc s) (expand_all cs)"
proof (induction cs arbitrary: s)
  case (Cons c cs)
  have "sp_offset (advance s c) = sp_offset s + length (encode_chunk (sp_crc s) c)"
    "sp_emitted (advance s c) = sp_emitted s + blocks_of c" "sp_decoded (advance s c) = sp_decoded s @ expand c"
    "sp_crc (advance s c) = crc32_from (sp_crc s) (expand c)" by (simp_all add: advance_def)
  then show ?case using Cons[of "advance s c"] by (simp add: crc32_from_append)
qed simp

text \<open>What the parser reports of an image.\<close>

definition sparse_report :: "host \<Rightarrow> nat \<Rightarrow> chunk list \<Rightarrow> dict" where
  "sparse_report h checksum cs =
     sparse_evidence h (encode_sparse checksum cs) 4096 checksum (foldl advance sparse_start cs)"

lemma sparse_start_simps [simp]:
  "sp_offset sparse_start = 28" "sp_emitted sparse_start = 0" "sp_decoded sparse_start = []" "sp_crc sparse_start = 0"
  by (simp_all add: sparse_start_def SPARSE_HEADER_SIZE_def)

lemma sparse_complete:
  assumes ok: "sparse_ok checksum cs" and size1: "size1 = length (expand_all cs)" and sha: "sha256 h (expand_all cs) = digest"
  shows "parse_sparse_reader h (encode_sparse checksum cs) size1 digest = Inr (sparse_report h checksum cs)"
proof -
  let ?img = "encode_sparse checksum cs" and ?h = "sparse_head (all_blocks cs) (length cs) checksum"
  let ?s = "foldl advance sparse_start cs"
  have o: "list_all wf_chunk cs" "0 < all_blocks cs" "all_blocks cs < 256 ^ 4" "length cs < 256 ^ 4"
    "length cs \<le> all_blocks cs * 2 + 1" "checksum = 0 \<or> checksum = crc32 (expand_all cs)"
    using ok by (simp_all add: sparse_ok_def)
  have k: "checksum < 256 ^ 4" using o(6) crc32_bound by auto
  note f = sparse_head_fields[OF o(3,4) k]
  have hd: "pread ?img 28 0 lab = Inr ?h" for lab
    by (simp add: pread_def encode_sparse_def slice_def)
  have "sparse_chunks ?img 4096 (all_blocks cs) (length cs) sparse_start = Inr ?s"
    using sparse_chunks_iff[of sparse_start "all_blocks cs" ?img "length cs" ?s] o(1)
    by (simp add: encode_sparse_def) blast
  moreover have "sp_emitted ?s = all_blocks cs" "sp_offset ?s = length ?img" "sp_decoded ?s = expand_all cs"
    "unat (sp_crc ?s) = crc32 (expand_all cs)"
    using advance_all[of sparse_start cs] by (simp_all add: encode_sparse_def crc32_def)
  moreover have "all_blocks cs * 4096 = size1" using expand_all_length[OF o(1)] size1 by simp
  moreover have "cs \<noteq> []" using o(2) by auto
  moreover have "28 \<le> length ?img" by (simp add: encode_sparse_def)
  ultimately show ?thesis
    using f o hd sha unfolding parse_sparse_reader_def Let_def SPARSE_HEADER_SIZE_def[symmetric] SECTOR_SIZE_def
    by (simp add: sparse_report_def SPARSE_HEADER_SIZE_def)
qed

lemma sparse_sound:
  assumes "parse_sparse_reader h img size1 digest = Inr ev"
  shows "\<exists>checksum cs. sparse_ok checksum cs \<and> img = encode_sparse checksum cs \<and>
     size1 = length (expand_all cs) \<and> digest = sha256 h (expand_all cs)"
proof -
  let ?h = "slice img 0 28"
  let ?b = "get_le 4 ?h 16" and ?n = "get_le 4 ?h 20" and ?k = "get_le 4 ?h 24"
  have z: "0 + 28 = (28::nat)" by simp
  from assms obtain s where le: "28 \<le> length img" and
    hd: "get_le 4 ?h 0 = SPARSE_MAGIC" "get_le 2 ?h 4 = 1" "get_le 2 ?h 6 = 0" "get_le 2 ?h 8 = SPARSE_HEADER_SIZE"
      "get_le 2 ?h 10 = SPARSE_CHUNK_HEADER_SIZE" "get_le 4 ?h 12 = 4096"
    and nb: "0 < ?b" "?b * 4096 = size1" "0 < ?n" "?n \<le> ?b * 2 + 1"
    and run: "sparse_chunks img 4096 ?b ?n sparse_start = Inr s"
    and fin: "sp_emitted s = ?b" "sp_offset s = length img" "?k = 0 \<or> ?k = unat (sp_crc s)"
      "sha256 h (sp_decoded s) = digest"
    unfolding parse_sparse_reader_def Let_def bindE_Inr_iff gate_Inr pread_Inr SECTOR_SIZE_def z
      SPARSE_HEADER_SIZE_def[THEN arg_cong[where f = "\<lambda>n. n \<le> length img"]]
    by (elim exE conjE) (simp add: SPARSE_HEADER_SIZE_def)
  from run obtain cs rest where cs: "length cs = ?n" "list_all wf_chunk cs" "all_blocks cs \<le> ?b"
      "drop 28 img = encode_chunks 0 cs @ rest" "s = foldl advance sparse_start cs"
    using sparse_chunks_iff[of sparse_start ?b img ?n s] by auto
  note a = advance_all[of sparse_start cs, folded cs(5), simplified]
  have bl: "all_blocks cs = ?b" using a fin(1) by simp
  have "rest = []" using arg_cong[OF cs(4), of length] a fin(2) le by simp
  moreover have "img = ?h @ drop 28 img" by (simp add: slice_def)
  moreover have "?h = sparse_head ?b ?n ?k" using sparse_head_eq[OF _ hd] le by simp
  ultimately have img: "img = encode_sparse ?k cs" using cs(1,4) bl by (simp add: encode_sparse_def)
  have "sparse_ok ?k cs"
    using cs(1,2) nb fin(3) a bl get_le_bound[of 4 ?h 16] get_le_bound[of 4 ?h 20]
    unfolding sparse_ok_def crc32_def by simp
  moreover have "size1 = length (expand_all cs)" using expand_all_length[OF cs(2)] nb(2) bl by simp
  ultimately show ?thesis using img fin(4) a by metis
qed

end
