(* ===== verification/Injection.thy ===== *)
theory Injection
  imports Composition
begin

text \<open>
  The lock files and the attestation of the rootfs injection that the userdata assembler
  checks before it reads an image (\<open>assemble_userdata_image.py\<close>).  Text after the opening
  words of a message is left out.  A lock that has passed its loader has the fields the later
  code indexes, so those are read with \<^const>\<open>fld\<close>.
\<close>

section \<open>JSON inputs\<close>

definition BASELINE_SHA256 :: string where
  "BASELINE_SHA256 = ''33067d6954e28b88b78a79a6ba0f994c1b6aff5e77a664b726e5dbb6e90084d8''"
definition BASELINE_SIZE :: int where "BASELINE_SIZE = 3436183552"
definition SPARSE_TOOL_LOCK_SHA256 :: string where
  "SPARSE_TOOL_LOCK_SHA256 = ''cdfc5b1ba9edb98254f40d64b6139e13db153ef38302a340faf8999ff533f366''"
definition INJECTION_POLICY_LOCK_SHA256 :: string where
  "INJECTION_POLICY_LOCK_SHA256 = ''d9687f0505a2a6f9d41f42c1ec7aa724918b69f67f27d8ee33ffb93316d055e3''"
definition SOURCE_LOCK_SHA256 :: string where
  "SOURCE_LOCK_SHA256 = ''b1bbd8b8fbcd6e2d12fcacddfc321715e9e05495cde1ba8ffbd07ae543ee8fee''"
definition D110_BOOT_SHA256 :: string where
  "D110_BOOT_SHA256 = ''2b264d64d2ed22f0ab5c3c2615b0bda9ed821fa5d8d5d691ea513e5d2f071487''"
definition D110_BOOT_SIZE :: int where "D110_BOOT_SIZE = 52944896"
definition D110_BOOT_UUID :: string where
  "D110_BOOT_UUID = ''d4f78f7d-f5b5-4edc-94d5-ba5e6c877888''"

text \<open>
  \<open>except (UnicodeDecodeError, json.JSONDecodeError)\<close>; the hook \<open>_duplicate_object_fields\<close>
  raises \<open>AssemblyError\<close> itself.  The \<open>ValueError\<close> of an integer with too many digits is
  caught by neither.
\<close>

definition assembly_loads :: "host \<Rightarrow> bytes \<Rightarrow> string \<Rightarrow> json result" where
  "assembly_loads h payload label =
     (case loads h payload of
        Inl (Refusal why) \<Rightarrow> Inl (AssemblyError (''invalid JSON in '' @ label))
      | Inl e \<Rightarrow> Inl e
      | Inr v \<Rightarrow> Inr v)"

definition assembly_json_object :: "host \<Rightarrow> bytes \<Rightarrow> string \<Rightarrow> dict result" where
  "assembly_json_object h payload label =
     bindE (gate (utf8_valid payload) (''invalid JSON in '' @ label)) (\<lambda>_.
     bindE (assembly_loads h payload label) (\<lambda>v.
       case v of JObj d \<Rightarrow> Inr d | _ \<Rightarrow> Inl (AssemblyError (label @ '' must contain one JSON object''))))"

text \<open>\<open>_load_json_input\<close> on the bytes of the file.\<close>

definition load_json_input :: "host \<Rightarrow> bytes \<Rightarrow> string \<Rightarrow> (dict \<times> string) result" where
  "load_json_input h payload label =
     bindE (assembly_json_object h payload label) (\<lambda>v. Inr (v, sha256 h payload))"

definition assembly_canonical_json :: "host \<Rightarrow> dict \<Rightarrow> bytes" where
  "assembly_canonical_json h d = canonical h (JObj d) @ [LF]"

definition valid_sha256 :: "json \<Rightarrow> bool" where
  "valid_sha256 v \<longleftrightarrow> (case v of JStr s \<Rightarrow> is_sha256_hex s \<and> s \<noteq> replicate 64 (CHR ''0'') | _ \<Rightarrow> False)"

section \<open>The tool lock and the source lock\<close>

record json_lock =
  lock_value :: dict
  lock_sha256 :: string

definition load_sparse_tool_lock :: "host \<Rightarrow> bytes \<Rightarrow> json_lock result" where
  "load_sparse_tool_lock h payload =
     bindE (gate (sha256 h payload = SPARSE_TOOL_LOCK_SHA256) ''sparse tool lock SHA256 mismatch'') (\<lambda>_.
     bindE (gate (is_ascii payload) ''invalid sparse tool lock JSON'') (\<lambda>_.
     bindE (assembly_loads h payload ''sparse tool lock'') (\<lambda>v.
     bindE (gate (is_obj v \<and> same_fields (obj_val v) [''interpreter'', ''libraries'', ''package'', ''schema'', ''tools''])
              ''sparse tool lock top-level fields mismatch'') (\<lambda>_.
     let d = obj_val v in
     bindE (gate (fld d ''schema'' = JStr ''lmi-p2-d114-sparse-tools-lock/v1'' \<and>
                  py_eq (fld d ''package'') (JObj [(''name'', JStr ''android-sdk-libsparse-utils''),
                                                (''version'', JStr ''1:34.0.5-12build1'')]))
              ''sparse tool lock package/schema mismatch'') (\<lambda>_.
     bindE (gate (is_obj (fld d ''tools'') \<and> same_fields (obj_val (fld d ''tools'')) [''img2simg'', ''simg2img''])
              ''sparse tool lock tool set mismatch'') (\<lambda>_.
     Inr \<lparr>lock_value = d, lock_sha256 = sha256 h payload\<rparr>))))))"

definition load_source_contract :: "host \<Rightarrow> bytes \<Rightarrow> dict result" where
  "load_source_contract h payload =
     bindE (load_json_input h payload ''D114 source lock'') (\<lambda>(v, digest).
     bindE (gate (digest = SOURCE_LOCK_SHA256) ''D114 source lock SHA256 mismatch'') (\<lambda>_.
     let baseline = fld v ''baseline''; b = obj_val baseline in
     bindE (gate (fld v ''schema'' = JStr ''lmi-p2-d114-terminal-source-lock/v1'' \<and> is_obj baseline \<and>
                  fld b ''userdata_raw_sha256'' = JStr BASELINE_SHA256 \<and>
                  py_eq (fld b ''userdata_raw_size'') (JInt BASELINE_SIZE) \<and>
                  fld b ''boot_sha256'' = JStr D110_BOOT_SHA256 \<and>
                  py_eq (fld b ''boot_size'') (JInt D110_BOOT_SIZE) \<and>
                  fld b ''boot_uuid'' = JStr D110_BOOT_UUID)
              ''D114 source lock baseline/boot contract mismatch'') (\<lambda>_.
     Inr [(''baseline_userdata_sha256'', JStr BASELINE_SHA256),
          (''baseline_userdata_size'', JInt BASELINE_SIZE),
          (''schema'', fld v ''schema''),
          (''sha256'', JStr digest)])))"

section \<open>The injection policy lock\<close>

definition INJECTION_INPUT_FIELDS :: "string list" where
  "INJECTION_INPUT_FIELDS = [''apks'', ''base_sha256'', ''candidate_rebuild_lock_schema'',
     ''candidate_rebuild_lock_sha256'', ''candidate_sha256'', ''candidate_size'', ''candidate_uuid'', ''keys'',
     ''raw_sha256'', ''repair_epoch'', ''repair_log_sha256'', ''sparse_sha256'', ''verify_log_sha256'']"

definition INJECTION_OUTPUT_FIXED_FIELDS :: "string list" where
  "INJECTION_OUTPUT_FIXED_FIELDS =
     [''mode'', ''packages'', ''path'', ''size'', ''triggers_sha256'', ''uuid'', ''world_sha256'']"

definition INJECTION_OUTPUT_CALLER_FIELDS :: "string list" where
  "INJECTION_OUTPUT_CALLER_FIELDS = [''owner'']"

definition INJECTION_OUTPUT_SHA256_FIELDS :: "string list" where
  "INJECTION_OUTPUT_SHA256_FIELDS = [''filesystem_delta_sha256'', ''geometry_sha256'', ''installed_db_sha256'',
     ''key_inventory_sha256'', ''p2_package_record_sha256'', ''scripts_db_sha256'', ''sha256'',
     ''sixrow_package_record_sha256'']"

definition INJECTION_TOOL_FIELDS :: "string list" where
  "INJECTION_TOOL_FIELDS = [''apk_static_sha256'', ''bash_sha256'', ''bubblewrap_sha256'', ''debugfs_sha256'',
     ''dumpe2fs_sha256'', ''e2fsck_sha256'', ''e2image_sha256'', ''getfattr_sha256'', ''host_libc_sha256'',
     ''host_loader_sha256'', ''lsattr_libe2p_sha256'', ''lsattr_libcom_err_sha256'', ''lsattr_sha256'',
     ''proot_libtalloc_sha256'', ''proot_sha256'', ''qemu_aarch64_sha256'', ''simg2img_sha256'']"

definition NAMESPACE_FIELDS :: "string list" where
  "NAMESPACE_FIELDS = [''ipc'', ''mnt'', ''net'', ''pid'', ''uts'']"

definition obj_with :: "json \<Rightarrow> string list \<Rightarrow> bool" where
  "obj_with v names \<longleftrightarrow> is_obj v \<and> same_fields (obj_val v) names"

abbreviation jstrs :: "string list \<Rightarrow> json" where
  "jstrs ss \<equiv> JArr (map JStr ss)"

definition check_lock_top :: "dict \<Rightarrow> unit result" where
  "check_lock_top v =
     bindE (gate (same_fields v [''attestation_schema'', ''claims'', ''commands'', ''input'', ''normalization'',
                    ''output'', ''runtime'', ''sanitization'', ''schema'', ''tools''])
              ''injection policy lock top-level fields mismatch'') (\<lambda>_.
     gate (fld v ''schema'' = JStr ''lmi-p2-d114-injection-policy-lock/v2'' \<and>
           fld v ''attestation_schema'' = JStr ''lmi-p2-d114-rootfs-injection-attestation/v3'')
       ''injection policy lock schema mismatch'')"

definition check_lock_commands :: "json \<Rightarrow> unit result" where
  "check_lock_commands commands =
     gate (obj_with commands [''apk'', ''lifecycle''] \<and>
           list_all (\<lambda>kv. is_arr (snd kv) \<and> arr_val (snd kv) \<noteq> [] \<and> list_all nonempty_str (arr_val (snd kv)))
             (obj_val commands))
       ''injection policy command arrays are malformed''"

definition LOCK_CLAIMS :: json where
  "LOCK_CLAIMS = JObj [(''hardware_test_only'', JBool True), (''production'', JBool False), (''release_eligible'', JBool False)]"

definition LOCK_SANITIZATION :: json where
  "LOCK_SANITIZATION = JObj
     [(''apk_cache'', JStr ''exact-four-index-members-removed''),
      (''apk_log'', JStr ''empty''),
      (''authorized_keys'', JStr ''absent-in-base''),
      (''machine_id'', JStr ''baked-fixed-hardware-test''),
      (''resolv_conf'', JStr ''empty''),
      (''shadow_backup'', JStr ''exact-copy-of-locked-active-shadow''),
      (''ssh_password_authentication'', JStr ''disabled-by-locked-drop-in'')]"

definition LOCK_NORMALIZATION_FIXED :: json where
  "LOCK_NORMALIZATION_FIXED = JObj
     [(''allocated_only_command'', jstrs [''e2image'', ''-r'', ''-a'', ''-p'']),
      (''all_free_blocks_zero'', JBool True),
      (''inactive_journal'', JObj
         [(''block_count'', JInt 16383), (''first_block'', JInt 327681),
          (''sha256'', JStr ''40b4947fd669bcb849e47705c797e2484a4d406a596017fa889987d2614008b3'')]),
      (''journal_extent'', JObj [(''block_count'', JInt 16384), (''first_block'', JInt 327680)]),
      (''proof'', JStr ''second-e2image-byte-identical''),
      (''reviewed_freed_blocks'', JArr [])]"

definition check_lock_normalization :: "json \<Rightarrow> unit result" where
  "check_lock_normalization v =
     gate (obj_with v [''fixed'', ''positive_integer_fields'', ''sha256_fields''] \<and>
           py_eq (fld (obj_val v) ''positive_integer_fields'') (jstrs [''sparse_st_blocks'']) \<and>
           py_eq (fld (obj_val v) ''sha256_fields'')
             (jstrs [''pre_normalization_sha256'', ''proof_sha256'', ''tree_identity_sha256'']) \<and>
           py_eq (fld (obj_val v) ''fixed'') LOCK_NORMALIZATION_FIXED)
       ''injection policy normalization mismatch''"

text \<open>\<open>set(...)\<close> of a list that holds a list or a dictionary raises \<open>TypeError\<close>.\<close>

definition check_lock_output :: "json \<Rightarrow> unit result" where
  "check_lock_output v =
     (let fixed = fld (obj_val v) ''fixed''; shas = fld (obj_val v) ''sha256_fields'' in
      bindE (gate (obj_with v [''caller_primary_group_fields'', ''fixed'', ''sha256_fields''] \<and>
                   obj_with fixed INJECTION_OUTPUT_FIXED_FIELDS \<and>
                   py_eq (fld (obj_val v) ''caller_primary_group_fields'') (jstrs [''owner'']) \<and> is_arr shas)
               ''injection policy output fields mismatch'') (\<lambda>_.
      if \<not> list_all hashable (arr_val shas) then Inl PyTypeError
      else gate (set (arr_val shas) = set (map JStr INJECTION_OUTPUT_SHA256_FIELDS) \<and>
                 length (arr_val shas) = length INJECTION_OUTPUT_SHA256_FIELDS)
             ''injection policy output fields mismatch''))"

definition check_lock_runtime :: "json \<Rightarrow> unit result" where
  "check_lock_runtime v =
     (let d = obj_val v in
      gate (obj_with v [''fixed'', ''mount_required_options'', ''namespace_fields'', ''sealed_injector_script_sha256''] \<and>
            obj_with (fld d ''fixed'')
              [''injector_runtime_lock_schema'', ''injector_runtime_lock_sha256'', ''sandbox_entry_sha256''] \<and>
            py_eq (fld d ''namespace_fields'') (jstrs NAMESPACE_FIELDS) \<and>
            py_eq (fld d ''mount_required_options'') (jstrs [''rw'', ''nosuid'', ''nodev'']) \<and>
            valid_sha256 (fld d ''sealed_injector_script_sha256''))
        ''injection policy runtime fields mismatch'')"

definition check_lock_tools :: "json \<Rightarrow> unit result" where
  "check_lock_tools v =
     gate (obj_with v INJECTION_TOOL_FIELDS \<and> list_all (\<lambda>kv. valid_sha256 (snd kv)) (obj_val v))
       ''injection policy tool fields mismatch''"

definition check_lock_apk :: "dict \<Rightarrow> string \<times> string \<Rightarrow> unit result" where
  "check_lock_apk apks nm =
     (let apk = fld apks (fst nm); d = obj_val apk in
      gate (obj_with apk [''build_attestation_sha256'', ''sandbox_path'', ''sha256'', ''source_path''] \<and>
            fld d ''sandbox_path'' = JStr (snd nm) \<and>
            valid_sha256 (fld d ''build_attestation_sha256'') \<and> valid_sha256 (fld d ''sha256'') \<and>
            is_str (fld d ''source_path'') \<and> prefix ''private/'' (str_val (fld d ''source_path'')))
        ''injection policy nested APK input is malformed'')"

definition ends_with :: "string \<Rightarrow> string \<Rightarrow> bool" where
  "ends_with s suf \<longleftrightarrow> prefix (rev suf) (rev s)"

definition check_lock_input :: "json \<Rightarrow> unit result" where
  "check_lock_input v =
     (let d = obj_val v; apks = fld d ''apks''; keys = fld d ''keys'' in
      bindE (gate (obj_with apks [''p2'', ''sixrow'']) ''injection policy nested APK inputs are malformed'') (\<lambda>_.
      bindE (iterE (check_lock_apk (obj_val apks)) [(''p2'', ''/tools/p2.apk''), (''sixrow'', ''/tools/sixrow.apk'')]) (\<lambda>_.
      bindE (gate (obj_with keys [''p2_sha256'', ''sixrow_sha256''] \<and> list_all (\<lambda>kv. valid_sha256 (snd kv)) (obj_val keys))
               ''injection policy nested key inputs are malformed'') (\<lambda>_.
      iterE (\<lambda>kv. gate (fst kv \<in> {''apks'', ''keys''} \<or> \<not> ends_with (fst kv) ''_sha256'' \<or> valid_sha256 (snd kv))
               ''injection policy input SHA256 is invalid'') d))))"

text \<open>The checks in the order of \<open>load_injection_policy_lock\<close>.\<close>

definition check_injection_policy :: "dict \<Rightarrow> unit result" where
  "check_injection_policy v =
     bindE (check_lock_top v) (\<lambda>_.
     bindE (check_lock_commands (fld v ''commands'')) (\<lambda>_.
     bindE (gate (obj_with (fld v ''input'') INJECTION_INPUT_FIELDS) ''injection policy input fields mismatch'') (\<lambda>_.
     bindE (gate (py_eq (fld v ''claims'') LOCK_CLAIMS) ''injection policy claims mismatch'') (\<lambda>_.
     bindE (gate (py_eq (fld v ''sanitization'') LOCK_SANITIZATION) ''injection policy sanitization mismatch'') (\<lambda>_.
     bindE (check_lock_normalization (fld v ''normalization'')) (\<lambda>_.
     bindE (check_lock_output (fld v ''output'')) (\<lambda>_.
     bindE (check_lock_runtime (fld v ''runtime'')) (\<lambda>_.
     bindE (check_lock_tools (fld v ''tools'')) (\<lambda>_.
     bindE (check_lock_input (fld v ''input'')) (\<lambda>_.
     bindE (iterE (\<lambda>k. gate (valid_sha256 (fld (obj_val (fld (obj_val (fld v ''output'')) ''fixed'')) k))
              ''injection policy output SHA256 is invalid'') [''triggers_sha256'', ''world_sha256'']) (\<lambda>_.
     iterE (\<lambda>k. gate (valid_sha256 (fld (obj_val (fld (obj_val (fld v ''runtime'')) ''fixed'')) k))
              ''injection policy runtime SHA256 is invalid'') [''injector_runtime_lock_sha256'', ''sandbox_entry_sha256''])))))))))))"

definition load_injection_policy_lock :: "host \<Rightarrow> bytes \<Rightarrow> json \<Rightarrow> json_lock result" where
  "load_injection_policy_lock h payload expected_sha256 =
     bindE (gate (valid_sha256 expected_sha256) ''injection policy lock expected SHA256 is not frozen'') (\<lambda>_.
     bindE (load_json_input h payload ''injection policy lock'') (\<lambda>(v, digest).
     bindE (gate (JStr digest = expected_sha256) ''injection policy lock SHA256 mismatch'') (\<lambda>_.
     bindE (check_injection_policy v) (\<lambda>_.
     Inr \<lparr>lock_value = v, lock_sha256 = digest\<rparr>))))"

section \<open>The attestation\<close>

text \<open>\<open>[1-9][0-9]*\<close>\<close>

definition positive_decimal :: "string \<Rightarrow> bool" where
  "positive_decimal s \<longleftrightarrow> s \<noteq> [] \<and> hd s \<noteq> CHR ''0'' \<and> list_all is_digit s"

definition lower_hex_word :: "string \<Rightarrow> bool" where
  "lower_hex_word s \<longleftrightarrow> s \<noteq> [] \<and> list_all is_lower_hex s"

definition backing_identity :: "string \<Rightarrow> bool" where
  "backing_identity s \<longleftrightarrow> (case split_on (CHR '':'') s of
      [a, b] \<Rightarrow> positive_decimal a \<and> positive_decimal b | _ \<Rightarrow> False)"

definition block_identity :: "string \<Rightarrow> bool" where
  "block_identity s \<longleftrightarrow> (case split_on (CHR '':'') s of
      [a, b, c] \<Rightarrow> lower_hex_word a \<and> lower_hex_word b \<and> positive_decimal c | _ \<Rightarrow> False)"

definition alnum :: "char \<Rightarrow> bool" where
  "alnum c \<longleftrightarrow> is_digit c \<or> is_lower c \<or> is_upper c"

definition kernel_release :: "string \<Rightarrow> bool" where
  "kernel_release s \<longleftrightarrow> s \<noteq> [] \<and> length s \<le> 128 \<and> alnum (hd s) \<and>
     list_all (\<lambda>c. alnum c \<or> c \<in> set ''._+-'') (tl s)"

text \<open>\<open>NAMESPACE_RE.fullmatch(identity)\<close> with the group \<open>kind\<close> equal to the field.\<close>

definition namespace_identity :: "string \<Rightarrow> string \<Rightarrow> bool" where
  "namespace_identity kind s \<longleftrightarrow> kind \<in> set NAMESPACE_FIELDS \<and>
     (case lit (kind @ '':['') s of
        Some r \<Rightarrow> r \<noteq> [] \<and> last r = CHR '']'' \<and> positive_decimal (butlast r)
      | None \<Rightarrow> False)"

definition mount_option :: "string \<Rightarrow> bool" where
  "mount_option s \<longleftrightarrow> s \<noteq> [] \<and> (is_lower (hd s) \<or> is_digit (hd s)) \<and>
     list_all (\<lambda>c. is_lower c \<or> is_digit c \<or> c \<in> set ''._=-'') (tl s)"

definition validate_mount_runtime :: "json \<Rightarrow> json list \<Rightarrow> unit result" where
  "validate_mount_runtime v required =
     (let d = obj_val v; backing = fld d ''backing_identity''; block = fld d ''block_identity'';
          mount = fld d ''mount_options'' in
      bindE (gate (obj_with v [''backing_identity'', ''block_identity'', ''mount_options''])
               ''P2 injection mount runtime fields mismatch'') (\<lambda>_.
      bindE (gate (is_str backing \<and> backing_identity (str_val backing) \<and>
                   is_str block \<and> block_identity (str_val block) \<and>
                   is_str mount \<and> prefix ''ext4 '' (str_val mount))
               ''P2 injection mount runtime identity is invalid'') (\<lambda>_.
      let options = split_on (CHR '','') (drop 5 (str_val mount)) in
      gate (list_all mount_option options \<and> distinct options \<and>
            list_all (\<lambda>item. item \<in> set (map JStr options)) required \<and>
            \<not> list_ex (\<lambda>item. item \<in> set options) [''ro'', ''suid'', ''dev''])
        ''P2 injection mount options are invalid'')))"

definition policy_part :: "dict \<Rightarrow> string \<Rightarrow> string \<Rightarrow> json" where
  "policy_part v a b = fld (obj_val (fld v a)) b"

definition att_top :: "host \<Rightarrow> bytes \<Rightarrow> dict \<Rightarrow> dict \<Rightarrow> assembly_policy \<Rightarrow> unit result" where
  "att_top h payload v expected p =
     bindE (gate (payload = assembly_canonical_json h v) ''P2 injection attestation JSON is not canonical'') (\<lambda>_.
     bindE (gate (same_fields v [''claims'', ''commands'', ''input'', ''normalization'', ''output'', ''runtime'',
                    ''sanitization'', ''schema'', ''tools''])
              ''P2 injection attestation top-level fields mismatch'') (\<lambda>_.
     bindE (gate (py_eq (fld v ''schema'') (fld expected ''attestation_schema''))
              ''P2 injection attestation schema mismatch'') (\<lambda>_.
     bindE (iterE (\<lambda>field. gate (py_eq (fld v field) (fld expected field))
              ''P2 injection attestation fixed field mismatch'')
              [''claims'', ''commands'', ''input'', ''sanitization'', ''tools'']) (\<lambda>_.
     gate (py_eq (policy_part expected ''input'' ''candidate_size'') (jnum (p2_size p)) \<and>
           policy_part expected ''input'' ''candidate_uuid'' = JStr (p2_uuid p))
       ''injection policy input does not match the assembly policy''))))"

definition att_output :: "nat \<Rightarrow> json \<Rightarrow> dict \<Rightarrow> assembly_policy \<Rightarrow> string \<Rightarrow> unit result" where
  "att_output gid output output_fixed p p2_sha256 =
     (let d = obj_val output in
      bindE (gate (obj_with output (INJECTION_OUTPUT_FIXED_FIELDS @ INJECTION_OUTPUT_SHA256_FIELDS @ INJECTION_OUTPUT_CALLER_FIELDS) \<and>
                   list_all (\<lambda>kv. py_eq (fld d (fst kv)) (snd kv)) output_fixed \<and>
                   fld d ''owner'' = JStr (''0:'' @ show_nat gid) \<and>
                   py_eq (fld output_fixed ''size'') (jnum (p2_size p)) \<and>
                   fld output_fixed ''uuid'' = JStr (p2_uuid p))
               ''P2 injection attestation fixed output mismatch'') (\<lambda>_.
      bindE (iterE (\<lambda>k. gate (valid_sha256 (fld d k)) ''P2 injection attestation dynamic SHA256 is invalid'')
               INJECTION_OUTPUT_SHA256_FIELDS) (\<lambda>_.
      gate (fld d ''sha256'' = JStr p2_sha256) ''P2 injection attestation does not bind the P2 input'')))"

text \<open>\<open>output["size"]\<close> equals the size of the policy here, and \<open>sparse_st_blocks\<close> is an integer.\<close>

definition att_normalization :: "json \<Rightarrow> dict \<Rightarrow> json \<Rightarrow> assembly_policy \<Rightarrow> unit result" where
  "att_normalization v pol output_sha256 p =
     (let d = obj_val v; fixed = obj_val (fld pol ''fixed'');
          ints = map str_val (arr_val (fld pol ''positive_integer_fields''));
          shas = map str_val (arr_val (fld pol ''sha256_fields'')) in
      gate (is_obj v \<and> same_fields d (map fst fixed @ ints @ shas) \<and>
            list_all (\<lambda>kv. py_eq (fld d (fst kv)) (snd kv)) fixed \<and>
            list_all (\<lambda>k. positive_int (fld d k)) ints \<and>
            list_all (\<lambda>k. valid_sha256 (fld d k)) shas \<and>
            py_eq (fld d ''proof_sha256'') output_sha256 \<and>
            int_val (fld d ''sparse_st_blocks'') * 512 < int (p2_size p))
        ''P2 injection normalization proof mismatch'')"

definition att_runtime :: "json \<Rightarrow> dict \<Rightarrow> unit result" where
  "att_runtime runtime expected =
     (let d = obj_val runtime; namespaces = fld d ''namespaces'' in
      bindE (gate (obj_with runtime [''injector_runtime_lock_schema'', ''injector_runtime_lock_sha256'', ''kernel_release'',
                     ''mount_loop'', ''namespaces'', ''proc_version_sha256'', ''sandbox_entry_sha256'', ''sealed_script_sha256''])
               ''P2 injection attestation runtime fields mismatch'') (\<lambda>_.
      bindE (gate (is_str (fld d ''kernel_release'') \<and> kernel_release (str_val (fld d ''kernel_release'')) \<and>
                   valid_sha256 (fld d ''proc_version_sha256'') \<and>
                   py_eq (fld d ''sealed_script_sha256'') (fld expected ''sealed_injector_script_sha256'') \<and>
                   list_all (\<lambda>kv. py_eq (fld d (fst kv)) (snd kv)) (obj_val (fld expected ''fixed'')))
               ''P2 injection attestation runtime identity mismatch'') (\<lambda>_.
      bindE (gate (is_obj namespaces \<and> map fst (obj_val namespaces) = NAMESPACE_FIELDS)
               ''P2 injection namespace fields mismatch'') (\<lambda>_.
      bindE (iterE (\<lambda>kv. gate (is_str (snd kv) \<and> namespace_identity (fst kv) (str_val (snd kv)))
               ''P2 injection namespace identity is invalid'') (obj_val namespaces)) (\<lambda>_.
      validate_mount_runtime (fld d ''mount_loop'') (arr_val (fld expected ''mount_required_options'')))))))"

record injection_attestation =
  att_value :: dict
  att_payload :: bytes
  att_sha256 :: string

definition validate_injection_attestation ::
  "host \<Rightarrow> nat \<Rightarrow> bytes \<Rightarrow> string \<Rightarrow> assembly_policy \<Rightarrow> json_lock \<Rightarrow> injection_attestation result" where
  "validate_injection_attestation h gid payload p2_sha256 p lock =
     (let expected = lock_value lock in
      bindE (assembly_json_object h payload ''P2 injection attestation'') (\<lambda>v.
      bindE (att_top h payload v expected p) (\<lambda>_.
      bindE (att_output gid (fld v ''output'') (obj_val (policy_part expected ''output'' ''fixed'')) p p2_sha256) (\<lambda>_.
      bindE (att_normalization (fld v ''normalization'') (obj_val (fld expected ''normalization''))
               (fld (obj_val (fld v ''output'')) ''sha256'') p) (\<lambda>_.
      bindE (att_runtime (fld v ''runtime'') (obj_val (fld expected ''runtime''))) (\<lambda>_.
      Inr \<lparr>att_value = v, att_payload = payload, att_sha256 = sha256 h payload\<rparr>))))))"

end
