(* ===== verification/ImageProps.thy ===== *)
theory ImageProps
  imports SparseSpec Injection JsonSpec
begin

text \<open>
  The properties of the userdata assembler (\<open>assemble_userdata_image.py\<close>): the GPT check,
  the composition and its verification, and the sparse parser, each with an application to a
  disk of thirteen sectors.
\<close>

section \<open>A small disk\<close>

definition image_host :: host where
  "image_host = \<lparr>sha256 = (\<lambda>bs. replicate 64 (CHR ''a'')), float_of = (\<lambda>s. JFloat 1 1),
     float_repr = (\<lambda>m k. ''0.5''), category_C = (\<lambda>ch. False), euid = 1000, egid = 1000\<rparr>"

definition small_policy :: assembly_policy where
  "small_policy = \<lparr>baseline_size = 53248, baseline_sha256 = replicate 64 (CHR ''a''),
     p2_size = 4096, p2_uuid = ''f8eb7c4b-a7bc-4c44-972f-ee4a7c2e075f'',
     p1_first_lba = 6, p1_last_lba = 6, p2_first_lba = 7, p2_last_lba = 7,
     partition_names = (''primary'', ''primary'')\<rparr>"

definition demo_guid :: "char \<Rightarrow> uuid" where
  "demo_guid c = replicate 6 c @ [char_of (0x40::nat), c, char_of (0x80::nat)] @ replicate 7 c"

definition guid1 :: uuid where "guid1 = demo_guid (CHR ''1'')"
definition guid2 :: uuid where "guid2 = demo_guid (CHR ''2'')"
definition guid3 :: uuid where "guid3 = demo_guid (CHR ''3'')"

definition small_disk :: bytes where
  "small_disk = gpt_head small_policy guid1 guid2 guid3 @ replicate 8192 NUL @ gpt_tail small_policy guid1 guid2 guid3"

definition small_uuid :: uuid where
  "small_uuid = unhex ''f8eb7c4ba7bc4c44972fee4a7c2e075f''"

definition small_superblock :: bytes where
  "small_superblock = replicate 4 NUL @ le_bytes 4 1 @ replicate 16 NUL @ le_bytes 4 2 @ replicate 28 NUL @
     le_bytes 2 0xEF53 @ replicate 38 NUL @ le_bytes 4 0 @ replicate 4 NUL @ small_uuid @ replicate 904 NUL"

definition small_p2 :: bytes where
  "small_p2 = replicate 1024 NUL @ small_superblock @ replicate 2048 NUL"

lemma small_policy_ok: "check_assembly_policy small_policy = Inr ()"
proof -
  have "is_sha256_hex (replicate 64 (CHR ''a''))" by (simp add: is_sha256_hex_def is_lower_hex_def list_all_iff ord_def)
  moreover have "case canonical_uuid ''f8eb7c4b-a7bc-4c44-972f-ee4a7c2e075f'' of None \<Rightarrow> False | Some u \<Rightarrow> rfc_v4 u"
    by code_simp
  ultimately show ?thesis
    by (simp add: check_assembly_policy_def small_policy_def SECTOR_SIZE_def first_usable_lba_def last_usable_lba_def
        GPT_TABLE_LBAS_def disk_lbas_def gate_def)
qed

lemma small_fits: "fits small_policy"
  by (simp add: fits_def small_policy_def)

lemma production_policy_ok: "check_assembly_policy PRODUCTION_POLICY = Inr () \<and> fits PRODUCTION_POLICY"
proof -
  have "is_sha256_hex ''33067d6954e28b88b78a79a6ba0f994c1b6aff5e77a664b726e5dbb6e90084d8''" by code_simp
  moreover have "case canonical_uuid ''f8eb7c4b-a7bc-4c44-972f-ee4a7c2e075f'' of None \<Rightarrow> False | Some u \<Rightarrow> rfc_v4 u"
    by code_simp
  ultimately show ?thesis
    by (simp add: check_assembly_policy_def PRODUCTION_POLICY_def SECTOR_SIZE_def first_usable_lba_def last_usable_lba_def
        GPT_TABLE_LBAS_def disk_lbas_def gate_def fits_def)
qed

lemma le_nat_zero: "le_nat xs = 0 \<Longrightarrow> set xs \<subseteq> {NUL}"
  by (induction xs) auto

lemma demo_guid_Cons: "demo_guid c = c # tl (demo_guid c)" "hd (demo_guid c) = c"
  by (simp_all add: demo_guid_def numeral_eq_Suc)

lemma demo_guid_ok: "c \<noteq> NUL \<Longrightarrow> guid_ok (demo_guid c)"
proof -
  assume c: "c \<noteq> NUL"
  have "be_nat (demo_guid c) \<noteq> 0"
    using le_nat_zero[of "rev (demo_guid c)"] c list.set_sel(1)[of "demo_guid c"] demo_guid_Cons
    by (metis be_nat_def empty_iff in_mono insert_iff list.discI list.set_intros(1) set_rev)
  moreover have "demo_guid c ! 6 = char_of (64::nat)" "demo_guid c ! 8 = char_of (128::nat)"
    by (simp_all add: demo_guid_def nth_append)
  ultimately show ?thesis
    by (simp add: guid_ok_def uuid_ok_def uuid_zero_def rfc_v4_def) (simp add: demo_guid_def)
qed

lemma small_guids: "guids_ok guid1 guid2 guid3"
proof -
  have "demo_guid c = demo_guid d \<Longrightarrow> c = d" for c d using demo_guid_Cons(2) by metis
  then have "distinct [guid1, guid2, guid3]" by (auto simp: guid1_def guid2_def guid3_def)
  moreover have "guid_ok guid1" "guid_ok guid2" "guid_ok guid3"
    unfolding guid1_def guid2_def guid3_def by (rule demo_guid_ok, simp flip: ord_eq_0_iff add: ord_def)+
  ultimately show ?thesis by (simp add: guids_ok_def)
qed

lemma small_canonical: "canonical_gpt small_disk small_policy guid1 guid2 guid3"
proof -
  have u: "uuid_ok guid1" "uuid_ok guid2" "uuid_ok guid3"
    using small_guids by (simp_all add: guids_ok_def guid_ok_def)
  have lh: "length (gpt_head small_policy guid1 guid2 guid3) = 24576"
    using length_encode_header[OF u(1)] u by (simp add: gpt_head_def SECTOR_SIZE_def)
  have lt: "length (gpt_tail small_policy guid1 guid2 guid3) = 20480"
    using length_encode_header[OF u(1)] u by (simp add: gpt_tail_def SECTOR_SIZE_def)
  have d: "(disk_lbas small_policy - 5) * 4096 = 24576 + 8192" by (simp add: disk_lbas_def small_policy_def SECTOR_SIZE_def)
  have "slice small_disk 0 24576 = gpt_head small_policy guid1 guid2 guid3"
    using slice_full_append[of "gpt_head small_policy guid1 guid2 guid3"] by (simp only: small_disk_def lh[symmetric])
  moreover have "drop (24576 + 8192) small_disk = gpt_tail small_policy guid1 guid2 guid3"
    by (simp add: small_disk_def lh)
  moreover have "length small_disk = baseline_size small_policy"
    by (simp add: small_disk_def lh lt) (simp add: small_policy_def)
  ultimately show ?thesis using small_guids by (simp add: canonical_gpt_def d)
qed

lemma small_p2_valid: "validate_p2 small_p2 small_policy = Inr 1"
proof -
  let ?sb = small_superblock
  have lu: "length small_uuid = 16" by (simp add: small_uuid_def)
  have l: "length ?sb = 1024" by (simp add: small_superblock_def lu)
  have "get_le 4 ?sb 4 = 1"
    by (rule get_le_at[where a = "replicate 4 NUL"]) (simp_all add: small_superblock_def)
  moreover have "get_le 4 ?sb 0x18 = 2"
    by (rule get_le_at[where a = "replicate 4 NUL @ le_bytes 4 1 @ replicate 16 NUL"]) (simp_all add: small_superblock_def)
  moreover have "get_le 2 ?sb 0x38 = 0xEF53"
    by (rule get_le_at[where a = "replicate 4 NUL @ le_bytes 4 1 @ replicate 16 NUL @ le_bytes 4 2 @ replicate 28 NUL"])
      (simp_all add: small_superblock_def)
  moreover have "get_le 4 ?sb 0x60 = 0"
    by (rule get_le_at[where a = "replicate 4 NUL @ le_bytes 4 1 @ replicate 16 NUL @ le_bytes 4 2 @ replicate 28 NUL @
      le_bytes 2 0xEF53 @ replicate 38 NUL"]) (simp_all add: small_superblock_def)
  moreover have "slice ?sb 0x68 0x78 = small_uuid"
    using three_parts(2)[where i = 104 and k = 16, of ?sb "replicate 4 NUL @ le_bytes 4 1 @ replicate 16 NUL @ le_bytes 4 2 @ replicate 28 NUL @
      le_bytes 2 0xEF53 @ replicate 38 NUL @ le_bytes 4 0 @ replicate 4 NUL" small_uuid "replicate 904 NUL"]
    by (simp add: small_superblock_def lu)
  moreover have "pread small_p2 1024 1024 lab = Inr ?sb" for lab
    using three_parts(2)[OF small_p2_def, where i = 1024 and k = 1024] l by (simp add: pread_def small_p2_def)
  moreover have "uuid_text small_uuid = ''f8eb7c4b-a7bc-4c44-972f-ee4a7c2e075f''" by code_simp
  moreover have "length small_p2 = 4096" using l by (simp add: small_p2_def)
  ultimately show ?thesis
    unfolding validate_p2_def Let_def by (simp add: SECTOR_SIZE_def small_policy_def)
qed

section \<open>The partition table\<close>

text \<open>C20: the GPT check accepts exactly the images of the policy's size that carry the canonical
  protective MBR, both copies of the header and of the entry table with their checksums, and
  the two reviewed partitions, for some three distinct random GUIDs; and it returns what the
  table says.\<close>

theorem gpt_accepted_iff:
  assumes "check_assembly_policy p = Inr ()" and "fits p"
  shows "validate_gpt sha img p = Inr l \<longleftrightarrow>
     (\<exists>g u1 u2. canonical_gpt img p g u1 u2 \<and> l = layout_of sha p g u1 u2)"
  using validate_gpt_sound[OF assms(1)] validate_gpt_complete[OF assms] by blast

theorem gpt_accepted_iff_witness:
  "validate_gpt (sha256 image_host) small_disk small_policy =
     Inr (layout_of (sha256 image_host) small_policy guid1 guid2 guid3)"
  using gpt_accepted_iff[OF small_policy_ok small_fits] small_canonical by blast

section \<open>The composition\<close>

text \<open>C19: for inputs that pass the checks the copy returns, however the kernel splits the
  writes as long as each accepts a byte, and its output passes the verifier.\<close>

theorem copy_returns_and_verifies:
  assumes "check_assembly_policy p = Inr ()" "fits p"
    and "validate_gpt (sha256 h) baseline p = Inr l" "sha256 h baseline = baseline_sha256 p"
    and "validate_p2 p2 p = Inr b" and "progressing ns"
  shows "\<exists>out ev. copy_then_pwrite ns baseline p2 p = Inr out \<and> verify_composition h baseline p2 out p = Inr ev"
proof -
  obtain g u1 u2 where "canonical_gpt baseline p g u1 u2" using validate_gpt_sound[OF assms(1,3)] by blast
  from verify_complete[OF assms(1,2) this assms(5,4)]
    copy_then_pwrite_returns[OF assms(6,1) validate_gpt_size[OF assms(3)] validate_p2_size[OF assms(5)]]
  show ?thesis by blast
qed

lemma small_gpt: "validate_gpt sha small_disk small_policy = Inr (layout_of sha small_policy guid1 guid2 guid3)"
  by (rule validate_gpt_complete[OF small_policy_ok small_fits small_canonical])

theorem copy_returns_and_verifies_witness:
  "\<exists>out ev. copy_then_pwrite [1, 2, 3] small_disk small_p2 small_policy = Inr out \<and>
     verify_composition image_host small_disk small_p2 out small_policy = Inr ev"
  by (rule copy_returns_and_verifies[OF small_policy_ok small_fits small_gpt _ small_p2_valid])
    (simp_all add: image_host_def small_policy_def progressing_def)

text \<open>C18: an image that passes the verifier is the pinned baseline with the P2 file system in its
  partition, byte for byte, and carries the baseline's partition table.\<close>

theorem verified_is_composition:
  assumes "check_assembly_policy p = Inr ()" "verify_composition h baseline p2 out p = Inr ev"
  shows "out = compose baseline p2 p \<and> sha256 h baseline = baseline_sha256 p \<and>
     (\<exists>g u1 u2. canonical_gpt baseline p g u1 u2 \<and> canonical_gpt out p g u1 u2)"
proof -
  from assms(2) have l: "length baseline = baseline_size p" "length p2 = p2_size p" "length out = baseline_size p"
    and v: "verify_composition_readers h baseline p2 out p True = Inr ev"
    by (simp_all add: verify_composition_def res_iff)
  note r = verify_readers_Inr[OF v]
  have out: "out = compose baseline p2 p" using r ranges_compose[OF assms(1) l] by blast
  from r obtain k where "validate_gpt (sha256 h) baseline p = Inr k" by blast
  from validate_gpt_sound[OF assms(1) this] obtain g u1 u2 where "canonical_gpt baseline p g u1 u2" by blast
  then show ?thesis using out r compose_canonical[OF assms(1) _ l(2)] by blast
qed

theorem verified_is_composition_witness:
  "\<exists>g u1 u2. canonical_gpt (compose small_disk small_p2 small_policy) small_policy g u1 u2"
proof -
  have "sha256 image_host small_disk = baseline_sha256 small_policy" by (simp add: image_host_def small_policy_def)
  from verify_complete[OF small_policy_ok small_fits small_canonical small_p2_valid this]
  obtain ev where "verify_composition image_host small_disk small_p2 (compose small_disk small_p2 small_policy) small_policy = Inr ev"
    by blast
  from verified_is_composition[OF small_policy_ok this] show ?thesis by blast
qed

section \<open>Sparse images\<close>

text \<open>C25: the sparse parser accepts exactly the version 1 encodings of lists of RAW, FILL,
  DONT_CARE and CRC32 chunks whose expansion has the expected size and digest and whose
  checksums are right; nothing else, and no trailing bytes.\<close>

theorem sparse_accepted_iff:
  "isok (parse_sparse_reader h img size1 digest) \<longleftrightarrow>
     (\<exists>checksum cs. sparse_ok checksum cs \<and> img = encode_sparse checksum cs \<and>
        size1 = length (expand_all cs) \<and> digest = sha256 h (expand_all cs))"
  using sparse_sound sparse_complete unfolding isok_iff by blast



end
