(* ===== verification/AttestationProps.thy ===== *)
theory AttestationProps
  imports ImageProps
begin

text \<open>
  What an accepted injection attestation says, and a policy lock and an attestation for the
  small disk that pass.
\<close>

section \<open>A lock and an attestation\<close>

definition sha_a :: json where "sha_a = JStr (replicate 64 (CHR ''a''))"

definition demo_lock_apk :: "string \<Rightarrow> json" where
  "demo_lock_apk path = JObj [(''build_attestation_sha256'', sha_a), (''sandbox_path'', JStr path), (''sha256'', sha_a),
     (''source_path'', JStr ''private/x.apk'')]"

definition demo_input :: json where
  "demo_input = JObj
     [(''apks'', JObj [(''p2'', demo_lock_apk ''/tools/p2.apk''), (''sixrow'', demo_lock_apk ''/tools/sixrow.apk'')]),
      (''base_sha256'', sha_a), (''candidate_rebuild_lock_schema'', JStr ''v1''),
      (''candidate_rebuild_lock_sha256'', sha_a), (''candidate_sha256'', sha_a), (''candidate_size'', JInt 4096),
      (''candidate_uuid'', JStr (p2_uuid small_policy)), (''keys'', JObj [(''p2_sha256'', sha_a), (''sixrow_sha256'', sha_a)]),
      (''raw_sha256'', sha_a), (''repair_epoch'', JInt 1), (''repair_log_sha256'', sha_a), (''sparse_sha256'', sha_a),
      (''verify_log_sha256'', sha_a)]"

definition demo_output_fixed :: dict where
  "demo_output_fixed = [(''mode'', JStr ''0640''), (''packages'', JArr []), (''path'', JStr ''rootfs.ext4''),
     (''size'', JInt 4096), (''triggers_sha256'', sha_a), (''uuid'', JStr (p2_uuid small_policy)), (''world_sha256'', sha_a)]"

definition demo_runtime_fixed :: dict where
  "demo_runtime_fixed = [(''injector_runtime_lock_schema'', JStr ''v1''), (''injector_runtime_lock_sha256'', sha_a),
     (''sandbox_entry_sha256'', sha_a)]"

definition demo_commands :: json where
  "demo_commands = JObj [(''apk'', jstrs [''add'']), (''lifecycle'', jstrs [''install''])]"

definition demo_tools :: json where
  "demo_tools = JObj (map (\<lambda>k. (k, sha_a))
     (take 10 INJECTION_TOOL_FIELDS @ [''lsattr_libcom_err_sha256'', ''lsattr_libe2p_sha256''] @ drop 12 INJECTION_TOOL_FIELDS))"

definition demo_lock_value :: dict where
  "demo_lock_value =
     [(''attestation_schema'', JStr ''lmi-p2-d114-rootfs-injection-attestation/v3''),
      (''claims'', LOCK_CLAIMS), (''commands'', demo_commands), (''input'', demo_input),
      (''normalization'', JObj [(''fixed'', LOCK_NORMALIZATION_FIXED),
         (''positive_integer_fields'', jstrs [''sparse_st_blocks'']),
         (''sha256_fields'', jstrs [''pre_normalization_sha256'', ''proof_sha256'', ''tree_identity_sha256''])]),
      (''output'', JObj [(''caller_primary_group_fields'', jstrs [''owner'']), (''fixed'', JObj demo_output_fixed),
         (''sha256_fields'', jstrs INJECTION_OUTPUT_SHA256_FIELDS)]),
      (''runtime'', JObj [(''fixed'', JObj demo_runtime_fixed),
         (''mount_required_options'', jstrs [''rw'', ''nosuid'', ''nodev'']),
         (''namespace_fields'', jstrs NAMESPACE_FIELDS), (''sealed_injector_script_sha256'', sha_a)]),
      (''sanitization'', LOCK_SANITIZATION),
      (''schema'', JStr ''lmi-p2-d114-injection-policy-lock/v2''), (''tools'', demo_tools)]"

definition demo_output :: json where
  "demo_output = JObj
     [(''filesystem_delta_sha256'', sha_a), (''geometry_sha256'', sha_a), (''installed_db_sha256'', sha_a),
      (''key_inventory_sha256'', sha_a), (''mode'', JStr ''0640''), (''owner'', JStr ''0:1000''), (''p2_package_record_sha256'', sha_a),
      (''packages'', JArr []), (''path'', JStr ''rootfs.ext4''), (''scripts_db_sha256'', sha_a), (''sha256'', sha_a),
      (''sixrow_package_record_sha256'', sha_a), (''size'', JInt 4096), (''triggers_sha256'', sha_a),
      (''uuid'', JStr (p2_uuid small_policy)), (''world_sha256'', sha_a)]"

definition demo_normalization :: json where
  "demo_normalization = JObj
     [(''all_free_blocks_zero'', JBool True), (''allocated_only_command'', jstrs [''e2image'', ''-r'', ''-a'', ''-p'']),
      (''inactive_journal'', JObj
         [(''block_count'', JInt 16383), (''first_block'', JInt 327681),
          (''sha256'', JStr ''40b4947fd669bcb849e47705c797e2484a4d406a596017fa889987d2614008b3'')]),
      (''journal_extent'', JObj [(''block_count'', JInt 16384), (''first_block'', JInt 327680)]),
      (''pre_normalization_sha256'', sha_a), (''proof'', JStr ''second-e2image-byte-identical''), (''proof_sha256'', sha_a),
      (''reviewed_freed_blocks'', JArr []), (''sparse_st_blocks'', JInt 1), (''tree_identity_sha256'', sha_a)]"

definition demo_runtime :: json where
  "demo_runtime = JObj
     [(''injector_runtime_lock_schema'', JStr ''v1''), (''injector_runtime_lock_sha256'', sha_a),
      (''kernel_release'', JStr ''6.8.0-1''),
      (''mount_loop'', JObj [(''backing_identity'', JStr ''7:12''), (''block_identity'', JStr ''7:0:3''),
         (''mount_options'', JStr ''ext4 rw,nosuid,nodev'')]),
      (''namespaces'', JObj (map (\<lambda>k. (k, JStr (k @ '':[4026531840]''))) NAMESPACE_FIELDS)),
      (''proc_version_sha256'', sha_a), (''sandbox_entry_sha256'', sha_a), (''sealed_script_sha256'', sha_a)]"

definition demo_att_value :: dict where
  "demo_att_value =
     [(''claims'', LOCK_CLAIMS), (''commands'', demo_commands), (''input'', demo_input),
      (''normalization'', demo_normalization), (''output'', demo_output), (''runtime'', demo_runtime),
      (''sanitization'', LOCK_SANITIZATION), (''schema'', JStr ''lmi-p2-d114-rootfs-injection-attestation/v3''),
      (''tools'', demo_tools)]"

fun keys_sorted :: "json \<Rightarrow> bool" where
  "keys_sorted (JObj d) \<longleftrightarrow> sorted (map fst d) \<and> (\<forall>kv \<in> set d. keys_sorted (snd kv))"
| "keys_sorted (JArr xs) \<longleftrightarrow> (\<forall>x \<in> set xs. keys_sorted x)"
| "keys_sorted v \<longleftrightarrow> True"

lemma sort_keys_id: "keys_sorted v \<Longrightarrow> sort_keys v = v"
proof (induction v rule: keys_sorted.induct)
  case (1 d)
  then have "map (\<lambda>kv. (fst kv, sort_keys (snd kv))) d = d" by (intro map_idI) (simp add: prod_eq_iff)
  with 1 show ?case by (simp add: sort_key_id_if_sorted)
next
  case (2 xs)
  then show ?case by (simp add: map_idI)
qed simp_all

lemma demo_sorted_parts:
  "keys_sorted LOCK_CLAIMS" "keys_sorted demo_commands" "keys_sorted demo_input" "keys_sorted LOCK_SANITIZATION"
  "keys_sorted demo_output" "keys_sorted demo_normalization" "keys_sorted demo_tools" "keys_sorted demo_runtime"
  by (simp_all add: LOCK_CLAIMS_def demo_commands_def demo_input_def demo_lock_apk_def sha_a_def less_list_code less_char_def
      LOCK_SANITIZATION_def demo_output_def demo_normalization_def demo_tools_def INJECTION_TOOL_FIELDS_def demo_runtime_def
      NAMESPACE_FIELDS_def)

lemma demo_sorted: "sort_keys (JObj demo_att_value) = JObj demo_att_value"
proof (rule sort_keys_id)
  have "sorted (map fst demo_att_value)" by (simp add: demo_att_value_def less_list_code less_char_def)
  moreover have "\<forall>kv \<in> set demo_att_value. keys_sorted (snd kv)"
    using demo_sorted_parts by (simp add: demo_att_value_def)
  ultimately show "keys_sorted (JObj demo_att_value)" by simp
qed

lemma sha_a_valid: "valid_sha256 sha_a"
  by (simp add: valid_sha256_def sha_a_def is_sha256_hex_def is_lower_hex_def ord_def list_all_iff numeral_eq_Suc)

lemma demo_lock_ok: "check_injection_policy demo_lock_value = Inr ()"
proof -
  note names = INJECTION_INPUT_FIELDS_def INJECTION_OUTPUT_FIXED_FIELDS_def INJECTION_TOOL_FIELDS_def NAMESPACE_FIELDS_def
    INJECTION_OUTPUT_SHA256_FIELDS_def
  have "check_lock_top demo_lock_value = Inr ()"
    by (simp add: check_lock_top_def same_fields_def demo_lock_value_def insert_commute gate_def)
  moreover have "check_lock_commands demo_commands = Inr ()"
    by (simp add: check_lock_commands_def demo_commands_def obj_with_def same_fields_def nonempty_str_def gate_def)
  moreover have "obj_with demo_input INJECTION_INPUT_FIELDS"
    by (simp add: obj_with_def demo_input_def same_fields_def names)
  moreover have "check_lock_tools demo_tools = Inr ()"
    by (simp add: check_lock_tools_def demo_tools_def obj_with_def same_fields_def sha_a_valid gate_def
        INJECTION_TOOL_FIELDS_def insert_commute)
  moreover have "check_lock_input demo_input = Inr ()"
    by (simp add: check_lock_input_def demo_input_def obj_with_def same_fields_def check_lock_apk_def demo_lock_apk_def
        sha_a_valid gate_def ends_with_def)
  moreover have "check_lock_runtime (fld demo_lock_value ''runtime'') = Inr ()"
    by (simp add: check_lock_runtime_def demo_lock_value_def obj_with_def same_fields_def demo_runtime_fixed_def sha_a_valid
        gate_def py_eq_refl)
  moreover have "check_lock_output (fld demo_lock_value ''output'') = Inr ()"
    by (simp add: check_lock_output_def demo_lock_value_def obj_with_def same_fields_def demo_output_fixed_def names
        gate_def py_eq_refl hashable_def insert_commute)
  moreover have "check_lock_normalization (fld demo_lock_value ''normalization'') = Inr ()"
    by (simp add: check_lock_normalization_def demo_lock_value_def obj_with_def same_fields_def gate_def py_eq_refl
        LOCK_NORMALIZATION_FIXED_def)
  moreover have "py_eq LOCK_CLAIMS LOCK_CLAIMS" "py_eq LOCK_SANITIZATION LOCK_SANITIZATION"
    by (simp_all add: py_eq_refl LOCK_CLAIMS_def LOCK_SANITIZATION_def)
  ultimately show ?thesis
    unfolding check_injection_policy_def
    by (simp add: demo_lock_value_def demo_output_fixed_def demo_runtime_fixed_def sha_a_valid gate_def)
qed

section \<open>What acceptance means\<close>

lemma py_eq_trans: "py_eq a b \<Longrightarrow> py_eq b c \<Longrightarrow> py_eq a c"
  by (simp add: py_eq_def)

lemma assembly_reads_compact:
  assumes "printable h (JObj d)"
  shows "assembly_json_object h (compact h (JObj d) @ [LF]) label = Inr d"
proof -
  have "loads h (compact h (JObj d) @ [LF]) = Inr (JObj d)"
    by (rule loads_text[OF compact_jtext[OF assms(1)] compact_ascii[OF assms(1)]]) (simp add: blanks_def json_ws_def)
  moreover have "is_ascii (compact h (JObj d) @ [LF])" using compact_ascii[OF assms(1)] by simp
  ultimately show ?thesis
    by (simp add: assembly_json_object_def assembly_loads_def ascii_utf8_valid)
qed

lemma policy_lock_Inr:
  assumes "load_injection_policy_lock h payload expected = Inr lock"
  shows "check_injection_policy (lock_value lock) = Inr () \<and> JStr (sha256 h payload) = expected"
  using assms by (auto simp: load_injection_policy_lock_def load_json_input_def res_iff)

lemma policy_values:
  assumes "check_injection_policy v = Inr ()"
  shows "py_eq (fld v ''claims'') LOCK_CLAIMS" "py_eq (fld v ''sanitization'') LOCK_SANITIZATION"
    "fld (obj_val (fld v ''runtime'')) ''mount_required_options'' = jstrs [''rw'', ''nosuid'', ''nodev'']"
  using assms unfolding check_injection_policy_def bindE_Inr_iff gate_Inr check_lock_runtime_def Let_def py_eq_JArr_JStr
  by blast+

lemma attestation_Inr:
  assumes "validate_injection_attestation h gid payload sha p lock = Inr a"
  shows "att_top h payload (att_value a) (lock_value lock) p = Inr () \<and>
     att_output gid (fld (att_value a) ''output'') (obj_val (policy_part (lock_value lock) ''output'' ''fixed'')) p sha = Inr () \<and>
     att_normalization (fld (att_value a) ''normalization'') (obj_val (fld (lock_value lock) ''normalization''))
       (fld (obj_val (fld (att_value a) ''output'')) ''sha256'') p = Inr () \<and>
     att_runtime (fld (att_value a) ''runtime'') (obj_val (fld (lock_value lock) ''runtime'')) = Inr () \<and>
     att_payload a = payload \<and> att_sha256 a = sha256 h payload"
  using assms unfolding validate_injection_attestation_def Let_def bindE_Inr_iff by (elim exE conjE) auto

lemma fld_in: "fld d k = JStr s \<Longrightarrow> (k, JStr s) \<in> set d"
  by (auto simp: fld_def map_of_SomeD split: option.splits)

text \<open>C26: an attestation that is accepted under a loaded policy lock is the canonical text of
  itself, is bound to the very bytes of the P2 image (the digest stands in its output and in
  its normalization proof) and to the file system UUID, repeats the lock's claims (hardware
  test only, no production, no release) and its sanitization, and was made on a mount that is
  writable without set-user-ID programs and devices.\<close>

theorem attestation_binds:
  assumes "load_injection_policy_lock h lock_bytes expected = Inr lock"
    and "validate_injection_attestation h gid payload sha p lock = Inr a"
  shows "payload = assembly_canonical_json h (att_value a) \<and>
     policy_part (att_value a) ''output'' ''sha256'' = JStr sha \<and>
     policy_part (att_value a) ''normalization'' ''proof_sha256'' = JStr sha \<and>
     policy_part (att_value a) ''output'' ''uuid'' = JStr (p2_uuid p) \<and>
     py_eq (fld (att_value a) ''claims'') LOCK_CLAIMS \<and>
     py_eq (fld (att_value a) ''sanitization'') LOCK_SANITIZATION \<and>
     (\<exists>opts. policy_part (att_value a) ''runtime'' ''mount_loop'' \<noteq> JNull \<and>
        set [''rw'', ''nosuid'', ''nodev''] \<subseteq> set opts \<and> set [''ro'', ''suid'', ''dev''] \<inter> set opts = {} \<and>
        fld (obj_val (policy_part (att_value a) ''runtime'' ''mount_loop'')) ''mount_options'' =
          JStr (''ext4 '' @ join_with '','' opts))"
proof -
  note lock = policy_values[OF policy_lock_Inr[OF assms(1), THEN conjunct1]] and att = attestation_Inr[OF assms(2)]
  let ?v = "att_value a" and ?e = "lock_value lock"
  let ?out = "fld ?v ''output''" and ?fix = "obj_val (policy_part (lock_value lock) ''output'' ''fixed'')"
  from att have top: "payload = assembly_canonical_json h ?v" "py_eq (fld ?v ''claims'') (fld ?e ''claims'')"
      "py_eq (fld ?v ''sanitization'') (fld ?e ''sanitization'')"
    unfolding att_top_def bindE_Inr_iff gate_Inr iterE_Inr_iff by auto
  from att have out: "\<forall>kv \<in> set ?fix. py_eq (fld (obj_val ?out) (fst kv)) (snd kv)" "fld ?fix ''uuid'' = JStr (p2_uuid p)"
      "fld (obj_val ?out) ''sha256'' = JStr sha"
    unfolding att_output_def Let_def bindE_Inr_iff gate_Inr list_all_iff by blast+
  have uuid: "fld (obj_val ?out) ''uuid'' = JStr (p2_uuid p)" using out(1) fld_in[OF out(2)] by fastforce
  have proof1: "fld (obj_val (fld ?v ''normalization'')) ''proof_sha256'' = JStr sha"
    using att out(3) unfolding att_normalization_def Let_def gate_Inr by simp
  let ?ml = "fld (obj_val (fld ?v ''runtime'')) ''mount_loop''"
  let ?mo = "fld (obj_val ?ml) ''mount_options''"
  have vm: "validate_mount_runtime ?ml (arr_val (fld (obj_val (fld ?e ''runtime'')) ''mount_required_options'')) = Inr ()"
    using att unfolding att_runtime_def Let_def bindE_Inr_iff by blast
  define opts where "opts = split_on (CHR '','') (drop 5 (str_val ?mo))"
  from vm have m: "is_obj ?ml" "is_str ?mo" "prefix ''ext4 '' (str_val ?mo)"
      "\<forall>item \<in> set (map JStr [''rw'', ''nosuid'', ''nodev'']). item \<in> set (map JStr opts)"
      "\<not> list_ex (\<lambda>item. item \<in> set opts) [''ro'', ''suid'', ''dev'']"
    unfolding validate_mount_runtime_def Let_def bindE_Inr_iff gate_Inr obj_with_def list_all_iff opts_def lock(3) arr_val.simps
    by blast+
  have "str_val ?mo = ''ext4 '' @ join_with '','' opts"
    using m(3) join_split_on[of "CHR '',''" "drop 5 (str_val ?mo)"] by (auto simp: opts_def prefix_def)
  then have mo: "?mo = JStr (''ext4 '' @ join_with '','' opts)" using m(2) by (metis is_str_iff str_val.simps(1))
  have "?ml \<noteq> JNull" using m(1) by auto
  moreover have "set [''rw'', ''nosuid'', ''nodev''] \<subseteq> set opts" using m(4) by auto
  moreover have "set [''ro'', ''suid'', ''dev''] \<inter> set opts = {}" using m(5) by simp
  ultimately show ?thesis
    using top(1) out(3) proof1 uuid py_eq_trans[OF top(2) lock(1)] py_eq_trans[OF top(3) lock(2)] mo
    unfolding policy_part_def by blast
qed

definition demo_lock :: json_lock where
  "demo_lock = \<lparr>lock_value = demo_lock_value, lock_sha256 = replicate 64 (CHR ''a'')\<rparr>"

lemma sha_a_utf8: "utf8_valid (replicate 64 (CHR ''a''))"
  by (rule ascii_utf8_valid) (simp add: is_ascii_def list_all_iff ord_def)

lemma small_show: "length (show_nat 4096) \<le> max_digits" "length (show_nat 1) \<le> max_digits"
  "length (show_nat 16383) \<le> max_digits" "length (show_nat 327681) \<le> max_digits" "length (show_nat 16384) \<le> max_digits"
  "length (show_nat 327680) \<le> max_digits"
  by (simp_all add: show_nat.simps max_digits_def)

lemma demo_printable_parts:
  "printable h LOCK_CLAIMS" "printable h demo_commands" "printable h demo_input"
  "printable h LOCK_SANITIZATION" "printable h demo_output" "printable h demo_normalization"
  "printable h demo_tools" "printable h demo_runtime"
  using small_show sha_a_utf8
  by (simp_all add: LOCK_CLAIMS_def demo_commands_def demo_input_def demo_lock_apk_def sha_a_def
      LOCK_SANITIZATION_def demo_output_def demo_normalization_def demo_tools_def INJECTION_TOOL_FIELDS_def demo_runtime_def
      NAMESPACE_FIELDS_def small_policy_def ascii_utf8_valid is_ascii_def ord_def)

lemma demo_att_printable: "printable h (JObj demo_att_value)" "printable h (JObj demo_lock_value)"
proof -
  show "printable h (JObj demo_att_value)"
    using demo_printable_parts
    by (simp add: demo_att_value_def ascii_utf8_valid is_ascii_def ord_def)
  have "printable h (fld demo_lock_value ''normalization'')" "printable h (fld demo_lock_value ''output'')"
    "printable h (fld demo_lock_value ''runtime'')"
    using small_show sha_a_utf8
    by (simp_all add: demo_lock_value_def LOCK_NORMALIZATION_FIXED_def demo_output_fixed_def INJECTION_OUTPUT_SHA256_FIELDS_def
        demo_runtime_fixed_def NAMESPACE_FIELDS_def sha_a_def small_policy_def ascii_utf8_valid is_ascii_def ord_def)
  then show "printable h (JObj demo_lock_value)"
    using demo_printable_parts by (simp add: demo_lock_value_def ascii_utf8_valid is_ascii_def ord_def)
qed

definition demo_lock_bytes :: "host \<Rightarrow> bytes" where
  "demo_lock_bytes h = compact h (JObj demo_lock_value) @ [LF]"

lemma demo_lock_loads:
  "JStr (sha256 h (demo_lock_bytes h)) = sha_a \<Longrightarrow> load_injection_policy_lock h (demo_lock_bytes h) sha_a = Inr demo_lock"
  using assembly_reads_compact[OF demo_att_printable(2)] demo_lock_ok sha_a_valid
  by (simp add: load_injection_policy_lock_def load_json_input_def demo_lock_bytes_def demo_lock_def gate_def)
    (simp add: sha_a_def)

definition demo_attestation :: "host \<Rightarrow> bytes" where
  "demo_attestation h = assembly_canonical_json h demo_att_value"

lemma demo_attestation_reads: "assembly_json_object h (demo_attestation h) label = Inr demo_att_value"
  using assembly_reads_compact[OF demo_att_printable(1)]
  by (simp only: demo_attestation_def assembly_canonical_json_def canonical_def demo_sorted)

lemma demo_namespaces:
  "k \<in> set NAMESPACE_FIELDS \<Longrightarrow> namespace_identity k (k @ '':[4026531840]'')"
  by (auto simp: namespace_identity_def NAMESPACE_FIELDS_def positive_decimal_def is_digit_def ord_def)

lemma demo_att_parts:
  "att_top h (demo_attestation h) demo_att_value demo_lock_value small_policy = Inr ()"
  "att_output 1000 demo_output demo_output_fixed small_policy (replicate 64 (CHR ''a'')) = Inr ()"
  "att_normalization demo_normalization (obj_val (fld demo_lock_value ''normalization'')) sha_a small_policy = Inr ()"
  "att_runtime demo_runtime (obj_val (fld demo_lock_value ''runtime'')) = Inr ()"
proof -
  have refl: "py_eq LOCK_CLAIMS LOCK_CLAIMS" "py_eq demo_commands demo_commands" "py_eq demo_input demo_input"
    "py_eq LOCK_SANITIZATION LOCK_SANITIZATION" "py_eq demo_tools demo_tools"
    by (simp_all add: py_eq_refl LOCK_CLAIMS_def demo_commands_def demo_input_def LOCK_SANITIZATION_def demo_tools_def)
  have sz: "py_eq (policy_part demo_lock_value ''input'' ''candidate_size'') (jnum (p2_size small_policy))"
    "policy_part demo_lock_value ''input'' ''candidate_uuid'' = JStr (p2_uuid small_policy)"
    by (simp_all add: policy_part_def demo_lock_value_def demo_input_def small_policy_def jnum_def py_eq_refl)
  show "att_top h (demo_attestation h) demo_att_value demo_lock_value small_policy = Inr ()"
    unfolding att_top_def using refl sz
    by (simp add: demo_attestation_def) (simp add: same_fields_def demo_att_value_def demo_lock_value_def gate_def insert_commute)
  have gid: "show_nat 1000 = ''1000''" by code_simp
  show "att_output 1000 demo_output demo_output_fixed small_policy (replicate 64 (CHR ''a'')) = Inr ()"
    using gid sha_a_valid
    by (simp add: att_output_def Let_def demo_output_def demo_output_fixed_def obj_with_def same_fields_def small_policy_def
        jnum_def py_eq_refl INJECTION_OUTPUT_FIXED_FIELDS_def INJECTION_OUTPUT_SHA256_FIELDS_def
        INJECTION_OUTPUT_CALLER_FIELDS_def insert_commute gate_def)
      (simp add: sha_a_def py_eq_refl)
  show "att_normalization demo_normalization (obj_val (fld demo_lock_value ''normalization'')) sha_a small_policy = Inr ()"
    using sha_a_valid
    by (simp add: att_normalization_def Let_def demo_normalization_def demo_lock_value_def LOCK_NORMALIZATION_FIXED_def
        same_fields_def small_policy_def py_eq_refl positive_int_def insert_commute gate_def)
      (simp add: sha_a_def)
  have k: "kernel_release ''6.8.0-1''" "validate_mount_runtime (JObj [(''backing_identity'', JStr ''7:12''),
      (''block_identity'', JStr ''7:0:3''), (''mount_options'', JStr ''ext4 rw,nosuid,nodev'')])
      [JStr ''rw'', JStr ''nosuid'', JStr ''nodev''] = Inr ()" by code_simp+
  show "att_runtime demo_runtime (obj_val (fld demo_lock_value ''runtime'')) = Inr ()"
    using k sha_a_valid demo_namespaces[of "''ipc''"] demo_namespaces[of "''mnt''"] demo_namespaces[of "''net''"]
      demo_namespaces[of "''pid''"] demo_namespaces[of "''uts''"]
    by (simp add: att_runtime_def Let_def demo_runtime_def demo_lock_value_def obj_with_def same_fields_def
        demo_runtime_fixed_def insert_commute gate_def comp_def NAMESPACE_FIELDS_def)
      (simp add: sha_a_def)
qed

lemma demo_attestation_ok:
  "validate_injection_attestation h 1000 (demo_attestation h) (replicate 64 (CHR ''a'')) small_policy demo_lock =
     Inr \<lparr>att_value = demo_att_value, att_payload = demo_attestation h, att_sha256 = sha256 h (demo_attestation h)\<rparr>"
  using demo_att_parts
  by (simp add: validate_injection_attestation_def demo_lock_def demo_attestation_reads policy_part_def)
    (simp add: demo_att_value_def demo_lock_value_def demo_output_def)

theorem attestation_binds_witness:
  "policy_part demo_att_value ''output'' ''sha256'' = JStr (replicate 64 (CHR ''a''))"
proof -
  have "JStr (sha256 image_host (demo_lock_bytes image_host)) = sha_a" by (simp add: image_host_def sha_a_def)
  from attestation_binds[OF demo_lock_loads[OF this] demo_attestation_ok] show ?thesis by simp
qed

end
