(* ===== verification/StageFs.thy ===== *)
theory StageFs
  imports RepoFs Injection "HOL-Library.AList"
begin

text \<open>
  The files the userdata assembler works on: an association list from absolute paths to nodes,
  steps that may fail or be killed at each system call, and the held files and directories
  (\<open>StableFile\<close>, \<open>StableDirectory\<close>) that are compared with what they were when they were opened
  (\<open>assemble_userdata_image.py\<close>).

  A path is looked up as it is written; one that leads through a link is not found, where the
  code finds the file and then refuses the path because it is not canonical.
\<close>

section \<open>Steps\<close>

type_synonym store = "(path \<times> node) list"

record stage =
  store :: store
  stage_faults :: "fault list"
  stage_clock :: nat

text \<open>A user may keep more beside the files.\<close>

type_synonym ('z, 'a) stage_step = "'z stage_scheme \<Rightarrow> 'a result \<times> 'z stage_scheme"
type_synonym 'a step = "(unit, 'a) stage_step"

definition retS :: "'a \<Rightarrow> ('z, 'a) stage_step" where
  "retS x = (\<lambda>w. (Inr x, w))"

definition liftS :: "'a result \<Rightarrow> ('z, 'a) stage_step" where
  "liftS r = (\<lambda>w. (r, w))"

definition readS :: "(store \<Rightarrow> 'a result) \<Rightarrow> ('z, 'a) stage_step" where
  "readS q = (\<lambda>w. (q (store w), w))"

definition bindS :: "('z, 'a) stage_step \<Rightarrow> ('a \<Rightarrow> ('z, 'b) stage_step) \<Rightarrow> ('z, 'b) stage_step" where
  "bindS m f = (\<lambda>w. case m w of (Inl e, w') \<Rightarrow> (Inl e, w') | (Inr x, w') \<Rightarrow> f x w')"

definition as_assembly_error :: "string \<Rightarrow> ('z, 'a) stage_step \<Rightarrow> ('z, 'a) stage_step" where
  "as_assembly_error why m = (\<lambda>w. case m w of
       (Inl PyOSError, w') \<Rightarrow> (Inl (AssemblyError why), w')
     | (Inl PyFileExistsError, w') \<Rightarrow> (Inl (AssemblyError why), w')
     | r \<Rightarrow> r)"

text \<open>\<open>try: m finally: cleanup\<close>, where the cleanup of a success has nothing to do.  A killed process
  runs neither.\<close>

definition finallyS ::
  "('z, 'a) stage_step \<Rightarrow> ('z stage_scheme \<Rightarrow> ('z, unit) stage_step) \<Rightarrow> ('z, 'a) stage_step" where
  "finallyS m cleanup = (\<lambda>w. case m w of
       (Inl ProcessKilled, w') \<Rightarrow> (Inl ProcessKilled, w')
     | (Inl e, w') \<Rightarrow> (case cleanup w' w' of (Inl e', w'') \<Rightarrow> (Inl e', w'') | (Inr _, w'') \<Rightarrow> (Inl e, w''))
     | (Inr x, w') \<Rightarrow> (Inr x, w'))"

named_theorems step_iff \<open>what a successful step implies\<close>

lemma bindS_Inr [step_iff]: "bindS m f w = (Inr y, w') \<longleftrightarrow> (\<exists>x w1. m w = (Inr x, w1) \<and> f x w1 = (Inr y, w'))"
  by (auto simp: bindS_def split: prod.splits sum.splits)

lemma readS_Inr [step_iff]: "readS q w = (Inr y, w') \<longleftrightarrow> q (store w) = Inr y \<and> w' = w"
  by (auto simp: readS_def)

lemma liftS_Inr [step_iff]: "liftS r w = (Inr y, w') \<longleftrightarrow> r = Inr y \<and> w' = w"
  by (auto simp: liftS_def)

lemma retS_Inr [step_iff]: "retS x w = (Inr y, w') \<longleftrightarrow> y = x \<and> w' = w"
  by (auto simp: retS_def)

lemma as_assembly_error_Inr [step_iff]: "as_assembly_error why m w = (Inr y, w') \<longleftrightarrow> m w = (Inr y, w')"
  by (auto simp: as_assembly_error_def split: prod.splits sum.splits exc.splits)

text \<open>One system call.\<close>

definition callS :: "(nat \<Rightarrow> store \<Rightarrow> store) \<Rightarrow> ('z, unit) stage_step" where
  "callS g = (\<lambda>w. case stage_faults w of
       [] \<Rightarrow> (Inr (), w\<lparr>store := g (stage_clock w) (store w), stage_clock := stage_clock w + 1\<rparr>)
     | Fine # fs \<Rightarrow> (Inr (), w\<lparr>store := g (stage_clock w) (store w), stage_clock := stage_clock w + 1, stage_faults := fs\<rparr>)
     | Fail _ # fs \<Rightarrow> (Inl PyOSError, w\<lparr>stage_faults := fs\<rparr>)
     | Kill _ # fs \<Rightarrow> (Inl ProcessKilled, w\<lparr>stage_faults := fs\<rparr>))"

lemma callS_Inr:
  "callS g w = (Inr u, w') \<Longrightarrow> store w' = g (stage_clock w) (store w)"
  by (auto simp: callS_def split: list.splits fault.splits)

section \<open>The store\<close>

definition find :: "store \<Rightarrow> path \<Rightarrow> node option" where
  "find s p = map_of s p"

definition listdir :: "store \<Rightarrow> path \<Rightarrow> string list" where
  "listdir s p = remdups (map (\<lambda>e. last (fst e)) (filter (\<lambda>e. fst e \<noteq> [] \<and> butlast (fst e) = p) s))"

definition is_dir :: "store \<Rightarrow> path \<Rightarrow> bool" where
  "is_dir s p \<longleftrightarrow> (case find s p of Some n \<Rightarrow> st_type (st n) = F_DIR | None \<Rightarrow> False)"

text \<open>\<open>is_file() and not is_symlink()\<close>\<close>

definition is_regular :: "store \<Rightarrow> path \<Rightarrow> bool" where
  "is_regular s p \<longleftrightarrow> (case find s p of Some n \<Rightarrow> st_type (st n) = F_REG | None \<Rightarrow> False)"

text \<open>A new entry, or one less, is a change of the directory that holds it.\<close>

definition touch :: "nat \<Rightarrow> (nat \<Rightarrow> nat) \<Rightarrow> path \<Rightarrow> store \<Rightarrow> store" where
  "touch now links p s = (case find s p of
       None \<Rightarrow> s
     | Some n \<Rightarrow> AList.update p (n\<lparr>st := (st n)\<lparr>st_nlink := links (st_nlink (st n)), st_mtime := now, st_ctime := now\<rparr>\<rparr>) s)"

definition add_entry :: "host \<Rightarrow> path \<Rightarrow> ftype \<Rightarrow> nat \<Rightarrow> nat \<Rightarrow> store \<Rightarrow> store" where
  "add_entry h p ty perm now s =
     AList.update p (new_node h ty perm now) (touch now (if ty = F_DIR then Suc else id) (butlast p) s)"

text \<open>\<open>os.mkdir\<close>, and \<open>os.open\<close> with \<open>O_CREAT | O_EXCL\<close>, under the umask 077.\<close>

definition createS :: "host \<Rightarrow> path \<Rightarrow> ftype \<Rightarrow> nat \<Rightarrow> ('z, unit) stage_step" where
  "createS h p ty perm = (\<lambda>w.
     if find (store w) p \<noteq> None then (Inl PyFileExistsError, w)
     else if \<not> is_dir (store w) (butlast p) then (Inl PyOSError, w)
     else callS (add_entry h p ty perm) w)"

definition append_at :: "path \<Rightarrow> bytes \<Rightarrow> nat \<Rightarrow> store \<Rightarrow> store" where
  "append_at p data now s = (case find s p of
       None \<Rightarrow> s
     | Some n \<Rightarrow> AList.update p (append_node data now n) s)"

text \<open>Writing a payload; when a call fails a prefix of it may be there.\<close>

definition fillS :: "path \<Rightarrow> bytes \<Rightarrow> ('z, unit) stage_step" where
  "fillS p data = (\<lambda>w.
     (let part = (\<lambda>k fs. w\<lparr>store := append_at p (take k data) (stage_clock w) (store w),
                              stage_clock := stage_clock w + 1, stage_faults := fs\<rparr>) in
      case stage_faults w of
        Fail k # fs \<Rightarrow> (Inl PyOSError, part k fs)
      | Kill k # fs \<Rightarrow> (Inl ProcessKilled, part k fs)
      | _ \<Rightarrow> callS (append_at p data) w))"

lemma fillS_Inr:
  "fillS p data w = (Inr u, w') \<Longrightarrow> store w' = append_at p data (stage_clock w) (store w)"
  by (auto simp: fillS_def Let_def callS_def split: list.splits fault.splits)

definition chmod_at :: "path \<Rightarrow> nat \<Rightarrow> nat \<Rightarrow> store \<Rightarrow> store" where
  "chmod_at p perm now s = (case find s p of
       None \<Rightarrow> s
     | Some n \<Rightarrow> AList.update p (n\<lparr>st := (st n)\<lparr>st_perm := perm, st_ctime := now\<rparr>\<rparr>) s)"

definition chmodS :: "path \<Rightarrow> nat \<Rightarrow> ('z, unit) stage_step" where
  "chmodS p perm = callS (chmod_at p perm)"

definition syncS :: "('z, unit) stage_step" where
  "syncS = callS (\<lambda>_ s. s)"

definition remove_at :: "path \<Rightarrow> (nat \<Rightarrow> nat) \<Rightarrow> nat \<Rightarrow> store \<Rightarrow> store" where
  "remove_at p links now s = AList.delete p (touch now links (butlast p) s)"

definition unlinkS :: "path \<Rightarrow> ('z, unit) stage_step" where
  "unlinkS p = (\<lambda>w. if find (store w) p = None then (Inl PyOSError, w) else callS (remove_at p id) w)"

definition below :: "path \<Rightarrow> path \<Rightarrow> bool" where
  "below p q \<longleftrightarrow> prefix p q"

text \<open>
  \<open>renameat2\<close> with \<open>RENAME_NOREPLACE\<close> of a directory with all it holds, \<open>rmdir\<close>, \<open>rmtree\<close>.
  Nothing is below a destination that is not there.
\<close>

definition move_tree :: "path \<Rightarrow> path \<Rightarrow> nat \<Rightarrow> store \<Rightarrow> store" where
  "move_tree src dst now s = map (\<lambda>e. if below src (fst e) then (dst @ drop (length src) (fst e), snd e) else e)
     (filter (\<lambda>e. below src (fst e) \<or> \<not> below dst (fst e))
       (touch now (\<lambda>n. n - 1) (butlast src) (touch now Suc (butlast dst) s)))"

definition rmdirS :: "path \<Rightarrow> ('z, unit) stage_step" where
  "rmdirS p = (\<lambda>w. if \<not> is_dir (store w) p \<or> listdir (store w) p \<noteq> [] then (Inl PyOSError, w)
     else callS (remove_at p (\<lambda>n. n - 1)) w)"

definition remove_tree :: "path \<Rightarrow> nat \<Rightarrow> store \<Rightarrow> store" where
  "remove_tree p now s = filter (\<lambda>e. \<not> below p (fst e)) (touch now (\<lambda>n. n - 1) (butlast p) s)"

definition rmtreeS :: "path \<Rightarrow> ('z, unit) stage_step" where
  "rmtreeS p = callS (remove_tree p)"

section \<open>Held files and directories\<close>

text \<open>\<open>_identity\<close>\<close>

definition identity :: "stat_result \<Rightarrow> nat \<times> nat \<times> (ftype \<times> nat) \<times> nat \<times> nat \<times> nat \<times> nat" where
  "identity s = (st_dev s, st_ino s, (st_type s, st_perm s), st_nlink s, st_size s, st_mtime s, st_ctime s)"

record held =
  held_path :: path
  held_stat :: stat_result
  held_data :: bytes

text \<open>\<open>StableFile.__enter__\<close>; no other process runs between the two calls.\<close>

definition open_file :: "path \<Rightarrow> string \<Rightarrow> nat option \<Rightarrow> store \<Rightarrow> held result" where
  "open_file p label expected_size s = (case find s p of
       None \<Rightarrow> Inl (AssemblyError (''could not securely open '' @ label))
     | Some n \<Rightarrow>
         bindE (gate (st_type (st n) \<noteq> F_LNK) (''could not securely open '' @ label)) (\<lambda>_.
         bindE (gate (st_type (st n) = F_REG \<and> st_nlink (st n) = 1)
                  (label @ '' must be one stable regular non-symlink inode'')) (\<lambda>_.
         bindE (gate (case expected_size of None \<Rightarrow> True | Some k \<Rightarrow> st_size (st n) = k) (label @ '' size mismatch'')) (\<lambda>_.
         Inr \<lparr>held_path = p, held_stat = st n, held_data = contents n\<rparr>))))"

definition open_dir :: "path \<Rightarrow> string \<Rightarrow> store \<Rightarrow> held result" where
  "open_dir p label s = (case find s p of
       None \<Rightarrow> Inl (AssemblyError (''could not securely open '' @ label))
     | Some n \<Rightarrow>
         bindE (gate (st_type (st n) = F_DIR) (label @ '' must be one stable real directory inode'')) (\<lambda>_.
         Inr \<lparr>held_path = p, held_stat = st n, held_data = []\<rparr>))"

text \<open>
  \<open>verify_unchanged\<close>.  When the entry at the path is the inode that was opened, the two calls
  of \<open>stat\<close> see the same; when it is another one, the code refuses whatever the descriptor says.
\<close>

definition unchanged :: "held \<Rightarrow> store \<Rightarrow> unit result" where
  "unchanged f s = (case find s (held_path f) of
       None \<Rightarrow> Inl (AssemblyError ''could not restat a held file'')
     | Some n \<Rightarrow> gate (identity (st n) = identity (held_stat f)) ''a held file changed while it was in use'')"

text \<open>\<open>with StableFile(...) as f: body\<close>\<close>

definition with_held :: "(store \<Rightarrow> held result) \<Rightarrow> (held \<Rightarrow> ('z, 'a) stage_step) \<Rightarrow> ('z, 'a) stage_step" where
  "with_held opening body =
     bindS (readS opening) (\<lambda>f. bindS (body f) (\<lambda>r. bindS (readS (unchanged f)) (\<lambda>_. retS r)))"

lemma open_file_Inr:
  "open_file p label k s = Inr f \<Longrightarrow> \<exists>n. find s p = Some n \<and> f = \<lparr>held_path = p, held_stat = st n, held_data = contents n\<rparr> \<and>
     st_type (st n) = F_REG"
  by (auto simp: open_file_def res_iff split: option.splits)

lemma with_held_Inr:
  "with_held opening body w = (Inr r, w') \<Longrightarrow>
     \<exists>f. opening (store w) = Inr f \<and> body f w = (Inr r, w') \<and> unchanged f (store w') = Inr ()"
  by (auto simp: with_held_def step_iff)

section \<open>Paths\<close>

text \<open>A \<open>pathlib.Path\<close>: whether it starts with one slash, and its parts.\<close>

record pypath =
  p_abs :: bool
  p_parts :: path

definition path_of_text :: "string \<Rightarrow> pypath" where
  "path_of_text s = \<lparr>p_abs = prefix ''/'' s \<and> (prefix ''//'' s \<longrightarrow> prefix ''///'' s),
     p_parts = filter (\<lambda>c. c \<noteq> [] \<and> c \<noteq> ''.'') (split_on (CHR ''/'') s)\<rparr>"

text \<open>\<open>p.resolve(strict=True) == p\<close>\<close>

definition canonical_path :: "store \<Rightarrow> pypath \<Rightarrow> bool" where
  "canonical_path s p \<longleftrightarrow> p_abs p \<and> ''..'' \<notin> set (p_parts p) \<and>
     list_all (\<lambda>i. is_dir s (take i (p_parts p))) [0..<length (p_parts p)] \<and>
     (case find s (p_parts p) of None \<Rightarrow> False | Some n \<Rightarrow> st_type (st n) \<noteq> F_LNK)"

definition path_name :: "pypath \<Rightarrow> string" where
  "path_name p = (if p_parts p = [] then [] else last (p_parts p))"

definition parent_path :: "pypath \<Rightarrow> pypath" where
  "parent_path p = p\<lparr>p_parts := butlast (p_parts p)\<rparr>"

end
