(* ===== verification/Assembler.thy ===== *)
theory Assembler
  imports StageFs Sparse
begin

text \<open>
  The run of the userdata assembler (\<open>assemble_userdata_image\<close>): the checks of the caller and
  of the paths, the held inputs, the staged copy and its verification, the pinned sparse tools,
  the attestation, the sealed bundle and its publication by one rename that replaces nothing.

  The tools are outside the repository: an argument of the environment says for a command and
  the files what the process returned, or that it did not run to its end, and what the files are
  afterwards.  A held file is read as it was when it was opened: when a tool changes it under
  the descriptor, the recheck of the held files refuses the run.
\<close>

definition TEST_FIXTURE_MAX_BYTES :: nat where "TEST_FIXTURE_MAX_BYTES = 67108864"
definition OUTPUT_RAW_NAME :: string where "OUTPUT_RAW_NAME = ''userdata.raw''"
definition OUTPUT_SPARSE_NAME :: string where "OUTPUT_SPARSE_NAME = ''userdata.android-sparse.img''"
definition OUTPUT_ASSEMBLY_ATTESTATION_NAME :: string where
  "OUTPUT_ASSEMBLY_ATTESTATION_NAME = ''assembly-attestation.json''"
definition OUTPUT_INJECTION_ATTESTATION_NAME :: string where
  "OUTPUT_INJECTION_ATTESTATION_NAME = ''injection-attestation.json''"

text \<open>In the order of \<open>sorted\<close>.\<close>

definition OUTPUT_BUNDLE_FILES :: "string list" where
  "OUTPUT_BUNDLE_FILES = [OUTPUT_ASSEMBLY_ATTESTATION_NAME, OUTPUT_INJECTION_ATTESTATION_NAME,
     OUTPUT_SPARSE_NAME, OUTPUT_RAW_NAME]"

section \<open>The pinned tools\<close>

datatype arg = Text string | Fd path

record asm_env =
  e_host :: host
  e_uid :: nat
  e_gid :: nat
  e_exec :: "arg list \<Rightarrow> store \<Rightarrow> nat option \<times> store"
  e_scratch :: string
  e_accepts :: "nat list"

text \<open>Iterating over a JSON value.\<close>

definition json_items :: "json \<Rightarrow> json list result" where
  "json_items v = (case v of JArr xs \<Rightarrow> Inr xs | JObj d \<Rightarrow> Inr (map (\<lambda>kv. JStr (fst kv)) d)
     | JStr s \<Rightarrow> Inr (map JStr (chars s)) | _ \<Rightarrow> Inl PyTypeError)"

definition truthy_json :: "json \<Rightarrow> bool" where
  "truthy_json v = (case v of JNull \<Rightarrow> False | JBool b \<Rightarrow> b | JInt n \<Rightarrow> n \<noteq> 0 | JFloat m k \<Rightarrow> m \<noteq> 0
     | JStr s \<Rightarrow> s \<noteq> [] | JArr xs \<Rightarrow> xs \<noteq> [] | JObj d \<Rightarrow> d \<noteq> [] | _ \<Rightarrow> True)"

type_synonym toolchain = "(string \<times> held) list"

definition open_pinned :: "host \<Rightarrow> store \<Rightarrow> toolchain \<Rightarrow> json \<Rightarrow> toolchain result" where
  "open_pinned h s fs r =
     (let d = obj_val r; path = str_val (fld d ''path''); p = path_of_text path in
      bindE (gate (is_obj r \<and> (same_fields d [''path'', ''sha256'', ''size''] \<or>
                     same_fields d [''dynamic'', ''path'', ''sha256'', ''size'']) \<and>
                   is_str (fld d ''path'') \<and> prefix ''/'' path \<and> positive_int (fld d ''size'') \<and>
                   is_str (fld d ''sha256'') \<and> is_sha256_hex (str_val (fld d ''sha256'')))
               ''sparse tool lock file record is malformed'') (\<lambda>_.
      if find s (p_parts p) = None then Inl PyOSError
      else bindE (gate (canonical_path s p) ''pinned sparse runtime path is not canonical'') (\<lambda>_.
      bindE (open_file (p_parts p) ''pinned sparse runtime'' (Some (nat (int_val (fld d ''size'')))) s) (\<lambda>f.
      bindE (gate (st_perm (held_stat f) AND 18 = 0) ''pinned sparse runtime is group/world writable'') (\<lambda>_.
      bindE (gate (sha256 h (held_data f) = str_val (fld d ''sha256'')) ''pinned sparse runtime SHA256 mismatch'') (\<lambda>_.
      Inr (AList.update path f fs)))))))"

definition toolchain_open :: "host \<Rightarrow> json_lock \<Rightarrow> store \<Rightarrow> toolchain result" where
  "toolchain_open h lock s =
     (let v = lock_value lock in
      bindE (open_pinned h s [] (fld v ''interpreter'')) (\<lambda>fs.
      bindE (json_items (fld v ''libraries'')) (\<lambda>libs.
      bindE (foldE (open_pinned h s) fs libs) (\<lambda>fs.
      foldE (open_pinned h s) fs (map snd (obj_val (fld v ''tools'')))))))"

definition toolchain_unchanged :: "toolchain \<Rightarrow> store \<Rightarrow> unit result" where
  "toolchain_unchanged fs s = iterE (\<lambda>e. unchanged (snd e) s) fs"

text \<open>\<open>str(Path(path).parent)\<close>\<close>

definition parent_text :: "string \<Rightarrow> string" where
  "parent_text path = ''/'' @ join_with ''/'' (butlast (p_parts (path_of_text path)))"

definition tool_command :: "json_lock \<Rightarrow> string \<Rightarrow> arg list \<Rightarrow> arg list result" where
  "tool_command lock tool_name arguments =
     (let v = lock_value lock; tool = obj_val (fld (obj_val (fld v ''tools'')) tool_name);
          proc = (\<lambda>r. Fd (p_parts (path_of_text (str_val (fld r ''path''))))) in
      if map_of tool ''dynamic'' = None then Inl PyKeyError
      else if truthy_json (fld tool ''dynamic'') then
        bindE (json_items (fld v ''libraries'')) (\<lambda>libs.
        let dirs = rev (remdups (rev (map (\<lambda>r. parent_text (str_val (fld (obj_val r) ''path''))) libs))) in
        Inr ([proc (obj_val (fld v ''interpreter'')), Text ''--inhibit-cache'', Text ''--library-path'',
              Text (join_with '':'' dirs), proc tool] @ arguments))
      else Inr (proc tool # arguments))"

definition exec_tool :: "asm_env \<Rightarrow> arg list \<Rightarrow> nat option step" where
  "exec_tool env command = (\<lambda>w.
     let (outcome, s') = e_exec env command (store w) in (Inr outcome, w\<lparr>store := s'\<rparr>))"

definition run_tool :: "asm_env \<Rightarrow> json_lock \<Rightarrow> toolchain \<Rightarrow> string \<Rightarrow> arg list \<Rightarrow> unit step" where
  "run_tool env lock fs tool_name arguments =
     bindS (liftS (tool_command lock tool_name arguments)) (\<lambda>command.
     bindS (exec_tool env command) (\<lambda>outcome.
     bindS (liftS (case outcome of
         None \<Rightarrow> Inl (AssemblyError (tool_name @ '' execution failed''))
       | Some rc \<Rightarrow> Inr rc)) (\<lambda>rc.
     bindS (readS (toolchain_unchanged fs)) (\<lambda>_.
     liftS (gate (rc = 0) (tool_name @ '' exited''))))))"

section \<open>Staging\<close>

definition create_private_file :: "host \<Rightarrow> path \<Rightarrow> unit step" where
  "create_private_file h p = as_assembly_error ''could not create private staging file'' (createS h p F_REG 384)"

definition write_private :: "host \<Rightarrow> path \<Rightarrow> bytes \<Rightarrow> unit step" where
  "write_private h p payload =
     bindS (create_private_file h p) (\<lambda>_.
     bindS (as_assembly_error ''could not write attestation'' (fillS p payload)) (\<lambda>_.
     bindS syncS (\<lambda>_. chmodS p 384)))"

text \<open>\<open>_copy_then_pwrite\<close> into the new file; the loops are those of \<^const>\<open>copy_then_pwrite\<close>.\<close>

definition stage_copy :: "asm_env \<Rightarrow> held \<Rightarrow> held \<Rightarrow> path \<Rightarrow> assembly_policy \<Rightarrow> unit step" where
  "stage_copy env baseline p2 output_path p =
     bindS (create_private_file (e_host env) output_path) (\<lambda>_.
     bindS (liftS (copy_then_pwrite (e_accepts env) (held_data baseline) (held_data p2) p)) (\<lambda>data.
     bindS (as_assembly_error ''could not write the staged image'' (fillS output_path data)) (\<lambda>_.
     bindS syncS (\<lambda>_. chmodS output_path 384))))"

definition fsync_regular :: "path \<Rightarrow> string \<Rightarrow> unit step" where
  "fsync_regular p label =
     bindS (readS (\<lambda>s. case find s p of
         None \<Rightarrow> Inl (AssemblyError (''could not fsync '' @ label))
       | Some n \<Rightarrow> gate (st_type (st n) = F_REG \<and> st_nlink (st n) = 1) (label @ '' is not one regular staging inode''))) (\<lambda>_.
     as_assembly_error (''could not fsync '' @ label) syncS)"

section \<open>Paths and metadata\<close>

definition require_p2_bundle_paths :: "store \<Rightarrow> pypath \<Rightarrow> pypath \<Rightarrow> bool \<Rightarrow> path result" where
  "require_p2_bundle_paths s p2_path attestation_path test_fixture =
     bindE (gate (canonical_path s p2_path \<and> canonical_path s attestation_path)
              ''P2 input bundle paths must be absolute and canonical'') (\<lambda>_.
     bindE (gate (parent_path p2_path = parent_path attestation_path \<and> p2_path \<noteq> attestation_path)
              ''P2 input and attestation must be distinct files in one bundle'') (\<lambda>_.
     bindE (gate (test_fixture \<or> path_name p2_path = ''rootfs.ext4'' \<and> path_name attestation_path = ''attestation.json'')
              ''production P2 bundle filenames do not match the contract'') (\<lambda>_.
     Inr (p_parts (parent_path p2_path)))))"

definition metadata :: "stat_result \<Rightarrow> nat \<times> nat \<times> nat" where
  "metadata s = (st_perm s, st_uid s, st_gid s)"

definition validate_p2_bundle_metadata ::
  "asm_env \<Rightarrow> store \<Rightarrow> held \<Rightarrow> held \<Rightarrow> held \<Rightarrow> bool \<Rightarrow> unit result" where
  "validate_p2_bundle_metadata env s bundle p2 attestation test_fixture =
     (let h = e_host env;
          directory_contract = (if test_fixture then (448, euid h, egid h) else (488, 0, e_gid env));
          file_contract = (if test_fixture then (384, euid h, egid h) else (416, 0, e_gid env)) in
      bindE (gate (set (listdir s (held_path bundle)) = set [last (held_path p2), last (held_path attestation)])
               ''P2 input bundle must contain exactly image and attestation'') (\<lambda>_.
      bindE (gate (metadata (held_stat bundle) = directory_contract)
               ''P2 input bundle directory metadata contract mismatch'') (\<lambda>_.
      iterE (\<lambda>reader. gate (metadata (held_stat reader) = file_contract \<and> st_nlink (held_stat reader) = 1)
               ''metadata contract mismatch'') [p2, attestation])))"

definition require_output_bundle_path :: "store \<Rightarrow> pypath \<Rightarrow> (path \<times> path) result" where
  "require_output_bundle_path s output =
     bindE (gate (canonical_path s (parent_path output)) ''output bundle parent is unavailable'') (\<lambda>_.
     bindE (gate (path_name output \<notin> {[], ''.'', ''..''})
              ''output bundle path must be an absolute canonical direct child'') (\<lambda>_.
     bindE (gate (find s (p_parts output) = None) ''refusing to overwrite output bundle'') (\<lambda>_.
     Inr (p_parts (parent_path output), p_parts output))))"

text \<open>\<open>_directory_path_identity\<close>; the descriptor is that of the path when nobody else runs.\<close>

definition directory_path_identity :: "path \<Rightarrow> store \<Rightarrow> (nat \<times> nat \<times> (ftype \<times> nat) \<times> nat \<times> nat) result" where
  "directory_path_identity p s = (case find s p of
       None \<Rightarrow> Inl (AssemblyError ''could not verify output parent identity'')
     | Some n \<Rightarrow> (let v = st n in
         bindE (gate (st_type v = F_DIR) ''output parent path identity changed'') (\<lambda>_.
         Inr (st_dev v, st_ino v, (st_type v, st_perm v), st_uid v, st_gid v))))"

type_synonym identities = "(string \<times> nat \<times> nat) list"

definition seal_file :: "host \<Rightarrow> path \<Rightarrow> string \<Rightarrow> (string \<times> nat \<times> nat) step" where
  "seal_file h bundle nm =
     bindS (readS (\<lambda>s. case find s (bundle @ [nm]) of
         None \<Rightarrow> Inl PyOSError
       | Some n \<Rightarrow> (let v = st n in
           bindE (gate (st_type v = F_REG \<and> metadata v = (384, euid h, egid h) \<and> st_nlink v = 1)
                    ''staged output file metadata mismatch'') (\<lambda>_.
           Inr (st_dev v, st_ino v))))) (\<lambda>i.
     bindS (fsync_regular (bundle @ [nm]) ''staged file'') (\<lambda>_. retS (nm, i)))"

primrec seal_files :: "host \<Rightarrow> path \<Rightarrow> string list \<Rightarrow> identities step" where
  "seal_files h bundle [] = retS []"
| "seal_files h bundle (nm # nms) =
     bindS (seal_file h bundle nm) (\<lambda>i. bindS (seal_files h bundle nms) (\<lambda>is1. retS (i # is1)))"

definition seal_staged_bundle :: "host \<Rightarrow> path \<Rightarrow> identities step" where
  "seal_staged_bundle h p =
     bindS (readS (\<lambda>s. case find s p of
         None \<Rightarrow> Inl (AssemblyError ''could not inventory staged output bundle'')
       | Some n \<Rightarrow> (let v = st n in
           bindE (gate (st_type v = F_DIR \<and> metadata v = (448, euid h, egid h) \<and> st_nlink v = 2 \<and>
                        set (listdir s p) = set OUTPUT_BUNDLE_FILES)
                    ''staged output bundle metadata/inventory mismatch'') (\<lambda>_.
           Inr (st_dev v, st_ino v))))) (\<lambda>d.
     bindS (seal_files h p OUTPUT_BUNDLE_FILES) (\<lambda>is1.
     bindS syncS (\<lambda>_. retS ((''.'', d) # is1))))"

definition renameat2_noreplace :: "path \<Rightarrow> path \<Rightarrow> unit step" where
  "renameat2_noreplace src dst = (\<lambda>w.
     if find (store w) dst \<noteq> None then (Inl (AssemblyError ''refusing to overwrite output bundle''), w)
     else as_assembly_error ''atomic no-replace bundle publication failed'' (callS (move_tree src dst)) w)"

definition verify_published_bundle :: "path \<Rightarrow> identities \<Rightarrow> store \<Rightarrow> unit result" where
  "verify_published_bundle p identities s = (case find s p of
       None \<Rightarrow> Inl PyOSError
     | Some n \<Rightarrow> (let v = st n in
         bindE (gate (st_type v = F_DIR \<and> map_of identities ''.'' = Some (st_dev v, st_ino v) \<and> st_perm v = 448 \<and>
                      st_nlink v = 2 \<and> set (listdir s p) = set OUTPUT_BUNDLE_FILES)
                  ''published output bundle identity/inventory mismatch'') (\<lambda>_.
         iterE (\<lambda>(nm, identity1). if nm = ''.'' then Inr () else (case find s (p @ [nm]) of
             None \<Rightarrow> Inl PyOSError
           | Some m \<Rightarrow> gate (st_type (st m) = F_REG \<and> (st_dev (st m), st_ino (st m)) = identity1 \<and>
                             st_perm (st m) = 384 \<and> st_nlink (st m) = 1) ''published output identity mismatch''))
           identities)))"

definition assert_byte_identical :: "bytes \<Rightarrow> bytes \<Rightarrow> string \<Rightarrow> unit result" where
  "assert_byte_identical left right label =
     bindE (gate (length left = length right) (label @ '' size mismatch'')) (\<lambda>_.
     compare_ranges left 0 right 0 (length left) label)"

section \<open>The run\<close>

record asm_args =
  baseline_path :: pypath
  p2_path :: pypath
  p2_attestation_path :: pypath
  output_bundle :: pypath
  asm_policy :: assembly_policy
  tool_lock_path :: pypath
  source_lock_path :: pypath
  injection_policy_lock_path :: pypath
  test_only_bundle :: bool
  test_only_sha256 :: "string option"

text \<open>Who may run it, and the pin of the injection policy.\<close>

definition check_caller :: "asm_env \<Rightarrow> asm_args \<Rightarrow> json result" where
  "check_caller env a =
     (let h = e_host env; p = asm_policy a; pin = (case test_only_sha256 a of None \<Rightarrow> JNull | Some s \<Rightarrow> JStr s) in
      bindE (gate (euid h \<noteq> 0) ''refusing to run the userdata assembler with effective uid 0'') (\<lambda>_.
      if test_only_bundle a then
        bindE (gate (p \<noteq> PRODUCTION_POLICY \<and> baseline_size p \<le> TEST_FIXTURE_MAX_BYTES \<and> p2_size p \<le> TEST_FIXTURE_MAX_BYTES)
                 ''test-only input policy is forbidden for production-sized geometry'') (\<lambda>_.
        bindE (gate (valid_sha256 pin) ''test-only injection policy requires an explicit SHA256 pin'') (\<lambda>_.
        Inr pin))
      else
        bindE (gate (e_uid env = euid h \<and> e_gid env = egid h)
                 ''production assembly requires matching real/effective caller credentials'') (\<lambda>_.
        bindE (gate (test_only_sha256 a = None) ''test-only injection policy SHA256 is forbidden in production'') (\<lambda>_.
        Inr (JStr INJECTION_POLICY_LOCK_SHA256)))))"

record locks =
  l_tool :: json_lock
  l_policy :: json_lock
  l_source :: dict

definition read_input :: "pypath \<Rightarrow> string \<Rightarrow> store \<Rightarrow> bytes result" where
  "read_input p label s = bindE (open_file (p_parts p) label None s) (\<lambda>f. bindE (unchanged f s) (\<lambda>_. Inr (held_data f)))"

definition load_locks :: "asm_env \<Rightarrow> asm_args \<Rightarrow> json \<Rightarrow> store \<Rightarrow> locks result" where
  "load_locks env a pin s =
     (let h = e_host env in
      bindE (bindE (read_input (tool_lock_path a) ''sparse tool lock'' s) (load_sparse_tool_lock h)) (\<lambda>tool.
      bindE (gate (valid_sha256 pin) ''injection policy lock expected SHA256 is not frozen'') (\<lambda>_.
      bindE (read_input (injection_policy_lock_path a) ''injection policy lock'' s) (\<lambda>bs.
      bindE (load_injection_policy_lock h bs pin) (\<lambda>pol.
      bindE (bindE (read_input (source_lock_path a) ''D114 source lock'' s) (load_source_contract h)) (\<lambda>src.
      Inr \<lparr>l_tool = tool, l_policy = pol, l_source = src\<rparr>))))))"

text \<open>What a run has established when it writes its attestation.\<close>

record evidence =
  v_locks :: locks
  v_baseline_gpt :: gpt_layout
  v_p2_fs :: json
  v_p2_sha256 :: string
  v_injection :: injection_attestation
  v_raw :: dict
  v_sparse :: dict
  v_expanded :: dict

definition assembly_attestation :: "asm_args \<Rightarrow> evidence \<Rightarrow> dict" where
  "assembly_attestation a v =
     (let p = asm_policy a; raw_sha256 = fld (v_raw v) ''raw_sha256'';
          boot = [(''boot_sha256'', JStr D110_BOOT_SHA256), (''boot_size'', JInt D110_BOOT_SIZE), (''boot_uuid'', JStr D110_BOOT_UUID)] in
      [(''bindings'', JObj
          [(''injection_policy_lock_sha256'', JStr (lock_sha256 (l_policy (v_locks v)))),
           (''p2_injection_attestation_sha256'', JStr (att_sha256 (v_injection v))),
           (''source_lock_sha256'', fld (l_source (v_locks v)) ''sha256''),
           (''sparse_tools_lock_sha256'', JStr (lock_sha256 (l_tool (v_locks v))))]),
       (''compatibility'', JObj
          [(''d110'', JObj (boot @ [(''root_uuid'', JStr (p2_uuid p))])),
           (''d110_boot'', JObj
              [(''required_unchanged'', JBool True), (''sha256'', JStr D110_BOOT_SHA256), (''size'', JInt D110_BOOT_SIZE),
               (''uuid'', JStr D110_BOOT_UUID)]),
           (''d114_source_lock'', JObj (l_source (v_locks v)))]),
       (''geometry'', JObj
          [(''disk_lbas'', jnum (disk_lbas p)), (''logical_sector_size'', jnum SECTOR_SIZE),
           (''p1_lbas'', JArr [jnum (p1_first_lba p), jnum (p1_last_lba p)]),
           (''p2_byte_range'', JArr [jnum (p2_offset p), jnum (p2_end p)]),
           (''p2_lbas'', JArr [jnum (p2_first_lba p), jnum (p2_last_lba p)]),
           (''suffix_bytes'', jnum (suffix_size p))]),
       (''input'', JObj
          [(''baseline'', JObj [(''gpt'', gpt_evidence (v_baseline_gpt v) p), (''sha256'', JStr (baseline_sha256 p)),
              (''size'', jnum (baseline_size p))]),
           (''p2'', JObj
              [(''filesystem'', v_p2_fs v),
               (''injection_attestation'', JObj
                  [(''copied_filename'', JStr OUTPUT_INJECTION_ATTESTATION_NAME),
                   (''schema'', fld (att_value (v_injection v)) ''schema''),
                   (''sha256'', JStr (att_sha256 (v_injection v)))]),
               (''sha256'', JStr (v_p2_sha256 v)), (''size'', jnum (p2_size p)), (''uuid'', JStr (p2_uuid p))])]),
       (''output'', JObj
          [(''bundle'', JObj [(''directory_mode'', JStr ''0700''), (''files'', jstrs OUTPUT_BUNDLE_FILES),
              (''path'', JStr (path_name (output_bundle a)))]),
           (''raw'', JObj [(''filename'', JStr OUTPUT_RAW_NAME), (''path'', JStr OUTPUT_RAW_NAME), (''sha256'', raw_sha256),
              (''size'', jnum (baseline_size p))]),
           (''sparse'', JObj [(''filename'', JStr OUTPUT_SPARSE_NAME), (''logical_size'', jnum (baseline_size p)),
              (''path'', JStr OUTPUT_SPARSE_NAME), (''sha256'', fld (v_sparse v) ''file_sha256''),
              (''size'', fld (v_sparse v) ''file_size'')])]),
       (''schema'', JStr ''lmi-p2-d114-userdata-assembly-attestation/v1''),
       (''status'', JStr ''private-d114-hardware-test-candidate''),
       (''tools'', JObj
          [(''commands'', JArr [jstrs [''img2simg'', ''RAW_FD'', ''SPARSE_STAGE'', ''4096''],
                                jstrs [''simg2img'', ''SPARSE_FD'', ''ROUNDTRIP_RAW_STAGE'']]),
           (''lock_sha256'', JStr (lock_sha256 (l_tool (v_locks v)))),
           (''package'', fld (lock_value (l_tool (v_locks v))) ''package'')]),
       (''verification'', JObj
          [(''expanded'', JObj (v_expanded v)), (''expanded_byte_identical'', JBool True),
           (''gates'', JObj (map (\<lambda>k. (k, JBool True)) [''expanded'', ''geometry'', ''gpt'', ''injection_attestation'',
              ''p2_range'', ''prefix'', ''roundtrip'', ''suffix''])),
           (''raw'', JObj (v_raw v)), (''roundtrip_raw_sha256'', raw_sha256), (''sparse_static'', JObj (v_sparse v))])])"

definition require_regular :: "path \<Rightarrow> string \<Rightarrow> unit step" where
  "require_regular p why = readS (\<lambda>s. gate (is_regular s p) why)"

text \<open>The sparse file is parsed and expanded while it is held.\<close>

definition parse_and_expand ::
  "asm_env \<Rightarrow> asm_args \<Rightarrow> json_lock \<Rightarrow> toolchain \<Rightarrow> string \<Rightarrow> path \<Rightarrow> path \<Rightarrow> dict step" where
  "parse_and_expand env a lock tools raw_sha256 sparse_stage expanded_stage =
     with_held (open_file sparse_stage ''staged sparse'' None) (\<lambda>sparse.
       bindS (liftS (parse_sparse_reader (e_host env) (held_data sparse) (baseline_size (asm_policy a)) raw_sha256)) (\<lambda>report.
       bindS (run_tool env lock tools ''simg2img''
                [Fd (held_path sparse), Text (''/'' @ join_with ''/'' expanded_stage)]) (\<lambda>_.
       retS report)))"

definition compare_expanded ::
  "asm_env \<Rightarrow> asm_args \<Rightarrow> held \<Rightarrow> held \<Rightarrow> held \<Rightarrow> string \<Rightarrow> path \<Rightarrow> dict step" where
  "compare_expanded env a baseline p2 raw raw_sha256 expanded_stage =
     (let h = e_host env; p = asm_policy a in
      bindS (require_regular expanded_stage ''simg2img did not create one regular raw file'') (\<lambda>_.
      bindS (chmodS expanded_stage 384) (\<lambda>_.
      bindS (fsync_regular expanded_stage ''sparse round-trip raw'') (\<lambda>_.
      with_held (open_file expanded_stage ''sparse round-trip raw'' (Some (baseline_size p))) (\<lambda>expanded.
        bindS (liftS (gate (sha256 h (held_data expanded) = raw_sha256) ''sparse round-trip raw SHA256 mismatch'')) (\<lambda>_.
        bindS (liftS (assert_byte_identical (held_data raw) (held_data expanded) ''sparse round-trip cmp'')) (\<lambda>_.
        liftS (verify_composition_readers h (held_data baseline) (held_data p2) (held_data expanded) p True))))))))"

text \<open>The staged image is made sparse, the sparse file parsed, expanded, and the expansion compared.\<close>

definition sparse_round_trip ::
  "asm_env \<Rightarrow> asm_args \<Rightarrow> locks \<Rightarrow> held \<Rightarrow> held \<Rightarrow> held \<Rightarrow> string \<Rightarrow> path \<Rightarrow> path \<Rightarrow> (dict \<times> dict) step" where
  "sparse_round_trip env a locks baseline p2 raw raw_sha256 sparse_stage expanded_stage =
     bindS (readS (toolchain_open (e_host env) (l_tool locks))) (\<lambda>tools.
     bindS (run_tool env (l_tool locks) tools ''img2simg''
              [Fd (held_path raw), Text (''/'' @ join_with ''/'' sparse_stage), Text ''4096'']) (\<lambda>_.
     bindS (require_regular sparse_stage ''img2simg did not create one regular sparse file'') (\<lambda>_.
     bindS (chmodS sparse_stage 384) (\<lambda>_.
     bindS (fsync_regular sparse_stage ''staged sparse'') (\<lambda>_.
     bindS (parse_and_expand env a (l_tool locks) tools raw_sha256 sparse_stage expanded_stage) (\<lambda>report.
     bindS (compare_expanded env a baseline p2 raw raw_sha256 expanded_stage) (\<lambda>expanded_ev.
     bindS (readS (toolchain_unchanged tools)) (\<lambda>_.
     retS (report, expanded_ev)))))))))"

text \<open>The staged image is verified and converted while it is held.\<close>

definition verify_and_convert ::
  "asm_env \<Rightarrow> asm_args \<Rightarrow> locks \<Rightarrow> held \<Rightarrow> held \<Rightarrow> path \<Rightarrow> path \<Rightarrow> path \<Rightarrow> (dict \<times> dict \<times> dict) step" where
  "verify_and_convert env a locks baseline p2 raw_stage sparse_stage expanded_stage =
     with_held (open_file raw_stage ''staged assembled raw'' (Some (baseline_size (asm_policy a)))) (\<lambda>raw.
       bindS (liftS (verify_composition_readers (e_host env) (held_data baseline) (held_data p2) (held_data raw)
                (asm_policy a) True)) (\<lambda>raw_ev.
       bindS (sparse_round_trip env a locks baseline p2 raw (str_val (fld raw_ev ''raw_sha256''))
                sparse_stage expanded_stage) (\<lambda>(report, expanded_ev).
       retS (raw_ev, report, expanded_ev))))"

definition stage_images ::
  "asm_env \<Rightarrow> asm_args \<Rightarrow> locks \<Rightarrow> path \<Rightarrow> held \<Rightarrow> json \<Rightarrow> string \<Rightarrow> injection_attestation \<Rightarrow> held \<Rightarrow> dict step" where
  "stage_images env a locks scratch p2 p2_fs p2_sha256 injection baseline =
     (let h = e_host env; p = asm_policy a; staged_bundle = scratch @ [''publish.bundle''];
          raw_stage = staged_bundle @ [OUTPUT_RAW_NAME]; expanded_stage = scratch @ [''roundtrip.raw''] in
      bindS (liftS (gate (sha256 h (held_data baseline) = baseline_sha256 p) ''baseline raw SHA256 mismatch'')) (\<lambda>_.
      bindS (liftS (validate_gpt (sha256 h) (held_data baseline) p)) (\<lambda>baseline_gpt.
      bindS (stage_copy env baseline p2 raw_stage p) (\<lambda>_.
      bindS (verify_and_convert env a locks baseline p2 raw_stage (staged_bundle @ [OUTPUT_SPARSE_NAME]) expanded_stage)
        (\<lambda>(raw_ev, report, expanded_ev).
      bindS (unlinkS expanded_stage) (\<lambda>_.
      (let attestation = assembly_attestation a
             \<lparr>v_locks = locks, v_baseline_gpt = baseline_gpt, v_p2_fs = p2_fs, v_p2_sha256 = p2_sha256,
              v_injection = injection, v_raw = raw_ev, v_sparse = report, v_expanded = expanded_ev\<rparr> in
       bindS (write_private h (staged_bundle @ [OUTPUT_INJECTION_ATTESTATION_NAME]) (att_payload injection)) (\<lambda>_.
       bindS (write_private h (staged_bundle @ [OUTPUT_ASSEMBLY_ATTESTATION_NAME]) (assembly_canonical_json h attestation)) (\<lambda>_.
       retS attestation)))))))))"

definition publish :: "host \<Rightarrow> path \<Rightarrow> (nat \<times> nat \<times> (ftype \<times> nat) \<times> nat \<times> nat) \<Rightarrow> path \<Rightarrow> path \<Rightarrow> unit step" where
  "publish h output_parent parent_identity scratch output =
     bindS (seal_staged_bundle h (scratch @ [''publish.bundle''])) (\<lambda>identities.
     bindS syncS (\<lambda>_.
     bindS (readS (directory_path_identity output_parent)) (\<lambda>i.
     bindS (liftS (gate (i = parent_identity) ''output parent changed before publication'')) (\<lambda>_.
     bindS (renameat2_noreplace (scratch @ [''publish.bundle'']) output) (\<lambda>_.
     bindS syncS (\<lambda>_.
     bindS (readS (verify_published_bundle output identities)) (\<lambda>_.
     syncS)))))))"

text \<open>The body of the \<open>try\<close> block once the scratch directory exists.\<close>

definition assemble_in ::
  "asm_env \<Rightarrow> asm_args \<Rightarrow> locks \<Rightarrow> path \<Rightarrow> path \<Rightarrow> path \<Rightarrow> (nat \<times> nat \<times> (ftype \<times> nat) \<times> nat \<times> nat) \<Rightarrow> path \<Rightarrow> dict step" where
  "assemble_in env a locks p2_bundle_path output_parent output parent_identity scratch =
     (let h = e_host env; p = asm_policy a; test_fixture = test_only_bundle a in
      bindS (createS h (scratch @ [''publish.bundle'']) F_DIR 448) (\<lambda>_.
      with_held (open_dir p2_bundle_path ''P2 input bundle'') (\<lambda>bundle.
      with_held (open_file (p_parts (p2_path a)) ''P2 input'' (Some (p2_size p))) (\<lambda>p2.
      with_held (open_file (p_parts (p2_attestation_path a)) ''P2 injection attestation'' None) (\<lambda>att.
        bindS (readS (\<lambda>s. validate_p2_bundle_metadata env s bundle p2 att test_fixture)) (\<lambda>_.
        bindS (liftS (validate_p2 (held_data p2) p)) (\<lambda>blocks.
        (let p2_sha256 = sha256 h (held_data p2) in
         bindS (liftS (validate_injection_attestation h (e_gid env) (held_data att) p2_sha256 p (l_policy locks))) (\<lambda>injection.
         bindS (with_held (open_file (p_parts (baseline_path a)) ''baseline raw'' (Some (baseline_size p)))
                  (stage_images env a locks scratch p2 (p2_evidence (held_data p2) blocks) p2_sha256 injection)) (\<lambda>attestation.
         bindS (readS (unchanged att)) (\<lambda>_.
         bindS (readS (unchanged p2)) (\<lambda>_.
         bindS (readS (unchanged bundle)) (\<lambda>_.
         bindS (publish h output_parent parent_identity scratch output) (\<lambda>_.
         retS attestation))))))))))))))"

text \<open>
  The \<open>finally\<close> block removes the scratch directory when it is still the one that was made;
  an error of the removal is raised only when nothing was published.
\<close>

definition cleanup_scratch :: "path \<Rightarrow> nat \<times> nat \<Rightarrow> bool \<Rightarrow> unit step" where
  "cleanup_scratch scratch identity1 published = (\<lambda>w.
     case find (store w) scratch of
       None \<Rightarrow> (Inr (), w)
     | Some n \<Rightarrow>
         if st_type (st n) = F_DIR \<and> (st_dev (st n), st_ino (st n)) = identity1
         then (case rmtreeS scratch w of
             (Inl PyOSError, w') \<Rightarrow> if published then (Inr (), w') else (Inl PyOSError, w')
           | r \<Rightarrow> r)
         else (Inr (), w))"

text \<open>The \<open>try\<close> block from the scratch directory on, with its \<open>finally\<close>.\<close>

definition run_in_scratch ::
  "asm_env \<Rightarrow> asm_args \<Rightarrow> locks \<Rightarrow> path \<Rightarrow> path \<Rightarrow> path \<Rightarrow> (nat \<times> nat \<times> (ftype \<times> nat) \<times> nat \<times> nat) \<Rightarrow>
   path \<Rightarrow> nat \<times> nat \<Rightarrow> dict step" where
  "run_in_scratch env a locks p2_bundle_path output_parent output parent_identity scratch scratch_identity =
     finallyS
       (bindS (readS (directory_path_identity output_parent)) (\<lambda>i.
        bindS (liftS (gate (i = parent_identity) ''output parent changed during scratch creation'')) (\<lambda>_.
        bindS (assemble_in env a locks p2_bundle_path output_parent output parent_identity scratch) (\<lambda>attestation.
        bindS (as_assembly_error ''complete bundle was atomically published, but private scratch cleanup failed''
                 (rmdirS scratch)) (\<lambda>_.
        retS attestation)))))
       (\<lambda>w. cleanup_scratch scratch scratch_identity (find (store w) output \<noteq> None))"

definition assemble_bundle ::
  "asm_env \<Rightarrow> asm_args \<Rightarrow> locks \<Rightarrow> path \<Rightarrow> path \<Rightarrow> path \<Rightarrow> dict step" where
  "assemble_bundle env a locks p2_bundle_path output_parent output =
     (let scratch = output_parent @ [e_scratch env] in
      bindS (readS (\<lambda>s. if is_dir s output_parent then Inr () else Inl PyOSError)) (\<lambda>_.
      bindS (readS (directory_path_identity output_parent)) (\<lambda>parent_identity.
      bindS (createS (e_host env) scratch F_DIR 448) (\<lambda>_.
      bindS (chmodS scratch 448) (\<lambda>_.
      bindS (readS (\<lambda>s. case find s scratch of None \<Rightarrow> Inl PyOSError | Some n \<Rightarrow> Inr (st_dev (st n), st_ino (st n)))) (\<lambda>scratch_identity.
      bindS (run_in_scratch env a locks p2_bundle_path output_parent output parent_identity scratch scratch_identity) (\<lambda>attestation.
      bindS syncS (\<lambda>_.
      retS attestation))))))))"

definition assemble_userdata_image :: "asm_env \<Rightarrow> asm_args \<Rightarrow> dict step" where
  "assemble_userdata_image env a =
     bindS (liftS (check_caller env a)) (\<lambda>pin.
     bindS (readS (\<lambda>s. require_p2_bundle_paths s (p2_path a) (p2_attestation_path a) (test_only_bundle a))) (\<lambda>p2_bundle_path.
     bindS (readS (\<lambda>s. require_output_bundle_path s (output_bundle a))) (\<lambda>paths.
     bindS (liftS (gate (fst paths \<noteq> p2_bundle_path)
              ''output bundle parent must differ from the sealed P2 input bundle'')) (\<lambda>_.
     bindS (readS (load_locks env a pin)) (\<lambda>locks.
     assemble_bundle env a locks p2_bundle_path (fst paths) (snd paths))))))"

text \<open>\<open>main\<close>: the exit status, and the three fields it prints.\<close>

definition assemble_main :: "asm_env \<Rightarrow> asm_args \<Rightarrow> stage \<Rightarrow> ((nat \<times> json list) result) \<times> stage" where
  "assemble_main env a w = (case assemble_userdata_image env a w of
       (Inr d, w') \<Rightarrow> (Inr (0, [policy_part d ''output'' ''raw'', fld d ''schema'', policy_part d ''output'' ''sparse'']), w')
     | (Inl (AssemblyError _), w') \<Rightarrow> (Inr (1, []), w')
     | (Inl PyOSError, w') \<Rightarrow> (Inr (1, []), w')
     | (Inl PyFileExistsError, w') \<Rightarrow> (Inr (1, []), w')
     | (Inl e, w') \<Rightarrow> (Inl e, w'))"

end
