(* ===== verification/StageSpec.thy ===== *)
theory StageSpec
  imports StageFs
begin

text \<open>
  What the steps on the assembler's files may change: lookups after each change of the store,
  the locale of relations that every part of a step keeps, with its interpretations (a path
  that is absent stays absent; the nodes below a path stay; contents stay; a file under a
  descriptor is the same or has a later time of change), and triples with one post-condition
  for results and one for errors.
\<close>

section \<open>Lookups\<close>

lemma find_update [simp]: "find (AList.update p n s) q = (if q = p then Some n else find s q)"
  by (simp add: find_def update_conv')

lemma find_delete [simp]: "find (AList.delete p s) q = (if q = p then None else find s q)"
  by (simp add: find_def delete_conv')

definition touched :: "nat \<Rightarrow> (nat \<Rightarrow> nat) \<Rightarrow> node \<Rightarrow> node" where
  "touched now links n = n\<lparr>st := (st n)\<lparr>st_nlink := links (st_nlink (st n)), st_mtime := now, st_ctime := now\<rparr>\<rparr>"

lemma touched_simps [simp]:
  "contents (touched now l n) = contents n" "st_type (st (touched now l n)) = st_type (st n)"
  by (simp_all add: touched_def)

lemma find_touch [simp]:
  "find (touch now links p s) q = (if q = p then map_option (touched now links) (find s q) else find s q)"
  by (auto simp: touch_def touched_def split: option.splits)

lemma find_add_entry [simp]:
  "find (add_entry h p ty perm now s) q =
     (if q = p then Some (new_node h ty perm now)
      else if q = butlast p then map_option (touched now (if ty = F_DIR then Suc else id)) (find s q)
      else find s q)"
  by (simp add: add_entry_def)

lemma find_append_at [simp]:
  "find (append_at p data now s) q = (if q = p then map_option (append_node data now) (find s q) else find s q)"
  by (auto simp: append_at_def split: option.splits)

lemma find_filter: "find (filter (\<lambda>e. P (fst e)) s) q = (if P q then find s q else None)"
  by (induction s) (auto simp: find_def)

lemma find_move_tree:
  "find (move_tree src dst now s) (dst @ r) =
     find (touch now (\<lambda>n. n - 1) (butlast src) (touch now Suc (butlast dst) s)) (src @ r)"
proof -
  let ?t = "touch now (\<lambda>n. n - 1) (butlast src) (touch now Suc (butlast dst) s)"
  let ?keep = "\<lambda>k. below src k \<or> \<not> below dst k"
  let ?g = "\<lambda>k. if below src k then dst @ drop (length src) k else k"
  have "map_of (map (\<lambda>e. (?g (fst e), snd e)) (filter (\<lambda>e. ?keep (fst e)) t)) (dst @ r) =
      map_of (filter (\<lambda>e. ?keep (fst e)) t) (src @ r)" for t :: store
    by (induction t) (auto simp: below_def prefix_def)
  also have "map_of (filter (\<lambda>e. ?keep (fst e)) t) (src @ r) = find t (src @ r)" for t
    using find_filter[of ?keep t "src @ r"] by (simp add: find_def below_def)
  moreover have "move_tree src dst now s = map (\<lambda>e. (?g (fst e), snd e)) (filter (\<lambda>e. ?keep (fst e)) ?t)"
    by (simp add: move_tree_def if_distrib prod_eq_iff cong: map_cong)
  ultimately show ?thesis by (simp add: find_def)
qed

lemma find_move_other:
  assumes "\<not> below dst q"
  shows "find (move_tree src dst now s) q = (if below src q then None
     else find (touch now (\<lambda>n. n - 1) (butlast src) (touch now Suc (butlast dst) s)) q)"
proof -
  let ?t = "touch now (\<lambda>n. n - 1) (butlast src) (touch now Suc (butlast dst) s)"
  let ?keep = "\<lambda>k. below src k \<or> \<not> below dst k"
  let ?g = "\<lambda>k. if below src k then dst @ drop (length src) k else k"
  have "map_of (map (\<lambda>e. (?g (fst e), snd e)) (filter (\<lambda>e. ?keep (fst e)) t)) q =
      (if below src q then None else map_of t q)" for t :: store
    using assms by (induction t) (auto simp: below_def)
  moreover have "move_tree src dst now s = map (\<lambda>e. (?g (fst e), snd e)) (filter (\<lambda>e. ?keep (fst e)) ?t)"
    by (simp add: move_tree_def if_distrib prod_eq_iff cong: map_cong)
  ultimately show ?thesis by (simp add: find_def)
qed

lemma find_chmod_at [simp]:
  "find (chmod_at p perm now s) q =
     (if q = p then map_option (\<lambda>n. n\<lparr>st := (st n)\<lparr>st_perm := perm, st_ctime := now\<rparr>\<rparr>) (find s q) else find s q)"
  by (auto simp: chmod_at_def split: option.splits)

lemma find_remove_at [simp]:
  "find (remove_at p links now s) q =
     (if q = p then None else if q = butlast p then map_option (touched now links) (find s q) else find s q)"
  by (simp add: remove_at_def)

lemma find_remove_tree [simp]:
  "find (remove_tree p now s) q =
     (if below p q then None else if q = butlast p then map_option (touched now (\<lambda>n. n - 1)) (find s q) else find s q)"
  using find_filter[of "\<lambda>k. \<not> below p k"] by (simp add: remove_tree_def)

lemma set_listdir: "nm \<in> set (listdir s p) \<longleftrightarrow> find s (p @ [nm]) \<noteq> None"
proof -
  have "nm \<in> set (listdir s p) \<longleftrightarrow> (\<exists>e\<in>set s. fst e \<noteq> [] \<and> butlast (fst e) = p \<and> last (fst e) = nm)"
    unfolding listdir_def set_remdups set_map set_filter by blast
  also have "\<dots> \<longleftrightarrow> (\<exists>e\<in>set s. fst e = p @ [nm])"
    by (rule bex_cong[OF refl]) (metis append_butlast_last_id butlast_snoc last_snoc snoc_eq_iff_butlast)
  also have "\<dots> \<longleftrightarrow> find s (p @ [nm]) \<noteq> None"
    unfolding find_def map_of_eq_None_iff image_iff by metis
  finally show ?thesis .
qed

lemma listdir_move_tree:
  assumes "\<And>nm. src @ [nm] \<noteq> butlast dst"
  shows "set (listdir (move_tree src dst now s) dst) = set (listdir s src)"
proof -
  have "src @ [nm] \<noteq> butlast src" for nm by (auto dest: arg_cong[where f = length])
  then show ?thesis using assms by (auto simp: set_listdir find_move_tree)
qed

section \<open>Relations that every step keeps\<close>

definition keeps :: "(store \<Rightarrow> store \<Rightarrow> bool) \<Rightarrow> ('z, 'a) stage_step \<Rightarrow> bool" where
  "keeps R m \<longleftrightarrow> (\<forall>w r w'. m w = (r, w') \<longrightarrow> R (store w) (store w'))"

lemma keepsD: "keeps R m \<Longrightarrow> m w = (r, w') \<Longrightarrow> R (store w) (store w')"
  by (simp add: keeps_def)

locale store_relation =
  fixes R :: "store \<Rightarrow> store \<Rightarrow> bool"
  assumes R_refl: "R s s"
    and R_trans: "R s t \<Longrightarrow> R t u \<Longrightarrow> R s u"
begin

lemma keeps_read: "keeps R (readS q)"
  by (simp add: keeps_def readS_def R_refl)

lemma keeps_lift: "keeps R (liftS r)"
  by (simp add: keeps_def liftS_def R_refl)

lemma keeps_ret: "keeps R (retS x)"
  by (simp add: keeps_def retS_def R_refl)

lemma keeps_bind: "keeps R m \<Longrightarrow> (\<And>x. keeps R (f x)) \<Longrightarrow> keeps R (bindS m f)"
  unfolding keeps_def bindS_def by (auto split: prod.splits sum.splits) (blast intro: R_trans)

lemma keeps_as_error: "keeps R m \<Longrightarrow> keeps R (as_assembly_error why m)"
  unfolding keeps_def as_assembly_error_def by (auto split: prod.splits sum.splits exc.splits)

lemma keeps_call: "(\<And>now s. R s (g now s)) \<Longrightarrow> keeps R (callS g)"
  unfolding keeps_def callS_def by (auto split: list.splits fault.splits intro: R_refl)

lemma keeps_create: "(\<And>now s. find s p = None \<Longrightarrow> R s (add_entry h p ty perm now s)) \<Longrightarrow> keeps R (createS h p ty perm)"
  unfolding keeps_def createS_def callS_def by (auto split: list.splits fault.splits if_splits intro: R_refl)

lemma keeps_fill: "(\<And>bs now s. R s (append_at p bs now s)) \<Longrightarrow> keeps R (fillS p data)"
  unfolding keeps_def fillS_def callS_def by (auto simp: Let_def split: list.splits fault.splits intro: R_refl)

lemma keeps_chmod: "(\<And>now s. R s (chmod_at p perm now s)) \<Longrightarrow> keeps R (chmodS p perm)"
  unfolding chmodS_def by (rule keeps_call)

lemma keeps_sync: "keeps R syncS"
  unfolding syncS_def by (rule keeps_call) (rule R_refl)

lemma keeps_unlink: "(\<And>now s. R s (remove_at p id now s)) \<Longrightarrow> keeps R (unlinkS p)"
  unfolding keeps_def unlinkS_def callS_def by (auto split: list.splits fault.splits if_splits intro: R_refl)

lemma keeps_rmdir: "(\<And>now s. R s (remove_at p (\<lambda>n. n - 1) now s)) \<Longrightarrow> keeps R (rmdirS p)"
  unfolding keeps_def rmdirS_def callS_def by (auto split: list.splits fault.splits if_splits intro: R_refl)

lemma keeps_rmtree: "(\<And>now s. R s (remove_tree p now s)) \<Longrightarrow> keeps R (rmtreeS p)"
  unfolding rmtreeS_def by (rule keeps_call)

lemma keeps_with_held: "(\<And>f. keeps R (body f)) \<Longrightarrow> keeps R (with_held opening body)"
  unfolding with_held_def by (intro keeps_bind keeps_read keeps_ret)

lemma keeps_case: "(\<And>a b. keeps R (f a b)) \<Longrightarrow> keeps R (case x of (a, b) \<Rightarrow> f a b)"
  by (cases x) simp

lemmas keeps_basic = keeps_case keeps_read keeps_lift keeps_ret keeps_bind keeps_as_error keeps_sync keeps_with_held

end

text \<open>A path that is absent stays absent.\<close>

interpretation absent: store_relation "\<lambda>s t. find s q = None \<longrightarrow> find t q = None" for q
  by unfold_locales auto

text \<open>What is at a path stays.\<close>

interpretation same_at: store_relation "\<lambda>s t. find t q = find s q" for q
  by unfold_locales auto

text \<open>A regular file at a path was there before, with the same bytes.\<close>

definition regular_from :: "path \<Rightarrow> store \<Rightarrow> store \<Rightarrow> bool" where
  "regular_from q s t \<longleftrightarrow> (\<forall>n. find t q = Some n \<longrightarrow> st_type (st n) = F_REG \<longrightarrow>
     (\<exists>n'. find s q = Some n' \<and> st_type (st n') = F_REG \<and> contents n' = contents n))"

interpretation regular_from: store_relation "regular_from q" for q
proof unfold_locales
  show "regular_from q s s" for s by (simp add: regular_from_def)
  show "regular_from q s t \<Longrightarrow> regular_from q t u \<Longrightarrow> regular_from q s u" for s t u
    unfolding regular_from_def by metis
qed

text \<open>What is in a directory stays.\<close>

interpretation same_files: store_relation "\<lambda>s t. \<forall>nm. find t (q @ [nm]) = find s (q @ [nm])" for q
  by unfold_locales auto

text \<open>Nothing changes.\<close>

interpretation same_store: store_relation "\<lambda>s t. t = s"
  by unfold_locales auto

text \<open>What is at a path stays or has a later time of change.\<close>

definition later :: "path \<Rightarrow> store \<Rightarrow> store \<Rightarrow> bool" where
  "later q s t \<longleftrightarrow> (\<forall>n. find s q = Some n \<longrightarrow>
     (\<exists>n'. find t q = Some n' \<and> (n' = n \<or> st_ctime (st n) < st_ctime (st n'))))"

interpretation later: store_relation "later q" for q
proof unfold_locales
  show "later q s s" for s by (simp add: later_def)
  show "later q s t \<Longrightarrow> later q t u \<Longrightarrow> later q s u" for s t u
    unfolding later_def by (blast intro: less_trans)
qed

lemma later_unchanged:
  assumes "later (held_path f) s t" "find s (held_path f) = Some n" "held_stat f = st n" "unchanged f t = Inr ()"
  shows "find t (held_path f) = Some n"
proof -
  from assms(1,2) obtain n' where n': "find t (held_path f) = Some n'" "n' = n \<or> st_ctime (st n) < st_ctime (st n')"
    unfolding later_def by blast
  from assms(4) n'(1) have "identity (st n') = identity (held_stat f)" by (simp add: unchanged_def gate_Inr)
  then have "st_ctime (st n') = st_ctime (st n)" by (simp add: identity_def assms(3))
  with n' show ?thesis by auto
qed

section \<open>Triples\<close>

definition triple :: "(store \<Rightarrow> bool) \<Rightarrow> ('z, 'a) stage_step \<Rightarrow> ('a \<Rightarrow> store \<Rightarrow> bool) \<Rightarrow> (store \<Rightarrow> bool) \<Rightarrow> bool" where
  "triple P m Q E \<longleftrightarrow> (\<forall>w r w'. P (store w) \<longrightarrow> m w = (r, w') \<longrightarrow>
     (case r of Inr x \<Rightarrow> Q x (store w') | Inl e \<Rightarrow> E (store w')))"

lemma tripleI:
  "(\<And>w x w'. P (store w) \<Longrightarrow> m w = (Inr x, w') \<Longrightarrow> Q x (store w')) \<Longrightarrow>
   (\<And>w e w'. P (store w) \<Longrightarrow> m w = (Inl e, w') \<Longrightarrow> E (store w')) \<Longrightarrow> triple P m Q E"
  by (auto simp: triple_def split: sum.splits)

lemma triple_Inr: "triple P m Q E \<Longrightarrow> P (store w) \<Longrightarrow> m w = (Inr x, w') \<Longrightarrow> Q x (store w')"
  by (fastforce simp: triple_def)

lemma triple_Inl: "triple P m Q E \<Longrightarrow> P (store w) \<Longrightarrow> m w = (Inl e, w') \<Longrightarrow> E (store w')"
  by (fastforce simp: triple_def)

lemma triple_bind: "triple P m Q E \<Longrightarrow> (\<And>x. triple (Q x) (f x) Q' E) \<Longrightarrow> triple P (bindS m f) Q' E"
  unfolding triple_def bindS_def by (fastforce split: prod.splits sum.splits)

lemma triple_conseq:
  "triple P m Q E \<Longrightarrow> (\<And>s. P' s \<Longrightarrow> P s) \<Longrightarrow> (\<And>x s. Q x s \<Longrightarrow> Q' x s) \<Longrightarrow> (\<And>s. E s \<Longrightarrow> E' s) \<Longrightarrow> triple P' m Q' E'"
  unfolding triple_def by (fastforce split: sum.splits)

lemma triple_read: "triple (\<lambda>s. (\<forall>x. q s = Inr x \<longrightarrow> Q x s) \<and> E s) (readS q) Q E"
  by (auto simp: triple_def readS_def split: sum.splits)

lemma triple_lift: "triple (\<lambda>s. (\<forall>x. r = Inr x \<longrightarrow> Q x s) \<and> E s) (liftS r) Q E"
  by (auto simp: triple_def liftS_def split: sum.splits)

lemma triple_ret: "triple (Q x) (retS x) Q E"
  by (auto simp: triple_def retS_def)

lemma triple_pure: "(F \<Longrightarrow> triple P m Q E) \<Longrightarrow> triple (\<lambda>s. P s \<and> F) m Q E"
  by (auto simp: triple_def)

text \<open>What a step keeps, it keeps whether it returns or fails.\<close>

lemma triple_keeps:
  assumes "keeps R m" "\<And>s t. P s \<Longrightarrow> R s t \<Longrightarrow> E t"
    and "\<And>w x w'. P (store w) \<Longrightarrow> m w = (Inr x, w') \<Longrightarrow> R (store w) (store w') \<Longrightarrow> Q x (store w')"
  shows "triple P m Q E"
  using assms by (intro tripleI) (blast dest: keepsD)+

lemma triple_same: "keeps (\<lambda>s t. t = s) m \<Longrightarrow> (\<And>s. P s \<Longrightarrow> E s) \<Longrightarrow> triple P m (\<lambda>_. P) E"
  by (rule triple_keeps[where R = "\<lambda>s t. t = s"]) auto

lemma triple_with_held:
  assumes "\<And>f. triple (\<lambda>s. P s \<and> opening s = Inr f) (body f) (\<lambda>x s. Q x s \<and> E s) E" "\<And>s. P s \<Longrightarrow> E s"
  shows "triple P (with_held opening body) Q E"
  unfolding with_held_def
proof (rule triple_bind[where Q = "\<lambda>f s. P s \<and> opening s = Inr f"])
  show "triple P (readS opening) (\<lambda>f s. P s \<and> opening s = Inr f) E"
    by (rule triple_conseq[OF triple_read]) (use assms(2) in auto)
  show "triple (\<lambda>s. P s \<and> opening s = Inr f)
      (bindS (body f) (\<lambda>r. bindS (readS (unchanged f)) (\<lambda>_. retS r))) Q E" for f
    by (rule triple_bind[OF assms(1)], rule triple_bind[where Q = "\<lambda>_. Q x" for x], rule triple_conseq[OF triple_read])
      (auto intro: triple_ret)
qed

lemma triple_either:
  assumes "keeps R m" "\<And>s t. P s \<Longrightarrow> R s t \<Longrightarrow> P t"
  shows "triple P m (\<lambda>_. P) P"
  using assms by (intro triple_keeps)

lemma triple_with_any:
  assumes "\<And>f. triple P (body f) Q E" "\<And>s. P s \<Longrightarrow> E s" "\<And>x s. Q x s \<Longrightarrow> E s"
  shows "triple P (with_held opening body) Q E"
  by (rule triple_with_held) (rule triple_conseq[OF assms(1)], use assms(2,3) in auto)

text \<open>A held input, with what was there before the run.\<close>

definition bytes_at :: "store \<Rightarrow> path \<Rightarrow> bytes" where
  "bytes_at s q = (case find s q of None \<Rightarrow> [] | Some n \<Rightarrow> contents n)"

lemma triple_with_input:
  assumes "\<And>f. is_regular s0 q \<Longrightarrow> held_data f = bytes_at s0 q \<Longrightarrow> triple P (body f) Q E"
    and "\<And>s. P s \<Longrightarrow> regular_from q s0 s" "\<And>s. P s \<Longrightarrow> E s" "\<And>x s. Q x s \<Longrightarrow> E s"
  shows "triple P (with_held (open_file q label k) body) Q E"
proof (rule triple_with_held)
  fix f
  show "triple (\<lambda>s. P s \<and> open_file q label k s = Inr f) (body f) (\<lambda>x s. Q x s \<and> E s) E"
  proof (cases "is_regular s0 q \<and> held_data f = bytes_at s0 q")
    case True
    from assms(1)[OF conjunct1[OF True] conjunct2[OF True]] show ?thesis
      by (rule triple_conseq) (use assms(4) in auto)
  next
    case False
    have "\<not> (P s \<and> open_file q label k s = Inr f)" for s
    proof
      assume "P s \<and> open_file q label k s = Inr f"
      moreover then obtain n where "find s q = Some n" "held_data f = contents n" "st_type (st n) = F_REG"
        using open_file_Inr by fastforce
      ultimately show False using False assms(2)[of s] unfolding regular_from_def is_regular_def bytes_at_def by fastforce
    qed
    then show ?thesis unfolding triple_def by blast
  qed
qed (rule assms(3))

lemma triple_lift_bind:
  "(\<And>x. r = Inr x \<Longrightarrow> triple P (f x) Q E) \<Longrightarrow> (\<And>s. P s \<Longrightarrow> E s) \<Longrightarrow> triple P (bindS (liftS r) f) Q E"
  by (cases r) (auto simp: triple_def bindS_def liftS_def)

lemma triple_read_bind:
  "(\<And>x s. P s \<Longrightarrow> q s = Inr x \<Longrightarrow> triple P (f x) Q E) \<Longrightarrow> (\<And>s. P s \<Longrightarrow> E s) \<Longrightarrow> triple P (bindS (readS q) f) Q E"
  unfolding triple_def bindS_def readS_def by (fastforce split: sum.splits prod.splits)

lemma triple_same_bind:
  "keeps (\<lambda>s t. t = s) m \<Longrightarrow> (\<And>s. P s \<Longrightarrow> E s) \<Longrightarrow> (\<And>x. triple P (f x) Q E) \<Longrightarrow> triple P (bindS m f) Q E"
  by (rule triple_bind[OF triple_same])

lemma regular_create_dir: "keeps (regular_from q) (createS h p F_DIR perm)"
  by (rule regular_from.keeps_create) (auto simp: regular_from_def new_node_def fresh_stat_def)

lemma regular_chmod: "keeps (regular_from q) (chmodS p perm)"
  by (rule regular_from.keeps_chmod) (auto simp: regular_from_def split: if_splits)

lemma keeps_conj: "keeps R m \<Longrightarrow> keeps R' m \<Longrightarrow> keeps (\<lambda>s t. R s t \<and> R' s t) m"
  by (simp add: keeps_def)

end
