(* ===== verification/AssemblerSpec.thy ===== *)
theory AssemblerSpec
  imports Assembler StageSpec Composition
begin

text \<open>
  What a run of the assembler leaves behind.  Until the rename nothing is at the output path;
  from the rename on the bundle is complete: the composition, a sparse file that the parser
  accepts for it, the injection attestation of the input, and the attestation of the run.
\<close>

section \<open>The tools\<close>

text \<open>
  What is relied on of the tools and the kernel: a run changes only what is in the scratch
  directory, removes nothing there, and a file that is written has a later time of change.
\<close>

definition tools_honest :: "asm_env \<Rightarrow> path \<Rightarrow> bool" where
  "tools_honest env scratch \<longleftrightarrow> (\<forall>command s. let s' = snd (e_exec env command s) in
     (\<forall>q. (if below scratch q then later q s s' else find s' q = find s q)))"

lemma honest_later: "tools_honest env scratch \<Longrightarrow> below scratch q \<Longrightarrow> keeps (later q) (exec_tool env command)"
  by (auto simp: tools_honest_def keeps_def exec_tool_def Let_def split: prod.splits) (metis snd_conv)

lemma honest_outside: "tools_honest env scratch \<Longrightarrow> \<not> below scratch q \<Longrightarrow> keeps (\<lambda>s t. find t q = find s q) (exec_tool env command)"
  by (auto simp: tools_honest_def keeps_def exec_tool_def Let_def split: prod.splits) (metis snd_conv)

section \<open>What the parts keep\<close>

lemma absent_create: "q \<noteq> p \<Longrightarrow> keeps (\<lambda>s t. find s q = None \<longrightarrow> find t q = None) (createS h p ty perm)"
  by (rule absent.keeps_create) simp

lemma absent_exec:
  "tools_honest env scratch \<Longrightarrow> \<not> below scratch q \<Longrightarrow> keeps (\<lambda>s t. find s q = None \<longrightarrow> find t q = None) (exec_tool env command)"
  using honest_outside[of env scratch q command] by (simp add: keeps_def)

lemma absent_change:
  "keeps (\<lambda>s t. find s q = None \<longrightarrow> find t q = None) (fillS p data)"
  "keeps (\<lambda>s t. find s q = None \<longrightarrow> find t q = None) (chmodS p perm)"
  "keeps (\<lambda>s t. find s q = None \<longrightarrow> find t q = None) (unlinkS p)"
  "keeps (\<lambda>s t. find s q = None \<longrightarrow> find t q = None) (rmdirS p)"
  "keeps (\<lambda>s t. find s q = None \<longrightarrow> find t q = None) (rmtreeS p)"
  by (rule absent.keeps_fill absent.keeps_chmod absent.keeps_unlink absent.keeps_rmdir absent.keeps_rmtree, simp)+

lemmas absent_intros = absent.keeps_basic absent_change absent_create absent_exec

lemma absent_fsync: "keeps (\<lambda>s t. find s q = None \<longrightarrow> find t q = None) (fsync_regular p label)"
  unfolding fsync_regular_def by (intro absent_intros)

lemma absent_run_tool:
  "tools_honest env scratch \<Longrightarrow> \<not> below scratch q \<Longrightarrow>
     keeps (\<lambda>s t. find s q = None \<longrightarrow> find t q = None) (run_tool env lock fs tool_name arguments)"
  unfolding run_tool_def by (intro absent_intros)

lemma absent_round_trip:
  assumes "tools_honest env scratch" "\<not> below scratch q"
  shows "keeps (\<lambda>s t. find s q = None \<longrightarrow> find t q = None)
     (sparse_round_trip env a locks baseline p2 raw raw_sha256 sparse_stage expanded_stage)"
  unfolding sparse_round_trip_def parse_and_expand_def compare_expanded_def require_regular_def Let_def
  by (intro absent_intros absent_fsync absent_run_tool[OF assms])

lemma below_append: "below p (p @ r)"
  by (simp add: below_def)

lemma absent_stage_copy: "q \<noteq> p \<Longrightarrow> keeps (\<lambda>s t. find s q = None \<longrightarrow> find t q = None) (stage_copy env baseline p2 p pol)"
  unfolding stage_copy_def create_private_file_def by (intro absent_intros)

lemma absent_write_private: "q \<noteq> p \<Longrightarrow> keeps (\<lambda>s t. find s q = None \<longrightarrow> find t q = None) (write_private h p payload)"
  unfolding write_private_def create_private_file_def by (intro absent_intros)

lemma absent_stage_images:
  assumes "tools_honest env scratch" "\<not> below scratch q"
  shows "keeps (\<lambda>s t. find s q = None \<longrightarrow> find t q = None)
     (stage_images env a locks scratch p2 p2_fs p2_sha256 injection baseline)"
proof -
  have ne: "q \<noteq> (scratch @ [x]) @ [y]" for x y using assms(2) below_append[of scratch "[x, y]"] by auto
  show ?thesis
    unfolding stage_images_def verify_and_convert_def Let_def
    by (intro absent_intros absent_stage_copy absent_write_private absent_round_trip[OF assms] ne)
qed

text \<open>Steps on other paths leave what is at a path.\<close>

abbreviation same_at :: "path \<Rightarrow> store \<Rightarrow> store \<Rightarrow> bool" where
  "same_at q \<equiv> (\<lambda>s t. find t q = find s q)"

lemma same_create: "q \<noteq> p \<Longrightarrow> q \<noteq> butlast p \<Longrightarrow> keeps (same_at q) (createS h p ty perm)"
  by (rule same_at.keeps_create) simp

lemma same_fill: "q \<noteq> p \<Longrightarrow> keeps (same_at q) (fillS p data)"
  by (rule same_at.keeps_fill) simp

lemma same_chmod: "q \<noteq> p \<Longrightarrow> keeps (same_at q) (chmodS p perm)"
  by (rule same_at.keeps_chmod) simp

lemma same_unlink: "q \<noteq> p \<Longrightarrow> q \<noteq> butlast p \<Longrightarrow> keeps (same_at q) (unlinkS p)"
  by (rule same_at.keeps_unlink) simp

lemma same_rmdir: "q \<noteq> p \<Longrightarrow> q \<noteq> butlast p \<Longrightarrow> keeps (same_at q) (rmdirS p)"
  by (rule same_at.keeps_rmdir) simp

lemma same_rmtree: "\<not> below p q \<Longrightarrow> q \<noteq> butlast p \<Longrightarrow> keeps (same_at q) (rmtreeS p)"
  by (rule same_at.keeps_rmtree) simp

lemmas same_intros = same_at.keeps_basic same_create same_fill same_chmod same_unlink

lemma same_fsync: "keeps (same_at q) (fsync_regular p label)"
  unfolding fsync_regular_def by (intro same_intros)

lemma same_write_private: "q \<noteq> p \<Longrightarrow> q \<noteq> butlast p \<Longrightarrow> keeps (same_at q) (write_private h p payload)"
  unfolding write_private_def create_private_file_def by (intro same_intros)

lemma same_later: "keeps (same_at q) m \<Longrightarrow> keeps (later q) m"
  by (simp add: keeps_def later_def)

lemma later_run_tool:
  "tools_honest env scratch \<Longrightarrow> below scratch q \<Longrightarrow> keeps (later q) (run_tool env lock fs tool_name arguments)"
  unfolding run_tool_def by (intro later.keeps_basic honest_later)

lemma later_round_trip:
  assumes "tools_honest env scratch" "below scratch q" "q \<noteq> sparse_stage" "q \<noteq> expanded_stage"
  shows "keeps (later q) (sparse_round_trip env a locks baseline p2 raw raw_sha256 sparse_stage expanded_stage)"
  unfolding sparse_round_trip_def parse_and_expand_def compare_expanded_def require_regular_def Let_def
  by (intro later.keeps_basic later_run_tool[OF assms(1,2)] same_later[OF same_chmod] same_later[OF same_fsync] assms(3,4))

section \<open>What a part that returns has established\<close>

lemma stage_copy_Inr:
  "stage_copy env baseline p2 q p w = (Inr u, w') \<Longrightarrow>
     \<exists>n. find (store w') q = Some n \<and> copy_then_pwrite (e_accepts env) (held_data baseline) (held_data p2) p = Inr (contents n)"
  unfolding stage_copy_def create_private_file_def createS_def chmodS_def syncS_def
  by (auto simp: step_iff split: if_splits dest!: callS_Inr fillS_Inr) (auto simp: new_node_def append_node_def)

lemma write_private_Inr:
  "write_private h p payload w = (Inr u, w') \<Longrightarrow> \<exists>n. find (store w') p = Some n \<and> contents n = payload"
  unfolding write_private_def create_private_file_def createS_def chmodS_def syncS_def
  by (auto simp: step_iff split: if_splits dest!: callS_Inr fillS_Inr) (auto simp: new_node_def append_node_def)

lemma held_later:
  assumes "with_held (open_file q label k) body w = (Inr r, w')" "\<And>f. keeps (later q) (body f)"
  shows "\<exists>f n. find (store w) q = Some n \<and> find (store w') q = Some n \<and> held_path f = q \<and> held_data f = contents n \<and>
     body f w = (Inr r, w')"
proof -
  from with_held_Inr[OF assms(1)] obtain f where f: "open_file q label k (store w) = Inr f"
    "body f w = (Inr r, w')" "unchanged f (store w') = Inr ()" by blast
  from open_file_Inr[OF f(1)] obtain n where n: "find (store w) q = Some n"
    "f = \<lparr>held_path = q, held_stat = st n, held_data = contents n\<rparr>" by blast
  have "find (store w') (held_path f) = Some n"
    by (rule later_unchanged[of _ "store w"]) (use keepsD[OF assms(2) f(2)] n f(3) in simp_all)
  moreover have "held_path f = q" "held_data f = contents n" using n(2) by simp_all
  ultimately show ?thesis using n(1) f(2) by auto
qed

lemma parse_and_expand_Inr:
  assumes "parse_and_expand env a lock tools sha q q' w = (Inr report, w')"
    and "tools_honest env scratch" "below scratch q"
  shows "\<exists>n. find (store w') q = Some n \<and>
     parse_sparse_reader (e_host env) (contents n) (baseline_size (asm_policy a)) sha = Inr report"
  using assms(1) unfolding parse_and_expand_def
  by (rule held_later[THEN exE])
    (intro later.keeps_basic later_run_tool[OF assms(2,3)], auto simp: step_iff)

lemma same_compare_expanded: "q \<noteq> expanded \<Longrightarrow> keeps (same_at q) (compare_expanded env a baseline p2 raw sha expanded)"
  unfolding compare_expanded_def require_regular_def Let_def by (intro same_intros same_fsync)

lemma round_trip_Inr:
  assumes "sparse_round_trip env a locks baseline p2 raw sha q q' w = (Inr (report, ev), w')"
    and "tools_honest env scratch" "below scratch q" "q \<noteq> q'"
  shows "\<exists>n. find (store w') q = Some n \<and>
     parse_sparse_reader (e_host env) (contents n) (baseline_size (asm_policy a)) sha = Inr report"
proof -
  from assms(1) obtain tools w1 w2 where
    "parse_and_expand env a (l_tool locks) tools sha q q' w1 = (Inr report, w2)"
    "compare_expanded env a baseline p2 raw sha q' w2 = (Inr ev, w')"
    by (auto simp: sparse_round_trip_def step_iff)
  from parse_and_expand_Inr[OF this(1) assms(2,3)] keepsD[OF same_compare_expanded[OF assms(4)] this(2)]
  show ?thesis by simp
qed

lemma convert_Inr:
  assumes "verify_and_convert env a locks baseline p2 q q' q'' w = (Inr (raw_ev, report, expanded_ev), w')"
    and "tools_honest env scratch" "below scratch q" "below scratch q'" "q \<noteq> q'" "q \<noteq> q''" "q' \<noteq> q''"
  shows "\<exists>nr ns. find (store w') q = Some nr \<and>
     verify_composition_readers (e_host env) (held_data baseline) (held_data p2) (contents nr) (asm_policy a) True = Inr raw_ev \<and>
     find (store w') q' = Some ns \<and>
     parse_sparse_reader (e_host env) (contents ns) (baseline_size (asm_policy a)) (str_val (fld raw_ev ''raw_sha256'')) = Inr report"
  using assms(1) unfolding verify_and_convert_def
  by (rule held_later[THEN exE])
    (intro later.keeps_basic later_round_trip[OF assms(2,3,5,6)],
     auto simp: step_iff dest!: round_trip_Inr[OF _ assms(2,4,7)] split: prod.splits)

lemma verify_raw_sha256:
  "verify_composition_readers h baseline p2 out p req = Inr ev \<Longrightarrow> str_val (fld ev ''raw_sha256'') = sha256 h out"
  by (auto simp: verify_composition_readers_def res_iff fld_def)

lemma verify_readers_compose:
  assumes "check_assembly_policy p = Inr ()" "verify_composition_readers h baseline p2 out p True = Inr ev"
  shows "out = compose baseline p2 p"
proof -
  note r = verify_readers_Inr[OF assms(2)]
  then have "length baseline = baseline_size p" "length p2 = p2_size p" "length out = baseline_size p"
    using validate_gpt_size validate_p2_size by blast+
  from ranges_compose[OF assms(1) this] r show ?thesis by blast
qed

text \<open>The staged bundle, and the bundle at any path: its files hold what the run claims.\<close>

definition bundle_files :: "asm_env \<Rightarrow> asm_args \<Rightarrow> bytes \<Rightarrow> bytes \<Rightarrow> bytes \<Rightarrow> dict \<Rightarrow> path \<Rightarrow> store \<Rightarrow> bool" where
  "bundle_files env a baseline p2 injection att q s \<longleftrightarrow>
     (\<exists>nr ns ni na report. find s (q @ [OUTPUT_RAW_NAME]) = Some nr \<and> find s (q @ [OUTPUT_SPARSE_NAME]) = Some ns \<and>
        find s (q @ [OUTPUT_INJECTION_ATTESTATION_NAME]) = Some ni \<and> find s (q @ [OUTPUT_ASSEMBLY_ATTESTATION_NAME]) = Some na \<and>
        contents nr = compose baseline p2 (asm_policy a) \<and>
        parse_sparse_reader (e_host env) (contents ns) (baseline_size (asm_policy a)) (sha256 (e_host env) (contents nr)) = Inr report \<and>
        contents ni = injection \<and> contents na = assembly_canonical_json (e_host env) att)"

lemmas output_names = OUTPUT_RAW_NAME_def OUTPUT_SPARSE_NAME_def OUTPUT_INJECTION_ATTESTATION_NAME_def
  OUTPUT_ASSEMBLY_ATTESTATION_NAME_def

lemma stage_images_Inr:
  assumes "stage_images env a locks scratch p2 p2_fs p2_sha256 injection baseline w = (Inr att, w')"
    and "tools_honest env scratch" "check_assembly_policy (asm_policy a) = Inr ()"
  shows "sha256 (e_host env) (held_data baseline) = baseline_sha256 (asm_policy a) \<and>
     bundle_files env a (held_data baseline) (held_data p2) (att_payload injection) att (scratch @ [''publish.bundle'']) (store w')"
proof -
  let ?b = "scratch @ [''publish.bundle'']" and ?h = "e_host env" and ?p = "asm_policy a"
  let ?raw = "?b @ [OUTPUT_RAW_NAME]" and ?sparse = "?b @ [OUTPUT_SPARSE_NAME]" and ?x = "scratch @ [''roundtrip.raw'']"
  let ?ia = "?b @ [OUTPUT_INJECTION_ATTESTATION_NAME]" and ?asm = "?b @ [OUTPUT_ASSEMBLY_ATTESTATION_NAME]"
  from assms(1) obtain w1 w2 w3 w4 raw_ev report expanded_ev where
    sha: "sha256 ?h (held_data baseline) = baseline_sha256 ?p" and
    c: "verify_and_convert env a locks baseline p2 ?raw ?sparse ?x w1 = (Inr (raw_ev, report, expanded_ev), w2)" and
    u: "unlinkS ?x w2 = (Inr (), w3)" and
    i: "write_private ?h ?ia (att_payload injection) w3 = (Inr (), w4)" and
    t: "write_private ?h ?asm (assembly_canonical_json ?h att) w4 = (Inr (), w')"
    unfolding stage_images_def Let_def by (auto simp: step_iff gate_Inr split: prod.splits)
  have "below scratch ?raw" "below scratch ?sparse" "?raw \<noteq> ?sparse" "?raw \<noteq> ?x" "?sparse \<noteq> ?x"
    by (simp_all add: below_def output_names)
  from convert_Inr[OF c assms(2) this] obtain nr ns where
    r: "find (store w2) ?raw = Some nr"
       "verify_composition_readers ?h (held_data baseline) (held_data p2) (contents nr) ?p True = Inr raw_ev" and
    s: "find (store w2) ?sparse = Some ns"
       "parse_sparse_reader ?h (contents ns) (baseline_size ?p) (str_val (fld raw_ev ''raw_sha256'')) = Inr report"
    by blast
  have kept: "find (store w') q = find (store w2) q" if "q \<in> {?raw, ?sparse}" for q
    using that keepsD[OF same_unlink u, of q] keepsD[OF same_write_private i, of q] keepsD[OF same_write_private t, of q]
    by (auto simp: output_names butlast_append)
  from write_private_Inr[OF i] obtain ni where ni: "find (store w4) ?ia = Some ni" "contents ni = att_payload injection" by blast
  have "find (store w') ?ia = Some ni"
    using ni(1) keepsD[OF same_write_private t, of ?ia] by (simp add: output_names butlast_append)
  moreover from write_private_Inr[OF t] obtain na where "find (store w') ?asm = Some na"
    "contents na = assembly_canonical_json ?h att" by blast
  ultimately show ?thesis
    using sha kept r(1) s ni(2) verify_readers_compose[OF assms(3) r(2)] verify_raw_sha256[OF r(2)]
    unfolding bundle_files_def by auto
qed

section \<open>Publication\<close>

lemma bundle_files_move:
  assumes "bundle_files env a baseline p2 injection att src s" "\<And>nm. src @ [nm] \<noteq> butlast dst"
  shows "bundle_files env a baseline p2 injection att dst (move_tree src dst now s)"
proof -
  have "src @ [nm] \<noteq> butlast src" for nm by (auto dest: arg_cong[where f = length])
  then have "find (move_tree src dst now s) (dst @ [nm]) = find s (src @ [nm])" for nm
    using assms(2) by (simp add: find_move_tree)
  with assms(1) show ?thesis by (simp add: bundle_files_def)
qed

lemma same_seal_file: "keeps (\<lambda>s t. t = s) (seal_file h b nm)"
  unfolding seal_file_def fsync_regular_def by (intro same_store.keeps_basic)

lemma same_seal_files: "keeps (\<lambda>s t. t = s) (seal_files h b nms)"
  by (induction nms) (simp_all add: same_store.keeps_basic same_seal_file)

lemma same_seal: "keeps (\<lambda>s t. t = s) (seal_staged_bundle h p)"
  unfolding seal_staged_bundle_def by (intro same_store.keeps_basic same_seal_files)

lemma seal_Inr: "seal_staged_bundle h p w = (Inr i, w') \<Longrightarrow> set (listdir (store w) p) = set OUTPUT_BUNDLE_FILES"
  by (auto simp: seal_staged_bundle_def step_iff Let_def res_iff gate_Inr split: option.splits)

text \<open>What is published at a path.\<close>

definition complete_at :: "asm_env \<Rightarrow> asm_args \<Rightarrow> bytes \<Rightarrow> bytes \<Rightarrow> bytes \<Rightarrow> dict \<Rightarrow> path \<Rightarrow> store \<Rightarrow> bool" where
  "complete_at env a baseline p2 injection att q s \<longleftrightarrow>
     set (listdir s q) = set OUTPUT_BUNDLE_FILES \<and> bundle_files env a baseline p2 injection att q s"

lemma triple_rename:
  assumes "\<And>nm. src @ [nm] \<noteq> butlast dst"
  shows "triple (\<lambda>s. find s dst = None \<and> complete_at env a baseline p2 injection att src s)
     (renameat2_noreplace src dst) (\<lambda>_ s. complete_at env a baseline p2 injection att dst s)
     (\<lambda>s. find s dst = None \<or> complete_at env a baseline p2 injection att dst s)"
proof -
  have "complete_at env a baseline p2 injection att dst (move_tree src dst now s)"
    if "complete_at env a baseline p2 injection att src s" for now s
    using that bundle_files_move[OF _ assms] listdir_move_tree[OF assms] by (simp add: complete_at_def)
  then show ?thesis
    by (auto simp: triple_def renameat2_noreplace_def as_assembly_error_def callS_def
        split: list.splits fault.splits prod.splits sum.splits exc.splits if_splits)
qed

lemma triple_publish:
  assumes "scratch = parent @ [n]" "output = parent @ [m]"
  shows "triple (\<lambda>s. find s output = None \<and> bundle_files env a baseline p2 injection att (scratch @ [''publish.bundle'']) s)
     (publish h parent parent_identity scratch output) (\<lambda>_ s. complete_at env a baseline p2 injection att output s)
     (\<lambda>s. find s output = None \<or> complete_at env a baseline p2 injection att output s)"
    (is "triple ?P _ ?Q ?E")
proof -
  let ?b = "scratch @ [''publish.bundle'']"
  let ?C = "\<lambda>s. find s output = None \<and> complete_at env a baseline p2 injection att ?b s"
  have ne: "?b @ [nm] \<noteq> butlast output" for nm using assms by (auto dest: arg_cong[where f = length])
  have seal: "triple ?P (seal_staged_bundle h ?b) (\<lambda>_. ?C) ?E"
    by (rule triple_keeps[OF same_seal]) (auto simp: complete_at_def dest!: seal_Inr)
  show ?thesis
    unfolding publish_def
    by (rule triple_bind[OF seal], (rule triple_bind[OF triple_same[where P = ?C]], intro same_store.keeps_basic, blast)+,
        rule triple_bind[OF triple_rename[OF ne]],
        (rule triple_bind[OF triple_same], intro same_store.keeps_basic, blast)+,
        rule triple_same, rule same_store.keeps_sync, blast)
qed

section \<open>The run\<close>

definition published :: "asm_env \<Rightarrow> asm_args \<Rightarrow> store \<Rightarrow> dict \<Rightarrow> store \<Rightarrow> bool" where
  "published env a s0 att s \<longleftrightarrow>
     (let h = e_host env; p = asm_policy a; baseline = bytes_at s0 (p_parts (baseline_path a));
          p2 = bytes_at s0 (p_parts (p2_path a)); injection = bytes_at s0 (p_parts (p2_attestation_path a)) in
      (\<exists>pin locks blocks ia. check_caller env a = Inr pin \<and> load_locks env a pin s0 = Inr locks \<and>
         sha256 h baseline = baseline_sha256 p \<and> validate_p2 p2 p = Inr blocks \<and>
         validate_injection_attestation h (e_gid env) injection (sha256 h p2) p (l_policy locks) = Inr ia) \<and>
      complete_at env a baseline p2 injection att (p_parts (output_bundle a)) s)"

lemma att_payload_Inr: "validate_injection_attestation h gid payload sha p lock = Inr ia \<Longrightarrow> att_payload ia = payload"
  by (auto simp: validate_injection_attestation_def Let_def res_iff)

definition inputs_from :: "asm_args \<Rightarrow> store \<Rightarrow> store \<Rightarrow> bool" where
  "inputs_from a s0 s \<longleftrightarrow> regular_from (p_parts (baseline_path a)) s0 s \<and> regular_from (p_parts (p2_path a)) s0 s \<and>
     regular_from (p_parts (p2_attestation_path a)) s0 s"

lemma triple_stage:
  assumes "tools_honest env scratch" "\<not> below scratch output" "check_assembly_policy (asm_policy a) = Inr ()"
    and "\<And>s. find s output = None \<Longrightarrow> E s"
  shows "triple (\<lambda>s. find s output = None \<and> inputs_from a s0 s)
     (with_held (open_file (p_parts (baseline_path a)) label k) (stage_images env a locks scratch p2 p2_fs p2_sha256 injection))
     (\<lambda>att s. find s output = None \<and>
        sha256 (e_host env) (bytes_at s0 (p_parts (baseline_path a))) = baseline_sha256 (asm_policy a) \<and>
        bundle_files env a (bytes_at s0 (p_parts (baseline_path a))) (held_data p2) (att_payload injection) att
          (scratch @ [''publish.bundle'']) s) E"
proof (rule triple_with_input[where ?s0.0 = s0])
  fix f :: held assume f: "held_data f = bytes_at s0 (p_parts (baseline_path a))"
  show "triple (\<lambda>s. find s output = None \<and> inputs_from a s0 s)
     (stage_images env a locks scratch p2 p2_fs p2_sha256 injection f)
     (\<lambda>att s. find s output = None \<and>
        sha256 (e_host env) (bytes_at s0 (p_parts (baseline_path a))) = baseline_sha256 (asm_policy a) \<and>
        bundle_files env a (bytes_at s0 (p_parts (baseline_path a))) (held_data p2) (att_payload injection) att
          (scratch @ [''publish.bundle'']) s) E"
    by (rule triple_keeps[OF absent_stage_images[OF assms(1,2)]])
      (use assms(4) f in \<open>auto dest!: stage_images_Inr[OF _ assms(1,3)]\<close>)
qed (use assms(4) in \<open>auto simp: inputs_from_def\<close>)

lemma triple_assemble_in:
  assumes honest: "tools_honest env scratch" and pol: "check_assembly_policy (asm_policy a) = Inr ()"
    and scratch: "scratch = parent @ [n]" "output = parent @ [m]" "n \<noteq> m" "output = p_parts (output_bundle a)"
    and locks: "check_caller env a = Inr pin" "load_locks env a pin s0 = Inr locks"
  shows "triple (\<lambda>s. find s output = None \<and> inputs_from a s0 s)
     (assemble_in env a locks bundle_path parent output parent_identity scratch)
     (\<lambda>att s. published env a s0 att s) (\<lambda>s. find s output = None \<or> (\<exists>att. published env a s0 att s))"
    (is "triple ?P _ ?Q ?E")
proof -
  have out: "\<not> below scratch output" "output \<noteq> scratch @ [x]" for x
    using scratch by (auto simp: below_def prefix_def)
  let ?base = "bytes_at s0 (p_parts (baseline_path a))"
  have mk: "triple ?P (createS (e_host env) (scratch @ [''publish.bundle'']) F_DIR 448) (\<lambda>_. ?P) ?E"
    by (rule triple_keeps[OF keeps_conj[OF absent_create[OF out(2)] keeps_conj[OF regular_create_dir
          keeps_conj[OF regular_create_dir regular_create_dir]]]])
      (auto simp: inputs_from_def intro: regular_from.R_trans)
  have pub: "triple (\<lambda>s. find s output = None \<and> sha256 (e_host env) ?base = baseline_sha256 (asm_policy a) \<and>
        bundle_files env a ?base p2 injection att (scratch @ [''publish.bundle'']) s)
      (publish (e_host env) parent parent_identity scratch output) (\<lambda>_ s. published env a s0 att s) ?E"
    if "p2 = bytes_at s0 (p_parts (p2_path a))" "injection = bytes_at s0 (p_parts (p2_attestation_path a))"
      "validate_p2 p2 (asm_policy a) = Inr blocks"
      "validate_injection_attestation (e_host env) (e_gid env) injection (sha256 (e_host env) p2) (asm_policy a) (l_policy locks) = Inr ia"
    for p2 injection blocks ia att
  proof (rule triple_conseq[OF triple_pure])
    assume "sha256 (e_host env) ?base = baseline_sha256 (asm_policy a)"
    then have "published env a s0 att s" if "complete_at env a ?base p2 injection att output s" for s
      using that \<open>validate_p2 p2 _ = _\<close> \<open>validate_injection_attestation _ _ injection _ _ _ = _\<close> locks
      unfolding published_def Let_def \<open>p2 = _\<close>[symmetric] \<open>injection = _\<close>[symmetric] scratch(4)[symmetric] by blast
    then show "triple (\<lambda>s. find s output = None \<and> bundle_files env a ?base p2 injection att (scratch @ [''publish.bundle'']) s)
      (publish (e_host env) parent parent_identity scratch output) (\<lambda>_ s. published env a s0 att s) ?E"
      by (intro triple_conseq[OF triple_publish[OF scratch(1,2)]]) auto
  qed auto
  show ?thesis
    unfolding assemble_in_def Let_def
  proof (rule triple_bind[OF mk], rule triple_with_any, rule triple_with_input[where ?s0.0 = s0],
      rule triple_with_input[where ?s0.0 = s0], rule triple_same_bind, rule same_store.keeps_read, blast,
      rule triple_lift_bind, rule triple_lift_bind)
    fix p2 att :: held and blocks ia
    assume p2: "held_data p2 = bytes_at s0 (p_parts (p2_path a))"
      and att: "held_data att = bytes_at s0 (p_parts (p2_attestation_path a))"
      and v: "validate_p2 (held_data p2) (asm_policy a) = Inr blocks"
        "validate_injection_attestation (e_host env) (e_gid env) (held_data att) (sha256 (e_host env) (held_data p2))
           (asm_policy a) (l_policy locks) = Inr ia"
    note stage = triple_stage[OF honest out(1) pol, where E = ?E and ?p2.0 = p2 and injection = ia and ?s0.0 = s0]
    note pay = att_payload_Inr[OF v(2)]
    show "triple ?P
       (bindS (with_held (open_file (p_parts (baseline_path a)) ''baseline raw'' (Some (baseline_size (asm_policy a))))
                (stage_images env a locks scratch p2 (p2_evidence (held_data p2) blocks)
                   (sha256 (e_host env) (held_data p2)) ia)) (\<lambda>attestation.
        bindS (readS (unchanged att)) (\<lambda>_.
        bindS (readS (unchanged p2)) (\<lambda>_.
        bindS (readS (unchanged bd)) (\<lambda>_.
        bindS (publish (e_host env) parent parent_identity scratch output) (\<lambda>_. retS attestation)))))) ?Q ?E" for bd
      by (rule triple_bind[OF stage], blast, (rule triple_same_bind, rule same_store.keeps_read, blast)+,
          rule triple_bind[OF pub[OF p2 att v, folded pay]], rule triple_ret)
  qed (auto simp: inputs_from_def)
qed

lemma complete_same: "(\<forall>nm. find t (q @ [nm]) = find s (q @ [nm])) \<Longrightarrow>
    complete_at env a baseline p2 injection att q s \<Longrightarrow> complete_at env a baseline p2 injection att q t"
  by (auto simp: complete_at_def bundle_files_def set_listdir)

lemma published_same: "(\<forall>nm. find t (p_parts (output_bundle a) @ [nm]) = find s (p_parts (output_bundle a) @ [nm])) \<Longrightarrow>
    published env a s0 att s \<Longrightarrow> published env a s0 att t"
  unfolding published_def Let_def using complete_same by blast

lemma triple_step_or_skip:
  assumes "triple P m (\<lambda>_. P) P" "\<And>w. snd (c w) \<in> {w, snd (m w)}"
  shows "triple P c (\<lambda>_. P) P"
proof -
  have "P (store (snd (c w)))" if "P (store w)" for w
  proof -
    obtain r w' where m: "m w = (r, w')" by force
    have "P (store w')" using assms(1) that m unfolding triple_def by (cases r) fastforce+
    then show ?thesis using assms(2)[of w] that m by auto
  qed
  then show ?thesis unfolding triple_def by (metis (no_types, lifting) snd_conv sum.case_eq_if)
qed

lemma triple_cleanup:
  assumes "scratch = parent @ [n]" "p_parts (output_bundle a) = parent @ [m]" "n \<noteq> m"
  shows "triple (\<lambda>s. find s (p_parts (output_bundle a)) = None \<or> (\<exists>att. published env a s0 att s))
     (cleanup_scratch scratch i b) (\<lambda>_ s. find s (p_parts (output_bundle a)) = None \<or> (\<exists>att. published env a s0 att s))
     (\<lambda>s. find s (p_parts (output_bundle a)) = None \<or> (\<exists>att. published env a s0 att s))"
    (is "triple ?E _ _ _")
proof -
  let ?o = "p_parts (output_bundle a)"
  have ne: "\<not> below scratch (?o @ [nm])" "?o @ [nm] \<noteq> butlast scratch" for nm
    using assms by (auto simp: below_def prefix_def dest: arg_cong[where f = length])
  have "keeps (\<lambda>s t. (find s ?o = None \<longrightarrow> find t ?o = None) \<and> (\<forall>nm. find t (?o @ [nm]) = find s (?o @ [nm])))
      (rmtreeS scratch)"
    by (rule keeps_conj[OF absent_change(5) same_files.keeps_rmtree]) (use ne in simp)
  then have rm: "triple ?E (rmtreeS scratch) (\<lambda>_. ?E) ?E"
    by (rule triple_either) (use published_same in blast)
  have "snd (cleanup_scratch scratch i b w) \<in> {w, snd (rmtreeS scratch w)}" for w
  proof (cases "rmtreeS scratch w")
    case (Pair r1 w1)
    then show ?thesis
      by (cases r1) (auto simp: cleanup_scratch_def split: option.split exc.split)
  qed
  then show ?thesis by (rule triple_step_or_skip[OF rm])
qed

lemma triple_finally:
  assumes "triple P m Q E" "\<And>w. triple E (c w) (\<lambda>_. E) E"
  shows "triple P (finallyS m c) Q E"
  unfolding triple_def
proof (intro allI impI)
  fix w r w' assume P: "P (store w)" and r: "finallyS m c w = (r, w')"
  obtain r1 w1 where m: "m w = (r1, w1)" by force
  show "case r of Inl e \<Rightarrow> E (store w') | Inr x \<Rightarrow> Q x (store w')"
  proof (cases r1)
    case (Inr x)
    with triple_Inr[OF assms(1) P] m r show ?thesis by (auto simp: finallyS_def)
  next
    case (Inl e)
    with triple_Inl[OF assms(1) P] m have E: "E (store w1)" by simp
    obtain r2 w2 where c: "c w1 w1 = (r2, w2)" by force
    have "E (store w2)" using assms(2)[of w1] E c unfolding triple_def by (cases r2) fastforce+
    with Inl m r c E show ?thesis
      by (auto simp: finallyS_def split: exc.splits sum.splits)
  qed
qed

lemma triple_run_in_scratch:
  assumes honest: "tools_honest env scratch" and pol: "check_assembly_policy (asm_policy a) = Inr ()"
    and paths: "scratch = parent @ [n]" "p_parts (output_bundle a) = parent @ [m]" "n \<noteq> m"
    and locks: "check_caller env a = Inr pin" "load_locks env a pin s0 = Inr locks"
  shows "triple (\<lambda>s. find s (p_parts (output_bundle a)) = None \<and> inputs_from a s0 s)
     (run_in_scratch env a locks bundle_path parent (p_parts (output_bundle a)) pid scratch i)
     (\<lambda>att s. published env a s0 att s)
     (\<lambda>s. find s (p_parts (output_bundle a)) = None \<or> (\<exists>att. published env a s0 att s))"
proof -
  let ?o = "p_parts (output_bundle a)"
  have rm: "keeps (\<lambda>s t. \<forall>nm. find t (?o @ [nm]) = find s (?o @ [nm])) (rmdirS scratch)"
    by (rule same_files.keeps_rmdir) (use paths in \<open>auto dest: arg_cong[where f = length]\<close>)
  have tail: "triple (\<lambda>s. published env a s0 att s) (as_assembly_error why (rmdirS scratch))
      (\<lambda>_ s. published env a s0 att s) (\<lambda>s. find s ?o = None \<or> (\<exists>att. published env a s0 att s))" for att why
    by (rule triple_keeps[OF same_files.keeps_as_error[OF rm]]) (use published_same in blast)+
  show ?thesis
    unfolding run_in_scratch_def
    by (rule triple_finally[OF _ triple_cleanup[OF paths]], rule triple_read_bind, rule triple_lift_bind,
        rule triple_bind[OF triple_assemble_in[OF honest pol paths refl locks]], rule triple_bind[OF tail], rule triple_ret) blast+
qed

lemma triple_assemble_bundle:
  assumes honest: "tools_honest env (parent @ [e_scratch env])" and pol: "check_assembly_policy (asm_policy a) = Inr ()"
    and o: "p_parts (output_bundle a) = parent @ [m]" and ne: "e_scratch env \<noteq> m"
    and locks: "check_caller env a = Inr pin" "load_locks env a pin s0 = Inr locks"
  shows "triple (\<lambda>s. s = s0 \<and> find s (p_parts (output_bundle a)) = None)
     (assemble_bundle env a locks bundle_path parent (p_parts (output_bundle a)))
     (\<lambda>att s. published env a s0 att s)
     (\<lambda>s. find s (p_parts (output_bundle a)) = None \<or> (\<exists>att. published env a s0 att s))"
    (is "triple ?S _ ?Q ?E")
proof -
  let ?o = "p_parts (output_bundle a)" and ?scratch = "parent @ [e_scratch env]"
  let ?P = "\<lambda>s. find s ?o = None \<and> inputs_from a s0 s"
  have out: "?o \<noteq> ?scratch" using o ne by simp
  have kept: "keeps (\<lambda>s t. (find s ?o = None \<longrightarrow> find t ?o = None) \<and> regular_from (p_parts (baseline_path a)) s t \<and>
      regular_from (p_parts (p2_path a)) s t \<and> regular_from (p_parts (p2_attestation_path a)) s t) m"
    if "m = createS (e_host env) ?scratch F_DIR 448 \<or> m = chmodS ?scratch 448" for m
    using that by (elim disjE)
      (hypsubst, intro keeps_conj absent_create[OF out] absent_change(2) regular_create_dir regular_chmod)+
  have mk: "triple ?P m (\<lambda>_. ?P) ?E"
    if "m = createS (e_host env) ?scratch F_DIR 448 \<or> m = chmodS ?scratch 448" for m
    by (rule triple_keeps[OF kept[OF that]]) (auto simp: inputs_from_def intro: regular_from.R_trans)
  have start: "triple ?S (createS (e_host env) ?scratch F_DIR 448) (\<lambda>_. ?P) ?E"
    by (rule triple_conseq[OF mk]) (auto simp: inputs_from_def regular_from.R_refl)
  show ?thesis
    unfolding assemble_bundle_def Let_def
    by (rule triple_read_bind, rule triple_read_bind, rule triple_bind[OF start], rule triple_bind[OF mk], blast,
        rule triple_read_bind, rule triple_bind[OF triple_run_in_scratch[OF honest pol refl o ne locks]],
        rule triple_same_bind[OF same_store.keeps_sync], blast, rule triple_ret) blast+
qed

lemma require_output_Inr:
  "require_output_bundle_path s o1 = Inr q \<Longrightarrow>
     find s (p_parts o1) = None \<and> q = (p_parts (parent_path o1), p_parts o1) \<and>
     p_parts o1 = p_parts (parent_path o1) @ [path_name o1]"
  by (auto simp: require_output_bundle_path_def res_iff gate_Inr path_name_def parent_path_def split: if_splits)

lemma triple_assemble:
  assumes honest: "tools_honest env (p_parts (parent_path (output_bundle a)) @ [e_scratch env])"
    and pol: "check_assembly_policy (asm_policy a) = Inr ()" and ne: "e_scratch env \<noteq> path_name (output_bundle a)"
  shows "triple (\<lambda>s. s = s0 \<and> find s (p_parts (output_bundle a)) = None) (assemble_userdata_image env a)
     (\<lambda>att s. published env a s0 att s)
     (\<lambda>s. find s (p_parts (output_bundle a)) = None \<or> (\<exists>att. published env a s0 att s))"
    (is "triple ?S _ ?Q ?E")
  unfolding assemble_userdata_image_def
proof (rule triple_lift_bind, rule triple_read_bind, rule triple_read_bind, rule triple_lift_bind, rule triple_read_bind)
  fix pin bundle_path s s1 s2 q locks
  assume "check_caller env a = Inr pin" "?S s2" "load_locks env a pin s2 = Inr locks"
  then have locks: "check_caller env a = Inr pin" "load_locks env a pin s0 = Inr locks" by simp_all
  assume "require_output_bundle_path s1 (output_bundle a) = Inr q"
  note q = require_output_Inr[OF this]
  then have o: "p_parts (output_bundle a) = p_parts (parent_path (output_bundle a)) @ [path_name (output_bundle a)]" by blast
  from triple_assemble_bundle[OF honest pol o ne locks] q
  show "triple ?S (assemble_bundle env a locks bundle_path (fst q) (snd q)) ?Q ?E" by simp
qed blast+

text \<open>An output path that is taken is refused before anything is done.\<close>

lemma output_taken:
  "find (store w) (p_parts (output_bundle a)) \<noteq> None \<Longrightarrow> \<exists>e. assemble_userdata_image env a w = (Inl e, w)"
  using require_output_Inr[of "store w" "output_bundle a"]
  by (fastforce simp: assemble_userdata_image_def bindS_def liftS_def readS_def split: sum.splits prod.splits)

end
