(* ===== verification/AssemblerDemo.thy ===== *)
theory AssemblerDemo
  imports AssemblerSpec AttestationProps
begin

text \<open>
  A run of the assembler that publishes its bundle: the disk of thirteen sectors, a P2 file
  system with its attestation, lock files, and tools that write a sparse file of one raw chunk
  and its expansion.
\<close>

section \<open>The lock files\<close>

definition demo_tool :: "string \<Rightarrow> dict" where
  "demo_tool path = [(''path'', JStr path), (''sha256'', sha_a), (''size'', JInt 1)]"

definition demo_tools_value :: dict where
  "demo_tools_value =
     [(''interpreter'', JObj (demo_tool ''/ld'')), (''libraries'', JArr []),
      (''package'', JObj [(''name'', JStr ''android-sdk-libsparse-utils''), (''version'', JStr ''1:34.0.5-12build1'')]),
      (''schema'', JStr ''lmi-p2-d114-sparse-tools-lock/v1''),
      (''tools'', JObj [(''img2simg'', JObj ((''dynamic'', JBool False) # demo_tool ''/i2s'')),
                        (''simg2img'', JObj ((''dynamic'', JBool False) # demo_tool ''/s2i''))])]"

definition demo_source_value :: dict where
  "demo_source_value =
     [(''baseline'', JObj [(''boot_sha256'', JStr D110_BOOT_SHA256), (''boot_size'', JInt D110_BOOT_SIZE),
         (''boot_uuid'', JStr D110_BOOT_UUID), (''userdata_raw_sha256'', JStr BASELINE_SHA256),
         (''userdata_raw_size'', JInt BASELINE_SIZE)]),
      (''schema'', JStr ''lmi-p2-d114-terminal-source-lock/v1'')]"

text \<open>A digest that is the pinned one on the tool lock and on the source lock.\<close>

definition demo_sha :: "bytes \<Rightarrow> string" where
  "demo_sha bs = (if prefix ''interpreter'' (drop 2 bs) then SPARSE_TOOL_LOCK_SHA256
     else if prefix ''baseline'' (drop 2 bs) then SOURCE_LOCK_SHA256 else replicate 64 (CHR ''a''))"

definition asm_host :: host where
  "asm_host = image_host\<lparr>sha256 := demo_sha\<rparr>"

definition demo_tool_bytes :: bytes where
  "demo_tool_bytes = compact asm_host (JObj demo_tools_value) @ [LF]"

definition demo_source_bytes :: bytes where
  "demo_source_bytes = compact asm_host (JObj demo_source_value) @ [LF]"

lemma asm_host_simps [simp]: "sha256 asm_host = demo_sha" "euid asm_host = 1000" "egid asm_host = 1000"
  by (simp_all add: asm_host_def image_host_def)

lemma demo_sha_other: "2 < length bs \<Longrightarrow> bs ! 2 \<notin> {CHR ''i'', CHR ''b''} \<Longrightarrow> demo_sha bs = replicate 64 (CHR ''a'')"
  by (auto simp: demo_sha_def prefix_def nth_append dest: arg_cong[where f = "\<lambda>xs. xs ! 0"])

lemma demo_sha_short: "length bs \<le> 2 \<Longrightarrow> demo_sha bs = replicate 64 (CHR ''a'')"
  by (simp add: demo_sha_def)

lemma compact_key:
  assumes "quote_string k = DQ # k @ [DQ]"
  shows "\<exists>rest. drop 2 (compact h (JObj ((k, v) # d)) @ [LF]) = k @ rest"
proof -
  let ?x = "quote_string k @ '':'' @ compact h v"
  obtain r where r: "join_with '','' (?x # map (\<lambda>kv. quote_string (fst kv) @ '':'' @ compact h (snd kv)) d) = ?x @ r"
    by (cases d) auto
  have "compact h (JObj ((k, v) # d)) @ [LF] = CHR ''{'' # DQ # k @ [DQ] @ '':'' @ compact h v @ r @ ''}'' @ [LF]"
    using r assms by simp
  then show ?thesis by simp
qed

lemma demo_digests:
  "demo_sha demo_tool_bytes = SPARSE_TOOL_LOCK_SHA256" "demo_sha demo_source_bytes = SOURCE_LOCK_SHA256"
  "demo_sha (demo_lock_bytes asm_host) = replicate 64 (CHR ''a'')"
proof -
  have q: "quote_string ''interpreter'' = DQ # ''interpreter'' @ [DQ]" "quote_string ''baseline'' = DQ # ''baseline'' @ [DQ]"
    "quote_string ''attestation_schema'' = DQ # ''attestation_schema'' @ [DQ]"
    by (rule quote_plain, simp add: plain_text_def ord_def)+
  have a: "\<exists>a. drop 2 demo_tool_bytes = ''interpreter'' @ a"
    unfolding demo_tool_bytes_def demo_tools_value_def by (rule compact_key[OF q(1)])
  have b: "\<exists>a. drop 2 demo_source_bytes = ''baseline'' @ a"
    unfolding demo_source_bytes_def demo_source_value_def by (rule compact_key[OF q(2)])
  have c: "\<exists>a. drop 2 (demo_lock_bytes asm_host) = ''attestation_schema'' @ a"
    unfolding demo_lock_bytes_def demo_lock_value_def by (rule compact_key[OF q(3)])
  from a b c
  show "demo_sha demo_tool_bytes = SPARSE_TOOL_LOCK_SHA256" "demo_sha demo_source_bytes = SOURCE_LOCK_SHA256"
    "demo_sha (demo_lock_bytes asm_host) = replicate 64 (CHR ''a'')" by (auto simp: demo_sha_def)
qed

text \<open>The three locks load.\<close>

lemma demo_tool_printable: "printable asm_host (JObj demo_tools_value)" "printable asm_host (JObj demo_source_value)"
proof -
  have "length (show_nat 52944896) \<le> max_digits" "length (show_nat 3436183552) \<le> max_digits"
    by (simp_all add: show_nat.simps max_digits_def)
  then show "printable asm_host (JObj demo_tools_value)" "printable asm_host (JObj demo_source_value)"
    using small_show sha_a_utf8
    by (simp_all add: demo_tools_value_def demo_tool_def sha_a_def demo_source_value_def D110_BOOT_SHA256_def D110_BOOT_SIZE_def
        D110_BOOT_UUID_def BASELINE_SHA256_def BASELINE_SIZE_def ascii_utf8_valid is_ascii_def ord_def)
qed

definition demo_locks :: locks where
  "demo_locks = \<lparr>l_tool = \<lparr>lock_value = demo_tools_value, lock_sha256 = SPARSE_TOOL_LOCK_SHA256\<rparr>, l_policy = demo_lock,
     l_source = [(''baseline_userdata_sha256'', JStr BASELINE_SHA256), (''baseline_userdata_size'', JInt BASELINE_SIZE),
        (''schema'', JStr ''lmi-p2-d114-terminal-source-lock/v1''), (''sha256'', JStr SOURCE_LOCK_SHA256)]\<rparr>"

lemma demo_tool_lock_loads: "load_sparse_tool_lock asm_host demo_tool_bytes = Inr (l_tool demo_locks)"
proof -
  have "loads asm_host demo_tool_bytes = Inr (JObj demo_tools_value)" "is_ascii demo_tool_bytes"
    unfolding demo_tool_bytes_def
    using loads_text[OF compact_jtext[OF demo_tool_printable(1)] compact_ascii[OF demo_tool_printable(1)]]
      compact_ascii[OF demo_tool_printable(1)] by (simp_all add: blanks_def json_ws_def)
  then show ?thesis
    by (simp add: load_sparse_tool_lock_def assembly_loads_def demo_digests demo_locks_def gate_def)
      (simp add: demo_tools_value_def same_fields_def py_eq_refl insert_commute)
qed

lemma demo_source_loads: "load_source_contract asm_host demo_source_bytes = Inr (l_source demo_locks)"
proof -
  have "assembly_json_object asm_host demo_source_bytes label = Inr demo_source_value" for label
    unfolding demo_source_bytes_def by (rule assembly_reads_compact[OF demo_tool_printable(2)])
  then show ?thesis
    by (simp add: load_source_contract_def load_json_input_def demo_digests demo_locks_def)
      (simp add: demo_source_value_def py_eq_refl gate_def)
qed

lemma demo_policy_loads: "load_injection_policy_lock asm_host (demo_lock_bytes asm_host) sha_a = Inr demo_lock"
  by (rule demo_lock_loads) (simp add: demo_digests sha_a_def)

section \<open>The files\<close>

definition demo_node :: "ftype \<Rightarrow> nat \<Rightarrow> nat \<Rightarrow> nat \<Rightarrow> bytes \<Rightarrow> node" where
  "demo_node ty perm ino size1 data = \<lparr>st = \<lparr>st_type = ty, st_perm = perm, st_nlink = (if ty = F_DIR then 2 else 1),
     st_uid = 1000, st_gid = 1000, st_dev = 0, st_ino = ino, st_size = size1, st_mtime = 0, st_ctime = 0\<rparr>, contents = data\<rparr>"

definition demo_store :: store where
  "demo_store =
     [([], demo_node F_DIR 448 1 0 []), ([''in''], demo_node F_DIR 448 2 0 []), ([''out''], demo_node F_DIR 448 3 0 []),
      ([''in'', ''p2''], demo_node F_REG 384 4 4096 small_p2),
      ([''in'', ''att''], demo_node F_REG 384 5 0 (demo_attestation asm_host)),
      ([''base''], demo_node F_REG 384 6 53248 small_disk),
      ([''tl''], demo_node F_REG 384 7 0 demo_tool_bytes), ([''pl''], demo_node F_REG 384 8 0 (demo_lock_bytes asm_host)),
      ([''sl''], demo_node F_REG 384 9 0 demo_source_bytes),
      ([''ld''], demo_node F_REG 384 10 1 ''x''), ([''i2s''], demo_node F_REG 384 11 1 ''x''), ([''s2i''], demo_node F_REG 384 12 1 ''x'')]"

lemma demo_node_simps [simp]:
  "contents (demo_node ty perm ino k d) = d" "st_type (st (demo_node ty perm ino k d)) = ty"
  "st_perm (st (demo_node ty perm ino k d)) = perm" "st_size (st (demo_node ty perm ino k d)) = k"
  "st_nlink (st (demo_node ty perm ino k d)) = (if ty = F_DIR then 2 else 1)"
  "st_uid (st (demo_node ty perm ino k d)) = 1000" "st_gid (st (demo_node ty perm ino k d)) = 1000"
  "st_dev (st (demo_node ty perm ino k d)) = 0" "st_ino (st (demo_node ty perm ino k d)) = ino"
  by (simp_all add: demo_node_def)

text \<open>The tools, and what they do to the files.\<close>

definition demo_put :: "path \<Rightarrow> bytes \<Rightarrow> store \<Rightarrow> nat option \<times> store" where
  "demo_put p data s = (if below [''out'', ''scr''] p \<and> find s p = None
     then (Some 0, AList.update p (demo_node F_REG 384 (length p) (length data) data) s) else (None, s))"

definition demo_exec :: "arg list \<Rightarrow> store \<Rightarrow> nat option \<times> store" where
  "demo_exec command s = (case command of
       [Fd t, Fd src, Text dst, Text k] \<Rightarrow> (case find s src of None \<Rightarrow> (None, s)
         | Some n \<Rightarrow> demo_put (p_parts (path_of_text dst)) (encode_sparse 0 [Raw (contents n)]) s)
     | [Fd t, Fd src, Text dst] \<Rightarrow> (case find s src of None \<Rightarrow> (None, s)
         | Some n \<Rightarrow> demo_put (p_parts (path_of_text dst)) (drop 40 (contents n)) s)
     | _ \<Rightarrow> (None, s))"

definition demo_env :: asm_env where
  "demo_env = \<lparr>e_host = asm_host, e_uid = 1000, e_gid = 1000, e_exec = demo_exec, e_scratch = ''scr'', e_accepts = [2, 3]\<rparr>"

definition abs_path :: "path \<Rightarrow> pypath" where
  "abs_path p = \<lparr>p_abs = True, p_parts = p\<rparr>"

definition demo_args :: asm_args where
  "demo_args = \<lparr>baseline_path = abs_path [''base''], p2_path = abs_path [''in'', ''p2''],
     p2_attestation_path = abs_path [''in'', ''att''], output_bundle = abs_path [''out'', ''b''], asm_policy = small_policy,
     tool_lock_path = abs_path [''tl''], source_lock_path = abs_path [''sl''], injection_policy_lock_path = abs_path [''pl''],
     test_only_bundle = True, test_only_sha256 = Some (replicate 64 (CHR ''a''))\<rparr>"

lemma demo_tools_honest: "tools_honest demo_env [''out'', ''scr'']"
proof -
  have "later q s (snd (demo_put p data s))" "\<not> below [''out'', ''scr''] q \<Longrightarrow> find (snd (demo_put p data s)) q = find s q"
    for p data s q
    by (auto simp: demo_put_def later_def)
  then show ?thesis
    by (auto simp: tools_honest_def demo_env_def demo_exec_def later.R_refl Let_def split: list.splits arg.splits option.splits)
qed

lemma demo_find [simp]:
  "find demo_store [] = Some (demo_node F_DIR 448 1 0 [])" "find demo_store [''in''] = Some (demo_node F_DIR 448 2 0 [])"
  "find demo_store [''out''] = Some (demo_node F_DIR 448 3 0 [])"
  "find demo_store [''in'', ''p2''] = Some (demo_node F_REG 384 4 4096 small_p2)"
  "find demo_store [''in'', ''att''] = Some (demo_node F_REG 384 5 0 (demo_attestation asm_host))"
  "find demo_store [''base''] = Some (demo_node F_REG 384 6 53248 small_disk)"
  "find demo_store [''tl''] = Some (demo_node F_REG 384 7 0 demo_tool_bytes)"
  "find demo_store [''pl''] = Some (demo_node F_REG 384 8 0 (demo_lock_bytes asm_host))"
  "find demo_store [''sl''] = Some (demo_node F_REG 384 9 0 demo_source_bytes)"
  "find demo_store [''ld''] = Some (demo_node F_REG 384 10 1 ''x'')"
  "find demo_store [''i2s''] = Some (demo_node F_REG 384 11 1 ''x'')"
  "find demo_store [''s2i''] = Some (demo_node F_REG 384 12 1 ''x'')"
  "find demo_store (''out'' # x # p) = None"
  by (simp_all add: find_def demo_store_def)

lemma demo_env_simps [simp]: "e_host demo_env = asm_host" "e_uid demo_env = 1000" "e_gid demo_env = 1000"
  "e_exec demo_env = demo_exec" "e_scratch demo_env = ''scr''" "e_accepts demo_env = [2, 3]"
  by (simp_all add: demo_env_def)

lemma demo_caller: "check_caller demo_env demo_args = Inr sha_a"
proof -
  have "small_policy \<noteq> PRODUCTION_POLICY" by (simp add: small_policy_def PRODUCTION_POLICY_def)
  moreover have "baseline_size small_policy \<le> TEST_FIXTURE_MAX_BYTES" "p2_size small_policy \<le> TEST_FIXTURE_MAX_BYTES"
    by (simp_all add: small_policy_def TEST_FIXTURE_MAX_BYTES_def)
  ultimately show ?thesis
    using sha_a_valid by (simp add: check_caller_def demo_args_def gate_def sha_a_def)
qed

lemma demo_paths:
  "require_p2_bundle_paths demo_store (p2_path demo_args) (p2_attestation_path demo_args) True = Inr [''in'']"
  "require_output_bundle_path demo_store (output_bundle demo_args) = Inr ([''out''], [''out'', ''b''])"
  by (simp_all add: require_p2_bundle_paths_def require_output_bundle_path_def demo_args_def abs_path_def canonical_path_def
      parent_path_def path_name_def is_dir_def gate_def upt_rec)

lemma demo_load_locks: "load_locks demo_env demo_args sha_a demo_store = Inr demo_locks"
proof -
  have "read_input (tool_lock_path demo_args) l demo_store = Inr demo_tool_bytes"
    "read_input (injection_policy_lock_path demo_args) l demo_store = Inr (demo_lock_bytes asm_host)"
    "read_input (source_lock_path demo_args) l demo_store = Inr demo_source_bytes" for l
    by (simp_all add: read_input_def open_file_def unchanged_def gate_def demo_args_def abs_path_def)
  then show ?thesis
    using demo_tool_lock_loads demo_source_loads demo_policy_loads sha_a_valid
    by (simp add: load_locks_def gate_def) (simp add: demo_locks_def)
qed

section \<open>The run, without faults\<close>

definition at :: "store \<Rightarrow> nat \<Rightarrow> stage" where
  "at s k = \<lparr>store = s, stage_faults = [], stage_clock = k\<rparr>"

lemma run_basic:
  "callS g (at s k) = (Inr (), at (g k s) (Suc k))" "readS q (at s k) = (q s, at s k)" "liftS r (at s k) = (r, at s k)"
  "retS x (at s k) = (Inr x, at s k)" "syncS (at s k) = (Inr (), at s (Suc k))"
  "fillS p data (at s k) = (Inr (), at (append_at p data k s) (Suc k))"
  "chmodS p perm (at s k) = (Inr (), at (chmod_at p perm k s) (Suc k))"
  "exec_tool env c (at s k) = (Inr (fst (e_exec env c s)), at (snd (e_exec env c s)) k)"
  by (simp_all add: at_def callS_def readS_def liftS_def retS_def syncS_def fillS_def chmodS_def exec_tool_def Let_def
      split: prod.splits)

lemma run_create:
  "find s p = None \<Longrightarrow> is_dir s (butlast p) \<Longrightarrow> createS h p ty perm (at s k) = (Inr (), at (add_entry h p ty perm k s) (Suc k))"
  by (simp add: createS_def run_basic) (simp add: at_def)

lemma run_unlink: "find s p \<noteq> None \<Longrightarrow> unlinkS p (at s k) = (Inr (), at (remove_at p id k s) (Suc k))"
  by (simp add: unlinkS_def run_basic) (simp add: at_def)

lemma run_rmdir:
  "is_dir s p \<Longrightarrow> listdir s p = [] \<Longrightarrow> rmdirS p (at s k) = (Inr (), at (remove_at p (\<lambda>n. n - 1) k s) (Suc k))"
  by (simp add: rmdirS_def run_basic) (simp add: at_def)

lemma run_bind: "m w = (Inr x, w1) \<Longrightarrow> bindS m f w = f x w1"
  by (simp add: bindS_def)

lemma run_error: "m w = (Inr x, w1) \<Longrightarrow> as_assembly_error why m w = (Inr x, w1)"
  by (simp add: as_assembly_error_def)

lemma run_held:
  "opening s = Inr f \<Longrightarrow> body f (at s k) = (Inr r, at s' k') \<Longrightarrow> unchanged f s' = Inr () \<Longrightarrow>
     with_held opening body (at s k) = (Inr r, at s' k')"
  by (simp add: with_held_def bindS_def run_basic)

lemma run_write:
  assumes "find s p = None" "is_dir s (butlast p)"
  shows "write_private h p data (at s k) =
     (Inr (), at (chmod_at p 384 (k + 3) (append_at p data (k + 1) (add_entry h p F_REG 384 k s))) (k + 4))"
  using run_create[OF assms] by (simp add: write_private_def create_private_file_def bindS_def run_error run_basic eval_nat_numeral)

section \<open>The images\<close>

definition demo_raw :: bytes where "demo_raw = compose small_disk small_p2 small_policy"
definition demo_sparse :: bytes where "demo_sparse = encode_sparse 0 [Raw demo_raw]"

lemma demo_lengths: "length small_disk = 53248" "length small_p2 = 4096" "length demo_raw = 53248"
proof -
  show d: "length small_disk = 53248" using small_canonical by (simp add: canonical_gpt_def small_policy_def)
  show p: "length small_p2 = 4096" using validate_p2_size[OF small_p2_valid] by (simp add: small_policy_def)
  show "length demo_raw = 53248"
    using compose_length[OF small_policy_ok, of small_disk small_p2] d p by (simp add: demo_raw_def small_policy_def)
qed

lemma demo_image_digests:
  "demo_sha small_disk = replicate 64 (CHR ''a'')" "demo_sha small_p2 = replicate 64 (CHR ''a'')"
  "demo_sha demo_raw = replicate 64 (CHR ''a'')" "demo_sha ''x'' = replicate 64 (CHR ''a'')"
proof -
  have d: "small_disk ! 2 = NUL" by (simp add: small_disk_def gpt_head_def encode_pmbr_def nth_append)
  have "demo_raw ! 2 = NUL"
    using d demo_lengths by (simp add: demo_raw_def compose_def nth_append p2_offset_def small_policy_def SECTOR_SIZE_def)
  moreover have "CHR ''i'' \<noteq> NUL" "CHR ''b'' \<noteq> NUL" by (simp_all flip: ord_eq_0_iff add: ord_def)
  moreover have "small_p2 ! 2 = NUL" by (simp add: small_p2_def nth_append)
  ultimately show "demo_sha small_disk = replicate 64 (CHR ''a'')" "demo_sha small_p2 = replicate 64 (CHR ''a'')"
    "demo_sha demo_raw = replicate 64 (CHR ''a'')" "demo_sha ''x'' = replicate 64 (CHR ''a'')"
    using d demo_lengths demo_sha_other[of small_disk] demo_sha_other[of small_p2] demo_sha_other[of demo_raw]
    by (auto simp: demo_sha_short)
qed

lemma demo_copies: "copy_then_pwrite [2, 3] small_disk small_p2 small_policy = Inr demo_raw"
  using copy_then_pwrite_returns[OF _ small_policy_ok, of "[2, 3]" small_disk small_p2] demo_lengths
  by (simp add: progressing_def demo_raw_def small_policy_def)

lemma demo_verified:
  "\<exists>ev. verify_composition_readers asm_host small_disk small_p2 demo_raw small_policy True = Inr ev \<and>
     str_val (fld ev ''raw_sha256'') = replicate 64 (CHR ''a'')"
proof -
  have "sha256 asm_host small_disk = baseline_sha256 small_policy"
    using demo_image_digests by (simp add: small_policy_def)
  from verify_complete[OF small_policy_ok small_fits small_canonical small_p2_valid this]
  obtain ev where "verify_composition_readers asm_host small_disk small_p2 demo_raw small_policy True = Inr ev"
    by (auto simp: verify_composition_def demo_raw_def res_iff)
  with verify_raw_sha256[OF this] demo_image_digests show ?thesis by simp
qed

lemma demo_sparse_ok: "sparse_ok 0 [Raw demo_raw]"
proof -
  have "demo_raw \<noteq> []" using demo_lengths by auto
  then show ?thesis by (simp add: sparse_ok_def demo_lengths)
qed

lemma demo_sparse_parses:
  "parse_sparse_reader asm_host demo_sparse 53248 (replicate 64 (CHR ''a'')) = Inr (sparse_report asm_host 0 [Raw demo_raw])"
  unfolding demo_sparse_def by (rule sparse_complete[OF demo_sparse_ok]) (simp_all add: demo_lengths demo_image_digests)

lemma demo_sparse_expands: "drop 40 demo_sparse = demo_raw"
proof -
  have "drop 40 demo_sparse = drop 12 (drop 28 demo_sparse)" by simp
  also have "drop 28 demo_sparse = encode_chunks 0 [Raw demo_raw]" by (simp add: demo_sparse_def encode_sparse_def)
  finally show ?thesis by (simp add: encode_chunk_def)
qed

section \<open>Staging and conversion\<close>

abbreviation "scr \<equiv> [''out'', ''scr'']"
abbreviation "pb \<equiv> [''out'', ''scr'', ''publish.bundle'']"
abbreviation "raw_file \<equiv> [''out'', ''scr'', ''publish.bundle'', ''userdata.raw'']"
abbreviation "sparse_file \<equiv> [''out'', ''scr'', ''publish.bundle'', ''userdata.android-sparse.img'']"
abbreviation "rt_file \<equiv> [''out'', ''scr'', ''roundtrip.raw'']"

definition s1 :: store where
  "s1 = add_entry asm_host pb F_DIR 448 102 (chmod_at scr 448 101 (add_entry asm_host scr F_DIR 448 100 demo_store))"
definition s2 :: store where
  "s2 = chmod_at raw_file 384 106 (append_at raw_file demo_raw 104 (add_entry asm_host raw_file F_REG 384 103 s1))"
definition s3 :: store where
  "s3 = chmod_at sparse_file 384 107 (AList.update sparse_file (demo_node F_REG 384 4 (length demo_sparse) demo_sparse) s2)"
definition s4 :: store where
  "s4 = chmod_at rt_file 384 109 (AList.update rt_file (demo_node F_REG 384 3 (length demo_raw) demo_raw) s3)"

lemma demo_text_paths:
  "p_parts (path_of_text (''/'' @ join_with ''/'' sparse_file)) = sparse_file"
  "p_parts (path_of_text (''/'' @ join_with ''/'' rt_file)) = rt_file"
  "path_of_text ''/ld'' = abs_path [''ld'']" "path_of_text ''/i2s'' = abs_path [''i2s'']" "path_of_text ''/s2i'' = abs_path [''s2i'']"
  by code_simp+

definition demo_tool_held :: "string \<Rightarrow> nat \<Rightarrow> held" where
  "demo_tool_held nm ino = \<lparr>held_path = [nm], held_stat = st (demo_node F_REG 384 ino 1 ''x''), held_data = ''x''\<rparr>"

definition demo_toolchain :: toolchain where
  "demo_toolchain = [(''/ld'', demo_tool_held ''ld'' 10), (''/i2s'', demo_tool_held ''i2s'' 11), (''/s2i'', demo_tool_held ''s2i'' 12)]"

text \<open>The files outside the output directory stay as they are.\<close>

definition outside_same :: "store \<Rightarrow> bool" where
  "outside_same s \<longleftrightarrow> (\<forall>q. q = [] \<or> hd q \<noteq> ''out'' \<longrightarrow> find s q = find demo_store q)"

lemma outside: "outside_same s1" "outside_same s2" "outside_same s3" "outside_same s4"
  by (auto simp: outside_same_def s1_def s2_def s3_def s4_def)

lemma outsideD: "outside_same s \<Longrightarrow> hd q \<noteq> ''out'' \<Longrightarrow> find s q = find demo_store q"
  by (simp add: outside_same_def)

lemma demo_open_tool:
  assumes "outside_same s" "nm \<in> {''ld'', ''i2s'', ''s2i''}"
    and "d = demo_tool (''/'' @ nm) \<or> d = (''dynamic'', JBool False) # demo_tool (''/'' @ nm)"
    and "find demo_store [nm] = Some (demo_node F_REG 384 ino 1 ''x'')"
  shows "open_pinned asm_host s fs (JObj d) = Inr (AList.update (''/'' @ nm) (demo_tool_held nm ino) fs)"
proof -
  have f: "find s [nm] = Some (demo_node F_REG 384 ino 1 ''x'')" "find s [] = find demo_store []"
    using assms(1,2,4) by (auto simp: outside_same_def)
  have p: "path_of_text (''/'' @ nm) = abs_path [nm]" using assms(2) demo_text_paths by auto
  have nd: "nm \<noteq> ''..''" using assms(2) by auto
  have sha: "is_sha256_hex (replicate 64 (CHR ''a''))" using sha_a_valid by (simp add: valid_sha256_def sha_a_def)
  have d: "fld d ''path'' = JStr (''/'' @ nm)" "fld d ''sha256'' = sha_a" "fld d ''size'' = JInt 1"
    using assms(3) by (auto simp: demo_tool_def fld_def)
  have fields: "same_fields d [''path'', ''sha256'', ''size''] \<or> same_fields d [''dynamic'', ''path'', ''sha256'', ''size'']"
    using assms(3) by (elim disjE) (simp_all add: demo_tool_def same_fields_def)
  have c: "canonical_path s (abs_path [nm])"
    using f nd by (simp add: canonical_path_def abs_path_def is_dir_def)
  have o: "open_file [nm] l (Some 1) s = Inr (demo_tool_held nm ino)" for l
    using f(1) by (simp add: open_file_def gate_def demo_tool_held_def)
  have t: "demo_sha (held_data (demo_tool_held nm ino)) = replicate 64 (CHR ''a'')"
    "st_perm (held_stat (demo_tool_held nm ino)) = 384" using demo_image_digests(4) by (simp_all add: demo_tool_held_def)
  have parts: "p_parts (abs_path [nm]) = [nm]" by (simp add: abs_path_def)
  show ?thesis
    unfolding open_pinned_def Let_def obj_val.simps d sha_a_def str_val.simps p parts
    using fields sha c o f(1) t by (simp add: gate_def positive_int_def)
qed

lemma demo_toolchain_opens: "outside_same s \<Longrightarrow> toolchain_open asm_host (l_tool demo_locks) s = Inr demo_toolchain"
proof -
  assume s: "outside_same s"
  note open1 = demo_open_tool[OF s, of "''ld''"] demo_open_tool[OF s, of "''i2s''"] demo_open_tool[OF s, of "''s2i''"]
  show ?thesis
    using open1 by (simp add: toolchain_open_def demo_locks_def demo_tools_value_def json_items_def demo_toolchain_def)
qed

lemma demo_toolchain_stays: "outside_same s \<Longrightarrow> toolchain_unchanged demo_toolchain s = Inr ()"
  by (simp add: toolchain_unchanged_def demo_toolchain_def demo_tool_held_def unchanged_def outsideD gate_def)

lemma demo_commands_run:
  "tool_command (l_tool demo_locks) ''img2simg'' args = Inr (Fd [''i2s''] # args)"
  "tool_command (l_tool demo_locks) ''simg2img'' args = Inr (Fd [''s2i''] # args)"
  using demo_text_paths
  by (simp_all add: tool_command_def demo_locks_def demo_tools_value_def demo_tool_def truthy_json_def fld_def abs_path_def)

definition demo_file :: "nat \<Rightarrow> nat \<Rightarrow> nat \<Rightarrow> bytes \<Rightarrow> node" where
  "demo_file ino written now data = \<lparr>st = \<lparr>st_type = F_REG, st_perm = 384, st_nlink = 1, st_uid = 1000, st_gid = 1000,
     st_dev = 0, st_ino = ino, st_size = length data, st_mtime = written, st_ctime = now\<rparr>, contents = data\<rparr>"

lemma written_file:
  "find (chmod_at p 384 (k + 3) (append_at p data (k + 1) (add_entry asm_host p F_REG 384 k s))) p =
     Some (demo_file k (k + 1) (k + 3) data)"
  by (simp add: new_node_def fresh_stat_def append_node_def demo_file_def)

lemma find_s2:
  "find s2 raw_file = Some (demo_file 103 104 106 demo_raw)" "find s2 sparse_file = None" "find s2 rt_file = None"
  by (simp_all add: s2_def s1_def demo_file_def new_node_def fresh_stat_def append_node_def)

lemma find_s3:
  "find s3 raw_file = Some (demo_file 103 104 106 demo_raw)" "find s3 sparse_file = Some (demo_file 4 0 107 demo_sparse)"
  "find s3 rt_file = None"
  using find_s2 by (simp_all add: s3_def demo_file_def demo_node_def)

lemma find_s4:
  "find s4 raw_file = Some (demo_file 103 104 106 demo_raw)" "find s4 sparse_file = Some (demo_file 4 0 107 demo_sparse)"
  "find s4 rt_file = Some (demo_file 3 0 109 demo_raw)"
  using find_s3 by (simp_all add: s4_def demo_file_def demo_node_def)

lemma demo_img2simg:
  "run_tool demo_env (l_tool demo_locks) demo_toolchain ''img2simg''
     [Fd raw_file, Text (''/'' @ join_with ''/'' sparse_file), Text ''4096''] (at s2 k) =
   (Inr (), at (AList.update sparse_file (demo_node F_REG 384 4 (length demo_sparse) demo_sparse) s2) k)"
  (is "_ = (_, at ?t k)")
proof -
  have "outside_same ?t" using outside(2) by (simp add: outside_same_def)
  moreover have "demo_exec [Fd [''i2s''], Fd raw_file, Text (''/'' @ join_with ''/'' sparse_file), Text ''4096''] s2 = (Some 0, ?t)"
    by (simp add: demo_exec_def find_s2 demo_put_def demo_text_paths[simplified] below_def demo_sparse_def[symmetric] demo_file_def eval_nat_numeral)
  ultimately show ?thesis
    by (simp add: run_tool_def bindS_def run_basic demo_commands_run demo_toolchain_stays gate_def)
qed

lemma demo_simg2img:
  "run_tool demo_env (l_tool demo_locks) demo_toolchain ''simg2img''
     [Fd sparse_file, Text (''/'' @ join_with ''/'' rt_file)] (at s3 k) =
   (Inr (), at (AList.update rt_file (demo_node F_REG 384 3 (length demo_raw) demo_raw) s3) k)"
  (is "_ = (_, at ?t k)")
proof -
  have "outside_same ?t" using outside(3) by (simp add: outside_same_def)
  moreover have "demo_exec [Fd [''s2i''], Fd sparse_file, Text (''/'' @ join_with ''/'' rt_file)] s3 = (Some 0, ?t)"
    using demo_sparse_expands
    by (simp add: demo_exec_def find_s3 demo_put_def demo_text_paths[simplified] below_def demo_file_def eval_nat_numeral)
  ultimately show ?thesis
    by (simp add: run_tool_def bindS_def run_basic demo_commands_run demo_toolchain_stays gate_def)
qed

definition held_of :: "path \<Rightarrow> node \<Rightarrow> held" where
  "held_of p n = \<lparr>held_path = p, held_stat = st n, held_data = contents n\<rparr>"

lemma held_of_simps [simp]: "held_path (held_of p n) = p" "held_data (held_of p n) = contents n" "held_stat (held_of p n) = st n"
  by (simp_all add: held_of_def)

lemma demo_file_simps [simp]:
  "contents (demo_file i m c d) = d" "st_type (st (demo_file i m c d)) = F_REG" "st_nlink (st (demo_file i m c d)) = 1"
  "st_size (st (demo_file i m c d)) = length d" "st_perm (st (demo_file i m c d)) = 384" "st_uid (st (demo_file i m c d)) = 1000"
  "st_gid (st (demo_file i m c d)) = 1000" "st_dev (st (demo_file i m c d)) = 0" "st_ino (st (demo_file i m c d)) = i"
  by (simp_all add: demo_file_def)

lemma opens:
  "find s p = Some n \<Longrightarrow> st_type (st n) = F_REG \<Longrightarrow> st_nlink (st n) = 1 \<Longrightarrow>
     k = None \<or> k = Some (st_size (st n)) \<Longrightarrow> open_file p label k s = Inr (held_of p n)"
  by (auto simp: open_file_def gate_def held_of_def)

lemma stays: "find s p = Some n \<Longrightarrow> unchanged (held_of p n) s = Inr ()"
  by (simp add: unchanged_def gate_def)

lemma run_held_file:
  assumes "find s p = Some n" "st_type (st n) = F_REG" "st_nlink (st n) = 1" "k = None \<or> k = Some (st_size (st n))"
    and "body (held_of p n) (at s c) = (Inr r, at s' c')" "find s' p = Some n"
  shows "with_held (open_file p label k) body (at s c) = (Inr r, at s' c')"
  by (rule run_held[where f = "held_of p n"]) (use assms opens stays in auto)

lemma syncs:
  "find s p = Some n \<Longrightarrow> st_type (st n) = F_REG \<Longrightarrow> st_nlink (st n) = 1 \<Longrightarrow>
     fsync_regular p label (at s k) = (Inr (), at s (Suc k))"
  by (simp add: fsync_regular_def bindS_def run_basic gate_def run_error)

lemma demo_args_simps [simp]: "asm_policy demo_args = small_policy" "test_only_bundle demo_args = True"
  "baseline_size small_policy = 53248" "p2_size small_policy = 4096" "baseline_sha256 small_policy = replicate 64 (CHR ''a'')"
  by (simp_all add: demo_args_def) (simp_all add: small_policy_def)

lemma demo_parse_and_expand:
  "parse_and_expand demo_env demo_args (l_tool demo_locks) demo_toolchain (replicate 64 (CHR ''a'')) sparse_file rt_file (at s3 109) =
     (Inr (sparse_report asm_host 0 [Raw demo_raw]),
      at (AList.update rt_file (demo_node F_REG 384 3 (length demo_raw) demo_raw) s3) 109)"
  unfolding parse_and_expand_def
proof (rule run_held_file[OF find_s3(2)])
  show "bindS (liftS (parse_sparse_reader (e_host demo_env) (held_data (held_of sparse_file (demo_file 4 0 107 demo_sparse)))
        (baseline_size (asm_policy demo_args)) (replicate 64 (CHR ''a'')))) (\<lambda>report.
      bindS (run_tool demo_env (l_tool demo_locks) demo_toolchain ''simg2img''
        [Fd (held_path (held_of sparse_file (demo_file 4 0 107 demo_sparse))), Text (''/'' @ join_with ''/'' rt_file)]) (\<lambda>_.
      retS report)) (at s3 109) =
    (Inr (sparse_report asm_host 0 [Raw demo_raw]),
      at (AList.update rt_file (demo_node F_REG 384 3 (length demo_raw) demo_raw) s3) 109)"
    using demo_simg2img[of 109] by (simp add: bindS_def run_basic demo_sparse_parses)
qed (simp_all add: find_s3)

lemma demo_compare_expanded:
  assumes "verify_composition_readers asm_host small_disk small_p2 demo_raw small_policy True = Inr ev"
    and "held_data baseline = small_disk" "held_data p2 = small_p2" "held_data raw = demo_raw"
  shows "compare_expanded demo_env demo_args baseline p2 raw (replicate 64 (CHR ''a'')) rt_file
     (at (AList.update rt_file (demo_node F_REG 384 3 (length demo_raw) demo_raw) s3) 109) = (Inr ev, at s4 111)"
proof -
  have same: "assert_byte_identical demo_raw demo_raw l = Inr ()" for l
    by (simp add: assert_byte_identical_def gate_def compare_ranges_iff)
  have body: "with_held (open_file rt_file ''sparse round-trip raw'' (Some 53248)) (\<lambda>expanded.
      bindS (liftS (gate (demo_sha (held_data expanded) = replicate 64 (CHR ''a'')) ''sparse round-trip raw SHA256 mismatch'')) (\<lambda>_.
      bindS (liftS (assert_byte_identical (held_data raw) (held_data expanded) ''sparse round-trip cmp'')) (\<lambda>_.
      liftS (verify_composition_readers asm_host (held_data baseline) (held_data p2) (held_data expanded) small_policy True))))
      (at s4 k) = (Inr ev, at s4 k)" for k
    by (rule run_held_file[OF find_s4(3)])
      (simp_all add: assms same bindS_def run_basic demo_lengths demo_image_digests gate_def find_s4)
  have s4: "chmod_at rt_file 384 109 (AList.update rt_file (demo_node F_REG 384 3 (length demo_raw) demo_raw) s3) = s4"
    by (simp only: s4_def)
  show ?thesis
    unfolding compare_expanded_def require_regular_def Let_def
    using body[of 111] by (simp add: bindS_def run_basic is_regular_def gate_def s4 syncs[OF find_s4(3)])
qed

lemma demo_round_trip:
  assumes "verify_composition_readers asm_host small_disk small_p2 demo_raw small_policy True = Inr ev"
    and "held_data baseline = small_disk" "held_data p2 = small_p2" "held_data raw = demo_raw" "held_path raw = raw_file"
  shows "sparse_round_trip demo_env demo_args demo_locks baseline p2 raw (replicate 64 (CHR ''a'')) sparse_file rt_file (at s2 107) =
     (Inr (sparse_report asm_host 0 [Raw demo_raw], ev), at s4 111)"
proof -
  have s3: "chmod_at sparse_file 384 107 (AList.update sparse_file (demo_node F_REG 384 4 (length demo_sparse) demo_sparse) s2) = s3"
    by (simp only: s3_def)
  show ?thesis
    unfolding sparse_round_trip_def require_regular_def assms(5)
    using demo_compare_expanded[OF assms(1-4)] demo_parse_and_expand demo_img2simg[of 107]
    by (simp add: bindS_def run_basic demo_toolchain_opens outside is_regular_def gate_def s3 syncs[OF find_s3(2)]
        demo_toolchain_stays)
qed

definition s5 :: store where
  "s5 = remove_at rt_file id 111 s4"

lemma demo_verify_and_convert:
  assumes "verify_composition_readers asm_host small_disk small_p2 demo_raw small_policy True = Inr ev"
    and "held_data baseline = small_disk" "held_data p2 = small_p2"
  shows "verify_and_convert demo_env demo_args demo_locks baseline p2 raw_file sparse_file rt_file (at s2 107) =
     (Inr (ev, sparse_report asm_host 0 [Raw demo_raw], ev), at s4 111)"
  unfolding verify_and_convert_def
proof (rule run_held_file[OF find_s2(1)])
  let ?f = "held_of raw_file (demo_file 103 104 106 demo_raw)"
  have "str_val (fld ev ''raw_sha256'') = replicate 64 (CHR ''a'')"
    using verify_raw_sha256[OF assms(1)] demo_image_digests by simp
  then show "bindS (liftS (verify_composition_readers (e_host demo_env) (held_data baseline) (held_data p2) (held_data ?f)
        (asm_policy demo_args) True)) (\<lambda>raw_ev.
      bindS (sparse_round_trip demo_env demo_args demo_locks baseline p2 ?f (str_val (fld raw_ev ''raw_sha256'')) sparse_file rt_file)
        (\<lambda>(report, expanded_ev). retS (raw_ev, report, expanded_ev))) (at s2 107) =
      (Inr (ev, sparse_report asm_host 0 [Raw demo_raw], ev), at s4 111)"
    using assms demo_round_trip[OF assms, of ?f] by (simp add: bindS_def run_basic)
qed (simp_all add: find_s4 demo_lengths)

lemma demo_stage_copy:
  assumes "held_data baseline = small_disk" "held_data p2 = small_p2"
  shows "stage_copy demo_env baseline p2 raw_file small_policy (at s1 103) = (Inr (), at s2 107)"
proof -
  have "find s1 raw_file = None" "is_dir s1 pb"
    by (simp_all add: s1_def is_dir_def new_node_def fresh_stat_def)
  then show ?thesis
    by (simp add: stage_copy_def create_private_file_def bindS_def run_create run_error run_basic assms demo_copies s2_def)
qed

text \<open>The attestations are written.\<close>

abbreviation "inj_file \<equiv> [''out'', ''scr'', ''publish.bundle'', ''injection-attestation.json'']"
abbreviation "asm_file \<equiv> [''out'', ''scr'', ''publish.bundle'', ''assembly-attestation.json'']"

definition s6 :: "bytes \<Rightarrow> bytes \<Rightarrow> store" where
  "s6 i t = chmod_at asm_file 384 119 (append_at asm_file t 117 (add_entry asm_host asm_file F_REG 384 116
     (chmod_at inj_file 384 115 (append_at inj_file i 113 (add_entry asm_host inj_file F_REG 384 112 s5)))))"

lemma demo_stage_images:
  assumes "held_data baseline = small_disk" "held_data p2 = small_p2"
  shows "\<exists>att. stage_images demo_env demo_args demo_locks scr p2 p2_fs sha injection baseline (at s1 103) =
     (Inr att, at (s6 (att_payload injection) (assembly_canonical_json asm_host att)) 120)"
proof -
  obtain ev where ev: "verify_composition_readers asm_host small_disk small_p2 demo_raw small_policy True = Inr ev"
    using demo_verified by blast
  have x: "unlinkS rt_file (at s4 111) = (Inr (), at s5 112)"
    using run_unlink[of s4 rt_file 111] by (simp add: find_s4 s5_def)
  have d: "is_dir s5 pb" "find s5 inj_file = None" "find s5 asm_file = None"
    by (simp_all add: s5_def s4_def s3_def s2_def s1_def is_dir_def new_node_def fresh_stat_def)
  let ?i = "chmod_at inj_file 384 115 (append_at inj_file (att_payload injection) 113 (add_entry asm_host inj_file F_REG 384 112 s5))"
  have wi: "write_private asm_host inj_file (att_payload injection) (at s5 112) = (Inr (), at ?i 116)"
    using run_write[of s5 inj_file asm_host "att_payload injection" 112] d by simp
  have wa: "write_private asm_host asm_file t (at ?i 116) = (Inr (), at (s6 (att_payload injection) t) 120)" for t
  proof -
    have "find ?i asm_file = None" "is_dir ?i (butlast asm_file)"
      using d by (auto simp: is_dir_def split: option.splits)
    from run_write[OF this] show ?thesis by (simp add: s6_def)
  qed
  show ?thesis
    unfolding stage_images_def Let_def
    using demo_verify_and_convert[OF ev assms] demo_stage_copy[OF assms] x wi wa small_gpt[of demo_sha]
    by (simp add: bindS_def run_basic assms demo_image_digests gate_def output_names)
qed

section \<open>Sealing and publication\<close>

abbreviation "bundle_path \<equiv> [''out'', ''b'']"

lemma find_s6:
  "find (s6 i t) raw_file = Some (demo_file 103 104 106 demo_raw)" "find (s6 i t) sparse_file = Some (demo_file 4 0 107 demo_sparse)"
  "find (s6 i t) inj_file = Some (demo_file 112 113 115 i)" "find (s6 i t) asm_file = Some (demo_file 116 117 119 t)"
  "find (s6 i t) (''out'' # ''b'' # p) = None"
  using find_s4
  by (simp_all add: s6_def s5_def demo_file_def new_node_def fresh_stat_def append_node_def)
    (simp add: s4_def s3_def s2_def s1_def)

lemma find_s6_dirs:
  "\<exists>n. find (s6 i t) pb = Some n \<and> st_type (st n) = F_DIR \<and> metadata (st n) = (448, 1000, 1000) \<and> st_nlink (st n) = 2 \<and>
     st_dev (st n) = 0 \<and> st_ino (st n) = 102"
  "\<exists>n. find (s6 i t) scr = Some n \<and> st_type (st n) = F_DIR \<and> st_dev (st n) = 0 \<and> st_ino (st n) = 100"
  "\<exists>n. find (s6 i t) [''out''] = Some n \<and> st_type (st n) = F_DIR \<and> metadata (st n) = (448, 1000, 1000) \<and>
     st_dev (st n) = 0 \<and> st_ino (st n) = 3"
  by (simp_all add: s6_def s5_def s4_def s3_def s2_def s1_def new_node_def fresh_stat_def touched_def metadata_def)

lemma s6_inventory: "find (s6 i t) (''out'' # ''scr'' # ''publish.bundle'' # [nm]) \<noteq> None \<longleftrightarrow> nm \<in> set OUTPUT_BUNDLE_FILES"
  by (auto simp: s6_def s5_def s4_def s3_def s2_def s1_def OUTPUT_BUNDLE_FILES_def output_names split: if_splits)

lemma s6_scratch: "find (s6 i t) (''out'' # ''scr'' # [nm]) \<noteq> None \<longleftrightarrow> nm = ''publish.bundle''"
  by (auto simp: s6_def s5_def s4_def s3_def s2_def s1_def split: if_splits)

lemma demo_seal:
  "seal_staged_bundle asm_host pb (at (s6 i t) 120) =
     (Inr [(''.'', 0, 102), (OUTPUT_ASSEMBLY_ATTESTATION_NAME, 0, 116), (OUTPUT_INJECTION_ATTESTATION_NAME, 0, 112),
           (OUTPUT_SPARSE_NAME, 0, 4), (OUTPUT_RAW_NAME, 0, 103)], at (s6 i t) 125)"
proof -
  have sf: "seal_file asm_host pb nm (at (s6 i t) k) = (Inr (nm, 0, ino), at (s6 i t) (Suc k))"
    if "find (s6 i t) (pb @ [nm]) = Some (demo_file ino a c d)" for nm ino a c d k
    using that syncs[of "s6 i t" "pb @ [nm]"]
    by (simp add: seal_file_def bindS_def run_basic metadata_def gate_def Let_def)
  obtain n where n: "find (s6 i t) pb = Some n" "st_type (st n) = F_DIR" "metadata (st n) = (448, 1000, 1000)"
    "st_nlink (st n) = 2" "st_dev (st n) = 0" "st_ino (st n) = 102" using find_s6_dirs(1) by blast
  have "set (listdir (s6 i t) pb) = set OUTPUT_BUNDLE_FILES" using s6_inventory by (auto simp: set_listdir)
  then show ?thesis
    using n sf[of OUTPUT_ASSEMBLY_ATTESTATION_NAME] sf[of OUTPUT_INJECTION_ATTESTATION_NAME] sf[of OUTPUT_SPARSE_NAME]
      sf[of OUTPUT_RAW_NAME] find_s6
    by (simp add: seal_staged_bundle_def bindS_def run_basic gate_def Let_def OUTPUT_BUNDLE_FILES_def output_names)
qed

definition s7 :: "bytes \<Rightarrow> bytes \<Rightarrow> store" where
  "s7 i t = move_tree pb bundle_path 126 (s6 i t)"

lemma find_s7:
  "find (s7 i t) (''out'' # ''b'' # nm # p) = find (s6 i t) (''out'' # ''scr'' # ''publish.bundle'' # nm # p)"
  "find (s7 i t) bundle_path = find (s6 i t) pb"
  using find_move_tree[of pb bundle_path 126 "s6 i t" "nm # p"] find_move_tree[of pb bundle_path 126 "s6 i t" "[]"]
  by (simp_all add: s7_def)

lemma demo_publish:
  assumes "parent_identity = (0, 3, (F_DIR, 448), 1000, 1000)"
  shows "publish asm_host [''out''] parent_identity scr bundle_path (at (s6 i t) 120) = (Inr (), at (s7 i t) 129)"
proof -
  obtain n where n: "find (s6 i t) [''out''] = Some n" "st_type (st n) = F_DIR" "metadata (st n) = (448, 1000, 1000)"
    "st_dev (st n) = 0" "st_ino (st n) = 3" using find_s6_dirs(3) by blast
  have "directory_path_identity [''out''] (s6 i t) = Inr parent_identity"
    using n assms by (simp add: directory_path_identity_def gate_def metadata_def Let_def)
  moreover have "renameat2_noreplace pb bundle_path (at (s6 i t) 126) = (Inr (), at (s7 i t) 127)"
    using find_s6(5)[of i t "[]"] by (simp add: renameat2_noreplace_def run_basic run_error s7_def) (simp add: at_def)
  moreover have "verify_published_bundle bundle_path
      [(''.'', 0, 102), (OUTPUT_ASSEMBLY_ATTESTATION_NAME, 0, 116), (OUTPUT_INJECTION_ATTESTATION_NAME, 0, 112),
       (OUTPUT_SPARSE_NAME, 0, 4), (OUTPUT_RAW_NAME, 0, 103)] (s7 i t) = Inr ()"
  proof -
    obtain m where m: "find (s6 i t) pb = Some m" "st_type (st m) = F_DIR" "metadata (st m) = (448, 1000, 1000)"
      "st_nlink (st m) = 2" "st_dev (st m) = 0" "st_ino (st m) = 102" using find_s6_dirs(1) by blast
    have "set (listdir (s7 i t) bundle_path) = set OUTPUT_BUNDLE_FILES"
      using s6_inventory by (auto simp: set_listdir find_s7)
    then show ?thesis
      using m find_s6 by (simp add: verify_published_bundle_def find_s7 gate_def metadata_def Let_def output_names)
  qed
  ultimately show ?thesis
    using demo_seal[of i t] by (simp add: publish_def bindS_def run_basic gate_def)
qed

section \<open>The whole run\<close>

lemma outside_later: "outside_same (s6 i t)" "outside_same (s7 i t)"
proof -
  show 6: "outside_same (s6 i t)" using outside(4) by (auto simp: outside_same_def s6_def s5_def)
  have "find (s7 i t) q = find (s6 i t) q" if "q = [] \<or> hd q \<noteq> ''out''" for q
  proof -
    have "\<not> below bundle_path q" "\<not> below pb q" "q \<noteq> scr" "q \<noteq> [''out'']" using that by (auto simp: below_def prefix_def)
    then show ?thesis by (simp add: s7_def find_move_other)
  qed
  with 6 show "outside_same (s7 i t)" unfolding outside_same_def by metis
qed

lemma find_in: "outside_same s \<Longrightarrow> q = [] \<or> hd q \<noteq> ''out'' \<Longrightarrow> find s q = find demo_store q"
  unfolding outside_same_def by blast

definition s0 :: store where
  "s0 = chmod_at scr 448 101 (add_entry asm_host scr F_DIR 448 100 demo_store)"

lemma demo_inputs_held:
  assumes "outside_same s" "outside_same s'"
  shows "q \<in> {[''in''], [''in'', ''p2''], [''in'', ''att''], [''base'']} \<Longrightarrow> find s q = Some n \<Longrightarrow> find s' q = Some n"
  using assms by (auto simp: outside_same_def)

lemma demo_metadata:
  assumes "outside_same s" "held_path b = [''in'']" "held_stat b = st (demo_node F_DIR 448 2 0 [])"
    and "held_path p = [''in'', ''p2'']" "held_stat p = st (demo_node F_REG 384 4 4096 small_p2)"
    and "held_path a = [''in'', ''att'']" "held_stat a = st (demo_node F_REG 384 5 0 (demo_attestation asm_host))"
  shows "validate_p2_bundle_metadata demo_env s b p a True = Inr ()"
proof -
  have "nm \<in> set (listdir s [''in'']) \<longleftrightarrow> nm = ''p2'' \<or> nm = ''att''" for nm
    using find_in[OF assms(1), of "[''in'', nm]"] by (auto simp: set_listdir find_def demo_store_def)
  then have "set (listdir s [''in'']) = {''p2'', ''att''}" by blast
  then show ?thesis
    using assms by (simp add: validate_p2_bundle_metadata_def Let_def gate_def metadata_def)
qed

lemma demo_assemble_in:
  assumes "parent_identity = (0, 3, (F_DIR, 448), 1000, 1000)"
  shows "\<exists>att t. assemble_in demo_env demo_args demo_locks [''in''] [''out''] bundle_path parent_identity scr (at s0 102) =
     (Inr att, at (s7 (demo_attestation asm_host) t) 129)"
proof -
  let ?att = "demo_attestation asm_host"
  let ?b = "\<lparr>held_path = [''in''], held_stat = st (demo_node F_DIR 448 2 0 []), held_data = []\<rparr>"
  let ?p = "held_of [''in'', ''p2''] (demo_node F_REG 384 4 4096 small_p2)"
  let ?a = "held_of [''in'', ''att''] (demo_node F_REG 384 5 0 ?att)"
  let ?f = "held_of [''base''] (demo_node F_REG 384 6 53248 small_disk)"
  let ?ia = "\<lparr>att_value = demo_att_value, att_payload = ?att, att_sha256 = demo_sha ?att\<rparr>"
  have ia: "validate_injection_attestation asm_host 1000 ?att (replicate 64 (CHR ''a'')) small_policy demo_lock = Inr ?ia"
    using demo_attestation_ok[of asm_host] by simp
  obtain att where img: "stage_images demo_env demo_args demo_locks scr ?p (p2_evidence small_p2 1) (replicate 64 (CHR ''a'')) ?ia ?f
      (at s1 103) = (Inr att, at (s6 ?att (assembly_canonical_json asm_host att)) 120)"
    using demo_stage_images[of ?f ?p "p2_evidence small_p2 1" "replicate 64 (CHR ''a'')" ?ia] by auto
  define t where "t = assembly_canonical_json asm_host att"
  have mk: "createS asm_host pb F_DIR 448 (at s0 102) = (Inr (), at s1 103)"
    using run_create[of s0 pb asm_host F_DIR 448 102]
    by (simp add: s0_def s1_def is_dir_def new_node_def fresh_stat_def)
  have held: "with_held (open_file [''base''] ''baseline raw'' (Some 53248))
      (stage_images demo_env demo_args demo_locks scr ?p (p2_evidence small_p2 1) (replicate 64 (CHR ''a'')) ?ia) (at s1 103) =
      (Inr att, at (s6 ?att t) 120)"
  proof (rule run_held_file)
    show "stage_images demo_env demo_args demo_locks scr ?p (p2_evidence small_p2 1) (replicate 64 (CHR ''a'')) ?ia ?f (at s1 103) =
      (Inr att, at (s6 ?att t) 120)" using img by (simp only: t_def)
  qed (simp_all add: find_in[OF outside(1)] find_in[OF outside_later(1)])
  have stay: "unchanged ?a s = Inr ()" "unchanged ?p s = Inr ()" "unchanged ?b s = Inr ()" if "outside_same s" for s
    using find_in[OF that] by (simp_all add: unchanged_def gate_def)
  let ?core = "\<lambda>b p a. bindS (readS (\<lambda>s. validate_p2_bundle_metadata demo_env s b p a True)) (\<lambda>_.
        bindS (liftS (validate_p2 (held_data p) small_policy)) (\<lambda>blocks.
         bindS (liftS (validate_injection_attestation asm_host 1000 (held_data a) (demo_sha (held_data p)) small_policy demo_lock)) (\<lambda>injection.
         bindS (with_held (open_file [''base''] ''baseline raw'' (Some 53248))
                  (stage_images demo_env demo_args demo_locks scr p (p2_evidence (held_data p) blocks) (demo_sha (held_data p)) injection)) (\<lambda>attestation.
         bindS (readS (unchanged a)) (\<lambda>_.
         bindS (readS (unchanged p)) (\<lambda>_.
         bindS (readS (unchanged b)) (\<lambda>_.
         bindS (publish asm_host [''out''] parent_identity scr bundle_path) (\<lambda>_.
         retS attestation))))))))"
  have core: "?core ?b ?p ?a (at s1 103) = (Inr att, at (s7 ?att t) 129)"
    using demo_metadata[OF outside(1), of ?b ?p ?a] small_p2_valid ia held demo_publish[OF assms, of ?att t]
      stay[OF outside_later(1)]
    by (simp add: bindS_def run_basic demo_image_digests)
  have fin: "find s1 [''in''] = Some (demo_node F_DIR 448 2 0 [])" "find s1 [''in'', ''p2''] = Some (demo_node F_REG 384 4 4096 small_p2)"
    "find s1 [''in'', ''att''] = Some (demo_node F_REG 384 5 0 ?att)"
    "find (s7 ?att t) [''in'', ''p2''] = Some (demo_node F_REG 384 4 4096 small_p2)"
    "find (s7 ?att t) [''in'', ''att''] = Some (demo_node F_REG 384 5 0 ?att)"
    by (simp_all add: find_in[OF outside(1)] find_in[OF outside_later(2)])
  have h3: "with_held (open_file [''in'', ''att''] ''P2 injection attestation'' None) (?core ?b ?p) (at s1 103) =
      (Inr att, at (s7 ?att t) 129)"
    by (rule run_held_file[where n = "demo_node F_REG 384 5 0 ?att"]) (rule core fin | simp)+
  have h2: "with_held (open_file [''in'', ''p2''] ''P2 input'' (Some 4096)) (\<lambda>p.
      with_held (open_file [''in'', ''att''] ''P2 injection attestation'' None) (?core ?b p)) (at s1 103) =
      (Inr att, at (s7 ?att t) 129)"
    by (rule run_held_file[where n = "demo_node F_REG 384 4 4096 small_p2"]) (rule h3 fin | simp)+
  have h1: "with_held (open_dir [''in''] ''P2 input bundle'') (\<lambda>b. with_held (open_file [''in'', ''p2''] ''P2 input'' (Some 4096)) (\<lambda>p.
      with_held (open_file [''in'', ''att''] ''P2 injection attestation'' None) (?core b p))) (at s1 103) =
      (Inr att, at (s7 ?att t) 129)"
    by (rule run_held[where f = ?b], simp add: open_dir_def fin gate_def, rule h2, rule stay(3)[OF outside_later(2)])
  have args: "p_parts (p2_path demo_args) = [''in'', ''p2'']" "p_parts (p2_attestation_path demo_args) = [''in'', ''att'']"
    "p_parts (baseline_path demo_args) = [''base'']" "l_policy demo_locks = demo_lock"
    by (simp_all add: demo_args_def abs_path_def demo_locks_def)
  have "assemble_in demo_env demo_args demo_locks [''in''] [''out''] bundle_path parent_identity scr (at s0 102) =
     (Inr att, at (s7 ?att t) 129)"
    using h1 unfolding assemble_in_def Let_def by (simp only: args demo_args_simps demo_env_simps asm_host_simps append.simps
        run_bind[of "createS asm_host pb F_DIR 448" "at s0 102", OF mk])
  then show ?thesis by blast
qed

lemma demo_assembly_run: "\<exists>att s. assemble_userdata_image demo_env demo_args (at demo_store 100) = (Inr att, at s 131)"
proof -
  let ?id = "(0::nat, 3::nat, (F_DIR, 448::nat), 1000::nat, 1000::nat)"
  obtain att t where run: "assemble_in demo_env demo_args demo_locks [''in''] [''out''] bundle_path ?id scr (at s0 102) =
     (Inr att, at (s7 (demo_attestation asm_host) t) 129)" using demo_assemble_in by blast
  let ?s7 = "s7 (demo_attestation asm_host) t"
  have out0: "directory_path_identity [''out''] demo_store = Inr ?id" "directory_path_identity [''out''] s0 = Inr ?id"
    by (simp_all add: directory_path_identity_def gate_def Let_def s0_def new_node_def fresh_stat_def touched_def)
  have mk: "createS asm_host scr F_DIR 448 (at demo_store 100) = (Inr (), at (add_entry asm_host scr F_DIR 448 100 demo_store) 101)"
    using run_create[of demo_store scr asm_host F_DIR 448 100] by (simp add: is_dir_def)
  have id: "find s0 scr = Some n \<Longrightarrow> (st_dev (st n), st_ino (st n)) = (0, 100)" "find s0 scr \<noteq> None" for n
    by (auto simp: s0_def new_node_def fresh_stat_def)
  have "find ?s7 scr = find (touch 126 (\<lambda>n. n - 1) scr (touch 126 Suc [''out''] (s6 (demo_attestation asm_host) t))) scr"
    by (simp add: s7_def find_move_other below_def)
  then have dir: "is_dir ?s7 scr" using find_s6_dirs(2)[of "demo_attestation asm_host" t] by (auto simp: is_dir_def)
  have "find ?s7 (''out'' # ''scr'' # [nm]) = None" for nm
    using s6_scratch[of "demo_attestation asm_host" t nm] by (auto simp: s7_def find_move_other below_def)
  then have "nm \<notin> set (listdir ?s7 scr)" for nm by (simp add: set_listdir)
  then have empty: "listdir ?s7 scr = []" by (metis list.set_intros(1) neq_Nil_conv)
  have inside: "run_in_scratch demo_env demo_args demo_locks [''in''] [''out''] bundle_path ?id scr i (at s0 102) =
     (Inr att, at (remove_at scr (\<lambda>n. n - 1) 129 ?s7) 130)" for i
    using run run_rmdir[OF dir empty, of 129] out0
    by (simp add: run_in_scratch_def finallyS_def bindS_def run_basic gate_def run_error)
  have "assemble_bundle demo_env demo_args demo_locks [''in''] [''out''] bundle_path (at demo_store 100) =
     (Inr att, at (remove_at scr (\<lambda>n. n - 1) 129 ?s7) 131)"
    using mk id inside out0
    by (auto simp: assemble_bundle_def bindS_def run_basic is_dir_def Let_def s0_def[symmetric] split: option.splits)
  then have "assemble_userdata_image demo_env demo_args (at demo_store 100) = (Inr att, at (remove_at scr (\<lambda>n. n - 1) 129 ?s7) 131)"
    using demo_caller demo_paths demo_load_locks
    by (simp add: assemble_userdata_image_def bindS_def run_basic gate_def)
  then show ?thesis by blast
qed

end
