(* ===== verification/AssemblerProps.thy ===== *)
theory AssemblerProps
  imports AssemblerDemo
begin

text \<open>
  The properties of a whole run of the userdata assembler, with the run on the small disk.
\<close>

text \<open>C1: a run of the assembler publishes all or nothing.  When it returns, the output path holds
  exactly the four files of the bundle: the pinned baseline with the P2 file system in its
  partition, a sparse file that the parser accepts for that image, the injection attestation of
  the input, accepted for these very P2 bytes, and the attestation that was returned.  When it
  is refused, fails or is killed at any system call, either nothing is at the output path, or
  the complete bundle is, or the path was taken before and nothing changed.  The tools may do
  what they like in the scratch directory, as long as what they write has a later time of
  change.\<close>

theorem assembly_all_or_nothing:
  assumes "check_assembly_policy (asm_policy a) = Inr ()"
    and "tools_honest env (p_parts (parent_path (output_bundle a)) @ [e_scratch env])"
    and "e_scratch env \<noteq> path_name (output_bundle a)"
    and "assemble_userdata_image env a w = (r, w')"
  shows "case r of
      Inr att \<Rightarrow> find (store w) (p_parts (output_bundle a)) = None \<and> published env a (store w) att (store w')
    | Inl e \<Rightarrow> w' = w \<or> find (store w') (p_parts (output_bundle a)) = None \<or>
        (\<exists>att. published env a (store w) att (store w'))"
proof (cases "find (store w) (p_parts (output_bundle a)) = None")
  case True
  with triple_assemble[OF assms(2,1,3), of "store w"] assms(4) show ?thesis
    unfolding triple_def by (cases r) fastforce+
next
  case False
  from output_taken[OF this, of env] assms(4) show ?thesis by auto
qed

theorem assembly_all_or_nothing_witness:
  "\<exists>att s. published demo_env demo_args demo_store att s \<and> find demo_store [''out'', ''b''] = None"
proof -
  have p: "p_parts (parent_path (output_bundle demo_args)) @ [e_scratch demo_env] = [''out'', ''scr'']"
    "e_scratch demo_env \<noteq> path_name (output_bundle demo_args)" "asm_policy demo_args = small_policy"
    by (simp_all add: demo_args_def abs_path_def parent_path_def path_name_def)
  obtain att s where r: "assemble_userdata_image demo_env demo_args (at demo_store 100) = (Inr att, at s 131)"
    using demo_assembly_run by blast
  have "check_assembly_policy (asm_policy demo_args) = Inr ()" using p(3) small_policy_ok by simp
  from assembly_all_or_nothing[OF this _ p(2) r] demo_tools_honest
  have "published demo_env demo_args demo_store att s" unfolding p(1) by (simp add: at_def)
  then show ?thesis by auto
qed

end
