(* ===== verification/DeployBase.thy ===== *)
theory DeployBase
  imports Sparse StageFs Transcript
begin

text \<open>
  What the WSL deployment gate (\<open>deploy_userdata_wsl.py\<close>) rests on: the pinned_file contract, the
  process results, the state of a run, the checks on JSON values and paths, and the files that
  are opened once and held.

  A run works on the files of \<^theory_text>\<open>StageFs\<close> and keeps beside them the commands it has started, each
  with the files as they were at that moment, and how often it has read the clock.  What a
  started process does is an argument: it may device_answer anything, raise, or change any file.
  Argument paths are the parts of \<open>path.absolute()\<close>.
\<close>

section \<open>The contract\<close>

record contract =
  k_assembly_sha256 :: string
  k_assembly_size :: int
  k_injection_sha256 :: string
  k_injection_size :: int
  k_rootfs_sha256 :: string
  k_rootfs_size :: int
  k_raw_sha256 :: string
  k_raw_size :: int
  k_sparse_sha256 :: string
  k_sparse_size :: int
  k_mapping_sha256 :: string
  k_mapping_size :: int
  k_runtime_sha256 :: string
  k_runtime_size :: int
  k_completed_sha256 :: string
  k_completed_size :: int
  k_template_sha256 :: string
  k_template_size :: int
  k_old_sparse_sha256 :: string
  k_d110_boot_sha256 :: string
  k_d110_boot_size :: int
  k_rollback_sha256 :: string
  k_rollback_size :: int
  k_baseline_raw_sha256 :: string
  k_userdata_capacity :: int

definition PRODUCTION :: contract where
  "PRODUCTION = \<lparr>
     k_assembly_sha256 = ''cfcf2cc4a1b9ad149ce0a303ab6b49b570c5e2cd78a988b06b8ca4a72c90b4da'',
     k_assembly_size = 7232,
     k_injection_sha256 = ''ad14a24791e8b60d72787c756ea91a00fb3325491f5d6d62592ae44e2a352a9a'',
     k_injection_size = 7190,
     k_rootfs_sha256 = ''a91a2090aea6a1d7338a7f51ba66590472cbb395386765d9e5a199856afba134'',
     k_rootfs_size = 2923429888,
     k_raw_sha256 = ''c3c3a51376417aeba94c3fbd536df7d68b3ab4559ca5ba19f0dd18d1e157a8de'',
     k_raw_size = 3436183552,
     k_sparse_sha256 = ''77ff199311f71b3f3e4fdf3e3251138abc0f46664567b2deae409a79c960b2a1'',
     k_sparse_size = 2236696908,
     k_mapping_sha256 = ''59f27854ac595a9b615bddeb91aa72e6bf1e0dacd9341cda2783a19bb050014f'',
     k_mapping_size = 3879,
     k_runtime_sha256 = ''a2db2d343aeeead7400da9b0487de536ba0842d20a3861fdde23ca647d71c65d'',
     k_runtime_size = 8066,
     k_completed_sha256 = ''5c7c9b79baf58366167bf5d58bc65554d4e54a9f1e07b160d705d2cf58a837df'',
     k_completed_size = 1160,
     k_template_sha256 = ''cd6a071425309a83442f4de3dbd71c68b7261cfb1deaac16686271757ac70800'',
     k_template_size = 2653,
     k_old_sparse_sha256 = ''39d45c6de7d2708f59154b1dd9352573849fc0a51434ebfd9d0f493c36841583'',
     k_d110_boot_sha256 = ''2b264d64d2ed22f0ab5c3c2615b0bda9ed821fa5d8d5d691ea513e5d2f071487'',
     k_d110_boot_size = 52944896,
     k_rollback_sha256 = ''1315e3a06ddff42e91f930f01b16a62ab30ab3d4f490e8e8e40d0af89c657279'',
     k_rollback_size = 2269624624,
     k_baseline_raw_sha256 = ''33067d6954e28b88b78a79a6ba0f994c1b6aff5e77a664b726e5dbb6e90084d8'',
     k_userdata_capacity = 114898743296\<rparr>"

definition PROFILE_SCHEMA :: string where "PROFILE_SCHEMA = ''lmi-p2-d114-userdata-deploy-profile-wsl/v1''"
definition POLICY_SCHEMA :: string where "POLICY_SCHEMA = ''lmi-p2-d114-userdata-deploy-policy-lock-wsl/v1''"
definition RUNTIME_SCHEMA :: string where "RUNTIME_SCHEMA = ''lmi-p2-d114-fastboot-wsl-runtime-lock/v2''"
definition COMPLETED_SCHEMA :: string where "COMPLETED_SCHEMA = ''lmi-p2-d114-completed-userdata-actions-lock/v1''"
definition MAPPING_SCHEMA :: string where "MAPPING_SCHEMA = ''lmi-d114-physical-userdata-mapping/v2''"
definition PREFLIGHT_SCHEMA :: string where "PREFLIGHT_SCHEMA = ''lmi-p2-d114-userdata-wsl-preflight/v1''"
definition APPROVAL_SCHEMA :: string where "APPROVAL_SCHEMA = ''lmi-p2-d114-userdata-wsl-one-use-approval/v1''"
definition CONSUMED_SCHEMA :: string where "CONSUMED_SCHEMA = ''lmi-p2-d114-userdata-wsl-consumed-claim/v1''"
definition INTENT_SCHEMA :: string where "INTENT_SCHEMA = ''lmi-p2-d114-userdata-wsl-preattempt-intent/v1''"
definition REPORT_SCHEMA :: string where "REPORT_SCHEMA = ''lmi-p2-d114-userdata-wsl-deploy-report/v1''"

definition APPROVAL_TTL_SECONDS :: int where "APPROVAL_TTL_SECONDS = 120"
definition PREFLIGHT_MAX_AGE_SECONDS :: int where "PREFLIGHT_MAX_AGE_SECONDS = 120"
definition WRITE_TIMEOUT_SECONDS :: int where "WRITE_TIMEOUT_SECONDS = 1800"
definition QUERY_TIMEOUT_SECONDS :: int where "QUERY_TIMEOUT_SECONDS = 20"
definition MAX_OUTPUT_BYTES :: nat where "MAX_OUTPUT_BYTES = 65536"

definition PREFLIGHT_ROUTE :: string where "PREFLIGHT_ROUTE = ''PREFLIGHT_PASSED_NO_STATE_CHANGE''"
definition COMPLETED_ROUTE :: string where
  "COMPLETED_ROUTE = ''USERDATA_TRANSPORT_COMPLETED_DEVICE_REVALIDATION_PENDING''"
definition UNKNOWN_ROUTE :: string where "UNKNOWN_ROUTE = ''USERDATA_WRITE_OUTCOME_UNKNOWN_NO_RETRY''"

definition QUERY_NAMES :: "string list" where
  "QUERY_NAMES = [''devices'', ''getvar:serialno'', ''getvar:product'', ''getvar:unlocked'',
     ''getvar:is-userspace'', ''getvar:is-logical:userdata'', ''getvar:partition-type:userdata'',
     ''getvar:partition-size:userdata'', ''getvar:battery-voltage'', ''getvar:battery-soc-ok'',
     ''getvar:max-download-size'']"

definition SAFE_ENV :: "(string \<times> string) list" where
  "SAFE_ENV = [(''LANG'', ''C''), (''LC_ALL'', ''C''), (''PATH'', ''/usr/bin:/bin'')]"

definition LOADER_ENV_NAMES :: "string list" where
  "LOADER_ENV_NAMES = [''LD_AUDIT'', ''LD_DEBUG'', ''LD_LIBRARY_PATH'', ''LD_PRELOAD'', ''LD_PROFILE'']"

section \<open>Processes and the state of a run\<close>

record process_command =
  argv :: "string list"
  timeout_seconds :: int
  pass_fds :: "nat list"
  environment :: "(string \<times> string) list"

text \<open>\<open>CommandResult\<close>; \<open>None\<close> is the return code of a process that did not start.\<close>

record command_result =
  returncode :: "int option"
  stdout :: bytes
  stderr :: bytes
  started :: bool
  timed_out :: bool
  output_limited :: bool

definition clean_result :: "int option \<Rightarrow> bytes \<Rightarrow> bytes \<Rightarrow> command_result" where
  "clean_result rc out err = \<lparr>returncode = rc, stdout = out, stderr = err, started = True, timed_out = False,
     output_limited = False\<rparr>"

record event =
  ev_command :: process_command
  ev_store :: store

record deploy_state = stage +
  trace :: "event list"
  ticks :: nat

type_synonym 'a dstep = "deploy_state \<Rightarrow> 'a result \<times> deploy_state"

type_synonym process_runner = "event list \<Rightarrow> process_command \<Rightarrow> store \<Rightarrow> command_result result \<times> store"

record deploy_env =
  d_host :: host
  d_contract :: contract
  d_repo_root :: path
  d_fd :: "path \<Rightarrow> nat"
  d_temp :: "path \<Rightarrow> store \<Rightarrow> string"
  d_runner :: process_runner
  d_clock :: "nat \<Rightarrow> int"

text \<open>\<open>process_runner(argv, timeout, pass_fds, SAFE_ENV)\<close> and \<open>clock()\<close>\<close>

definition run_process :: "deploy_env \<Rightarrow> string list \<Rightarrow> int \<Rightarrow> nat list \<Rightarrow> command_result dstep" where
  "run_process env args timeout fds = (\<lambda>w.
     let c = \<lparr>argv = args, timeout_seconds = timeout, pass_fds = fds, environment = SAFE_ENV\<rparr>;
         (r, s') = d_runner env (trace w) c (store w) in
     (r, w\<lparr>store := s', trace := trace w @ [\<lparr>ev_command = c, ev_store = store w\<rparr>]\<rparr>))"

definition read_clock :: "deploy_env \<Rightarrow> int dstep" where
  "read_clock env = (\<lambda>w. (Inr (d_clock env (ticks w)), w\<lparr>ticks := Suc (ticks w)\<rparr>))"

definition demand :: "bool \<Rightarrow> string \<Rightarrow> unit result" where
  "demand c why = (if c then Inr () else Inl (DeployError why))"

lemma demand_Inr [res_iff]: "demand c why = Inr u \<longleftrightarrow> c"
  by (simp add: demand_def)

lemma demand_True [simp]: "demand True why = Inr ()"
  by (simp add: demand_def)

definition demandS :: "bool \<Rightarrow> string \<Rightarrow> ('z, unit) stage_step" where
  "demandS c why = liftS (demand c why)"

section \<open>JSON values\<close>

definition deploy_json_bytes :: "host \<Rightarrow> bytes \<Rightarrow> string \<Rightarrow> dict result" where
  "deploy_json_bytes h payload label =
     bindE (demand (utf8_valid payload) (''invalid '' @ label @ '' JSON'')) (\<lambda>_.
     case loads h payload of
       Inl (Refusal why) \<Rightarrow> Inl (DeployError (''invalid '' @ label @ '' JSON''))
     | Inl e \<Rightarrow> Inl e
     | Inr (JObj d) \<Rightarrow> Inr d
     | Inr _ \<Rightarrow> Inl (DeployError (label @ '' must be a JSON object'')))"

text \<open>\<open>_canonical\<close>\<close>

definition canonical_line :: "host \<Rightarrow> dict \<Rightarrow> bytes" where
  "canonical_line h d = canonical h (JObj d) @ [LF]"

text \<open>\<open>_exact\<close>, \<open>_sha\<close>, \<open>_positive\<close>\<close>

definition exact_fields :: "json \<Rightarrow> string list \<Rightarrow> string \<Rightarrow> dict result" where
  "exact_fields v keys label =
     bindE (demand (is_obj v \<and> same_fields (obj_val v) keys) (label @ '' fields mismatch'')) (\<lambda>_. Inr (obj_val v))"

definition sha_value :: "json \<Rightarrow> string \<Rightarrow> string result" where
  "sha_value v label =
     bindE (demand (is_str v \<and> is_sha256_hex (str_val v)) (label @ '' is not a lowercase SHA-256'')) (\<lambda>_. Inr (str_val v))"

definition positive_value :: "json \<Rightarrow> string \<Rightarrow> int result" where
  "positive_value v label = (case v of
       JInt n \<Rightarrow> bindE (demand (0 < n) (label @ '' must be a positive integer'')) (\<lambda>_. Inr n)
     | _ \<Rightarrow> Inl (DeployError (label @ '' must be a positive integer'')))"

section \<open>Paths\<close>

text \<open>\<open>as_posix\<close> of a relative path, and \<open>_relative\<close> with the parts as its result.  The text \<open>.\<close>,
  which has no parts, is accepted.\<close>

definition posix_text :: "path \<Rightarrow> string" where
  "posix_text parts = (if parts = [] then ''.'' else join_with ''/'' parts)"

definition relative_path :: "json \<Rightarrow> string \<Rightarrow> path result" where
  "relative_path v label =
     (let s = str_val v; parts = p_parts (path_of_text s) in
      bindE (demand (is_str v \<and> s \<noteq> [] \<and> BS \<notin> set s \<and> NUL \<notin> set s)
               (label @ '' is not a canonical repository-relative path'')) (\<lambda>_.
      bindE (demand (\<not> prefix ''/'' s \<and> ''..'' \<notin> set parts)
               (label @ '' is not a canonical repository-relative path'')) (\<lambda>_.
      bindE (demand (posix_text parts = s) (label @ '' is not canonical'')) (\<lambda>_. Inr parts))))"

definition repo_relative :: "path \<Rightarrow> path \<Rightarrow> string \<Rightarrow> string result" where
  "repo_relative p root label =
     bindE (demand (prefix root p) (label @ '' escapes the repository'')) (\<lambda>_.
     let value = posix_text (drop (length root) p) in
     bindE (relative_path (JStr value) label) (\<lambda>_. Inr value))"

fun check_directories :: "store \<Rightarrow> path \<Rightarrow> string list \<Rightarrow> string \<Rightarrow> unit result" where
  "check_directories s current [] label = Inr ()"
| "check_directories s current (c # cs) label =
     (case find s (current @ [c]) of
        None \<Rightarrow> Inl (DeployError (''cannot inspect '' @ label @ '' ancestor''))
      | Some n \<Rightarrow>
          bindE (demand (st_type (st n) = F_DIR) (label @ '' has a symlink or non-directory ancestor'')) (\<lambda>_.
          bindE (demand (st_perm (st n) AND 18 = 0) (label @ '' has a group/world-writable ancestor'')) (\<lambda>_.
          check_directories s (current @ [c]) cs label)))"

definition check_ancestors :: "store \<Rightarrow> path \<Rightarrow> path option \<Rightarrow> string \<Rightarrow> unit result" where
  "check_ancestors s p root label = (case root of
       Some r \<Rightarrow> bindE (repo_relative p r label) (\<lambda>rel.
         check_directories s r (butlast (p_parts (path_of_text rel))) label)
     | None \<Rightarrow> check_directories s [] (butlast p) label)"

section \<open>Held files\<close>

text \<open>\<open>_identity\<close>\<close>

definition full_identity ::
  "stat_result \<Rightarrow> nat \<times> nat \<times> (ftype \<times> nat) \<times> nat \<times> nat \<times> nat \<times> nat \<times> nat \<times> nat" where
  "full_identity s = (st_dev s, st_ino s, (st_type s, st_perm s), st_nlink s, st_uid s, st_gid s, st_size s,
     st_mtime s, st_ctime s)"

lemma full_identity_iff: "full_identity a = full_identity b \<longleftrightarrow> a = b"
  by (cases a; cases b) (auto simp: full_identity_def)

text \<open>\<open>HeldFile\<close>, with the bytes its descriptor reads.\<close>

record held_file =
  hf_path :: path
  hf_descriptor :: nat
  hf_stat :: stat_result
  hf_size :: nat
  hf_sha256 :: string
  hf_data :: bytes

definition HASH_READ :: nat where "HASH_READ = 4194304"

text \<open>The loops of \<open>_hash_descriptor\<close> and \<open>_held_bytes\<close>: what they have read of a file, or that it
  ended before.\<close>

function read_upto :: "nat \<Rightarrow> bytes \<Rightarrow> nat \<Rightarrow> nat \<Rightarrow> bytes \<Rightarrow> bytes option" where
  "read_upto block data pos remaining fed =
     (if remaining = 0 then Some fed
      else (let chunk = slice data pos (pos + min block remaining) in
        if chunk = [] then None
        else read_upto block data (pos + length chunk) (remaining - length chunk) (fed @ chunk)))"
  by pat_completeness auto
termination
proof (relation "measure (\<lambda>(b, d, p, r, f). r)")
  fix block data pos remaining and fed chunk :: bytes
  assume "remaining \<noteq> 0" "chunk = slice data pos (pos + min block remaining)" "chunk \<noteq> []"
  moreover from this have "0 < length chunk" by blast
  ultimately show "((block, data, pos + length chunk, remaining - length chunk, fed @ chunk), block, data, pos, remaining, fed)
      \<in> measure (\<lambda>(b, d, p, r, f). r)" by simp
qed simp

declare read_upto.simps [simp del]

definition hash_descriptor :: "host \<Rightarrow> bytes \<Rightarrow> nat \<Rightarrow> string \<Rightarrow> string result" where
  "hash_descriptor h data size1 label = (case read_upto HASH_READ data 0 size1 [] of
       None \<Rightarrow> Inl (DeployError (label @ '' was truncated while hashing''))
     | Some fed \<Rightarrow> bindE (demand (slice data size1 (Suc size1) = []) (label @ '' grew while hashing'')) (\<lambda>_.
         Inr (sha256 h fed)))"

text \<open>\<open>_open_regular\<close>; no other process runs between its calls.\<close>

definition open_regular ::
  "deploy_env \<Rightarrow> store \<Rightarrow> path \<Rightarrow> path option \<Rightarrow> string \<Rightarrow> nat option \<Rightarrow> held_file result" where
  "open_regular env s p root label maximum =
     bindE (check_ancestors s p root label) (\<lambda>_.
     case find s p of
       None \<Rightarrow> Inl (DeployError (''cannot inspect '' @ label))
     | Some n \<Rightarrow>
         bindE (demand (st_type (st n) = F_REG \<and> st_nlink (st n) = 1 \<and> st_perm (st n) AND 18 = 0 \<and>
                  0 < st_size (st n) \<and> (case maximum of None \<Rightarrow> True | Some m \<Rightarrow> st_size (st n) \<le> m))
                  (label @ '' is not a safe single-link regular file'')) (\<lambda>_.
         bindE (hash_descriptor (d_host env) (contents n) (st_size (st n)) label) (\<lambda>digest.
         Inr \<lparr>hf_path = p, hf_descriptor = d_fd env p, hf_stat = st n, hf_size = st_size (st n),
              hf_sha256 = digest, hf_data = contents n\<rparr>)))"

definition held_bytes :: "held_file \<Rightarrow> nat \<Rightarrow> string \<Rightarrow> bytes result" where
  "held_bytes f maximum label =
     bindE (demand (hf_size f \<le> maximum) (label @ '' is too large'')) (\<lambda>_.
     case read_upto (hf_size f) (hf_data f) 0 (hf_size f) [] of
       None \<Rightarrow> Inl (DeployError (label @ '' became unreadable''))
     | Some bs \<Rightarrow> Inr bs)"

section \<open>Artifacts\<close>

definition check_artifact :: "json \<Rightarrow> string \<Rightarrow> bool \<Rightarrow> dict result" where
  "check_artifact v label is_sparse =
     bindE (exact_fields v ([''path'', ''sha256'', ''size''] @
              (if is_sparse then [''logical_size'', ''representation'', ''roundtrip_raw_sha256''] else [])) label) (\<lambda>d.
     bindE (relative_path (fld d ''path'') (label @ ''.path'')) (\<lambda>_.
     bindE (sha_value (fld d ''sha256'') (label @ ''.sha256'')) (\<lambda>_.
     bindE (positive_value (fld d ''size'') (label @ ''.size'')) (\<lambda>_.
     if is_sparse then
       bindE (positive_value (fld d ''logical_size'') (label @ ''.logical_size'')) (\<lambda>_.
       bindE (sha_value (fld d ''roundtrip_raw_sha256'') (label @ ''.roundtrip_raw_sha256'')) (\<lambda>_.
       bindE (demand (fld d ''representation'' = JStr ''android-sparse'') (label @ '' representation mismatch'')) (\<lambda>_.
       Inr d)))
     else Inr d))))"

text \<open>\<open>_open_spec\<close>; its caller files the result under a key.\<close>

definition open_spec ::
  "deploy_env \<Rightarrow> store \<Rightarrow> json \<Rightarrow> string \<Rightarrow> nat option \<Rightarrow> bool \<Rightarrow> held_file result" where
  "open_spec env s spec label maximum is_sparse =
     (let root = d_repo_root env in
      bindE (check_artifact spec label is_sparse) (\<lambda>d.
      bindE (relative_path (fld d ''path'') (label @ ''.path'')) (\<lambda>rel.
      bindE (sha_value (fld d ''sha256'') (label @ ''.sha256'')) (\<lambda>expected_sha.
      bindE (positive_value (fld d ''size'') (label @ ''.size'')) (\<lambda>expected_size.
      bindE (open_regular env s (root @ rel) (Some root) label maximum) (\<lambda>f.
      bindE (demand (int (hf_size f) = expected_size \<and> hf_sha256 f = expected_sha) (label @ '' identity mismatch'')) (\<lambda>_.
      Inr f)))))))"

section \<open>What the loops read\<close>

lemma read_upto_eq:
  "0 < block \<Longrightarrow> pos \<le> length data \<Longrightarrow>
     read_upto block data pos remaining fed =
       (if pos + remaining \<le> length data then Some (fed @ slice data pos (pos + remaining)) else None)"
proof (induction block data pos remaining fed rule: read_upto.induct)
  case (1 block data pos remaining fed)
  define chunk where "chunk = slice data pos (pos + min block remaining)"
  show ?case
  proof (cases "remaining = 0 \<or> chunk = []")
    case True
    show ?thesis
    proof (cases "remaining = 0")
      case False
      with True have "min (min block remaining) (length data - pos) = 0"
        unfolding chunk_def by (metis length_0_conv length_slice diff_add_inverse)
      with False 1(2,3) have "length data = pos" by (simp add: min_def split: if_splits)
      with False True show ?thesis by (subst read_upto.simps) (simp add: Let_def flip: chunk_def)
    qed (use 1 in \<open>subst read_upto.simps, simp\<close>)
  next
    case False
    have len: "length chunk = min (min block remaining) (length data - pos)" by (simp add: chunk_def)
    have "read_upto block data pos remaining fed =
        read_upto block data (pos + length chunk) (remaining - length chunk) (fed @ chunk)"
      using False by (subst read_upto.simps) (simp add: Let_def flip: chunk_def)
    also have "\<dots> = (if pos + length chunk + (remaining - length chunk) \<le> length data
        then Some ((fed @ chunk) @ slice data (pos + length chunk) (pos + length chunk + (remaining - length chunk))) else None)"
      using 1(1)[OF _ chunk_def] False 1(2,3) len by auto
    finally have eq: "read_upto block data pos remaining fed = \<dots>" .
    have sum: "pos + length chunk + (remaining - length chunk) = pos + remaining" using len by simp
    have "pos + remaining \<le> length data \<Longrightarrow> chunk @ slice data (pos + length chunk) (pos + remaining) = slice data pos (pos + remaining)"
    proof -
      assume a: "pos + remaining \<le> length data"
      then have "chunk = slice data pos (pos + length chunk)" using len by (simp add: chunk_def min_def)
      then show ?thesis using slice_append_slice[of pos "pos + length chunk" "pos + remaining" data] len by simp
    qed
    with eq show ?thesis unfolding sum by simp
  qed
qed

lemma hash_descriptor_Inr [res_iff]:
  "hash_descriptor h data k label = Inr d \<longleftrightarrow> length data = k \<and> d = sha256 h data"
proof -
  have "slice data k (Suc k) = [] \<longleftrightarrow> length data \<le> k" by (auto simp: slice_def)
  then show ?thesis
    by (auto simp: hash_descriptor_def read_upto_eq HASH_READ_def res_iff slice_def)
qed

lemma regular_opened_Inr:
  "open_regular env s p root label maximum = Inr f \<Longrightarrow>
     \<exists>n. find s p = Some n \<and> hf_path f = p \<and> hf_descriptor f = d_fd env p \<and> hf_stat f = st n \<and>
       hf_data f = contents n \<and> hf_size f = length (contents n) \<and> hf_sha256 f = sha256 (d_host env) (contents n) \<and>
       st_type (st n) = F_REG \<and> st_nlink (st n) = 1 \<and> 0 < hf_size f \<and> (\<forall>m. maximum = Some m \<longrightarrow> hf_size f \<le> m)"
  by (auto simp: open_regular_def res_iff split: option.splits)

lemma held_bytes_Inr:
  "hf_size f = length (hf_data f) \<Longrightarrow> 0 < hf_size f \<Longrightarrow>
     held_bytes f maximum label = Inr bs \<longleftrightarrow> hf_size f \<le> maximum \<and> bs = hf_data f"
  by (auto simp: held_bytes_def res_iff read_upto_eq)

end
