(* ===== verification/DeployLocks.thy ===== *)
theory DeployLocks
  imports DeployBase
begin

text \<open>
  The documents the deployment gate accepts: the policy lock, the physical mapping, the lock of
  completed actions and the private profile (\<open>_validate_policy\<close>, \<open>_validate_mapping\<close>,
  \<open>_validate_completed\<close>, \<open>_validate_profile\<close>).
\<close>

section \<open>The policy lock\<close>

definition pinned_file :: "string \<Rightarrow> int \<Rightarrow> dict" where
  "pinned_file sha size1 = [(''sha256'', JStr sha), (''size'', JInt size1)]"

definition pinned_at :: "string \<Rightarrow> string \<Rightarrow> int \<Rightarrow> json" where
  "pinned_at path sha size1 = JObj ((''path'', JStr path) # pinned_file sha size1)"

definition expected_policy_artifacts :: "contract \<Rightarrow> json" where
  "expected_policy_artifacts k = JObj
     [(''assembly_attestation'', JObj (pinned_file (k_assembly_sha256 k) (k_assembly_size k))),
      (''candidate_raw'', JObj (pinned_file (k_raw_sha256 k) (k_raw_size k))),
      (''candidate_sparse'', JObj ([(''logical_size'', JInt (k_raw_size k)),
         (''roundtrip_raw_sha256'', JStr (k_raw_sha256 k))] @ pinned_file (k_sparse_sha256 k) (k_sparse_size k))),
      (''injection_attestation'', JObj (pinned_file (k_injection_sha256 k) (k_injection_size k))),
      (''p2_rootfs'', JObj (pinned_file (k_rootfs_sha256 k) (k_rootfs_size k))),
      (''rollback_sparse'', JObj ([(''logical_size'', JInt (k_raw_size k)),
         (''roundtrip_raw_sha256'', JStr (k_baseline_raw_sha256 k))] @ pinned_file (k_rollback_sha256 k) (k_rollback_size k)))]"

definition POLICY_APPROVAL :: json where
  "POLICY_APPROVAL = JObj
     [(''fresh_preflight_required'', JBool True), (''preflight_max_age_seconds'', JInt PREFLIGHT_MAX_AGE_SECONDS),
      (''same_claim_retry'', JBool False), (''ttl_seconds'', JInt APPROVAL_TTL_SECONDS)]"

definition expected_bindings :: "contract \<Rightarrow> json" where
  "expected_bindings k = JObj
     [(''completed_actions_lock'', pinned_at ''config/lmi-p2-d114/completed-userdata-actions-lock.json''
         (k_completed_sha256 k) (k_completed_size k)),
      (''fastboot_runtime_lock'', pinned_at ''config/lmi-p2-d114/fastboot-wsl-runtime-lock.json''
         (k_runtime_sha256 k) (k_runtime_size k)),
      (''physical_userdata_mapping'', pinned_at ''config/lmi-p2-d114/physical-userdata-mapping.json''
         (k_mapping_sha256 k) (k_mapping_size k)),
      (''profile_template'', pinned_at ''config/lmi-p2-d114/userdata-deploy-profile-wsl.template.json''
         (k_template_sha256 k) (k_template_size k))]"

definition policy_device_gate :: "contract \<Rightarrow> json" where
  "policy_device_gate k = JObj
     [(''allowed_is_logical_userdata'', jstrs [''no'', ''unsupported-exact-variable-not-found-with-mapping-override'']),
      (''battery_soc_ok'', JStr ''yes''), (''expected_product'', JStr ''lmi''),
      (''expected_userdata_capacity'', JInt (k_userdata_capacity k)), (''fastboot_mode'', JStr ''bootloader''),
      (''minimum_battery_mv'', JInt 3800), (''minimum_max_download_size'', JInt (k_d110_boot_size k)),
      (''partition_type'', JStr ''f2fs''), (''require_exactly_one_device'', JBool True),
      (''require_nonce_scoped_identity'', JBool True), (''unlocked'', JStr ''yes''), (''userspace'', JStr ''no'')]"

definition POLICY_EXECUTION :: json where
  "POLICY_EXECUTION = JObj
     [(''allowed_argv_suffix'', jstrs [''-s'', ''<identity-matched-serial>'', ''flash'', ''userdata'',
         ''/proc/self/fd/<held-candidate-fd>'']),
      (''automatic_retry'', JBool False), (''candidate_transport'', JStr ''held-read-only-fd-pass_fds''),
      (''durable_claim_consumption_before_attempt'', JBool True), (''durable_intent_before_attempt'', JBool True),
      (''environment'', JObj (map (\<lambda>(k, v). (k, JStr v)) SAFE_ENV)), (''max_attempts'', JInt 1),
      (''operation'', JStr ''flash''), (''partition'', JStr ''userdata''), (''process_group_kill_and_reap'', JBool True),
      (''shell'', JBool False), (''slot_layout_claim'', JStr ''not-proven''),
      (''super_fastbootd_or_slotted_fallback'', JBool False), (''write_timeout_seconds'', JInt WRITE_TIMEOUT_SECONDS)]"

definition policy_history :: "contract \<Rightarrow> json" where
  "policy_history k = JObj
     [(''completed_sparse_sha256'', JStr (k_old_sparse_sha256 k)), (''d110_boot_authorization'', JBool False),
      (''new_sparse_precompleted'', JBool False), (''reauthorization'', JBool False)]"

definition POLICY_PRIVACY :: json where
  "POLICY_PRIVACY = JObj
     [(''absolute_user_paths_in_reports'', JBool False), (''raw_serial_in_reports'', JBool False),
      (''stable_public_device_fingerprint'', JBool False), (''usb_identifier_in_reports'', JBool False)]"

definition POLICY_RUNTIME :: json where
  "POLICY_RUNTIME = JObj
     [(''absolute_argv'', JBool True), (''ancestor_policy'', JStr ''no-group-or-world-writable-ancestors''),
      (''ancestor_symlink_policy'', JStr ''reject-except-exact-locked-interpreter-usrmerge-chain''),
      (''clear_loader_environment'', JBool True),
      (''elf_closure'', JStr ''exact-interpreter-and-complete-dt-needed-resolution''), (''shell'', JBool False)]"

definition validate_policy :: "dict \<Rightarrow> contract \<Rightarrow> unit result" where
  "validate_policy v k =
     bindE (exact_fields (JObj v) [''approval'', ''artifact_contract'', ''bindings'', ''device_gate'', ''execution'',
              ''fixed_read_only_queries'', ''hardware_test_only'', ''historical_actions'', ''privacy'', ''runtime'',
              ''schema''] ''WSL deploy policy'') (\<lambda>_.
     bindE (demand (fld v ''schema'' = JStr POLICY_SCHEMA \<and> fld v ''hardware_test_only'' = JBool True)
              ''WSL deploy policy schema/scope mismatch'') (\<lambda>_.
     bindE (demand (py_eq (fld v ''approval'') POLICY_APPROVAL) ''approval policy mismatch'') (\<lambda>_.
     bindE (demand (py_eq (fld v ''artifact_contract'') (expected_policy_artifacts k))
              ''artifact policy contract mismatch'') (\<lambda>_.
     bindE (demand (py_eq (fld v ''bindings'') (expected_bindings k)) ''policy binding set mismatch'') (\<lambda>_.
     bindE (demand (py_eq (fld v ''device_gate'') (policy_device_gate k)) ''device gate policy mismatch'') (\<lambda>_.
     bindE (demand (py_eq (fld v ''execution'') POLICY_EXECUTION) ''one-write execution policy mismatch'') (\<lambda>_.
     bindE (demand (py_eq (fld v ''fixed_read_only_queries'') (jstrs QUERY_NAMES)) ''fixed query policy mismatch'') (\<lambda>_.
     bindE (demand (py_eq (fld v ''historical_actions'') (policy_history k)) ''historical action policy mismatch'') (\<lambda>_.
     bindE (demand (py_eq (fld v ''privacy'') POLICY_PRIVACY) ''privacy policy mismatch'') (\<lambda>_.
     demand (py_eq (fld v ''runtime'') POLICY_RUNTIME) ''runtime policy mismatch''))))))))))"

section \<open>The mapping and the completed actions\<close>

definition MAPPING_OVERRIDE :: json where
  "MAPPING_OVERRIDE = JObj
     [(''allowed_getvar_result'', JStr ''unsupported''), (''fastboot_mode'', JStr ''bootloader''),
      (''partition'', JStr ''userdata''), (''partition_type'', JStr ''f2fs''),
      (''super_or_fastbootd_fallback_allowed'', JBool False)]"

definition MAPPING_IDENTITY :: json where
  "MAPPING_IDENTITY = JObj
     [(''current_device_must_match_nonce_scoped_private_policy'', JBool True),
      (''public_stable_fingerprint_forbidden'', JBool True)]"

definition validate_mapping :: "dict \<Rightarrow> contract \<Rightarrow> unit result" where
  "validate_mapping v k =
     (let userdata = fld v ''userdata''; u = obj_val userdata in
      bindE (demand (fld v ''schema'' = JStr MAPPING_SCHEMA) ''physical userdata mapping schema mismatch'') (\<lambda>_.
      bindE (demand (py_eq (fld v ''override'') MAPPING_OVERRIDE) ''physical userdata override mismatch'') (\<lambda>_.
      bindE (demand (py_eq (fld v ''identity_binding'') MAPPING_IDENTITY) ''mapping identity policy mismatch'') (\<lambda>_.
      demand (is_obj userdata \<and> py_eq (fld u ''capacity_bytes'') (JInt (k_userdata_capacity k)) \<and>
              fld u ''partlabel'' = JStr ''userdata'' \<and> py_eq (fld u ''gpt_logical_sector_size'') (JInt 4096))
        ''physical userdata geometry mismatch''))))"

definition COMPLETED_POLICY :: json where
  "COMPLETED_POLICY = JObj
     [(''boot_claims_forbidden'', JBool True), (''completed_candidate_reauthorization'', JBool False),
      (''new_candidate_precompleted'', JBool False), (''same_claim_retry'', JBool False)]"

definition single :: "json \<Rightarrow> bool" where
  "single v \<longleftrightarrow> is_arr v \<and> length (arr_val v) = 1"

definition validate_completed :: "dict \<Rightarrow> contract \<Rightarrow> json \<Rightarrow> unit result" where
  "validate_completed v k candidate_sha256 =
     bindE (exact_fields (JObj v) [''compatibility_only'', ''completed_userdata_actions'', ''policy'', ''schema'']
              ''completed action lock'') (\<lambda>_.
     bindE (demand (fld v ''schema'' = JStr COMPLETED_SCHEMA \<and> py_eq (fld v ''policy'') COMPLETED_POLICY)
              ''completed action policy mismatch'') (\<lambda>_.
     bindE (demand (single (fld v ''compatibility_only'')) ''D110 compatibility-only lock mismatch'') (\<lambda>_.
     let d110 = hd (arr_val (fld v ''compatibility_only'')); d = obj_val d110 in
     bindE (demand (is_obj d110 \<and> fld d ''artifact_sha256'' = JStr (k_d110_boot_sha256 k) \<and>
                    py_eq (fld d ''artifact_size'') (JInt (k_d110_boot_size k)) \<and>
                    fld d ''authorization'' = JBool False \<and> fld d ''claim_kind'' = JStr ''boot'')
              ''D110 boot authorization must remain false'') (\<lambda>_.
     bindE (demand (single (fld v ''completed_userdata_actions'')) ''completed userdata action set mismatch'') (\<lambda>_.
     let actions = arr_val (fld v ''completed_userdata_actions''); old = hd actions; o1 = obj_val old in
     bindE (demand (is_obj old \<and> fld o1 ''candidate_sha256'' = JStr (k_old_sparse_sha256 k) \<and>
                    fld o1 ''authorization'' = JBool False \<and> fld o1 ''operation'' = JStr ''flash'' \<and>
                    fld o1 ''partition'' = JStr ''userdata'' \<and> fld o1 ''transport_completed'' = JBool True)
              ''historical completed userdata lock mismatch'') (\<lambda>_.
     bindE (demand (candidate_sha256 \<noteq> JStr (k_old_sparse_sha256 k))
              ''historically completed userdata candidate cannot be approved or executed'') (\<lambda>_.
     demand (\<not> list_ex (\<lambda>a. is_obj a \<and> py_eq (fld (obj_val a) ''candidate_sha256'') candidate_sha256) actions)
       ''candidate is already present in completed action lock'')))))))"

section \<open>The private profile\<close>

text \<open>\<open>ID_RE\<close>, \<open>SERIAL_RE\<close> and \<open>SAFE_REASON_RE\<close>, each with \<open>fullmatch\<close>\<close>

definition id_char :: "char \<Rightarrow> bool" where
  "id_char c \<longleftrightarrow> is_lower c \<or> is_digit c \<or> c \<in> set ''._-''"

definition profile_id_ok :: "string \<Rightarrow> bool" where
  "profile_id_ok s \<longleftrightarrow> s \<noteq> [] \<and> (is_lower (hd s) \<or> is_digit (hd s)) \<and> length s \<le> 96 \<and> list_all id_char (tl s)"

definition serial_ok :: "string \<Rightarrow> bool" where
  "serial_ok s \<longleftrightarrow> s \<noteq> [] \<and> length s \<le> 128 \<and> list_all (\<lambda>c. is_lower c \<or> is_upper c \<or> is_digit c \<or> c \<in> set ''._:-'') s"

definition safe_reason :: "string \<Rightarrow> bool" where
  "safe_reason s \<longleftrightarrow> s \<noteq> [] \<and> length s \<le> 96 \<and> list_all (\<lambda>c. is_upper c \<or> is_digit c \<or> c = CHR ''_'') s"

definition SMALL_ARTIFACTS :: "string list" where
  "SMALL_ARTIFACTS = [''assembly_attestation'', ''candidate_raw'', ''completed_actions_lock'', ''deploy_policy_lock'',
     ''fastboot_runtime_lock'', ''p2_injection_attestation'', ''p2_rootfs'', ''physical_mapping_evidence'']"

definition expected_small :: "contract \<Rightarrow> (string \<times> string \<times> int) list" where
  "expected_small k =
     [(''assembly_attestation'', k_assembly_sha256 k, k_assembly_size k),
      (''p2_injection_attestation'', k_injection_sha256 k, k_injection_size k),
      (''p2_rootfs'', k_rootfs_sha256 k, k_rootfs_size k),
      (''physical_mapping_evidence'', k_mapping_sha256 k, k_mapping_size k),
      (''fastboot_runtime_lock'', k_runtime_sha256 k, k_runtime_size k),
      (''completed_actions_lock'', k_completed_sha256 k, k_completed_size k)]"

definition has_identity :: "json \<Rightarrow> string \<Rightarrow> int \<Rightarrow> bool" where
  "has_identity v sha size1 \<longleftrightarrow> fld (obj_val v) ''sha256'' = JStr sha \<and> py_eq (fld (obj_val v) ''size'') (JInt size1)"

definition check_profile_artifacts :: "json \<Rightarrow> contract \<Rightarrow> unit result" where
  "check_profile_artifacts v k =
     bindE (exact_fields v (SMALL_ARTIFACTS @ [''candidate'', ''rollback'']) ''profile artifacts'') (\<lambda>artifacts.
     bindE (iterE (\<lambda>nm. bindE (check_artifact (fld artifacts nm) nm False) (\<lambda>_. Inr ())) SMALL_ARTIFACTS) (\<lambda>_.
     bindE (check_artifact (fld artifacts ''candidate'') ''candidate'' True) (\<lambda>candidate.
     bindE (check_artifact (fld artifacts ''rollback'') ''rollback'' True) (\<lambda>rollback.
     bindE (demand (py_eq (JObj candidate) (JObj ([(''logical_size'', JInt (k_raw_size k)), (''path'', fld candidate ''path''),
                (''representation'', JStr ''android-sparse''), (''roundtrip_raw_sha256'', JStr (k_raw_sha256 k))] @
                pinned_file (k_sparse_sha256 k) (k_sparse_size k))))
              ''candidate profile identity mismatch'') (\<lambda>_.
     bindE (demand (has_identity (fld artifacts ''candidate_raw'') (k_raw_sha256 k) (k_raw_size k))
              ''candidate raw profile identity mismatch'') (\<lambda>_.
     bindE (iterE (\<lambda>(nm, sha, size1). demand (has_identity (fld artifacts nm) sha size1) (nm @ '' profile identity mismatch''))
              (expected_small k)) (\<lambda>_.
     demand (has_identity (JObj rollback) (k_rollback_sha256 k) (k_rollback_size k) \<and>
             py_eq (fld rollback ''logical_size'') (JInt (k_raw_size k)) \<and>
             fld rollback ''roundtrip_raw_sha256'' = JStr (k_baseline_raw_sha256 k))
       ''rollback profile identity mismatch'')))))))"

definition profile_compatibility :: "contract \<Rightarrow> json" where
  "profile_compatibility k = JObj [(''d110_boot'', JObj ((''authorization'', JBool False) #
     pinned_file (k_d110_boot_sha256 k) (k_d110_boot_size k)))]"

definition profile_device :: "contract \<Rightarrow> json" where
  "profile_device k = JObj
     [(''expected_product'', JStr ''lmi''), (''expected_userdata_capacity'', JInt (k_userdata_capacity k)),
      (''minimum_battery_mv'', JInt 3800), (''minimum_max_download_size'', JInt (k_d110_boot_size k)),
      (''partition_type'', JStr ''f2fs'')]"

definition PROFILE_EXECUTION :: json where
  "PROFILE_EXECUTION = JObj
     [(''automatic_retry'', JBool False), (''claim_kind'', JStr ''flash-userdata''), (''max_attempts'', JInt 1),
      (''operation'', JStr ''flash''), (''partition'', JStr ''userdata''), (''slot_layout_claim'', JStr ''not-proven''),
      (''write_timeout_seconds'', JInt WRITE_TIMEOUT_SECONDS)]"

definition check_profile_ledgers :: "json \<Rightarrow> unit result" where
  "check_profile_ledgers v =
     bindE (exact_fields v [''candidate_attempts'', ''claim_consumption''] ''profile ledgers'') (\<lambda>ledgers.
     bindE (relative_path (fld ledgers ''candidate_attempts'') ''candidate attempt ledger'') (\<lambda>candidate_ledger.
     bindE (relative_path (fld ledgers ''claim_consumption'') ''claim consumption ledger'') (\<lambda>claim_ledger.
     demand (prefix ''private/'' (posix_text candidate_ledger) \<and> prefix ''private/'' (posix_text claim_ledger) \<and>
             candidate_ledger \<noteq> claim_ledger)
       ''profile ledgers must be distinct canonical private directories'')))"

definition identity_binding_of :: "host \<Rightarrow> string \<Rightarrow> string \<Rightarrow> string" where
  "identity_binding_of h nonce serial = sha256 h (nonce @ '':'' @ serial)"

definition check_profile_identity :: "host \<Rightarrow> json \<Rightarrow> unit result" where
  "check_profile_identity h v =
     bindE (exact_fields v [''expected_nonce_scoped_serial_sha256'', ''expected_serial'', ''privacy_nonce'']
              ''profile identity'') (\<lambda>i.
     let expected_serial = fld i ''expected_serial'' in
     bindE (demand (is_str expected_serial \<and> serial_ok (str_val expected_serial))
              ''private expected serial syntax mismatch'') (\<lambda>_.
     bindE (sha_value (fld i ''privacy_nonce'') ''privacy nonce'') (\<lambda>nonce.
     bindE (sha_value (fld i ''expected_nonce_scoped_serial_sha256'') ''identity binding'') (\<lambda>binding.
     demand (binding = identity_binding_of h nonce (str_val expected_serial))
       ''private nonce-scoped serial binding mismatch''))))"

definition validate_profile :: "host \<Rightarrow> dict \<Rightarrow> contract \<Rightarrow> unit result" where
  "validate_profile h v k =
     bindE (exact_fields (JObj v) [''artifacts'', ''compatibility'', ''device'', ''execution'', ''identity'', ''ledgers'',
              ''profile_id'', ''schema''] ''WSL profile'') (\<lambda>_.
     bindE (demand (fld v ''schema'' = JStr PROFILE_SCHEMA \<and> is_str (fld v ''profile_id'') \<and>
                    profile_id_ok (str_val (fld v ''profile_id''))) ''WSL profile schema or id mismatch'') (\<lambda>_.
     bindE (check_profile_artifacts (fld v ''artifacts'') k) (\<lambda>_.
     bindE (demand (py_eq (fld v ''compatibility'') (profile_compatibility k))
              ''D110 compatibility profile must not authorize boot'') (\<lambda>_.
     bindE (demand (py_eq (fld v ''device'') (profile_device k)) ''profile device gate mismatch'') (\<lambda>_.
     bindE (demand (py_eq (fld v ''execution'') PROFILE_EXECUTION)
              ''profile is not the one fixed physical userdata operation'') (\<lambda>_.
     bindE (check_profile_ledgers (fld v ''ledgers'')) (\<lambda>_.
     check_profile_identity h (fld v ''identity''))))))))"

end
