(* ===== verification/DeploySparse.thy ===== *)
theory DeploySparse
  imports DeployBase SparseSpec
begin

text \<open>
  The deployment gate's own reader of sparse images (\<open>inspect_sparse\<close>).  It is laxer than the
  assembler's parser: headers may be longer, any block size is accepted, and checksums are not
  compared.  It reads the held descriptor as a stream.
\<close>

definition read_exact :: "bytes \<Rightarrow> nat \<Rightarrow> nat \<Rightarrow> string \<Rightarrow> bytes result" where
  "read_exact data pos n label =
     bindE (demand (length (slice data pos (pos + n)) = n) (''short '' @ label)) (\<lambda>_. Inr (slice data pos (pos + n)))"

definition FILL_BLOCK :: nat where "FILL_BLOCK = 1048576"
definition RAW_READ :: nat where "RAW_READ = 4194304"

text \<open>\<open>_hash_fill\<close>; a pattern longer than a block would keep the loop running.\<close>

partial_function (option) fill_loop :: "bytes \<Rightarrow> nat \<Rightarrow> bytes \<Rightarrow> bytes option" where
  "fill_loop block remaining fed =
     (if remaining = 0 then Some fed
      else (let amount = min remaining (length block) in
        fill_loop block (remaining - amount) (fed @ take amount block)))"

definition hash_fill :: "bytes \<Rightarrow> bytes \<Rightarrow> nat \<Rightarrow> bytes result" where
  "hash_fill fed pattern n = (case fill_loop (repeated (FILL_BLOCK div length pattern) pattern) n fed of
       None \<Rightarrow> Inl ProcessKilled  \<comment> \<open>it does not return\<close>
     | Some fed' \<Rightarrow> Inr fed')"

function read_raw :: "bytes \<Rightarrow> nat \<Rightarrow> nat \<Rightarrow> bytes \<Rightarrow> bytes result" where
  "read_raw data pos remaining fed =
     (if remaining = 0 then Inr fed
      else bindE (read_exact data pos (min RAW_READ remaining) ''raw sparse chunk'') (\<lambda>chunk.
        read_raw data (pos + min RAW_READ remaining) (remaining - min RAW_READ remaining) (fed @ chunk)))"
  by pat_completeness auto
termination
  by (relation "measure (\<lambda>(d, p, r, f). r)") (auto simp: RAW_READ_def)

declare read_raw.simps [simp del]

record inspection =
  in_pos :: nat
  in_fed :: bytes
  in_produced :: nat

definition inspect_chunk :: "bytes \<Rightarrow> nat \<Rightarrow> nat \<Rightarrow> inspection \<Rightarrow> inspection result" where
  "inspect_chunk data chunk_hdr_sz block_size i =
     bindE (read_exact data (in_pos i) chunk_hdr_sz ''sparse chunk header'') (\<lambda>raw.
     let kind = get_le 2 raw 0; chunk_blocks = get_le 4 raw 4; total_size = get_le 4 raw 8;
         output_size = chunk_blocks * block_size; payload_size = total_size - chunk_hdr_sz;
         pos = in_pos i + chunk_hdr_sz in
     bindE (demand (chunk_hdr_sz \<le> total_size) ''negative sparse chunk payload'') (\<lambda>_.
     if kind = SPARSE_RAW then
       bindE (demand (payload_size = output_size) ''raw sparse chunk size mismatch'') (\<lambda>_.
       bindE (read_raw data pos payload_size (in_fed i)) (\<lambda>fed.
       Inr \<lparr>in_pos = pos + payload_size, in_fed = fed, in_produced = in_produced i + output_size\<rparr>))
     else if kind = SPARSE_FILL then
       bindE (demand (payload_size = 4) ''fill sparse chunk size mismatch'') (\<lambda>_.
       bindE (read_exact data pos 4 ''fill pattern'') (\<lambda>pattern.
       bindE (hash_fill (in_fed i) pattern output_size) (\<lambda>fed.
       Inr \<lparr>in_pos = pos + 4, in_fed = fed, in_produced = in_produced i + output_size\<rparr>)))
     else if kind = SPARSE_DONT_CARE then
       bindE (demand (payload_size = 0) ''don't-care sparse chunk has payload'') (\<lambda>_.
       bindE (hash_fill (in_fed i) (replicate 4 NUL) output_size) (\<lambda>fed.
       Inr \<lparr>in_pos = pos, in_fed = fed, in_produced = in_produced i + output_size\<rparr>))
     else if kind = SPARSE_CRC32 then
       bindE (demand (payload_size = 4 \<and> output_size = 0) ''CRC sparse chunk mismatch'') (\<lambda>_.
       bindE (read_exact data pos 4 ''sparse CRC'') (\<lambda>_.
       Inr (i\<lparr>in_pos := pos + 4\<rparr>)))
     else Inl (DeployError ''unknown sparse chunk type'')))"

primrec inspect_chunks :: "bytes \<Rightarrow> nat \<Rightarrow> nat \<Rightarrow> nat \<Rightarrow> inspection \<Rightarrow> inspection result" where
  "inspect_chunks data chunk_hdr_sz block_size 0 i = Inr i"
| "inspect_chunks data chunk_hdr_sz block_size (Suc n) i =
     bindE (inspect_chunk data chunk_hdr_sz block_size i) (inspect_chunks data chunk_hdr_sz block_size n)"

definition inspect_sparse :: "host \<Rightarrow> bytes \<Rightarrow> int \<Rightarrow> string \<Rightarrow> unit result" where
  "inspect_sparse h data logical_size roundtrip_sha256 =
     bindE (read_exact data 0 SPARSE_HEADER_SIZE ''sparse header'') (\<lambda>header.
     let file_hdr_sz = get_le 2 header 8; chunk_hdr_sz = get_le 2 header 10; block_size = get_le 4 header 12;
         blocks = get_le 4 header 16; chunks = get_le 4 header 20 in
     bindE (demand (get_le 4 header 0 = SPARSE_MAGIC \<and> get_le 2 header 4 = 1 \<and> get_le 2 header 6 = 0 \<and>
                    SPARSE_HEADER_SIZE \<le> file_hdr_sz \<and> SPARSE_CHUNK_HEADER_SIZE \<le> chunk_hdr_sz \<and> 0 < block_size \<and>
                    int (blocks * block_size) = logical_size)
              ''candidate sparse header mismatch'') (\<lambda>_.
     bindE (read_exact data SPARSE_HEADER_SIZE (file_hdr_sz - SPARSE_HEADER_SIZE) ''extended sparse header'') (\<lambda>_.
     bindE (inspect_chunks data chunk_hdr_sz block_size chunks \<lparr>in_pos = file_hdr_sz, in_fed = [], in_produced = 0\<rparr>) (\<lambda>i.
     bindE (demand (int (in_produced i) = logical_size \<and> slice data (in_pos i) (Suc (in_pos i)) = [])
              ''candidate sparse logical size or trailing data mismatch'') (\<lambda>_.
     demand (sha256 h (in_fed i) = roundtrip_sha256) ''candidate sparse roundtrip raw hash mismatch'')))))"

section \<open>What the loops feed\<close>

lemma read_exact_Inr [res_iff]:
  "read_exact data pos n label = Inr bs \<longleftrightarrow> (n = 0 \<or> pos + n \<le> length data) \<and> bs = slice data pos (pos + n)"
  by (auto simp: read_exact_def res_iff min_def)

lemma repeated_take: "length pat = 4 \<Longrightarrow> n \<le> m \<Longrightarrow> take (n * 4) (repeated m pat) = repeated n pat"
proof -
  assume l: "length pat = 4" and "n \<le> m"
  then obtain k where "m = n + k" by (metis le_iff_add)
  then show ?thesis using l by (simp add: repeated_add)
qed

lemma fill_loop_eq:
  assumes "length pat = 4" "0 < k"
  shows "fill_loop (repeated k pat) (n * 4) fed = Some (fed @ repeated n pat)"
proof (induction n arbitrary: fed rule: less_induct)
  case (less n)
  show ?case
  proof (cases "n = 0")
    case True
    then show ?thesis by (subst fill_loop.simps) (simp add: repeated_def)
  next
    case False
    let ?m = "min n k"
    have a: "min (n * 4) (length (repeated k pat)) = ?m * 4" using assms(1) by (simp add: min_def)
    have t: "take (?m * 4) (repeated k pat) = repeated ?m pat" using repeated_take[OF assms(1), of ?m k] by simp
    have "fill_loop (repeated k pat) (n * 4) fed =
        fill_loop (repeated k pat) ((n - ?m) * 4) (fed @ repeated ?m pat)"
      using False by (subst fill_loop.simps) (simp only: a t Let_def, simp add: diff_mult_distrib)
    also have "\<dots> = Some (fed @ repeated ?m pat @ repeated (n - ?m) pat)"
      using less.IH[of "n - ?m"] False assms(2) by simp
    also have "repeated ?m pat @ repeated (n - ?m) pat = repeated n pat" by (simp flip: repeated_add)
    finally show ?thesis .
  qed
qed

lemma hash_fill_eq:
  "length pat = 4 \<Longrightarrow> hash_fill fed pat (n * 4) = Inr (fed @ repeated n pat)"
  using fill_loop_eq[of pat "FILL_BLOCK div 4" n fed] by (simp add: hash_fill_def FILL_BLOCK_def)

lemma hash_fill_blocks:
  "length pat = 4 \<Longrightarrow> hash_fill fed pat (n * 4096) = Inr (fed @ repeated (n * 1024) pat)"
  using hash_fill_eq[of pat fed "n * 1024"] by (simp add: mult.commute)

lemma read_raw_eq:
  "pos + n \<le> length data \<Longrightarrow> read_raw data pos n fed = Inr (fed @ slice data pos (pos + n))"
proof (induction data pos n fed rule: read_raw.induct)
  case (1 data pos n fed)
  show ?case
  proof (cases "n = 0")
    case True
    then show ?thesis by (subst read_raw.simps) simp
  next
    case False
    let ?a = "min RAW_READ n"
    have r: "read_exact data pos ?a ''raw sparse chunk'' = Inr (slice data pos (pos + ?a))"
      using 1(2) by (auto simp: read_exact_Inr min_def)
    have "read_raw data pos n fed = read_raw data (pos + ?a) (n - ?a) (fed @ slice data pos (pos + ?a))"
      using False by (subst read_raw.simps) (simp add: r)
    also have "\<dots> = Inr ((fed @ slice data pos (pos + ?a)) @ slice data (pos + ?a) (pos + ?a + (n - ?a)))"
      using 1(1)[OF False r] 1(2) by simp
    also have "\<dots> = Inr (fed @ slice data pos (pos + n))"
      by (simp add: slice_append_slice)
    finally show ?thesis .
  qed
qed

section \<open>Against the assembler's parser\<close>

text \<open>The reader at the state of the parser.\<close>

definition view :: "sparse_state \<Rightarrow> inspection" where
  "view s = \<lparr>in_pos = sp_offset s, in_fed = sp_decoded s, in_produced = sp_emitted s * 4096\<rparr>"

lemma slice_in:
  assumes "drop pos data = a @ bs @ r" "n = length bs" "k = length a"
  shows "slice data (pos + k) (pos + k + n) = bs"
proof -
  have "drop (pos + k) data = bs @ r" using assms by (metis add.commute append_eq_conv_conj drop_drop)
  then show ?thesis using assms(2) by (simp add: slice_def)
qed

lemma inspect_advance:
  assumes "fits_at img total_blocks s c"
  shows "inspect_chunk img 12 4096 (view s) = Inr (view (advance s c))"
proof -
  let ?off = "sp_offset s" and ?p = "payload_of (sp_crc s) c"
  let ?h = "chunk_head (chunk_type_of c) (blocks_of c) (12 + length ?p)"
  from assms obtain rest where wf: "wf_chunk c" and d: "drop ?off img = ?h @ ?p @ rest"
    by (auto simp: fits_at_def encode_chunk_def)
  note b = wf_bounds[OF wf]
  have f: "get_le 2 ?h 0 = chunk_type_of c" "get_le 4 ?h 4 = blocks_of c" "get_le 4 ?h 8 = 12 + length ?p"
    using chunk_head_fields[of "chunk_type_of c" "blocks_of c" "12 + length ?p"] b by auto
  have len: "?off + 12 + length ?p \<le> length img"
  proof -
    have "length (drop ?off img) = 12 + length ?p + length rest" unfolding d by simp
    then show ?thesis by simp
  qed
  have hd: "read_exact img ?off 12 lab = Inr ?h" for lab
    using slice_in[where a = "[]" and bs = ?h and r = "?p @ rest" and k = 0 and n = 12, of ?off img] d len
    by (simp add: read_exact_Inr)
  have pl: "slice img (?off + 12) (?off + 12 + length ?p) = ?p"
    by (rule slice_in[OF d]) simp_all
  have ad: "view (advance s c) = \<lparr>in_pos = ?off + 12 + length ?p, in_fed = sp_decoded s @ expand c,
      in_produced = sp_emitted s * 4096 + blocks_of c * 4096\<rparr>"
    by (simp add: view_def advance_def length_encode_chunk add_mult_distrib)
  show ?thesis
  proof (cases c)
    case (Raw d')
    then have "length d' = blocks_of c * 4096" using wf by (auto simp: div_mult_mod_eq)
    with Raw show ?thesis
      unfolding inspect_chunk_def ad Let_def
      using hd f pl len read_raw_eq[of "?off + 12" "length ?p" img "sp_decoded s"]
      by (simp add: view_def)
  next
    case (Fill pat n)
    then have l: "length pat = 4" using wf by simp
    then have r: "read_exact img (?off + 12) 4 lab = Inr pat" for lab
      using pl len Fill by (simp add: read_exact_Inr)
    note hash_fill_blocks[OF l, of "sp_decoded s" n]
    with r l Fill show ?thesis
      unfolding inspect_chunk_def ad Let_def using hd f by (simp add: view_def sparse_consts)
  next
    case (Dont_care n)
    note hash_fill_blocks[of "replicate 4 NUL" "sp_decoded s" n]
    with Dont_care show ?thesis
      unfolding inspect_chunk_def ad Let_def using hd f by (simp add: view_def sparse_consts)
  next
    case Crc
    then have "read_exact img (?off + 12) 4 lab = Inr ?p" for lab
      using pl len by (simp add: read_exact_Inr)
    with Crc show ?thesis
      unfolding inspect_chunk_def ad Let_def using hd f by (simp add: view_def sparse_consts)
  qed
qed

lemma inspect_chunks_view:
  "sparse_chunks img 4096 total_blocks n s = Inr t \<Longrightarrow> inspect_chunks img 12 4096 n (view s) = Inr (view t)"
proof (induction n arbitrary: s)
  case 0
  then show ?case by simp
next
  case (Suc n)
  from Suc.prems obtain u where u: "sparse_chunk img 4096 total_blocks s = Inr u" "sparse_chunks img 4096 total_blocks n u = Inr t"
    by (auto simp: res_iff)
  from sparse_chunk_sound[OF u(1)] obtain c where "fits_at img total_blocks s c" "u = advance s c" by blast
  with inspect_advance Suc.IH[OF u(2)] show ?case by simp
qed

lemma inspect_of_parse:
  assumes "parse_sparse_reader h img size1 digest = Inr ev"
  shows "inspect_sparse h img (int size1) digest = Inr ()"
proof -
  let ?h = "slice img 0 28"
  have z: "0 + 28 = (28::nat)" by simp
  from assms obtain s where le: "28 \<le> length img" and
    hd: "get_le 4 ?h 0 = SPARSE_MAGIC" "get_le 2 ?h 4 = 1" "get_le 2 ?h 6 = 0" "get_le 2 ?h 8 = SPARSE_HEADER_SIZE"
      "get_le 2 ?h 10 = SPARSE_CHUNK_HEADER_SIZE" "get_le 4 ?h 12 = 4096"
    and nb: "get_le 4 ?h 16 * 4096 = size1"
    and run: "sparse_chunks img 4096 (get_le 4 ?h 16) (get_le 4 ?h 20) sparse_start = Inr s"
    and fin: "sp_emitted s = get_le 4 ?h 16" "sp_offset s = length img" "sha256 h (sp_decoded s) = digest"
    unfolding parse_sparse_reader_def Let_def bindE_Inr_iff gate_Inr pread_Inr SECTOR_SIZE_def z
      SPARSE_HEADER_SIZE_def[THEN arg_cong[where f = "\<lambda>n. n \<le> length img"]]
    by (elim exE conjE) (simp add: SPARSE_HEADER_SIZE_def)
  have st: "\<lparr>in_pos = 28, in_fed = [], in_produced = 0\<rparr> = view sparse_start" by (simp add: view_def)
  have r: "read_exact img 0 28 lab = Inr ?h" "read_exact img 28 0 lab = Inr []" for lab
    using le by (simp_all add: read_exact_Inr)
  have g: "inspect_chunks img 12 4096 (get_le 4 ?h 20) (view sparse_start) = Inr (view s)"
    by (rule inspect_chunks_view[OF run])
  have v: "in_produced (view s) = size1" "in_fed (view s) = sp_decoded s" "slice img (in_pos (view s)) (Suc (in_pos (view s))) = []"
    using nb fin by (simp_all add: view_def slice_def)
  have c: "int (get_le 4 ?h 16 * 4096) = int size1" using nb by simp
  show ?thesis
    unfolding inspect_sparse_def Let_def hd SPARSE_HEADER_SIZE_def SPARSE_CHUNK_HEADER_SIZE_def r(1) bindE.simps c
      diff_self_eq_0 r(2) st
    by (simp add: g v fin)
qed

end
