(* ===== verification/DeployAudit.thy ===== *)
theory DeployAudit
  imports DeployLocks DeploySparse
begin

text \<open>
  The local audit of the deployment gate: the pinned fastboot runtime (\<open>_validate_runtime\<close>), the
  held documents and images (\<open>local_audit\<close>), and the recheck of everything that is held
  (\<open>_recheck\<close>).  The audit starts two commands, both of them on the host.
\<close>

section \<open>System paths\<close>

definition lstat :: "store \<Rightarrow> path \<Rightarrow> string \<Rightarrow> node result" where
  "lstat s p label = (case find s p of
       None \<Rightarrow> Inl (DeployError (''cannot inspect '' @ label))
     | Some n \<Rightarrow> Inr n)"

lemma lstat_Inr [res_iff]: "lstat s p label = Inr n \<longleftrightarrow> find s p = Some n"
  by (simp add: lstat_def split: option.splits)

text \<open>\<open>Path(text)\<close> of a JSON value\<close>

definition path_arg :: "json \<Rightarrow> string result" where
  "path_arg v = (case v of JStr t \<Rightarrow> Inr t | _ \<Rightarrow> Inl PyTypeError)"

abbreviation parts_of :: "string \<Rightarrow> path" where
  "parts_of t \<equiv> p_parts (path_of_text t)"

text \<open>\<open>int(text, 8)\<close>, for ASCII digits\<close>

definition is_octal :: "char \<Rightarrow> bool" where
  "is_octal c \<longleftrightarrow> ord (CHR ''0'') \<le> ord c \<and> ord c \<le> ord (CHR ''7'')"

fun octal_digits :: "int \<Rightarrow> bool \<Rightarrow> string \<Rightarrow> int option" where
  "octal_digits acc digit [] = (if digit then Some acc else None)"
| "octal_digits acc digit (c # cs) =
     (if is_octal c then octal_digits (8 * acc + int (digit_val c)) True cs
      else if c = CHR ''_'' \<and> digit then octal_digits acc False cs
      else None)"

definition unsigned_octal :: "string \<Rightarrow> int option" where
  "unsigned_octal s =
     (if prefix ''0o'' s \<or> prefix ''0O'' s then
        (case drop 2 s of CHR ''_'' # r \<Rightarrow> octal_digits 0 False r | r \<Rightarrow> octal_digits 0 False r)
      else octal_digits 0 False s)"

definition int_base8 :: "json \<Rightarrow> int result" where
  "int_base8 v = (case v of
       JStr t \<Rightarrow> (let s = py_strip t;
                    r = (case s of CHR ''-'' # u \<Rightarrow> map_option uminus (unsigned_octal u)
                         | CHR ''+'' # u \<Rightarrow> unsigned_octal u | u \<Rightarrow> unsigned_octal u) in
         (case r of None \<Rightarrow> Inl (PyValueError ''invalid literal for int() with base 8'') | Some n \<Rightarrow> Inr n))
     | _ \<Rightarrow> Inl PyTypeError)"

text \<open>The recheck of an opened object against its locked digest, size and mode.\<close>

definition check_locked :: "held_file \<Rightarrow> dict \<Rightarrow> string \<Rightarrow> held_file result" where
  "check_locked f spec label =
     bindE (sha_value (fld spec ''sha256'') (label @ ''.sha256'')) (\<lambda>sha.
     bindE (demand (hf_sha256 f = sha) (label @ '' resolved identity mismatch'')) (\<lambda>_.
     bindE (positive_value (fld spec ''size'') (label @ ''.size'')) (\<lambda>size1.
     bindE (demand (int (hf_size f) = size1) (label @ '' resolved identity mismatch'')) (\<lambda>_.
     bindE (int_base8 (fld spec ''mode'')) (\<lambda>mode.
     bindE (demand (int (st_perm (hf_stat f)) = mode) (label @ '' resolved identity mismatch'')) (\<lambda>_.
     Inr f))))))"

definition verify_runtime_object :: "deploy_env \<Rightarrow> store \<Rightarrow> dict \<Rightarrow> string \<Rightarrow> held_file result" where
  "verify_runtime_object env s spec label =
     bindE (exact_fields (JObj spec) ([''lookup_path'', ''link_target'', ''mode'', ''resolved_path'', ''sha256'', ''size''] @
              (if map_of spec ''soname'' = None then [] else [''soname'', ''dt_needed''])) label) (\<lambda>_.
     bindE (path_arg (fld spec ''lookup_path'')) (\<lambda>lookup.
     bindE (path_arg (fld spec ''resolved_path'')) (\<lambda>resolved.
     bindE (demand (prefix ''/'' lookup \<and> prefix ''/'' resolved) (label @ '' paths must be absolute'')) (\<lambda>_.
     bindE (check_ancestors s (parts_of lookup) None label) (\<lambda>_.
     bindE (lstat s (parts_of lookup) label) (\<lambda>n.
     let link = (st_type (st n) = F_LNK); target = fld spec ''link_target'' in
     bindE (if target = JNull
            then demand (\<not> link \<and> path_of_text lookup = path_of_text resolved) (label @ '' unexpected lookup symlink'')
            else demand (link \<and> JStr (contents n) = target) (label @ '' lookup symlink mismatch'')) (\<lambda>_.
     bindE (open_regular env s (parts_of resolved) None label None) (\<lambda>f.
     check_locked f spec label))))))))"

section \<open>The interpreter's chain of links\<close>

definition INTERPRETER_LOOKUP :: string where "INTERPRETER_LOOKUP = ''/lib64/ld-linux-x86-64.so.2''"
definition INTERPRETER_RESOLVED :: string where
  "INTERPRETER_RESOLVED = ''/usr/lib/x86_64-linux-gnu/ld-linux-x86-64.so.2''"

text \<open>size of the link, path, target\<close>

definition USRMERGE_CHAIN :: "(nat \<times> string \<times> string) list" where
  "USRMERGE_CHAIN =
     [(9, ''/lib64'', ''usr/lib64''),
      (44, ''/usr/lib64/ld-linux-x86-64.so.2'', ''../lib/x86_64-linux-gnu/ld-linux-x86-64.so.2'')]"

definition locked_link :: "nat \<times> string \<times> string \<Rightarrow> json" where
  "locked_link l = (case l of (size1, p, target) \<Rightarrow> JObj
     [(''lstat_size'', JInt (int size1)), (''path'', JStr p), (''target'', JStr target), (''type'', JStr ''symbolic-link'')])"

definition check_link :: "store \<Rightarrow> string \<Rightarrow> nat \<times> string \<times> string \<Rightarrow> stat_result result" where
  "check_link s label l = (case l of (size1, p, target) \<Rightarrow>
     bindE (check_ancestors s (parts_of p) None label) (\<lambda>_.
     bindE (lstat s (parts_of p) label) (\<lambda>n.
     bindE (demand (st_type (st n) = F_LNK \<and> st_size (st n) = size1 \<and> contents n = target)
              (label @ '' usr-merge link runtime mismatch'')) (\<lambda>_.
     Inr (st n)))))"

definition recheck_link :: "store \<Rightarrow> string \<Rightarrow> (nat \<times> string \<times> string) \<times> stat_result \<Rightarrow> unit result" where
  "recheck_link s label lo = (case lo of ((size1, p, target), original) \<Rightarrow>
     bindE (lstat s (parts_of p) label) (\<lambda>n.
     demand (full_identity (st n) = full_identity original \<and> contents n = target)
       (label @ '' usr-merge link changed while opening'')))"

definition verify_usrmerge_interpreter :: "deploy_env \<Rightarrow> store \<Rightarrow> json \<Rightarrow> string \<Rightarrow> held_file result" where
  "verify_usrmerge_interpreter env s v label =
     bindE (exact_fields v [''lookup_path'', ''mode'', ''resolved_path'', ''sha256'', ''size'', ''usrmerge_chain''] label) (\<lambda>spec.
     bindE (demand (fld spec ''lookup_path'' = JStr INTERPRETER_LOOKUP \<and>
                    fld spec ''resolved_path'' = JStr INTERPRETER_RESOLVED \<and>
                    py_eq (fld spec ''usrmerge_chain'') (JArr (map locked_link USRMERGE_CHAIN)))
              (label @ '' usr-merge lock mismatch'')) (\<lambda>_.
     bindE (mapE (check_link s label) USRMERGE_CHAIN) (\<lambda>before.
     bindE (open_regular env s (parts_of INTERPRETER_RESOLVED) None label None) (\<lambda>f.
     bindE (check_locked f spec label) (\<lambda>_.
     bindE (iterE (recheck_link s label) (zip USRMERGE_CHAIN before)) (\<lambda>_.
     Inr f))))))"

section \<open>The runtime\<close>

definition FASTBOOT_LINK :: json where
  "FASTBOOT_LINK = locked_link (42, ''/usr/bin/fastboot'', ''../lib/android-sdk/platform-tools/fastboot'')"

definition FASTBOOT_PATH :: string where "FASTBOOT_PATH = ''/usr/lib/android-sdk/platform-tools/fastboot''"
definition FASTBOOT_SHA256 :: string where
  "FASTBOOT_SHA256 = ''4d90c8ff8569476a76ea1f6a2c86e54e833e0e1c0e82af13a10277c7b617c506''"
definition FASTBOOT_SIZE :: nat where "FASTBOOT_SIZE = 506488"
definition FASTBOOT_NEEDED :: "string list" where
  "FASTBOOT_NEEDED = [''libbase.so.0'', ''libcrypto.so.0'', ''libcutils.so.0'', ''liblog.so.0'',
     ''libprotobuf.so.32'', ''libsparse.so.0'', ''libusb-1.0.so.0'', ''libziparchive.so.0'', ''libstdc++.so.6'',
     ''libm.so.6'', ''libgcc_s.so.1'', ''libc.so.6'']"

definition FASTBOOT_ELF :: json where
  "FASTBOOT_ELF = JObj
     [(''dt_needed'', jstrs FASTBOOT_NEEDED), (''interpreter'', JStr INTERPRETER_LOOKUP), (''mode'', JStr ''0755''),
      (''path'', JStr FASTBOOT_PATH), (''runpath'', jstrs [''/usr/lib/x86_64-linux-gnu/android'']),
      (''sha256'', JStr FASTBOOT_SHA256), (''size'', JInt (int FASTBOOT_SIZE))]"

definition FASTBOOT_ARGV :: "string list" where
  "FASTBOOT_ARGV = [INTERPRETER_RESOLVED, ''--inhibit-cache'', ''--library-path'',
     ''/usr/lib/x86_64-linux-gnu/android:/usr/lib/x86_64-linux-gnu'', FASTBOOT_PATH]"

definition RUNTIME_EXECUTION :: json where
  "RUNTIME_EXECUTION = JObj
     [(''argv_prefix'', jstrs FASTBOOT_ARGV), (''cleared_loader_environment'', jstrs LOADER_ENV_NAMES),
      (''shell'', JBool False)]"

definition RUNTIME_PACKAGE :: json where
  "RUNTIME_PACKAGE = JObj
     [(''architecture'', JStr ''amd64''), (''name'', JStr ''fastboot''), (''version'', JStr ''1:34.0.5-12build1'')]"

definition VERSION_LINES :: "string list" where
  "VERSION_LINES = [''fastboot version 34.0.5-debian'', ''Installed as '' @ INTERPRETER_RESOLVED]"

definition VERSION_OUTPUT :: bytes where
  "VERSION_OUTPUT = join_with [LF] VERSION_LINES @ [LF]"

definition DPKG_ARGV :: "string list" where
  "DPKG_ARGV = [''/usr/bin/dpkg-query'', ''-W'',
     ''-f=${Package}'' @ [BS] @ ''t${Version}'' @ [BS] @ ''t${Architecture}'' @ [BS] @ ''n'', ''fastboot'']"

definition DPKG_OUTPUT :: bytes where
  "DPKG_OUTPUT = ''fastboot'' @ [TAB] @ ''1:34.0.5-12build1'' @ [TAB] @ ''amd64'' @ [LF]"

text \<open>One library of the closure: what was held before, and the entries by their soname.\<close>

definition add_library ::
  "deploy_env \<Rightarrow> store \<Rightarrow> held_file list \<times> (string \<times> dict) list \<Rightarrow> json \<Rightarrow> (held_file list \<times> (string \<times> dict) list) result" where
  "add_library env s acc v = (case acc of (fs, by_soname) \<Rightarrow>
     bindE (demand (is_obj v) ''runtime library entry is not an object'') (\<lambda>_.
     let spec = obj_val v; soname = str_val (fld spec ''soname'') in
     bindE (demand (is_str (fld spec ''soname'') \<and> map_of by_soname soname = None)
              ''runtime library soname is invalid or duplicated'') (\<lambda>_.
     bindE (verify_runtime_object env s spec ''runtime library'') (\<lambda>f.
     Inr (fs @ [f], by_soname @ [(soname, spec)])))))"

definition check_closure :: "(string \<times> dict) list \<Rightarrow> unit result" where
  "check_closure by_soname =
     (let allowed = map fst by_soname @ [''ld-linux-x86-64.so.2''] in
      bindE (demand (set FASTBOOT_NEEDED \<subseteq> set allowed) ''fastboot direct DT_NEEDED closure is incomplete'') (\<lambda>_.
      iterE (\<lambda>(soname, spec). let needed = fld spec ''dt_needed'' in
        demand (is_arr needed \<and> list_all is_str (arr_val needed) \<and> set (map str_val (arr_val needed)) \<subseteq> set allowed)
          (''transitive DT_NEEDED closure incomplete for '' @ soname)) by_soname))"

text \<open>What is checked before a command is started.\<close>

definition hold_runtime :: "deploy_env \<Rightarrow> dict \<Rightarrow> store \<Rightarrow> held_file list result" where
  "hold_runtime env v s =
     bindE (exact_fields (JObj v) [''execution'', ''executable'', ''interpreter'', ''libraries'', ''package'', ''schema'',
              ''symlink'', ''version_output''] ''WSL runtime lock'') (\<lambda>_.
     bindE (demand (fld v ''schema'' = JStr RUNTIME_SCHEMA) ''WSL runtime lock schema mismatch'') (\<lambda>_.
     bindE (demand (py_eq (fld v ''symlink'') FASTBOOT_LINK) ''fastboot WSL symlink lock mismatch'') (\<lambda>_.
     bindE (check_ancestors s (parts_of ''/usr/bin/fastboot'') None ''fastboot symlink'') (\<lambda>_.
     bindE (case find s (parts_of ''/usr/bin/fastboot'') of None \<Rightarrow> Inl PyOSError | Some n \<Rightarrow> Inr n) (\<lambda>link.
     bindE (demand (st_type (st link) = F_LNK \<and> st_size (st link) = 42 \<and>
                    contents link = ''../lib/android-sdk/platform-tools/fastboot'')
              ''fastboot WSL symlink runtime mismatch'') (\<lambda>_.
     bindE (exact_fields (fld v ''executable'') [''dt_needed'', ''interpreter'', ''mode'', ''path'', ''runpath'', ''sha256'',
              ''size''] ''fastboot ELF'') (\<lambda>executable.
     bindE (demand (py_eq (JObj executable) FASTBOOT_ELF) ''fastboot ELF identity/DT_NEEDED lock mismatch'') (\<lambda>_.
     bindE (open_regular env s (parts_of FASTBOOT_PATH) None ''fastboot ELF'' None) (\<lambda>elf.
     bindE (demand (hf_sha256 elf = FASTBOOT_SHA256 \<and> hf_size elf = FASTBOOT_SIZE \<and> st_perm (hf_stat elf) = 493)
              ''fastboot ELF runtime identity mismatch'') (\<lambda>_.
     let spec = fld v ''interpreter'' in
     bindE (if is_obj spec then Inr (fld (obj_val spec) ''lookup_path'') else Inl PyAttributeError) (\<lambda>lookup.
     bindE (demand (lookup = JStr INTERPRETER_LOOKUP) ''fastboot PT_INTERP/runtime lookup binding mismatch'') (\<lambda>_.
     bindE (verify_usrmerge_interpreter env s spec ''ELF interpreter'') (\<lambda>interpreter.
     let libraries = fld v ''libraries'' in
     bindE (demand (is_arr libraries \<and> arr_val libraries \<noteq> []) ''runtime library closure is empty'') (\<lambda>_.
     bindE (foldE (add_library env s) ([elf, interpreter], []) (arr_val libraries)) (\<lambda>(fs, by_soname).
     bindE (check_closure by_soname) (\<lambda>_.
     bindE (demand (hd FASTBOOT_ARGV = str_val (fld (obj_val spec) ''resolved_path''))
              ''runtime argv does not use the resolved ELF interpreter'') (\<lambda>_.
     bindE (demand (py_eq (fld v ''execution'') RUNTIME_EXECUTION) ''runtime absolute loader argv policy mismatch'') (\<lambda>_.
     bindE (demand (py_eq (fld v ''package'') RUNTIME_PACKAGE) ''fastboot dpkg identity lock mismatch'') (\<lambda>_.
     bindE (demand (py_eq (fld v ''version_output'') (jstrs VERSION_LINES)) ''fastboot locked version output mismatch'') (\<lambda>_.
     Inr fs))))))))))))))))))))"

definition validate_runtime :: "deploy_env \<Rightarrow> dict \<Rightarrow> (string list \<times> held_file list) dstep" where
  "validate_runtime env v =
     bindS (readS (hold_runtime env v)) (\<lambda>fs.
     bindS (run_process env (FASTBOOT_ARGV @ [''--version'']) QUERY_TIMEOUT_SECONDS []) (\<lambda>version.
     bindS (demandS (version = clean_result (Some 0) VERSION_OUTPUT []) ''fastboot exact version output mismatch'') (\<lambda>_.
     bindS (run_process env DPKG_ARGV QUERY_TIMEOUT_SECONDS []) (\<lambda>dpkg.
     bindS (demandS (dpkg = clean_result (Some 0) DPKG_OUTPUT []) ''fastboot dpkg runtime identity mismatch'') (\<lambda>_.
     retS (FASTBOOT_ARGV, fs))))))"

section \<open>The audit\<close>

record audit =
  a_profile :: dict
  a_profile_sha256 :: string
  a_policy :: dict
  a_mapping :: dict
  a_completed :: dict
  a_runtime :: dict
  a_held :: "(string \<times> held_file) list"
  a_argv_prefix :: "string list"

definition recheck :: "audit \<Rightarrow> store \<Rightarrow> bool" where
  "recheck a s \<longleftrightarrow> list_all (\<lambda>(key, f). case find s (hf_path f) of
       None \<Rightarrow> False
     | Some n \<Rightarrow> full_identity (st n) = full_identity (hf_stat f)) (a_held a)"

definition SMALL_MAXIMUM :: nat where "SMALL_MAXIMUM = 65536"

text \<open>\<open>d.get(key, {})\<close>, on which another \<open>get\<close> is called.\<close>

definition get_object :: "dict \<Rightarrow> string \<Rightarrow> dict result" where
  "get_object d key = (case map_of d key of None \<Rightarrow> Inr [] | Some (JObj o1) \<Rightarrow> Inr o1 | Some _ \<Rightarrow> Inl PyAttributeError)"

definition check_assembly_attestation :: "dict \<Rightarrow> contract \<Rightarrow> unit result" where
  "check_assembly_attestation v k =
     (let why = ''assembly attestation cross-binding mismatch'' in
      bindE (demand (fld v ''schema'' = JStr ''lmi-p2-d114-userdata-assembly-attestation/v1'') why) (\<lambda>_.
      bindE (get_object v ''output'') (\<lambda>output.
      bindE (demand (py_eq (fld output ''raw'') (JObj ([(''filename'', JStr ''userdata.raw''), (''path'', JStr ''userdata.raw'')] @
                pinned_file (k_raw_sha256 k) (k_raw_size k)))) why) (\<lambda>_.
      bindE (demand (py_eq (fld output ''sparse'') (JObj ([(''filename'', JStr ''userdata.android-sparse.img''),
                (''logical_size'', JInt (k_raw_size k)), (''path'', JStr ''userdata.android-sparse.img'')] @
                pinned_file (k_sparse_sha256 k) (k_sparse_size k)))) why) (\<lambda>_.
      bindE (get_object v ''input'') (\<lambda>input.
      bindE (get_object input ''p2'') (\<lambda>p2.
      bindE (demand (has_identity (JObj p2) (k_rootfs_sha256 k) (k_rootfs_size k)) why) (\<lambda>_.
      bindE (get_object v ''bindings'') (\<lambda>bindings.
      demand (fld bindings ''p2_injection_attestation_sha256'' = JStr (k_injection_sha256 k)) why)))))))))"

definition check_injection_attestation :: "dict \<Rightarrow> contract \<Rightarrow> unit result" where
  "check_injection_attestation v k =
     (let why = ''injection attestation cross-binding mismatch'' in
      bindE (demand (fld v ''schema'' = JStr ''lmi-p2-d114-rootfs-injection-attestation/v3'') why) (\<lambda>_.
      bindE (get_object v ''output'') (\<lambda>output.
      demand (has_identity (JObj output) (k_rootfs_sha256 k) (k_rootfs_size k) \<and>
              py_eq (fld v ''claims'') LOCK_CLAIMS) why)))"

definition same_binding :: "dict \<Rightarrow> string \<Rightarrow> json \<Rightarrow> string \<Rightarrow> unit result" where
  "same_binding policy key artifact label =
     (let d = obj_val artifact in
      demand (py_eq (fld (obj_val (fld policy ''bindings'')) key)
          (JObj [(''path'', fld d ''path''), (''sha256'', fld d ''sha256''), (''size'', fld d ''size'')]))
        (''profile/policy '' @ label @ '' binding mismatch''))"

text \<open>The profile and the small documents it names.\<close>

definition audit_documents :: "deploy_env \<Rightarrow> path \<Rightarrow> store \<Rightarrow> audit result" where
  "audit_documents env profile_path s =
     (let h = d_host env; k = d_contract env;
          open_small = (\<lambda>spec label. open_spec env s spec label (Some SMALL_MAXIMUM) False);
          document = (\<lambda>f label. bindE (held_bytes f SMALL_MAXIMUM label) (\<lambda>bs. deploy_json_bytes h bs label)) in
      bindE (open_regular env s profile_path (Some (d_repo_root env)) ''private WSL profile'' (Some SMALL_MAXIMUM)) (\<lambda>profile_item.
      bindE (demand (st_perm (hf_stat profile_item) = 384) ''private WSL profile must have mode 0600'') (\<lambda>_.
      bindE (document profile_item ''profile'') (\<lambda>profile.
      bindE (validate_profile h profile k) (\<lambda>_.
      let artifacts = obj_val (fld profile ''artifacts'') in
      bindE (open_small (fld artifacts ''assembly_attestation'') ''assembly attestation'') (\<lambda>assembly_item.
      bindE (open_small (fld artifacts ''p2_injection_attestation'') ''injection attestation'') (\<lambda>injection_item.
      bindE (open_small (fld artifacts ''deploy_policy_lock'') ''WSL deploy policy'') (\<lambda>policy_item.
      bindE (open_small (fld artifacts ''fastboot_runtime_lock'') ''WSL runtime lock'') (\<lambda>runtime_item.
      bindE (open_small (fld artifacts ''completed_actions_lock'') ''completed action lock'') (\<lambda>completed_item.
      bindE (open_small (fld artifacts ''physical_mapping_evidence'') ''physical mapping'') (\<lambda>mapping_item.
      bindE (document policy_item ''policy'') (\<lambda>policy.
      bindE (document runtime_item ''runtime'') (\<lambda>runtime.
      bindE (document completed_item ''completed'') (\<lambda>completed.
      bindE (document mapping_item ''mapping'') (\<lambda>mapping.
      bindE (validate_policy policy k) (\<lambda>_.
      bindE (same_binding policy ''fastboot_runtime_lock'' (fld artifacts ''fastboot_runtime_lock'') ''runtime'') (\<lambda>_.
      bindE (same_binding policy ''completed_actions_lock'' (fld artifacts ''completed_actions_lock'') ''completed-action'') (\<lambda>_.
      bindE (same_binding policy ''physical_userdata_mapping'' (fld artifacts ''physical_mapping_evidence'') ''mapping'') (\<lambda>_.
      bindE (validate_mapping mapping k) (\<lambda>_.
      bindE (validate_completed completed k (fld (obj_val (fld artifacts ''candidate'')) ''sha256'')) (\<lambda>_.
      bindE (document assembly_item ''assembly attestation'') (\<lambda>assembly.
      bindE (document injection_item ''injection attestation'') (\<lambda>injection.
      bindE (check_assembly_attestation assembly k) (\<lambda>_.
      bindE (check_injection_attestation injection k) (\<lambda>_.
      Inr \<lparr>a_profile = profile, a_profile_sha256 = hf_sha256 profile_item, a_policy = policy, a_mapping = mapping,
           a_completed = completed, a_runtime = runtime,
           a_held = [(''profile'', profile_item), (''assembly'', assembly_item), (''injection'', injection_item),
             (''policy'', policy_item), (''runtime'', runtime_item), (''completed'', completed_item),
             (''mapping'', mapping_item)],
           a_argv_prefix = []\<rparr>)))))))))))))))))))))))))"

definition system_key :: "nat \<Rightarrow> string" where
  "system_key i = ''system-runtime:'' @ show_nat i"

text \<open>The large images, opened after the small runtime gate.\<close>

definition audit_images :: "deploy_env \<Rightarrow> audit \<Rightarrow> store \<Rightarrow> audit result" where
  "audit_images env a s =
     (let h = d_host env; k = d_contract env; artifacts = obj_val (fld (a_profile a) ''artifacts'') in
      bindE (open_spec env s (fld artifacts ''candidate'') ''candidate'' None True) (\<lambda>candidate.
      bindE (open_spec env s (fld artifacts ''candidate_raw'') ''candidate raw'' None False) (\<lambda>raw.
      bindE (open_spec env s (fld artifacts ''p2_rootfs'') ''P2 rootfs'' None False) (\<lambda>rootfs.
      bindE (open_spec env s (fld artifacts ''rollback'') ''rollback'' None True) (\<lambda>rollback.
      bindE (demand (hf_sha256 rootfs = k_rootfs_sha256 k \<and> hf_sha256 raw = k_raw_sha256 k \<and>
                     hf_sha256 candidate = k_sparse_sha256 k \<and> hf_sha256 rollback = k_rollback_sha256 k)
               ''large artifact identity mismatch'') (\<lambda>_.
      bindE (inspect_sparse h (hf_data candidate) (k_raw_size k) (k_raw_sha256 k)) (\<lambda>_.
      bindE (inspect_sparse h (hf_data rollback) (k_raw_size k) (k_baseline_raw_sha256 k)) (\<lambda>_.
      let a' = a\<lparr>a_held := a_held a @ [(''candidate'', candidate), (''candidate_raw'', raw), (''rootfs'', rootfs),
                   (''rollback'', rollback)]\<rparr> in
      bindE (demand (recheck a' s) ''locked repository inputs drifted during local audit'') (\<lambda>_. Inr a')))))))))"

definition local_audit :: "deploy_env \<Rightarrow> path \<Rightarrow> audit dstep" where
  "local_audit env profile_path =
     bindS (readS (audit_documents env profile_path)) (\<lambda>a.
     bindS (validate_runtime env (a_runtime a)) (\<lambda>(argv_prefix, runtime_held).
     readS (audit_images env (a\<lparr>a_argv_prefix := argv_prefix,
       a_held := a_held a @ zip (map system_key [0..<length runtime_held]) runtime_held\<rparr>))))"

definition candidate :: "audit \<Rightarrow> held_file" where
  "candidate a = the (map_of (a_held a) ''candidate'')"

end
