(* ===== verification/DeployDevice.thy ===== *)
theory DeployDevice
  imports DeployAudit
begin

text \<open>
  The device gate of the deployment tool: the strict readers of fastboot answers and the fixed
  read-only queries (\<open>query_device\<close>), and what a preflight binds (\<open>_artifact_binding\<close>,
  \<open>_preflight_binding\<close>).
\<close>

section \<open>Strict answers\<close>

definition strict_devices :: "command_result \<Rightarrow> string result" where
  "strict_devices r =
     bindE (demand (r = clean_result (Some 0) (stdout r) []) ''fastboot devices did not complete cleanly'') (\<lambda>_.
     bindE (demand (is_ascii (stdout r)) ''fastboot devices output is not ASCII'') (\<lambda>_.
     case parse_devices (stdout r) of
       None \<Rightarrow> Inl (DeployError ''exactly one bootloader-mode fastboot device is required'')
     | Some serial \<Rightarrow> Inr serial))"

definition strict_getvar :: "string \<Rightarrow> command_result \<Rightarrow> bool \<Rightarrow> (string option \<times> bool) result" where
  "strict_getvar nm r allow_unsupported =
     bindE (demand (started r \<and> \<not> timed_out r \<and> \<not> output_limited r \<and> stdout r = [])
              (''getvar:'' @ nm @ '' did not complete through the strict stderr channel'')) (\<lambda>_.
     bindE (demand (is_ascii (stderr r)) (''getvar:'' @ nm @ '' stderr is not ASCII'')) (\<lambda>_.
     case parse_getvar nm (stderr r) allow_unsupported of
       Some p \<Rightarrow> bindE (demand (returncode r = Some 0) (''getvar:'' @ nm @ '' output shape or exit status mismatch'')) (\<lambda>_. Inr p)
     | None \<Rightarrow> Inl (DeployError (''getvar:'' @ nm @ '' output shape or exit status mismatch''))))"

text \<open>\<open>int(s, 0)\<close> of a text that has one of the two shapes: a decimal text may not start with a zero
  unless it is zero, nor have more than 4300 digits.\<close>

definition hex_shape :: "string \<Rightarrow> bool" where
  "hex_shape s \<longleftrightarrow> (prefix ''0x'' s \<or> prefix ''0X'' s) \<and> drop 2 s \<noteq> [] \<and> list_all is_hex (drop 2 s)"

definition decimal_shape :: "string \<Rightarrow> bool" where
  "decimal_shape s \<longleftrightarrow> s \<noteq> [] \<and> list_all is_digit s"

definition int_base0 :: "string \<Rightarrow> int result" where
  "int_base0 s =
     (if hex_shape s then Inr (int (hex_val (drop 2 s)))
      else if length s > max_digits \<or> hd s = CHR ''0'' \<and> dec_val s \<noteq> 0
        then Inl (PyValueError ''invalid literal for int() with base 0'')
      else Inr (int (dec_val s)))"

definition parse_integer :: "string \<Rightarrow> string \<Rightarrow> bool \<Rightarrow> int result" where
  "parse_integer value label allow_one_leading_space =
     (let s = (case value of CHR '' '' # r \<Rightarrow> if allow_one_leading_space then r else value | _ \<Rightarrow> value) in
      bindE (demand (hex_shape s \<or> decimal_shape s) (label @ '' is not a strict integer'')) (\<lambda>_. int_base0 s))"

text \<open>\<open>n < v\<close> for an integer and a JSON value\<close>

definition below_value :: "int \<Rightarrow> json \<Rightarrow> bool result" where
  "below_value n v = (case v of
       JInt k \<Rightarrow> Inr (n < k) | JBool b \<Rightarrow> Inr (n < (if b then 1 else 0)) | JFloat m k \<Rightarrow> Inr (n * 2 ^ k < m)
     | JInf b \<Rightarrow> Inr b | JNaN \<Rightarrow> Inr False | _ \<Rightarrow> Inl PyTypeError)"

section \<open>The queries\<close>

record device_evidence =
  de_serial :: string
  de_identity_binding :: string
  de_public :: dict

definition GETVAR_NAMES :: "string list" where
  "GETVAR_NAMES = [''serialno'', ''product'', ''unlocked'', ''is-userspace'', ''is-logical:userdata'',
     ''partition-type:userdata'', ''partition-size:userdata'', ''battery-voltage'', ''battery-soc-ok'',
     ''max-download-size'']"

type_synonym answers = "(string \<times> string option) list"

primrec query_values :: "deploy_env \<Rightarrow> string list \<Rightarrow> string \<Rightarrow> string list \<Rightarrow> (answers \<times> bool) dstep" where
  "query_values env args serial [] = retS ([], False)"
| "query_values env args serial (nm # nms) =
     bindS (run_process env (args @ [''-s'', serial, ''getvar'', nm]) QUERY_TIMEOUT_SECONDS []) (\<lambda>r.
     bindS (liftS (strict_getvar nm r (nm = ''is-logical:userdata''))) (\<lambda>(v, u).
     bindS (query_values env args serial nms) (\<lambda>(vs, us). retS ((nm, v) # vs, u \<or> us))))"

definition device_answer :: "answers \<Rightarrow> string \<Rightarrow> string option" where
  "device_answer vs nm = (case map_of vs nm of Some v \<Rightarrow> v | None \<Rightarrow> None)"

text \<open>\<open>str(values[name])\<close>\<close>

definition answer_text :: "answers \<Rightarrow> string \<Rightarrow> string" where
  "answer_text vs nm = (case device_answer vs nm of Some v \<Rightarrow> v | None \<Rightarrow> ''None'')"

text \<open>The gate on the answers, and what of them becomes public.\<close>

definition judge_device :: "audit \<Rightarrow> string \<Rightarrow> answers \<Rightarrow> bool \<Rightarrow> dict result" where
  "judge_device a serial vs unsupported =
     (let device = obj_val (fld (a_profile a) ''device'');
          logical = (if unsupported then Some ''unsupported'' else device_answer vs ''is-logical:userdata'') in
      bindE (demand (device_answer vs ''serialno'' = Some serial) ''serialno getvar does not match enumeration'') (\<lambda>_.
      bindE (demand (device_answer vs ''product'' = Some ''lmi'' \<and> device_answer vs ''unlocked'' = Some ''yes'' \<and>
                     device_answer vs ''is-userspace'' = Some ''no'') ''product, unlock, or bootloader-mode gate failed'') (\<lambda>_.
      bindE (demand (logical = Some ''no'' \<or> logical = Some ''unsupported'') ''userdata is not proven physical'') (\<lambda>_.
      bindE (demand (logical = Some ''unsupported'' \<longrightarrow> py_eq (fld (a_mapping a) ''override'') MAPPING_OVERRIDE)
               ''unsupported physical mapping override is not exact'') (\<lambda>_.
      bindE (parse_integer (answer_text vs ''partition-size:userdata'') ''partition size'' True) (\<lambda>partition_size.
      bindE (parse_integer (answer_text vs ''battery-voltage'') ''battery voltage'' False) (\<lambda>battery_mv.
      bindE (parse_integer (answer_text vs ''max-download-size'') ''max download size'' False) (\<lambda>max_download.
      let why = ''userdata type/size, battery, or download-size gate failed'' in
      bindE (demand (device_answer vs ''partition-type:userdata'' = Some ''f2fs'' \<and>
                     py_eq (JInt partition_size) (fld device ''expected_userdata_capacity'')) why) (\<lambda>_.
      bindE (below_value battery_mv (fld device ''minimum_battery_mv'')) (\<lambda>low_battery.
      bindE (demand (\<not> low_battery \<and> device_answer vs ''battery-soc-ok'' = Some ''yes'') why) (\<lambda>_.
      bindE (below_value max_download (fld device ''minimum_max_download_size'')) (\<lambda>small_download.
      bindE (demand (\<not> small_download) why) (\<lambda>_.
      Inr [(''battery_mv'', JInt battery_mv), (''identity_match'', JBool True),
           (''is_logical_userdata'', JStr (the logical)), (''max_download_size'', JInt max_download),
           (''partition_size'', JInt partition_size), (''partition_type'', JStr ''f2fs''),
           (''physical_mapping_evidence_override'', JBool (logical = Some ''unsupported'')), (''product'', JStr ''lmi''),
           (''slot_layout_claim'', JStr ''not-proven''), (''soc_ok'', JStr ''yes''), (''unlocked'', JStr ''yes''),
           (''userspace'', JStr ''no'')])))))))))))))"

definition profile_identity :: "audit \<Rightarrow> string \<Rightarrow> string" where
  "profile_identity a key = str_val (fld (obj_val (fld (a_profile a) ''identity'')) key)"

definition query_device :: "deploy_env \<Rightarrow> audit \<Rightarrow> device_evidence dstep" where
  "query_device env a =
     (let args = a_argv_prefix a in
      bindS (run_process env (args @ [''devices'']) QUERY_TIMEOUT_SECONDS []) (\<lambda>devices.
      bindS (liftS (strict_devices devices)) (\<lambda>serial.
      let binding = identity_binding_of (d_host env) (profile_identity a ''privacy_nonce'') serial in
      bindS (demandS (serial = profile_identity a ''expected_serial'' \<and>
                      binding = profile_identity a ''expected_nonce_scoped_serial_sha256'')
               ''enumerated device does not match the private nonce-scoped identity'') (\<lambda>_.
      bindS (query_values env args serial GETVAR_NAMES) (\<lambda>(vs, unsupported).
      bindS (liftS (judge_device a serial vs unsupported)) (\<lambda>public.
      retS \<lparr>de_serial = serial, de_identity_binding = binding, de_public = public\<rparr>))))))"

section \<open>Bindings\<close>

definition artifact_field :: "audit \<Rightarrow> string \<Rightarrow> string \<Rightarrow> json" where
  "artifact_field a nm key = fld (obj_val (fld (obj_val (fld (a_profile a) ''artifacts'')) nm)) key"

definition artifact_binding :: "audit \<Rightarrow> json" where
  "artifact_binding a = JObj
     [(''assembly_attestation'', artifact_field a ''assembly_attestation'' ''sha256''),
      (''candidate'', JObj
         [(''logical_size'', artifact_field a ''candidate'' ''logical_size''),
          (''roundtrip_raw_sha256'', artifact_field a ''candidate'' ''roundtrip_raw_sha256''),
          (''sha256'', artifact_field a ''candidate'' ''sha256''), (''size'', artifact_field a ''candidate'' ''size'')]),
      (''candidate_raw'', artifact_field a ''candidate_raw'' ''sha256''),
      (''completed_actions_lock'', artifact_field a ''completed_actions_lock'' ''sha256''),
      (''deploy_policy_lock'', artifact_field a ''deploy_policy_lock'' ''sha256''),
      (''fastboot_runtime_lock'', artifact_field a ''fastboot_runtime_lock'' ''sha256''),
      (''mapping'', artifact_field a ''physical_mapping_evidence'' ''sha256''),
      (''p2_injection_attestation'', artifact_field a ''p2_injection_attestation'' ''sha256''),
      (''p2_rootfs'', artifact_field a ''p2_rootfs'' ''sha256''),
      (''profile'', JStr (a_profile_sha256 a))]"

definition argv_semantics :: "audit \<Rightarrow> json" where
  "argv_semantics a = jstrs (a_argv_prefix a @ [''-s'', ''<identity-matched-device>'', ''flash'', ''userdata'',
     ''/proc/self/fd/<held-candidate-fd>''])"

definition preflight_binding :: "host \<Rightarrow> audit \<Rightarrow> device_evidence \<Rightarrow> dict" where
  "preflight_binding h a d =
     [(''artifacts'', artifact_binding a), (''device_evidence_sha256'', JStr (sha256 h (canonical_line h (de_public d)))),
      (''identity_binding'', JStr (de_identity_binding d)), (''profile_id'', fld (a_profile a) ''profile_id''),
      (''write_argv_semantics'', argv_semantics a)]"

end
