(* ===== verification/RunBounded.thy ===== *)
theory RunBounded
  imports DeployBase
begin

text \<open>
  The default process runner \<open>run_bounded\<close> of the deployment gate: the refusal of an unsafe
  invocation, the loop that collects the output of a process under a bound and a deadline, and
  the process group that is killed and reaped.

  What the operating system does is a list of rounds: the clock, the ready streams and what a
  read of each returns, and whether the process has been reaped.  A process that the list does
  not bring to its end is one that has not returned.
\<close>

section \<open>What the system answers\<close>

datatype channel = Stdout | Stderr

datatype read_answer = WouldBlock | Chunk bytes

record round =
  r_now :: int
  ready :: "(channel \<times> read_answer) list"
  polled_at_start :: bool
  polled_at_end :: bool

text \<open>\<open>subprocess.Popen\<close> raises \<open>OSError\<close>, or the process runs and is reaped with a return code.\<close>

datatype launch = NotStarted | Running int "round list" int

section \<open>The loop\<close>

record pump =
  out :: bytes
  err :: bytes
  registered :: "channel set"
  p_timed_out :: bool
  p_limited :: bool
  p_killed :: bool

definition pump0 :: pump where
  "pump0 = \<lparr>out = [], err = [], registered = {Stdout, Stderr}, p_timed_out = False, p_limited = False,
     p_killed = False\<rparr>"

definition collected :: "pump \<Rightarrow> nat" where
  "collected p = length (out p) + length (err p)"

definition READ_SIZE :: nat where "READ_SIZE = 16384"

definition extend :: "channel \<Rightarrow> bytes \<Rightarrow> pump \<Rightarrow> pump" where
  "extend c bs p = (case c of Stdout \<Rightarrow> p\<lparr>out := out p @ bs\<rparr> | Stderr \<Rightarrow> p\<lparr>err := err p @ bs\<rparr>)"

text \<open>One event of the selector; the killed process group gets one signal.\<close>

definition on_event :: "pump \<Rightarrow> channel \<times> read_answer \<Rightarrow> pump" where
  "on_event p e = (case snd e of
       WouldBlock \<Rightarrow> p
     | Chunk data \<Rightarrow>
         (let chunk = take READ_SIZE data in
          if chunk = [] then p\<lparr>registered := registered p - {fst e}\<rparr>
          else (let allowance = MAX_OUTPUT_BYTES - collected p; p' = extend (fst e) (take allowance chunk) p in
            if length chunk > allowance \<and> \<not> p_killed p then p'\<lparr>p_limited := True, p_killed := True\<rparr> else p')))"

text \<open>The selector reports the registered streams only, each at most once.\<close>

definition events_of :: "pump \<Rightarrow> round \<Rightarrow> (channel \<times> read_answer) list" where
  "events_of p r = filter (\<lambda>e. fst e \<in> registered p) (List.map (\<lambda>c. (c, the (map_of (ready r) c)))
     (filter (\<lambda>c. map_of (ready r) c \<noteq> None) [Stdout, Stderr]))"

definition on_round :: "int \<Rightarrow> round \<Rightarrow> pump \<Rightarrow> pump" where
  "on_round deadline r p =
     (let p' = (if deadline - r_now r \<le> 0 \<and> \<not> p_killed p then p\<lparr>p_timed_out := True, p_killed := True\<rparr> else p) in
      fold (\<lambda>e q. on_event q e) (events_of p' r) p')"

text \<open>\<open>while selector.get_map() or process.poll() is None\<close>, with the early \<open>break\<close>.\<close>

fun pump_loop :: "int \<Rightarrow> round list \<Rightarrow> pump \<Rightarrow> pump option" where
  "pump_loop deadline [] p = None"
| "pump_loop deadline (r # rs) p =
     (if registered p = {} \<and> polled_at_start r then Some p
      else (let p' = on_round deadline r p in
        if p_killed p' \<and> polled_at_end r \<and> registered p' = {} then Some p' else pump_loop deadline rs p'))"

definition safe_invocation :: "process_command \<Rightarrow> bool" where
  "safe_invocation c \<longleftrightarrow> argv c \<noteq> [] \<and> list_all (\<lambda>a. a \<noteq> [] \<and> NUL \<notin> set a) (argv c) \<and>
     prefix ''/'' (hd (argv c)) \<and> set (map fst (environment c)) \<inter> set LOADER_ENV_NAMES = {} \<and>
     (\<forall>k\<in>set (map fst (environment c)) \<union> set (map fst SAFE_ENV). map_of (environment c) k = map_of SAFE_ENV k)"

text \<open>A process that the system never brings to its end keeps the caller waiting.\<close>

definition run_bounded :: "process_command \<Rightarrow> launch \<Rightarrow> command_result result" where
  "run_bounded c l =
     bindE (demand (safe_invocation c) ''unsafe process invocation contract'') (\<lambda>_.
     case l of
       NotStarted \<Rightarrow> Inr \<lparr>returncode = None, stdout = [], stderr = [], started = False, timed_out = False,
         output_limited = False\<rparr>
     | Running start rounds rc \<Rightarrow> (case pump_loop (start + timeout_seconds c) rounds pump0 of
           None \<Rightarrow> Inl ProcessKilled
         | Some p \<Rightarrow> Inr \<lparr>returncode = Some rc, stdout = out p, stderr = err p, started = True,
             timed_out = p_timed_out p, output_limited = p_limited p\<rparr>))"

text \<open>\<open>run_bounded\<close> as the process runner of a run, on a system that starts processes.\<close>

definition bounded_runner :: "(event list \<Rightarrow> process_command \<Rightarrow> store \<Rightarrow> launch \<times> store) \<Rightarrow> process_runner" where
  "bounded_runner system log1 c s = (let (l, s') = system log1 c s in (run_bounded c l, s'))"

section \<open>Bounds\<close>

lemma out_extend [simp]:
  "out (extend c bs p) = (if c = Stdout then out p @ bs else out p)"
  "err (extend c bs p) = (if c = Stderr then err p @ bs else err p)"
  "registered (extend c bs p) = registered p" "p_killed (extend c bs p) = p_killed p"
  "p_timed_out (extend c bs p) = p_timed_out p" "p_limited (extend c bs p) = p_limited p"
  by (cases c; simp add: extend_def)+

lemma collected_extend [simp]: "collected (extend c bs p) = collected p + length bs"
  by (cases c) (simp_all add: collected_def)

text \<open>What the loop keeps: the bound on the output, and that a kill has one of two reasons.\<close>

definition bounded :: "pump \<Rightarrow> bool" where
  "bounded p \<longleftrightarrow> collected p \<le> MAX_OUTPUT_BYTES \<and> (p_killed p \<longleftrightarrow> p_timed_out p \<or> p_limited p) \<and>
     \<not> (p_timed_out p \<and> p_limited p) \<and> (p_limited p \<longrightarrow> collected p = MAX_OUTPUT_BYTES)"

lemma bounded_pump0: "bounded pump0"
  by (simp add: bounded_def pump0_def collected_def)

lemma bounded_event: "bounded p \<Longrightarrow> bounded (on_event p e)"
  by (auto simp: bounded_def on_event_def Let_def collected_def extend_def split: read_answer.splits channel.splits)

lemma bounded_events: "bounded p \<Longrightarrow> bounded (fold (\<lambda>e q. on_event q e) es p)"
  by (induction es arbitrary: p) (auto intro: bounded_event)

lemma bounded_round: "bounded p \<Longrightarrow> bounded (on_round deadline r p)"
  unfolding on_round_def Let_def by (rule bounded_events) (auto simp: bounded_def collected_def)

lemma bounded_loop: "bounded p \<Longrightarrow> pump_loop deadline rs p = Some q \<Longrightarrow> bounded q"
proof (induction rs arbitrary: p)
  case (Cons r rs)
  then show ?case using bounded_round[of p deadline r] by (auto simp: Let_def split: if_splits)
qed simp

text \<open>
  A result is complete, or it says why it is not: at most 64 KiB are kept, a limited result has
  exactly that much, and no result is both limited and timed out.
\<close>

lemma run_bounded_result:
  assumes "run_bounded c l = Inr r"
  shows "safe_invocation c" "length (stdout r) + length (stderr r) \<le> MAX_OUTPUT_BYTES"
    "output_limited r \<Longrightarrow> length (stdout r) + length (stderr r) = MAX_OUTPUT_BYTES"
    "\<not> (timed_out r \<and> output_limited r)" "started r \<longleftrightarrow> l \<noteq> NotStarted" "started r \<longleftrightarrow> returncode r \<noteq> None"
proof -
  show "safe_invocation c" using assms by (simp add: run_bounded_def res_iff)
  show "length (stdout r) + length (stderr r) \<le> MAX_OUTPUT_BYTES"
    "output_limited r \<Longrightarrow> length (stdout r) + length (stderr r) = MAX_OUTPUT_BYTES"
    "\<not> (timed_out r \<and> output_limited r)" "started r \<longleftrightarrow> l \<noteq> NotStarted" "started r \<longleftrightarrow> returncode r \<noteq> None"
    using assms bounded_loop[OF bounded_pump0]
    by (auto simp: run_bounded_def res_iff bounded_def collected_def split: launch.splits option.splits)
qed

section \<open>The output is what was read\<close>

text \<open>The bytes a list of events offers on a channel until it is closed.\<close>

definition offered :: "channel \<Rightarrow> (channel \<times> read_answer) list \<Rightarrow> bytes" where
  "offered c es = concat (map (\<lambda>e. case e of (d, Chunk data) \<Rightarrow> if d = c then take READ_SIZE data else [] | _ \<Rightarrow> []) es)"

fun received :: "int \<Rightarrow> round list \<Rightarrow> pump \<Rightarrow> channel \<Rightarrow> bytes" where
  "received deadline [] p c = []"
| "received deadline (r # rs) p c =
     (if registered p = {} \<and> polled_at_start r then []
      else (let p1 = (if deadline - r_now r \<le> 0 \<and> \<not> p_killed p then p\<lparr>p_timed_out := True, p_killed := True\<rparr> else p);
                p' = on_round deadline r p in
        offered c (events_of p1 r) @
        (if p_killed p' \<and> polled_at_end r \<and> registered p' = {} then [] else received deadline rs p' c)))"

text \<open>While nothing is cut, the loop keeps all that the channels offer.\<close>

definition channel_data :: "channel \<Rightarrow> pump \<Rightarrow> bytes" where
  "channel_data c p = (case c of Stdout \<Rightarrow> out p | Stderr \<Rightarrow> err p)"

lemma on_event_data:
  assumes "\<not> p_killed (on_event p e)"
  shows "channel_data c (on_event p e) = channel_data c p @ offered c [e] \<and> \<not> p_killed p"
  using assms unfolding on_event_def Let_def
  by (cases e; cases c)
    (auto simp: channel_data_def offered_def extend_def Let_def min_def split: read_answer.splits channel.splits if_splits)

lemma killed_event: "p_killed p \<Longrightarrow> p_killed (on_event p e)"
  by (auto simp: on_event_def Let_def split: read_answer.splits)

lemma killed_events: "p_killed p \<Longrightarrow> p_killed (fold (\<lambda>e q. on_event q e) es p)"
  by (induction es arbitrary: p) (auto intro: killed_event)

lemma events_data:
  "\<not> p_killed (fold (\<lambda>e q. on_event q e) es p) \<Longrightarrow>
     channel_data c (fold (\<lambda>e q. on_event q e) es p) = channel_data c p @ offered c es"
proof (induction es arbitrary: p)
  case Nil
  then show ?case by (simp add: offered_def)
next
  case (Cons e es)
  have "offered c (e # es) = offered c [e] @ offered c es" by (simp add: offered_def)
  moreover have "\<not> p_killed (on_event p e)" using Cons.prems killed_events by fastforce
  ultimately show ?case using Cons on_event_data[of p e c] by simp
qed

lemma killed_round: "p_killed p \<Longrightarrow> p_killed (on_round deadline r p)"
  by (auto simp: on_round_def Let_def intro: killed_events)

lemma killed_loop: "p_killed p \<Longrightarrow> pump_loop deadline rs p = Some q \<Longrightarrow> p_killed q"
proof (induction rs arbitrary: p)
  case (Cons r rs)
  then show ?case using killed_round[of p deadline r] by (auto simp: Let_def split: if_splits)
qed simp

lemma loop_data:
  "pump_loop deadline rs p = Some q \<Longrightarrow> \<not> p_killed q \<Longrightarrow> channel_data c q = channel_data c p @ received deadline rs p c"
proof (induction rs arbitrary: p)
  case Nil
  then show ?case by simp
next
  case (Cons r rs)
  let ?p' = "on_round deadline r p"
  show ?case
  proof (cases "registered p = {} \<and> polled_at_start r")
    case True
    then show ?thesis using Cons.prems(1) by simp
  next
    case False
    have k: "\<not> p_killed ?p'"
    proof
      assume a: "p_killed ?p'"
      from Cons.prems(1) False consider "?p' = q" | "pump_loop deadline rs ?p' = Some q"
        by (auto simp: Let_def split: if_splits)
      then show False using a Cons.prems(2) killed_loop by cases auto
    qed
    then have p: "\<not> p_killed p" using killed_round by blast
    have d: "deadline - r_now r > 0"
    proof (rule ccontr)
      assume "\<not> deadline - r_now r > 0"
      then have "p_killed ?p'" using p by (auto simp: on_round_def Let_def intro!: killed_events)
      with k show False by simp
    qed
    have "channel_data c ?p' = channel_data c p @ offered c (events_of p r)"
      using k d by (auto simp: on_round_def events_data)
    moreover have "pump_loop deadline rs ?p' = Some q" using Cons.prems(1) False k by (simp add: Let_def)
    ultimately show ?thesis using Cons.IH[OF _ Cons.prems(2)] False k d by (auto simp: Let_def)
  qed
qed

text \<open>A result that is neither limited nor timed out is the whole output of the process.\<close>

lemma run_bounded_complete:
  assumes "run_bounded c (Running start rounds rc) = Inr r" "\<not> timed_out r" "\<not> output_limited r"
  shows "stdout r = received (start + timeout_seconds c) rounds pump0 Stdout"
    "stderr r = received (start + timeout_seconds c) rounds pump0 Stderr" "returncode r = Some rc"
proof -
  from assms(1) obtain p where p: "pump_loop (start + timeout_seconds c) rounds pump0 = Some p"
    and r: "r = \<lparr>returncode = Some rc, stdout = out p, stderr = err p, started = True,
             timed_out = p_timed_out p, output_limited = p_limited p\<rparr>"
    by (auto simp: run_bounded_def res_iff split: option.splits)
  have "\<not> p_killed p" using bounded_loop[OF bounded_pump0 p] assms(2,3) by (simp add: bounded_def r)
  from loop_data[OF p this, of Stdout] loop_data[OF p this, of Stderr]
  show "stdout r = received (start + timeout_seconds c) rounds pump0 Stdout"
    "stderr r = received (start + timeout_seconds c) rounds pump0 Stderr" "returncode r = Some rc"
    by (simp_all add: r channel_data_def pump0_def)
qed

end
