(* ===== verification/Deploy.thy ===== *)
theory Deploy
  imports DeployDevice RunBounded
begin

text \<open>
  The operations of the deployment gate: private outputs and their publication, the preflight,
  the one-use approval, the execution with its two ledgers and its one write, the combined
  chain, and the command line (\<open>deploy_userdata_wsl.py\<close>, from \<open>_validate_private_output\<close> on).
\<close>

section \<open>Outputs\<close>

definition validate_private_output :: "path \<Rightarrow> path \<Rightarrow> string \<Rightarrow> store \<Rightarrow> path result" where
  "validate_private_output p root label s =
     bindE (repo_relative p root label) (\<lambda>relative.
     bindE (demand (prefix ''private/'' relative) (label @ '' must be under private/'')) (\<lambda>_.
     bindE (check_ancestors s p (Some root) label) (\<lambda>_.
     bindE (case find s (butlast p) of None \<Rightarrow> Inl PyOSError | Some n \<Rightarrow> Inr n) (\<lambda>n.
     bindE (demand (st_type (st n) = F_DIR \<and> st_perm (st n) = 448) (label @ '' parent must be canonical mode 0700'')) (\<lambda>_.
     bindE (demand (find s p = None) (label @ '' overwrite is forbidden'')) (\<lambda>_.
     Inr (butlast p)))))))"

text \<open>\<open>_require_distinct_paths\<close>: \<open>resolve\<close> gives the parent itself when nothing on it is a link.\<close>

definition canonical_dir :: "store \<Rightarrow> path \<Rightarrow> bool" where
  "canonical_dir s p \<longleftrightarrow> ''..'' \<notin> set p \<and> list_all (\<lambda>i. is_dir s (take i p)) [1..<Suc (length p)]"

type_synonym labelled = "path \<times> string"

definition distinct_step :: "store \<Rightarrow> path list \<times> (nat \<times> nat) list \<Rightarrow> labelled \<Rightarrow> (path list \<times> (nat \<times> nat) list) result" where
  "distinct_step s acc pl = (case (acc, pl) of ((paths, inodes), (p, label)) \<Rightarrow>
     bindE (demand (canonical_dir s (butlast p)) (label @ '' has a symlink or aliased parent'')) (\<lambda>_.
     bindE (demand (p \<notin> set paths) (label @ '' aliases another path'')) (\<lambda>_.
     case find s p of
       None \<Rightarrow> Inr (p # paths, inodes)
     | Some n \<Rightarrow>
         bindE (demand (st_type (st n) \<noteq> F_LNK) (label @ '' must not be a symlink'')) (\<lambda>_.
         let inode = (st_dev (st n), st_ino (st n)) in
         bindE (demand (inode \<notin> set inodes) (label @ '' is an inode alias of another path'')) (\<lambda>_.
         Inr (p # paths, inode # inodes))))))"

definition require_distinct_paths :: "labelled list \<Rightarrow> store \<Rightarrow> unit result" where
  "require_distinct_paths pls s = bindE (foldE (distinct_step s) ([], []) pls) (\<lambda>_. Inr ())"

definition ledger_place :: "deploy_env \<Rightarrow> audit \<Rightarrow> string \<Rightarrow> path result" where
  "ledger_place env a nm =
     bindE (relative_path (fld (obj_val (fld (a_profile a) ''ledgers'')) nm) (nm @ '' ledger'')) (\<lambda>rel.
     Inr (d_repo_root env @ rel))"

definition ledger_directory :: "deploy_env \<Rightarrow> audit \<Rightarrow> string \<Rightarrow> store \<Rightarrow> path result" where
  "ledger_directory env a nm s =
     bindE (ledger_place env a nm) (\<lambda>p.
     bindE (check_ancestors s p (Some (d_repo_root env)) (nm @ '' ledger'')) (\<lambda>_.
     bindE (lstat s p (nm @ '' ledger'')) (\<lambda>n.
     bindE (demand (st_type (st n) = F_DIR \<and> st_perm (st n) = 448)
              (nm @ '' ledger must be a canonical mode-0700 directory'')) (\<lambda>_.
     Inr p))))"

definition claim_consumed_path :: "deploy_env \<Rightarrow> audit \<Rightarrow> string \<Rightarrow> store \<Rightarrow> path result" where
  "claim_consumed_path env a approval_sha256 s =
     bindE (sha_value (JStr approval_sha256) ''approval hash for claim ledger'') (\<lambda>_.
     bindE (ledger_directory env a ''claim_consumption'' s) (\<lambda>dir.
     Inr (dir @ [approval_sha256 @ ''.consumed.json''])))"

definition candidate_sha256 :: "audit \<Rightarrow> json" where
  "candidate_sha256 a = artifact_field a ''candidate'' ''sha256''"

definition candidate_attempt_path :: "deploy_env \<Rightarrow> audit \<Rightarrow> store \<Rightarrow> path result" where
  "candidate_attempt_path env a s =
     bindE (sha_value (candidate_sha256 a) ''candidate hash for attempt ledger'') (\<lambda>sha.
     bindE (ledger_directory env a ''candidate_attempts'' s) (\<lambda>dir.
     Inr (dir @ [sha @ ''.attempt.json''])))"

definition require_outputs_outside_ledgers :: "deploy_env \<Rightarrow> audit \<Rightarrow> labelled list \<Rightarrow> store \<Rightarrow> unit result" where
  "require_outputs_outside_ledgers env a outputs s =
     bindE (ledger_directory env a ''claim_consumption'' s) (\<lambda>claims.
     bindE (ledger_directory env a ''candidate_attempts'' s) (\<lambda>attempts.
     iterE (\<lambda>(p, label). demand (\<not> prefix claims p \<and> \<not> prefix attempts p)
       (label @ '' must not be placed inside a deterministic ledger'')) outputs))"

definition FORBIDDEN_TOKENS :: "bytes list" where
  "FORBIDDEN_TOKENS = [''/home/'', ''/mnt/c/Users/'', ''usb:'', ''usb_path'', ''usb_id'']"

definition assert_private_payload :: "bytes \<Rightarrow> string \<Rightarrow> unit result" where
  "assert_private_payload payload expected_serial =
     demand (\<not> list_ex (\<lambda>token. contains token payload) (expected_serial # FORBIDDEN_TOKENS))
       ''persistent evidence would disclose serial, user path, or USB identity''"

section \<open>Publication\<close>

definition on_inode :: "nat \<times> nat \<Rightarrow> (nat \<Rightarrow> nat) \<Rightarrow> nat \<Rightarrow> store \<Rightarrow> store" where
  "on_inode i links now s = map (\<lambda>(q, n). (q, if (st_dev (st n), st_ino (st n)) = i
     then n\<lparr>st := (st n)\<lparr>st_nlink := links (st_nlink (st n)), st_ctime := now\<rparr>\<rparr> else n)) s"

definition inode_at :: "store \<Rightarrow> path \<Rightarrow> nat \<times> nat" where
  "inode_at s p = (case find s p of None \<Rightarrow> (0, 0) | Some n \<Rightarrow> (st_dev (st n), st_ino (st n)))"

text \<open>\<open>os.link\<close>, and \<open>os.unlink\<close> of one of the names of a file\<close>

definition link_at :: "path \<Rightarrow> path \<Rightarrow> nat \<Rightarrow> store \<Rightarrow> store" where
  "link_at src dst now s =
     (let s1 = on_inode (inode_at s src) Suc now (touch now id (butlast dst) s) in
      case find s1 src of None \<Rightarrow> s1 | Some n \<Rightarrow> AList.update dst n s1)"

definition linkS :: "path \<Rightarrow> path \<Rightarrow> ('z, unit) stage_step" where
  "linkS src dst = (\<lambda>w.
     if find (store w) src = None then (Inl PyOSError, w)
     else if find (store w) dst \<noteq> None then (Inl PyFileExistsError, w)
     else if \<not> is_dir (store w) (butlast dst) then (Inl PyOSError, w)
     else callS (link_at src dst) w)"

definition drop_name :: "path \<Rightarrow> nat \<Rightarrow> store \<Rightarrow> store" where
  "drop_name p now s = AList.delete p (on_inode (inode_at s p) (\<lambda>n. n - 1) now (touch now id (butlast p) s))"

definition drop_nameS :: "path \<Rightarrow> ('z, unit) stage_step" where
  "drop_nameS p = (\<lambda>w. if find (store w) p = None then (Inl PyOSError, w) else callS (drop_name p) w)"

definition except_exists :: "string \<Rightarrow> ('z, 'a) stage_step \<Rightarrow> ('z, 'a) stage_step" where
  "except_exists why m = (\<lambda>w. case m w of (Inl PyFileExistsError, w') \<Rightarrow> (Inl (DeployError why), w') | r \<Rightarrow> r)"

definition write_and_link :: "path \<Rightarrow> path \<Rightarrow> bytes \<Rightarrow> string \<Rightarrow> unit dstep" where
  "write_and_link temporary p payload label =
     bindS (chmodS temporary 384) (\<lambda>_.
     bindS (fillS temporary payload) (\<lambda>_.
     bindS syncS (\<lambda>_.
     bindS (except_exists (label @ '' was concurrently created; overwrite is forbidden'') (linkS temporary p)) (\<lambda>_.
     bindS (drop_nameS temporary) (\<lambda>_. syncS)))))"

definition published_metadata :: "path \<Rightarrow> string \<Rightarrow> store \<Rightarrow> unit result" where
  "published_metadata p label s = (case find s p of
       None \<Rightarrow> Inl PyOSError
     | Some n \<Rightarrow> demand (st_type (st n) = F_REG \<and> st_nlink (st n) = 1 \<and> st_perm (st n) = 384)
         (''published '' @ label @ '' metadata mismatch''))"

definition expected_serial :: "audit \<Rightarrow> string" where
  "expected_serial a = profile_identity a ''expected_serial''"

definition publish_via :: "deploy_env \<Rightarrow> path \<Rightarrow> path \<Rightarrow> bytes \<Rightarrow> string \<Rightarrow> string dstep" where
  "publish_via env temporary p payload label =
     bindS (createS (d_host env) temporary F_REG 384) (\<lambda>_.
     bindS (finallyS (write_and_link temporary p payload label)
              (\<lambda>w. if find (store w) temporary = None then retS () else drop_nameS temporary)) (\<lambda>_.
     bindS (readS (published_metadata p label)) (\<lambda>_.
     retS (sha256 (d_host env) payload))))"

definition publish_json :: "deploy_env \<Rightarrow> audit \<Rightarrow> path \<Rightarrow> dict \<Rightarrow> string \<Rightarrow> string dstep" where
  "publish_json env a p value label =
     (let payload = canonical_line (d_host env) value in
      bindS (readS (validate_private_output p (d_repo_root env) label)) (\<lambda>parent.
      bindS (liftS (assert_private_payload payload (expected_serial a))) (\<lambda>_.
      bindS (readS (\<lambda>s. Inr (parent @ [''.lmi-d114-wsl-'' @ d_temp env parent s]))) (\<lambda>temporary.
      publish_via env temporary p payload label))))"

definition LOAD_MAXIMUM :: nat where "LOAD_MAXIMUM = 131072"

definition load_small :: "deploy_env \<Rightarrow> path \<Rightarrow> string \<Rightarrow> string \<Rightarrow> store \<Rightarrow> (dict \<times> held_file) result" where
  "load_small env p expected_sha256 label s =
     bindE (sha_value (JStr expected_sha256) (label @ '' expected hash'')) (\<lambda>_.
     bindE (open_regular env s p (Some (d_repo_root env)) label (Some LOAD_MAXIMUM)) (\<lambda>f.
     bindE (demand (hf_sha256 f = expected_sha256) (label @ '' hash mismatch'')) (\<lambda>_.
     bindE (held_bytes f LOAD_MAXIMUM label) (\<lambda>bs.
     bindE (deploy_json_bytes (d_host env) bs label) (\<lambda>v. Inr (v, f))))))"

section \<open>Preflight and approval documents\<close>

definition PREFLIGHT_SAFETY :: json where
  "PREFLIGHT_SAFETY = JObj
     [(''device_state_change_attempted'', JBool False), (''raw_serial_disclosed'', JBool False),
      (''slot_layout_claim'', JStr ''not-proven''), (''super_fastbootd_or_slotted_fallback'', JBool False)]"

definition fresh_since :: "json \<Rightarrow> int \<Rightarrow> bool" where
  "fresh_since created now_unix = (case created of
       JInt c \<Rightarrow> c \<le> now_unix \<and> now_unix - c \<le> PREFLIGHT_MAX_AGE_SECONDS
     | _ \<Rightarrow> False)"

definition validate_preflight :: "host \<Rightarrow> dict \<Rightarrow> audit \<Rightarrow> int \<Rightarrow> dict result" where
  "validate_preflight h v a now_unix =
     bindE (exact_fields (JObj v) [''binding'', ''created_at_unix'', ''device'', ''mode'', ''route_status'', ''safety'',
              ''schema''] ''preflight report'') (\<lambda>_.
     bindE (demand (fld v ''schema'' = JStr PREFLIGHT_SCHEMA \<and> fld v ''mode'' = JStr ''preflight'' \<and>
                    fld v ''route_status'' = JStr PREFLIGHT_ROUTE) ''prior report is not a passed WSL preflight'') (\<lambda>_.
     bindE (demand (fresh_since (fld v ''created_at_unix'') now_unix) ''preflight is not fresh'') (\<lambda>_.
     let binding = obj_val (fld v ''binding''); device = fld v ''device'' in
     bindE (demand (is_obj (fld v ''binding'') \<and> py_eq (fld binding ''artifacts'') (artifact_binding a))
              ''preflight artifact binding mismatch'') (\<lambda>_.
     bindE (demand (fld binding ''identity_binding'' = JStr (profile_identity a ''expected_nonce_scoped_serial_sha256''))
              ''preflight identity binding mismatch'') (\<lambda>_.
     bindE (demand (is_obj device \<and>
                    fld binding ''device_evidence_sha256'' = JStr (sha256 h (canonical_line h (obj_val device))))
              ''preflight device evidence binding mismatch'') (\<lambda>_.
     bindE (demand (py_eq (fld binding ''write_argv_semantics'') (argv_semantics a))
              ''preflight exact argv semantics mismatch'') (\<lambda>_.
     bindE (demand (py_eq (fld v ''safety'') PREFLIGHT_SAFETY) ''preflight safety evidence mismatch'') (\<lambda>_.
     Inr binding))))))))"

definition DYNAMIC_FIELDS :: "string list" where
  "DYNAMIC_FIELDS = [''battery_mv'', ''max_download_size'']"

definition static_part :: "dict \<Rightarrow> dict" where
  "static_part d = filter (\<lambda>kv. fst kv \<notin> set DYNAMIC_FIELDS) d"

definition device_matches_approved_preflight :: "json \<Rightarrow> dict \<Rightarrow> bool" where
  "device_matches_approved_preflight approved current \<longleftrightarrow>
     is_obj approved \<and> py_eq (JObj (static_part (obj_val approved))) (JObj (static_part current))"

definition transport_completed :: "command_result \<Rightarrow> bool" where
  "transport_completed r \<longleftrightarrow> started r \<and> \<not> timed_out r \<and> \<not> output_limited r \<and> returncode r = Some 0 \<and>
     (case classify (stdout r) (stderr r) ''userdata'' of Inr c \<Rightarrow> outcome c = COMPLETED | Inl _ \<Rightarrow> False)"

definition AUTHORIZATION :: json where
  "AUTHORIZATION = JObj
     [(''approved'', JBool True), (''automatic_retry'', JBool False), (''claim_kind'', JStr ''flash-userdata''),
      (''max_attempts'', JInt 1), (''operation'', JStr ''flash''), (''partition'', JStr ''userdata'')]"

definition ledger_name :: "audit \<Rightarrow> string \<Rightarrow> json" where
  "ledger_name a nm = fld (obj_val (fld (a_profile a) ''ledgers'')) nm"

definition claim_ledger :: "audit \<Rightarrow> json" where
  "claim_ledger a = JObj
     [(''claim_consumption_directory'', ledger_name a ''claim_consumption''),
      (''consumed_filename_semantics'', JStr ''<approval-sha256>.consumed.json''), (''noreplace'', JBool True)]"

definition in_window :: "json \<Rightarrow> json \<Rightarrow> int \<Rightarrow> bool" where
  "in_window created expires now_unix = (case (created, expires) of
       (JInt c, JInt e) \<Rightarrow> e - c = APPROVAL_TTL_SECONDS \<and> c \<le> now_unix \<and> now_unix \<le> e
     | _ \<Rightarrow> False)"

definition validate_approval :: "dict \<Rightarrow> audit \<Rightarrow> string \<Rightarrow> dict \<Rightarrow> int \<Rightarrow> unit result" where
  "validate_approval v a preflight_sha256 bound now_unix =
     bindE (exact_fields (JObj v) [''authorization'', ''binding'', ''created_at_unix'', ''expires_at_unix'', ''ledger'',
              ''preflight_sha256'', ''schema''] ''approval claim'') (\<lambda>_.
     bindE (demand (fld v ''schema'' = JStr APPROVAL_SCHEMA \<and> py_eq (fld v ''authorization'') AUTHORIZATION)
              ''approval is not an exact physical userdata claim'') (\<lambda>_.
     bindE (demand (in_window (fld v ''created_at_unix'') (fld v ''expires_at_unix'') now_unix)
              ''approval claim is expired or malformed'') (\<lambda>_.
     bindE (demand (fld v ''preflight_sha256'' = JStr preflight_sha256 \<and> py_eq (fld v ''binding'') (JObj bound))
              ''approval/preflight binding mismatch'') (\<lambda>_.
     bindE (demand (py_eq (fld v ''ledger'') (claim_ledger a)) ''approval claim-consumption ledger binding mismatch'') (\<lambda>_.
     demand (py_eq (fld bound ''artifacts'') (artifact_binding a)) ''approval artifact binding mismatch'')))))"

section \<open>Audit report, preflight, approval\<close>

definition profile_reference :: "audit \<Rightarrow> json" where
  "profile_reference a = JObj [(''id'', fld (a_profile a) ''profile_id''), (''sha256'', JStr (a_profile_sha256 a))]"

definition AUDIT_ROUTE :: string where "AUDIT_ROUTE = ''LOCAL_AUDIT_PASSED_NO_DEVICE_ACCESS''"

definition local_audit_report :: "deploy_env \<Rightarrow> audit \<Rightarrow> path \<Rightarrow> int \<Rightarrow> (string \<times> string) dstep" where
  "local_audit_report env a report_path now_unix =
     bindS (publish_json env a report_path
       [(''artifacts'', artifact_binding a), (''created_at_unix'', JInt now_unix), (''mode'', JStr ''local-audit''),
        (''profile'', profile_reference a), (''route_status'', JStr AUDIT_ROUTE),
        (''safety'', JObj [(''candidate_fd_held'', JBool True), (''device_command_attempted'', JBool False),
           (''raw_serial_disclosed'', JBool False), (''sparse_roundtrip_verified'', JBool True)]),
        (''schema'', JStr REPORT_SCHEMA)] ''local audit report'') (\<lambda>digest.
     retS (AUDIT_ROUTE, digest))"

definition preflight_report :: "host \<Rightarrow> audit \<Rightarrow> device_evidence \<Rightarrow> int \<Rightarrow> dict" where
  "preflight_report h a d now_unix =
     [(''binding'', JObj (preflight_binding h a d)), (''created_at_unix'', JInt now_unix), (''device'', JObj (de_public d)),
      (''mode'', JStr ''preflight''), (''route_status'', JStr PREFLIGHT_ROUTE), (''safety'', PREFLIGHT_SAFETY),
      (''schema'', JStr PREFLIGHT_SCHEMA)]"

definition recheckS :: "audit \<Rightarrow> string \<Rightarrow> unit dstep" where
  "recheckS a why = readS (\<lambda>s. demand (recheck a s) why)"

definition preflight :: "deploy_env \<Rightarrow> audit \<Rightarrow> path \<Rightarrow> int \<Rightarrow> (string \<times> string) dstep" where
  "preflight env a report_path now_unix =
     bindS (readS (validate_private_output report_path (d_repo_root env) ''preflight report'')) (\<lambda>_.
     bindS (query_device env a) (\<lambda>d.
     bindS (recheckS a ''locked inputs drifted during preflight'') (\<lambda>_.
     bindS (publish_json env a report_path (preflight_report (d_host env) a d now_unix) ''preflight report'') (\<lambda>digest.
     retS (PREFLIGHT_ROUTE, digest)))))"

definition hold :: "string \<Rightarrow> held_file \<Rightarrow> audit \<Rightarrow> audit" where
  "hold key f a = a\<lparr>a_held := AList.update key f (a_held a)\<rparr>"

definition approval_claim :: "audit \<Rightarrow> dict \<Rightarrow> string \<Rightarrow> int \<Rightarrow> dict" where
  "approval_claim a binding preflight_sha256 now_unix =
     [(''authorization'', AUTHORIZATION), (''binding'', JObj binding), (''created_at_unix'', JInt now_unix),
      (''expires_at_unix'', JInt (now_unix + APPROVAL_TTL_SECONDS)), (''ledger'', claim_ledger a),
      (''preflight_sha256'', JStr preflight_sha256), (''schema'', JStr APPROVAL_SCHEMA)]"

definition APPROVED_ROUTE :: string where "APPROVED_ROUTE = ''APPROVAL_CREATED_NO_DEVICE_ACCESS''"

definition approve :: "deploy_env \<Rightarrow> audit \<Rightarrow> path \<Rightarrow> string \<Rightarrow> path \<Rightarrow> int \<Rightarrow> (string \<times> string) dstep" where
  "approve env a preflight_path preflight_sha256 approval_path now_unix =
     bindS (readS (validate_private_output approval_path (d_repo_root env) ''approval claim'')) (\<lambda>_.
     bindS (readS (load_small env preflight_path preflight_sha256 ''preflight report'')) (\<lambda>(v, f).
     let a' = hold ''preflight'' f a in
     bindS (liftS (validate_preflight (d_host env) v a' now_unix)) (\<lambda>binding.
     bindS (liftS (validate_completed (a_completed a') (d_contract env) (candidate_sha256 a'))) (\<lambda>_.
     bindS (recheckS a' ''locked inputs drifted before approval'') (\<lambda>_.
     bindS (publish_json env a' approval_path (approval_claim a' binding preflight_sha256 now_unix) ''approval claim'') (\<lambda>digest.
     retS (APPROVED_ROUTE, digest)))))))"

section \<open>Execution\<close>

definition consume_claim :: "deploy_env \<Rightarrow> audit \<Rightarrow> string \<Rightarrow> path \<Rightarrow> int \<Rightarrow> string dstep" where
  "consume_claim env a approval_sha256 consumed_path now_unix =
     bindS (readS (claim_consumed_path env a approval_sha256)) (\<lambda>expected_path.
     bindS (demandS (consumed_path = expected_path)
              ''consumed claim path is not the deterministic approval ledger path'') (\<lambda>_.
     publish_json env a consumed_path
       [(''approval_sha256'', JStr approval_sha256), (''consumed_at_unix'', JInt now_unix),
        (''ledger_directory'', ledger_name a ''claim_consumption''), (''retry_authorization'', JBool False),
        (''schema'', JStr CONSUMED_SCHEMA)] ''consumed claim''))"

definition publish_candidate_attempt :: "deploy_env \<Rightarrow> audit \<Rightarrow> string \<Rightarrow> string \<Rightarrow> int \<Rightarrow> string dstep" where
  "publish_candidate_attempt env a approval_sha256 binding now_unix =
     bindS (readS (candidate_attempt_path env a)) (\<lambda>p.
     publish_json env a p
       [(''approval_sha256'', JStr approval_sha256), (''attempted_at_unix'', JInt now_unix),
        (''candidate_sha256'', candidate_sha256 a), (''identity_binding'', JStr binding),
        (''ledger_directory'', ledger_name a ''candidate_attempts''), (''retry_authorization'', JBool False),
        (''schema'', JStr ''lmi-p2-d114-userdata-wsl-candidate-attempt/v1'')] ''candidate attempt ledger entry'')"

record execute_args =
  x_preflight :: path
  x_preflight_sha256 :: string
  x_approval :: path
  x_approval_sha256 :: string
  x_consumed :: path
  x_intent :: path
  x_report :: path

definition conflicting_outputs :: "deploy_env \<Rightarrow> audit \<Rightarrow> execute_args \<Rightarrow> store \<Rightarrow> path result" where
  "conflicting_outputs env a x s =
     bindE (claim_consumed_path env a (x_approval_sha256 x) s) (\<lambda>expected_consumed_path.
     bindE (demand (x_consumed x = expected_consumed_path)
              ''consumed claim path is not the deterministic approval ledger path'') (\<lambda>_.
     bindE (candidate_attempt_path env a s) (\<lambda>attempt_path.
     bindE (require_outputs_outside_ledgers env a
              [(x_preflight x, ''preflight report''), (x_approval x, ''approval claim''), (x_intent x, ''intent''),
               (x_report x, ''execute report'')] s) (\<lambda>_.
     bindE (iterE (\<lambda>(p, label). bindE (validate_private_output p (d_repo_root env) label s) (\<lambda>_. Inr ()))
              [(x_consumed x, ''consumed claim''), (x_intent x, ''intent''), (x_report x, ''execute report'')]) (\<lambda>_.
     bindE (validate_private_output attempt_path (d_repo_root env) ''candidate attempt ledger entry'' s) (\<lambda>_.
     bindE (require_distinct_paths
              [(x_preflight x, ''preflight report''), (x_approval x, ''approval claim''), (x_consumed x, ''consumed claim''),
               (x_intent x, ''intent''), (x_report x, ''execute report''),
               (attempt_path, ''candidate attempt ledger entry'')] s) (\<lambda>_.
     Inr attempt_path)))))))"

record claims =
  c_preflight :: dict
  c_approval :: dict
  c_binding :: dict
  c_audit :: audit

text \<open>Everything before the claim is consumed.\<close>

definition check_claims :: "deploy_env \<Rightarrow> audit \<Rightarrow> execute_args \<Rightarrow> (claims \<times> int) dstep" where
  "check_claims env a x =
     bindS (readS (conflicting_outputs env a x)) (\<lambda>_.
     bindS (readS (load_small env (x_preflight x) (x_preflight_sha256 x) ''preflight report'')) (\<lambda>(pv, pf).
     bindS (readS (load_small env (x_approval x) (x_approval_sha256 x) ''approval claim'')) (\<lambda>(av, af).
     let a' = hold ''approval'' af (hold ''preflight'' pf a) in
     bindS (read_clock env) (\<lambda>initial_now.
     bindS (liftS (validate_preflight (d_host env) pv a' initial_now)) (\<lambda>binding.
     bindS (liftS (validate_approval av a' (x_preflight_sha256 x) binding initial_now)) (\<lambda>_.
     bindS (liftS (validate_completed (a_completed a') (d_contract env) (candidate_sha256 a'))) (\<lambda>_.
     retS (\<lparr>c_preflight = pv, c_approval = av, c_binding = binding, c_audit = a'\<rparr>, initial_now))))))))"

text \<open>The second device query, and the checks repeated after it.\<close>

definition final_gate :: "deploy_env \<Rightarrow> claims \<Rightarrow> execute_args \<Rightarrow> (device_evidence \<times> int) dstep" where
  "final_gate env c x =
     (let a = c_audit c in
      bindS (query_device env a) (\<lambda>device.
      bindS (demandS (fld (c_binding c) ''identity_binding'' = JStr (de_identity_binding device) \<and>
                      device_matches_approved_preflight (fld (c_preflight c) ''device'') (de_public device))
               ''fresh execute identity/static device gate differs from approved preflight'') (\<lambda>_.
      bindS (recheckS a ''locked inputs drifted after final device query; claim remains consumed'') (\<lambda>_.
      bindS (read_clock env) (\<lambda>final_now.
      bindS (liftS (validate_preflight (d_host env) (c_preflight c) a final_now)) (\<lambda>_.
      bindS (liftS (validate_approval (c_approval c) a (x_preflight_sha256 x) (c_binding c) final_now)) (\<lambda>_.
      retS (device, final_now))))))))"

definition candidate_arg :: "audit \<Rightarrow> string" where
  "candidate_arg a = ''/proc/self/fd/'' @ show_nat (hf_descriptor (candidate a))"

definition flash_argv :: "audit \<Rightarrow> string \<Rightarrow> string list" where
  "flash_argv a serial = a_argv_prefix a @ [''-s'', serial, ''flash'', ''userdata'', candidate_arg a]"

definition argv_binding :: "host \<Rightarrow> audit \<Rightarrow> string \<Rightarrow> string" where
  "argv_binding h a serial = sha256 h (profile_identity a ''privacy_nonce'' @ '':'' @
     canonical_line h [(''argv'', jstrs (flash_argv a serial))])"

definition publish_intent ::
  "deploy_env \<Rightarrow> audit \<Rightarrow> execute_args \<Rightarrow> string \<Rightarrow> string \<Rightarrow> device_evidence \<Rightarrow> int \<Rightarrow> string dstep" where
  "publish_intent env a x consumed_sha256 attempt_sha256 device final_now =
     publish_json env a (x_intent x)
       [(''approval_sha256'', JStr (x_approval_sha256 x)),
        (''argv_nonce_scoped_sha256'', JStr (argv_binding (d_host env) a (de_serial device))),
        (''argv_semantics'', argv_semantics a), (''artifacts'', artifact_binding a),
        (''candidate_attempt_sha256'', JStr attempt_sha256), (''consumed_claim_sha256'', JStr consumed_sha256),
        (''created_at_unix'', JInt final_now), (''identity_binding'', JStr (de_identity_binding device)),
        (''max_attempts'', JInt 1), (''retry_authorization'', JBool False), (''schema'', JStr INTENT_SCHEMA)] ''intent''"

text \<open>\<open>try: result = process_runner(...) except Exception: ...\<close>\<close>

definition attempt_result :: "command_result dstep \<Rightarrow> (command_result \<times> bool) dstep" where
  "attempt_result m = (\<lambda>w. case m w of
       (Inl ProcessKilled, w') \<Rightarrow> (Inl ProcessKilled, w')
     | (Inl (SystemExit e), w') \<Rightarrow> (Inl (SystemExit e), w')
     | (Inl _, w') \<Rightarrow> (Inr (clean_result None [] [], True), w')
     | (Inr r, w') \<Rightarrow> (Inr (r, False), w'))"

definition flash :: "deploy_env \<Rightarrow> audit \<Rightarrow> string \<Rightarrow> (command_result \<times> bool) dstep" where
  "flash env a serial = attempt_result
     (run_process env (flash_argv a serial) WRITE_TIMEOUT_SECONDS [hf_descriptor (candidate a)])"

definition write_completed :: "command_result \<Rightarrow> bool \<Rightarrow> bool" where
  "write_completed r runner_exception \<longleftrightarrow> transport_completed r \<and> \<not> runner_exception"

definition write_reason :: "command_result \<Rightarrow> bool \<Rightarrow> string" where
  "write_reason r runner_exception =
     (if runner_exception then ''WRITE_RUNNER_EXCEPTION''
      else if timed_out r then ''WRITE_TIMEOUT''
      else if output_limited r then ''WRITE_OUTPUT_LIMIT''
      else if \<not> started r then ''WRITE_START_FAILED''
      else ''WRITE_NONZERO_OR_PARTIAL_RESULT'')"

record written =
  w_consumed_sha256 :: string
  w_attempt_sha256 :: string
  w_intent_sha256 :: string
  w_device :: device_evidence
  w_result :: command_result
  w_exception :: bool

definition execute_report :: "host \<Rightarrow> audit \<Rightarrow> execute_args \<Rightarrow> written \<Rightarrow> int \<Rightarrow> dict" where
  "execute_report h a x v now_unix =
     (let r = w_result v; completed = write_completed r (w_exception v); output = stdout r @ [NUL] @ stderr r in
      [(''artifacts'', artifact_binding a), (''created_at_unix'', JInt now_unix), (''mode'', JStr ''execute''),
       (''profile'', profile_reference a),
       (''result'', JObj
          [(''approval_sha256'', JStr (x_approval_sha256 x)), (''attempts'', JInt 1),
           (''argv_nonce_scoped_sha256'', JStr (argv_binding h a (de_serial (w_device v)))),
           (''candidate_attempt_sha256'', JStr (w_attempt_sha256 v)),
           (''consumed_claim_sha256'', JStr (w_consumed_sha256 v)), (''device'', JObj (de_public (w_device v))),
           (''exit_code'', case returncode r of None \<Rightarrow> JNull | Some rc \<Rightarrow> JInt rc),
           (''intent_sha256'', JStr (w_intent_sha256 v)), (''output_limited'', JBool (output_limited r)),
           (''output_sha256'', JStr (sha256 h output)), (''output_size'', JInt (int (length output))),
           (''reason'', if completed then JNull else JStr (write_reason r (w_exception v))),
           (''started'', JBool (started r)), (''timed_out'', JBool (timed_out r)),
           (''transport_completed'', JBool completed)]),
       (''route_status'', JStr (if completed then COMPLETED_ROUTE else UNKNOWN_ROUTE)),
       (''safety'', JObj
          [(''automatic_retry'', JBool False),
           (''candidate_attempt_ledger'', JStr ''profile-bound-candidate-sha256-noreplace''),
           (''candidate_fd_passed'', JBool (prefix ''/proc/self/fd/'' (candidate_arg a))),
           (''claim_consumption_ledger'', JStr ''profile-bound-approval-sha256-noreplace''),
           (''command_attempt_limit'', JInt 1), (''partition'', JStr ''userdata''), (''raw_serial_disclosed'', JBool False),
           (''retry_scope'', JStr ''no-automatic-or-same-claim-retry''), (''slot_layout_claim'', JStr ''not-proven''),
           (''super_fastbootd_or_slotted_fallback'', JBool False)]),
       (''schema'', JStr REPORT_SCHEMA)])"

text \<open>From the consumed claim to the report.\<close>

definition execute_claim :: "deploy_env \<Rightarrow> execute_args \<Rightarrow> claims \<Rightarrow> int \<Rightarrow> (string \<times> string) dstep" where
  "execute_claim env x c initial_now =
     (let a = c_audit c in
      bindS (consume_claim env a (x_approval_sha256 x) (x_consumed x) initial_now) (\<lambda>consumed_sha256.
      bindS (final_gate env c x) (\<lambda>(device, final_now).
      bindS (publish_candidate_attempt env a (x_approval_sha256 x) (de_identity_binding device) final_now) (\<lambda>attempt_sha256.
      bindS (publish_intent env a x consumed_sha256 attempt_sha256 device final_now) (\<lambda>intent_sha256.
      bindS (flash env a (de_serial device)) (\<lambda>(r, runner_exception).
      let completed = write_completed r runner_exception in
      bindS (demandS (completed \<or> safe_reason (write_reason r runner_exception)) ''internal unsafe reason code'') (\<lambda>_.
      bindS (read_clock env) (\<lambda>report_now.
      bindS (publish_json env a (x_report x) (execute_report (d_host env) a x
               \<lparr>w_consumed_sha256 = consumed_sha256, w_attempt_sha256 = attempt_sha256, w_intent_sha256 = intent_sha256,
                w_device = device, w_result = r, w_exception = runner_exception\<rparr> report_now) ''execute report'') (\<lambda>digest.
      retS (if completed then COMPLETED_ROUTE else UNKNOWN_ROUTE, digest))))))))))"

definition execute :: "deploy_env \<Rightarrow> audit \<Rightarrow> execute_args \<Rightarrow> (string \<times> string) dstep" where
  "execute env a x =
     bindS (check_claims env a x) (\<lambda>(c, initial_now). execute_claim env x c initial_now)"

section \<open>The combined chain\<close>

record once_args =
  n_preflight :: path
  n_approval :: path
  n_intent :: path
  n_report :: path
  n_operation :: string
  n_sparse_sha256 :: string

definition once_outputs :: "once_args \<Rightarrow> labelled list" where
  "once_outputs n = [(n_preflight n, ''preflight report''), (n_approval n, ''approval claim''), (n_intent n, ''intent''),
     (n_report n, ''execute report'')]"

definition check_once :: "deploy_env \<Rightarrow> audit \<Rightarrow> once_args \<Rightarrow> store \<Rightarrow> unit result" where
  "check_once env a n s =
     bindE (demand (n_operation n = ''flash-userdata'')
              ''combined deployment requires --approved-operation flash-userdata'') (\<lambda>_.
     bindE (demand (JStr (n_sparse_sha256 n) = candidate_sha256 a)
              ''combined deployment approval does not bind the exact sparse candidate'') (\<lambda>_.
     bindE (sha_value (JStr (n_sparse_sha256 n)) ''approved sparse hash'') (\<lambda>_.
     bindE (validate_completed (a_completed a) (d_contract env) (candidate_sha256 a)) (\<lambda>_.
     bindE (require_distinct_paths (once_outputs n) s) (\<lambda>_.
     bindE (require_outputs_outside_ledgers env a (once_outputs n) s) (\<lambda>_.
     iterE (\<lambda>(p, label). bindE (validate_private_output p (d_repo_root env) label s) (\<lambda>_. Inr ())) (once_outputs n)))))))"

definition deploy_once :: "deploy_env \<Rightarrow> audit \<Rightarrow> once_args \<Rightarrow> (string \<times> string) dstep" where
  "deploy_once env a n =
     bindS (readS (check_once env a n)) (\<lambda>_.
     bindS (read_clock env) (\<lambda>preflight_now.
     bindS (preflight env a (n_preflight n) preflight_now) (\<lambda>(_, preflight_sha256).
     bindS (read_clock env) (\<lambda>approval_now.
     bindS (approve env a (n_preflight n) preflight_sha256 (n_approval n) approval_now) (\<lambda>(_, approval_sha256).
     bindS (readS (claim_consumed_path env a approval_sha256)) (\<lambda>consumed_path.
     execute env a \<lparr>x_preflight = n_preflight n, x_preflight_sha256 = preflight_sha256, x_approval = n_approval n,
       x_approval_sha256 = approval_sha256, x_consumed = consumed_path, x_intent = n_intent n,
       x_report = n_report n\<rparr>))))))"

section \<open>The command line\<close>

text \<open>The modes that \<open>argparse\<close> admits, with the options that were given.\<close>

datatype mode = Local_audit | Preflight | Approve | Execute | Deploy_once

record operate_args =
  o_mode :: mode
  o_profile :: path
  o_report :: path
  o_preflight :: "path option"
  o_preflight_sha256 :: "string option"
  o_approval :: "path option"
  o_approval_sha256 :: "string option"
  o_consumed :: "path option"
  o_intent :: "path option"
  o_operation :: "string option"
  o_sparse_sha256 :: "string option"

definition given :: "path option \<Rightarrow> string \<Rightarrow> labelled list" where
  "given p label = (case p of None \<Rightarrow> [] | Some q \<Rightarrow> [(q, label)])"

definition path_set :: "operate_args \<Rightarrow> labelled list" where
  "path_set o1 = [(o_profile o1, ''profile'')] @
     (case o_mode o1 of
        Approve \<Rightarrow> given (o_preflight o1) ''preflight report''
      | Execute \<Rightarrow> given (o_preflight o1) ''preflight report'' @ given (o_approval o1) ''approval claim'' @
          given (o_consumed o1) ''consumed claim'' @ given (o_intent o1) ''intent''
      | Deploy_once \<Rightarrow> given (o_preflight o1) ''preflight report'' @ given (o_approval o1) ''approval claim'' @
          given (o_intent o1) ''intent''
      | _ \<Rightarrow> []) @
     [(o_report o1, ''output report'')]"

definition dispatch_mode :: "deploy_env \<Rightarrow> operate_args \<Rightarrow> audit \<Rightarrow> (string \<times> string) dstep" where
  "dispatch_mode env o1 a = (case o_mode o1 of
       Local_audit \<Rightarrow> bindS (read_clock env) (local_audit_report env a (o_report o1))
     | Preflight \<Rightarrow> bindS (read_clock env) (preflight env a (o_report o1))
     | Approve \<Rightarrow> (case (o_preflight o1, o_preflight_sha256 o1) of
           (Some p, Some sha) \<Rightarrow> bindS (read_clock env) (approve env a p sha (o_report o1))
         | _ \<Rightarrow> liftS (Inl (DeployError ''approve requires exact preflight path and SHA-256'')))
     | Execute \<Rightarrow> (case (o_preflight o1, o_preflight_sha256 o1, o_approval o1, o_approval_sha256 o1, o_consumed o1, o_intent o1) of
           (Some p, Some psha, Some q, Some qsha, Some consumed, Some intent) \<Rightarrow>
             execute env a \<lparr>x_preflight = p, x_preflight_sha256 = psha, x_approval = q, x_approval_sha256 = qsha,
               x_consumed = consumed, x_intent = intent, x_report = o_report o1\<rparr>
         | _ \<Rightarrow> liftS (Inl (DeployError ''execute requires exact preflight, approval, consumed-claim, and intent inputs'')))
     | Deploy_once \<Rightarrow> (case (o_preflight o1, o_approval o1, o_intent o1, o_operation o1, o_sparse_sha256 o1) of
           (Some p, Some q, Some intent, Some operation, Some sha) \<Rightarrow>
             deploy_once env a \<lparr>n_preflight = p, n_approval = q, n_intent = intent, n_report = o_report o1,
               n_operation = operation, n_sparse_sha256 = sha\<rparr>
         | _ \<Rightarrow> liftS (Inl (DeployError
             ''deploy-once requires four caller evidence paths and exact operation/hash authorization''))))"

definition operate :: "deploy_env \<Rightarrow> operate_args \<Rightarrow> (string \<times> string) dstep" where
  "operate env o1 =
     bindS (demandS (o_mode o1 \<noteq> Deploy_once \<or> o_consumed o1 = None)
              ''deploy-once derives claim consumption internally; --consumed-claim is forbidden'') (\<lambda>_.
     bindS (readS (require_distinct_paths (path_set o1))) (\<lambda>_.
     bindS (local_audit env (o_profile o1)) (dispatch_mode env o1)))"

text \<open>The exit status of \<open>main\<close>; an exception other than \<open>DeployError\<close> ends in a traceback.\<close>

definition deploy_main :: "deploy_env \<Rightarrow> operate_args \<Rightarrow> nat dstep" where
  "deploy_main env o1 = (\<lambda>w. case operate env o1 w of
       (Inl (DeployError e), w') \<Rightarrow> (Inr 2, w')
     | (Inl e, w') \<Rightarrow> (Inl e, w')
     | (Inr (route, digest), w') \<Rightarrow> (Inr (if route = UNKNOWN_ROUTE then 3 else 0), w'))"

end
