(* ===== verification/DeployStore.thy ===== *)
theory DeployStore
  imports Deploy StageSpec
begin

text \<open>
  What the steps of the deployment gate do to the files: lookups after a link and an unlink,
  that every regular file there is stays with its bytes, and that a publication either
  creates its file with all of its bytes or does not create it.
\<close>

section \<open>Lookups\<close>

definition relinked :: "nat \<times> nat \<Rightarrow> (nat \<Rightarrow> nat) \<Rightarrow> nat \<Rightarrow> node \<Rightarrow> node" where
  "relinked i links now n = (if (st_dev (st n), st_ino (st n)) = i
     then n\<lparr>st := (st n)\<lparr>st_nlink := links (st_nlink (st n)), st_ctime := now\<rparr>\<rparr> else n)"

lemma relinked_simps [simp]:
  "contents (relinked i l now n) = contents n" "st_type (st (relinked i l now n)) = st_type (st n)"
  "st_perm (st (relinked i l now n)) = st_perm (st n)"
  by (simp_all add: relinked_def)

lemma find_on_inode [simp]: "find (on_inode i l now s) q = map_option (relinked i l now) (find s q)"
proof -
  have "on_inode i l now s = map (\<lambda>(q, n). (q, relinked i l now n)) s"
    unfolding on_inode_def relinked_def ..
  then show ?thesis by (simp add: find_def map_of_map)
qed

lemma find_link_other [simp]:
  "q \<noteq> dst \<Longrightarrow> find (link_at src dst now s) q =
     map_option (relinked (inode_at s src) Suc now) (find (touch now id (butlast dst) s) q)"
  by (auto simp: link_at_def Let_def split: option.splits)

lemma find_linked:
  assumes "find s src = Some n" "src \<noteq> butlast dst"
  shows "find (link_at src dst now s) dst = Some (relinked (inode_at s src) Suc now n)"
  using assms by (simp add: link_at_def Let_def)

lemma find_drop_name [simp]:
  "find (drop_name p now s) q =
     (if q = p then None
      else map_option (relinked (inode_at s p) (\<lambda>n. n - 1) now) (find (touch now id (butlast p) s) q))"
  by (auto simp: drop_name_def)

section \<open>Steps\<close>

lemma finallyS_cases:
  assumes "finallyS m c w = (r, w')"
  obtains (Done) x where "m w = (Inr x, w')" "r = Inr x"
    | (Failed) e w1 r1 where "m w = (Inl e, w1)" "c w1 w1 = (r1, w')" "\<exists>e'. r = Inl e'"
    | (Killed) e where "m w = (Inl e, w')" "r = Inl e"
proof (cases "m w")
  case (Pair r1 w1)
  show thesis
  proof (cases r1)
    case (Inr x)
    with assms Pair show thesis by (intro Done) (auto simp: finallyS_def)
  next
    case (Inl e)
    obtain r2 w2 where c: "c w1 w1 = (r2, w2)" by force
    show thesis
    proof (cases "e = ProcessKilled")
      case True
      with assms Pair Inl show thesis by (intro Killed) (auto simp: finallyS_def)
    next
      case False
      then have "finallyS m c w = (case r2 of Inl e' \<Rightarrow> (Inl e', w2) | Inr _ \<Rightarrow> (Inl e, w2))"
        unfolding finallyS_def Pair Inl using c by (cases r2; cases e; simp)
      then have "w' = w2 \<and> (\<exists>e'. r = Inl e')" using assms by (cases r2) auto
      with Pair Inl c show thesis by (intro Failed[of e w1 r2]) auto
    qed
  qed
qed

lemma except_exists_state: "except_exists why m w = (r, w') \<Longrightarrow> \<exists>r1. m w = (r1, w') \<and> (\<forall>x. r = Inr x \<longleftrightarrow> r1 = Inr x)"
proof -
  assume a: "except_exists why m w = (r, w')"
  obtain r1 w1 where m: "m w = (r1, w1)" by force
  have "except_exists why m w = (if r1 = Inl PyFileExistsError then Inl (DeployError why) else r1, w1)"
  proof (cases r1)
    case (Inl e)
    then show ?thesis by (cases e) (simp_all add: except_exists_def m)
  qed (simp add: except_exists_def m)
  with a m show ?thesis by (auto split: if_splits)
qed

context store_relation
begin

lemma keeps_finally: "keeps R m \<Longrightarrow> (\<And>w. keeps R (c w)) \<Longrightarrow> keeps R (finallyS m c)"
  unfolding keeps_def
proof (intro allI impI)
  fix w r w'
  assume k: "\<forall>w r w'. m w = (r, w') \<longrightarrow> R (store w) (store w')"
    "\<And>v. \<forall>w r w'. c v w = (r, w') \<longrightarrow> R (store w) (store w')" and f: "finallyS m c w = (r, w')"
  from f show "R (store w) (store w')" by (cases rule: finallyS_cases) (use k in \<open>blast intro: R_trans\<close>)+
qed

lemma keeps_except: "keeps R m \<Longrightarrow> keeps R (except_exists why m)"
  unfolding keeps_def using except_exists_state by metis

lemma keeps_link: "(\<And>now s. find s dst = None \<Longrightarrow> find s src \<noteq> None \<Longrightarrow> R s (link_at src dst now s)) \<Longrightarrow> keeps R (linkS src dst)"
  unfolding keeps_def linkS_def callS_def by (auto split: list.splits fault.splits if_splits intro: R_refl)

lemma keeps_drop: "(\<And>now s. R s (drop_name p now s)) \<Longrightarrow> keeps R (drop_nameS p)"
  unfolding keeps_def drop_nameS_def callS_def by (auto split: list.splits fault.splits if_splits intro: R_refl)

lemma keeps_demand: "keeps R (demandS c why)"
  unfolding demandS_def by (rule keeps_lift)

lemma keeps_clock: "keeps R (read_clock env)"
  by (simp add: keeps_def read_clock_def R_refl)

lemma keeps_process: "(\<And>log1 c s. R s (snd (d_runner env log1 c s))) \<Longrightarrow> keeps R (run_process env args t fds)"
  unfolding keeps_def run_process_def by (auto simp: Let_def split: prod.splits) (metis snd_conv)

lemma keeps_if: "keeps R a \<Longrightarrow> keeps R b \<Longrightarrow> keeps R (if c then a else b)"
  by simp

lemma attempt_state: "attempt_result m w = (r, w') \<Longrightarrow> \<exists>r1. m w = (r1, w')"
proof -
  assume a: "attempt_result m w = (r, w')"
  obtain r1 w1 where m: "m w = (r1, w1)" by force
  have "snd (attempt_result m w) = w1"
  proof (cases r1)
    case (Inl e)
    then show ?thesis by (cases e) (simp_all add: attempt_result_def m)
  qed (simp add: attempt_result_def m)
  with a m show ?thesis by auto
qed

lemma keeps_attempt: "keeps R m \<Longrightarrow> keeps R (attempt_result m)"
  unfolding keeps_def using attempt_state by metis

lemmas keeps_run = keeps_basic keeps_finally keeps_except keeps_demand keeps_clock keeps_if keeps_attempt

end

section \<open>What is there stays\<close>

definition lasting :: "path \<Rightarrow> store \<Rightarrow> store \<Rightarrow> bool" where
  "lasting q s t \<longleftrightarrow> (\<forall>n. find s q = Some n \<longrightarrow>
     (\<exists>n'. find t q = Some n' \<and> contents n' = contents n \<and> st_type (st n') = st_type (st n)))"

interpretation lasting: store_relation "lasting q" for q
proof unfold_locales
  show "lasting q s s" for s by (simp add: lasting_def)
  show "lasting q s t \<Longrightarrow> lasting q t u \<Longrightarrow> lasting q s u" for s t u
    unfolding lasting_def by metis
qed

lemma lasting_None: "find s q = None \<Longrightarrow> lasting q s t"
  by (simp add: lasting_def)

lemma lasting_write_and_link:
  assumes "q \<noteq> t"
  shows "keeps (lasting q) (write_and_link t p payload label)"
proof -
  have chmod: "keeps (lasting q) (chmodS t k)" for k
    by (rule lasting.keeps_chmod) (use assms in \<open>simp add: lasting_def\<close>)
  have fill: "keeps (lasting q) (fillS t payload)"
    by (rule lasting.keeps_fill) (use assms in \<open>simp add: lasting_def\<close>)
  have link: "keeps (lasting q) (linkS t p)"
  proof (rule lasting.keeps_link)
    fix now s
    assume "find s p = None"
    then show "lasting q s (link_at t p now s)"
      by (cases "q = p") (auto simp: lasting_def)
  qed
  have drop: "keeps (lasting q) (drop_nameS t)"
    by (rule lasting.keeps_drop) (use assms in \<open>auto simp: lasting_def\<close>)
  show ?thesis
    unfolding write_and_link_def
    by (intro lasting.keeps_bind lasting.keeps_except lasting.keeps_sync chmod fill link drop)
qed

lemma lasting_publish_via: "keeps (lasting q) (publish_via env t p payload label)"
proof (cases "q = t")
  case False
  have create: "keeps (lasting q) (createS (d_host env) t F_REG 384)"
    by (rule lasting.keeps_create) (use False in \<open>auto simp: lasting_def\<close>)
  have drop: "keeps (lasting q) (drop_nameS t)"
    by (rule lasting.keeps_drop) (use False in \<open>auto simp: lasting_def\<close>)
  show ?thesis
    unfolding publish_via_def
    by (intro lasting.keeps_bind lasting.keeps_finally lasting.keeps_read lasting.keeps_ret lasting.keeps_if create drop
        lasting_write_and_link False)
next
  case True
  show ?thesis
    unfolding keeps_def
  proof (intro allI impI)
    fix w r w'
    assume a: "publish_via env t p payload label w = (r, w')"
    show "lasting q (store w) (store w')"
    proof (cases "find (store w) q = None")
      case True
      then show ?thesis by (rule lasting_None)
    next
      case False
      with a True have "w' = w" by (auto simp: publish_via_def bindS_def createS_def)
      then show ?thesis by (simp add: lasting.R_refl)
    qed
  qed
qed

lemma lasting_publish: "keeps (lasting q) (publish_json env a p v label)"
  unfolding publish_json_def Let_def
  by (intro lasting.keeps_bind lasting.keeps_read lasting.keeps_lift lasting_publish_via)

section \<open>Publication\<close>

text \<open>A file with these bytes.\<close>

definition file_at :: "store \<Rightarrow> path \<Rightarrow> bytes \<Rightarrow> bool" where
  "file_at s p bs \<longleftrightarrow> (\<exists>n. find s p = Some n \<and> st_type (st n) = F_REG \<and> contents n = bs)"

lemma lasting_file_at: "lasting p s t \<Longrightarrow> file_at s p bs \<Longrightarrow> file_at t p bs"
  unfolding lasting_def file_at_def by metis

text \<open>The temporary file while it is written, then under both names.\<close>

lemma write_and_link_triple:
  assumes "t \<noteq> p" "t \<noteq> butlast p" "p \<noteq> butlast t"
  shows "triple (\<lambda>s. find s p = None \<and> file_at s t [])
     (write_and_link t p payload label) (\<lambda>_ s. file_at s p payload) (\<lambda>s. find s p = None \<or> file_at s p payload)"
proof -
  let ?E = "\<lambda>s. find s p = None \<or> file_at s p payload"
  have chmod: "triple (\<lambda>s. find s p = None \<and> file_at s t []) (chmodS t 384) (\<lambda>_ s. find s p = None \<and> file_at s t []) ?E"
    using assms(1) by (fastforce simp: triple_def chmodS_def callS_def file_at_def split: list.splits fault.splits)
  have fill: "triple (\<lambda>s. find s p = None \<and> file_at s t []) (fillS t payload) (\<lambda>_ s. find s p = None \<and> file_at s t payload) ?E"
    using assms(1)
    by (fastforce simp: triple_def fillS_def callS_def Let_def file_at_def append_node_def split: list.splits fault.splits)
  have sync: "triple P syncS (\<lambda>_. P) P" for P
    by (fastforce simp: triple_def syncS_def callS_def split: list.splits fault.splits)
  have link1: "triple (\<lambda>s. find s p = None \<and> file_at s t payload) (linkS t p) (\<lambda>_ s. file_at s p payload \<and> find s t \<noteq> None) ?E"
  proof -
    have "file_at (link_at t p now s) p payload" "find (link_at t p now s) t \<noteq> None" if "file_at s t payload" for now s
      using that find_linked[OF _ assms(2)] assms by (auto simp: file_at_def)
    then show ?thesis
      unfolding triple_def linkS_def callS_def by (auto split: list.splits fault.splits if_splits)
  qed
  have link: "triple (\<lambda>s. find s p = None \<and> file_at s t payload) (except_exists why (linkS t p))
      (\<lambda>_ s. file_at s p payload \<and> find s t \<noteq> None) ?E" for why
    unfolding triple_def
  proof (intro allI impI)
    fix w r w'
    assume P: "find (store w) p = None \<and> file_at (store w) t payload" and m: "except_exists why (linkS t p) w = (r, w')"
    from except_exists_state[OF m] obtain r1 where r1: "linkS t p w = (r1, w')" "\<forall>x. r = Inr x \<longleftrightarrow> r1 = Inr x" by blast
    show "case r of Inl e \<Rightarrow> ?E (store w') | Inr x \<Rightarrow> file_at (store w') p payload \<and> find (store w') t \<noteq> None"
      using link1 P r1 unfolding triple_def by (cases r; cases r1) fastforce+
  qed
  have drop: "triple (\<lambda>s. file_at s p payload \<and> find s t \<noteq> None) (drop_nameS t) (\<lambda>_ s. file_at s p payload) ?E"
    using assms(1,3) unfolding triple_def drop_nameS_def callS_def
    by (fastforce simp: file_at_def split: list.splits fault.splits if_splits)
  show ?thesis
    unfolding write_and_link_def
  proof (rule triple_bind[OF chmod], rule triple_bind[OF fill], rule triple_bind)
    show "triple (\<lambda>s. find s p = None \<and> file_at s t payload) syncS (\<lambda>_ s. find s p = None \<and> file_at s t payload) ?E"
      by (rule triple_conseq[OF sync[of "\<lambda>s. find s p = None \<and> file_at s t payload"]]) auto
    show "triple (\<lambda>s. find s p = None \<and> file_at s t payload)
        (bindS (except_exists (label @ '' was concurrently created; overwrite is forbidden'') (linkS t p))
          (\<lambda>_. bindS (drop_nameS t) (\<lambda>_. syncS))) (\<lambda>_ s. file_at s p payload) ?E" for x :: unit
      by (rule triple_bind[OF link], rule triple_bind[OF drop],
          rule triple_conseq[OF sync[of "\<lambda>s. file_at s p payload"]]) auto
  qed
qed

lemma publish_via_triple:
  assumes "t \<noteq> p" "t \<noteq> butlast p" "p \<noteq> butlast t"
  shows "triple (\<lambda>s. find s p = None) (publish_via env t p payload label)
     (\<lambda>d s. d = sha256 (d_host env) payload \<and> file_at s p payload) (\<lambda>s. find s p = None \<or> file_at s p payload)"
proof -
  let ?E = "\<lambda>s. find s p = None \<or> file_at s p payload"
  have create: "triple (\<lambda>s. find s p = None) (createS (d_host env) t F_REG 384) (\<lambda>_ s. find s p = None \<and> file_at s t []) ?E"
    using assms unfolding triple_def createS_def callS_def
    by (auto simp: file_at_def new_node_def fresh_stat_def split: list.splits fault.splits if_splits)
  have drop: "triple ?E (drop_nameS t) (\<lambda>_. ?E) ?E"
    using assms unfolding triple_def drop_nameS_def callS_def
    by (fastforce simp: file_at_def split: list.splits fault.splits if_splits)
  have fin: "triple (\<lambda>s. find s p = None \<and> file_at s t [])
      (finallyS (write_and_link t p payload label) (\<lambda>w. if find (store w) t = None then retS () else drop_nameS t))
      (\<lambda>_ s. file_at s p payload) ?E"
    unfolding triple_def
  proof (intro allI impI)
    fix w r w'
    assume P: "find (store w) p = None \<and> file_at (store w) t []"
      and m: "finallyS (write_and_link t p payload label)
        (\<lambda>w. if find (store w) t = None then retS () else drop_nameS t) w = (r, w')"
    note wl = write_and_link_triple[OF assms, of payload label]
    from m show "case r of Inl e \<Rightarrow> ?E (store w') | Inr x \<Rightarrow> file_at (store w') p payload"
    proof (cases rule: finallyS_cases)
      case (Done x)
      with triple_Inr[OF wl P] show ?thesis by simp
    next
      case (Failed e w1 r1)
      from triple_Inl[OF wl P Failed(1)] have E: "?E (store w1)" .
      have "?E (store w')"
      proof (cases "find (store w1) t = None")
        case True
        with Failed(2) E show ?thesis by (simp add: retS_def)
      next
        case False
        with Failed(2) E drop show ?thesis unfolding triple_def by (cases r1) fastforce+
      qed
      with Failed(3) show ?thesis by auto
    next
      case (Killed e)
      with triple_Inl[OF wl P] show ?thesis by simp
    qed
  qed
  show ?thesis
    unfolding publish_via_def
  proof (rule triple_bind[OF create], rule triple_bind[OF fin], rule triple_bind)
    show "triple (\<lambda>s. file_at s p payload) (readS (published_metadata p label)) (\<lambda>_ s. file_at s p payload) ?E" for x :: unit
      by (rule triple_conseq[OF triple_read]) auto
    show "triple (\<lambda>s. file_at s p payload) (retS (sha256 (d_host env) payload))
        (\<lambda>d s. d = sha256 (d_host env) payload \<and> file_at s p payload) ?E" for x :: unit
      by (rule triple_conseq[OF triple_ret]) auto
  qed
qed

text \<open>The name of a temporary file is not that of a document.\<close>

definition document_path :: "path \<Rightarrow> bool" where
  "document_path p \<longleftrightarrow> p \<noteq> [] \<and> \<not> prefix ''.lmi-d114-wsl-'' (last p)"

lemma temporary_apart:
  assumes "document_path p" "t = butlast p @ [''.lmi-d114-wsl-'' @ x]"
  shows "t \<noteq> p" "t \<noteq> butlast p" "p \<noteq> butlast t"
proof -
  show "t \<noteq> p"
  proof
    assume "t = p"
    then have "last p = ''.lmi-d114-wsl-'' @ x" using assms(2) by (metis last_snoc)
    then show False using assms(1) by (simp add: document_path_def)
  qed
  show "t \<noteq> butlast p" using assms(2) by (auto dest: arg_cong[where f = length])
  show "p \<noteq> butlast t"
  proof
    assume "p = butlast t"
    then have "length p = length p - 1" using assms(2) by (metis butlast_snoc length_butlast)
    then show False using assms(1) by (cases p) (auto simp: document_path_def)
  qed
qed

lemma validate_private_output_Inr:
  "validate_private_output p root label s = Inr parent \<Longrightarrow> parent = butlast p \<and> find s p = None"
  by (auto simp: validate_private_output_def res_iff Let_def)

text \<open>A publication that returns has published; one that fails or is killed has published all or
  nothing; and one whose path is taken changes nothing.\<close>

lemma publish_all_or_nothing:
  assumes "document_path p"
  shows "triple (\<lambda>s. find s p = None) (publish_json env a p v label)
     (\<lambda>d s. d = sha256 (d_host env) (canonical_line (d_host env) v) \<and> file_at s p (canonical_line (d_host env) v))
     (\<lambda>s. find s p = None \<or> file_at s p (canonical_line (d_host env) v))"
proof -
  let ?E = "\<lambda>s. find s p = None \<or> file_at s p (canonical_line (d_host env) v)"
  have apart: "triple (\<lambda>s. find s p = None \<and> x = butlast p)
      (bindS (liftS (assert_private_payload (canonical_line (d_host env) v) (expected_serial a))) (\<lambda>_.
       bindS (readS (\<lambda>s. Inr (x @ [''.lmi-d114-wsl-'' @ d_temp env x s]))) (\<lambda>temporary.
       publish_via env temporary p (canonical_line (d_host env) v) label)))
      (\<lambda>d s. d = sha256 (d_host env) (canonical_line (d_host env) v) \<and> file_at s p (canonical_line (d_host env) v)) ?E" for x
  proof (rule triple_pure)
    assume x: "x = butlast p"
    show "triple (\<lambda>s. find s p = None)
      (bindS (liftS (assert_private_payload (canonical_line (d_host env) v) (expected_serial a))) (\<lambda>_.
       bindS (readS (\<lambda>s. Inr (x @ [''.lmi-d114-wsl-'' @ d_temp env x s]))) (\<lambda>temporary.
       publish_via env temporary p (canonical_line (d_host env) v) label)))
      (\<lambda>d s. d = sha256 (d_host env) (canonical_line (d_host env) v) \<and> file_at s p (canonical_line (d_host env) v)) ?E"
    proof (rule triple_lift_bind, rule triple_read_bind)
      fix u :: unit and t s
      assume "find s p = None" "Inr (x @ [''.lmi-d114-wsl-'' @ d_temp env x s]) = (Inr t :: path result)"
      then have t: "t = butlast p @ [''.lmi-d114-wsl-'' @ d_temp env x s]" using x by simp
      show "triple (\<lambda>s. find s p = None) (publish_via env t p (canonical_line (d_host env) v) label)
        (\<lambda>d s. d = sha256 (d_host env) (canonical_line (d_host env) v) \<and> file_at s p (canonical_line (d_host env) v)) ?E"
        by (rule publish_via_triple[OF temporary_apart[OF assms t]])
    qed auto
  qed
  show ?thesis
    unfolding publish_json_def Let_def
  proof (rule triple_bind)
    show "triple (\<lambda>s. find s p = None) (readS (validate_private_output p (d_repo_root env) label))
        (\<lambda>x s. find s p = None \<and> x = butlast p) ?E"
      by (rule triple_conseq[OF triple_read]) (auto dest: validate_private_output_Inr)
  qed (rule apart)
qed

lemma publish_taken:
  assumes "find (store w) p \<noteq> None"
  shows "\<exists>e. publish_json env a p v label w = (Inl e, w)"
proof -
  have "\<not> (\<exists>x. validate_private_output p (d_repo_root env) label (store w) = Inr x)"
    using assms by (auto dest: validate_private_output_Inr)
  then obtain e where "validate_private_output p (d_repo_root env) label (store w) = Inl e"
    by (cases "validate_private_output p (d_repo_root env) label (store w)") auto
  then show ?thesis by (simp add: publish_json_def Let_def bindS_def readS_def)
qed

text \<open>Whatever the temporary file is called, a publication that returns has published.\<close>

lemma publish_same_name: "triple (\<lambda>_. True) (publish_via env p p payload label) (\<lambda>_ _. False) (\<lambda>_. True)"
proof -
  let ?P = "\<lambda>s. find s p \<noteq> None"
  have chmod: "triple ?P (chmodS p 384) (\<lambda>_. ?P) (\<lambda>_. True)"
    by (auto simp: triple_def chmodS_def callS_def split: list.splits fault.splits)
  have fill: "triple ?P (fillS p payload) (\<lambda>_. ?P) (\<lambda>_. True)"
    by (auto simp: triple_def fillS_def callS_def Let_def split: list.splits fault.splits)
  have sync: "triple ?P syncS (\<lambda>_. ?P) (\<lambda>_. True)"
    by (auto simp: triple_def syncS_def callS_def split: list.splits fault.splits)
  have link: "triple ?P (except_exists why (linkS p p)) (\<lambda>_ _. False) (\<lambda>_. True)" for why
    by (auto simp: triple_def except_exists_def linkS_def)
  have written: "triple ?P (write_and_link p p payload label) (\<lambda>_ _. False) (\<lambda>_. True)"
    unfolding write_and_link_def
    by (rule triple_bind[OF chmod], rule triple_bind[OF fill], rule triple_bind[OF sync], rule triple_bind[OF link])
      (simp add: triple_def)
  have fin: "triple ?P (finallyS (write_and_link p p payload label) c) (\<lambda>_ _. False) (\<lambda>_. True)" for c
    unfolding triple_def
  proof (intro allI impI)
    fix w r w'
    assume P: "?P (store w)" and m: "finallyS (write_and_link p p payload label) c w = (r, w')"
    from m show "case r of Inl e \<Rightarrow> True | Inr x \<Rightarrow> False"
    proof (cases rule: finallyS_cases)
      case (Done x)
      with triple_Inr[OF written P] show ?thesis by simp
    qed auto
  qed
  have create: "triple (\<lambda>_. True) (createS (d_host env) p F_REG 384) (\<lambda>_. ?P) (\<lambda>_. True)"
    by (auto simp: triple_def createS_def callS_def split: list.splits fault.splits if_splits)
  show ?thesis
    unfolding publish_via_def
    by (rule triple_bind[OF create], rule triple_bind[OF fin]) (simp add: triple_def)
qed

lemma validate_private_output_below: "validate_private_output p root label s = Inr parent \<Longrightarrow> p \<noteq> []"
  by (auto simp: validate_private_output_def repo_relative_def res_iff Let_def posix_text_def)

lemma publish_Inr:
  assumes "publish_json env a p v label w = (Inr d, w')"
  shows "find (store w) p = None" "d = sha256 (d_host env) (canonical_line (d_host env) v)"
    "file_at (store w') p (canonical_line (d_host env) v)"
    "\<not> contains (expected_serial a) (canonical_line (d_host env) v)"
proof -
  let ?pl = "canonical_line (d_host env) v"
  from assms obtain t x where vp: "validate_private_output p (d_repo_root env) label (store w) = Inr (butlast p)"
    and pr: "assert_private_payload ?pl (expected_serial a) = Inr ()"
    and t: "t = butlast p @ [''.lmi-d114-wsl-'' @ x]" and m: "publish_via env t p ?pl label w = (Inr d, w')"
    by (auto simp: publish_json_def Let_def step_iff dest: validate_private_output_Inr)
  show n: "find (store w) p = None" using validate_private_output_Inr[OF vp] by simp
  show "\<not> contains (expected_serial a) ?pl" using pr by (auto simp: assert_private_payload_def demand_Inr)
  have ne: "t \<noteq> p"
  proof
    assume "t = p"
    with triple_Inr[OF publish_same_name TrueI] m show False by blast
  qed
  have ne2: "t \<noteq> butlast p" using t by (auto dest: arg_cong[where f = length])
  have ne3: "p \<noteq> butlast t"
  proof
    assume "p = butlast t"
    then have "length p = length p - 1" using t by (metis butlast_snoc length_butlast)
    with validate_private_output_below[OF vp] show False by (cases p) auto
  qed
  show "d = sha256 (d_host env) ?pl" "file_at (store w') p ?pl"
    using triple_Inr[OF publish_via_triple[OF ne ne2 ne3] n m] by simp_all
qed

end
