(* ===== verification/DeployTrace.thy ===== *)
theory DeployTrace
  imports DeployStore TranscriptSpec
begin

text \<open>
  What a run of the deployment gate adds to its trace: the locale of relations on traces that
  every part of a run tracks, the commands that only read, and the shape of the trace of an
  execution, in which one write may follow the queries and nothing follows the write.
\<close>

section \<open>Relations on traces\<close>

definition traces :: "(event list \<Rightarrow> event list \<Rightarrow> bool) \<Rightarrow> 'a dstep \<Rightarrow> bool" where
  "traces R m \<longleftrightarrow> (\<forall>w r w'. m w = (r, w') \<longrightarrow> R (trace w) (trace w'))"

lemma tracesD: "traces R m \<Longrightarrow> m w = (r, w') \<Longrightarrow> R (trace w) (trace w')"
  by (simp add: traces_def)

lemma bindS_cases:
  assumes "bindS m f w = (r, w')"
  obtains (First) e where "m w = (Inl e, w')" "r = Inl e"
    | (Second) x w1 where "m w = (Inr x, w1)" "f x w1 = (r, w')"
  using assms by (auto simp: bindS_def split: prod.splits sum.splits)

locale trace_relation =
  fixes R :: "event list \<Rightarrow> event list \<Rightarrow> bool"
  assumes R_refl: "R s s"
    and R_trans: "R s t \<Longrightarrow> R t u \<Longrightarrow> R s u"
begin

lemma traces_bind: "traces R m \<Longrightarrow> (\<And>x. traces R (f x)) \<Longrightarrow> traces R (bindS m f)"
  unfolding traces_def
proof (intro allI impI)
  fix w r w'
  assume k: "\<forall>w r w'. m w = (r, w') \<longrightarrow> R (trace w) (trace w')"
    "\<And>x. \<forall>w r w'. f x w = (r, w') \<longrightarrow> R (trace w) (trace w')" and b: "bindS m f w = (r, w')"
  from b show "R (trace w) (trace w')" by (cases rule: bindS_cases) (use k in \<open>blast intro: R_trans\<close>)+
qed

lemma traces_finally: "traces R m \<Longrightarrow> (\<And>w. traces R (c w)) \<Longrightarrow> traces R (finallyS m c)"
  unfolding traces_def
proof (intro allI impI)
  fix w r w'
  assume k: "\<forall>w r w'. m w = (r, w') \<longrightarrow> R (trace w) (trace w')"
    "\<And>v. \<forall>w r w'. c v w = (r, w') \<longrightarrow> R (trace w) (trace w')" and f: "finallyS m c w = (r, w')"
  from f show "R (trace w) (trace w')" by (cases rule: finallyS_cases) (use k in \<open>blast intro: R_trans\<close>)+
qed

lemma traces_except: "traces R m \<Longrightarrow> traces R (except_exists why m)"
  unfolding traces_def using except_exists_state by metis

lemma traces_attempt: "traces R m \<Longrightarrow> traces R (attempt_result m)"
  unfolding traces_def using lasting.attempt_state by metis

text \<open>A step that starts no command.\<close>

lemma traces_quiet: "traces (\<lambda>s t. t = s) m \<Longrightarrow> traces R m"
  unfolding traces_def using R_refl by metis

lemma traces_read: "traces R (readS q)"
  by (simp add: traces_def readS_def R_refl)

lemma traces_lift: "traces R (liftS r)"
  by (simp add: traces_def liftS_def R_refl)

lemma traces_ret: "traces R (retS x)"
  by (simp add: traces_def retS_def R_refl)

lemma traces_demand: "traces R (demandS c why)"
  unfolding demandS_def by (rule traces_lift)

lemma traces_recheck: "traces R (recheckS a why)"
  unfolding recheckS_def by (rule traces_read)

lemma traces_clock: "traces R (read_clock env)"
  by (simp add: traces_def read_clock_def R_refl)

lemma traces_if: "traces R a \<Longrightarrow> traces R b \<Longrightarrow> traces R (if c then a else b)"
  by simp

lemma traces_prod: "(\<And>a b. traces R (f a b)) \<Longrightarrow> traces R (case x of (a, b) \<Rightarrow> f a b)"
  by (cases x) simp

lemma traces_call: "traces R (callS g)"
  by (auto simp: traces_def callS_def R_refl split: list.splits fault.splits)

lemma traces_fill: "traces R (fillS p data)"
  by (auto simp: traces_def fillS_def callS_def Let_def R_refl split: list.splits fault.splits)

lemma traces_files: "traces R (createS h p ty perm)" "traces R (chmodS p k)" "traces R syncS"
  "traces R (linkS p q)" "traces R (drop_nameS p)"
  using traces_call
  by (auto simp: traces_def createS_def chmodS_def syncS_def linkS_def drop_nameS_def R_refl split: if_splits)

lemmas traces_basic = traces_prod traces_bind traces_finally traces_except traces_read traces_lift
  traces_ret traces_demand traces_recheck traces_clock traces_if traces_fill traces_files

lemma traces_publish: "traces R (publish_json env a p v label)"
  unfolding publish_json_def publish_via_def write_and_link_def Let_def by (intro traces_basic)

end

interpretation quiet: trace_relation "\<lambda>s t. t = s"
  by unfold_locales auto

text \<open>Every command that is started is of this kind.\<close>

definition only :: "(process_command \<Rightarrow> bool) \<Rightarrow> event list \<Rightarrow> event list \<Rightarrow> bool" where
  "only P s t \<longleftrightarrow> (\<exists>es. t = s @ es \<and> list_all (\<lambda>e. P (ev_command e)) es)"

interpretation only: trace_relation "only P" for P
proof unfold_locales
  show "only P s s" for s by (auto simp: only_def)
  show "only P s u" if st: "only P s t" and tu: "only P t u" for s t u
  proof -
    from st obtain es where "t = s @ es" "list_all (\<lambda>e. P (ev_command e)) es" unfolding only_def by blast
    moreover from tu obtain fs where "u = t @ fs" "list_all (\<lambda>e. P (ev_command e)) fs" unfolding only_def by blast
    ultimately show ?thesis unfolding only_def by (intro exI[of _ "es @ fs"]) simp
  qed
qed

section \<open>The commands\<close>

definition query :: "string list \<Rightarrow> int \<Rightarrow> process_command" where
  "query args t = \<lparr>argv = args, timeout_seconds = t, pass_fds = [], environment = SAFE_ENV\<rparr>"

fun getvar_arguments :: "string list \<Rightarrow> bool" where
  "getvar_arguments [s, serial, g, nm] \<longleftrightarrow> s = ''-s'' \<and> g = ''getvar'' \<and> nm \<in> set GETVAR_NAMES"
| "getvar_arguments _ \<longleftrightarrow> False"

text \<open>The version and the package of the tool, the list of devices, and the ten variables.\<close>

definition is_read_only :: "process_command \<Rightarrow> bool" where
  "is_read_only c \<longleftrightarrow> pass_fds c = [] \<and> timeout_seconds c = QUERY_TIMEOUT_SECONDS \<and> environment c = SAFE_ENV \<and>
     (argv c = DPKG_ARGV \<or>
      take (length FASTBOOT_ARGV) (argv c) = FASTBOOT_ARGV \<and>
        (drop (length FASTBOOT_ARGV) (argv c) \<in> {[''--version''], [''devices'']} \<or>
         getvar_arguments (drop (length FASTBOOT_ARGV) (argv c))))"

fun flash_arguments :: "string list \<Rightarrow> bool" where
  "flash_arguments [s, serial, f, u, p] \<longleftrightarrow> s = ''-s'' \<and> f = ''flash'' \<and> u = ''userdata'' \<and> prefix ''/proc/self/fd/'' p"
| "flash_arguments _ \<longleftrightarrow> False"

definition is_flash :: "process_command \<Rightarrow> bool" where
  "is_flash c \<longleftrightarrow> take (length FASTBOOT_ARGV) (argv c) = FASTBOOT_ARGV \<and>
     flash_arguments (drop (length FASTBOOT_ARGV) (argv c))"

lemma FASTBOOT_ARGV_length [simp]: "length FASTBOOT_ARGV = 5"
  by (simp add: FASTBOOT_ARGV_def)

lemma read_only_not_flash: "is_read_only c \<Longrightarrow> \<not> is_flash c"
proof
  assume "is_read_only c" "is_flash c"
  then have f: "flash_arguments (drop 5 (argv c))"
    and r: "argv c = DPKG_ARGV \<or> drop 5 (argv c) \<in> {[''--version''], [''devices'']} \<or> getvar_arguments (drop 5 (argv c))"
    by (auto simp: is_read_only_def is_flash_def)
  from f obtain a b c' d e where "drop 5 (argv c) = [a, b, c', d, e]"
    by (cases "drop 5 (argv c)" rule: flash_arguments.cases) auto
  with r show False by (auto simp: DPKG_ARGV_def)
qed

lemma process_only: "P \<lparr>argv = args, timeout_seconds = t, pass_fds = fds, environment = SAFE_ENV\<rparr> \<Longrightarrow>
    traces (only P) (run_process env args t fds)"
  by (auto simp: traces_def only_def run_process_def Let_def split: prod.splits)

lemma query_values_only:
  "set nms \<subseteq> set GETVAR_NAMES \<Longrightarrow> traces (only is_read_only) (query_values env FASTBOOT_ARGV serial nms)"
proof (induction nms)
  case Nil
  then show ?case by (simp add: only.traces_ret)
next
  case (Cons nm nms)
  have "traces (only is_read_only) (run_process env (FASTBOOT_ARGV @ [''-s'', serial, ''getvar'', nm]) QUERY_TIMEOUT_SECONDS [])"
    by (rule process_only) (use Cons.prems in \<open>simp add: is_read_only_def\<close>)
  moreover have "traces (only is_read_only) (query_values env FASTBOOT_ARGV serial nms)" using Cons by simp
  ultimately show ?case by (auto intro!: only.traces_basic)
qed

lemma query_device_only:
  assumes "a_argv_prefix a = FASTBOOT_ARGV"
  shows "traces (only is_read_only) (query_device env a)"
proof -
  have "traces (only is_read_only) (run_process env (FASTBOOT_ARGV @ [''devices'']) QUERY_TIMEOUT_SECONDS [])"
    by (rule process_only) (simp add: is_read_only_def)
  moreover have "traces (only is_read_only) (query_values env FASTBOOT_ARGV serial GETVAR_NAMES)" for serial
    by (rule query_values_only) simp
  ultimately show ?thesis unfolding query_device_def Let_def assms by (auto intro!: only.traces_basic)
qed

lemma validate_runtime_only: "traces (only is_read_only) (validate_runtime env v)"
proof -
  have "traces (only is_read_only) (run_process env (FASTBOOT_ARGV @ [''--version'']) QUERY_TIMEOUT_SECONDS [])"
    "traces (only is_read_only) (run_process env DPKG_ARGV QUERY_TIMEOUT_SECONDS [])"
    by (rule process_only, simp add: is_read_only_def)+
  then show ?thesis unfolding validate_runtime_def by (auto intro!: only.traces_basic)
qed

lemma local_audit_only: "traces (only is_read_only) (local_audit env p)"
  unfolding local_audit_def by (auto intro!: only.traces_basic validate_runtime_only)

lemma report_only: "traces (only is_read_only) (local_audit_report env a p t)"
  unfolding local_audit_report_def by (auto intro!: only.traces_basic only.traces_publish)

lemma preflight_only: "a_argv_prefix a = FASTBOOT_ARGV \<Longrightarrow> traces (only is_read_only) (preflight env a p t)"
  unfolding preflight_def by (auto intro!: only.traces_basic only.traces_publish query_device_only)

lemma approve_quiet: "traces (\<lambda>s t. t = s) (approve env a p sha q t)"
  unfolding approve_def Let_def by (auto intro!: quiet.traces_basic quiet.traces_publish)

lemma check_claims_quiet: "traces (\<lambda>s t. t = s) (check_claims env a x)"
  unfolding check_claims_def Let_def by (auto intro!: quiet.traces_basic)

lemma consume_claim_quiet: "traces (\<lambda>s t. t = s) (consume_claim env a sha p t)"
  unfolding consume_claim_def by (auto intro!: quiet.traces_basic quiet.traces_publish)

lemma attempt_quiet: "traces (\<lambda>s t. t = s) (publish_candidate_attempt env a sha b t)"
  unfolding publish_candidate_attempt_def by (auto intro!: quiet.traces_basic quiet.traces_publish)

lemma intent_quiet: "traces (\<lambda>s t. t = s) (publish_intent env a x c d dev t)"
  unfolding publish_intent_def by (rule quiet.traces_publish)

lemma final_gate_only:
  "a_argv_prefix (c_audit c) = FASTBOOT_ARGV \<Longrightarrow> traces (only is_read_only) (final_gate env c x)"
  unfolding final_gate_def Let_def by (auto intro!: only.traces_basic query_device_only)

section \<open>The write\<close>

definition flash_command :: "audit \<Rightarrow> string \<Rightarrow> process_command" where
  "flash_command a serial = \<lparr>argv = flash_argv a serial, timeout_seconds = WRITE_TIMEOUT_SECONDS,
     pass_fds = [hf_descriptor (candidate a)], environment = SAFE_ENV\<rparr>"

lemma flash_command_is_flash: "a_argv_prefix a = FASTBOOT_ARGV \<Longrightarrow> is_flash (flash_command a serial)"
  by (simp add: is_flash_def flash_command_def flash_argv_def candidate_arg_def)

lemma flash_step:
  assumes "flash env a serial w = (r, w')"
  shows "trace w' = trace w @ [\<lparr>ev_command = flash_command a serial, ev_store = store w\<rparr>]"
    "r = Inr (res, False) \<Longrightarrow> fst (d_runner env (trace w) (flash_command a serial) (store w)) = Inr res"
proof -
  obtain q s' where q: "d_runner env (trace w) (flash_command a serial) (store w) = (q, s')" by force
  let ?w = "w\<lparr>store := s', trace := trace w @ [\<lparr>ev_command = flash_command a serial, ev_store = store w\<rparr>]\<rparr>"
  have m: "run_process env (flash_argv a serial) WRITE_TIMEOUT_SECONDS [hf_descriptor (candidate a)] w = (q, ?w)"
    using q by (simp add: run_process_def flash_command_def)
  have "w' = ?w \<and> (r = Inr (res, False) \<longrightarrow> q = Inr res)"
  proof (cases q)
    case (Inl e)
    then show ?thesis using assms m by (cases e) (auto simp: flash_def attempt_result_def)
  next
    case (Inr x)
    then show ?thesis using assms m by (auto simp: flash_def attempt_result_def)
  qed
  then show "trace w' = trace w @ [\<lparr>ev_command = flash_command a serial, ev_store = store w\<rparr>]"
    "r = Inr (res, False) \<Longrightarrow> fst (d_runner env (trace w) (flash_command a serial) (store w)) = Inr res"
    using q by simp_all
qed

text \<open>How an execution comes to the write that leaves the event \<open>e\<close>.\<close>

definition wrote :: "deploy_env \<Rightarrow> execute_args \<Rightarrow> claims \<Rightarrow> int \<Rightarrow> deploy_state \<Rightarrow> event \<Rightarrow> bool" where
  "wrote env x c t0 w e \<longleftrightarrow> (\<exists>consumed w1 device t w2 attempt w3 intent w4.
     consume_claim env (c_audit c) (x_approval_sha256 x) (x_consumed x) t0 w = (Inr consumed, w1) \<and>
     final_gate env c x w1 = (Inr (device, t), w2) \<and>
     publish_candidate_attempt env (c_audit c) (x_approval_sha256 x) (de_identity_binding device) t w2 = (Inr attempt, w3) \<and>
     publish_intent env (c_audit c) x consumed attempt device t w3 = (Inr intent, w4) \<and>
     e = \<lparr>ev_command = flash_command (c_audit c) (de_serial device), ev_store = store w4\<rparr>)"

text \<open>What the trace says of a finished transport.\<close>

definition completed_by :: "deploy_env \<Rightarrow> event list \<Rightarrow> event \<Rightarrow> bool" where
  "completed_by env before e \<longleftrightarrow>
     (\<exists>r. fst (d_runner env before (ev_command e) (ev_store e)) = Inr r \<and> transport_completed r)"

lemma execute_claim_trace:
  assumes run: "execute_claim env x c t0 w = (r, w')" and args: "a_argv_prefix (c_audit c) = FASTBOOT_ARGV"
  shows "(only is_read_only (trace w) (trace w') \<and> (\<exists>e. r = Inl e)) \<or>
     (\<exists>before e. only is_read_only (trace w) before \<and> trace w' = before @ [e] \<and> wrote env x c t0 w e \<and>
        (\<forall>d. r = Inr (COMPLETED_ROUTE, d) \<longrightarrow> completed_by env before e))"
proof -
  let ?a = "c_audit c"
  from run[unfolded execute_claim_def Let_def] show ?thesis
  proof (cases rule: bindS_cases)
    case (First e)
    then show ?thesis using tracesD[OF consume_claim_quiet] only.R_refl by metis
  next
    case (Second consumed w1)
    then have t1: "trace w1 = trace w" using tracesD[OF consume_claim_quiet] by blast
    from Second(2) show ?thesis
    proof (cases rule: bindS_cases)
      case (First e)
      then show ?thesis using tracesD[OF final_gate_only[OF args]] t1 by metis
    next
      case gate: (Second dt w2)
      obtain device t where dt: "dt = (device, t)" by force
      have t2: "only is_read_only (trace w) (trace w2)"
        using tracesD[OF final_gate_only[OF args] gate(1)] t1 by simp
      from gate(2)[unfolded dt prod.case] show ?thesis
      proof (cases rule: bindS_cases)
        case (First e)
        then show ?thesis using tracesD[OF attempt_quiet] t2 by metis
      next
        case att: (Second attempt w3)
        then have t3: "trace w3 = trace w2" using tracesD[OF attempt_quiet] by blast
        from att(2) show ?thesis
        proof (cases rule: bindS_cases)
          case (First e)
          then show ?thesis using tracesD[OF intent_quiet] t2 t3 by metis
        next
          case int: (Second intent w4)
          then have t4: "trace w4 = trace w2" using tracesD[OF intent_quiet] t3 by metis
          let ?e = "\<lparr>ev_command = flash_command ?a (de_serial device), ev_store = store w4\<rparr>"
          have wr: "wrote env x c t0 w ?e"
            using Second(1) gate(1) att(1) int(1) unfolding wrote_def dt by blast
          from int(2) show ?thesis
          proof (cases rule: bindS_cases)
            case (First e)
            then have "trace w' = trace w2 @ [?e]" using flash_step(1)[OF First(1)] t4 by simp
            then show ?thesis using t2 wr First(2) by blast
          next
            case fl: (Second rr w5)
            obtain res exc where rr: "rr = (res, exc)" by force
            have t5: "trace w5 = trace w2 @ [?e]" using flash_step(1)[OF fl(1)] t4 by simp
            have quiet: "traces (\<lambda>s t. t = s)
              (bindS (demandS (write_completed res exc \<or> safe_reason (write_reason res exc)) ''internal unsafe reason code'') (\<lambda>_.
               bindS (read_clock env) (\<lambda>report_now.
               bindS (publish_json env ?a (x_report x) (execute_report (d_host env) ?a x
                 \<lparr>w_consumed_sha256 = consumed, w_attempt_sha256 = attempt, w_intent_sha256 = intent,
                  w_device = device, w_result = res, w_exception = exc\<rparr> report_now) ''execute report'') (\<lambda>digest.
               retS (if write_completed res exc then COMPLETED_ROUTE else UNKNOWN_ROUTE, digest)))))"
              by (auto intro!: quiet.traces_basic quiet.traces_publish)
            from fl(2)[unfolded rr prod.case] have t6: "trace w' = trace w2 @ [?e]"
              using tracesD[OF quiet] t5 by metis
            have "completed_by env (trace w2) ?e" if r: "r = Inr (COMPLETED_ROUTE, d)" for d
            proof -
              from fl(2)[unfolded rr prod.case r] have "write_completed res exc"
                by (auto simp: step_iff COMPLETED_ROUTE_def UNKNOWN_ROUTE_def split: if_splits)
              then have "transport_completed res" "exc = False" by (simp_all add: write_completed_def)
              then show ?thesis using flash_step(2)[OF fl(1)] rr t4 unfolding completed_by_def by auto
            qed
            then show ?thesis using t2 t6 wr by blast
          qed
        qed
      qed
    qed
  qed
qed

end
