(* ===== verification/DeploySafety.thy ===== *)
theory DeploySafety
  imports DeployTrace
begin

text \<open>
  What stands behind a write: the audit, the two claims and the ledgers.  A run keeps every file
  when the commands it starts keep them; the write of a run comes after the claim was consumed,
  the device was queried again and the attempt and the intent were published.
\<close>

section \<open>The files of a run\<close>

text \<open>A relation on the files that every publication for a fitting audit respects, and every
  command that is started, is respected by every part of a run.\<close>

context store_relation
begin

lemma keeps_bind_reached: "keeps R m \<Longrightarrow> (\<And>x w w'. m w = (Inr x, w') \<Longrightarrow> keeps R (f x)) \<Longrightarrow> keeps R (bindS m f)"
  unfolding keeps_def bindS_def by (auto split: prod.splits sum.splits) (blast intro: R_trans)

lemma keeps_recheck: "keeps R (recheckS a why)"
  unfolding recheckS_def by (rule keeps_read)

lemma keeps_check_claims: "keeps R (check_claims env a x)"
  unfolding check_claims_def Let_def by (auto intro!: keeps_run)

end

lemma claims_audit: "check_claims env a x w = (Inr (c, t0), w') \<Longrightarrow> \<exists>pf af. c_audit c = hold ''approval'' af (hold ''preflight'' pf a)"
  by (auto simp: check_claims_def Let_def step_iff) blast

locale run_relation = store_relation R for R :: "store \<Rightarrow> store \<Rightarrow> bool" +
  fixes env :: deploy_env and fit :: "audit \<Rightarrow> bool"
  assumes publishes: "fit a \<Longrightarrow> keeps R (publish_json env a p v label)"
    and starts: "keeps R (run_process env args t fds)"
    and holds: "fit a \<Longrightarrow> fit (hold k f a)"
begin

lemma keeps_query_values: "keeps R (query_values env args serial nms)"
  by (induction nms) (auto intro!: keeps_run starts)

lemma keeps_query_device: "keeps R (query_device env a)"
  unfolding query_device_def Let_def by (auto intro!: keeps_run starts keeps_query_values)

lemma keeps_local_audit: "keeps R (local_audit env p)"
  unfolding local_audit_def validate_runtime_def by (auto intro!: keeps_run starts)

lemma keeps_report: "fit a \<Longrightarrow> keeps R (local_audit_report env a p t)"
  unfolding local_audit_report_def by (auto intro!: keeps_run publishes)

lemma keeps_preflight: "fit a \<Longrightarrow> keeps R (preflight env a p t)"
  unfolding preflight_def by (auto intro!: keeps_run publishes keeps_query_device keeps_recheck)

lemma keeps_approve: "fit a \<Longrightarrow> keeps R (approve env a p sha r t)"
  unfolding approve_def Let_def by (auto intro!: keeps_run publishes keeps_recheck holds)

lemma keeps_consume: "fit a \<Longrightarrow> keeps R (consume_claim env a sha p t)"
  unfolding consume_claim_def by (auto intro!: keeps_run publishes)

lemma keeps_attempt_entry: "fit a \<Longrightarrow> keeps R (publish_candidate_attempt env a sha b t)"
  unfolding publish_candidate_attempt_def by (auto intro!: keeps_run publishes)

lemma keeps_intent: "fit a \<Longrightarrow> keeps R (publish_intent env a x c d dev t)"
  unfolding publish_intent_def by (rule publishes)

lemma keeps_final_gate: "keeps R (final_gate env c x)"
  unfolding final_gate_def Let_def by (auto intro!: keeps_run keeps_query_device keeps_recheck)

lemma keeps_flash: "keeps R (flash env a serial)"
  unfolding flash_def by (intro keeps_attempt starts)

lemma keeps_execute_claim: "fit (c_audit c) \<Longrightarrow> keeps R (execute_claim env x c t0)"
  unfolding execute_claim_def Let_def
  by (auto intro!: keeps_run keeps_consume keeps_final_gate keeps_attempt_entry keeps_intent keeps_flash publishes)

lemma keeps_execute: "fit a \<Longrightarrow> keeps R (execute env a x)"
  unfolding execute_def
  by (rule keeps_bind_reached[OF keeps_check_claims]) (auto dest!: claims_audit intro!: keeps_execute_claim simp: holds)

lemma keeps_deploy_once: "fit a \<Longrightarrow> keeps R (deploy_once env a n)"
  unfolding deploy_once_def by (auto intro!: keeps_run keeps_preflight keeps_approve keeps_execute)

lemma keeps_dispatch: "fit a \<Longrightarrow> keeps R (dispatch_mode env o1 a)"
  unfolding dispatch_mode_def
  by (auto intro!: keeps_run keeps_report keeps_preflight keeps_approve keeps_execute keeps_deploy_once
      split: mode.splits option.splits)

lemma keeps_operate: "(\<And>w a w'. local_audit env (o_profile o1) w = (Inr a, w') \<Longrightarrow> fit a) \<Longrightarrow> keeps R (operate env o1)"
  unfolding operate_def
  by (intro keeps_run keeps_bind_reached[OF keeps_local_audit] keeps_dispatch) blast

end

text \<open>A command does not remove or rewrite a file.\<close>

definition gentle :: "deploy_env \<Rightarrow> path \<Rightarrow> bool" where
  "gentle env q \<longleftrightarrow> (\<forall>log1 c s. lasting q s (snd (d_runner env log1 c s)))"

definition lasting_if :: "bool \<Rightarrow> path \<Rightarrow> store \<Rightarrow> store \<Rightarrow> bool" where
  "lasting_if b q s t \<longleftrightarrow> (b \<longrightarrow> lasting q s t)"

lemma keeps_lasting_if: "keeps (lasting_if b q) m \<longleftrightarrow> (b \<longrightarrow> keeps (lasting q) m)"
  by (auto simp: keeps_def lasting_if_def)

interpretation lasting_run: run_relation "lasting_if (gentle env q) q" env "\<lambda>_. True" for env q
proof unfold_locales
  show "lasting_if (gentle env q) q s s" for s by (simp add: lasting_if_def lasting.R_refl)
  show "lasting_if (gentle env q) q s t \<Longrightarrow> lasting_if (gentle env q) q t u \<Longrightarrow> lasting_if (gentle env q) q s u" for s t u
    using lasting.R_trans by (auto simp: lasting_if_def)
  show "keeps (lasting_if (gentle env q) q) (publish_json env a p v label)" for a p v label
    using lasting_publish by (simp add: keeps_lasting_if)
  show "keeps (lasting_if (gentle env q) q) (run_process env args t fds)" for args t fds
    unfolding keeps_lasting_if by (intro impI lasting.keeps_process) (simp add: gentle_def)
qed simp_all

lemma lasting_consume: "keeps (lasting q) (consume_claim env a sha p t)"
  unfolding consume_claim_def by (auto intro!: lasting.keeps_run lasting_publish)

lemma lasting_attempt: "keeps (lasting q) (publish_candidate_attempt env a sha b t)"
  unfolding publish_candidate_attempt_def by (auto intro!: lasting.keeps_run lasting_publish)

lemma lasting_intent: "keeps (lasting q) (publish_intent env a x c d dev t)"
  unfolding publish_intent_def by (rule lasting_publish)

lemma lasting_approve: "keeps (lasting q) (approve env a p sha r t)"
  unfolding approve_def Let_def by (auto intro!: lasting.keeps_run lasting_publish lasting.keeps_recheck)

lemma lasting_final_gate: "gentle env q \<Longrightarrow> keeps (lasting q) (final_gate env c x)"
  using lasting_run.keeps_final_gate by (simp add: keeps_lasting_if)

lemma lasting_flash: "gentle env q \<Longrightarrow> keeps (lasting q) (flash env a serial)"
  using lasting_run.keeps_flash by (simp add: keeps_lasting_if)

lemma lasting_preflight: "gentle env q \<Longrightarrow> keeps (lasting q) (preflight env a p t)"
  using lasting_run.keeps_preflight by (simp add: keeps_lasting_if)

lemma lasting_local_audit: "gentle env q \<Longrightarrow> keeps (lasting q) (local_audit env p)"
  using lasting_run.keeps_local_audit by (simp add: keeps_lasting_if)

lemma lasting_operate: "gentle env q \<Longrightarrow> keeps (lasting q) (operate env o1)"
  using lasting_run.keeps_operate by (simp add: keeps_lasting_if)

lemma lasting_absent: "lasting q s t \<Longrightarrow> find t q = None \<Longrightarrow> find s q = None"
  unfolding lasting_def by (metis not_None_eq option.distinct(1))

section \<open>The audit\<close>

lemma audit_documents_facts:
  assumes "audit_documents env p s = Inr a"
  shows "validate_profile (d_host env) (a_profile a) (d_contract env) = Inr ()"
    "\<exists>f. open_regular env s p (Some (d_repo_root env)) ''private WSL profile'' (Some SMALL_MAXIMUM) = Inr f \<and>
       deploy_json_bytes (d_host env) (hf_data f) ''profile'' = Inr (a_profile a)"
    "map_of (a_held a) ''candidate'' = None"
    "validate_completed (a_completed a) (d_contract env) (candidate_sha256 a) = Inr ()"
proof -
  from assms obtain f profile bs x where f: "open_regular env s p (Some (d_repo_root env)) ''private WSL profile'' (Some SMALL_MAXIMUM) = Inr f"
    and bs: "held_bytes f SMALL_MAXIMUM ''profile'' = Inr bs" "deploy_json_bytes (d_host env) bs ''profile'' = Inr profile"
    and v: "validate_profile (d_host env) profile (d_contract env) = Inr ()" and pr: "a_profile a = profile"
    and x: "map_of (a_held a) ''candidate'' = None"
      "validate_completed (a_completed a) (d_contract env) (fld (obj_val (fld (obj_val (fld profile ''artifacts'')) ''candidate'')) ''sha256'') = Inr ()"
    unfolding audit_documents_def Let_def bindE_Inr_iff demand_Inr by (elim exE conjE) (auto simp: unit_eq)
  show "validate_profile (d_host env) (a_profile a) (d_contract env) = Inr ()" using v pr by simp
  show "map_of (a_held a) ''candidate'' = None" by (rule x(1))
  show "validate_completed (a_completed a) (d_contract env) (candidate_sha256 a) = Inr ()"
    using x(2) pr by (simp add: candidate_sha256_def artifact_field_def)
  from regular_opened_Inr[OF f] have "bs = hf_data f" using bs(1) held_bytes_Inr[of f SMALL_MAXIMUM "''profile''" bs] by auto
  then show "\<exists>f. open_regular env s p (Some (d_repo_root env)) ''private WSL profile'' (Some SMALL_MAXIMUM) = Inr f \<and>
       deploy_json_bytes (d_host env) (hf_data f) ''profile'' = Inr (a_profile a)"
    using f bs(2) pr by blast
qed

lemma open_spec_Inr:
  assumes "open_spec env s spec label m is_sparse = Inr f"
  shows "hf_sha256 f = sha256 (d_host env) (hf_data f)"
  using assms regular_opened_Inr by (fastforce simp: open_spec_def Let_def res_iff)

lemma local_audit_facts:
  assumes "local_audit env p w = (Inr a, w')"
  shows "a_argv_prefix a = FASTBOOT_ARGV" "validate_profile (d_host env) (a_profile a) (d_contract env) = Inr ()"
    "sha256 (d_host env) (hf_data (candidate a)) = k_sparse_sha256 (d_contract env)"
    "inspect_sparse (d_host env) (hf_data (candidate a)) (k_raw_size (d_contract env)) (k_raw_sha256 (d_contract env)) = Inr ()"
    "validate_completed (a_completed a) (d_contract env) (candidate_sha256 a) = Inr ()"
proof -
  from assms obtain b fs where b: "audit_documents env p (store w) = Inr b"
    and im: "audit_images env (b\<lparr>a_argv_prefix := FASTBOOT_ARGV,
       a_held := a_held b @ zip (map system_key [0..<length fs]) fs\<rparr>) (store w') = Inr a"
    by (auto simp: local_audit_def validate_runtime_def step_iff)
  from im obtain c r0 r1 r2 where op: "open_spec env (store w') (fld (obj_val (fld (a_profile b) ''artifacts'')) ''candidate'') ''candidate'' None True = Inr c"
    and sha: "hf_sha256 c = k_sparse_sha256 (d_contract env)"
    and insp: "inspect_sparse (d_host env) (hf_data c) (k_raw_size (d_contract env)) (k_raw_sha256 (d_contract env)) = Inr ()"
    and a: "a = b\<lparr>a_argv_prefix := FASTBOOT_ARGV, a_held := (a_held b @ zip (map system_key [0..<length fs]) fs) @
        [(''candidate'', c), (''candidate_raw'', r0), (''rootfs'', r1), (''rollback'', r2)]\<rparr>"
    by (auto simp: audit_images_def Let_def res_iff)
  have n: "map_of (zip (map system_key [0..<length fs]) fs) ''candidate'' = None"
    by (auto simp: map_of_eq_None_iff system_key_def dest!: set_zip_leftD)
  have "map_of (a_held a) ''candidate'' = Some c"
    using audit_documents_facts(3)[OF b] n by (simp add: a map_add_Some_iff)
  then have c: "candidate a = c" by (simp add: candidate_def)
  show "a_argv_prefix a = FASTBOOT_ARGV" by (simp add: a)
  show "validate_profile (d_host env) (a_profile a) (d_contract env) = Inr ()" using audit_documents_facts(1)[OF b] by (simp add: a)
  show "sha256 (d_host env) (hf_data (candidate a)) = k_sparse_sha256 (d_contract env)"
    using open_spec_Inr[OF op] sha c by simp
  show "inspect_sparse (d_host env) (hf_data (candidate a)) (k_raw_size (d_contract env)) (k_raw_sha256 (d_contract env)) = Inr ()"
    using insp c by simp
  show "validate_completed (a_completed a) (d_contract env) (candidate_sha256 a) = Inr ()"
    using audit_documents_facts(4)[OF b] by (simp add: a candidate_sha256_def artifact_field_def)
qed

section \<open>The claims\<close>

lemma hold_simps [simp]:
  "a_profile (hold k f a) = a_profile a" "a_profile_sha256 (hold k f a) = a_profile_sha256 a"
  "a_argv_prefix (hold k f a) = a_argv_prefix a" "a_completed (hold k f a) = a_completed a"
  "a_mapping (hold k f a) = a_mapping a"
  by (simp_all add: hold_def)

lemma hold_field [simp]:
  "artifact_field (hold k f a) nm key = artifact_field a nm key" "artifact_binding (hold k f a) = artifact_binding a"
  "argv_semantics (hold k f a) = argv_semantics a" "profile_identity (hold k f a) key = profile_identity a key"
  "candidate_sha256 (hold k f a) = candidate_sha256 a" "claim_ledger (hold k f a) = claim_ledger a"
  "expected_serial (hold k f a) = expected_serial a" "ledger_name (hold k f a) nm = ledger_name a nm"
  "validate_preflight h v (hold k f a) t = validate_preflight h v a t"
  "validate_approval u (hold k f a) sha b t = validate_approval u a sha b t"
  "ledger_place env (hold k f a) nm = ledger_place env a nm"
  by (simp_all add: artifact_field_def[abs_def] artifact_binding_def argv_semantics_def profile_identity_def[abs_def]
      candidate_sha256_def claim_ledger_def expected_serial_def ledger_name_def[abs_def] validate_preflight_def
      validate_approval_def ledger_place_def)

lemma hold_candidate [simp]: "k \<noteq> ''candidate'' \<Longrightarrow> candidate (hold k f a) = candidate a"
  by (simp add: candidate_def hold_def update_conv')

text \<open>The two documents, at a moment, in an audit.\<close>

definition authorizes :: "deploy_env \<Rightarrow> audit \<Rightarrow> bytes \<Rightarrow> bytes \<Rightarrow> int \<Rightarrow> bool" where
  "authorizes env a preflight_bytes approval_bytes t \<longleftrightarrow> (\<exists>p q b.
     deploy_json_bytes (d_host env) preflight_bytes ''preflight report'' = Inr p \<and>
     deploy_json_bytes (d_host env) approval_bytes ''approval claim'' = Inr q \<and>
     validate_preflight (d_host env) p a t = Inr b \<and>
     validate_approval q a (sha256 (d_host env) preflight_bytes) b t = Inr () \<and>
     validate_completed (a_completed a) (d_contract env) (candidate_sha256 a) = Inr ())"

text \<open>Neither of them is older than two minutes, nor from the future.\<close>

lemma authorizes_fresh:
  assumes "authorizes env a pb qb t"
  shows "\<exists>p q created approved. deploy_json_bytes (d_host env) pb ''preflight report'' = Inr p \<and>
     fld p ''created_at_unix'' = JInt created \<and> created \<le> t \<and> t \<le> created + 120 \<and>
     deploy_json_bytes (d_host env) qb ''approval claim'' = Inr q \<and>
     fld q ''created_at_unix'' = JInt approved \<and> approved \<le> t \<and> t \<le> approved + 120 \<and>
     fld q ''preflight_sha256'' = JStr (sha256 (d_host env) pb)"
proof -
  from assms obtain p q b where p: "deploy_json_bytes (d_host env) pb ''preflight report'' = Inr p"
      "validate_preflight (d_host env) p a t = Inr b"
    and q: "deploy_json_bytes (d_host env) qb ''approval claim'' = Inr q"
      "validate_approval q a (sha256 (d_host env) pb) b t = Inr ()"
    unfolding authorizes_def by blast
  from p(2) have f: "fresh_since (fld p ''created_at_unix'') t"
    unfolding validate_preflight_def bindE_Inr_iff demand_Inr Let_def by blast
  then obtain c where c: "fld p ''created_at_unix'' = JInt c" "c \<le> t" "t \<le> c + 120"
    unfolding fresh_since_def by (cases "fld p ''created_at_unix''") (simp_all add: PREFLIGHT_MAX_AGE_SECONDS_def)
  from q(2) have i: "in_window (fld q ''created_at_unix'') (fld q ''expires_at_unix'') t"
    and b: "fld q ''preflight_sha256'' = JStr (sha256 (d_host env) pb)"
    unfolding validate_approval_def bindE_Inr_iff demand_Inr by blast+
  from i obtain d e where d: "fld q ''created_at_unix'' = JInt d" "e - d = 120" "d \<le> t" "t \<le> e"
    unfolding in_window_def
    by (cases "fld q ''created_at_unix''"; cases "fld q ''expires_at_unix''") (auto simp: APPROVAL_TTL_SECONDS_def)
  have "t \<le> d + 120" using d(2,4) by linarith
  with p(1) q(1) b c d(1,3) show ?thesis by blast
qed

lemma load_small_Inr:
  assumes "load_small env p sha label s = Inr (v, f)"
  shows "sha = sha256 (d_host env) (hf_data f)" "deploy_json_bytes (d_host env) (hf_data f) label = Inr v"
    "hf_path f = p" "file_at s p (hf_data f)" "is_sha256_hex sha"
proof -
  from assms obtain bs where o: "open_regular env s p (Some (d_repo_root env)) label (Some LOAD_MAXIMUM) = Inr f"
    and b: "hf_sha256 f = sha" "held_bytes f LOAD_MAXIMUM label = Inr bs" "deploy_json_bytes (d_host env) bs label = Inr v"
    and x: "is_sha256_hex sha"
    by (auto simp: load_small_def res_iff sha_value_def)
  note f = regular_opened_Inr[OF o]
  from f have "bs = hf_data f" using b(2) held_bytes_Inr[of f LOAD_MAXIMUM label bs] by auto
  with f b x show "sha = sha256 (d_host env) (hf_data f)" "deploy_json_bytes (d_host env) (hf_data f) label = Inr v"
    "hf_path f = p" "file_at s p (hf_data f)" "is_sha256_hex sha"
    by (auto simp: file_at_def)
qed

text \<open>The entries of the two ledgers that a write of this candidate under this claim makes.\<close>

definition attempt_entry :: "deploy_env \<Rightarrow> audit \<Rightarrow> path option" where
  "attempt_entry env a = (case ledger_place env a ''candidate_attempts'' of
       Inr dir \<Rightarrow> Some (dir @ [str_val (candidate_sha256 a) @ ''.attempt.json''])
     | Inl _ \<Rightarrow> None)"

definition consumed_entry :: "deploy_env \<Rightarrow> audit \<Rightarrow> string \<Rightarrow> path option" where
  "consumed_entry env a sha = (case ledger_place env a ''claim_consumption'' of
       Inr dir \<Rightarrow> Some (dir @ [sha @ ''.consumed.json''])
     | Inl _ \<Rightarrow> None)"

lemma attempt_path_Inr: "candidate_attempt_path env a s = Inr p \<Longrightarrow> attempt_entry env a = Some p"
  by (auto simp: candidate_attempt_path_def ledger_directory_def attempt_entry_def sha_value_def res_iff)

lemma consumed_path_Inr: "claim_consumed_path env a sha s = Inr p \<Longrightarrow> consumed_entry env a sha = Some p"
  by (auto simp: claim_consumed_path_def ledger_directory_def consumed_entry_def sha_value_def res_iff)

lemma hold_entries [simp]:
  "attempt_entry env (hold k f a) = attempt_entry env a" "consumed_entry env (hold k f a) sha = consumed_entry env a sha"
  by (simp_all add: attempt_entry_def consumed_entry_def cong: sum.case_cong)

lemma iterE_Cons: "iterE f (x # xs) = Inr u \<longleftrightarrow> f x = Inr () \<and> iterE f xs = Inr u"
  by (cases "f x") auto

lemma conflicting_outputs_Inr:
  assumes "conflicting_outputs env a x s = Inr q"
  shows "claim_consumed_path env a (x_approval_sha256 x) s = Inr (x_consumed x)" "candidate_attempt_path env a s = Inr q"
    "find s (x_consumed x) = None" "find s q = None"
proof -
  from assms obtain e q1 u y where cp: "claim_consumed_path env a (x_approval_sha256 x) s = Inr e" "x_consumed x = e"
    and q1: "candidate_attempt_path env a s = Inr q1" "(Inr q1 :: path result) = Inr q"
    and it: "iterE (\<lambda>(p, label). bindE (validate_private_output p (d_repo_root env) label s) (\<lambda>_. Inr ()))
              [(x_consumed x, ''consumed claim''), (x_intent x, ''intent''), (x_report x, ''execute report'')] = Inr u"
    and vo1: "validate_private_output q1 (d_repo_root env) ''candidate attempt ledger entry'' s = Inr y"
    unfolding conflicting_outputs_def bindE_Inr_iff demand_Inr by blast
  from q1 vo1 have ap: "candidate_attempt_path env a s = Inr q"
    and vo: "validate_private_output q (d_repo_root env) ''candidate attempt ledger entry'' s = Inr y" by simp_all
  show "claim_consumed_path env a (x_approval_sha256 x) s = Inr (x_consumed x)" "candidate_attempt_path env a s = Inr q"
    using cp ap by simp_all
  from it obtain z where "validate_private_output (x_consumed x) (d_repo_root env) ''consumed claim'' s = Inr z"
    unfolding iterE_Cons prod.case bindE_Inr_iff by blast
  then show "find s (x_consumed x) = None" using validate_private_output_Inr by blast
  show "find s q = None" using vo validate_private_output_Inr by blast
qed

lemma validate_preflight_binding: "validate_preflight h v a t = Inr b \<Longrightarrow> b = obj_val (fld v ''binding'')"
  unfolding validate_preflight_def bindE_Inr_iff demand_Inr Let_def by (metis Inr_inject)

lemma check_claims_Inr:
  assumes "check_claims env a x w = (Inr (c, t0), w')"
  shows "\<exists>pf af. c_audit c = hold ''approval'' af (hold ''preflight'' pf a) \<and>
     deploy_json_bytes (d_host env) (hf_data pf) ''preflight report'' = Inr (c_preflight c) \<and>
     deploy_json_bytes (d_host env) (hf_data af) ''approval claim'' = Inr (c_approval c) \<and>
     x_preflight_sha256 x = sha256 (d_host env) (hf_data pf) \<and> x_approval_sha256 x = sha256 (d_host env) (hf_data af) \<and>
     c_binding c = obj_val (fld (c_preflight c) ''binding'') \<and>
     validate_completed (a_completed a) (d_contract env) (candidate_sha256 a) = Inr ()"
    "store w' = store w" "find (store w) (x_consumed x) = None"
    "consumed_entry env a (x_approval_sha256 x) = Some (x_consumed x)"
    "\<exists>q. attempt_entry env a = Some q \<and> find (store w) q = None"
proof -
  from assms obtain q pv pf av af b
    where co: "conflicting_outputs env a x (store w) = Inr q"
      and lp: "load_small env (x_preflight x) (x_preflight_sha256 x) ''preflight report'' (store w) = Inr (pv, pf)"
      and la: "load_small env (x_approval x) (x_approval_sha256 x) ''approval claim'' (store w) = Inr (av, af)"
      and cl: "validate_completed (a_completed a) (d_contract env) (candidate_sha256 a) = Inr ()"
      and b: "validate_preflight (d_host env) pv a t0 = Inr b"
      and c: "c = \<lparr>c_preflight = pv, c_approval = av, c_binding = b, c_audit = hold ''approval'' af (hold ''preflight'' pf a)\<rparr>"
      and st: "store w' = store w"
    by (auto simp: check_claims_def Let_def step_iff read_clock_def)
  show "\<exists>pf af. c_audit c = hold ''approval'' af (hold ''preflight'' pf a) \<and>
     deploy_json_bytes (d_host env) (hf_data pf) ''preflight report'' = Inr (c_preflight c) \<and>
     deploy_json_bytes (d_host env) (hf_data af) ''approval claim'' = Inr (c_approval c) \<and>
     x_preflight_sha256 x = sha256 (d_host env) (hf_data pf) \<and> x_approval_sha256 x = sha256 (d_host env) (hf_data af) \<and>
     c_binding c = obj_val (fld (c_preflight c) ''binding'') \<and>
     validate_completed (a_completed a) (d_contract env) (candidate_sha256 a) = Inr ()"
    using load_small_Inr[OF lp] load_small_Inr[OF la] cl c validate_preflight_binding[OF b] by auto
  show "store w' = store w" by (rule st)
  note o1 = conflicting_outputs_Inr[OF co]
  show "find (store w) (x_consumed x) = None" by (rule o1(3))
  show "consumed_entry env a (x_approval_sha256 x) = Some (x_consumed x)" by (rule consumed_path_Inr[OF o1(1)])
  show "\<exists>q. attempt_entry env a = Some q \<and> find (store w) q = None"
    using attempt_path_Inr[OF o1(2)] o1(4) by blast
qed

lemma query_device_Inr:
  assumes "query_device env a w = (Inr d, w')"
  shows "de_serial d = expected_serial a"
    "de_identity_binding d = identity_binding_of (d_host env) (profile_identity a ''privacy_nonce'') (expected_serial a)"
    "\<exists>vs u. judge_device a (expected_serial a) vs u = Inr (de_public d)"
  using assms by (auto simp: query_device_def Let_def step_iff demandS_def demand_Inr expected_serial_def) blast

lemma final_gate_Inr:
  assumes "final_gate env c x w = (Inr (d, t), w')"
  shows "de_serial d = expected_serial (c_audit c)" "t \<in> range (d_clock env)"
    "\<exists>b. validate_preflight (d_host env) (c_preflight c) (c_audit c) t = Inr b"
    "validate_approval (c_approval c) (c_audit c) (x_preflight_sha256 x) (c_binding c) t = Inr ()"
    "recheck (c_audit c) (store w')"
proof -
  from assms obtain w1 where q: "query_device env (c_audit c) w = (Inr d, w1)"
    and r: "t \<in> range (d_clock env)" "\<exists>b. validate_preflight (d_host env) (c_preflight c) (c_audit c) t = Inr b"
    "validate_approval (c_approval c) (c_audit c) (x_preflight_sha256 x) (c_binding c) t = Inr ()" "recheck (c_audit c) (store w')"
    by (auto simp: final_gate_def Let_def step_iff demandS_def demand_Inr read_clock_def recheckS_def)
  show "de_serial d = expected_serial (c_audit c)" by (rule query_device_Inr(1)[OF q])
  show "t \<in> range (d_clock env)" "\<exists>b. validate_preflight (d_host env) (c_preflight c) (c_audit c) t = Inr b"
    "validate_approval (c_approval c) (c_audit c) (x_preflight_sha256 x) (c_binding c) t = Inr ()" "recheck (c_audit c) (store w')"
    by (rule r)+
qed

text \<open>What holds when the command \<open>c\<close> is started on the files \<open>s\<close>, in a run whose audit is \<open>a\<close>
  and that began on the files \<open>s0\<close>.\<close>

definition write_authorized :: "deploy_env \<Rightarrow> audit \<Rightarrow> store \<Rightarrow> event \<Rightarrow> bool" where
  "write_authorized env a s0 e \<longleftrightarrow> (\<exists>pb qb t consumed attempt intent attempt_sha consumed_sha.
     ev_command e = flash_command a (expected_serial a) \<and>
     authorizes env a pb qb t \<and> t \<in> range (d_clock env) \<and>
     consumed_entry env a (sha256 (d_host env) qb) = Some consumed \<and>
     find s0 consumed = None \<and> find (ev_store e) consumed \<noteq> None \<and>
     attempt_entry env a = Some attempt \<and> find s0 attempt = None \<and> find (ev_store e) attempt \<noteq> None \<and>
     find s0 intent = None \<and>
     file_at (ev_store e) intent (canonical_line (d_host env)
       [(''approval_sha256'', JStr (sha256 (d_host env) qb)),
        (''argv_nonce_scoped_sha256'', JStr (argv_binding (d_host env) a (expected_serial a))),
        (''argv_semantics'', argv_semantics a), (''artifacts'', artifact_binding a),
        (''candidate_attempt_sha256'', JStr attempt_sha), (''consumed_claim_sha256'', JStr consumed_sha),
        (''created_at_unix'', JInt t),
        (''identity_binding'', JStr (profile_identity a ''expected_nonce_scoped_serial_sha256'')),
        (''max_attempts'', JInt 1), (''retry_authorization'', JBool False), (''schema'', JStr INTENT_SCHEMA)]))"

lemma wrote_authorized:
  assumes claims: "check_claims env a x w = (Inr (c, t0), w0)" and wrote: "wrote env x c t0 w0 e"
    and gentle: "\<And>q. gentle env q"
  shows "write_authorized env a (store w) e"
proof -
  note cc = check_claims_Inr[OF claims]
  from cc(1) obtain pf af where pf: "c_audit c = hold ''approval'' af (hold ''preflight'' pf a)"
    "deploy_json_bytes (d_host env) (hf_data pf) ''preflight report'' = Inr (c_preflight c)"
    "deploy_json_bytes (d_host env) (hf_data af) ''approval claim'' = Inr (c_approval c)"
    "x_preflight_sha256 x = sha256 (d_host env) (hf_data pf)" "x_approval_sha256 x = sha256 (d_host env) (hf_data af)"
    "c_binding c = obj_val (fld (c_preflight c) ''binding'')"
    "validate_completed (a_completed a) (d_contract env) (candidate_sha256 a) = Inr ()" by blast
  from wrote obtain consumed w1 d t w2 attempt w3 intent w4
    where co: "consume_claim env (c_audit c) (x_approval_sha256 x) (x_consumed x) t0 w0 = (Inr consumed, w1)"
      and fg: "final_gate env c x w1 = (Inr (d, t), w2)"
      and at: "publish_candidate_attempt env (c_audit c) (x_approval_sha256 x) (de_identity_binding d) t w2 = (Inr attempt, w3)"
      and it: "publish_intent env (c_audit c) x consumed attempt d t w3 = (Inr intent, w4)"
      and e: "e = \<lparr>ev_command = flash_command (c_audit c) (de_serial d), ev_store = store w4\<rparr>"
    unfolding wrote_def by blast
  note fg1 = final_gate_Inr[OF fg]
  have id: "de_identity_binding d = profile_identity a ''expected_nonce_scoped_serial_sha256''"
    using fg pf(1) by (auto simp: final_gate_def query_device_def Let_def step_iff demandS_def demand_Inr)
  obtain b where b: "validate_preflight (d_host env) (c_preflight c) a t = Inr b" using fg1(3) pf(1) by auto
  have au: "authorizes env a (hf_data pf) (hf_data af) t"
    using pf b validate_preflight_binding[OF b] fg1(4) unfolding authorizes_def by auto
  have l: "lasting q (store w0) (store w1)" "lasting q (store w1) (store w2)" "lasting q (store w2) (store w3)"
    "lasting q (store w3) (store w4)" for q
    using keepsD[OF lasting_consume co] keepsD[OF lasting_final_gate[OF gentle] fg] keepsD[OF lasting_attempt at]
      keepsD[OF lasting_intent it] by auto
  have stays: "find (store w4) q \<noteq> None" if "find (store w1) q \<noteq> None" for q
    using that l(2-4) lasting_absent by metis
  have "\<exists>v label. publish_json env (c_audit c) (x_consumed x) v label w0 = (Inr consumed, w1)"
    using co by (auto simp: consume_claim_def step_iff demandS_def)
  then have con: "find (store w1) (x_consumed x) \<noteq> None" using publish_Inr(3) by (fastforce simp: file_at_def)
  obtain q where q: "attempt_entry env a = Some q" "find (store w) q = None" using cc(5) by blast
  have "\<exists>v label. publish_json env (c_audit c) q v label w2 = (Inr attempt, w3)"
    using at attempt_path_Inr q(1) pf(1) by (fastforce simp: publish_candidate_attempt_def step_iff)
  then have "find (store w3) q \<noteq> None" using publish_Inr(3) by (fastforce simp: file_at_def)
  then have att: "find (store w4) q \<noteq> None" using l(4) lasting_absent by metis
  note pi = publish_Inr[OF it[unfolded publish_intent_def]]
  have new: "find (store w) (x_intent x) = None"
    using pi(1) l(1-3)[of "x_intent x"] cc(2) lasting_absent by metis
  show ?thesis
    unfolding write_authorized_def
  proof (intro exI conjI)
    show "ev_command e = flash_command a (expected_serial a)"
      using e fg1(1) pf(1) by (simp add: flash_command_def flash_argv_def candidate_arg_def)
    show "authorizes env a (hf_data pf) (hf_data af) t" by (rule au)
    show "t \<in> range (d_clock env)" by (rule fg1(2))
    show "consumed_entry env a (sha256 (d_host env) (hf_data af)) = Some (x_consumed x)" using cc(4) pf(5) by simp
    show "find (store w) (x_consumed x) = None" by (rule cc(3))
    show "find (ev_store e) (x_consumed x) \<noteq> None" using stays[OF con] e by simp
    show "attempt_entry env a = Some q" "find (store w) q = None" by (rule q)+
    show "find (ev_store e) q \<noteq> None" using att e by simp
    show "find (store w) (x_intent x) = None" by (rule new)
    show "file_at (ev_store e) (x_intent x) (canonical_line (d_host env)
       [(''approval_sha256'', JStr (sha256 (d_host env) (hf_data af))),
        (''argv_nonce_scoped_sha256'', JStr (argv_binding (d_host env) a (expected_serial a))),
        (''argv_semantics'', argv_semantics a), (''artifacts'', artifact_binding a),
        (''candidate_attempt_sha256'', JStr attempt), (''consumed_claim_sha256'', JStr consumed),
        (''created_at_unix'', JInt t),
        (''identity_binding'', JStr (profile_identity a ''expected_nonce_scoped_serial_sha256'')),
        (''max_attempts'', JInt 1), (''retry_authorization'', JBool False), (''schema'', JStr INTENT_SCHEMA)])"
      using pi(3) e id fg1(1) pf(1,5) by (simp add: argv_binding_def flash_argv_def candidate_arg_def)
  qed
qed

section \<open>Runs\<close>

lemma bindS_assoc: "bindS (bindS m f) g = bindS m (\<lambda>x. bindS (f x) g)"
  by (rule ext) (simp add: bindS_def split: prod.splits sum.splits)

lemma bindS_retS: "bindS (retS x) f = f x"
  by (rule ext) (simp add: bindS_def retS_def)

text \<open>What happens after the write changes no file that was there.\<close>

lemma execute_claim_after:
  assumes "execute_claim env x c t0 w = (r, w')" "wrote env x c t0 w e" "gentle env q"
  shows "lasting q (ev_store e) (store w')"
proof -
  let ?a = "c_audit c"
  from assms(2) obtain consumed w1 device t w2 attempt w3 intent w4
    where co: "consume_claim env ?a (x_approval_sha256 x) (x_consumed x) t0 w = (Inr consumed, w1)"
      and fg: "final_gate env c x w1 = (Inr (device, t), w2)"
      and at: "publish_candidate_attempt env ?a (x_approval_sha256 x) (de_identity_binding device) t w2 = (Inr attempt, w3)"
      and it: "publish_intent env ?a x consumed attempt device t w3 = (Inr intent, w4)"
      and e: "e = \<lparr>ev_command = flash_command ?a (de_serial device), ev_store = store w4\<rparr>"
    unfolding wrote_def by blast
  let ?rest = "bindS (flash env ?a (de_serial device)) (\<lambda>(res, exc).
      bindS (demandS (write_completed res exc \<or> safe_reason (write_reason res exc)) ''internal unsafe reason code'') (\<lambda>_.
      bindS (read_clock env) (\<lambda>report_now.
      bindS (publish_json env ?a (x_report x) (execute_report (d_host env) ?a x
               \<lparr>w_consumed_sha256 = consumed, w_attempt_sha256 = attempt, w_intent_sha256 = intent,
                w_device = device, w_result = res, w_exception = exc\<rparr> report_now) ''execute report'') (\<lambda>digest.
      retS (if write_completed res exc then COMPLETED_ROUTE else UNKNOWN_ROUTE, digest)))))"
  have "?rest w4 = (r, w')"
    using assms(1) co fg at it unfolding execute_claim_def Let_def
    by (simp add: bindS_def[of "consume_claim env ?a (x_approval_sha256 x) (x_consumed x) t0"]
        bindS_def[of "final_gate env c x"]
        bindS_def[of "publish_candidate_attempt env ?a (x_approval_sha256 x) (de_identity_binding device) t"]
        bindS_def[of "publish_intent env ?a x consumed attempt device t"])
  moreover have "keeps (lasting q) ?rest"
    by (auto intro!: lasting.keeps_run lasting_flash assms(3) lasting_publish)
  ultimately show ?thesis using keepsD e by fastforce
qed

text \<open>A write in a run whose audit is \<open>a\<close>.\<close>

definition run_wrote :: "deploy_env \<Rightarrow> audit \<Rightarrow> deploy_state \<Rightarrow> event \<Rightarrow> deploy_state \<Rightarrow> bool" where
  "run_wrote env a w e w' \<longleftrightarrow> (\<exists>x c t0 w1 w2.
     check_claims env a x w1 = (Inr (c, t0), w2) \<and> wrote env x c t0 w2 e \<and>
     (\<forall>q. gentle env q \<longrightarrow> lasting q (store w) (store w1) \<and> lasting q (ev_store e) (store w')))"

lemma execute_trace:
  assumes run: "execute env a x w = (r, w')" and args: "a_argv_prefix a = FASTBOOT_ARGV"
  shows "(only is_read_only (trace w) (trace w') \<and> (\<exists>e. r = Inl e)) \<or>
     (\<exists>before e. only is_read_only (trace w) before \<and> trace w' = before @ [e] \<and> run_wrote env a w e w' \<and>
        is_flash (ev_command e) \<and> (\<forall>d. r = Inr (COMPLETED_ROUTE, d) \<longrightarrow> completed_by env before e))"
proof -
  from run[unfolded execute_def] show ?thesis
  proof (cases rule: bindS_cases)
    case (First e)
    then show ?thesis using tracesD[OF check_claims_quiet] only.R_refl by metis
  next
    case (Second ct w1)
    obtain c t0 where ct: "ct = (c, t0)" by force
    note cc = Second(1)[unfolded ct]
    have tr: "trace w1 = trace w" using tracesD[OF check_claims_quiet cc] by simp
    have ca: "a_argv_prefix (c_audit c) = FASTBOOT_ARGV" using check_claims_Inr(1)[OF cc] args by auto
    from Second(2) ct have ex: "execute_claim env x c t0 w1 = (r, w')" by simp
    from execute_claim_trace[OF ex ca] show ?thesis
    proof
      assume "only is_read_only (trace w1) (trace w') \<and> (\<exists>e. r = Inl e)"
      then show ?thesis using tr by simp
    next
      assume "\<exists>before e. only is_read_only (trace w1) before \<and> trace w' = before @ [e] \<and> wrote env x c t0 w1 e \<and>
        (\<forall>d. r = Inr (COMPLETED_ROUTE, d) \<longrightarrow> completed_by env before e)"
      then obtain before e where b: "only is_read_only (trace w1) before" "trace w' = before @ [e]" "wrote env x c t0 w1 e"
        "\<forall>d. r = Inr (COMPLETED_ROUTE, d) \<longrightarrow> completed_by env before e" by blast
      have "run_wrote env a w e w'"
        unfolding run_wrote_def using cc b(3) execute_claim_after[OF ex b(3)] lasting.R_refl by blast
      moreover have "is_flash (ev_command e)"
        using b(3) flash_command_is_flash[OF ca] unfolding wrote_def by auto
      ultimately show ?thesis using b tr by metis
    qed
  qed
qed

lemma only_trans: "only P s t \<Longrightarrow> only P t u \<Longrightarrow> only P s u"
  by (rule only.R_trans)

lemma deploy_once_trace:
  assumes run: "deploy_once env a n w = (r, w')" and args: "a_argv_prefix a = FASTBOOT_ARGV"
  shows "(only is_read_only (trace w) (trace w') \<and> (\<exists>e. r = Inl e)) \<or>
     (\<exists>before e. only is_read_only (trace w) before \<and> trace w' = before @ [e] \<and> run_wrote env a w e w' \<and>
        is_flash (ev_command e) \<and> (\<forall>d. r = Inr (COMPLETED_ROUTE, d) \<longrightarrow> completed_by env before e))"
proof -
  have head: "traces (only is_read_only)
      (bindS (readS (check_once env a n)) (\<lambda>_. bindS (read_clock env) (\<lambda>t. preflight env a (n_preflight n) t)))"
    by (auto intro!: only.traces_basic preflight_only args)
  have mid: "traces (only is_read_only)
      (bindS (read_clock env) (\<lambda>t. bindS (approve env a (n_preflight n) p (n_approval n) t) (\<lambda>(_, sha).
        bindS (readS (claim_consumed_path env a sha)) (\<lambda>q. retS (sha, q)))))" for p
    by (auto intro!: only.traces_basic only.traces_quiet[OF approve_quiet])
  have khead: "gentle env q \<Longrightarrow> keeps (lasting q)
      (bindS (readS (check_once env a n)) (\<lambda>_. bindS (read_clock env) (\<lambda>t. preflight env a (n_preflight n) t)))" for q
    by (auto intro!: lasting.keeps_run lasting_preflight)
  have kmid: "keeps (lasting q)
      (bindS (read_clock env) (\<lambda>t. bindS (approve env a (n_preflight n) p (n_approval n) t) (\<lambda>(_, sha).
        bindS (readS (claim_consumed_path env a sha)) (\<lambda>q. retS (sha, q)))))" for p q
    by (auto intro!: lasting.keeps_run lasting_approve)
  have eq: "deploy_once env a n w =
      bindS (bindS (readS (check_once env a n)) (\<lambda>_. bindS (read_clock env) (\<lambda>t. preflight env a (n_preflight n) t)))
        (\<lambda>(_, p). bindS (bindS (read_clock env) (\<lambda>t. bindS (approve env a (n_preflight n) p (n_approval n) t) (\<lambda>(_, sha).
            bindS (readS (claim_consumed_path env a sha)) (\<lambda>q. retS (sha, q)))))
          (\<lambda>(sha, q). execute env a \<lparr>x_preflight = n_preflight n, x_preflight_sha256 = p, x_approval = n_approval n,
             x_approval_sha256 = sha, x_consumed = q, x_intent = n_intent n, x_report = n_report n\<rparr>)) w"
    unfolding deploy_once_def by (simp add: bindS_assoc split_def bindS_retS)
  from run[unfolded eq] show ?thesis
  proof (cases rule: bindS_cases)
    case (First e)
    then show ?thesis using tracesD[OF head] by blast
  next
    case h: (Second rp w1)
    obtain p where rp: "snd rp = p" by simp
    have t1: "only is_read_only (trace w) (trace w1)" using tracesD[OF head h(1)] .
    from h(2)[unfolded split_def rp] show ?thesis
    proof (cases rule: bindS_cases)
      case (First e)
      then show ?thesis using tracesD[OF mid[unfolded split_def]] t1 only_trans by blast
    next
      case m: (Second sq w2)
      have t2: "only is_read_only (trace w) (trace w2)"
        using tracesD[OF mid[unfolded split_def] m(1)] t1 only_trans by blast
      have k: "lasting q (store w) (store w2)" if "gentle env q" for q
        using keepsD[OF khead[OF that] h(1)] keepsD[OF kmid[unfolded split_def] m(1)] lasting.R_trans by blast
      from execute_trace[OF m(2) args] show ?thesis
      proof
        assume "only is_read_only (trace w2) (trace w') \<and> (\<exists>e. r = Inl e)"
        then show ?thesis using t2 only_trans by blast
      next
        assume "\<exists>before e. only is_read_only (trace w2) before \<and> trace w' = before @ [e] \<and> run_wrote env a w2 e w' \<and>
          is_flash (ev_command e) \<and> (\<forall>d. r = Inr (COMPLETED_ROUTE, d) \<longrightarrow> completed_by env before e)"
        then obtain before e where b: "only is_read_only (trace w2) before" "trace w' = before @ [e]" "run_wrote env a w2 e w'"
          "is_flash (ev_command e)" "\<forall>d. r = Inr (COMPLETED_ROUTE, d) \<longrightarrow> completed_by env before e" by blast
        have "run_wrote env a w e w'"
          using b(3) k lasting.R_trans unfolding run_wrote_def by meson
        moreover have "only is_read_only (trace w) before" using t2 b(1) by (rule only_trans)
        ultimately show ?thesis using b by blast
      qed
    qed
  qed
qed

lemma operate_trace:
  assumes run: "operate env o1 w = (r, w')"
  shows "(only is_read_only (trace w) (trace w') \<and> (\<forall>d. r \<noteq> Inr (COMPLETED_ROUTE, d))) \<or>
     (\<exists>a w1 before e. local_audit env (o_profile o1) w = (Inr a, w1) \<and> o_mode o1 \<in> {Execute, Deploy_once} \<and>
        only is_read_only (trace w) before \<and> trace w' = before @ [e] \<and> run_wrote env a w e w' \<and>
        is_flash (ev_command e) \<and> (\<forall>d. r = Inr (COMPLETED_ROUTE, d) \<longrightarrow> completed_by env before e))"
proof -
  from run consider "\<exists>e. r = Inl e" "w' = w" | "bindS (local_audit env (o_profile o1)) (dispatch_mode env o1) w = (r, w')"
    by (auto simp: operate_def bindS_def demandS_def liftS_def readS_def split: sum.splits)
  then show ?thesis
  proof cases
    case 1
    then show ?thesis using only.R_refl by auto
  next
    case 2
    then show ?thesis
    proof (cases rule: bindS_cases)
      case (First e)
      then show ?thesis using tracesD[OF local_audit_only] by blast
    next
      case au: (Second a w1)
      note args = local_audit_facts(1)[OF au(1)]
      have t1: "only is_read_only (trace w) (trace w1)" using tracesD[OF local_audit_only au(1)] .
      have k: "lasting q (store w) (store w1)" if "gentle env q" for q
        using keepsD[OF lasting_local_audit[OF that] au(1)] .
      have wrap: ?thesis if m: "o_mode o1 \<in> {Execute, Deploy_once}"
        and d: "(only is_read_only (trace w1) (trace w') \<and> (\<exists>e. r = Inl e)) \<or>
          (\<exists>before e. only is_read_only (trace w1) before \<and> trace w' = before @ [e] \<and> run_wrote env a w1 e w' \<and>
             is_flash (ev_command e) \<and> (\<forall>d. r = Inr (COMPLETED_ROUTE, d) \<longrightarrow> completed_by env before e))"
        using d
      proof
        assume "only is_read_only (trace w1) (trace w') \<and> (\<exists>e. r = Inl e)"
        then show ?thesis using t1 only_trans by blast
      next
        assume "\<exists>before e. only is_read_only (trace w1) before \<and> trace w' = before @ [e] \<and> run_wrote env a w1 e w' \<and>
             is_flash (ev_command e) \<and> (\<forall>d. r = Inr (COMPLETED_ROUTE, d) \<longrightarrow> completed_by env before e)"
        then obtain before e where b: "only is_read_only (trace w1) before" "trace w' = before @ [e]" "run_wrote env a w1 e w'"
          "is_flash (ev_command e)" "\<forall>d. r = Inr (COMPLETED_ROUTE, d) \<longrightarrow> completed_by env before e" by blast
        have "run_wrote env a w e w'"
          using b(3) k lasting.R_trans unfolding run_wrote_def by meson
        moreover have "only is_read_only (trace w) before" using t1 b(1) by (rule only_trans)
        ultimately show ?thesis using au(1) m b by blast
      qed
      have quietly: ?thesis if "traces (only is_read_only) m" "m w1 = (r, w')" "\<forall>d. r \<noteq> Inr (COMPLETED_ROUTE, d)" for m :: "(string \<times> string) dstep"
        using tracesD[OF that(1,2)] t1 only_trans that(3) by blast
      note dis = au(2)[unfolded dispatch_mode_def]
      show ?thesis
      proof (cases "o_mode o1")
        case Local_audit
        with dis have m: "bindS (read_clock env) (local_audit_report env a (o_report o1)) w1 = (r, w')" by simp
        show ?thesis
          by (rule quietly[of "bindS (read_clock env) (local_audit_report env a (o_report o1))", OF _ m])
            (use m in \<open>auto intro!: only.traces_basic report_only simp: step_iff local_audit_report_def
            AUDIT_ROUTE_def COMPLETED_ROUTE_def\<close>)
      next
        case Preflight
        with dis have m: "bindS (read_clock env) (preflight env a (o_report o1)) w1 = (r, w')" by simp
        show ?thesis
          by (rule quietly[of "bindS (read_clock env) (preflight env a (o_report o1))", OF _ m])
            (use m args in \<open>auto intro!: only.traces_basic preflight_only simp: step_iff preflight_def
            PREFLIGHT_ROUTE_def COMPLETED_ROUTE_def\<close>)
      next
        case Approve
        with dis consider p sha where "bindS (read_clock env) (approve env a p sha (o_report o1)) w1 = (r, w')" |
            "liftS (Inl (DeployError ''approve requires exact preflight path and SHA-256'')) w1 = (r, w')"
          by (auto split: option.splits)
        then show ?thesis
        proof cases
          case 1
          show ?thesis
            by (rule quietly[of "bindS (read_clock env) (approve env a p sha (o_report o1))", OF _ 1])
              (use 1 in \<open>auto intro!: only.traces_basic only.traces_quiet[OF approve_quiet]
              simp: step_iff approve_def Let_def APPROVED_ROUTE_def COMPLETED_ROUTE_def\<close>)
        next
          case 2
          then show ?thesis by (intro quietly[OF only.traces_lift 2]) (auto simp: liftS_def)
        qed
      next
        case Execute
        with dis consider x where "execute env a x w1 = (r, w')" |
            "liftS (Inl (DeployError ''execute requires exact preflight, approval, consumed-claim, and intent inputs'')) w1 = (r, w')"
          by (auto split: option.splits)
        then show ?thesis
        proof cases
          case 1
          show ?thesis by (rule wrap[OF _ execute_trace[OF 1 args]]) (simp add: Execute)
        next
          case 2
          then show ?thesis by (intro quietly[OF only.traces_lift 2]) (auto simp: liftS_def)
        qed
      next
        case Deploy_once
        with dis consider n where "deploy_once env a n w1 = (r, w')" |
            "liftS (Inl (DeployError
             ''deploy-once requires four caller evidence paths and exact operation/hash authorization'')) w1 = (r, w')"
          by (auto split: option.splits)
        then show ?thesis
        proof cases
          case 1
          show ?thesis by (rule wrap[OF _ deploy_once_trace[OF 1 args]]) (simp add: Deploy_once)
        next
          case 2
          then show ?thesis by (intro quietly[OF only.traces_lift 2]) (auto simp: liftS_def)
        qed
      qed
    qed
  qed
qed

end
