(* ===== verification/DeployProps.thy ===== *)
theory DeployProps
  imports DeploySafety DeploySparse ImageProps
begin

text \<open>
  Properties of the WSL deployment gate: which commands a run may start, that a candidate is
  written at most once whatever runs follow one another, what stands behind a write and behind a
  completed route, publication, privacy, the bounded runner, and the two sparse readers.
\<close>

section \<open>Sequences of runs\<close>

text \<open>Runs follow one another, and other programs may change the files in between.\<close>

datatype happening = Run deploy_env operate_args | Meanwhile "store \<Rightarrow> store"

primrec happens :: "happening \<Rightarrow> deploy_state \<Rightarrow> deploy_state" where
  "happens (Run env o1) w = snd (operate env o1 w)"
| "happens (Meanwhile f) w = w\<lparr>store := f (store w)\<rparr>"

text \<open>The entry of the attempt ledger that belongs to the candidate of a run.\<close>

definition run_entry :: "deploy_env \<Rightarrow> operate_args \<Rightarrow> deploy_state \<Rightarrow> path option" where
  "run_entry env o1 w = (case fst (local_audit env (o_profile o1) w) of
       Inr a \<Rightarrow> attempt_entry env a
     | Inl _ \<Rightarrow> None)"

definition new_events :: "deploy_state \<Rightarrow> deploy_state \<Rightarrow> event list" where
  "new_events w w' = drop (length (trace w)) (trace w')"

definition is_write :: "event \<Rightarrow> bool" where
  "is_write e \<longleftrightarrow> is_flash (ev_command e)"

primrec writes_in :: "path \<Rightarrow> happening \<Rightarrow> deploy_state \<Rightarrow> nat" where
  "writes_in q (Run env o1) w =
     (if run_entry env o1 w = Some q then length (filter is_write (new_events w (happens (Run env o1) w))) else 0)"
| "writes_in q (Meanwhile f) w = 0"

primrec writes_under :: "path \<Rightarrow> happening list \<Rightarrow> deploy_state \<Rightarrow> nat" where
  "writes_under q [] w = 0"
| "writes_under q (x # xs) w = writes_in q x w + writes_under q xs (happens x w)"

text \<open>The entry is left alone, by the commands that are started and by other programs.\<close>

primrec leaves :: "path \<Rightarrow> happening \<Rightarrow> bool" where
  "leaves q (Run env o1) \<longleftrightarrow> gentle env q"
| "leaves q (Meanwhile f) \<longleftrightarrow> (\<forall>s. lasting q s (f s))"

lemma run_wrote_entry:
  assumes "run_wrote env a w e w'" "attempt_entry env a = Some q" "gentle env q"
  shows "find (store w) q = None" "find (store w') q \<noteq> None"
proof -
  from assms(1) obtain x c t0 w1 w2 where cc: "check_claims env a x w1 = (Inr (c, t0), w2)" and wr: "wrote env x c t0 w2 e"
    and l: "lasting q (store w) (store w1)" "lasting q (ev_store e) (store w')"
    using assms(3) unfolding run_wrote_def by blast
  note c = check_claims_Inr[OF cc]
  show "find (store w) q = None" using c(5) assms(2) lasting_absent[OF l(1)] by auto
  from c(1) have ent: "attempt_entry env (c_audit c) = Some q" using assms(2) by auto
  from wr obtain d t v2 attempt v3 consumed intent v4
    where at: "publish_candidate_attempt env (c_audit c) (x_approval_sha256 x) (de_identity_binding d) t v2 = (Inr attempt, v3)"
      and it: "publish_intent env (c_audit c) x consumed attempt d t v3 = (Inr intent, v4)"
      and e: "ev_store e = store v4"
    unfolding wrote_def by fastforce
  have "\<exists>v label. publish_json env (c_audit c) q v label v2 = (Inr attempt, v3)"
    using at attempt_path_Inr ent by (fastforce simp: publish_candidate_attempt_def step_iff)
  then have "find (store v3) q \<noteq> None" using publish_Inr(3) by (fastforce simp: file_at_def)
  then have "find (store v4) q \<noteq> None" using lasting_absent[OF keepsD[OF lasting_intent it]] by metis
  then show "find (store w') q \<noteq> None" using e lasting_absent[OF l(2)] by metis
qed

lemma only_new: "only P (trace w) (trace w') \<Longrightarrow> list_all (\<lambda>e. P (ev_command e)) (new_events w w')"
  by (auto simp: only_def new_events_def)

lemma only_new_snoc:
  assumes "only P (trace w) before" "trace w' = before @ [e]"
  shows "\<exists>es. new_events w w' = es @ [e] \<and> list_all (\<lambda>e. P (ev_command e)) es"
  using assms by (auto simp: only_def new_events_def)

lemma no_writes: "list_all (\<lambda>e. is_read_only (ev_command e)) es \<Longrightarrow> filter is_write es = []"
  using read_only_not_flash by (auto simp: filter_empty_conv list_all_iff is_write_def)

lemma run_writes:
  assumes "run_entry env o1 w = Some q" "gentle env q"
  shows "writes_in q (Run env o1) w = 0 \<or>
    writes_in q (Run env o1) w = 1 \<and> find (store w) q = None \<and> find (store (happens (Run env o1) w)) q \<noteq> None"
proof -
  obtain r w' where run: "operate env o1 w = (r, w')" by force
  from operate_trace[OF run] show ?thesis
  proof
    assume "only is_read_only (trace w) (trace w') \<and> (\<forall>d. r \<noteq> Inr (COMPLETED_ROUTE, d))"
    then show ?thesis using only_new no_writes run by auto
  next
    assume "\<exists>a w1 before e. local_audit env (o_profile o1) w = (Inr a, w1) \<and> o_mode o1 \<in> {Execute, Deploy_once} \<and>
        only is_read_only (trace w) before \<and> trace w' = before @ [e] \<and> run_wrote env a w e w' \<and>
        is_flash (ev_command e) \<and> (\<forall>d. r = Inr (COMPLETED_ROUTE, d) \<longrightarrow> completed_by env before e)"
    then obtain a w1 before e where a: "local_audit env (o_profile o1) w = (Inr a, w1)" and b: "only is_read_only (trace w) before"
      "trace w' = before @ [e]" and wr: "run_wrote env a w e w'" and f: "is_flash (ev_command e)" by blast
    have q: "attempt_entry env a = Some q" using assms(1) a by (simp add: run_entry_def)
    obtain es where "new_events w w' = es @ [e]" "filter is_write es = []" using only_new_snoc[OF b] no_writes by blast
    then have "length (filter is_write (new_events w w')) = 1" using f by (simp add: is_write_def)
    then show ?thesis using run_wrote_entry[OF wr q assms(2)] run assms(1) by simp
  qed
qed

lemma entry_stays: "leaves q x \<Longrightarrow> find (store w) q \<noteq> None \<Longrightarrow> find (store (happens x w)) q \<noteq> None"
proof (cases x)
  case (Run env o1)
  assume "leaves q x" "find (store w) q \<noteq> None"
  then show ?thesis
    using Run lasting_absent[OF keepsD[OF lasting_operate]] by (metis happens.simps(1) leaves.simps(1) prod.collapse)
next
  case (Meanwhile f)
  assume "leaves q x" "find (store w) q \<noteq> None"
  then show ?thesis
    using Meanwhile lasting_absent[of q "store w" "f (store w)"] by (cases "find (f (store w)) q") auto
qed

lemma writes_in_leaves:
  assumes "leaves q x"
  shows "writes_in q x w = 0 \<or> writes_in q x w = 1 \<and> find (store w) q = None \<and> find (store (happens x w)) q \<noteq> None"
proof (cases x)
  case (Run env o1)
  then show ?thesis using assms run_writes[of env o1 w q] by (cases "run_entry env o1 w = Some q") simp_all
qed simp

lemma no_more_writes: "\<forall>x\<in>set xs. leaves q x \<Longrightarrow> find (store w) q \<noteq> None \<Longrightarrow> writes_under q xs w = 0"
proof (induction xs arbitrary: w)
  case (Cons x xs)
  then have x: "leaves q x" by simp
  from writes_in_leaves[OF x, of w] Cons.prems(2) have "writes_in q x w = 0" by auto
  then show ?case using Cons entry_stays[OF x] by simp
qed simp

lemma writes_once: "\<forall>x\<in>set xs. leaves q x \<Longrightarrow> writes_under q xs w \<le> 1"
proof (induction xs arbitrary: w)
  case (Cons x xs)
  then have x: "leaves q x" by simp
  have "writes_under q xs (happens x w) = 0" if "writes_in q x w \<noteq> 0"
    using that writes_in_leaves[OF x, of w] no_more_writes Cons.prems by auto
  then show ?case using Cons writes_in_leaves[OF x, of w] by fastforce
qed simp

section \<open>The bounded runner\<close>

text \<open>When both streams end and the process is then found dead, the loop ends.\<close>

definition closes :: "channel \<Rightarrow> round \<Rightarrow> bool" where
  "closes c r \<longleftrightarrow> map_of (ready r) c = Some (Chunk [])"

lemma event_registered: "registered (on_event p e) \<subseteq> registered p"
  by (auto simp: on_event_def Let_def split: read_answer.splits)

lemma events_registered: "registered (fold (\<lambda>e q. on_event q e) es p) \<subseteq> registered p"
  by (induction es arbitrary: p) (use event_registered in \<open>force+\<close>)

lemma closed_event: "(c, Chunk []) \<in> set es \<Longrightarrow> c \<notin> registered (fold (\<lambda>e q. on_event q e) es p)"
proof (induction es arbitrary: p)
  case (Cons e es)
  show ?case
  proof (cases "e = (c, Chunk [])")
    case True
    then have "c \<notin> registered (on_event p e)" by (simp add: on_event_def)
    then show ?thesis using events_registered[of es "on_event p e"] by auto
  qed (use Cons in simp)
qed simp

lemma on_round_events:
  "\<exists>p'. on_round deadline r p = fold (\<lambda>e q. on_event q e) (events_of p' r) p' \<and> registered p' = registered p"
  by (rule exI[of _ "if deadline - r_now r \<le> 0 \<and> \<not> p_killed p then p\<lparr>p_timed_out := True, p_killed := True\<rparr> else p"])
    (simp add: on_round_def Let_def)

lemma round_registered: "registered (on_round deadline r p) \<subseteq> registered p"
  using on_round_events[of deadline r p] events_registered by metis

lemma closed_round: "closes c r \<Longrightarrow> c \<notin> registered (on_round deadline r p)"
proof -
  assume c: "closes c r"
  obtain p' where eq: "on_round deadline r p = fold (\<lambda>e q. on_event q e) (events_of p' r) p'"
    using on_round_events by blast
  show ?thesis
  proof (cases "c \<in> registered p'")
    case True
    then have "(c, Chunk []) \<in> set (events_of p' r)"
      using c by (cases c) (auto simp: events_of_def closes_def)
    then show ?thesis unfolding eq by (rule closed_event)
  next
    case False
    then show ?thesis unfolding eq using events_registered by blast
  qed
qed

lemma loop_closed:
  "registered p = {} \<Longrightarrow> \<exists>r\<in>set rs. polled_at_start r \<Longrightarrow> pump_loop deadline rs p \<noteq> None"
proof (induction rs arbitrary: p)
  case (Cons r rs)
  show ?case
  proof (cases "polled_at_start r")
    case False
    then have "registered (on_round deadline r p) = {}" using Cons.prems(1) round_registered by fastforce
    then show ?thesis using Cons False by (auto simp: Let_def)
  qed (use Cons.prems in simp)
qed simp

lemma loop_returns:
  assumes "\<forall>c\<in>registered p. \<exists>r\<in>set rs1. closes c r" "\<exists>r\<in>set rs2. polled_at_start r"
  shows "pump_loop deadline (rs1 @ rs2) p \<noteq> None"
  using assms(1)
proof (induction rs1 arbitrary: p)
  case Nil
  then show ?case using loop_closed[OF _ assms(2)] by fastforce
next
  case (Cons r rs1)
  have "\<forall>c\<in>registered (on_round deadline r p). \<exists>r\<in>set rs1. closes c r"
    using Cons.prems closed_round round_registered by (metis set_ConsD subsetD)
  then show ?case using Cons.IH by (auto simp: Let_def)
qed

section \<open>Properties\<close>

text \<open>C29: the commands that any run of the gate starts are fixed: the version and package queries of
  the tool, the list of devices and the ten variables, all without a descriptor and under the query
  deadline; a write is the last command of a run, at most one, and only of the modes execute and
  deploy-once.\<close>

theorem deployment_commands:
  "\<exists>es. trace (snd (operate env o1 w)) = trace w @ es \<and>
     (list_all (\<lambda>e. is_read_only (ev_command e)) es \<or>
      o_mode o1 \<in> {Execute, Deploy_once} \<and>
      (\<exists>before e. es = before @ [e] \<and> list_all (\<lambda>e. is_read_only (ev_command e)) before \<and> is_flash (ev_command e)))"
proof -
  obtain r w' where run: "operate env o1 w = (r, w')" by force
  from operate_trace[OF run] show ?thesis
  proof
    assume "only is_read_only (trace w) (trace w') \<and> (\<forall>d. r \<noteq> Inr (COMPLETED_ROUTE, d))"
    then show ?thesis using run by (auto simp: only_def)
  next
    assume "\<exists>a w1 before e. local_audit env (o_profile o1) w = (Inr a, w1) \<and> o_mode o1 \<in> {Execute, Deploy_once} \<and>
        only is_read_only (trace w) before \<and> trace w' = before @ [e] \<and> run_wrote env a w e w' \<and>
        is_flash (ev_command e) \<and> (\<forall>d. r = Inr (COMPLETED_ROUTE, d) \<longrightarrow> completed_by env before e)"
    then obtain before e where m: "o_mode o1 \<in> {Execute, Deploy_once}" and o: "only is_read_only (trace w) before"
      and b: "trace w' = before @ [e]" "is_flash (ev_command e)" by blast
    from o obtain fs where "before = trace w @ fs" "list_all (\<lambda>e. is_read_only (ev_command e)) fs"
      unfolding only_def by blast
    then show ?thesis using run m b by (intro exI[of _ "fs @ [e]"]) auto
  qed
qed

text \<open>C28: however many runs follow one another, with any faults and kills, any answers of the device
  and any clocks, and whatever else happens to the files in between, a candidate is written at most
  once, as long as nobody removes its entry of the attempt ledger.\<close>

theorem at_most_one_write: "\<forall>x\<in>set xs. leaves q x \<Longrightarrow> writes_under q xs w \<le> 1"
  by (rule writes_once)

text \<open>C30: a publication that returns has created its file with exactly the canonical bytes and
  returns their digest; one that fails or is killed at any system call has created no file under the
  published name, or the complete one.\<close>

theorem publication_all_or_nothing:
  "document_path p \<Longrightarrow> triple (\<lambda>s. find s p = None) (publish_json env a p v label)
     (\<lambda>d s. d = sha256 (d_host env) (canonical_line (d_host env) v) \<and> file_at s p (canonical_line (d_host env) v))
     (\<lambda>s. find s p = None \<or> file_at s p (canonical_line (d_host env) v))"
  by (rule publish_all_or_nothing)


text \<open>C31: the bounded runner returns: once both streams have come to their end and the process is
  later found dead, the loop ends with a result, whatever was read before, whether or not the
  deadline passed or the bound was hit.\<close>

theorem bounded_process_returns:
  assumes "safe_invocation c" "\<forall>ch\<in>{Stdout, Stderr}. \<exists>r\<in>set rs1. closes ch r" "\<exists>r\<in>set rs2. polled_at_start r"
  shows "\<exists>r. run_bounded c (Running start (rs1 @ rs2) rc) = Inr r \<and> returncode r = Some rc"
proof -
  have "\<forall>ch\<in>registered pump0. \<exists>r\<in>set rs1. closes ch r" using assms(2) by (simp add: pump0_def)
  from loop_returns[OF this assms(3)] obtain p where "pump_loop (start + timeout_seconds c) (rs1 @ rs2) pump0 = Some p"
    by blast
  then show ?thesis using assms(1) by (simp add: run_bounded_def demand_def)
qed

text \<open>C33: the two readers of sparse images agree where it matters: an image that the assembler's
  parser accepts passes the deployment gate's own reader, with the same size and digest of its
  expansion.\<close>

theorem assembled_image_deploys:
  assumes "parse_sparse_reader h img size1 digest = Inr ev"
  shows "inspect_sparse h img (int size1) digest = Inr ()"
  using assms by (rule inspect_of_parse)

section \<open>Witnesses\<close>

theorem assembled_image_deploys_witness:
  "inspect_sparse image_host (encode_sparse 0 [Fill ''abcd'' 2, Crc, Dont_care 1])
     (int (length (expand_all [Fill ''abcd'' 2, Crc, Dont_care 1])))
     (sha256 image_host (expand_all [Fill ''abcd'' 2, Crc, Dont_care 1])) = Inr ()"
proof -
  have "sparse_ok 0 [Fill ''abcd'' 2, Crc, Dont_care 1]" by (simp add: sparse_ok_def)
  from sparse_complete[OF this refl refl] show ?thesis by (rule assembled_image_deploys)
qed

definition demo_query :: process_command where
  "demo_query = query (FASTBOOT_ARGV @ [''devices'']) 20"

definition demo_rounds :: "round list" where
  "demo_rounds =
     [\<lparr>r_now = 1, ready = [(Stdout, Chunk ''ok''), (Stderr, WouldBlock)], polled_at_start = False, polled_at_end = False\<rparr>,
      \<lparr>r_now = 2, ready = [(Stdout, Chunk []), (Stderr, Chunk ''e'')], polled_at_start = False, polled_at_end = False\<rparr>,
      \<lparr>r_now = 3, ready = [(Stderr, Chunk [])], polled_at_start = False, polled_at_end = False\<rparr>]"

definition demo_end :: round where
  "demo_end = \<lparr>r_now = 4, ready = [], polled_at_start = True, polled_at_end = True\<rparr>"

lemma demo_query_safe: "safe_invocation demo_query" by code_simp

theorem bounded_process_returns_witness:
  "\<exists>r. run_bounded demo_query (Running 0 (demo_rounds @ [demo_end]) 0) = Inr r \<and> returncode r = Some 0"
  by (rule bounded_process_returns[OF demo_query_safe]) (simp_all add: demo_rounds_def demo_end_def closes_def)



text \<open>A gate on a host whose commands answer nothing; every run stops at the audit.\<close>

definition idle_env :: deploy_env where
  "idle_env = \<lparr>d_host = image_host, d_contract = PRODUCTION, d_repo_root = [''repo''], d_fd = (\<lambda>_. 3),
     d_temp = (\<lambda>_ _. ''0''), d_runner = (\<lambda>_ _ s. (Inr (clean_result (Some 0) [] []), s)), d_clock = int\<rparr>"

definition idle_args :: operate_args where
  "idle_args = \<lparr>o_mode = Deploy_once, o_profile = [''repo'', ''private'', ''profile''],
     o_report = [''repo'', ''private'', ''report''], o_preflight = None, o_preflight_sha256 = None, o_approval = None,
     o_approval_sha256 = None, o_consumed = None, o_intent = None, o_operation = None, o_sparse_sha256 = None\<rparr>"

theorem publication_all_or_nothing_witness:
  "triple (\<lambda>s. find s [''repo'', ''private'', ''report''] = None)
     (publish_json idle_env \<lparr>a_profile = [], a_profile_sha256 = [], a_policy = [], a_mapping = [], a_completed = [],
        a_runtime = [], a_held = [], a_argv_prefix = []\<rparr> [''repo'', ''private'', ''report''] [] ''report'')
     (\<lambda>d s. d = sha256 (d_host idle_env) (canonical_line (d_host idle_env) []) \<and>
        file_at s [''repo'', ''private'', ''report''] (canonical_line (d_host idle_env) []))
     (\<lambda>s. find s [''repo'', ''private'', ''report''] = None \<or>
        file_at s [''repo'', ''private'', ''report''] (canonical_line (d_host idle_env) []))"
  by (rule publication_all_or_nothing) (simp add: document_path_def)

theorem at_most_one_write_witness:
  "writes_under [''repo'', ''private'', ''attempts'', ''a'']
     [Run idle_env idle_args, Meanwhile (\<lambda>s. s), Run idle_env idle_args]
     \<lparr>store = [], stage_faults = [], stage_clock = 0, trace = [], ticks = 0\<rparr> \<le> 1"
  by (rule at_most_one_write) (simp add: gentle_def idle_env_def lasting_def)

end
