(* ===== verification/Spec2Isabelle.thy ===== *)
theory Spec2Isabelle
  imports Governance Lifecycle DataProps AttestationProps AssemblerProps DeployProps
begin

text \<open>
  A verification library for the tools that bring up postmarketOS on the Redmi K30 Pro (lmi).

  \<^bold>\<open>The program.\<close>  The repository holds Python tools that build images, decide which physical
  action may be run on the one device, and read back what happened.  Modelled here are

  \<^item> \<open>src/scripts/bringup_loop.py\<close>, the governance engine: one active experiment record, a
    policy of authorized profiles, one-shot claims with a replay guard per experiment, an
    append-only ledger, and an archive of completed records, all of them files of the
    repository that are reached without following symbolic links;
  \<^item> \<open>src/scripts/lmi_p2_d114/fastboot_transcript.py\<close>, which classifies the output of one
    \<open>fastboot flash\<close>;
  \<^item> \<open>src/scripts/lmi_p2_d114/assemble_userdata_image.py\<close>, which puts the P2 root file system
    into a pinned userdata image and verifies the result: the partition table, the copy, the
    byte comparisons, the sparse image parser, the lock files and the injection attestation;
  \<^item> \<open>src/scripts/lmi_p2_d114/deploy_userdata_wsl.py\<close>, the gate that writes such an image to the
    device: the audit of every input, the device queries, the preflight, the approval of two
    minutes, the two ledgers and the one write.

  They interact through files: the engine claims an action whose artifact is pinned by digest
  and size, the assembler makes such an artifact and writes the attestation that pins it, the
  gate audits both and writes the artifact, and the classifier says what the write did.

  \<^bold>\<open>Shared theories.\<close>  \<open>Prelude\<close>: exceptions as values of a sum type, fallible loops, byte strings
  and integers in buffers.  \<open>PyText\<close>: Python's text functions on UTF-8.  \<open>Regex\<close>: languages of
  the regular expressions.  \<open>Json\<close>, \<open>JsonText\<close>: JSON values with Python's equality, the strict
  reader with the duplicate-key hook, the canonical and the indented printer; \<open>JsonSpec\<close> proves
  that reading inverts printing.

  \<^bold>\<open>The engine.\<close>  \<open>RepoFs\<close>: a tree of nodes with their \<open>stat\<close> data; the \<open>open_repo_*\<close>, reading,
  atomic replacement and locking functions, with a fault possible at every system call (the
  list \<open>faults\<close> of the world; \<open>ProcessKilled\<close> is a kill).  \<open>Records\<close>: the tables and the record
  validator.  \<open>Profiles\<close>: pinned files, profiles, the policy revision, the Git snapshot.
  \<open>Engine\<close>: ledger, guards, and one definition per command, composed by \<open>dispatch\<close> as \<open>main\<close> does.
  \<open>EngineFrames\<close> and \<open>EngineSpec\<close> state what a step may change and lift it to every command by
  the locale of tracked relations, with an interpretation per relation (guards stay, the ledger
  grows, archives stay, the footprint); \<open>ClaimSpec\<close>, \<open>LedgerSpec\<close>, \<open>StoreSpec\<close> and \<open>EffectSpec\<close>
  show what the single commands do when they return.  \<open>Demo\<close> is a repository in which a claim
  succeeds; \<open>Governance\<close> holds the engine's properties over runs and claims, and \<open>Lifecycle\<close> those of
  \<open>new\<close>, \<open>observe\<close>, \<open>result\<close> and \<open>archive\<close>.

  \<^bold>\<open>The classifier.\<close>  \<open>Transcript\<close>: the recognisers, proved equal to the languages of the
  source's patterns, the line scanner and the verdict.  \<open>TranscriptSpec\<close>: which transcripts are
  COMPLETED and which REFUSED, without the scanner's state.  \<open>DataProps\<close> holds these properties
  and those of documents, digests, paths and revisions.

  \<^bold>\<open>The assembler.\<close>  \<open>DiskCodec\<close>: CRC-32 on 32-bit words, GUIDs, UTF-16, and the locale of field
  codecs, interpreted for little-endian integers and for mixed-endian GUIDs.  \<open>Gpt\<close>: the policy,
  the MBR, header, table and superblock checks.  \<open>GptSpec\<close>: the canonical partition table, and
  that the check accepts exactly it.  \<open>Compose\<close>: chunked comparison and copy.  \<open>Composition\<close>: the
  verifier with its evidence.  \<open>Sparse\<close> and \<open>SparseSpec\<close>: the sparse parser and the language of
  chunk lists it accepts.  \<open>Injection\<close>: the lock files and the attestation.  \<open>ImageProps\<close> and
  \<open>AttestationProps\<close> hold the properties, on a disk of thirteen sectors.  \<open>StageFs\<close>: an association
  list of files, steps that can fail or be killed, and the held files and directories; \<open>StageSpec\<close>:
  the locale of relations on stores that every step keeps, and triples with a post-condition for
  results and one for errors.  \<open>Assembler\<close>: the whole run of \<open>assemble_userdata_image\<close>, from the checks
  of the caller to the no-replace rename and the cleanup.  \<open>AssemblerSpec\<close> proves that it publishes
  all or nothing; \<open>AssemblerDemo\<close> is a run that publishes, step by step; \<open>AssemblerProps\<close> the property.

  \<^bold>\<open>The deployment gate.\<close>  \<open>DeployBase\<close>: the contract, the state of a run (the files of \<open>StageFs\<close>, the
  commands started so far with the files at that moment, the readings of the clock), the checks on
  values and paths, the held files.  \<open>RunBounded\<close>: the default process runner on the answers of the
  system.  \<open>DeployLocks\<close>, \<open>DeploySparse\<close>, \<open>DeployAudit\<close>: the documents, the gate's sparse reader, the
  audit.  \<open>DeployDevice\<close>: the queries and the device gate.  \<open>Deploy\<close>: publication and the operations.
  \<open>DeployStore\<close> shows that every file that is there stays and that a publication is all or nothing;
  \<open>DeployTrace\<close> the shape of the trace of a run, by the locale of relations on traces; \<open>DeploySafety\<close>
  what stands behind a write; \<open>DeployProps\<close> holds the properties.

  \<^bold>\<open>Parameters.\<close>  The record \<open>host\<close> holds what the code takes from the platform: SHA-256 (any
  function; a property that needs it says that two given texts do not collide), the text of
  floats, the Unicode category of non-ASCII characters, the process identity.  The clock, the
  name of a temporary file, the output of Git, the typed confirmation and the number of bytes
  each \<open>write\<close> accepts are arguments.  The tools \<open>img2simg\<close> and \<open>simg2img\<close> are a function of the command
  and the files; \<open>tools_honest\<close> says what is relied on of them and of the kernel.  The gate's process
  runner, clock, descriptor numbers and temporary names are the fields of \<open>deploy_env\<close>: a command may
  answer anything, raise, and change any file; \<open>gentle\<close> says that it leaves a file alone.

  \<^bold>\<open>Loops.\<close>  Loops over data are structural or have a measure (the bytes that remain).  The JSON
  reader has fuel, the length of the text plus one, which is enough because every call consumes
  a character (\<open>JsonSpec.loads_text\<close>).  The loop that feeds a repeated pattern could run for ever
  on a pattern longer than a chunk; it is a partial function, and \<open>Sparse.update_repeated_eq\<close>
  shows that it returns for the patterns of four bytes it is called with.

  \<^bold>\<open>Simplifications.\<close>  Messages are cut after their fixed opening.  A \<open>StableFile\<close> that is held and
  rechecked is its bytes.  In a run of the assembler no other process changes the files between its
  calls (a tool may, while it runs), paths are looked up as they are written, and the writes of the
  copy are one step on the staging file.  Faults are injected into system calls that change the tree, not into
  reads.  Permission checks of the kernel, the umask, the recursion limit of the JSON reader and
  digits outside ASCII in \<open>\d\<close> and in \<open>int\<close> are not modelled.  Printing is not modelled.  The paths
  given to the deployment gate are the parts of \<open>path.absolute()\<close>; descriptors are not closed; no other
  process runs between its calls, except the commands that it starts.

  \<^bold>\<open>Not modelled.\<close>  The image builders
  (\<open>lmi_p1\<close>), the other deployers, the boot recovery tools, the root launcher and the generators, which
  are other components of the repository; the tests, shell scripts, C and kernel configuration.
\<close>

end
